(* ===== verification/Gc_Prelude.thy ===== *)
theory Gc_Prelude
  imports Main "HOL-Library.Word" "HOL-Library.Signed_Division"
begin

text \<open>
  Shared base of the development: the named theorem collections the component theories
  fill, and the facts on lists and maps that more than one component needs.

  The C++ idiom \<open>std::find\<close> followed by \<open>erase\<close> removes the first occurrence of a value,
  which is \<^const>\<open>remove1\<close>; \<open>std::vector::push_back\<close> is appending a singleton; a
  \<open>std::map\<close> iterated by the code is a list of pairs sorted by key, and one that is only
  looked up is a partial function.
\<close>

named_theorems gc_unfold \<open>definitions unfolded when an operation is executed symbolically\<close>
named_theorems gc_frame \<open>fields an operation leaves alone\<close>

section \<open>Lists\<close>

text \<open>Writing back an element does not change what lies elsewhere.\<close>

lemma nth_list_update_other [simp]: "i \<noteq> j \<Longrightarrow> xs[i := x] ! j = xs ! j"
  by simp

lemma take_list_update_beyond [simp]: "n \<le> i \<Longrightarrow> take n (xs[i := x]) = take n xs"
  by simp

lemma list_all_take_update:
  "list_all P (take i xs) \<Longrightarrow> i < length xs \<Longrightarrow> P x \<Longrightarrow> list_all P (take (Suc i) (xs[i := x]))"
  by (simp add: take_Suc_conv_app_nth)

lemma list_all_update: "list_all P xs \<Longrightarrow> P x \<Longrightarrow> list_all P (xs[i := x])"
  by (auto simp: list_all_iff dest!: set_update_subset_insert [THEN subsetD])

lemma list_all_take_mono: "list_all P (take n xs) \<Longrightarrow> m \<le> n \<Longrightarrow> list_all P (take m xs)"
  using set_take_subset_set_take [of m n xs] by (auto simp: list_all_iff)

lemma drop_Suc_update [simp]: "drop (Suc i) (xs[i := x]) = drop (Suc i) xs"
  by simp

lemma distinct_remove1_set: "distinct xs \<Longrightarrow> set (remove1 x xs) = set xs - {x}"
  by simp

lemma foldl_frame: "(\<And>s x. g (f s x) = g s) \<Longrightarrow> g (foldl f s xs) = g s"
  by (induction xs arbitrary: s) auto

lemma remove1_snoc_other: "x \<noteq> y \<Longrightarrow> remove1 x (xs @ [y]) = remove1 x xs @ [y]"
  by (induction xs) auto

lemma remove1_snoc_last: "y \<notin> set xs \<Longrightarrow> remove1 y (xs @ [y]) = xs"
  by (induction xs) auto

section \<open>Association by key in a list\<close>

text \<open>
  A loop that scans a vector for the first entry with a given key, overwrites it when it is
  found and appends a new entry otherwise. Several components keep their tables this way.
\<close>

fun upsert :: "('a \<Rightarrow> 'k) \<Rightarrow> 'a \<Rightarrow> 'a list \<Rightarrow> 'a list" where
  "upsert key x [] = [x]"
| "upsert key x (y # ys) = (if key y = key x then x # ys else y # upsert key x ys)"

fun insert_missing :: "('a \<Rightarrow> 'k) \<Rightarrow> 'a \<Rightarrow> 'a list \<Rightarrow> 'a list" where
  "insert_missing key x [] = [x]"
| "insert_missing key x (y # ys) = (if key y = key x then y # ys else y # insert_missing key x ys)"

fun find_key :: "('a \<Rightarrow> 'k) \<Rightarrow> 'k \<Rightarrow> 'a list \<Rightarrow> 'a option" where
  "find_key key k [] = None"
| "find_key key k (y # ys) = (if key y = k then Some y else find_key key k ys)"

lemma find_key_upsert [simp]:
  "find_key key k (upsert key x xs) = (if key x = k then Some x else find_key key k xs)"
  by (induction xs) auto

lemma find_key_insert_missing [simp]:
  "find_key key k (insert_missing key x xs) =
    (if key x = k then (case find_key key k xs of None \<Rightarrow> Some x | Some y \<Rightarrow> Some y)
     else find_key key k xs)"
  by (induction xs) auto

lemma keys_upsert: "map key (upsert key x xs) =
    (if key x \<in> set (map key xs) then map key xs else map key xs @ [key x])"
  by (induction xs) auto

lemma keys_insert_missing: "map key (insert_missing key x xs) =
    (if key x \<in> set (map key xs) then map key xs else map key xs @ [key x])"
  by (induction xs) auto

lemma distinct_keys_upsert [intro]:
  "distinct (map key xs) \<Longrightarrow> distinct (map key (upsert key x xs))"
  by (simp add: keys_upsert)

lemma distinct_keys_insert_missing [intro]:
  "distinct (map key xs) \<Longrightarrow> distinct (map key (insert_missing key x xs))"
  by (simp add: keys_insert_missing)

lemma find_key_None_iff: "find_key key k xs = None \<longleftrightarrow> k \<notin> set (map key xs)"
  by (induction xs) auto

lemma find_key_SomeD: "find_key key k xs = Some y \<Longrightarrow> y \<in> set xs \<and> key y = k"
  by (induction xs) (auto split: if_splits)

lemma insert_missing_present [simp]: "key x \<in> set (map key xs) \<Longrightarrow> insert_missing key x xs = xs"
  by (induction xs) auto

lemma insert_missing_absent [simp]:
  "key x \<notin> set (map key xs) \<Longrightarrow> insert_missing key x xs = xs @ [x]"
  by (induction xs) auto

lemma map_filter_append [simp]: "List.map_filter f (xs @ ys) = List.map_filter f xs @ List.map_filter f ys"
  by (simp add: List.map_filter_def)

end
