(* ===== verification/Gc_Types.thy ===== *)
theory Gc_Types
  imports Gc_Prelude
begin

text \<open>
  The types every component shares: the enumerations and structures of the audio manager's
  interface (\<open>PluginCommandInterfaceCAPI/fidl/AudioManagerTypes.fidl\<close>), those of the generic
  controller (\<open>include/CAmTypes.h\<close>), and the trigger structures of \<open>include/CAmTriggerQueue.h\<close>.
  Integers that the code computes with keep their width; names are strings.
\<close>

section \<open>Types of the audio manager\<close>

datatype am_Error_e = E_OK | E_UNKNOWN | E_OUT_OF_RANGE | E_NOT_USED | E_DATABASE_ERROR
  | E_ALREADY_EXISTS | E_NO_CHANGE | E_NOT_POSSIBLE | E_NON_EXISTENT | E_ABORTED | E_WRONG_FORMAT

text \<open>The code passes errors through \<open>int\<close>: zero is success, negative is pending.\<close>

primrec error_code :: "am_Error_e \<Rightarrow> int" where
  "error_code E_OK = 0"
| "error_code E_UNKNOWN = 1"
| "error_code E_OUT_OF_RANGE = 2"
| "error_code E_NOT_USED = 3"
| "error_code E_DATABASE_ERROR = 4"
| "error_code E_ALREADY_EXISTS = 5"
| "error_code E_NO_CHANGE = 6"
| "error_code E_NOT_POSSIBLE = 7"
| "error_code E_NON_EXISTENT = 8"
| "error_code E_ABORTED = 9"
| "error_code E_WRONG_FORMAT = 10"

datatype am_ConnectionState_e = CS_UNKNOWN | CS_CONNECTING | CS_CONNECTED | CS_DISCONNECTING
  | CS_DISCONNECTED | CS_SUSPENDED

datatype am_MuteState_e = MS_UNKNOWN | MS_MUTED | MS_UNMUTED

datatype am_SourceState_e = SS_UNKNNOWN | SS_ON | SS_OFF | SS_PAUSED

datatype am_Availability_e = A_UNKNOWN | A_AVAILABLE | A_UNAVAILABLE

datatype am_InterruptState_e = IS_UNKNOWN | IS_OFF | IS_INTERRUPTED

type_synonym am_volume_t = "16 word"      \<comment> \<open>signed, in 0.1 dB\<close>
type_synonym am_mainVolume_t = "16 word"  \<comment> \<open>signed, user scale\<close>
type_synonym am_ID_t = "16 word"
type_synonym am_propertyType_t = "16 word"
type_synonym am_propertyValue_t = "16 word"

record am_Availability_s =
  availability :: am_Availability_e
  availabilityReason :: "16 word"

record am_Property_s =
  pr_type :: am_propertyType_t
  pr_value :: am_propertyValue_t

text \<open>\<open>am_MainSoundProperty_s\<close>, \<open>am_SoundProperty_s\<close> and \<open>am_SystemProperty_s\<close> share this shape.\<close>

type_synonym am_MainSoundProperty_s = am_Property_s
type_synonym am_SoundProperty_s = am_Property_s
type_synonym am_SystemProperty_s = am_Property_s

record am_NotificationConfiguration_s =
  nc_type :: "16 word"
  nc_status :: "16 word"
  nc_parameter :: "16 word"

record am_NotificationPayload_s =
  np_type :: "16 word"
  np_value :: "16 word"

section \<open>Types of the generic controller\<close>

datatype gc_LimitState_e = LS_UNKNWON | LS_LIMITED | LS_UNLIMITED | LS_MAX

datatype gc_LimitType_e = LT_UNKNOWN | LT_RELATIVE | LT_ABSOLUTE | LT_MAX

record gc_LimitVolume_s =
  limitType :: gc_LimitType_e
  limitVolume :: am_volume_t

definition AM_VOLUME_NO_LIMIT :: am_volume_t where
  "AM_VOLUME_NO_LIMIT = 0"

text \<open>The interface description documents -3000 as the smallest volume, named \<open>AM_MUTE\<close>.\<close>

definition AM_MUTE :: am_volume_t where
  "AM_MUTE = - 3000"

definition INFINITE_TIMEOUT :: "32 word" where
  "INFINITE_TIMEOUT = 0xFFFFFFFF"

definition DEFAULT_UNDO_TIMEOUT :: "32 word" where
  "DEFAULT_UNDO_TIMEOUT = 10000"

text \<open>What a method returns that waits for an acknowledgement.\<close>

definition E_WAIT_FOR_CHILD_COMPLETION :: int where
  "E_WAIT_FOR_CHILD_COMPLETION = - 1"

datatype gc_Order_e = O_HIGH_PRIORITY | O_LOW_PRIORITY | O_NEWEST | O_OLDEST

datatype gc_Element_e = ET_UNKNOWN | ET_SOURCE | ET_SINK | ET_ROUTE | ET_DOMAIN | ET_CLASS
  | ET_CONNECTION | ET_GATEWAY | ET_SYSTEM | ET_MAX

datatype gc_SetSourceStateDirection_e = SD_MAINSOURCE_TO_MAINSINK | SD_MAINSINK_TO_MAINSOURCE

datatype gc_Trigger_e = TRIGGER_UNKNOWN
  | USER_CONNECTION_REQUEST | USER_DISCONNECTION_REQUEST | USER_SET_SINK_MUTE_STATE
  | USER_SET_VOLUME | USER_SET_SINK_MAIN_SOUND_PROPERTY | USER_SET_SINK_MAIN_SOUND_PROPERTIES
  | USER_SET_SOURCE_MAIN_SOUND_PROPERTY | USER_SET_SOURCE_MAIN_SOUND_PROPERTIES
  | USER_SET_SYSTEM_PROPERTY | USER_SET_SYSTEM_PROPERTIES
  | USER_SET_SINK_MAIN_NOTIFICATION_CONFIGURATION
  | USER_SET_SOURCE_MAIN_NOTIFICATION_CONFIGURATION
  | SYSTEM_SOURCE_AVAILABILITY_CHANGED | SYSTEM_SINK_AVAILABILITY_CHANGED
  | SYSTEM_INTERRUPT_STATE_CHANGED | SYSTEM_SINK_MUTE_STATE_CHANGED
  | SYSTEM_SINK_MAIN_SOUND_PROPERTY_CHANGED | SYSTEM_SOURCE_MAIN_SOUND_PROPERTY_CHANGED
  | SYSTEM_VOLUME_CHANGED | SYSTEM_SINK_NOTIFICATION_DATA_CHANGED
  | SYSTEM_SOURCE_NOTIFICATION_DATA_CHANGED
  | SYSTEM_REGISTER_DOMAIN | SYSTEM_REGISTER_SOURCE | SYSTEM_REGISTER_SINK
  | SYSTEM_REGISTER_GATEWAY | SYSTEM_REGISTER_EARLY_CONNECTION
  | SYSTEM_DEREGISTER_DOMAIN | SYSTEM_DEREGISTER_SOURCE | SYSTEM_DEREGISTER_SINK
  | SYSTEM_DEREGISTER_GATEWAY
  | SYSTEM_DOMAIN_REGISTRATION_COMPLETE | SYSTEM_CONNECTION_STATE_CHANGE
  | SYSTEM_STORED_SINK_VOLUME | SYSTEM_ALL_DOMAIN_REGISTRATION_COMPLETE
  | USER_ALL_TRIGGER

section \<open>Trigger data\<close>

text \<open>One constructor per structure derived from \<open>gc_TriggerElement_s\<close>.\<close>

datatype gc_TriggerElement_s =
    UnRegisterElementTrigger string am_Error_e
  | DomainRegisterationCompleteTrigger string
  | AllDomainRegisterationCompleteTrigger am_Error_e
  | ConnectTrigger (ct_source: string) (ct_sink: string) (ct_class: string)
  | DisconnectTrigger string string string
  | SinkVolumeChangeTrigger string am_mainVolume_t bool
  | SinkMuteTrigger string am_MuteState_e
  | SinkSoundPropertyTrigger string am_MainSoundProperty_s
  | SinkSoundPropertiesTrigger string "am_MainSoundProperty_s list"
  | SourceSoundPropertyTrigger string am_MainSoundProperty_s
  | SourceSoundPropertiesTrigger string "am_MainSoundProperty_s list"
  | RegisterElementTrigger string am_Error_e
  | AvailabilityChangeTrigger string am_Availability_s
  | SourceInterruptChangeTrigger string am_InterruptState_e
  | SystemPropertyTrigger am_SystemProperty_s
  | SystemPropertiesTrigger "am_SystemProperty_s list"
  | ConnectionStateChangeTrigger string am_ConnectionState_e am_Error_e
  | NotificationConfigurationTrigger string am_NotificationConfiguration_s
  | NotificationDataTrigger string am_NotificationPayload_s

end
