(* ===== verification/Trigger_Queue.thy ===== *)
theory Trigger_Queue
  imports Gc_Types
begin

text \<open>
  \<open>CAmTriggerQueue\<close>: the two double-ended queues every event of the controller passes
  through. Triggers queued with priority are handed out before all normal ones; within each
  queue the order is first in, first out. The trigger data is a pointer in the code, hence an
  option here.
\<close>

section \<open>The queue and its operations\<close>

type_synonym trigger_pair = "gc_Trigger_e \<times> gc_TriggerElement_s option"

record trigger_queue =
  mlistTrigger :: "trigger_pair list"
  mlistPriority :: "trigger_pair list"

definition tq_empty :: trigger_queue where
  "tq_empty = \<lparr>mlistTrigger = [], mlistPriority = []\<rparr>"

definition tq_queue :: "gc_Trigger_e \<Rightarrow> gc_TriggerElement_s option \<Rightarrow> trigger_queue
    \<Rightarrow> am_Error_e \<times> trigger_queue" where
  "tq_queue triggerType triggerData q =
     (E_OK, q\<lparr>mlistTrigger := mlistTrigger q @ [(triggerType, triggerData)]\<rparr>)"

definition tq_queueWithPriority :: "gc_Trigger_e \<Rightarrow> gc_TriggerElement_s option \<Rightarrow> trigger_queue
    \<Rightarrow> am_Error_e \<times> trigger_queue" where
  "tq_queueWithPriority triggerType triggerData q =
     (E_OK, q\<lparr>mlistPriority := mlistPriority q @ [(triggerType, triggerData)]\<rparr>)"

text \<open>
  \<open>dequeue\<close> returns the data pointer and writes the trigger type to its reference parameter,
  which keeps the caller's value when both queues are empty.
\<close>

definition tq_dequeue :: "gc_Trigger_e \<Rightarrow> trigger_queue
    \<Rightarrow> gc_TriggerElement_s option \<times> gc_Trigger_e \<times> trigger_queue" where
  "tq_dequeue triggerType q =
     (case mlistPriority q of
        (t, d) # rest \<Rightarrow> (d, t, q\<lparr>mlistPriority := rest\<rparr>)
      | [] \<Rightarrow> (case mlistTrigger q of
          (t, d) # rest \<Rightarrow> (d, t, q\<lparr>mlistTrigger := rest\<rparr>)
        | [] \<Rightarrow> (None, triggerType, q)))"

definition tq_getSnapShot :: "trigger_queue \<Rightarrow> trigger_pair list" where
  "tq_getSnapShot q = mlistPriority q @ mlistTrigger q"

lemmas tq_defs [gc_unfold] =
  tq_empty_def tq_queue_def tq_queueWithPriority_def tq_dequeue_def tq_getSnapShot_def

section \<open>The contract of a two-level queue\<close>

text \<open>
  What the main loop relies on: entries enter at the end of their level, and the entry taken
  out is the head of the snapshot.
\<close>

locale two_level_queue =
  fixes enq :: "'x \<Rightarrow> 'q \<Rightarrow> 'q"
    and enq_prio :: "'x \<Rightarrow> 'q \<Rightarrow> 'q"
    and deq :: "'q \<Rightarrow> ('x \<times> 'q) option"
    and normal :: "'q \<Rightarrow> 'x list"
    and prio :: "'q \<Rightarrow> 'x list"
  assumes normal_enq: "normal (enq x q) = normal q @ [x]"
    and prio_enq: "prio (enq x q) = prio q"
    and normal_enq_prio: "normal (enq_prio x q) = normal q"
    and prio_enq_prio: "prio (enq_prio x q) = prio q @ [x]"
    and deq_none: "deq q = None \<longleftrightarrow> prio q @ normal q = []"
    and deq_some: "deq q = Some (x, q') \<Longrightarrow> prio q @ normal q = x # (prio q' @ normal q')"
begin

lemmas enq_specs = normal_enq prio_enq normal_enq_prio prio_enq_prio

end

fun drain :: "('q \<Rightarrow> ('x \<times> 'q) option) \<Rightarrow> nat \<Rightarrow> 'q \<Rightarrow> 'x list" where
  "drain deq 0 q = []"
| "drain deq (Suc n) q = (case deq q of None \<Rightarrow> [] | Some (x, q') \<Rightarrow> x # drain deq n q')"

datatype 'x queue_op = Normal 'x | Prio 'x

fun run_ops :: "('x \<Rightarrow> 'q \<Rightarrow> 'q) \<Rightarrow> ('x \<Rightarrow> 'q \<Rightarrow> 'q) \<Rightarrow> 'x queue_op list \<Rightarrow> 'q \<Rightarrow> 'q" where
  "run_ops enq enq_prio [] q = q"
| "run_ops enq enq_prio (Normal x # ops) q = run_ops enq enq_prio ops (enq x q)"
| "run_ops enq enq_prio (Prio x # ops) q = run_ops enq enq_prio ops (enq_prio x q)"

fun normal_of :: "'x queue_op list \<Rightarrow> 'x list" where
  "normal_of [] = []"
| "normal_of (Normal x # ops) = x # normal_of ops"
| "normal_of (Prio x # ops) = normal_of ops"

fun prio_of :: "'x queue_op list \<Rightarrow> 'x list" where
  "prio_of [] = []"
| "prio_of (Normal x # ops) = prio_of ops"
| "prio_of (Prio x # ops) = x # prio_of ops"

context two_level_queue begin

lemma drain_snapshot:
  "length (prio q @ normal q) \<le> n \<Longrightarrow> drain deq n q = prio q @ normal q"
proof (induction n arbitrary: q)
  case 0
  then show ?case by simp
next
  case (Suc n)
  show ?case
  proof (cases "deq q")
    case None
    then have "prio q @ normal q = []" using deq_none by blast
    with None show ?thesis by simp
  next
    case (Some p)
    obtain x q' where p: "deq q = Some (x, q')" using Some by (cases p) simp
    from deq_some [OF p] Suc.prems have "length (prio q' @ normal q') \<le> n" by simp
    from Suc.IH [OF this] deq_some [OF p] p show ?thesis by simp
  qed
qed

lemma run_ops_levels:
  "normal (run_ops enq enq_prio ops q) = normal q @ normal_of ops \<and>
   prio (run_ops enq enq_prio ops q) = prio q @ prio_of ops"
proof (induction ops arbitrary: q)
  case Nil
  then show ?case by simp
next
  case (Cons a ops)
  then show ?case by (cases a) (simp_all add: enq_specs)
qed

lemma drain_run_ops:
  assumes "prio q @ normal q = []"
    and "length ops \<le> n"
  shows "drain deq n (run_ops enq enq_prio ops q) = prio_of ops @ normal_of ops"
proof -
  have len: "length (prio_of ops @ normal_of ops) = length ops" for ops :: "'a queue_op list"
    by (induction ops rule: prio_of.induct) auto
  have "prio (run_ops enq enq_prio ops q) @ normal (run_ops enq enq_prio ops q)
      = prio_of ops @ normal_of ops"
    using run_ops_levels [of ops q] assms(1) by simp
  then show ?thesis using drain_snapshot [of "run_ops enq enq_prio ops q" n] len [of ops] assms(2)
    by simp
qed

end

section \<open>The trigger queue meets the contract\<close>

text \<open>The code's \<open>dequeue\<close> in the shape of the contract: the pair taken out, if there is one.\<close>

definition tq_pop :: "trigger_queue \<Rightarrow> (trigger_pair \<times> trigger_queue) option" where
  "tq_pop q = (if tq_getSnapShot q = [] then None
     else (case tq_dequeue TRIGGER_UNKNOWN q of (d, t, q') \<Rightarrow> Some ((t, d), q')))"

definition tq_push :: "trigger_pair \<Rightarrow> trigger_queue \<Rightarrow> trigger_queue" where
  "tq_push p q = snd (tq_queue (fst p) (snd p) q)"

definition tq_push_prio :: "trigger_pair \<Rightarrow> trigger_queue \<Rightarrow> trigger_queue" where
  "tq_push_prio p q = snd (tq_queueWithPriority (fst p) (snd p) q)"

interpretation tq: two_level_queue tq_push tq_push_prio tq_pop mlistTrigger mlistPriority
  by unfold_locales
    (auto simp: tq_push_def tq_push_prio_def tq_pop_def tq_defs split: list.splits if_splits)

lemma tq_dequeue_empty:
  "tq_getSnapShot q = [] \<Longrightarrow> tq_dequeue t q = (None, t, q)"
  by (simp add: tq_defs)

lemma tq_dequeue_snapshot:
  "tq_getSnapShot q = (t, d) # rest \<Longrightarrow>
   \<exists>q'. tq_dequeue t0 q = (d, t, q') \<and> tq_getSnapShot q' = rest"
  by (auto simp: tq_defs split: list.splits)

lemma tq_snapshot_queue: "tq_getSnapShot (snd (tq_queue t d q)) = tq_getSnapShot q @ [(t, d)]"
  by (simp add: tq_defs)

text \<open>
  C14: the order in which triggers are handled. Whatever sequence of \<open>queue\<close> and
  \<open>queueWithPriority\<close> calls fills an empty trigger queue, taking the triggers out one by one
  yields every trigger exactly once: first all priority triggers in the order they were queued,
  then all others in the order they were queued.
\<close>

theorem trigger_order:
  assumes "length ops \<le> n"
  shows "drain tq_pop n (run_ops tq_push tq_push_prio ops tq_empty) = prio_of ops @ normal_of ops"
  by (rule tq.drain_run_ops) (simp_all add: assms tq_empty_def)

theorem trigger_order_witness:
  "drain tq_pop 3 (run_ops tq_push tq_push_prio
      [Normal (SYSTEM_REGISTER_SINK, None), Prio (SYSTEM_REGISTER_SOURCE, None), Normal (TRIGGER_UNKNOWN, None)] tq_empty)
   = [(SYSTEM_REGISTER_SOURCE, None), (SYSTEM_REGISTER_SINK, None), (TRIGGER_UNKNOWN, None)]"
  using trigger_order [of "[Normal (SYSTEM_REGISTER_SINK, None), Prio (SYSTEM_REGISTER_SOURCE, None),
      Normal (TRIGGER_UNKNOWN, None)]" 3] by simp

end
