(* ===== verification/Handle_Store.thy ===== *)
theory Handle_Store
  imports Gc_Types
begin

text \<open>
  \<open>CAmHandleStore\<close>: the requests sent to the routing side that wait for an acknowledgement.
  A handle is packed into 16 bits, its type above bit 10 and its number below; the map from
  packed handles holds the observer (the action) to notify, a pointer that may be null.
\<close>

section \<open>Handles and the store\<close>

datatype am_Handle_e = H_UNKNOWN | H_CONNECT | H_DISCONNECT | H_SETSOURCESTATE
  | H_SETSINKVOLUME | H_SETSOURCEVOLUME | H_SETSINKSOUNDPROPERTY | H_SETSOURCESOUNDPROPERTY
  | H_SETSINKSOUNDPROPERTIES | H_SETSOURCESOUNDPROPERTIES | H_CROSSFADE | H_SETVOLUMES
  | H_SETSINKNOTIFICATION | H_SETSOURCENOTIFICATION

primrec handle_code :: "am_Handle_e \<Rightarrow> 16 word" where
  "handle_code H_UNKNOWN = 0"
| "handle_code H_CONNECT = 1"
| "handle_code H_DISCONNECT = 2"
| "handle_code H_SETSOURCESTATE = 3"
| "handle_code H_SETSINKVOLUME = 4"
| "handle_code H_SETSOURCEVOLUME = 5"
| "handle_code H_SETSINKSOUNDPROPERTY = 6"
| "handle_code H_SETSOURCESOUNDPROPERTY = 7"
| "handle_code H_SETSINKSOUNDPROPERTIES = 8"
| "handle_code H_SETSOURCESOUNDPROPERTIES = 9"
| "handle_code H_CROSSFADE = 10"
| "handle_code H_SETVOLUMES = 11"
| "handle_code H_SETSINKNOTIFICATION = 12"
| "handle_code H_SETSOURCENOTIFICATION = 13"

record am_Handle_s =
  handleType :: am_Handle_e
  handle :: "16 word"

definition uHandle :: "am_Handle_s \<Rightarrow> 16 word" where
  "uHandle h = push_bit 10 (handle_code (handleType h)) + handle h"

text \<open>How the destructor's log message takes a packed handle apart again.\<close>

definition uHandle_type :: "16 word \<Rightarrow> 16 word" where
  "uHandle_type u = drop_bit 10 u"

definition uHandle_number :: "16 word \<Rightarrow> 16 word" where
  "uHandle_number u = and u 0x3ff"

type_synonym 'o handle_store = "16 word \<rightharpoonup> 'o option"

definition hs_saveHandle :: "am_Handle_s \<Rightarrow> 'o option \<Rightarrow> 'o handle_store \<Rightarrow> 'o handle_store" where
  "hs_saveHandle h pObserver m = m(uHandle h \<mapsto> pObserver)"

definition hs_clearHandle :: "am_Handle_s \<Rightarrow> 'o handle_store \<Rightarrow> 'o handle_store" where
  "hs_clearHandle h m = m(uHandle h := None)"

text \<open>
  The observer's \<open>update\<close> runs while the entry is still in the map and may itself save or
  clear handles, so it acts on the store and on the rest of the world; the entry is erased
  after it returns.
\<close>

definition hs_notifyAsyncResult ::
  "('o \<Rightarrow> am_Error_e \<Rightarrow> 'o handle_store \<times> 'w \<Rightarrow> 'o handle_store \<times> 'w)
   \<Rightarrow> am_Handle_s \<Rightarrow> am_Error_e \<Rightarrow> 'o handle_store \<times> 'w \<Rightarrow> 'o handle_store \<times> 'w" where
  "hs_notifyAsyncResult update h err s =
     (case fst s (uHandle h) of
        None \<Rightarrow> s
      | Some pObserver \<Rightarrow>
          (let s' = (case pObserver of None \<Rightarrow> s | Some obs \<Rightarrow> update obs err s)
           in ((fst s')(uHandle h := None), snd s')))"

lemmas hs_defs [gc_unfold] =
  hs_saveHandle_def hs_clearHandle_def hs_notifyAsyncResult_def

section \<open>Packing\<close>

lemma handle_code_bound: "unat (handle_code t) < 14"
  by (cases t) simp_all

lemma handle_code_inject: "handle_code s = handle_code t \<Longrightarrow> s = t"
  by (cases s; cases t) simp_all

lemma unat_uHandle:
  assumes "handle h < 1024"
  shows "unat (uHandle h) = unat (handle_code (handleType h)) * 1024 + unat (handle h)"
proof -
  have b: "unat (handle h) < 1024"
    using assms by (simp add: word_less_nat_alt)
  have c: "unat (handle_code (handleType h)) < 14" by (rule handle_code_bound)
  have p: "unat (push_bit 10 (handle_code (handleType h))) = unat (handle_code (handleType h)) * 1024"
    using c by (simp add: push_bit_eq_mult unat_word_ariths)
  show ?thesis
    using b c by (simp add: uHandle_def unat_word_ariths p)
qed

lemma uHandle_parts:
  assumes "handle h < 1024"
  shows "uHandle_type (uHandle h) = handle_code (handleType h)"
    and "uHandle_number (uHandle h) = handle h"
proof -
  have b: "unat (handle h) < 1024"
    using assms by (simp add: word_less_nat_alt)
  have "unat (uHandle_type (uHandle h)) = unat (handle_code (handleType h))"
    using b by (simp add: uHandle_type_def drop_bit_eq_div unat_div unat_uHandle [OF assms])
  then show "uHandle_type (uHandle h) = handle_code (handleType h)"
    by (rule unsigned_word_eqI)
  have m: "(0x3ff :: 16 word) = mask 10" by (simp add: mask_eq_exp_minus_1)
  have "unat (uHandle_number (uHandle h)) = unat (uHandle h) mod 1024"
    unfolding uHandle_number_def m
    by (simp add: take_bit_eq_mask [symmetric] take_bit_eq_mod unat_mod)
  then have "unat (uHandle_number (uHandle h)) = unat (handle h)"
    using b by (simp add: unat_uHandle [OF assms])
  then show "uHandle_number (uHandle h) = handle h"
    by (rule unsigned_word_eqI)
qed

lemma uHandle_inject:
  assumes "handle g < 1024" and "handle h < 1024" and "uHandle g = uHandle h"
  shows "g = h"
proof -
  have "handle_code (handleType g) = handle_code (handleType h)" and "handle g = handle h"
    using uHandle_parts [OF assms(1)] uHandle_parts [OF assms(2)] assms(3) by simp_all
  then show ?thesis by (simp add: handle_code_inject)
qed

section \<open>The contract of a registry of pending requests\<close>

locale request_registry =
  fixes save :: "'h \<Rightarrow> 'v \<Rightarrow> 'm \<Rightarrow> 'm"
    and clear :: "'h \<Rightarrow> 'm \<Rightarrow> 'm"
    and pending :: "'m \<Rightarrow> 'h \<Rightarrow> 'v option"
    and same :: "'h \<Rightarrow> 'h \<Rightarrow> bool"
  assumes pending_save: "pending (save h v m) g = (if same g h then Some v else pending m g)"
    and pending_clear: "pending (clear h m) g = (if same g h then None else pending m g)"
    and same_refl: "same h h"
    and same_sym: "same g h \<Longrightarrow> same h g"
begin

lemma pending_save_same: "pending (save h v m) h = Some v"
  by (simp add: pending_save same_refl)

lemma pending_clear_same: "pending (clear h m) h = None"
  by (simp add: pending_clear same_refl)

lemma pending_other: "\<not> same g h \<Longrightarrow>
    pending (clear h (save h v m)) g = pending m g"
  by (simp add: pending_save pending_clear)

lemma save_clear_exchange: "\<not> same g h \<Longrightarrow>
    pending (clear g (save h v m)) h = Some v"
  using same_sym by (auto simp: pending_save pending_clear same_refl)

end

definition hs_pending :: "'o handle_store \<Rightarrow> am_Handle_s \<Rightarrow> 'o option option" where
  "hs_pending m h = m (uHandle h)"

definition hs_same :: "am_Handle_s \<Rightarrow> am_Handle_s \<Rightarrow> bool" where
  "hs_same g h \<longleftrightarrow> uHandle g = uHandle h"

interpretation hs: request_registry hs_saveHandle hs_clearHandle hs_pending hs_same
  by unfold_locales (auto simp: hs_defs hs_pending_def hs_same_def)

lemma hs_same_iff: "handle g < 1024 \<Longrightarrow> handle h < 1024 \<Longrightarrow> hs_same g h \<longleftrightarrow> g = h"
  by (auto simp: hs_same_def dest: uHandle_inject)

section \<open>Notification\<close>

lemma hs_notify_unknown: "hs_pending (fst s) h = None \<Longrightarrow> hs_notifyAsyncResult u h e s = s"
  by (simp add: hs_defs hs_pending_def)

lemma hs_notify_clears: "hs_pending (fst (hs_notifyAsyncResult u h e s)) h = None"
  by (simp add: hs_defs hs_pending_def Let_def split: option.splits)

text \<open>
  packing of handles. For handle numbers that fit into their 10 bits, two handles are packed
  into the same 16 bit key only when type and number agree, and type and number can be read back
  from the key, so no request is ever answered in the place of another one.
\<close>

theorem handle_packing:
  assumes "handle g < 1024" and "handle h < 1024"
  shows "(uHandle g = uHandle h \<longleftrightarrow> g = h) \<and>
    uHandle_type (uHandle h) = handle_code (handleType h) \<and> uHandle_number (uHandle h) = handle h"
  using uHandle_inject [OF assms] uHandle_parts [OF assms(2)] by auto

theorem handle_packing_witness:
  "uHandle \<lparr>handleType = H_CONNECT, handle = 1023\<rparr> \<noteq> uHandle \<lparr>handleType = H_DISCONNECT, handle = 1023\<rparr> \<and>
   uHandle_number (uHandle \<lparr>handleType = H_DISCONNECT, handle = 1023\<rparr>) = 1023"
  using handle_packing [of "\<lparr>handleType = H_CONNECT, handle = 1023\<rparr>" "\<lparr>handleType = H_DISCONNECT, handle = 1023\<rparr>"]
  by simp

text \<open>
  C15: a request is answered once, to its own observer. After an observer was registered for a
  handle and any other handle was registered or cleared, the acknowledgement of the handle runs
  the \<open>update\<close> of exactly that observer with the result, and removes the entry even when the
  observer registers the handle anew; a second acknowledgement of the handle changes nothing.
\<close>

theorem request_answered_once:
  assumes "handle g < 1024" and "handle h < 1024" and "g \<noteq> h"
    and "m = hs_clearHandle g (hs_saveHandle h (Some obs) m0) \<or>
         m = hs_saveHandle g other (hs_saveHandle h (Some obs) m0)"
  shows "hs_notifyAsyncResult u h err (m, w) =
      ((fst (u obs err (m, w)))(uHandle h := None), snd (u obs err (m, w))) \<and>
    hs_notifyAsyncResult u h err' (hs_notifyAsyncResult u h err (m, w)) =
      hs_notifyAsyncResult u h err (m, w)"
proof -
  have "hs_pending m h = Some (Some obs)"
    using assms hs_same_iff [OF assms(1,2)] hs_same_iff [OF assms(2,1)]
    by (auto simp: hs.pending_save hs.pending_clear hs.same_refl)
  then have "m (uHandle h) = Some (Some obs)" by (simp add: hs_pending_def)
  then show ?thesis
    by (simp add: hs_notifyAsyncResult_def Let_def)
qed

theorem request_answered_once_witness:
  "let u = (\<lambda>obs err (m, w). (m, w @ [(obs, err)]));
       g = \<lparr>handleType = H_CONNECT, handle = 4\<rparr>; h = \<lparr>handleType = H_CONNECT, handle = 5\<rparr>;
       m = hs_saveHandle g None (hs_saveHandle h (Some ''action'') Map.empty)
   in snd (hs_notifyAsyncResult u h E_OK (m, [])) = [(''action'', E_OK)]"
  using request_answered_once [of "\<lparr>handleType = H_CONNECT, handle = 4\<rparr>" "\<lparr>handleType = H_CONNECT, handle = 5\<rparr>"
      "hs_saveHandle \<lparr>handleType = H_CONNECT, handle = 4\<rparr> None (hs_saveHandle \<lparr>handleType = H_CONNECT, handle = 5\<rparr>
        (Some ''action'') Map.empty)" "''action''" Map.empty None
      "\<lambda>obs err (m, w). (m, w @ [(obs, err)])" E_OK "[]" E_OK]
  by (simp add: Let_def)

end
