(* ===== verification/Event_Subject.thy ===== *)
theory Event_Subject
  imports Gc_Types
begin

text \<open>
  \<open>CAmEventSubject\<close>: the list of observers of an action, and the two \<open>setParent\<close> operations
  that keep it: \<open>CAmActionCommand\<close>'s for leaf actions and \<open>CAmActionContainer\<close>'s for containers.
  An observer's \<open>update\<close> is the parameter \<open>upd\<close>.
\<close>

definition es_registerObserver :: "'o option \<Rightarrow> 'o list \<Rightarrow> 'o list" where
  "es_registerObserver pObserver l = (case pObserver of None \<Rightarrow> l | Some p \<Rightarrow> l @ [p])"

definition es_unregisterObserver :: "'o option \<Rightarrow> 'o list \<Rightarrow> 'o list" where
  "es_unregisterObserver pObserver l = (case pObserver of None \<Rightarrow> l | Some p \<Rightarrow> remove1 p l)"

definition es_notify :: "('o \<Rightarrow> int \<Rightarrow> 'w \<Rightarrow> 'w) \<Rightarrow> int \<Rightarrow> 'o list \<Rightarrow> 'w \<Rightarrow> 'w" where
  "es_notify upd result l w = (case l of [] \<Rightarrow> w | p # _ \<Rightarrow> upd p result w)"

record 'o parent_link =
  pl_mParent :: "'o option"
  pl_mListObservers :: "'o list"

definition pl_init :: "'o parent_link" where
  "pl_init = \<lparr>pl_mParent = None, pl_mListObservers = []\<rparr>"

definition cmd_setParent :: "'o option \<Rightarrow> 'o parent_link \<Rightarrow> 'o parent_link" where
  "cmd_setParent command s =
     (let l = (if pl_mParent s \<noteq> None then es_unregisterObserver command (pl_mListObservers s)
               else pl_mListObservers s)
      in \<lparr>pl_mParent = command, pl_mListObservers = es_registerObserver command l\<rparr>)"

definition ctn_setParent :: "'o option \<Rightarrow> 'o parent_link \<Rightarrow> 'o parent_link" where
  "ctn_setParent pParentAction s =
     (let l = (if pl_mParent s \<noteq> None then es_unregisterObserver (pl_mParent s) (pl_mListObservers s)
               else pl_mListObservers s)
      in \<lparr>pl_mParent = pParentAction, pl_mListObservers = es_registerObserver pParentAction l\<rparr>)"

lemmas es_defs [gc_unfold] = es_registerObserver_def es_unregisterObserver_def es_notify_def
  pl_init_def cmd_setParent_def ctn_setParent_def

section \<open>The link of an action to its parent\<close>

text \<open>What the action framework relies on: the only observer of an action is its parent.\<close>

definition pl_wf :: "'o parent_link \<Rightarrow> bool" where
  "pl_wf s \<longleftrightarrow> pl_mListObservers s = (case pl_mParent s of None \<Rightarrow> [] | Some p \<Rightarrow> [p])"

lemma pl_wf_init: "pl_wf pl_init"
  by (simp add: pl_wf_def es_defs)

lemma ctn_setParent_wf: "pl_wf s \<Longrightarrow> pl_wf (ctn_setParent p s)"
  by (auto simp: pl_wf_def es_defs split: option.splits)

lemma cmd_setParent_wf_first: "pl_wf s \<Longrightarrow> pl_mParent s = None \<Longrightarrow> pl_wf (cmd_setParent p s)"
  by (auto simp: pl_wf_def es_defs split: option.splits)

lemma es_notify_wf:
  "pl_wf s \<Longrightarrow> es_notify upd r (pl_mListObservers s) w =
     (case pl_mParent s of None \<Rightarrow> w | Some p \<Rightarrow> upd p r w)"
  by (auto simp: pl_wf_def es_defs split: option.splits)

text \<open>
  Moving an action to another parent. Starting from an action whose only observer is its
  parent, a container that is given a new parent reports to the new parent and to nobody else.
  A leaf that already has a parent and is given another one removes the new parent from its
  observers instead of the old one, so its results go on to the old parent.
\<close>

theorem setParent_reports_to:
  assumes "pl_wf s"
  shows "es_notify upd r (pl_mListObservers (ctn_setParent (Some p) s)) w = upd p r w \<and>
    pl_wf (ctn_setParent (Some p) s) \<and>
    (pl_mParent s = None \<longrightarrow> es_notify upd r (pl_mListObservers (cmd_setParent (Some p) s)) w = upd p r w) \<and>
    (\<forall>q. pl_mParent s = Some q \<and> q \<noteq> p \<longrightarrow>
      es_notify upd r (pl_mListObservers (cmd_setParent (Some p) s)) w = upd q r w)"
  using assms ctn_setParent_wf [OF assms, of "Some p"]
  by (auto simp: pl_wf_def es_defs split: option.splits)

theorem setParent_reports_to_witness:
  "es_notify (\<lambda>p r w. w @ [(p, r)]) 0
     (pl_mListObservers (cmd_setParent (Some ''new'') (cmd_setParent (Some ''old'') pl_init))) [] = [(''old'', 0)]"
  using setParent_reports_to [of "cmd_setParent (Some ''old'') pl_init" "\<lambda>p r w. w @ [(p, r)]" 0 "''new''" "[]"]
  by (simp add: pl_wf_def es_defs)

end
