(* ===== verification/Action_Params.thy ===== *)
theory Action_Params
  imports Gc_Prelude
begin

text \<open>
  The parameter table of an action. Every concrete action registers its parameter objects under
  a name; the creator of the action copies values into them by name. A parameter object of type
  \<open>CAmActionParam<T>\<close> is an optional value (\<open>mValid\<close> and \<open>mParameterValue\<close>), the table maps
  names to the objects, and the base pointer handed to \<open>setParam\<close> is an optional object.
\<close>

section \<open>Parameter objects\<close>

record 'v CAmActionParam =
  pm_mValid :: bool
  pm_mParameterValue :: 'v

definition param_new :: "'v \<Rightarrow> 'v CAmActionParam" where
  "param_new junk = \<lparr>pm_mValid = False, pm_mParameterValue = junk\<rparr>"

definition param_of :: "'v \<Rightarrow> 'v CAmActionParam" where
  "param_of v = \<lparr>pm_mValid = True, pm_mParameterValue = v\<rparr>"

definition param_set :: "'v \<Rightarrow> 'v CAmActionParam \<Rightarrow> 'v CAmActionParam" where
  "param_set v p = p\<lparr>pm_mParameterValue := v, pm_mValid := True\<rparr>"

text \<open>\<open>getParam\<close> writes its reference argument only when the value is valid.\<close>

definition param_get :: "'v CAmActionParam \<Rightarrow> 'v \<Rightarrow> bool \<times> 'v" where
  "param_get p param = (pm_mValid p, if pm_mValid p then pm_mParameterValue p else param)"

definition param_clone :: "'v CAmActionParam \<Rightarrow> 'v CAmActionParam \<Rightarrow> 'v CAmActionParam" where
  "param_clone src dst =
     (case param_get src (pm_mParameterValue dst) of
        (ok, v) \<Rightarrow> \<lparr>pm_mValid = ok, pm_mParameterValue = v\<rparr>)"

section \<open>The table of an action\<close>

type_synonym 'v param_table = "string \<rightharpoonup> 'v CAmActionParam"

definition registerParam :: "string \<Rightarrow> 'v CAmActionParam \<Rightarrow> 'v param_table \<Rightarrow> 'v param_table" where
  "registerParam nm p m = m(nm \<mapsto> p)"

definition setParam ::
  "string \<Rightarrow> 'v CAmActionParam option \<Rightarrow> 'v param_table \<Rightarrow> bool \<times> 'v param_table" where
  "setParam nm pParam m =
     (case pParam of
        None \<Rightarrow> (False, m)
      | Some p \<Rightarrow>
          if nm = '''' then (False, m)
          else (case m nm of
              Some own \<Rightarrow> (True, m(nm \<mapsto> param_clone p own))
            | None \<Rightarrow> (False, m)))"

text \<open>
  The lookup of a container returns the object or \<open>NULL\<close>. The lookup of a leaf has its test
  the other way round: it answers \<open>NULL\<close> for a name that is registered and reads through the end
  iterator for one that is not, which has no defined value; \<open>Inl ()\<close> stands for that.
\<close>

definition ctn_getParam :: "string \<Rightarrow> 'v param_table \<Rightarrow> 'v CAmActionParam option" where
  "ctn_getParam nm m = (case m nm of Some p \<Rightarrow> Some p | None \<Rightarrow> None)"

definition cmd_getParam :: "string \<Rightarrow> 'v param_table \<Rightarrow> unit + 'v CAmActionParam option" where
  "cmd_getParam nm m = (case m nm of None \<Rightarrow> Inl () | Some _ \<Rightarrow> Inr None)"

lemmas param_defs [gc_unfold] = param_new_def param_of_def param_set_def param_get_def
  param_clone_def registerParam_def setParam_def ctn_getParam_def cmd_getParam_def

section \<open>Properties of the table\<close>

lemma setParam_dom [gc_frame]: "dom (snd (setParam nm p m)) = dom m"
  by (auto simp: gc_unfold split: option.splits if_splits)

lemma setParam_other [gc_frame]: "nm' \<noteq> nm \<Longrightarrow> snd (setParam nm p m) nm' = m nm'"
  by (auto simp: gc_unfold split: option.splits)

lemma setParam_unregistered: "m nm = None \<Longrightarrow> setParam nm p m = (False, m)"
  by (auto simp: gc_unfold split: option.splits)

text \<open>
  Copying a parameter into an action delivers the value. When \<open>setParam\<close> of a registered,
  non-empty name is given a valid parameter it answers true, and a container looking the
  parameter up afterwards reads exactly the value given, whatever was in the slot before;
  a parameter that was never set invalidates the slot; all other slots keep their content.
\<close>

theorem setParam_getParam:
  assumes "m nm = Some own" and "nm \<noteq> ''''"
  shows "\<exists>m'. setParam nm (Some p) m = (True, m') \<and>
      (\<exists>q. ctn_getParam nm m' = Some q \<and>
           param_get q d = (pm_mValid p, if pm_mValid p then pm_mParameterValue p else d)) \<and>
      (\<forall>nm'. nm' \<noteq> nm \<longrightarrow> ctn_getParam nm' m' = ctn_getParam nm' m)"
  using assms by (auto simp: gc_unfold)

theorem setParam_getParam_witness:
  "\<exists>m'. setParam ''volume'' (Some (param_of (7 :: int))) [''volume'' \<mapsto> param_new 0] = (True, m') \<and>
      (\<exists>q. ctn_getParam ''volume'' m' = Some q \<and> param_get q 0 = (True, 7)) \<and>
      (\<forall>nm'. nm' \<noteq> ''volume'' \<longrightarrow> ctn_getParam nm' m' = ctn_getParam nm' [''volume'' \<mapsto> param_new 0])"
  using setParam_getParam [of "[''volume'' \<mapsto> param_new 0]" "''volume''" "param_new (0::int)" "param_of 7" 0]
  by (simp add: param_of_def)

text \<open>
  The lookup of a leaf action never finds a parameter. For every registered name it answers
  \<open>NULL\<close>, for every other name it dereferences the end iterator; the lookup of a container
  with the same table returns the registered object.
\<close>

theorem cmd_getParam_never_finds:
  "cmd_getParam nm m = (if nm \<in> dom m then Inr None else Inl ()) \<and>
   (nm \<in> dom m \<longleftrightarrow> ctn_getParam nm m \<noteq> None)"
  by (auto simp: gc_unfold split: option.splits)

end
