(* ===== verification/Timer_Event.thy ===== *)
theory Timer_Event
  imports Gc_Types
begin

text \<open>
  \<open>CAmTimerEvent\<close>: the list of running timers of the controller, over the daemon's socket
  handler. \<open>addTimer\<close> and \<open>removeTimer\<close> of the socket handler are not part of the repository;
  they are the parameters \<open>addT\<close> and \<open>remT\<close> on its state \<open>'sh\<close>.
\<close>

section \<open>State and operations\<close>

record timespec =
  tv_sec :: int
  tv_nsec :: int

type_synonym timer_handle = "16 word"

record 'c gc_TimerClient_s =
  tc_client :: 'c           \<comment> \<open>the callback and its parameter\<close>
  tc_handle :: timer_handle
  tc_time :: timespec

record ('c, 'sh) timer_event =
  mListClients :: "'c gc_TimerClient_s list"
  mpCAmSocketHandler :: 'sh

definition MAX_TIMER_VALUE :: int where
  "MAX_TIMER_VALUE = 10 * 1000"

definition msec_timespec :: "int \<Rightarrow> timespec" where
  "msec_timespec msec = \<lparr>tv_sec = msec sdiv 1000, tv_nsec = (msec smod 1000) * 1000000\<rparr>"

text \<open>
  \<open>setTimer\<close> takes the interval as a signed 32 bit number and the handle by reference.
\<close>

definition te_setTimer ::
  "(timespec \<Rightarrow> timer_handle \<Rightarrow> 'sh \<Rightarrow> am_Error_e \<times> timer_handle \<times> 'sh)
   \<Rightarrow> 'c \<Rightarrow> 32 word \<Rightarrow> timer_handle \<Rightarrow> ('c, 'sh) timer_event
   \<Rightarrow> bool \<times> timer_handle \<times> ('c, 'sh) timer_event" where
  "te_setTimer addT client msec h t =
     (if sint msec > MAX_TIMER_VALUE then (False, h, t)
      else
        (let ts = msec_timespec (sint msec);
             (err, h', sh') = addT ts h (mpCAmSocketHandler t)
         in if err \<noteq> E_OK then (False, h', t\<lparr>mpCAmSocketHandler := sh'\<rparr>)
            else (True, h',
              t\<lparr>mListClients := mListClients t @ [\<lparr>tc_client = client, tc_handle = h', tc_time = ts\<rparr>],
                mpCAmSocketHandler := sh'\<rparr>)))"

fun erase_client :: "timer_handle \<Rightarrow> 'c gc_TimerClient_s list
    \<Rightarrow> ('c gc_TimerClient_s \<times> 'c gc_TimerClient_s list) option" where
  "erase_client h [] = None"
| "erase_client h (c # cs) =
     (if tc_handle c = h then Some (c, cs)
      else (case erase_client h cs of None \<Rightarrow> None | Some (d, ds) \<Rightarrow> Some (d, c # ds)))"

definition te_removeTimer ::
  "(timer_handle \<Rightarrow> 'sh \<Rightarrow> 'sh) \<Rightarrow> timer_handle \<Rightarrow> ('c, 'sh) timer_event
   \<Rightarrow> timer_handle \<times> ('c, 'sh) timer_event" where
  "te_removeTimer remT h t =
     (case erase_client h (mListClients t) of
        None \<Rightarrow> (h, t)
      | Some (c, cs) \<Rightarrow>
          (0, t\<lparr>mListClients := cs, mpCAmSocketHandler := remT (tc_handle c) (mpCAmSocketHandler t)\<rparr>))"

text \<open>
  The callback of the socket handler calls the first client with the handle and then lets the
  controller iterate its actions; both are parameters on the surrounding world.
\<close>

definition te_timerCallback ::
  "('c \<Rightarrow> 'w \<Rightarrow> 'w) \<Rightarrow> ('w \<Rightarrow> 'w) \<Rightarrow> timer_handle \<Rightarrow> 'c gc_TimerClient_s list \<Rightarrow> 'w \<Rightarrow> 'w" where
  "te_timerCallback call iterate h clients w =
     iterate (case erase_client h clients of None \<Rightarrow> w | Some (c, _) \<Rightarrow> call (tc_client c) w)"

lemmas te_defs [gc_unfold] = te_setTimer_def te_removeTimer_def

section \<open>The contract of a timer service\<close>

locale timer_service =
  fixes setTimer :: "'c \<Rightarrow> 32 word \<Rightarrow> timer_handle \<Rightarrow> 't \<Rightarrow> bool \<times> timer_handle \<times> 't"
    and removeTimer :: "timer_handle \<Rightarrow> 't \<Rightarrow> timer_handle \<times> 't"
    and armed :: "'t \<Rightarrow> timer_handle set"
    and timers_ok :: "'t \<Rightarrow> bool"
  assumes set_refused: "setTimer c ms h t = (False, h', t') \<Longrightarrow>
      armed t' = armed t \<and> timers_ok t' = timers_ok t"
    and set_armed: "setTimer c ms h t = (True, h', t') \<Longrightarrow> timers_ok t \<Longrightarrow> h' \<notin> armed t \<Longrightarrow>
      armed t' = insert h' (armed t) \<and> timers_ok t'"
    and remove_disarms: "removeTimer h t = (h', t') \<Longrightarrow> timers_ok t \<Longrightarrow>
      armed t' = armed t - {h} \<and> timers_ok t' \<and> h' = (if h \<in> armed t then 0 else h)"
begin

lemma set_remove_restores:
  assumes "setTimer c ms h t = (True, h', t')" and "timers_ok t" and "h' \<notin> armed t"
    and "removeTimer h' t' = (h'', t'')"
  shows "armed t'' = armed t" and "h'' = 0" and "timers_ok t''"
  using set_armed [OF assms(1-3)] remove_disarms [OF assms(4)] assms(3) by auto

lemma remove_idempotent:
  assumes "removeTimer h t = (h', t')" and "timers_ok t" and "removeTimer h t' = (h'', t'')"
  shows "armed t'' = armed t'"
  using remove_disarms [OF assms(1,2)] remove_disarms [OF assms(3)] by auto

end

section \<open>\<open>CAmTimerEvent\<close> meets the contract\<close>

definition te_armed :: "('c, 'sh) timer_event \<Rightarrow> timer_handle set" where
  "te_armed t = tc_handle ` set (mListClients t)"

definition te_ok :: "('c, 'sh) timer_event \<Rightarrow> bool" where
  "te_ok t \<longleftrightarrow> distinct (map tc_handle (mListClients t))"

lemma erase_client_None: "erase_client h cs = None \<longleftrightarrow> h \<notin> tc_handle ` set cs"
  by (induction cs) (auto split: option.splits)

lemma erase_client_Some:
  "erase_client h cs = Some (c, ds) \<Longrightarrow> distinct (map tc_handle cs) \<Longrightarrow>
   tc_handle c = h \<and> distinct (map tc_handle ds) \<and>
   tc_handle ` set ds = tc_handle ` set cs - {h} \<and> h \<in> tc_handle ` set cs"
proof (induction cs arbitrary: ds)
  case Nil
  then show ?case by simp
next
  case (Cons x xs)
  show ?case
  proof (cases "tc_handle x = h")
    case True
    with Cons.prems show ?thesis by (auto simp: image_iff)
  next
    case False
    with Cons.prems obtain es where es: "erase_client h xs = Some (c, es)" and ds: "ds = x # es"
      by (auto split: option.splits)
    from Cons.IH [OF es] Cons.prems(2)
    have ih: "tc_handle c = h \<and> distinct (map tc_handle es) \<and>
        tc_handle ` set es = tc_handle ` set xs - {h} \<and> h \<in> tc_handle ` set xs" by simp
    with Cons.prems(2) False ds show ?thesis by auto
  qed
qed

interpretation te: timer_service "te_setTimer addT" "te_removeTimer remT" te_armed te_ok
  for addT :: "timespec \<Rightarrow> timer_handle \<Rightarrow> 'sh \<Rightarrow> am_Error_e \<times> timer_handle \<times> 'sh"
    and remT :: "timer_handle \<Rightarrow> 'sh \<Rightarrow> 'sh"
proof
  fix c :: 'c and ms h h' and t t' :: "('c, 'sh) timer_event"
  show "te_setTimer addT c ms h t = (False, h', t') \<Longrightarrow>
      te_armed t' = te_armed t \<and> te_ok t' = te_ok t"
    by (auto simp: te_defs te_armed_def te_ok_def Let_def split: if_splits prod.splits)
  show "te_setTimer addT c ms h t = (True, h', t') \<Longrightarrow> te_ok t \<Longrightarrow> h' \<notin> te_armed t \<Longrightarrow>
      te_armed t' = insert h' (te_armed t) \<and> te_ok t'"
    by (auto simp: te_defs te_armed_def te_ok_def Let_def split: if_splits prod.splits)
  show "te_removeTimer remT h t = (h', t') \<Longrightarrow> te_ok t \<Longrightarrow>
      te_armed t' = te_armed t - {h} \<and> te_ok t' \<and> h' = (if h \<in> te_armed t then 0 else h)"
    using erase_client_None [of h "mListClients t"] erase_client_Some [of h "mListClients t"]
    by (cases "erase_client h (mListClients t)") (clarsimp simp: te_defs te_armed_def te_ok_def)+
qed

text \<open>Beyond ten seconds no timer is started at all.\<close>

lemma te_setTimer_limit:
  "sint ms > 10000 \<Longrightarrow> te_setTimer addT c ms h t = (False, h, t)"
  by (simp add: te_defs MAX_TIMER_VALUE_def)

text \<open>
  A timer that is started and removed leaves no trace. When the socket handler hands out a
  handle that is not in use, a successful \<open>setTimer\<close> of at most ten seconds arms exactly that
  handle; removing the handle disarms exactly it and resets the caller's handle to 0. A longer
  interval is refused without any effect.
\<close>

theorem timer_set_remove:
  assumes "te_ok t" and "te_setTimer addT c ms h t = (ok, h', t')" and "ok \<Longrightarrow> h' \<notin> te_armed t"
    and "te_removeTimer remT h' t' = (h'', t'')"
  shows "(ok \<longrightarrow> te_armed t' = insert h' (te_armed t) \<and> te_armed t'' = te_armed t \<and> h'' = 0 \<and> te_ok t'') \<and>
    (\<not> ok \<longrightarrow> te_armed t' = te_armed t) \<and>
    (sint ms > 10000 \<longrightarrow> \<not> ok \<and> h' = h \<and> t' = t)"
proof (cases ok)
  case True
  with assms(2,3) have s: "te_setTimer addT c ms h t = (True, h', t')" "h' \<notin> te_armed t" by simp_all
  from te.set_armed [OF s(1) assms(1) s(2)] te.set_remove_restores [OF s(1) assms(1) s(2) assms(4)]
    True te_setTimer_limit [of ms addT c h t] s(1)
  show ?thesis by auto
next
  case False
  with assms(2) have s: "te_setTimer addT c ms h t = (False, h', t')" by simp
  from te.set_refused [OF s] False te_setTimer_limit [of ms addT c h t] s show ?thesis by auto
qed

theorem timer_set_remove_witness:
  "let t = \<lparr>mListClients = [], mpCAmSocketHandler = ()\<rparr>;
       (ok, h', t') = te_setTimer (\<lambda>ts h sh. (E_OK, 7, sh)) ''undo'' 4000 0 t;
       (h'', t'') = te_removeTimer (\<lambda>h sh. sh) h' t'
   in ok \<and> te_armed t' = {7} \<and> te_armed t'' = {} \<and> h'' = 0"
  using timer_set_remove [of "\<lparr>mListClients = [], mpCAmSocketHandler = ()\<rparr>" "\<lambda>ts h sh. (E_OK, 7, sh)" "''undo''" 4000 0
      "fst (te_setTimer (\<lambda>ts h sh. (E_OK, 7, sh)) ''undo'' 4000 0 \<lparr>mListClients = [], mpCAmSocketHandler = ()\<rparr>)"
      "fst (snd (te_setTimer (\<lambda>ts h sh. (E_OK, 7, sh)) ''undo'' 4000 0 \<lparr>mListClients = [], mpCAmSocketHandler = ()\<rparr>))"
      "snd (snd (te_setTimer (\<lambda>ts h sh. (E_OK, 7, sh)) ''undo'' 4000 0 \<lparr>mListClients = [], mpCAmSocketHandler = ()\<rparr>))"
      "\<lambda>h sh. sh"]
  by (simp add: te_defs te_ok_def te_armed_def MAX_TIMER_VALUE_def)

end
