(* ===== verification/Action_Command.thy ===== *)
theory Action_Command
  imports Timer_Event
begin

text \<open>
  \<open>CAmActionCommand\<close>, the base class of leaf actions: its state, its four template methods
  \<open>execute\<close>, \<open>undo\<close>, \<open>update\<close> and \<open>cleanup\<close>, the timeout callback and the parameter table.

  The virtual methods \<open>_execute\<close>, \<open>_undo\<close>, \<open>_update\<close>, \<open>_timeout\<close> and \<open>_cleanup\<close> of a concrete
  leaf class are the fields of a record of functions, together with the monotonic clock and
  the timer service. They act on the members of the concrete class (\<open>'p\<close>) and on the
  environment (\<open>'e\<close>); the timer service has a state of its own (\<open>'t\<close>), because no concrete
  action touches it. A call \<open>notify(getError())\<close> is always the last statement of the method
  that makes it, so a method returns the value it would notify its parent with.
\<close>

section \<open>State\<close>

datatype ActionState_e = AS_NOT_STARTED | AS_EXECUTING | AS_COMPLETED | AS_UNDOING
  | AS_UNDO_COMPLETE | AS_ERROR_STOPPED

record 'p leaf =
  lf_this :: nat                  \<comment> \<open>the address of the object, used as timer client\<close>
  lf_mName :: string
  lf_mStatus :: ActionState_e
  lf_mError :: int
  lf_mUndoRequired :: bool
  lf_mTimeout :: "32 word"
  lf_mTimerHandle :: timer_handle
  lf_mStartTime :: timespec
  lf_mExecutionTime :: "32 word"
  lf_mUndoTime :: "32 word"
  lf_priv :: 'p                   \<comment> \<open>the members of the concrete class\<close>

definition leaf_new :: "nat \<Rightarrow> string \<Rightarrow> 'p \<Rightarrow> 'p leaf" where
  "leaf_new this nm p = \<lparr>lf_this = this, lf_mName = nm, lf_mStatus = AS_NOT_STARTED, lf_mError = 0,
     lf_mUndoRequired = False, lf_mTimeout = INFINITE_TIMEOUT, lf_mTimerHandle = 0,
     lf_mStartTime = \<lparr>tv_sec = 0, tv_nsec = 0\<rparr>, lf_mExecutionTime = 0, lf_mUndoTime = 0,
     lf_priv = p\<rparr>"

record ('p, 't, 'e) leaf_sys =
  ls_clock :: "'e \<Rightarrow> timespec \<times> 'e"
  ls_setTimer :: "nat \<Rightarrow> 32 word \<Rightarrow> timer_handle \<Rightarrow> 't \<Rightarrow> bool \<times> timer_handle \<times> 't"
  ls_removeTimer :: "timer_handle \<Rightarrow> 't \<Rightarrow> timer_handle \<times> 't"
  ls_execute :: "'p leaf \<Rightarrow> 'e \<Rightarrow> int \<times> 'p \<times> 'e"
  ls_undo :: "'p leaf \<Rightarrow> 'e \<Rightarrow> int \<times> 'p \<times> 'e"
  ls_update :: "'p leaf \<Rightarrow> int \<Rightarrow> 'e \<Rightarrow> 'p \<times> 'e"
  ls_timeout :: "'p leaf \<Rightarrow> 'e \<Rightarrow> 'p \<times> 'e"
  ls_cleanup :: "'p leaf \<Rightarrow> 'e \<Rightarrow> 'p \<times> 'e"

section \<open>Elapsed time\<close>

definition MAX_NS :: int where
  "MAX_NS = 1000000000"

text \<open>
  The difference is computed in the platform's \<open>long\<close>, stored in a signed and returned as an
  unsigned 32 bit number. The first condition compares the start time with itself, as the
  source does.
\<close>

definition calculateTimeDifference :: "timespec \<Rightarrow> timespec \<Rightarrow> 32 word" where
  "calculateTimeDifference startTime endTime =
     (let sec = tv_sec endTime - tv_sec startTime;
          (sec', nsec) = (if tv_nsec startTime < tv_nsec startTime
             then (sec - 1, tv_nsec endTime + MAX_NS - tv_nsec startTime)
             else (sec, tv_nsec endTime - tv_nsec startTime))
      in word_of_int (sec' * 1000 + nsec sdiv 1000000))"

section \<open>Operations\<close>

type_synonym ('p, 't, 'e) leaf_result = "'p leaf \<times> ('t \<times> 'e) \<times> int option"

definition leaf_arm :: "('p, 't, 'e) leaf_sys \<Rightarrow> 32 word \<Rightarrow> 'p leaf \<Rightarrow> 't \<Rightarrow> 'p leaf \<times> 't" where
  "leaf_arm S msec l t =
     (case ls_setTimer S (lf_this l) msec (lf_mTimerHandle l) t of
        (_, h, t') \<Rightarrow> (l\<lparr>lf_mTimerHandle := h\<rparr>, t'))"

definition leaf_disarm :: "('p, 't, 'e) leaf_sys \<Rightarrow> 'p leaf \<Rightarrow> 't \<Rightarrow> 'p leaf \<times> 't" where
  "leaf_disarm S l t =
     (case ls_removeTimer S (lf_mTimerHandle l) t of (h, t') \<Rightarrow> (l\<lparr>lf_mTimerHandle := h\<rparr>, t'))"

definition leaf_execute :: "('p, 't, 'e) leaf_sys \<Rightarrow> 'p leaf \<Rightarrow> 't \<times> 'e \<Rightarrow> ('p, 't, 'e) leaf_result" where
  "leaf_execute S l w =
     (if lf_mStatus l = AS_NOT_STARTED then
        (let (t, e) = w;
             (l1, t1) = (if lf_mTimeout l \<noteq> INFINITE_TIMEOUT
                then leaf_arm S (lf_mTimeout l) l t else (l, t));
             (start, e1) = ls_clock S e;
             l2 = l1\<lparr>lf_mStartTime := start\<rparr>;
             (err, p, e2) = ls_execute S l2 e1;
             l3 = l2\<lparr>lf_priv := p, lf_mError := err\<rparr>
         in if lf_mError l3 \<ge> 0 then
              (let (now, e3) = ls_clock S e2;
                   l4 = l3\<lparr>lf_mStatus := AS_COMPLETED,
                           lf_mExecutionTime := calculateTimeDifference (lf_mStartTime l3) now\<rparr>;
                   (l5, t2) = (if lf_mTimerHandle l4 \<noteq> 0 then leaf_disarm S l4 t1 else (l4, t1))
               in (l5, (t2, e3), Some (lf_mError l5)))
            else (l3\<lparr>lf_mStatus := AS_EXECUTING\<rparr>, (t1, e2), None))
      else (l, w, None))"

definition leaf_undo :: "('p, 't, 'e) leaf_sys \<Rightarrow> 'p leaf \<Rightarrow> 't \<times> 'e \<Rightarrow> ('p, 't, 'e) leaf_result" where
  "leaf_undo S l w =
     (if lf_mStatus l = AS_COMPLETED then
        (let (t, e) = w;
             (l1, t1, e1) =
               (if lf_mUndoRequired l then
                  (let (start, e1) = ls_clock S e;
                       (l1, t1) = leaf_arm S DEFAULT_UNDO_TIMEOUT (l\<lparr>lf_mStartTime := start\<rparr>) t;
                       (err, p, e2) = ls_undo S l1 e1
                   in (l1\<lparr>lf_priv := p, lf_mError := err\<rparr>, t1, e2))
                else (l, t, e))
         in if lf_mError l1 \<ge> 0 then
              (let (now, e2) = ls_clock S e1;
                   l2 = l1\<lparr>lf_mStatus := AS_UNDO_COMPLETE,
                           lf_mUndoTime := calculateTimeDifference (lf_mStartTime l1) now\<rparr>;
                   (l3, t2) = leaf_disarm S l2 t1
               in (l3, (t2, e2), Some (lf_mError l3)))
            else (l1\<lparr>lf_mStatus := AS_UNDOING\<rparr>, (t1, e1), None))
      else (l, w, None))"

definition leaf_update :: "('p, 't, 'e) leaf_sys \<Rightarrow> int \<Rightarrow> 'p leaf \<Rightarrow> 't \<times> 'e \<Rightarrow> ('p, 't, 'e) leaf_result" where
  "leaf_update S result l w =
     (let (t, e) = w;
          l1 = l\<lparr>lf_mError := result\<rparr>;
          (l2, t1) = (if lf_mTimerHandle l1 \<noteq> 0 then leaf_disarm S l1 t else (l1, t));
          (now, e1) = ls_clock S e;
          dt = calculateTimeDifference (lf_mStartTime l2) now;
          l3 = (if lf_mStatus l2 = AS_EXECUTING
                then l2\<lparr>lf_mStatus := AS_COMPLETED, lf_mExecutionTime := dt\<rparr>
                else l2\<lparr>lf_mStatus := AS_UNDO_COMPLETE, lf_mUndoTime := dt\<rparr>);
          (p, e2) = ls_update S l3 (lf_mError l3) e1;
          l4 = l3\<lparr>lf_priv := p\<rparr>
      in (l4, (t1, e2), Some (lf_mError l4)))"

definition leaf_timeout :: "('p, 't, 'e) leaf_sys \<Rightarrow> 'p leaf \<Rightarrow> 't \<times> 'e \<Rightarrow> ('p, 't, 'e) leaf_result" where
  "leaf_timeout S l w =
     (let (t, e) = w; (p, e1) = ls_timeout S l e
      in leaf_update S (error_code E_ABORTED) (l\<lparr>lf_priv := p\<rparr>) (t, e1))"

definition leaf_cleanup :: "('p, 't, 'e) leaf_sys \<Rightarrow> 'p leaf \<Rightarrow> 't \<times> 'e \<Rightarrow> 'p leaf \<times> ('t \<times> 'e)" where
  "leaf_cleanup S l w =
     (let (t, e) = w; (p, e1) = ls_cleanup S l e
      in (l\<lparr>lf_priv := p, lf_mStartTime := \<lparr>tv_sec = 0, tv_nsec = 0\<rparr>, lf_mExecutionTime := 0,
            lf_mUndoTime := 0\<rparr>, (t, e1)))"

lemmas leaf_defs [gc_unfold] = leaf_execute_def leaf_undo_def leaf_update_def leaf_timeout_def
  leaf_cleanup_def

section \<open>The state machine of a leaf action\<close>

lemma leaf_arm_fields [simp]:
  "leaf_arm S ms l t = (l', t') \<Longrightarrow> l' = l\<lparr>lf_mTimerHandle := lf_mTimerHandle l'\<rparr>"
  by (auto simp: leaf_arm_def split: prod.splits)

lemma leaf_disarm_fields [simp]:
  "leaf_disarm S l t = (l', t') \<Longrightarrow> l' = l\<lparr>lf_mTimerHandle := lf_mTimerHandle l'\<rparr>"
  by (auto simp: leaf_disarm_def split: prod.splits)

lemma leaf_disarm_sel:
  assumes "leaf_disarm S l t = (l', t')"
  shows "lf_mStatus l' = lf_mStatus l" and "lf_mError l' = lf_mError l"
    and "lf_mUndoRequired l' = lf_mUndoRequired l" and "lf_mTimeout l' = lf_mTimeout l"
    and "lf_mStartTime l' = lf_mStartTime l" and "lf_priv l' = lf_priv l"
  by (subst leaf_disarm_fields [OF assms], simp)+

lemma leaf_arm_sel:
  assumes "leaf_arm S ms l t = (l', t')"
  shows "lf_mStatus l' = lf_mStatus l" and "lf_mError l' = lf_mError l"
    and "lf_mUndoRequired l' = lf_mUndoRequired l" and "lf_mTimeout l' = lf_mTimeout l"
    and "lf_mStartTime l' = lf_mStartTime l" and "lf_priv l' = lf_priv l"
  by (subst leaf_arm_fields [OF assms], simp)+

lemma leaf_arm_this: "leaf_arm S ms l t = (l', t') \<Longrightarrow> lf_this l' = lf_this l"
  by (subst leaf_arm_fields, assumption) simp

lemma leaf_disarm_this: "leaf_disarm S l t = (l', t') \<Longrightarrow> lf_this l' = lf_this l"
  by (subst leaf_disarm_fields, assumption) simp

lemma leaf_execute_started:
  "lf_mStatus l \<noteq> AS_NOT_STARTED \<Longrightarrow> leaf_execute S l w = (l, w, None)"
  by (simp add: leaf_execute_def)

lemma leaf_execute_outcome:
  assumes "leaf_execute S l w = (l', w', n)" and "lf_mStatus l = AS_NOT_STARTED"
  shows "(lf_mStatus l' = AS_COMPLETED \<and> n = Some (lf_mError l') \<and> lf_mError l' \<ge> 0) \<or>
         (lf_mStatus l' = AS_EXECUTING \<and> n = None \<and> lf_mError l' < 0)"
  using assms
  by (auto simp: leaf_execute_def Let_def split: prod.splits if_splits dest: leaf_disarm_sel)

lemma leaf_undo_other:
  "lf_mStatus l \<noteq> AS_COMPLETED \<Longrightarrow> leaf_undo S l w = (l, w, None)"
  by (simp add: leaf_undo_def)

lemma leaf_undo_outcome:
  assumes "leaf_undo S l w = (l', w', n)" and "lf_mStatus l = AS_COMPLETED"
  shows "(lf_mStatus l' = AS_UNDO_COMPLETE \<and> n = Some (lf_mError l') \<and> lf_mError l' \<ge> 0) \<or>
         (lf_mStatus l' = AS_UNDOING \<and> n = None \<and> lf_mError l' < 0)"
  using assms
  by (auto simp: leaf_undo_def Let_def split: prod.splits if_splits dest: leaf_disarm_sel)

lemma leaf_update_outcome:
  assumes "leaf_update S r l w = (l', w', n)"
  shows "n = Some r \<and> lf_mError l' = r \<and>
     lf_mStatus l' = (if lf_mStatus l = AS_EXECUTING then AS_COMPLETED else AS_UNDO_COMPLETE)"
  using assms
  by (auto simp: leaf_update_def Let_def split: prod.splits if_splits dest: leaf_disarm_sel)

section \<open>Steps of a leaf action seen from its concrete class\<close>

lemma leaf_execute_priv:
  assumes "leaf_execute S l (t, e) = (l', (t', e'), n)" "lf_mStatus l = AS_NOT_STARTED"
  shows "\<exists>l2 err p e2. lf_priv l2 = lf_priv l \<and> lf_this l2 = lf_this l \<and> ls_execute S l2 (snd (ls_clock S e)) = (err, p, e2) \<and>
    lf_priv l' = p \<and> lf_this l' = lf_this l \<and> lf_mUndoRequired l' = lf_mUndoRequired l \<and> lf_mError l' = err \<and>
    lf_mStatus l' = (if err \<ge> 0 then AS_COMPLETED else AS_EXECUTING) \<and> (e' = e2 \<or> e' = snd (ls_clock S e2))"
proof -
  obtain l1 t1 where a: "(if lf_mTimeout l \<noteq> INFINITE_TIMEOUT then leaf_arm S (lf_mTimeout l) l t else (l, t)) = (l1, t1)"
    by fastforce
  then have l1: "lf_priv l1 = lf_priv l" "lf_this l1 = lf_this l" "lf_mUndoRequired l1 = lf_mUndoRequired l"
    by (auto split: if_splits dest: leaf_arm_sel leaf_arm_this)
  obtain start e1 where c: "ls_clock S e = (start, e1)" by fastforce
  define l2 where "l2 = l1\<lparr>lf_mStartTime := start\<rparr>"
  obtain err p e2 where x: "ls_execute S l2 e1 = (err, p, e2)" by (metis surj_pair)
  define l3 where "l3 = l2\<lparr>lf_priv := p, lf_mError := err\<rparr>"
  have l3: "lf_priv l3 = p" "lf_this l3 = lf_this l" "lf_mUndoRequired l3 = lf_mUndoRequired l" "lf_mError l3 = err"
    by (simp_all add: l3_def l2_def l1)
  have "leaf_execute S l (t, e) = (if err \<ge> 0 then
        (case ls_clock S e2 of (now, e3) \<Rightarrow>
           case (if lf_mTimerHandle l3 \<noteq> 0 then leaf_disarm S (l3\<lparr>lf_mStatus := AS_COMPLETED,
                   lf_mExecutionTime := calculateTimeDifference (lf_mStartTime l3) now\<rparr>) t1
                 else (l3\<lparr>lf_mStatus := AS_COMPLETED, lf_mExecutionTime := calculateTimeDifference (lf_mStartTime l3) now\<rparr>, t1)) of
             (l5, t2) \<Rightarrow> (l5, (t2, e3), Some (lf_mError l5)))
      else (l3\<lparr>lf_mStatus := AS_EXECUTING\<rparr>, (t1, e2), None))"
    using assms(2) by (simp add: leaf_execute_def a c x l2_def [symmetric] l3_def [symmetric] Let_def l3(4))
  then have r: "(if err \<ge> 0 then
        (case ls_clock S e2 of (now, e3) \<Rightarrow>
           case (if lf_mTimerHandle l3 \<noteq> 0 then leaf_disarm S (l3\<lparr>lf_mStatus := AS_COMPLETED,
                   lf_mExecutionTime := calculateTimeDifference (lf_mStartTime l3) now\<rparr>) t1
                 else (l3\<lparr>lf_mStatus := AS_COMPLETED, lf_mExecutionTime := calculateTimeDifference (lf_mStartTime l3) now\<rparr>, t1)) of
             (l5, t2) \<Rightarrow> (l5, (t2, e3), Some (lf_mError l5)))
      else (l3\<lparr>lf_mStatus := AS_EXECUTING\<rparr>, (t1, e2), None)) = (l', (t', e'), n)"
    using assms(1) by simp
  have x': "ls_execute S l2 (snd (ls_clock S e)) = (err, p, e2)" "lf_priv l2 = lf_priv l" "lf_this l2 = lf_this l"
    using c x by (simp_all add: l2_def l1)
  show ?thesis
  proof (cases "err \<ge> 0")
    case True
    obtain now e3 where now: "ls_clock S e2 = (now, e3)" by fastforce
    let ?l4 = "l3\<lparr>lf_mStatus := AS_COMPLETED, lf_mExecutionTime := calculateTimeDifference (lf_mStartTime l3) now\<rparr>"
    obtain l5 t2 where l5: "(if lf_mTimerHandle l3 \<noteq> 0 then leaf_disarm S ?l4 t1 else (?l4, t1)) = (l5, t2)" by fastforce
    have f: "lf_priv l5 = lf_priv ?l4" "lf_this l5 = lf_this ?l4" "lf_mUndoRequired l5 = lf_mUndoRequired ?l4"
        "lf_mError l5 = lf_mError ?l4" "lf_mStatus l5 = lf_mStatus ?l4"
      using l5 by (auto split: if_splits dest: leaf_disarm_sel leaf_disarm_this)
    have "l' = l5" "e' = e3" using r True now l5 by simp_all
    then show ?thesis using True x' l3 f now by auto
  next
    case False
    then have "l' = l3\<lparr>lf_mStatus := AS_EXECUTING\<rparr>" "e' = e2" using r by auto
    then show ?thesis using False x' l3 by auto
  qed
qed

lemma leaf_undo_priv:
  assumes "leaf_undo S l (t, e) = (l', (t', e'), n)" "lf_mStatus l = AS_COMPLETED" "lf_mUndoRequired l"
  shows "\<exists>l2 err p e2. lf_priv l2 = lf_priv l \<and> lf_this l2 = lf_this l \<and> ls_undo S l2 (snd (ls_clock S e)) = (err, p, e2) \<and>
    lf_priv l' = p \<and> lf_this l' = lf_this l \<and> lf_mError l' = err \<and>
    lf_mStatus l' = (if err \<ge> 0 then AS_UNDO_COMPLETE else AS_UNDOING) \<and> (e' = e2 \<or> e' = snd (ls_clock S e2))"
proof -
  obtain start e1 where c: "ls_clock S e = (start, e1)" by fastforce
  obtain l1 t1 where a: "leaf_arm S DEFAULT_UNDO_TIMEOUT (l\<lparr>lf_mStartTime := start\<rparr>) t = (l1, t1)" by fastforce
  then have l1: "lf_priv l1 = lf_priv l" "lf_this l1 = lf_this l"
    by (auto dest: leaf_arm_sel leaf_arm_this)
  obtain err p e2 where x: "ls_undo S l1 e1 = (err, p, e2)" by (metis surj_pair)
  define l3 where "l3 = l1\<lparr>lf_priv := p, lf_mError := err\<rparr>"
  have l3: "lf_priv l3 = p" "lf_this l3 = lf_this l" "lf_mError l3 = err" by (simp_all add: l3_def l1)
  have r: "(if err \<ge> 0 then
        (case ls_clock S e2 of (now, e3) \<Rightarrow>
           case leaf_disarm S (l3\<lparr>lf_mStatus := AS_UNDO_COMPLETE,
                   lf_mUndoTime := calculateTimeDifference (lf_mStartTime l3) now\<rparr>) t1 of
             (l5, t2) \<Rightarrow> (l5, (t2, e3), Some (lf_mError l5)))
      else (l3\<lparr>lf_mStatus := AS_UNDOING\<rparr>, (t1, e2), None)) = (l', (t', e'), n)"
    using assms(1) by (simp add: assms(2,3) leaf_undo_def a c x l3_def [symmetric] l3(3))
      (simp add: Let_def split: if_splits)
  have x': "ls_undo S l1 (snd (ls_clock S e)) = (err, p, e2)" using c x by simp
  show ?thesis
  proof (cases "err \<ge> 0")
    case True
    obtain now e3 where now: "ls_clock S e2 = (now, e3)" by fastforce
    let ?l4 = "l3\<lparr>lf_mStatus := AS_UNDO_COMPLETE, lf_mUndoTime := calculateTimeDifference (lf_mStartTime l3) now\<rparr>"
    obtain l5 t2 where l5: "leaf_disarm S ?l4 t1 = (l5, t2)" by fastforce
    have f: "lf_priv l5 = lf_priv ?l4" "lf_this l5 = lf_this ?l4" "lf_mError l5 = lf_mError ?l4" "lf_mStatus l5 = lf_mStatus ?l4"
      using l5 by (auto dest: leaf_disarm_sel leaf_disarm_this)
    have "l' = l5" "e' = e3" using r True now l5 by simp_all
    then show ?thesis using True x' l1 l3 f now by auto
  next
    case False
    then have "l' = l3\<lparr>lf_mStatus := AS_UNDOING\<rparr>" "e' = e2" using r by auto
    then show ?thesis using False x' l1 l3 by auto
  qed
qed

lemma leaf_update_priv:
  assumes "leaf_update S r l (t, e) = (l', (t', e'), n)"
  shows "\<exists>l3. lf_priv l3 = lf_priv l \<and> lf_mStatus l3 = (if lf_mStatus l = AS_EXECUTING then AS_COMPLETED else AS_UNDO_COMPLETE) \<and>
    ls_update S l3 r (snd (ls_clock S e)) = (lf_priv l', e') \<and>
    lf_this l' = lf_this l \<and> lf_mUndoRequired l' = lf_mUndoRequired l \<and> lf_mStatus l' = lf_mStatus l3 \<and> lf_mError l' = r"
proof -
  obtain l2 t1 where d: "(if lf_mTimerHandle l \<noteq> 0 then leaf_disarm S (l\<lparr>lf_mError := r\<rparr>) t else (l\<lparr>lf_mError := r\<rparr>, t)) = (l2, t1)"
    by fastforce
  then have l2: "lf_priv l2 = lf_priv l" "lf_this l2 = lf_this l" "lf_mUndoRequired l2 = lf_mUndoRequired l"
      "lf_mStatus l2 = lf_mStatus l" "lf_mError l2 = r"
    by (auto split: if_splits dest: leaf_disarm_sel leaf_disarm_this)
  obtain now e1 where now: "ls_clock S e = (now, e1)" by fastforce
  define l3 where "l3 = (if lf_mStatus l2 = AS_EXECUTING
      then l2\<lparr>lf_mStatus := AS_COMPLETED, lf_mExecutionTime := calculateTimeDifference (lf_mStartTime l2) now\<rparr>
      else l2\<lparr>lf_mStatus := AS_UNDO_COMPLETE, lf_mUndoTime := calculateTimeDifference (lf_mStartTime l2) now\<rparr>)"
  obtain p e2 where u: "ls_update S l3 (lf_mError l3) e1 = (p, e2)" by fastforce
  have "l' = l3\<lparr>lf_priv := p\<rparr>" "e' = e2"
    using assms by (simp_all add: leaf_update_def d now Let_def l3_def [symmetric] u)
  moreover have "lf_mError l3 = r" by (simp add: l3_def l2)
  ultimately show ?thesis
    using u now l2 by (intro exI [of _ l3]) (auto simp: l3_def)
qed

section \<open>Timers of a leaf action\<close>

text \<open>
  What a successful start of a timer gives, for one call: a handle that is not zero and not in
  use; a refused start leaves the handle alone. The socket handler of the daemon documents
  this of its \<open>addTimer\<close>.
\<close>

definition starts_fresh :: "('p, 't, 'e) leaf_sys \<Rightarrow> ('t \<Rightarrow> timer_handle set) \<Rightarrow> 32 word
    \<Rightarrow> 'p leaf \<Rightarrow> 't \<Rightarrow> bool" where
  "starts_fresh S armd ms l t =
     (case ls_setTimer S (lf_this l) ms (lf_mTimerHandle l) t of
        (ok, h, _) \<Rightarrow> if ok then h \<noteq> 0 \<and> h \<notin> armd t else h = lf_mTimerHandle l)"

definition timer_idle :: "('t \<Rightarrow> timer_handle set) \<Rightarrow> 'p leaf \<Rightarrow> 't \<Rightarrow> bool" where
  "timer_idle armd l t \<longleftrightarrow> 0 \<notin> armd t \<and> lf_mTimerHandle l \<notin> armd t"

locale leaf_timer_service = timer_service setTimer removeTimer armed timers_ok
  for setTimer :: "nat \<Rightarrow> 32 word \<Rightarrow> timer_handle \<Rightarrow> 't \<Rightarrow> bool \<times> timer_handle \<times> 't"
    and removeTimer :: "timer_handle \<Rightarrow> 't \<Rightarrow> timer_handle \<times> 't"
    and armed :: "'t \<Rightarrow> timer_handle set"
    and timers_ok :: "'t \<Rightarrow> bool"
begin

lemma disarm_effect:
  assumes "leaf_disarm S l t = (l', t')" and "ls_removeTimer S = removeTimer"
    and "timers_ok t" and "0 \<notin> armed t"
  shows "timers_ok t'" and "armed t' = armed t - {lf_mTimerHandle l}" and "timer_idle armed l' t'"
proof -
  obtain h where r: "removeTimer (lf_mTimerHandle l) t = (h, t')" and l': "l' = l\<lparr>lf_mTimerHandle := h\<rparr>"
    using assms(1,2) by (auto simp: leaf_disarm_def split: prod.splits)
  from remove_disarms [OF r assms(3)]
  show "timers_ok t'" and "armed t' = armed t - {lf_mTimerHandle l}" and "timer_idle armed l' t'"
    using assms(4) l' by (auto simp: timer_idle_def)
qed

lemma arm_effect:
  assumes "leaf_arm S ms l t = (l', t')" and "ls_setTimer S = setTimer"
    and "timers_ok t" and "timer_idle armed l t" and "starts_fresh S armed ms l t"
  shows "timers_ok t'" and "0 \<notin> armed t'"
    and "armed t' = armed t \<or> lf_mTimerHandle l' \<notin> armed t \<and> armed t' = insert (lf_mTimerHandle l') (armed t)"
    and "armed t' - {lf_mTimerHandle l'} = armed t"
    and "armed t' = armed t \<Longrightarrow> lf_mTimerHandle l' \<notin> armed t"
proof -
  obtain ok h where r: "setTimer (lf_this l) ms (lf_mTimerHandle l) t = (ok, h, t')"
      and l': "l' = l\<lparr>lf_mTimerHandle := h\<rparr>"
    using assms(1,2) by (auto simp: leaf_arm_def split: prod.splits)
  have fresh: "if ok then h \<noteq> 0 \<and> h \<notin> armed t else h = lf_mTimerHandle l"
    using assms(2,5) r by (simp add: starts_fresh_def)
  show "timers_ok t'" and "0 \<notin> armed t'"
    and "armed t' = armed t \<or> lf_mTimerHandle l' \<notin> armed t \<and> armed t' = insert (lf_mTimerHandle l') (armed t)"
    and "armed t' - {lf_mTimerHandle l'} = armed t"
    and "armed t' = armed t \<Longrightarrow> lf_mTimerHandle l' \<notin> armed t"
    using set_refused [of _ _ _ t] set_armed [of _ _ _ t] r fresh assms(3,4) l'
    by (cases ok; force simp: timer_idle_def)+
qed

lemma execute_timers:
  assumes ex: "leaf_execute S l (t, e) = (l', (t', e'), n)"
    and S: "ls_setTimer S = setTimer" "ls_removeTimer S = removeTimer"
    and ok: "timers_ok t" "timer_idle armed l t" "starts_fresh S armed (lf_mTimeout l) l t"
  shows "timers_ok t' \<and> 0 \<notin> armed t' \<and> armed t' - {lf_mTimerHandle l'} = armed t \<and>
     (n \<noteq> None \<longrightarrow> armed t' = armed t \<and> timer_idle armed l' t')"
proof (cases "lf_mStatus l = AS_NOT_STARTED")
  case False
  with ex ok show ?thesis by (auto simp: leaf_execute_def timer_idle_def)
next
  case True
  obtain l1 t1 where a: "(if lf_mTimeout l \<noteq> INFINITE_TIMEOUT
      then leaf_arm S (lf_mTimeout l) l t else (l, t)) = (l1, t1)" by (metis surj_pair)
  have arm: "timers_ok t1" "0 \<notin> armed t1" "armed t1 - {lf_mTimerHandle l1} = armed t"
  proof -
    have "timers_ok t1 \<and> 0 \<notin> armed t1 \<and> armed t1 - {lf_mTimerHandle l1} = armed t"
    proof (cases "lf_mTimeout l = INFINITE_TIMEOUT")
      case True
      with a ok(1,2) show ?thesis by (auto simp: timer_idle_def)
    next
      case False
      with a have "leaf_arm S (lf_mTimeout l) l t = (l1, t1)" by simp
      from arm_effect [OF this S(1) ok] show ?thesis by blast
    qed
    then show "timers_ok t1" "0 \<notin> armed t1" "armed t1 - {lf_mTimerHandle l1} = armed t" by blast+
  qed
  obtain start e1 where c: "ls_clock S e = (start, e1)" by (metis surj_pair)
  obtain err p e2 where h: "ls_execute S (l1\<lparr>lf_mStartTime := start\<rparr>) e1 = (err, p, e2)"
    by (metis prod_cases3)
  show ?thesis
  proof (cases "err \<ge> 0")
    case False
    with ex True a c h have "t' = t1" "lf_mTimerHandle l' = lf_mTimerHandle l1" "n = None"
      by (auto simp: leaf_execute_def)
    with arm show ?thesis by simp
  next
    case err: True
    obtain now e3 where c2: "ls_clock S e2 = (now, e3)" by (metis surj_pair)
    define l4 where "l4 = l1\<lparr>lf_mStartTime := start, lf_priv := p, lf_mError := err,
       lf_mStatus := AS_COMPLETED, lf_mExecutionTime := calculateTimeDifference start now\<rparr>"
    have h4: "lf_mTimerHandle l4 = lf_mTimerHandle l1" by (simp add: l4_def)
    have fin: "(if lf_mTimerHandle l4 \<noteq> 0 then leaf_disarm S l4 t1 else (l4, t1)) = (l', t')"
      using ex True a c h err c2 by (auto simp: leaf_execute_def l4_def split: prod.splits if_splits)
    show ?thesis
    proof (cases "lf_mTimerHandle l4 = 0")
      case True
      with fin h4 arm show ?thesis by (auto simp: timer_idle_def)
    next
      case False
      with fin have d: "leaf_disarm S l4 t1 = (l', t')" by simp
      from disarm_effect [OF d S(2) arm(1,2)] h4 arm(2,3) show ?thesis
        by (auto simp: timer_idle_def)
    qed
  qed
qed

lemma update_timers:
  assumes up: "leaf_update S r l (t, e) = (l', (t', e'), n)"
    and S: "ls_removeTimer S = removeTimer"
    and ok: "timers_ok t" "0 \<notin> armed t"
  shows "timers_ok t' \<and> armed t' = armed t - {lf_mTimerHandle l} \<and> timer_idle armed l' t'"
proof -
  obtain l2 t1 where d: "(if lf_mTimerHandle (l\<lparr>lf_mError := r\<rparr>) \<noteq> 0
      then leaf_disarm S (l\<lparr>lf_mError := r\<rparr>) t else (l\<lparr>lf_mError := r\<rparr>, t)) = (l2, t1)"
    by (metis surj_pair)
  have "t' = t1" and h: "lf_mTimerHandle l' = lf_mTimerHandle l2"
    using up d by (auto simp: leaf_update_def Let_def split: prod.splits)
  moreover have "timers_ok t1 \<and> armed t1 = armed t - {lf_mTimerHandle l} \<and> timer_idle armed l2 t1"
  proof (cases "lf_mTimerHandle l = 0")
    case True
    with d ok show ?thesis by (auto simp: timer_idle_def)
  next
    case False
    with d have "leaf_disarm S (l\<lparr>lf_mError := r\<rparr>) t = (l2, t1)" by simp
    from disarm_effect [OF this S ok] show ?thesis by simp
  qed
  ultimately show ?thesis unfolding timer_idle_def by metis
qed

end

text \<open>The leaf class on the controller's own timer service.\<close>

interpretation lt: leaf_timer_service "te_setTimer addT" "te_removeTimer remT" te_armed te_ok
  for addT :: "timespec \<Rightarrow> timer_handle \<Rightarrow> 'sh \<Rightarrow> am_Error_e \<times> timer_handle \<times> 'sh"
    and remT :: "timer_handle \<Rightarrow> 'sh \<Rightarrow> 'sh"
  by unfold_locales

definition with_timers ::
  "(timespec \<Rightarrow> timer_handle \<Rightarrow> 'sh \<Rightarrow> am_Error_e \<times> timer_handle \<times> 'sh) \<Rightarrow>
   (timer_handle \<Rightarrow> 'sh \<Rightarrow> 'sh) \<Rightarrow>
   ('p, (nat, 'sh) timer_event, 'e) leaf_sys \<Rightarrow> ('p, (nat, 'sh) timer_event, 'e) leaf_sys" where
  "with_timers addT remT S = S\<lparr>ls_setTimer := te_setTimer addT, ls_removeTimer := te_removeTimer remT\<rparr>"

lemma with_timers_sel [simp]:
  "ls_setTimer (with_timers addT remT S) = te_setTimer addT"
  "ls_removeTimer (with_timers addT remT S) = te_removeTimer remT"
  by (simp_all add: with_timers_def)

section \<open>Promises of a leaf action\<close>

text \<open>
  elapsed time. For two readings of the monotonic clock, the second not before the first
  and less than \<open>2 ^ 32\<close> milliseconds after it, the computed milliseconds are less than one
  millisecond away from the true difference, although the test for a borrow of a second compares
  the start time with itself and never succeeds.
\<close>

theorem calculateTimeDifference_accuracy:
  assumes "0 \<le> tv_nsec s" and "tv_nsec s < MAX_NS" and "0 \<le> tv_nsec e" and "tv_nsec e < MAX_NS"
    and "0 \<le> (tv_sec e - tv_sec s) * MAX_NS + (tv_nsec e - tv_nsec s)"
    and "(tv_sec e - tv_sec s) * 1000 + 1000 < 2 ^ 32"
  shows "\<bar>uint (calculateTimeDifference s e) * 1000000
     - ((tv_sec e - tv_sec s) * MAX_NS + (tv_nsec e - tv_nsec s))\<bar> < 1000000"
proof -
  define d where "d = tv_nsec e - tv_nsec s"
  define q where "q = d sdiv 1000000"
  have ns: "MAX_NS = 1000000000" by (simp add: MAX_NS_def)
  have d: "- 1000000000 < d" "d < 1000000000" using assms(1-4) by (simp_all add: d_def ns)
  have q1: "\<bar>q * 1000000 - d\<bar> < 1000000"
    by (cases "d \<ge> 0") (simp_all add: q_def signed_divide_int_def sgn_if, linarith+)
  have sec: "tv_sec e - tv_sec s \<ge> 0 \<and> (tv_sec e - tv_sec s = 0 \<longrightarrow> d \<ge> 0)"
    using assms(5) d unfolding ns d_def [symmetric] by (smt (verit))
  have nonneg: "0 \<le> (tv_sec e - tv_sec s) * 1000 + q"
  proof (cases "tv_sec e - tv_sec s = 0")
    case True
    then have "d \<ge> 0" using sec by simp
    then have "q \<ge> 0" by (simp add: q_def signed_divide_int_def sgn_if)
    with True show ?thesis by simp
  next
    case False
    have "q > - 1001" using q1 d by linarith
    moreover have "q \<noteq> - 1000" using q1 d by (auto simp: q_def signed_divide_int_def sgn_if)
    ultimately show ?thesis using False sec by (smt (verit))
  qed
  have "q \<le> 1000" using q1 d by linarith
  then have less: "(tv_sec e - tv_sec s) * 1000 + q < 2 ^ 32" using assms(6) by linarith
  define x where "x = (tv_sec e - tv_sec s) * 1000 + q"
  have "calculateTimeDifference s e = word_of_int x"
    by (simp add: calculateTimeDifference_def q_def d_def x_def)
  moreover have "uint (word_of_int x :: 32 word) = x"
    using nonneg less unfolding x_def [symmetric] by (simp add: uint_word_of_int_eq take_bit_eq_mod)
  ultimately have "uint (calculateTimeDifference s e) = (tv_sec e - tv_sec s) * 1000 + q"
    by (simp add: x_def)
  with q1 show ?thesis unfolding ns d_def [symmetric] by (simp add: algebra_simps)
qed

theorem calculateTimeDifference_accuracy_witness:
  "\<bar>uint (calculateTimeDifference \<lparr>tv_sec = 5, tv_nsec = 999000000\<rparr> \<lparr>tv_sec = 7, tv_nsec = 500000\<rparr>) * 1000000
     - 1001500000\<bar> < 1000000"
  using calculateTimeDifference_accuracy [of "\<lparr>tv_sec = 5, tv_nsec = 999000000\<rparr>" "\<lparr>tv_sec = 7, tv_nsec = 500000\<rparr>"]
  by (simp add: MAX_NS_def)

text \<open>
  a leaf action runs once and reports once. \<open>execute\<close> of a leaf that is not started ends
  either completed, having told its parent exactly its result, or executing, having told nothing;
  then \<open>execute\<close> and \<open>undo\<close> have no effect until the acknowledgement arrives, and the
  acknowledgement completes it and tells the parent the result acknowledged. A completed leaf
  ignores further calls of \<open>execute\<close>.
\<close>

theorem leaf_life_cycle:
  assumes "leaf_execute L l w = (l1, w1, n)" and "lf_mStatus l = AS_NOT_STARTED"
    and "leaf_update L r l1 w2 = (l2, w3, m)"
  shows "(lf_mStatus l1 = AS_COMPLETED \<and> n = Some (lf_mError l1) \<and> lf_mError l1 \<ge> 0 \<and>
      (\<forall>w'. leaf_execute L l1 w' = (l1, w', None))) \<or>
    (lf_mStatus l1 = AS_EXECUTING \<and> n = None \<and>
      (\<forall>w'. leaf_execute L l1 w' = (l1, w', None) \<and> leaf_undo L l1 w' = (l1, w', None)) \<and>
      lf_mStatus l2 = AS_COMPLETED \<and> lf_mError l2 = r \<and> m = Some r)"
  using leaf_execute_outcome [OF assms(1,2)] leaf_update_outcome [OF assms(3)]
    leaf_execute_started [of l1 L] leaf_undo_other [of l1 L] by auto

definition echo_sys :: "int \<Rightarrow> (unit, 't, unit) leaf_sys" where
  "echo_sys r = \<lparr>ls_clock = (\<lambda>e. (\<lparr>tv_sec = 0, tv_nsec = 0\<rparr>, e)),
     ls_setTimer = (\<lambda>_ _ h t. (False, h, t)), ls_removeTimer = (\<lambda>h t. (h, t)),
     ls_execute = (\<lambda>l e. (r, (), e)), ls_undo = (\<lambda>l e. (r, (), e)),
     ls_update = (\<lambda>l r e. ((), e)), ls_timeout = (\<lambda>l e. ((), e)), ls_cleanup = (\<lambda>l e. ((), e))\<rparr>"

theorem leaf_life_cycle_witness:
  "\<exists>l1 l2 w3 :: unit \<times> unit.
     leaf_execute (echo_sys (-1)) (leaf_new 1 ''setVolume'' ()) ((), ()) = (l1, ((), ()), None) \<and>
     lf_mStatus l1 = AS_EXECUTING \<and> leaf_update (echo_sys (-1)) 9 l1 ((), ()) = (l2, w3, Some 9) \<and>
     lf_mStatus l2 = AS_COMPLETED"
proof -
  obtain l1 w1 n where x: "leaf_execute (echo_sys (-1)) (leaf_new 1 ''setVolume'' ()) ((), ()) = (l1, w1, n)"
    by (metis prod_cases3)
  obtain l2 w3 m where y: "leaf_update (echo_sys (-1)) 9 l1 ((), ()) = (l2, w3, m)"
    by (metis prod_cases3)
  have "lf_mStatus l1 = AS_EXECUTING" "w1 = ((), ())" "n = None"
    using x by (auto simp: leaf_execute_def echo_sys_def leaf_new_def INFINITE_TIMEOUT_def)
  with leaf_life_cycle [OF x _ y] x y show ?thesis by (cases w3) (auto simp: leaf_new_def)
qed

text \<open>
  C16: no timer outlives the action it guards. A leaf on the controller's own timer list, started
  with no timer of its own, either completes at once, and then exactly the timers are armed that
  were armed before, or it stays executing with at most its own handle armed in addition; the
  acknowledgement then disarms that handle, so exactly the timers are armed that were armed before.
\<close>

theorem leaf_timer_released:
  assumes "leaf_execute (with_timers addT remT L) l (t, e) = (l1, (t1, e1), n)"
    and "leaf_update (with_timers addT remT L) r l1 (t1, e2) = (l2, (t2, e3), m)"
    and "te_ok t" and "timer_idle te_armed l t"
    and "starts_fresh (with_timers addT remT L) te_armed (lf_mTimeout l) l t"
  shows "(n \<noteq> None \<longrightarrow> te_armed t1 = te_armed t) \<and> te_armed t1 \<subseteq> insert (lf_mTimerHandle l1) (te_armed t) \<and>
    te_armed t2 = te_armed t \<and> te_ok t2 \<and> lf_mTimerHandle l2 \<notin> te_armed t2"
proof -
  have S: "ls_setTimer (with_timers addT remT L) = te_setTimer addT"
    "ls_removeTimer (with_timers addT remT L) = te_removeTimer remT" by simp_all
  from lt.execute_timers [OF assms(1) S assms(3-5)]
  have a: "te_ok t1" "0 \<notin> te_armed t1" "te_armed t1 - {lf_mTimerHandle l1} = te_armed t"
    "n \<noteq> None \<longrightarrow> te_armed t1 = te_armed t" by auto
  from lt.update_timers [OF assms(2) S(2) a(1,2)] a show ?thesis
    by (auto simp: timer_idle_def)
qed

definition demo_leaf :: "unit leaf" where
  "demo_leaf = leaf_new 1 ''setVolume'' ()\<lparr>lf_mTimeout := 4000\<rparr>"

definition demo_timers :: "(nat, unit) timer_event" where
  "demo_timers = \<lparr>mListClients = [], mpCAmSocketHandler = ()\<rparr>"

definition demo_leaf_sys :: "(unit, (nat, unit) timer_event, unit) leaf_sys" where
  "demo_leaf_sys = with_timers (\<lambda>ts h sh. (E_OK, 7, sh)) (\<lambda>h sh. sh) (echo_sys (-1))"

theorem leaf_timer_released_witness:
  "\<exists>l1 t1 l2 t2 m. leaf_execute demo_leaf_sys demo_leaf (demo_timers, ()) = (l1, (t1, ()), None) \<and>
     te_armed t1 = {7} \<and> leaf_update demo_leaf_sys 0 l1 (t1, ()) = (l2, (t2, ()), m) \<and> te_armed t2 = {}"
proof -
  obtain l1 t1 where x: "leaf_execute demo_leaf_sys demo_leaf (demo_timers, ()) = (l1, (t1, ()), None)"
      and t1: "te_armed t1 = {7}"
    by (simp add: leaf_execute_def demo_leaf_sys_def demo_leaf_def demo_timers_def echo_sys_def leaf_new_def
        with_timers_def INFINITE_TIMEOUT_def leaf_arm_def te_defs MAX_TIMER_VALUE_def te_armed_def)
  obtain l2 t2 m where y: "leaf_update demo_leaf_sys 0 l1 (t1, ()) = (l2, (t2, ()), m)"
    by (metis old.unit.exhaust prod_cases3 surj_pair)
  have "te_ok demo_timers" "timer_idle te_armed demo_leaf demo_timers"
    "starts_fresh demo_leaf_sys te_armed (lf_mTimeout demo_leaf) demo_leaf demo_timers"
    "te_armed demo_timers = {}"
    by (simp_all add: te_ok_def timer_idle_def te_armed_def demo_timers_def starts_fresh_def demo_leaf_sys_def
        demo_leaf_def leaf_new_def te_defs MAX_TIMER_VALUE_def)
  with leaf_timer_released [OF x [unfolded demo_leaf_sys_def] y [unfolded demo_leaf_sys_def]] x y t1
  show ?thesis by (auto simp: demo_leaf_sys_def)
qed

end
