(* ===== verification/Action_Container.thy ===== *)
theory Action_Container
  imports Action_Command
begin

text \<open>
  \<open>CAmActionContainer\<close>, the base class of the actions that are made of child actions, and the
  tree of actions it builds. A container owns its children (\<open>mListChildActions\<close>), so the tree is
  a datatype; the parent pointer of a child is the node above it, and a child's
  \<open>notify(getError())\<close>, which calls \<open>update\<close> of that node, is a value (\<open>int option\<close>) the method of
  the child returns and the method of the parent consumes. In the code this call is the last
  thing the child does that has an effect on anything but its own fields.

  The virtual methods of the concrete container classes are the fields of \<open>action_sys\<close>. They act
  on the members of the concrete class and on the environment; \<open>_execute\<close> also appends child
  actions. \<open>_update(result, index)\<close> is never overridden in the repository and does nothing.
\<close>

section \<open>State\<close>

record 'q container =
  ct_mName :: string
  ct_mStatus :: ActionState_e
  ct_mIndex :: int
  ct_mError :: int
  ct_mUndoRequired :: bool
  ct_mTimeout :: "32 word"
  ct_mStartTime :: timespec
  ct_mExecutionTime :: "32 word"
  ct_mUndoTime :: "32 word"
  ct_priv :: 'q

definition container_new :: "string \<Rightarrow> 'q \<Rightarrow> 'q container" where
  "container_new nm q = \<lparr>ct_mName = nm, ct_mStatus = AS_NOT_STARTED, ct_mIndex = 0, ct_mError = 0,
     ct_mUndoRequired = False, ct_mTimeout = INFINITE_TIMEOUT,
     ct_mStartTime = \<lparr>tv_sec = 0, tv_nsec = 0\<rparr>, ct_mExecutionTime = 0, ct_mUndoTime = 0,
     ct_priv = q\<rparr>"

datatype ('p, 'q) action =
    Leaf "'p leaf"
  | Container "'q container" "('p, 'q) action list"

fun action_getStatus :: "('p, 'q) action \<Rightarrow> ActionState_e" where
  "action_getStatus (Leaf l) = lf_mStatus l"
| "action_getStatus (Container c as) = ct_mStatus c"

fun action_getError :: "('p, 'q) action \<Rightarrow> int" where
  "action_getError (Leaf l) = lf_mError l"
| "action_getError (Container c as) = ct_mError c"

fun action_setTimeout :: "32 word \<Rightarrow> ('p, 'q) action \<Rightarrow> ('p, 'q) action" where
  "action_setTimeout t (Leaf l) = Leaf (l\<lparr>lf_mTimeout := t\<rparr>)"
| "action_setTimeout t (Container c as) = Container (c\<lparr>ct_mTimeout := t\<rparr>) as"

text \<open>
  The execution time of a container is its own plus that of its children. The undo time also
  adds up the execution times of the children.
\<close>

fun action_getExecutionTime :: "('p, 'q) action \<Rightarrow> 32 word" where
  "action_getExecutionTime (Leaf l) = lf_mExecutionTime l"
| "action_getExecutionTime (Container c as) =
     ct_mExecutionTime c + sum_list (map action_getExecutionTime as)"

fun action_getUndoTime :: "('p, 'q) action \<Rightarrow> 32 word" where
  "action_getUndoTime (Leaf l) = lf_mUndoTime l"
| "action_getUndoTime (Container c as) =
     ct_mUndoTime c + sum_list (map action_getExecutionTime as)"

record ('p, 'q, 't, 'e) action_sys =
  as_leaf :: "('p, 't, 'e) leaf_sys"
  as_execute :: "'q container \<Rightarrow> 'e \<Rightarrow> int \<times> 'q \<times> ('p, 'q) action list \<times> 'e"
  as_undo :: "'q container \<Rightarrow> 'e \<Rightarrow> int \<times> 'q \<times> 'e"
  as_update :: "'q container \<Rightarrow> int \<Rightarrow> 'e \<Rightarrow> 'q \<times> 'e"
  as_cleanup :: "'q container \<Rightarrow> 'e \<Rightarrow> 'q container \<times> 'e"

section \<open>Building the tree\<close>

definition ct_append :: "('p, 'q) action option \<Rightarrow> ('p, 'q) action list \<Rightarrow> ('p, 'q) action list" where
  "ct_append command as = (case command of None \<Rightarrow> as | Some a \<Rightarrow> as @ [a])"

fun insert_before_fresh :: "('p, 'q) action \<Rightarrow> ('p, 'q) action list \<Rightarrow> ('p, 'q) action list" where
  "insert_before_fresh x [] = [x]"
| "insert_before_fresh x (a # as) =
     (if action_getStatus a = AS_NOT_STARTED then x # a # as else a # insert_before_fresh x as)"

definition ct_insert :: "('p, 'q) action \<Rightarrow> ('p, 'q) action list \<Rightarrow> ('p, 'q) action list" where
  "ct_insert command as =
     (if as = [] then ct_append (Some command) as else insert_before_fresh command as)"

section \<open>\<open>update\<close>\<close>

type_synonym ('q, 't, 'e) ct_result = "'q container \<times> ('t \<times> 'e) \<times> int option"

text \<open>The end of \<open>update\<close>: the concrete class hears of the result, then the parent does.\<close>

definition ct_report :: "('p, 'q, 't, 'e) action_sys \<Rightarrow> 'q container \<Rightarrow> 't \<times> 'e
    \<Rightarrow> ('q, 't, 'e) ct_result" where
  "ct_report S c w =
     (let (t, e) = w; (q, e') = as_update S c (ct_mError c) e
      in (c\<lparr>ct_priv := q\<rparr>, (t, e'), Some (ct_mError c)))"

definition ct_update :: "('p, 'q, 't, 'e) action_sys \<Rightarrow> int \<Rightarrow> 'q container \<Rightarrow> nat \<Rightarrow> 't \<times> 'e
    \<Rightarrow> ('q, 't, 'e) ct_result" where
  "ct_update S result c num w =
     (let c1 = c\<lparr>ct_mError := result\<rparr>
      in if ct_mStatus c1 = AS_EXECUTING then
           (if ct_mError c1 > 0 then ct_report S (c1\<lparr>ct_mStatus := AS_ERROR_STOPPED\<rparr>) w
            else
              (let c2 = c1\<lparr>ct_mIndex := ct_mIndex c1 + 1\<rparr>
               in if ct_mIndex c2 \<ge> int num
                  then ct_report S (c2\<lparr>ct_mStatus := AS_COMPLETED\<rparr>) w
                  else (c2, w, None)))
         else if ct_mStatus c1 = AS_UNDOING then
           (if ct_mIndex c1 < 0 then ct_report S (c1\<lparr>ct_mStatus := AS_UNDO_COMPLETE\<rparr>) w
            else (c1, w, None))
         else (c1, w, None))"

text \<open>A child's notification, if it sent one, runs \<open>update\<close> of the container.\<close>

definition ct_notified :: "('p, 'q, 't, 'e) action_sys \<Rightarrow> int option \<Rightarrow> 'q container \<Rightarrow> nat
    \<Rightarrow> 't \<times> 'e \<Rightarrow> ('q, 't, 'e) ct_result" where
  "ct_notified S m c num w = (case m of None \<Rightarrow> (c, w, None) | Some r \<Rightarrow> ct_update S r c num w)"

section \<open>\<open>execute\<close>\<close>

text \<open>
  A step of the tree takes an action and the world and returns the action, the world and what
  the parent is notified with. \<open>None\<close> is a call that does not return or whose behaviour is not
  defined: an index outside of the list of children, or a loop that goes round without
  progress. A loop over \<open>n\<close> children makes progress at most \<open>n\<close> times, so \<open>n\<close> is the bound of the
  loop; the bound of the recursion into the children is the depth of the tree.
\<close>

type_synonym ('p, 'q, 't, 'e) stepper =
  "('p, 'q) action \<Rightarrow> 't \<times> 'e \<Rightarrow> (('p, 'q) action \<times> ('t \<times> 'e) \<times> int option) option"

definition ct_start :: "('p, 'q, 't, 'e) action_sys \<Rightarrow> 'q container \<Rightarrow> ('p, 'q) action list
    \<Rightarrow> 't \<times> 'e \<Rightarrow> 'q container \<times> ('p, 'q) action list \<times> ('t \<times> 'e) \<times> int option" where
  "ct_start S c as w =
     (let (t, e) = w;
          (start, e1) = ls_clock (as_leaf S) e;
          c1 = c\<lparr>ct_mStartTime := start\<rparr>;
          (err, q, new, e2) = as_execute S c1 e1;
          as1 = as @ new;
          (now, e3) = ls_clock (as_leaf S) e2;
          c2 = c1\<lparr>ct_priv := q, ct_mError := err,
                  ct_mExecutionTime := calculateTimeDifference (ct_mStartTime c1) now,
                  ct_mStatus := AS_EXECUTING\<rparr>
      in if ct_mError c2 \<noteq> 0
         then (case ct_update S (ct_mError c2) c2 (length as1) (t, e3) of
                 (c3, w3, n) \<Rightarrow> (c3, as1, w3, n))
         else (c2, as1, (t, e3), None))"

primrec ct_loop :: "nat \<Rightarrow> ('p, 'q, 't, 'e) action_sys \<Rightarrow> ('p, 'q, 't, 'e) stepper
    \<Rightarrow> 'q container \<Rightarrow> ('p, 'q) action list \<Rightarrow> 't \<times> 'e
    \<Rightarrow> ('q container \<times> ('p, 'q) action list \<times> ('t \<times> 'e) \<times> int option) option" where
  "ct_loop 0 S ex c as w = None"
| "ct_loop (Suc k) S ex c as w =
     (if ct_mIndex c < 0 \<or> ct_mIndex c \<ge> int (length as) then None
      else
        (let i = nat (ct_mIndex c);
             child = as ! i;
             elapsed = action_getExecutionTime (Container c as)
         in if ct_mTimeout c \<noteq> INFINITE_TIMEOUT \<and> elapsed > ct_mTimeout c then
              (case ct_update S (error_code E_ABORTED) c (length as) w of
                 (c1, w1, n) \<Rightarrow> Some (c1, as, w1, n))
            else
              (let child1 = (if ct_mTimeout c \<noteq> INFINITE_TIMEOUT
                              \<and> action_getStatus child = AS_NOT_STARTED
                             then action_setTimeout (ct_mTimeout c - elapsed) child else child)
               in case ex child1 w of
                    None \<Rightarrow> None
                  | Some (child2, w1, m) \<Rightarrow>
                      (let as1 = as[i := child2];
                           (c1, w2, n) = ct_notified S m c (length as1) w1
                       in if action_getStatus child2 = AS_EXECUTING \<or> ct_mStatus c1 \<noteq> AS_EXECUTING
                          then Some (c1, as1, w2, n)
                          else ct_loop k S ex c1 as1 w2))))"

definition ct_run :: "('p, 'q, 't, 'e) action_sys \<Rightarrow> ('p, 'q, 't, 'e) stepper
    \<Rightarrow> 'q container \<Rightarrow> ('p, 'q) action list \<Rightarrow> 't \<times> 'e
    \<Rightarrow> ('q container \<times> ('p, 'q) action list \<times> ('t \<times> 'e) \<times> int option) option" where
  "ct_run S ex c as w =
     (if ct_mStatus c = AS_EXECUTING then
        (if ct_mIndex c < int (length as) then ct_loop (length as) S ex c as w
         else (case ct_update S (ct_mError c) c (length as) w of (c1, w1, n) \<Rightarrow> Some (c1, as, w1, n)))
      else if ct_mStatus c = AS_COMPLETED then
        (case ct_update S (ct_mError c) c (length as) w of (c1, w1, n) \<Rightarrow> Some (c1, as, w1, n))
      else Some (c, as, w, None))"

definition ct_execute :: "('p, 'q, 't, 'e) action_sys \<Rightarrow> ('p, 'q, 't, 'e) stepper
    \<Rightarrow> 'q container \<Rightarrow> ('p, 'q) action list \<Rightarrow> 't \<times> 'e
    \<Rightarrow> (('p, 'q) action \<times> ('t \<times> 'e) \<times> int option) option" where
  "ct_execute S ex c as w =
     (let (c1, as1, w1, n1) = (if ct_mStatus c = AS_NOT_STARTED then ct_start S c as w
                               else (c, as, w, None))
      in case ct_run S ex c1 as1 w1 of
           None \<Rightarrow> None
         | Some (c2, as2, w2, n2) \<Rightarrow>
             Some (Container c2 as2, w2, case n2 of None \<Rightarrow> n1 | Some r \<Rightarrow> Some r))"

primrec action_execute :: "nat \<Rightarrow> ('p, 'q, 't, 'e) action_sys \<Rightarrow> ('p, 'q, 't, 'e) stepper" where
  "action_execute 0 S = (\<lambda>a w. None)"
| "action_execute (Suc d) S =
     (\<lambda>a w. case a of
        Leaf l \<Rightarrow> (case leaf_execute (as_leaf S) l w of (l', w', n) \<Rightarrow> Some (Leaf l', w', n))
      | Container c as \<Rightarrow> ct_execute S (action_execute d S) c as w)"

section \<open>\<open>undo\<close>\<close>

definition undoable :: "('p, 'q) action \<Rightarrow> bool" where
  "undoable a \<longleftrightarrow> action_getStatus a = AS_ERROR_STOPPED
     \<or> (action_getStatus a = AS_COMPLETED \<and> action_getError a = 0)
     \<or> action_getStatus a = AS_UNDOING"

text \<open>
  The loop runs from the child at the index down to the first; \<open>n\<close> is the index plus one.
\<close>

primrec ct_undo_loop :: "nat \<Rightarrow> ('p, 'q, 't, 'e) action_sys \<Rightarrow> ('p, 'q, 't, 'e) stepper
    \<Rightarrow> 'q container \<Rightarrow> ('p, 'q) action list \<Rightarrow> 't \<times> 'e
    \<Rightarrow> ('q container \<times> ('p, 'q) action list \<times> ('t \<times> 'e) \<times> int option) option" where
  "ct_undo_loop 0 S un c as w =
     (case ct_update S (ct_mError c) c (length as) w of (c1, w1, n) \<Rightarrow> Some (c1, as, w1, n))"
| "ct_undo_loop (Suc i) S un c as w =
     (if undoable (as ! i) then
        (case un (as ! i) w of
           None \<Rightarrow> None
         | Some (child, w1, m) \<Rightarrow>
             (let as1 = as[i := child];
                  (c1, w2, n) = ct_notified S m c (length as1) w1
              in if action_getStatus child \<noteq> AS_UNDO_COMPLETE then Some (c1, as1, w2, n)
                 else ct_undo_loop i S un (c1\<lparr>ct_mIndex := ct_mIndex c1 - 1\<rparr>) as1 w2))
      else ct_undo_loop i S un (c\<lparr>ct_mIndex := ct_mIndex c - 1\<rparr>) as w)"

definition ct_undo_start :: "('p, 'q, 't, 'e) action_sys \<Rightarrow> 'q container \<Rightarrow> nat \<Rightarrow> 't \<times> 'e
    \<Rightarrow> 'q container \<times> ('t \<times> 'e)" where
  "ct_undo_start S c num w =
     (if ct_mStatus c = AS_ERROR_STOPPED \<or> (ct_mStatus c = AS_COMPLETED \<and> ct_mError c = 0) then
        (let (c1, w1) =
           (if ct_mUndoRequired c then
              (let (t, e) = w;
                   (start, e1) = ls_clock (as_leaf S) e;
                   c1 = c\<lparr>ct_mStartTime := start\<rparr>;
                   (err, q, e2) = as_undo S c1 e1;
                   (now, e3) = ls_clock (as_leaf S) e2
               in (c1\<lparr>ct_priv := q, ct_mError := err,
                      ct_mUndoTime := calculateTimeDifference (ct_mStartTime c1) now\<rparr>, (t, e3)))
            else (c, w))
         in (c1\<lparr>ct_mStatus := if num > 0 then AS_UNDOING else AS_UNDO_COMPLETE\<rparr>, w1))
      else (c, w))"

text \<open>
  The index is compared with the unsigned size of the list, so a negative index is also set to
  the last child.
\<close>

definition ct_undo :: "('p, 'q, 't, 'e) action_sys \<Rightarrow> ('p, 'q, 't, 'e) stepper
    \<Rightarrow> 'q container \<Rightarrow> ('p, 'q) action list \<Rightarrow> 't \<times> 'e
    \<Rightarrow> (('p, 'q) action \<times> ('t \<times> 'e) \<times> int option) option" where
  "ct_undo S un c as w =
     (let (c1, w1) = ct_undo_start S c (length as) w
      in if ct_mStatus c1 = AS_UNDOING then
           (let c2 = (if ct_mIndex c1 < 0 \<or> ct_mIndex c1 \<ge> int (length as)
                      then c1\<lparr>ct_mIndex := int (length as) - 1\<rparr> else c1)
            in case ct_undo_loop (nat (ct_mIndex c2 + 1)) S un c2 as w1 of
                 None \<Rightarrow> None
               | Some (c3, as3, w3, n) \<Rightarrow> Some (Container c3 as3, w3, n))
         else if ct_mStatus c1 = AS_UNDO_COMPLETE then
           (case ct_update S (ct_mError c1) c1 (length as) w1 of
              (c2, w2, n) \<Rightarrow> Some (Container c2 as, w2, n))
         else Some (Container c1 as, w1, None))"

primrec action_undo :: "nat \<Rightarrow> ('p, 'q, 't, 'e) action_sys \<Rightarrow> ('p, 'q, 't, 'e) stepper" where
  "action_undo 0 S = (\<lambda>a w. None)"
| "action_undo (Suc d) S =
     (\<lambda>a w. case a of
        Leaf l \<Rightarrow> (case leaf_undo (as_leaf S) l w of (l', w', n) \<Rightarrow> Some (Leaf l', w', n))
      | Container c as \<Rightarrow> ct_undo S (action_undo d S) c as w)"

section \<open>\<open>cleanup\<close> and asynchronous results\<close>

definition cleanable :: "ActionState_e \<Rightarrow> ('p, 'q) action \<Rightarrow> bool" where
  "cleanable own a \<longleftrightarrow> action_getStatus a = AS_UNDO_COMPLETE \<or> action_getStatus a = AS_COMPLETED
     \<or> (action_getStatus a = AS_NOT_STARTED \<and> own = AS_UNDO_COMPLETE)"

fun action_cleanup :: "('p, 'q, 't, 'e) action_sys \<Rightarrow> ('p, 'q) action \<Rightarrow> 't \<times> 'e
      \<Rightarrow> ('p, 'q) action \<times> ('t \<times> 'e)"
  and cleanup_children :: "('p, 'q, 't, 'e) action_sys \<Rightarrow> ActionState_e \<Rightarrow> ('p, 'q) action list
      \<Rightarrow> 't \<times> 'e \<Rightarrow> ('p, 'q) action list \<times> ('t \<times> 'e)" where
  "action_cleanup S (Leaf l) w =
     (case leaf_cleanup (as_leaf S) l w of (l', w') \<Rightarrow> (Leaf l', w'))"
| "action_cleanup S (Container c as) w =
     (let (as1, (t, e)) = cleanup_children S (ct_mStatus c) as w;
          (c1, e1) = (if as1 = [] then as_cleanup S c e else (c, e))
      in (Container (c1\<lparr>ct_mIndex := 0, ct_mExecutionTime := 0, ct_mUndoTime := 0\<rparr>) as1, (t, e1)))"
| "cleanup_children S own [] w = ([], w)"
| "cleanup_children S own (a # as) w =
     (if cleanable own a then cleanup_children S own as (snd (action_cleanup S a w))
      else (a # as, w))"

text \<open>
  An acknowledgement of the routing side or a timer reaches one leaf of the tree (\<open>ev\<close> is its
  \<open>update\<close> or \<open>timeout\<close>); its notification climbs to the root, through \<open>update\<close> of every container
  above it.
\<close>

fun action_event :: "('p, 'q, 't, 'e) action_sys \<Rightarrow> ('p leaf \<Rightarrow> 't \<times> 'e \<Rightarrow> ('p, 't, 'e) leaf_result)
    \<Rightarrow> nat list \<Rightarrow> ('p, 'q, 't, 'e) stepper" where
  "action_event S ev [] (Leaf l) w = (case ev l w of (l', w', n) \<Rightarrow> Some (Leaf l', w', n))"
| "action_event S ev (i # p) (Container c as) w =
     (if i < length as then
        (case action_event S ev p (as ! i) w of
           None \<Rightarrow> None
         | Some (a, w1, m) \<Rightarrow>
             (case ct_notified S m c (length as) w1 of
                (c1, w2, n) \<Rightarrow> Some (Container c1 (as[i := a]), w2, n)))
      else None)"
| "action_event S ev _ _ w = None"

end
