(* ===== verification/Action_Tree.thy ===== *)
theory Action_Tree
  imports Action_Container
begin

text \<open>
  Correctness of the action tree: a well-formedness invariant on trees, the contract every
  action meets when its parent runs or undoes it, and the proof that a container meets the
  contract when its children do. The contracts are the locales \<open>action_runner\<close> and
  \<open>action_undoer\<close>; the loops of \<open>execute\<close> and \<open>undo\<close> are verified once inside them, and
  \<open>action_execute\<close> and \<open>action_undo\<close> are shown to meet them at every depth.

  Two flags say what the concrete classes may do: \<open>mw\<close>, some leaf may answer that its result is
  still to come; \<open>mf\<close>, some action may fail.
\<close>

section \<open>Well-formed trees\<close>

definition is_done :: "('p, 'q) action \<Rightarrow> bool" where
  "is_done a \<longleftrightarrow> action_getStatus a = AS_COMPLETED \<and> action_getError a = 0"

definition is_fresh :: "('p, 'q) action \<Rightarrow> bool" where
  "is_fresh a \<longleftrightarrow> action_getStatus a = AS_NOT_STARTED"

definition startable :: "bool \<Rightarrow> ('p, 'q) action \<Rightarrow> bool" where
  "startable mw a \<longleftrightarrow> is_fresh a \<or> mw \<and> action_getStatus a = AS_EXECUTING"

text \<open>
  The invariant of one container over its children: nothing has run in a container that has not
  started; in one that executes, the children before the index are done, the child at the index
  is next or running, the others have not started; a completed one has completed every child; in
  one that stopped on an error the children after the index never started; and in one that is
  being rolled back nothing after the index is left to undo.
\<close>

fun node_ok :: "bool \<Rightarrow> 'q container \<Rightarrow> ('p, 'q) action list \<Rightarrow> bool" where
  "node_ok mw c as =
     (case ct_mStatus c of
        AS_NOT_STARTED \<Rightarrow> ct_mIndex c = 0 \<and> list_all is_fresh as
      | AS_EXECUTING \<Rightarrow> mw \<and> 0 \<le> ct_mIndex c \<and> ct_mIndex c < int (length as) \<and> ct_mError c = 0
          \<and> list_all is_done (take (nat (ct_mIndex c)) as)
          \<and> startable mw (as ! nat (ct_mIndex c))
          \<and> list_all is_fresh (drop (Suc (nat (ct_mIndex c))) as)
      | AS_COMPLETED \<Rightarrow> ct_mError c = 0 \<and> int (length as) \<le> ct_mIndex c \<and> list_all is_done as
      | AS_ERROR_STOPPED \<Rightarrow> ct_mError c > 0 \<and> 0 \<le> ct_mIndex c
          \<and> list_all is_done (take (nat (ct_mIndex c)) as)
          \<and> list_all is_fresh (drop (Suc (nat (ct_mIndex c))) as)
      | AS_UNDOING \<Rightarrow> mw \<and> 0 \<le> ct_mIndex c \<and> ct_mIndex c < int (length as)
          \<and> list_all is_done (take (nat (ct_mIndex c)) as)
          \<and> list_all (\<lambda>a. \<not> undoable a) (drop (Suc (nat (ct_mIndex c))) as)
      | AS_UNDO_COMPLETE \<Rightarrow> list_all (\<lambda>a. \<not> undoable a) as)"

declare node_ok.simps [simp del]

fun leaf_ok :: "bool \<Rightarrow> 'p leaf \<Rightarrow> bool" where
  "leaf_ok mw l \<longleftrightarrow> lf_mStatus l \<noteq> AS_ERROR_STOPPED
     \<and> (\<not> mw \<longrightarrow> lf_mStatus l \<noteq> AS_EXECUTING \<and> lf_mStatus l \<noteq> AS_UNDOING)"

fun action_wf :: "bool \<Rightarrow> ('p, 'q) action \<Rightarrow> bool" where
  "action_wf mw (Leaf l) = leaf_ok mw l"
| "action_wf mw (Container c as) \<longleftrightarrow> node_ok mw c as \<and> list_all (action_wf mw) as"

text \<open>
  What the concrete classes promise: a leaf's \<open>_execute\<close> and \<open>_undo\<close> may wait or fail only when
  the flags say so, and a container's \<open>_execute\<close> is never asynchronous, as its documentation
  demands. \<open>fits n\<close> bounds the depth of the tree, children still to be appended included.
\<close>

definition leaf_hooks_ok :: "bool \<Rightarrow> bool \<Rightarrow> ('p, 'q, 't, 'e) action_sys \<Rightarrow> bool" where
  "leaf_hooks_ok mw mf S \<longleftrightarrow>
     (\<forall>l e. (\<not> mw \<longrightarrow> fst (ls_execute (as_leaf S) l e) \<ge> 0 \<and> fst (ls_undo (as_leaf S) l e) \<ge> 0)
          \<and> (\<not> mf \<longrightarrow> fst (ls_execute (as_leaf S) l e) \<le> 0))"

primrec fits :: "nat \<Rightarrow> bool \<Rightarrow> bool \<Rightarrow> ('p, 'q, 't, 'e) action_sys \<Rightarrow> ('p, 'q) action \<Rightarrow> bool" where
  "fits 0 mw mf S a = False"
| "fits (Suc n) mw mf S a =
     (case a of
        Leaf l \<Rightarrow> True
      | Container c as \<Rightarrow>
          (\<not> mf \<longrightarrow> ct_mTimeout c = INFINITE_TIMEOUT) \<and> list_all (fits n mw mf S) as \<and>
          (ct_mStatus c = AS_NOT_STARTED \<longrightarrow>
            (\<forall>start tmo e. case as_execute S (c\<lparr>ct_mTimeout := tmo, ct_mStartTime := start\<rparr>) e of
               (err, q, new, e') \<Rightarrow> err \<ge> 0 \<and> (\<not> mf \<longrightarrow> err = 0) \<and>
                 list_all (\<lambda>a. fits n mw mf S a \<and> action_wf mw a \<and> is_fresh a) new)))"

definition action_good ::
  "nat \<Rightarrow> bool \<Rightarrow> bool \<Rightarrow> ('p, 'q, 't, 'e) action_sys \<Rightarrow> ('p, 'q) action \<Rightarrow> bool" where
  "action_good n mw mf S a \<longleftrightarrow> leaf_hooks_ok mw mf S \<and> action_wf mw a \<and> fits n mw mf S a"

text \<open>How a call of \<open>execute\<close> may leave an action, and what the parent is told.\<close>

definition run_outcome :: "bool \<Rightarrow> bool \<Rightarrow> ('p, 'q) action \<Rightarrow> int option \<Rightarrow> bool" where
  "run_outcome mw mf a m \<longleftrightarrow>
     mw \<and> action_getStatus a = AS_EXECUTING \<and> m = None \<or>
     is_done a \<and> m = Some 0 \<or>
     mf \<and> (action_getStatus a = AS_ERROR_STOPPED \<or> action_getStatus a = AS_COMPLETED)
        \<and> (\<exists>r > 0. m = Some r \<and> action_getError a = r)"

text \<open>How a call of \<open>undo\<close> may leave it.\<close>

definition undo_outcome :: "bool \<Rightarrow> ('p, 'q) action \<Rightarrow> bool" where
  "undo_outcome mw a \<longleftrightarrow> action_getStatus a = AS_UNDO_COMPLETE \<or> mw \<and> action_getStatus a = AS_UNDOING"

lemma action_setTimeout_sel [simp]:
  "action_getStatus (action_setTimeout t a) = action_getStatus a"
  "action_getError (action_setTimeout t a) = action_getError a"
  by (cases a; simp)+

lemma node_ok_timeout [simp]: "node_ok mw (c\<lparr>ct_mTimeout := t\<rparr>) as = node_ok mw c as"
  by (simp add: node_ok.simps split: ActionState_e.splits)

lemma action_wf_timeout [simp]: "action_wf mw (action_setTimeout t a) = action_wf mw a"
  by (cases a) auto

lemma fits_timeout: "mf \<Longrightarrow> fits n mw mf S (action_setTimeout t a) = fits n mw mf S a"
  by (cases n; cases a) auto

lemma is_fresh_timeout [simp]: "is_fresh (action_setTimeout t a) = is_fresh a"
  by (simp add: is_fresh_def)

lemma startable_timeout [simp]: "startable mw (action_setTimeout t a) = startable mw a"
  by (simp add: startable_def)

lemma fresh_not_undoable: "is_fresh a \<Longrightarrow> \<not> undoable a"
  by (simp add: is_fresh_def undoable_def)

section \<open>\<open>update\<close>\<close>

lemma ct_report_eq:
  "ct_report S c w = (c', w', n) \<Longrightarrow>
     c' = c\<lparr>ct_priv := ct_priv c'\<rparr> \<and> n = Some (ct_mError c) \<and> fst w' = fst w"
  by (auto simp: ct_report_def split: prod.splits)

lemma ct_report_sel:
  assumes "ct_report S c w = (c', w', n)"
  shows "ct_mStatus c' = ct_mStatus c \<and> ct_mIndex c' = ct_mIndex c \<and> ct_mError c' = ct_mError c
    \<and> ct_mTimeout c' = ct_mTimeout c \<and> n = Some (ct_mError c)"
proof -
  from ct_report_eq [OF assms] have c': "c' = c\<lparr>ct_priv := ct_priv c'\<rparr>" and n: "n = Some (ct_mError c)"
    by simp_all
  show ?thesis
    by (subst (1 2 3 4) c') (simp add: n)
qed

lemma ct_update_failed:
  assumes "ct_update S r c num w = (c', w', n)" and "ct_mStatus c = AS_EXECUTING" and "r > 0"
  shows "ct_mStatus c' = AS_ERROR_STOPPED \<and> ct_mIndex c' = ct_mIndex c \<and> ct_mError c' = r
    \<and> ct_mTimeout c' = ct_mTimeout c \<and> n = Some r"
  using assms by (auto simp: ct_update_def dest: ct_report_sel)

lemma ct_update_last:
  assumes "ct_update S r c num w = (c', w', n)" and "ct_mStatus c = AS_EXECUTING" and "r \<le> 0"
    and "ct_mIndex c + 1 \<ge> int num"
  shows "ct_mStatus c' = AS_COMPLETED \<and> ct_mError c' = r \<and> ct_mIndex c' = ct_mIndex c + 1
    \<and> ct_mTimeout c' = ct_mTimeout c \<and> n = Some r"
  using assms by (auto simp: ct_update_def dest: ct_report_sel)

lemma ct_update_next:
  assumes "ct_mStatus c = AS_EXECUTING" and "r \<le> 0" and "ct_mIndex c + 1 < int num"
  shows "ct_update S r c num w = (c\<lparr>ct_mError := r, ct_mIndex := ct_mIndex c + 1\<rparr>, w, None)"
  using assms by (auto simp: ct_update_def)

lemma ct_update_undone:
  assumes "ct_update S r c num w = (c', w', n)" and "ct_mStatus c = AS_UNDOING" and "ct_mIndex c < 0"
  shows "ct_mStatus c' = AS_UNDO_COMPLETE \<and> ct_mError c' = r \<and> ct_mTimeout c' = ct_mTimeout c"
  using assms by (auto simp: ct_update_def dest: ct_report_sel)

lemma ct_update_undoing:
  assumes "ct_mStatus c = AS_UNDOING" and "ct_mIndex c \<ge> 0"
  shows "ct_update S r c num w = (c\<lparr>ct_mError := r\<rparr>, w, None)"
  using assms by (auto simp: ct_update_def)

lemma ct_update_idle:
  assumes "ct_mStatus c \<noteq> AS_EXECUTING" and "ct_mStatus c \<noteq> AS_UNDOING"
  shows "ct_update S r c num w = (c\<lparr>ct_mError := r\<rparr>, w, None)"
  using assms by (auto simp: ct_update_def)

section \<open>The loop of \<open>execute\<close>\<close>

text \<open>The state of the loop before a child is run.\<close>

definition node_mid :: "bool \<Rightarrow> 'q container \<Rightarrow> ('p, 'q) action list \<Rightarrow> bool" where
  "node_mid mw c as \<longleftrightarrow> ct_mStatus c = AS_EXECUTING \<and> 0 \<le> ct_mIndex c
     \<and> ct_mIndex c < int (length as) \<and> ct_mError c = 0
     \<and> list_all is_done (take (nat (ct_mIndex c)) as)
     \<and> startable mw (as ! nat (ct_mIndex c))
     \<and> list_all is_fresh (drop (Suc (nat (ct_mIndex c))) as)"

lemma node_mid_waits:
  assumes "node_mid mw c as" and "mw" and "action_getStatus a = AS_EXECUTING"
  shows "node_ok mw c (as[nat (ct_mIndex c) := a])"
  using assms by (auto simp: node_mid_def node_ok.simps startable_def)

lemma node_mid_stops:
  assumes "node_mid mw c as" and "ct_mStatus c' = AS_ERROR_STOPPED" and "ct_mError c' > 0"
    and "ct_mIndex c' = ct_mIndex c" and "as' = as \<or> as' = as[nat (ct_mIndex c) := a]"
  shows "node_ok mw c' as'"
  using assms by (auto simp: node_mid_def node_ok.simps)

lemma node_mid_next:
  assumes "node_mid mw c as" and "is_done a" and "ct_mIndex c + 1 < int (length as)"
  shows "node_mid mw (c\<lparr>ct_mError := 0, ct_mIndex := ct_mIndex c + 1\<rparr>) (as[nat (ct_mIndex c) := a])"
proof -
  from assms(1) have i: "0 \<le> ct_mIndex c" by (simp add: node_mid_def)
  define i where "i = nat (ct_mIndex c)"
  have n: "nat (ct_mIndex c + 1) = Suc i" and lt: "Suc i < length as"
    using i assms(3) by (auto simp: i_def)
  have "drop (Suc i) as = as ! Suc i # drop (Suc (Suc i)) as"
    using lt by (simp add: Cons_nth_drop_Suc)
  then have "is_fresh (as ! Suc i)" and "list_all is_fresh (drop (Suc (Suc i)) as)"
    using assms(1) by (simp_all add: node_mid_def i_def [symmetric])
  moreover have "list_all is_done (take (Suc i) (as[i := a]))"
    using assms(1,2) lt by (intro list_all_take_update) (simp_all add: node_mid_def i_def)
  ultimately show ?thesis
    using assms(1) i lt unfolding node_mid_def i_def [symmetric]
    by (simp add: n startable_def i_def)
qed

lemma node_mid_last:
  assumes "node_mid mw c as" and "is_done a" and "\<not> ct_mIndex c + 1 < int (length as)"
    and "ct_mStatus c' = AS_COMPLETED" and "ct_mError c' = 0" and "ct_mIndex c' = ct_mIndex c + 1"
  shows "node_ok mw c' (as[nat (ct_mIndex c) := a])"
proof -
  define i where "i = nat (ct_mIndex c)"
  have lt: "i < length as" "Suc i = length as"
    using assms(1,3) by (auto simp: i_def node_mid_def)
  have "list_all is_done (take (Suc i) (as[i := a]))"
    using assms(1,2) lt(1) by (intro list_all_take_update) (simp_all add: node_mid_def i_def)
  with lt(2) assms(3-6) show ?thesis by (simp add: node_ok.simps i_def)
qed

definition loop_result where
  "loop_result good mw mf c as r \<longleftrightarrow> (\<exists>c' as' w' n. r = Some (c', as', w', n) \<and> list_all good as'
     \<and> ct_mTimeout c' = ct_mTimeout c \<and> node_ok mw c' as' \<and> run_outcome mw mf (Container c' as') n)"

definition execute_result where
  "execute_result good mw mf c r \<longleftrightarrow> (\<exists>c' as' w' m. r = Some (Container c' as', w', m) \<and> list_all good as'
     \<and> ct_mTimeout c' = ct_mTimeout c \<and> ct_mStatus c' \<noteq> AS_NOT_STARTED \<and> node_ok mw c' as'
     \<and> run_outcome mw mf (Container c' as') m)"

lemma run_outcome_started: "run_outcome mw mf a m \<Longrightarrow> action_getStatus a \<noteq> AS_NOT_STARTED"
  by (auto simp: run_outcome_def is_done_def)

declare ct_loop.simps(2) [simp del]

locale action_runner =
  fixes run :: "('p, 'q, 't, 'e) stepper"
    and good :: "('p, 'q) action \<Rightarrow> bool"
    and mw mf :: bool
  assumes run_ok: "good a \<Longrightarrow> startable mw a \<Longrightarrow>
      \<exists>a' w' m. run a w = Some (a', w', m) \<and> good a' \<and> run_outcome mw mf a' m"
    and good_timeout: "mf \<Longrightarrow> good (action_setTimeout t a) = good a"
begin

lemma loop_ok:
  assumes "node_mid mw c as" and "list_all good as"
    and "\<not> mf \<longrightarrow> ct_mTimeout c = INFINITE_TIMEOUT"
    and "int (length as) \<le> ct_mIndex c + int k"
  shows "loop_result good mw mf c as (ct_loop k S run c as w)"
  using assms
proof (induction k arbitrary: c as w)
  case 0
  then show ?case by (simp add: node_mid_def)
next
  case (Suc k)
  define i where "i = nat (ct_mIndex c)"
  define elapsed where "elapsed = action_getExecutionTime (Container c as)"
  define child1 where "child1 = (if ct_mTimeout c \<noteq> INFINITE_TIMEOUT \<and> is_fresh (as ! i)
    then action_setTimeout (ct_mTimeout c - elapsed) (as ! i) else as ! i)"
  have mid: "ct_mStatus c = AS_EXECUTING" "0 \<le> ct_mIndex c" "ct_mIndex c < int (length as)"
    "startable mw (as ! i)" "i < length as"
    using Suc.prems(1) by (auto simp: node_mid_def i_def)
  show ?case
  proof (cases "ct_mTimeout c \<noteq> INFINITE_TIMEOUT \<and> elapsed > ct_mTimeout c")
    case True
    obtain c1 w1 n where u: "ct_update S (error_code E_ABORTED) c (length as) w = (c1, w1, n)"
      by (metis prod_cases3)
    have "ct_loop (Suc k) S run c as w = Some (c1, as, w1, n)"
      using mid True u by (simp add: ct_loop.simps(2) elapsed_def)
    moreover from ct_update_failed [OF u mid(1)]
    have "ct_mStatus c1 = AS_ERROR_STOPPED" "ct_mIndex c1 = ct_mIndex c" "ct_mError c1 = 9"
      "ct_mTimeout c1 = ct_mTimeout c" "n = Some 9" by simp_all
    ultimately show ?thesis
      using Suc.prems True node_mid_stops [OF Suc.prems(1), of c1 as]
      by (auto simp: loop_result_def run_outcome_def)
  next
    case False
    have "good (as ! i)"
      using Suc.prems(2) mid(5) by (simp add: list_all_length)
    then have c1: "good child1" "startable mw child1"
      using good_timeout mid(4) Suc.prems(3) by (auto simp: child1_def)
    obtain a w1 m where r: "run child1 w = Some (a, w1, m)" and ga: "good a"
        and out: "run_outcome mw mf a m"
      using run_ok [OF c1] by blast
    obtain c1 w2 n where nt: "ct_notified S m c (length as) w1 = (c1, w2, n)"
      by (metis prod_cases3)
    have step: "ct_loop (Suc k) S run c as w =
        (if action_getStatus a = AS_EXECUTING \<or> ct_mStatus c1 \<noteq> AS_EXECUTING
         then Some (c1, as[i := a], w2, n) else ct_loop k S run c1 (as[i := a]) w2)"
      using mid False r nt
      by (auto simp del: action_getExecutionTime.simps simp add: ct_loop.simps(2) Let_def
            child1_def is_fresh_def elapsed_def [symmetric] i_def [symmetric] split: if_splits)
    have good': "list_all good (as[i := a])"
        using Suc.prems(2) ga by (rule list_all_update)
    consider (waits) "mw" "action_getStatus a = AS_EXECUTING" "m = None"
      | (finishes) "is_done a" "m = Some 0"
      | (fails) r where "mf" "m = Some r" "r > 0"
      using out by (auto simp: run_outcome_def)
    then show ?thesis
    proof cases
      case waits
      with nt step node_mid_waits [OF Suc.prems(1) waits(1,2)] good' mid(1) show ?thesis
        by (auto simp: loop_result_def ct_notified_def run_outcome_def i_def)
    next
      case fails
      with nt have u: "ct_update S r c (length as) w1 = (c1, w2, n)" by (simp add: ct_notified_def)
      from ct_update_failed [OF u mid(1) fails(3)] fails step good'
        node_mid_stops [OF Suc.prems(1), of c1 "as[i := a]" a]
      show ?thesis by (auto simp: loop_result_def run_outcome_def i_def)
    next
      case finishes
      with nt have u: "ct_update S 0 c (length as) w1 = (c1, w2, n)" by (simp add: ct_notified_def)
      show ?thesis
      proof (cases "ct_mIndex c + 1 < int (length as)")
        case True
        with u ct_update_next [OF mid(1) _ True, of 0 S w1]
        have c1: "c1 = c\<lparr>ct_mError := 0, ct_mIndex := ct_mIndex c + 1\<rparr>" by simp
        have "action_getStatus a \<noteq> AS_EXECUTING" using finishes(1) by (simp add: is_done_def)
        then have "ct_loop (Suc k) S run c as w = ct_loop k S run c1 (as[i := a]) w2"
          using step mid(1) c1 by simp
        moreover have "loop_result good mw mf c1 (as[i := a]) (ct_loop k S run c1 (as[i := a]) w2)"
          using Suc.prems node_mid_next [OF Suc.prems(1) finishes(1) True] good'
          by (intro Suc.IH) (simp_all add: c1 i_def)
        ultimately show ?thesis by (simp add: loop_result_def c1)
      next
        case False
        from ct_update_last [OF u mid(1)] False
        have s: "ct_mStatus c1 = AS_COMPLETED" "ct_mError c1 = 0" "ct_mTimeout c1 = ct_mTimeout c"
          "n = Some 0" "ct_mIndex c1 = ct_mIndex c + 1" by simp_all
        from node_mid_last [OF Suc.prems(1) finishes(1) False s(1,2,5)] s step good' show ?thesis
          by (auto simp: loop_result_def run_outcome_def i_def is_done_def)
      qed
    qed
  qed
qed

lemma start_ok:
  assumes "ct_start S c as w = (c1, as1, w1, n)" and "ct_mStatus c = AS_NOT_STARTED"
    and "node_ok mw c as" and "list_all good as"
    and "\<forall>start e. case as_execute S (c\<lparr>ct_mStartTime := start\<rparr>) e of
          (err, q, new, e') \<Rightarrow> err \<ge> 0 \<and> (\<not> mf \<longrightarrow> err = 0) \<and> list_all (\<lambda>a. good a \<and> is_fresh a) new"
  shows "list_all good as1 \<and> list_all is_fresh as1 \<and> ct_mTimeout c1 = ct_mTimeout c
    \<and> ct_mIndex c1 = 0
    \<and> (ct_mStatus c1 = AS_EXECUTING \<and> ct_mError c1 = 0 \<and> n = None
       \<or> mf \<and> ct_mStatus c1 = AS_ERROR_STOPPED \<and> ct_mError c1 > 0 \<and> n = Some (ct_mError c1))"
proof -
  obtain t e where w: "w = (t, e)" by (cases w)
  obtain start e1 where cl: "ls_clock (as_leaf S) e = (start, e1)" by (metis surj_pair)
  obtain err q new e2 where h: "as_execute S (c\<lparr>ct_mStartTime := start\<rparr>) e1 = (err, q, new, e2)"
    by (metis prod_cases4)
  obtain now e3 where cl2: "ls_clock (as_leaf S) e2 = (now, e3)" by (metis surj_pair)
  from assms(5) h have err: "err \<ge> 0" "\<not> mf \<longrightarrow> err = 0" and new: "list_all (\<lambda>a. good a \<and> is_fresh a) new"
    by (auto dest!: spec [of _ start] spec [of _ e1])
  define c2 where "c2 = c\<lparr>ct_mStartTime := start, ct_priv := q, ct_mError := err,
      ct_mExecutionTime := calculateTimeDifference start now, ct_mStatus := AS_EXECUTING\<rparr>"
  have idx: "ct_mIndex c = 0" and fr: "list_all is_fresh as"
    using assms(2,3) by (simp_all add: node_ok.simps)
  have lists: "list_all good (as @ new)" "list_all is_fresh (as @ new)"
    using assms(4) fr new by (auto simp: list_all_iff)
  have st: "ct_start S c as w = (if err \<noteq> 0
      then (case ct_update S err c2 (length (as @ new)) (t, e3) of (c3, w3, n) \<Rightarrow> (c3, as @ new, w3, n))
      else (c2, as @ new, (t, e3), None))"
    by (simp add: ct_start_def w cl h cl2 c2_def split: prod.splits)
  show ?thesis
  proof (cases "err = 0")
    case True
    with st assms(1) have "c1 = c2" "as1 = as @ new" "n = None" by simp_all
    with lists idx True show ?thesis by (simp add: c2_def)
  next
    case False
    with err have pos: "err > 0" "mf" by auto
    from False st assms(1) have as1: "as1 = as @ new"
      and u: "ct_update S err c2 (length (as @ new)) (t, e3) = (c1, w1, n)"
      by (auto split: prod.splits)
    from ct_update_failed [OF u] pos have "ct_mStatus c1 = AS_ERROR_STOPPED" "ct_mIndex c1 = ct_mIndex c2"
      "ct_mError c1 = err" "ct_mTimeout c1 = ct_mTimeout c2" "n = Some err"
      by (simp_all add: c2_def)
    with pos lists idx as1 show ?thesis by (simp add: c2_def)
  qed
qed

lemma executing_ok:
  assumes "node_mid mw c as" and "list_all good as" and "\<not> mf \<longrightarrow> ct_mTimeout c = INFINITE_TIMEOUT"
    and "ct_mTimeout c = ct_mTimeout c0"
  shows "execute_result good mw mf c0 (case ct_run S run c as w of None \<Rightarrow> None
      | Some (c2, as2, w2, n2) \<Rightarrow> Some (Container c2 as2, w2, case n2 of None \<Rightarrow> None | Some r \<Rightarrow> Some r))"
proof -
  have "ct_run S run c as w = ct_loop (length as) S run c as w"
    using assms(1) by (simp add: ct_run_def node_mid_def)
  moreover have "loop_result good mw mf c as (ct_loop (length as) S run c as w)"
    using assms by (intro loop_ok) (auto simp: node_mid_def)
  ultimately show ?thesis
    using assms(4) by (auto simp: loop_result_def execute_result_def dest: run_outcome_started
        split: option.splits)
qed

lemma execute_ok:
  assumes "startable mw (Container c as)" and "node_ok mw c as" and "list_all good as"
    and inf: "\<not> mf \<longrightarrow> ct_mTimeout c = INFINITE_TIMEOUT"
    and hooks: "ct_mStatus c = AS_NOT_STARTED \<Longrightarrow>
        \<forall>start e. case as_execute S (c\<lparr>ct_mStartTime := start\<rparr>) e of
          (err, q, new, e') \<Rightarrow> err \<ge> 0 \<and> (\<not> mf \<longrightarrow> err = 0) \<and> list_all (\<lambda>a. good a \<and> is_fresh a) new"
  shows "execute_result good mw mf c (ct_execute S run c as w)"
proof (cases "ct_mStatus c = AS_NOT_STARTED")
  case False
  with assms(1,2) have "node_mid mw c as"
    by (auto simp: startable_def is_fresh_def node_ok.simps node_mid_def)
  with executing_ok [OF this assms(3) inf refl, of S w] False show ?thesis
    by (simp add: ct_execute_def)
next
  case True
  obtain c1 as1 w1 n where st: "ct_start S c as w = (c1, as1, w1, n)" by (metis prod_cases4)
  note ok = start_ok [OF st True assms(2,3) hooks [OF True]]
  have ex: "ct_execute S run c as w = (case ct_run S run c1 as1 w1 of None \<Rightarrow> None
      | Some (c2, as2, w2, n2) \<Rightarrow> Some (Container c2 as2, w2, case n2 of None \<Rightarrow> n | Some r \<Rightarrow> Some r))"
    using True st by (simp add: ct_execute_def)
  consider (stopped) "ct_mStatus c1 = AS_ERROR_STOPPED" "ct_mError c1 > 0" "n = Some (ct_mError c1)" mf
    | (empty) "ct_mStatus c1 = AS_EXECUTING" "ct_mError c1 = 0" "n = None" "as1 = []"
    | (runs) "ct_mStatus c1 = AS_EXECUTING" "ct_mError c1 = 0" "n = None" "as1 \<noteq> []"
    using ok by blast
  then show ?thesis
  proof cases
    case stopped
    with ex ok show ?thesis
      by (auto simp: ct_run_def execute_result_def node_ok.simps run_outcome_def list_all_iff
          dest: in_set_dropD)
  next
    case empty
    obtain c2 w2 m where u: "ct_update S (ct_mError c1) c1 (length as1) w1 = (c2, w2, m)"
      by (metis prod_cases3)
    have "ct_run S run c1 as1 w1 = Some (c2, as1, w2, m)"
      using empty ok u by (simp add: ct_run_def)
    moreover have "ct_mStatus c2 = AS_COMPLETED \<and> ct_mError c2 = 0 \<and> ct_mTimeout c2 = ct_mTimeout c1
        \<and> ct_mIndex c2 = 1 \<and> m = Some 0"
      using ct_update_last [OF u] empty ok by simp
    ultimately show ?thesis
      using ex ok empty(4)
      by (auto simp: execute_result_def node_ok.simps run_outcome_def is_done_def)
  next
    case runs
    then obtain x xs where as1: "as1 = x # xs" by (cases as1) auto
    with runs ok have "node_mid mw c1 as1"
      by (auto simp: node_mid_def startable_def)
    from executing_ok [OF this, of c S w1] ok inf
    show ?thesis unfolding ex runs(3) by simp
  qed
qed

end

section \<open>\<open>execute\<close> meets the contract at every depth\<close>

lemma leaf_execute_error:
  assumes "leaf_execute L l w = (l', w', n)" and "lf_mStatus l = AS_NOT_STARTED"
  shows "\<exists>l2 e. lf_mError l' = fst (ls_execute L l2 e)"
  using assms
  by (auto simp: leaf_execute_def Let_def split: prod.splits if_splits dest!: leaf_disarm_sel(2))
    (metis fst_conv)+

lemma leaf_runner_ok:
  fixes S :: "('p, 'q, 't, 'e) action_sys"
  assumes "action_good n mw mf S (Leaf l)" and "startable mw (Leaf l :: ('p, 'q) action)"
  shows "\<exists>l' w' m. leaf_execute (as_leaf S) l w = (l', w', m) \<and> action_good n mw mf S (Leaf l')
    \<and> run_outcome mw mf (Leaf l' :: ('p, 'q) action) m"
proof -
  have good: "leaf_hooks_ok mw mf S" "leaf_ok mw l" and n: "\<exists>k. n = Suc k"
    using assms(1) by (cases n; simp add: action_good_def)+
  obtain l' w' m where x: "leaf_execute (as_leaf S) l w = (l', w', m)" by (metis prod_cases3)
  have "leaf_ok mw l' \<and> run_outcome mw mf (Leaf l' :: ('p, 'q) action) m"
  proof (cases "lf_mStatus l = AS_NOT_STARTED")
    case False
    with assms(2) good x show ?thesis
      by (auto simp: leaf_execute_def startable_def is_fresh_def run_outcome_def)
  next
    case True
    obtain l2 e where "lf_mError l' = fst (ls_execute (as_leaf S) l2 e)"
      using leaf_execute_error [OF x True] by blast
    with good(1) have "\<not> mw \<Longrightarrow> lf_mError l' \<ge> 0" "\<not> mf \<Longrightarrow> lf_mError l' \<le> 0"
      by (auto simp: leaf_hooks_ok_def)
    with leaf_execute_outcome [OF x True] show ?thesis
      by (cases "lf_mError l' = 0"; cases mw; cases mf)
        (auto simp: run_outcome_def is_done_def)
  qed
  with good n x show ?thesis by (auto simp: action_good_def)
qed

lemma fits_Suc_container:
  assumes "action_good (Suc n) mw mf S (Container c as)"
  shows "node_ok mw c as" "list_all (action_good n mw mf S) as"
    "\<not> mf \<longrightarrow> ct_mTimeout c = INFINITE_TIMEOUT" "leaf_hooks_ok mw mf S"
  using assms by (auto simp: action_good_def list_all_iff)

lemma action_good_container:
  assumes "list_all (action_good n mw mf S) as" and "node_ok mw c as" and "leaf_hooks_ok mw mf S"
    and "\<not> mf \<longrightarrow> ct_mTimeout c = INFINITE_TIMEOUT" and "ct_mStatus c \<noteq> AS_NOT_STARTED"
  shows "action_good (Suc n) mw mf S (Container c as)"
  using assms by (auto simp: action_good_def list_all_iff)

lemma fits_hooks:
  assumes "action_good (Suc n) mw mf S (Container c as)" and "ct_mStatus c = AS_NOT_STARTED"
  shows "\<forall>start e. case as_execute S (c\<lparr>ct_mStartTime := start\<rparr>) e of
    (err, q, new, e') \<Rightarrow> err \<ge> 0 \<and> (\<not> mf \<longrightarrow> err = 0) \<and>
      list_all (\<lambda>a. action_good n mw mf S a \<and> is_fresh a) new"
proof (intro allI)
  fix start e
  have eq: "c\<lparr>ct_mTimeout := ct_mTimeout c, ct_mStartTime := start\<rparr> = c\<lparr>ct_mStartTime := start\<rparr>" by simp
  have "case as_execute S (c\<lparr>ct_mTimeout := ct_mTimeout c, ct_mStartTime := start\<rparr>) e of
    (err, q, new, e') \<Rightarrow> err \<ge> 0 \<and> (\<not> mf \<longrightarrow> err = 0) \<and>
      list_all (\<lambda>a. fits n mw mf S a \<and> action_wf mw a \<and> is_fresh a) new"
    by (rule assms(1) [unfolded action_good_def fits.simps action.case, THEN conjunct2, THEN conjunct2,
          THEN conjunct2, THEN conjunct2, rule_format, OF assms(2)])
  then show "case as_execute S (c\<lparr>ct_mStartTime := start\<rparr>) e of
    (err, q, new, e') \<Rightarrow> err \<ge> 0 \<and> (\<not> mf \<longrightarrow> err = 0) \<and>
      list_all (\<lambda>a. action_good n mw mf S a \<and> is_fresh a) new"
    unfolding eq using fits_Suc_container(4) [OF assms(1)]
    by (auto simp: action_good_def list_all_iff)
qed

lemma action_good_timeout:
  "mf \<Longrightarrow> action_good n mw mf S (action_setTimeout t a) = action_good n mw mf S a"
  by (simp add: action_good_def fits_timeout)

lemma action_execute_ok:
  "action_good n mw mf S a \<Longrightarrow> startable mw a \<Longrightarrow>
   \<exists>a' w' m. action_execute n S a w = Some (a', w', m) \<and> action_good n mw mf S a' \<and>
     run_outcome mw mf a' m"
proof (induction n arbitrary: a w)
  case 0
  then show ?case by (simp add: action_good_def)
next
  case (Suc n)
  show ?case
  proof (cases a)
    case (Leaf l)
    obtain l' w' m where "leaf_execute (as_leaf S) l w = (l', w', m)"
        "action_good (Suc n) mw mf S (Leaf l')"
        "run_outcome mw mf (Leaf l' :: ('a, 'b) action) m"
      using leaf_runner_ok [OF Suc.prems [unfolded Leaf]] by blast
    then show ?thesis by (auto simp: Leaf)
  next
    case (Container c as)
    have runner: "action_runner (action_execute n S) (action_good n mw mf S) mw mf"
      by (rule action_runner.intro) (use Suc.IH action_good_timeout in blast)+
    note good = Suc.prems(1) [unfolded Container] and st = Suc.prems(2) [unfolded Container]
    have "execute_result (action_good n mw mf S) mw mf c (ct_execute S (action_execute n S) c as w)"
      by (rule action_runner.execute_ok [OF runner st fits_Suc_container(1-3) [OF good]
            fits_hooks [OF good]])
    then obtain c' as' w' m where r: "ct_execute S (action_execute n S) c as w = Some (Container c' as', w', m)"
      and ok: "list_all (action_good n mw mf S) as'" "ct_mTimeout c' = ct_mTimeout c"
        "ct_mStatus c' \<noteq> AS_NOT_STARTED" "node_ok mw c' as'"
        "run_outcome mw mf (Container c' as') m"
      by (auto simp: execute_result_def)
    from fits_Suc_container [OF Suc.prems(1) [unfolded Container]] ok
    have "action_good (Suc n) mw mf S (Container c' as')"
      by (intro action_good_container) auto
    with r ok(5) show ?thesis by (simp add: Container)
  qed
qed

interpretation ex: action_runner "action_execute n S" "action_good n mw mf S" mw mf
  for n mw mf and S :: "('p, 'q, 't, 'e) action_sys"
  by unfold_locales (use action_execute_ok action_good_timeout in blast)+

section \<open>The loop of \<open>undo\<close>\<close>

definition undo_result where
  "undo_result good mw c r \<longleftrightarrow> (\<exists>c' as' w' n. r = Some (c', as', w', n) \<and> list_all good as'
     \<and> ct_mTimeout c' = ct_mTimeout c \<and> node_ok mw c' as'
     \<and> (ct_mStatus c' = AS_UNDO_COMPLETE \<or> mw \<and> ct_mStatus c' = AS_UNDOING))"

declare ct_undo_loop.simps(2) [simp del]

lemma ct_notified_undoing:
  assumes "ct_mStatus c = AS_UNDOING" and "ct_mIndex c \<ge> 0"
  shows "\<exists>r. ct_notified S m c num w = (c\<lparr>ct_mError := r\<rparr>, w, None)"
proof (cases m)
  case None
  then have "ct_notified S m c num w = (c\<lparr>ct_mError := ct_mError c\<rparr>, w, None)"
    by (simp add: ct_notified_def)
  then show ?thesis by blast
qed (use assms in \<open>auto simp: ct_notified_def ct_update_undoing\<close>)

locale action_undoer =
  fixes un :: "('p, 'q, 't, 'e) stepper"
    and good :: "('p, 'q) action \<Rightarrow> bool"
    and mw :: bool
  assumes undo_ok: "good a \<Longrightarrow> undoable a \<Longrightarrow>
      \<exists>a' w' m. un a w = Some (a', w', m) \<and> good a' \<and> undo_outcome mw a'"
begin

lemma undo_loop_ok:
  assumes "ct_mStatus c = AS_UNDOING" and "ct_mIndex c = int n - 1" and "n \<le> length as"
    and "list_all good as" and "list_all (\<lambda>a. \<not> undoable a) (drop n as)"
    and "list_all is_done (take (n - 1) as)"
  shows "undo_result good mw c (ct_undo_loop n S un c as w)"
  using assms
proof (induction n arbitrary: c as w)
  case 0
  obtain c1 w1 m where u: "ct_update S (ct_mError c) c (length as) w = (c1, w1, m)"
    by (metis prod_cases3)
  from ct_update_undone [OF u] 0 have "ct_mStatus c1 = AS_UNDO_COMPLETE" "ct_mTimeout c1 = ct_mTimeout c"
    by simp_all
  with u 0 show ?case by (simp add: undo_result_def node_ok.simps)
next
  case (Suc i)
  have i: "i < length as" "ct_mIndex c = int i" using Suc.prems by simp_all
  have dr: "drop i as = as ! i # drop (Suc i) as" using i by (simp add: Cons_nth_drop_Suc)
  have before: "list_all is_done (take (i - 1) as)"
    using list_all_take_mono [OF Suc.prems(6)] by simp
  show ?case
  proof (cases "undoable (as ! i)")
    case False
    let ?c = "c\<lparr>ct_mIndex := ct_mIndex c - 1\<rparr>"
    have "undo_result good mw ?c (ct_undo_loop i S un ?c as w)"
      using Suc.prems False dr before by (intro Suc.IH) simp_all
    with False show ?thesis by (simp add: ct_undo_loop.simps(2) undo_result_def)
  next
    case True
    have "good (as ! i)" using Suc.prems(4) i by (simp add: list_all_length)
    then obtain a w1 m where r: "un (as ! i) w = Some (a, w1, m)" and ga: "good a"
        and out: "undo_outcome mw a"
      using undo_ok True by blast
    obtain r where nt: "ct_notified S m c (length as) w1 = (c\<lparr>ct_mError := r\<rparr>, w1, None)"
      using ct_notified_undoing [of c S m "length as" w1] Suc.prems(1) i(2) by auto
    have good': "list_all good (as[i := a])" using Suc.prems(4) ga by (rule list_all_update)
    show ?thesis
    proof (cases "action_getStatus a = AS_UNDO_COMPLETE")
      case True
      let ?c = "c\<lparr>ct_mError := r, ct_mIndex := ct_mIndex c - 1\<rparr>"
      have "drop i (as[i := a]) = a # drop (Suc i) as"
        using i by (simp add: Cons_nth_drop_Suc [symmetric])
      moreover have "\<not> undoable a" using True by (simp add: undoable_def)
      ultimately have "undo_result good mw ?c (ct_undo_loop i S un ?c (as[i := a]) w1)"
        using Suc.prems good' before by (intro Suc.IH) simp_all
      with True \<open>undoable (as ! i)\<close> r nt show ?thesis
        by (simp add: ct_undo_loop.simps(2) undo_result_def)
    next
      case False
      with out have mw: "mw" by (simp add: undo_outcome_def)
      have "node_ok mw (c\<lparr>ct_mError := r\<rparr>) (as[i := a])"
        using Suc.prems i mw by (simp add: node_ok.simps)
      with False \<open>undoable (as ! i)\<close> r nt good' mw Suc.prems(1) show ?thesis
        by (simp add: ct_undo_loop.simps(2) undo_result_def)
    qed
  qed
qed

lemma undo_container_ok:
  assumes "undoable (Container c as)" and "node_ok mw c as" and "list_all good as"
  shows "\<exists>c' as' w' m. ct_undo S un c as w = Some (Container c' as', w', m) \<and> list_all good as'
     \<and> ct_mTimeout c' = ct_mTimeout c \<and> node_ok mw c' as' \<and> ct_mStatus c' \<noteq> AS_NOT_STARTED
     \<and> undo_outcome mw (Container c' as')"
proof -
  obtain c1 w1 where st: "ct_undo_start S c (length as) w = (c1, w1)" by (metis surj_pair)
  have c1: "ct_mTimeout c1 = ct_mTimeout c \<and> ct_mIndex c1 = ct_mIndex c \<and>
      (as \<noteq> [] \<longrightarrow> ct_mStatus c1 = AS_UNDOING) \<and> (as = [] \<longrightarrow> ct_mStatus c1 = AS_UNDO_COMPLETE)"
    using st assms(1,2)
    by (auto simp: ct_undo_start_def Let_def undoable_def node_ok.simps split: prod.splits if_splits)
  show ?thesis
  proof (cases "as = []")
    case True
    with st c1 ct_update_idle [of c1 S "ct_mError c1" "length as" w1] show ?thesis
      by (simp add: ct_undo_def node_ok.simps undo_outcome_def)
  next
    case False
    define c2 where "c2 = (if ct_mIndex c1 < 0 \<or> ct_mIndex c1 \<ge> int (length as)
        then c1\<lparr>ct_mIndex := int (length as) - 1\<rparr> else c1)"
    have c2: "ct_mStatus c2 = AS_UNDOING" "ct_mTimeout c2 = ct_mTimeout c" "0 \<le> ct_mIndex c2"
      "ct_mIndex c2 < int (length as)"
      using c1 False by (auto simp: c2_def)
    have rest: "list_all (\<lambda>a. \<not> undoable a) (drop (nat (ct_mIndex c2 + 1)) as)"
    proof (cases "ct_mIndex c1 < 0 \<or> ct_mIndex c1 \<ge> int (length as)")
      case True
      then show ?thesis by (simp add: c2_def)
    next
      case False
      then have "nat (ct_mIndex c2 + 1) = Suc (nat (ct_mIndex c))"
        using c1 by (simp add: c2_def nat_add_distrib)
      with False c1 assms(1,2) show ?thesis
        by (auto simp: undoable_def [of "Container c as"] node_ok.simps list_all_iff
            fresh_not_undoable)
    qed
    have "list_all is_done (take (nat (ct_mIndex c2 + 1) - 1) as)"
    proof (cases "ct_mStatus c = AS_COMPLETED")
      case True
      with assms(2) show ?thesis by (auto simp: node_ok.simps list_all_iff dest: in_set_takeD)
    next
      case False
      with assms(1,2) have t: "0 \<le> ct_mIndex c" "list_all is_done (take (nat (ct_mIndex c)) as)"
        by (auto simp: undoable_def node_ok.simps)
      have "nat (ct_mIndex c2 + 1) - 1 \<le> nat (ct_mIndex c)"
        using c1 t(1) by (auto simp: c2_def)
      then show ?thesis by (rule list_all_take_mono [OF t(2)])
    qed
    then have "undo_result good mw c2 (ct_undo_loop (nat (ct_mIndex c2 + 1)) S un c2 as w1)"
      using c2 assms(3) rest by (intro undo_loop_ok) simp_all
    moreover have "ct_undo S un c as w = (case ct_undo_loop (nat (ct_mIndex c2 + 1)) S un c2 as w1 of
        None \<Rightarrow> None | Some (c3, as3, w3, n) \<Rightarrow> Some (Container c3 as3, w3, n))"
      using st c1 False unfolding ct_undo_def c2_def Let_def by simp
    ultimately show ?thesis
      using c2(2) by (auto simp: undo_result_def undo_outcome_def)
  qed
qed

end

section \<open>\<open>undo\<close> meets the contract at every depth\<close>

lemma leaf_undo_error:
  assumes "leaf_undo L l w = (l', w', n)" and "lf_mStatus l = AS_COMPLETED"
  shows "lf_mError l' = lf_mError l \<or> (\<exists>l2 e. lf_mError l' = fst (ls_undo L l2 e))"
  using assms
  by (auto simp: leaf_undo_def Let_def split: prod.splits if_splits dest!: leaf_disarm_sel(2))
    (metis fst_conv)+

lemma leaf_undoer_ok:
  fixes S :: "('p, 'q, 't, 'e) action_sys"
  assumes "action_good n mw mf S (Leaf l)" and "undoable (Leaf l :: ('p, 'q) action)"
  shows "\<exists>l' w' m. leaf_undo (as_leaf S) l w = (l', w', m) \<and> action_good n mw mf S (Leaf l')
    \<and> undo_outcome mw (Leaf l' :: ('p, 'q) action)"
proof -
  have good: "leaf_hooks_ok mw mf S" "leaf_ok mw l" and n: "\<exists>k. n = Suc k"
    using assms(1) by (cases n; simp add: action_good_def)+
  obtain l' w' m where x: "leaf_undo (as_leaf S) l w = (l', w', m)" by (metis prod_cases3)
  have "leaf_ok mw l' \<and> undo_outcome mw (Leaf l' :: ('p, 'q) action)"
  proof (cases "lf_mStatus l = AS_COMPLETED")
    case False
    with assms(2) good x show ?thesis
      by (auto simp: leaf_undo_def undoable_def undo_outcome_def)
  next
    case True
    with assms(2) have "lf_mError l = 0" by (simp add: undoable_def)
    with leaf_undo_error [OF x True] good(1) have "\<not> mw \<Longrightarrow> lf_mError l' \<ge> 0"
      by (auto simp: leaf_hooks_ok_def)
    with leaf_undo_outcome [OF x True] show ?thesis by (cases mw) (auto simp: undo_outcome_def)
  qed
  with good n x show ?thesis by (auto simp: action_good_def)
qed

lemma action_undo_ok:
  "action_good n mw mf S a \<Longrightarrow> undoable a \<Longrightarrow>
   \<exists>a' w' m. action_undo n S a w = Some (a', w', m) \<and> action_good n mw mf S a' \<and> undo_outcome mw a'"
proof (induction n arbitrary: a w)
  case 0
  then show ?case by (simp add: action_good_def)
next
  case (Suc n)
  show ?case
  proof (cases a)
    case (Leaf l)
    obtain l' w' m where "leaf_undo (as_leaf S) l w = (l', w', m)"
        "action_good (Suc n) mw mf S (Leaf l')" "undo_outcome mw (Leaf l' :: ('a, 'b) action)"
      using leaf_undoer_ok [OF Suc.prems [unfolded Leaf]] by blast
    then show ?thesis by (auto simp: Leaf)
  next
    case (Container c as)
    have undoer: "action_undoer (action_undo n S) (action_good n mw mf S) mw"
      by (rule action_undoer.intro) (use Suc.IH in blast)
    note good = Suc.prems(1) [unfolded Container] and ub = Suc.prems(2) [unfolded Container]
    obtain c' as' w' m where r: "ct_undo S (action_undo n S) c as w = Some (Container c' as', w', m)"
      and ok: "list_all (action_good n mw mf S) as'" "ct_mTimeout c' = ct_mTimeout c"
        "ct_mStatus c' \<noteq> AS_NOT_STARTED" "node_ok mw c' as'" "undo_outcome mw (Container c' as')"
      using action_undoer.undo_container_ok [OF undoer ub fits_Suc_container(1,2) [OF good], of S w]
      by blast
    have "action_good (Suc n) mw mf S (Container c' as')"
      using fits_Suc_container [OF good] ok by (intro action_good_container) auto
    with r ok(5) show ?thesis by (simp add: Container)
  qed
qed

interpretation un: action_undoer "action_undo n S" "action_good n mw mf S" mw
  for n mw mf and S :: "('p, 'q, 't, 'e) action_sys"
  by unfold_locales (use action_undo_ok in blast)

end
