(* ===== verification/Root_Loop.thy ===== *)
theory Root_Loop
  imports Action_Tree Trigger_Queue
begin

text \<open>
  \<open>CAmRootAction\<close> and the main loop \<open>CAmControllerPlugin::iterateActions\<close>. The root action is a
  container like any other but for its \<open>_cleanup\<close>; here the member \<open>None\<close> of a container marks the
  root class and \<open>Some q\<close> the members of another class. The policy that turns a trigger into
  actions is a parameter: it is given the trigger and may append actions to the root, queue
  triggers and change the environment.
\<close>

section \<open>The root action\<close>

definition root_new :: "'q option container" where
  "root_new = container_new ''RootAction'' None"

definition root_cleanup :: "'q container \<Rightarrow> 'q container" where
  "root_cleanup c = c\<lparr>ct_mStatus := AS_NOT_STARTED, ct_mError := 0\<rparr>"

definition rooted :: "('p, 'q option, 't, 'e) action_sys \<Rightarrow> ('p, 'q option, 't, 'e) action_sys" where
  "rooted S = S\<lparr>
     as_execute := (\<lambda>c e. if ct_priv c = None then (0, None, [], e) else as_execute S c e),
     as_undo := (\<lambda>c e. if ct_priv c = None then (0, None, e) else as_undo S c e),
     as_update := (\<lambda>c r e. if ct_priv c = None then (None, e) else as_update S c r e),
     as_cleanup := (\<lambda>c e. if ct_priv c = None then (root_cleanup c, e) else as_cleanup S c e)\<rparr>"

lemma rooted_sel [simp]:
  "as_leaf (rooted S) = as_leaf S"
  "ct_priv c = None \<Longrightarrow> as_execute (rooted S) c e = (0, None, [], e)"
  "ct_priv c = None \<Longrightarrow> as_undo (rooted S) c e = (0, None, e)"
  "ct_priv c = None \<Longrightarrow> as_update (rooted S) c r e = (None, e)"
  "ct_priv c = None \<Longrightarrow> as_cleanup (rooted S) c e = (root_cleanup c, e)"
  by (simp_all add: rooted_def)

section \<open>The main loop\<close>

record ('p, 'q, 't, 'e) controller =
  ci_root :: "'q option container"
  ci_children :: "('p, 'q option) action list"
  ci_queue :: trigger_queue
  ci_world :: "'t \<times> 'e"

type_synonym ('p, 'q, 't, 'e) policy =
  "gc_Trigger_e \<Rightarrow> gc_TriggerElement_s \<Rightarrow> ('p, 'q option) action list \<Rightarrow> trigger_queue \<Rightarrow> 't \<times> 'e
    \<Rightarrow> ('p, 'q option) action list \<times> trigger_queue \<times> ('t \<times> 'e)"

definition iterate_actions :: "nat \<Rightarrow> ('p, 'q option, 't, 'e) action_sys
    \<Rightarrow> ('p, 'q, 't, 'e) controller \<Rightarrow> ('p, 'q, 't, 'e) controller option" where
  "iterate_actions d S s =
     (case action_execute d (rooted S) (Container (ci_root s) (ci_children s)) (ci_world s) of
        None \<Rightarrow> None
      | Some (a1, w1, _) \<Rightarrow>
          (case (if action_getStatus a1 = AS_ERROR_STOPPED \<or> action_getStatus a1 = AS_UNDOING
                 then action_undo d (rooted S) a1 w1 else Some (a1, w1, None)) of
             None \<Rightarrow> None
           | Some (a2, w2, _) \<Rightarrow>
               (case action_cleanup (rooted S) a2 w2 of
                  (Leaf _, _) \<Rightarrow> None
                | (Container c as, w3) \<Rightarrow>
                    Some (s\<lparr>ci_root := c, ci_children := as, ci_world := w3\<rparr>))))"

text \<open>The rest of one round: \<open>True\<close> when the loop goes on.\<close>

definition iterate_trigger :: "('p, 'q, 't, 'e) policy \<Rightarrow> ('p, 'q, 't, 'e) controller
    \<Rightarrow> bool \<times> ('p, 'q, 't, 'e) controller" where
  "iterate_trigger policy s =
     (if ct_mStatus (ci_root s) = AS_NOT_STARTED then
        (if ci_children s = [] then
           (case tq_dequeue TRIGGER_UNKNOWN (ci_queue s) of
              (Some triggerData, triggerType, q) \<Rightarrow>
                (case policy triggerType triggerData (ci_children s) q (ci_world s) of
                   (as, q', w) \<Rightarrow> (True, s\<lparr>ci_children := as, ci_queue := q', ci_world := w\<rparr>))
            | (None, triggerType, q) \<Rightarrow> (False, s\<lparr>ci_queue := q\<rparr>))
         else (False, s))
      else (False, s))"

primrec iterateActions :: "nat \<Rightarrow> nat \<Rightarrow> ('p, 'q option, 't, 'e) action_sys
    \<Rightarrow> ('p, 'q, 't, 'e) policy \<Rightarrow> ('p, 'q, 't, 'e) controller
    \<Rightarrow> ('p, 'q, 't, 'e) controller option" where
  "iterateActions 0 d S policy s = None"
| "iterateActions (Suc k) d S policy s =
     (case iterate_actions d S s of
        None \<Rightarrow> None
      | Some s1 \<Rightarrow>
          (case iterate_trigger policy s1 of
             (True, s2) \<Rightarrow> iterateActions k d S policy s2
           | (False, s2) \<Rightarrow> Some s2))"

section \<open>The root stays the root\<close>

lemma ct_update_priv:
  "ct_update (rooted S) r c num w = (c', w', n) \<Longrightarrow> ct_priv c = None \<Longrightarrow> ct_priv c' = None"
  by (auto simp: ct_update_def ct_report_def Let_def split: if_splits prod.splits)

lemma ct_notified_priv:
  "ct_notified (rooted S) m c num w = (c', w', n) \<Longrightarrow> ct_priv c = None \<Longrightarrow> ct_priv c' = None"
  by (auto simp: ct_notified_def dest: ct_update_priv split: option.splits)

lemma ct_start_priv:
  assumes "ct_start (rooted S) c as w = (c', as', w', n)" and "ct_priv c = None"
  shows "ct_priv c' = None"
  using assms
  by (auto simp: ct_start_def Let_def dest!: ct_update_priv split: if_splits prod.splits)

lemma ct_loop_priv:
  "ct_loop k (rooted S) ex c as w = Some (c', as', w', n) \<Longrightarrow> ct_priv c = None \<Longrightarrow> ct_priv c' = None"
proof (induction k arbitrary: c as w)
  case 0
  then show ?case by simp
next
  case (Suc k)
  from Suc.prems show ?case
    by (auto simp: ct_loop.simps(2) Let_def dest: ct_update_priv ct_notified_priv Suc.IH
        split: if_splits prod.splits option.splits)
qed

lemma ct_execute_priv:
  assumes "ct_execute (rooted S) ex c as w = Some (a', w', n)" and "ct_priv c = None"
  shows "\<exists>c' as'. a' = Container c' as' \<and> ct_priv c' = None"
  using assms
  by (auto simp: ct_execute_def ct_run_def Let_def dest: ct_update_priv ct_start_priv ct_loop_priv
      split: if_splits prod.splits option.splits)

lemma ct_undo_loop_priv:
  "ct_undo_loop k (rooted S) un c as w = Some (c', as', w', n) \<Longrightarrow> ct_priv c = None
    \<Longrightarrow> ct_priv c' = None"
proof (induction k arbitrary: c as w)
  case 0
  then show ?case by (auto dest: ct_update_priv split: prod.splits)
next
  case (Suc k)
  from Suc.prems show ?case
    by (auto simp: ct_undo_loop.simps(2) Let_def dest: ct_update_priv ct_notified_priv
        dest!: Suc.IH split: if_splits prod.splits option.splits)
qed

lemma ct_undo_priv:
  assumes "ct_undo (rooted S) un c as w = Some (a', w', n)" and "ct_priv c = None"
  shows "\<exists>c' as'. a' = Container c' as' \<and> ct_priv c' = None"
proof -
  obtain c1 w1 where st: "ct_undo_start (rooted S) c (length as) w = (c1, w1)" by (metis surj_pair)
  then have "ct_priv c1 = None"
    using assms(2) by (auto simp: ct_undo_start_def Let_def split: if_splits prod.splits)
  with assms(1) st show ?thesis
    by (auto simp: ct_undo_def Let_def dest: ct_update_priv dest!: ct_undo_loop_priv
        split: if_splits prod.splits option.splits)
qed

section \<open>Rounds of the main loop\<close>

definition root_ok :: "nat \<Rightarrow> bool \<Rightarrow> bool \<Rightarrow> ('p, 'q option, 't, 'e) action_sys
    \<Rightarrow> ('p, 'q, 't, 'e) controller \<Rightarrow> bool" where
  "root_ok d mw mf S s \<longleftrightarrow> ct_priv (ci_root s) = None \<and>
     action_good d mw mf (rooted S) (Container (ci_root s) (ci_children s))"

definition root_idle :: "('p, 'q, 't, 'e) controller \<Rightarrow> bool" where
  "root_idle s \<longleftrightarrow> ct_mStatus (ci_root s) = AS_NOT_STARTED \<and> ct_mError (ci_root s) = 0 \<and> ci_children s = []"

lemma cleanup_children_dropWhile:
  "fst (cleanup_children S own as w) = dropWhile (cleanable own) as"
  by (induction as arbitrary: w) auto

lemma action_cleanup_root:
  assumes "action_cleanup (rooted S) (Container c as) w = (a', w')" and "ct_priv c = None"
  shows "\<exists>c'. a' = Container c' (dropWhile (cleanable (ct_mStatus c)) as) \<and> ct_priv c' = None
     \<and> ct_mIndex c' = 0 \<and> ct_mTimeout c' = ct_mTimeout c
     \<and> (if dropWhile (cleanable (ct_mStatus c)) as = []
        then ct_mStatus c' = AS_NOT_STARTED \<and> ct_mError c' = 0
        else ct_mStatus c' = ct_mStatus c \<and> ct_mError c' = ct_mError c)"
  using assms cleanup_children_dropWhile [of "rooted S" "ct_mStatus c" as w]
  by (auto simp: root_cleanup_def split: prod.splits if_splits)

lemma dropWhile_all: "list_all P as \<Longrightarrow> dropWhile P as = []"
  by (simp add: list_all_iff)

lemma dropWhile_prefix:
  assumes "list_all P (take i as)"
  shows "\<exists>j \<ge> i. dropWhile P as = drop j as"
proof -
  have "dropWhile P (take i as @ drop i as) = dropWhile P (drop i as)"
    using assms by (intro dropWhile_append2) (auto simp: list_all_iff)
  moreover obtain j where "dropWhile P (drop i as) = drop j (drop i as)"
    by (metis dropWhile_eq_drop)
  ultimately show ?thesis by (metis append_take_drop_id drop_drop le_add2)
qed

lemma done_cleanable: "is_done a \<Longrightarrow> cleanable own a"
  by (simp add: is_done_def cleanable_def)

lemma undone_cleanable:
  assumes "\<not> undoable a" and "action_wf False a"
  shows "cleanable AS_UNDO_COMPLETE a"
  using assms
  by (cases a) (auto simp: undoable_def cleanable_def node_ok.simps split: ActionState_e.splits,
      (metis ActionState_e.exhaust)+)

text \<open>What cleaning a container that waits does to the invariant.\<close>

lemma cleanup_node_ok:
  assumes "node_ok mw c as" and "ct_mStatus c \<noteq> AS_NOT_STARTED" and "ct_mStatus c \<noteq> AS_ERROR_STOPPED"
    and as': "as' = dropWhile (cleanable (ct_mStatus c)) as" and "ct_mIndex c' = 0"
    and c': "if as' = [] then ct_mStatus c' = AS_NOT_STARTED \<and> ct_mError c' = 0
         else ct_mStatus c' = ct_mStatus c \<and> ct_mError c' = ct_mError c"
  shows "node_ok mw c' as'"
proof (cases "as' = []")
  case True
  with assms show ?thesis by (simp add: node_ok.simps)
next
  case False
  with c' have c': "ct_mStatus c' = ct_mStatus c" "ct_mError c' = ct_mError c" by simp_all
  consider (executing) "ct_mStatus c = AS_EXECUTING" | (completed) "ct_mStatus c = AS_COMPLETED"
    | (undoing) "ct_mStatus c = AS_UNDOING" | (undone) "ct_mStatus c = AS_UNDO_COMPLETE"
    using assms(2,3) by (cases "ct_mStatus c") auto
  then show ?thesis
  proof cases
    case completed
    with assms(1) as' False show ?thesis
      by (auto simp: node_ok.simps list_all_iff done_cleanable)
  next
    case undone
    with assms(1) c' as' show ?thesis
      by (auto simp: node_ok.simps list_all_iff dest: set_dropWhileD)
  next
    case executing
    define i where "i = nat (ct_mIndex c)"
    have mid: "mw" "i < length as" "ct_mError c = 0" "list_all is_done (take i as)"
      "startable mw (as ! i)" "list_all is_fresh (drop (Suc i) as)"
      using assms(1) executing by (auto simp: node_ok.simps i_def)
    have dr: "drop i as = as ! i # drop (Suc i) as" using mid(2) by (simp add: Cons_nth_drop_Suc)
    have stop: "\<not> cleanable AS_EXECUTING (as ! i)"
      using mid(5) by (auto simp: startable_def is_fresh_def cleanable_def)
    have "dropWhile (cleanable AS_EXECUTING) (take i as @ drop i as) = dropWhile (cleanable AS_EXECUTING) (drop i as)"
      using mid(4) by (intro dropWhile_append2) (auto simp: list_all_iff done_cleanable)
    then have "dropWhile (cleanable AS_EXECUTING) (take i as @ drop i as) = drop i as"
      using stop dr by simp
    then have "as' = drop i as" using as' executing by (simp only: append_take_drop_id)
    then have "as' = as ! i # drop (Suc i) as" using dr by simp
    with mid c' executing assms(5) show ?thesis by (simp add: node_ok.simps)
  next
    case undoing
    define i where "i = nat (ct_mIndex c)"
    have mid: "mw" "i < length as" "list_all is_done (take i as)"
      "list_all (\<lambda>a. \<not> undoable a) (drop (Suc i) as)"
      using assms(1) undoing by (auto simp: node_ok.simps i_def)
    have "list_all (cleanable AS_UNDOING) (take i as)"
      using mid(3) by (auto simp: list_all_iff done_cleanable)
    then obtain j where j: "j \<ge> i" "as' = drop j as"
      using dropWhile_prefix as' undoing by metis
    then have "set (drop (Suc 0) as') \<subseteq> set (drop (Suc i) as)"
      by (simp add: set_drop_subset_set_drop)
    with mid c' undoing assms(5) False show ?thesis by (auto simp: node_ok.simps list_all_iff)
  qed
qed

lemma action_execute_other:
  assumes "ct_mStatus c \<noteq> AS_NOT_STARTED" and "ct_mStatus c \<noteq> AS_EXECUTING"
  shows "action_execute (Suc d) S (Container c as) w = Some (Container c as, w, None)"
proof (cases "ct_mStatus c = AS_COMPLETED")
  case True
  moreover have "c\<lparr>ct_mError := ct_mError c\<rparr> = c" by simp
  ultimately show ?thesis
    by (simp add: ct_execute_def ct_run_def ct_update_idle)
next
  case False
  with assms show ?thesis by (simp add: ct_execute_def ct_run_def)
qed

lemma action_good_idle:
  assumes "ct_priv c = None" and "ct_mStatus c = AS_NOT_STARTED" and "ct_mIndex c = 0"
    and "\<not> mf \<longrightarrow> ct_mTimeout c = INFINITE_TIMEOUT" and "leaf_hooks_ok mw mf (rooted S)"
    and "list_all (\<lambda>a. action_good n mw mf (rooted S) a \<and> is_fresh a) as"
  shows "action_good (Suc n) mw mf (rooted S) (Container c as)"
  using assms by (auto simp: action_good_def node_ok.simps list_all_iff)

lemma round_ok:
  assumes "root_ok (Suc n) mw mf S s"
  shows "\<exists>s1. iterate_actions (Suc n) S s = Some s1 \<and> root_ok (Suc n) mw mf S s1
     \<and> ci_queue s1 = ci_queue s \<and> (\<not> mw \<longrightarrow> root_idle s1)"
proof -
  define c as where "c = ci_root s" and "as = ci_children s"
  have priv: "ct_priv c = None" and good: "action_good (Suc n) mw mf (rooted S) (Container c as)"
    using assms by (simp_all add: root_ok_def c_def as_def)
  obtain c1 as1 w1 m1 where x: "action_execute (Suc n) (rooted S) (Container c as) (ci_world s)
        = Some (Container c1 as1, w1, m1)"
      and g1: "action_good (Suc n) mw mf (rooted S) (Container c1 as1)"
      and p1: "ct_priv c1 = None" and st1: "ct_mStatus c1 \<noteq> AS_NOT_STARTED"
  proof (cases "startable mw (Container c as)")
    case True
    obtain a1 w1 m1 where x: "action_execute (Suc n) (rooted S) (Container c as) (ci_world s)
        = Some (a1, w1, m1)" and g: "action_good (Suc n) mw mf (rooted S) a1"
        and out: "run_outcome mw mf a1 m1"
      using ex.run_ok [OF good True] by blast
    obtain c1 as1 where "a1 = Container c1 as1" "ct_priv c1 = None"
      using ct_execute_priv [OF x [unfolded action_execute.simps action.case] priv] by blast
    with x g run_outcome_started [OF out] that show thesis by simp
  next
    case False
    have "ct_mStatus c \<noteq> AS_NOT_STARTED" and "ct_mStatus c \<noteq> AS_EXECUTING"
      using False fits_Suc_container(1) [OF good]
      by (auto simp: startable_def is_fresh_def node_ok.simps)
    with action_execute_other [OF this] good priv that show thesis by blast
  qed
  define failed where "failed \<longleftrightarrow> ct_mStatus c1 = AS_ERROR_STOPPED \<or> ct_mStatus c1 = AS_UNDOING"
  obtain c2 as2 w2 m2 where y: "(if failed then action_undo (Suc n) (rooted S) (Container c1 as1) w1
          else Some (Container c1 as1, w1, None)) = Some (Container c2 as2, w2, m2)"
      and g2: "action_good (Suc n) mw mf (rooted S) (Container c2 as2)"
      and p2: "ct_priv c2 = None"
      and st2: "ct_mStatus c2 \<noteq> AS_NOT_STARTED" "ct_mStatus c2 \<noteq> AS_ERROR_STOPPED"
  proof (cases failed)
    case False
    with g1 p1 st1 that show thesis by (auto simp: failed_def)
  next
    case True
    then have "undoable (Container c1 as1)" by (auto simp: failed_def undoable_def)
    from un.undo_ok [OF g1 this] obtain a2 w2 m2
      where y: "action_undo (Suc n) (rooted S) (Container c1 as1) w1 = Some (a2, w2, m2)"
        and g: "action_good (Suc n) mw mf (rooted S) a2" and out: "undo_outcome mw a2"
      by blast
    obtain c2 as2 where "a2 = Container c2 as2" "ct_priv c2 = None"
      using ct_undo_priv [OF y [unfolded action_undo.simps action.case] p1] by blast
    with y g out True that show thesis by (auto simp: undo_outcome_def)
  qed
  obtain a3 w3 where z: "action_cleanup (rooted S) (Container c2 as2) w2 = (a3, w3)"
    by (metis surj_pair)
  define as3 where "as3 = dropWhile (cleanable (ct_mStatus c2)) as2"
  obtain c3 where a3: "a3 = Container c3 as3" and p3: "ct_priv c3 = None" and i3: "ct_mIndex c3 = 0"
      and t3: "ct_mTimeout c3 = ct_mTimeout c2"
      and st3: "if as3 = [] then ct_mStatus c3 = AS_NOT_STARTED \<and> ct_mError c3 = 0
         else ct_mStatus c3 = ct_mStatus c2 \<and> ct_mError c3 = ct_mError c2"
    using action_cleanup_root [OF z p2] by (auto simp: as3_def)
  define s1 where "s1 = s\<lparr>ci_root := c3, ci_children := as3, ci_world := w3\<rparr>"
  have step: "iterate_actions (Suc n) S s = Some s1"
    using x y z a3 unfolding iterate_actions_def c_def [symmetric] as_def [symmetric] failed_def s1_def
    by simp
  note g2' = fits_Suc_container [OF g2]
  have node: "node_ok mw c3 as3"
    by (rule cleanup_node_ok [OF g2'(1) st2(1,2) as3_def i3 st3])
  have sub: "list_all (action_good n mw mf (rooted S)) as3"
    using g2'(2) by (auto simp: list_all_iff as3_def dest: set_dropWhileD)
  have "action_good (Suc n) mw mf (rooted S) (Container c3 as3)"
  proof (cases "as3 = []")
    case True
    with p3 st3 i3 t3 g2'(3,4) show ?thesis by (intro action_good_idle) simp_all
  next
    case False
    with sub node g2'(3,4) t3 st3 st2 show ?thesis by (intro action_good_container) simp_all
  qed
  moreover have "as3 = []" if "\<not> mw"
  proof -
    have "ct_mStatus c2 = AS_COMPLETED \<or> ct_mStatus c2 = AS_UNDO_COMPLETE"
      using that st2 g2'(1) by (cases "ct_mStatus c2") (simp_all add: node_ok.simps)
    moreover have "list_all (action_wf False) as2"
      using g2'(2) that by (auto simp: list_all_iff action_good_def)
    ultimately have "list_all (cleanable (ct_mStatus c2)) as2"
      using g2'(1) by (auto simp: node_ok.simps list_all_iff done_cleanable undone_cleanable)
    then show ?thesis by (simp add: as3_def list_all_iff)
  qed
  ultimately show ?thesis
    using step p3 st3 by (auto simp: s1_def root_ok_def root_idle_def)
qed

section \<open>The loop as a whole\<close>

text \<open>
  What is asked of the policy: it appends fresh, well-formed actions of bounded depth to the
  empty root, and it queues no new trigger while it handles one.
\<close>

definition triggers_ok :: "trigger_queue \<Rightarrow> bool" where
  "triggers_ok q \<longleftrightarrow> list_all (\<lambda>(t, d). d \<noteq> None) (tq_getSnapShot q)"

definition policy_ok :: "nat \<Rightarrow> bool \<Rightarrow> bool \<Rightarrow> ('p, 'q option, 't, 'e) action_sys
    \<Rightarrow> ('p, 'q, 't, 'e) policy \<Rightarrow> bool" where
  "policy_ok n mw mf S policy \<longleftrightarrow>
     (\<forall>t d q w. case policy t d [] q w of (as, q', w') \<Rightarrow>
        list_all (\<lambda>a. action_good n mw mf (rooted S) a \<and> is_fresh a) as \<and>
        length (tq_getSnapShot q') \<le> length (tq_getSnapShot q) \<and>
        (triggers_ok q \<longrightarrow> triggers_ok q'))"

lemma policy_okD:
  assumes "policy_ok n mw mf S policy" and "policy t d [] q w = (as, q', w')"
  shows "list_all (\<lambda>a. action_good n mw mf (rooted S) a \<and> is_fresh a) as \<and>
    length (tq_getSnapShot q') \<le> length (tq_getSnapShot q) \<and> (triggers_ok q \<longrightarrow> triggers_ok q')"
  using assms(1) [unfolded policy_ok_def, THEN spec [of _ t], THEN spec [of _ d], THEN spec [of _ q],
      THEN spec [of _ w]] assms(2) by simp

lemma tq_dequeue_cases:
  assumes "tq_dequeue t0 q = (d, t, q')"
  shows "(tq_getSnapShot q = [] \<and> d = None \<and> q' = q) \<or>
     (tq_getSnapShot q = (t, d) # tq_getSnapShot q')"
  using assms by (auto simp: tq_defs split: list.splits)

lemma trigger_ok:
  assumes "root_ok (Suc n) mw mf S s" and "policy_ok n mw mf S policy"
    and "iterate_trigger policy s = (go, s')"
  shows "root_ok (Suc n) mw mf S s'"
    and "go \<Longrightarrow> length (tq_getSnapShot (ci_queue s')) < length (tq_getSnapShot (ci_queue s))"
    and "triggers_ok (ci_queue s) \<Longrightarrow> triggers_ok (ci_queue s')"
    and "root_idle s \<Longrightarrow> triggers_ok (ci_queue s) \<Longrightarrow> \<not> go \<Longrightarrow>
      root_idle s' \<and> tq_getSnapShot (ci_queue s') = []"
proof -
  have "root_ok (Suc n) mw mf S s' \<and>
    (go \<longrightarrow> length (tq_getSnapShot (ci_queue s')) < length (tq_getSnapShot (ci_queue s))) \<and>
    (triggers_ok (ci_queue s) \<longrightarrow> triggers_ok (ci_queue s')) \<and>
    (root_idle s \<longrightarrow> triggers_ok (ci_queue s) \<longrightarrow> \<not> go \<longrightarrow>
      root_idle s' \<and> tq_getSnapShot (ci_queue s') = [])"
  proof (cases "ct_mStatus (ci_root s) = AS_NOT_STARTED \<and> ci_children s = []")
    case False
    with assms show ?thesis by (auto simp: iterate_trigger_def root_idle_def split: if_splits)
  next
    case True
    obtain d t q where dq: "tq_dequeue TRIGGER_UNKNOWN (ci_queue s) = (d, t, q)" by (metis prod_cases3)
    note q = tq_dequeue_cases [OF dq]
    then have tok: "triggers_ok (ci_queue s) \<Longrightarrow> triggers_ok q"
      and len: "length (tq_getSnapShot q) \<le> length (tq_getSnapShot (ci_queue s))"
      by (auto simp: triggers_ok_def)
    show ?thesis
    proof (cases d)
      case None
      with True dq assms(3) have s': "s' = s\<lparr>ci_queue := q\<rparr>" "\<not> go"
        by (auto simp: iterate_trigger_def)
      with assms(1) q None tok show ?thesis
        by (auto simp: root_ok_def root_idle_def triggers_ok_def)
    next
      case (Some data)
      obtain as q' w where pl: "policy t data [] q (ci_world s) = (as, q', w)" by (metis prod_cases3)
      have s': "s' = s\<lparr>ci_children := as, ci_queue := q', ci_world := w\<rparr>" "go"
        using True Some dq pl assms(3) by (auto simp: iterate_trigger_def)
      have pok: "list_all (\<lambda>a. action_good n mw mf (rooted S) a \<and> is_fresh a) as"
          "length (tq_getSnapShot q') \<le> length (tq_getSnapShot q)"
          "triggers_ok q \<Longrightarrow> triggers_ok q'"
        using policy_okD [OF assms(2) pl] by simp_all
      have g: "ct_priv (ci_root s) = None"
          "action_good (Suc n) mw mf (rooted S) (Container (ci_root s) [])"
        using assms(1) True by (simp_all add: root_ok_def)
      have "action_good (Suc n) mw mf (rooted S) (Container (ci_root s) as)"
        using fits_Suc_container [OF g(2)] True g(1) pok(1)
        by (intro action_good_idle) (simp_all add: node_ok.simps)
      with g(1) s' pok(2,3) q Some tok show ?thesis by (auto simp: root_ok_def)
    qed
  qed
  then show "root_ok (Suc n) mw mf S s'"
    and "go \<Longrightarrow> length (tq_getSnapShot (ci_queue s')) < length (tq_getSnapShot (ci_queue s))"
    and "triggers_ok (ci_queue s) \<Longrightarrow> triggers_ok (ci_queue s')"
    and "root_idle s \<Longrightarrow> triggers_ok (ci_queue s) \<Longrightarrow> \<not> go \<Longrightarrow>
      root_idle s' \<and> tq_getSnapShot (ci_queue s') = []"
    by blast+
qed

lemma iterateActions_ok:
  assumes "root_ok (Suc n) mw mf S s" and "policy_ok n mw mf S policy"
    and "length (tq_getSnapShot (ci_queue s)) < k"
  shows "\<exists>s'. iterateActions k (Suc n) S policy s = Some s' \<and> root_ok (Suc n) mw mf S s' \<and>
     (\<not> mw \<longrightarrow> triggers_ok (ci_queue s) \<longrightarrow> root_idle s' \<and> tq_getSnapShot (ci_queue s') = [])"
  using assms
proof (induction k arbitrary: s)
  case 0
  then show ?case by simp
next
  case (Suc k)
  obtain s1 where s1: "iterate_actions (Suc n) S s = Some s1" "root_ok (Suc n) mw mf S s1"
      "ci_queue s1 = ci_queue s" "\<not> mw \<longrightarrow> root_idle s1"
    using round_ok [OF Suc.prems(1)] by blast
  obtain go s2 where s2: "iterate_trigger policy s1 = (go, s2)" by (metis surj_pair)
  note tr = trigger_ok [OF s1(2) Suc.prems(2) s2]
  show ?case
  proof (cases go)
    case False
    with s1 s2 tr show ?thesis by simp
  next
    case True
    have "length (tq_getSnapShot (ci_queue s2)) < k"
      using tr(2) [OF True] s1(3) Suc.prems(3) by simp
    from Suc.IH [OF tr(1) Suc.prems(2) this] s1 s2 True tr(3) show ?thesis by auto
  qed
qed

section \<open>Acknowledgements and timeouts\<close>

text \<open>The path to the leaf that waits for a result.\<close>

fun running :: "nat list \<Rightarrow> ('p, 'q) action \<Rightarrow> bool" where
  "running [] (Leaf l) \<longleftrightarrow> lf_mStatus l = AS_EXECUTING \<or> lf_mStatus l = AS_UNDOING"
| "running (i # p) (Container c as) \<longleftrightarrow>
     (ct_mStatus c = AS_EXECUTING \<or> ct_mStatus c = AS_UNDOING) \<and> ct_mIndex c = int i \<and>
     i < length as \<and> running p (as ! i)"
| "running _ _ \<longleftrightarrow> False"

definition event_ok :: "bool \<Rightarrow> ('p leaf \<Rightarrow> 't \<times> 'e \<Rightarrow> ('p, 't, 'e) leaf_result) \<Rightarrow> bool" where
  "event_ok mf ev \<longleftrightarrow> (\<forall>l w. case ev l w of (l', w', m) \<Rightarrow>
     lf_mError l' \<ge> 0 \<and> (\<not> mf \<longrightarrow> lf_mError l' = 0) \<and> m = Some (lf_mError l') \<and>
     lf_mStatus l' = (if lf_mStatus l = AS_EXECUTING then AS_COMPLETED else AS_UNDO_COMPLETE))"

lemma event_ok_update:
  assumes "r \<ge> 0" and "r = 0 \<or> mf"
  shows "event_ok mf (leaf_update L r)"
  unfolding event_ok_def
proof (intro allI)
  fix l w
  obtain l' w' m where x: "leaf_update L r l w = (l', w', m)" by (metis prod_cases3)
  from leaf_update_outcome [OF x] assms x
  show "case leaf_update L r l w of (l', w', m) \<Rightarrow>
     lf_mError l' \<ge> 0 \<and> (\<not> mf \<longrightarrow> lf_mError l' = 0) \<and> m = Some (lf_mError l') \<and>
     lf_mStatus l' = (if lf_mStatus l = AS_EXECUTING then AS_COMPLETED else AS_UNDO_COMPLETE)"
    by auto
qed

lemma event_ok_timeout: "event_ok True (leaf_timeout (L :: ('a, 'b, 'c) leaf_sys))"
  unfolding event_ok_def
proof (intro allI)
  fix l :: "'a leaf" and w :: "'b \<times> 'c"
  obtain t e where w: "w = (t, e)" by (cases w)
  obtain p e1 where p: "ls_timeout L l e = (p, e1)" by (metis surj_pair)
  have "event_ok True (leaf_update L 9)" by (rule event_ok_update) simp_all
  from this [unfolded event_ok_def, rule_format, of "l\<lparr>lf_priv := p\<rparr>" "(t, e1)"]
  show "case leaf_timeout L l w of (l', w', m) \<Rightarrow>
     lf_mError l' \<ge> 0 \<and> (\<not> True \<longrightarrow> lf_mError l' = 0) \<and> m = Some (lf_mError l') \<and>
     lf_mStatus l' = (if lf_mStatus l = AS_EXECUTING then AS_COMPLETED else AS_UNDO_COMPLETE)"
    by (simp add: leaf_timeout_def w p)
qed

lemma notified_executing:
  assumes "node_mid True c as" and "run_outcome True mf a m"
    and "ct_notified S m c (length as) w = (c', w', n)"
  shows "node_ok True c' (as[nat (ct_mIndex c) := a]) \<and> ct_mTimeout c' = ct_mTimeout c \<and>
     ct_mStatus c' \<noteq> AS_NOT_STARTED \<and> run_outcome True mf (Container c' (as[nat (ct_mIndex c) := a])) n"
proof -
  have st: "ct_mStatus c = AS_EXECUTING" using assms(1) by (simp add: node_mid_def)
  consider (waits) "action_getStatus a = AS_EXECUTING" "m = None"
    | (finishes) "is_done a" "m = Some 0"
    | (fails) r where "mf" "m = Some r" "r > 0"
    using assms(2) by (auto simp: run_outcome_def)
  then show ?thesis
  proof cases
    case waits
    with assms node_mid_waits [OF assms(1) _ waits(1)] st show ?thesis
      by (auto simp: ct_notified_def run_outcome_def)
  next
    case fails
    with assms(3) have u: "ct_update S r c (length as) w = (c', w', n)" by (simp add: ct_notified_def)
    from ct_update_failed [OF u st fails(3)] fails
      node_mid_stops [OF assms(1), of c' "as[nat (ct_mIndex c) := a]" a]
    show ?thesis by (auto simp: run_outcome_def)
  next
    case finishes
    with assms(3) have u: "ct_update S 0 c (length as) w = (c', w', n)" by (simp add: ct_notified_def)
    show ?thesis
    proof (cases "ct_mIndex c + 1 < int (length as)")
      case True
      from node_mid_next [OF assms(1) finishes(1) True] u ct_update_next [OF st _ True, of 0 S w]
      show ?thesis by (auto simp: node_mid_def node_ok.simps run_outcome_def)
    next
      case False
      from ct_update_last [OF u st] False
      have s: "ct_mStatus c' = AS_COMPLETED" "ct_mError c' = 0" "ct_mIndex c' = ct_mIndex c + 1"
        "ct_mTimeout c' = ct_mTimeout c" "n = Some 0" by simp_all
      from node_mid_last [OF assms(1) finishes(1) False s(1-3)] s show ?thesis
        by (auto simp: run_outcome_def is_done_def)
    qed
  qed
qed

lemma event_tree_ok:
  "action_good n True mf S a \<Longrightarrow> running p a \<Longrightarrow> event_ok mf ev \<Longrightarrow>
   \<exists>a' w' m. action_event S ev p a w = Some (a', w', m) \<and> action_good n True mf S a' \<and>
     (action_getStatus a = AS_EXECUTING \<longrightarrow> run_outcome True mf a' m) \<and>
     (action_getStatus a = AS_UNDOING \<longrightarrow> undo_outcome True a')"
proof (induction p arbitrary: n a w)
  case Nil
  then obtain l where a: "a = Leaf l" by (cases a) auto
  obtain l' w' m where x: "ev l w = (l', w', m)" by (metis prod_cases3)
  with Nil.prems(3) have "lf_mError l' \<ge> 0" "\<not> mf \<longrightarrow> lf_mError l' = 0" "m = Some (lf_mError l')"
     "lf_mStatus l' = (if lf_mStatus l = AS_EXECUTING then AS_COMPLETED else AS_UNDO_COMPLETE)"
    unfolding event_ok_def by (smt (verit) case_prod_conv)+
  with Nil.prems x a show ?case
    by (cases n; cases "lf_mError l' = 0")
      (auto simp: action_good_def run_outcome_def undo_outcome_def is_done_def)
next
  case (Cons i p)
  then obtain c as where a: "a = Container c as" by (cases a) auto
  from Cons.prems(2) a have run: "ct_mStatus c = AS_EXECUTING \<or> ct_mStatus c = AS_UNDOING"
      "ct_mIndex c = int i" "i < length as" "running p (as ! i)" by auto
  obtain k where n: "n = Suc k" using Cons.prems(1) by (cases n) (auto simp: action_good_def)
  note g = fits_Suc_container [OF Cons.prems(1) [unfolded n a]]
  have "action_good k True mf S (as ! i)" using g(2) run(3) by (simp add: list_all_length)
  from Cons.IH [OF this run(4) Cons.prems(3), of w] obtain b w1 m
    where x: "action_event S ev p (as ! i) w = Some (b, w1, m)" and gb: "action_good k True mf S b"
      and out: "action_getStatus (as ! i) = AS_EXECUTING \<longrightarrow> run_outcome True mf b m"
    by blast
  obtain c1 w2 r where nt: "ct_notified S m c (length as) w1 = (c1, w2, r)" by (metis prod_cases3)
  have step: "action_event S ev (i # p) a w = Some (Container c1 (as[i := b]), w2, r)"
    using a run(3) x nt by simp
  have sub: "list_all (action_good k True mf S) (as[i := b])" using g(2) gb by (rule list_all_update)
  from run(1) show ?case
  proof
    assume st: "ct_mStatus c = AS_EXECUTING"
    then have mid: "node_mid True c as" using g(1) by (simp add: node_ok.simps node_mid_def)
    have "action_getStatus (as ! i) \<noteq> AS_NOT_STARTED"
      using run(4) by (cases p; cases "as ! i") auto
    then have "action_getStatus (as ! i) = AS_EXECUTING"
      using mid run(2) by (auto simp: node_mid_def startable_def is_fresh_def)
    with notified_executing [OF mid _ nt] out run(2) st step sub g(3,4) show ?thesis
      by (auto simp: n a intro!: action_good_container)
  next
    assume st: "ct_mStatus c = AS_UNDOING"
    then obtain e where c1: "c1 = c\<lparr>ct_mError := e\<rparr>"
      using ct_notified_undoing [of c S m "length as" w1] run(2) nt by auto
    have "node_ok True c1 (as[i := b])" using g(1) st run(2) by (simp add: c1 node_ok.simps)
    with st step sub g(3,4) show ?thesis
      by (auto simp: n a c1 undo_outcome_def intro!: action_good_container)
  qed
qed

end
