(* ===== verification/Action_Props.thy ===== *)
theory Action_Props
  imports Root_Loop
begin

text \<open>
  The promises of the action framework, stated over whole trees: success of the whole tree,
  stop at the first error, roll back, the main loop with the trigger queue, and the invariant
  of the controller under any interleaving of its entry points.
\<close>

section \<open>Statements over whole trees\<close>

fun all_done :: "('p, 'q) action \<Rightarrow> bool" where
  "all_done (Leaf l) \<longleftrightarrow> lf_mStatus l = AS_COMPLETED \<and> lf_mError l = 0"
| "all_done (Container c as) \<longleftrightarrow> ct_mStatus c = AS_COMPLETED \<and> ct_mError c = 0 \<and> list_all all_done as"

fun all_fresh :: "('p, 'q) action \<Rightarrow> bool" where
  "all_fresh (Leaf l) \<longleftrightarrow> lf_mStatus l = AS_NOT_STARTED"
| "all_fresh (Container c as) \<longleftrightarrow> ct_mStatus c = AS_NOT_STARTED \<and> ct_mIndex c = 0 \<and> list_all all_fresh as"

text \<open>No effect is left: a leaf was never started, was undone, or failed itself.\<close>

fun rolled_back :: "('p, 'q) action \<Rightarrow> bool" where
  "rolled_back (Leaf l) \<longleftrightarrow> lf_mStatus l = AS_NOT_STARTED \<or> lf_mStatus l = AS_UNDO_COMPLETE
     \<or> lf_mStatus l = AS_COMPLETED \<and> lf_mError l \<noteq> 0"
| "rolled_back (Container c as) \<longleftrightarrow>
     (ct_mStatus c = AS_NOT_STARTED \<or> ct_mStatus c = AS_UNDO_COMPLETE) \<and> list_all rolled_back as"

lemma wf_all_done: "action_wf mw a \<Longrightarrow> is_done a \<Longrightarrow> all_done a"
proof (induction a)
  case (Leaf l)
  then show ?case by (simp add: is_done_def)
next
  case (Container c as)
  then show ?case by (auto simp: is_done_def node_ok.simps list_all_iff)
qed

lemma wf_all_fresh: "action_wf mw a \<Longrightarrow> is_fresh a \<Longrightarrow> all_fresh a"
proof (induction a)
  case (Leaf l)
  then show ?case by (simp add: is_fresh_def)
next
  case (Container c as)
  then show ?case by (auto simp: is_fresh_def node_ok.simps list_all_iff)
qed

lemma wf_rolled_back: "action_wf False a \<Longrightarrow> \<not> undoable a \<Longrightarrow> rolled_back a"
proof (induction a)
  case (Leaf l)
  then show ?case by (cases "lf_mStatus l") (auto simp: undoable_def)
next
  case (Container c as)
  then show ?case
    by (cases "ct_mStatus c")
      (auto simp: undoable_def [of "Container c as"] node_ok.simps list_all_iff fresh_not_undoable)
qed

section \<open>A scripted system for the witnesses\<close>

text \<open>
  Every leaf answers what the script says for its name and writes its name to a log; no
  container appends children, no timer is ever started.
\<close>

definition scripted :: "(string \<Rightarrow> int) \<Rightarrow> (string \<Rightarrow> int) \<Rightarrow> (unit, 'q, unit, string list) action_sys" where
  "scripted result undone = \<lparr>
     as_leaf = \<lparr>
       ls_clock = (\<lambda>e. (\<lparr>tv_sec = 0, tv_nsec = 0\<rparr>, e)),
       ls_setTimer = (\<lambda>_ _ h t. (False, h, t)),
       ls_removeTimer = (\<lambda>h t. (h, t)),
       ls_execute = (\<lambda>l e. (result (lf_mName l), (), e @ [lf_mName l])),
       ls_undo = (\<lambda>l e. (undone (lf_mName l), (), e @ [lf_mName l])),
       ls_update = (\<lambda>l r e. ((), e)),
       ls_timeout = (\<lambda>l e. ((), e)),
       ls_cleanup = (\<lambda>l e. ((), e))\<rparr>,
     as_execute = (\<lambda>c e. (0, ct_priv c, [], e)),
     as_undo = (\<lambda>c e. (0, ct_priv c, e)),
     as_update = (\<lambda>c r e. (ct_priv c, e)),
     as_cleanup = (\<lambda>c e. (c, e))\<rparr>"

definition task :: "string \<Rightarrow> (unit, 'q) action" where
  "task nm = Leaf (leaf_new 1 nm ()\<lparr>lf_mUndoRequired := True\<rparr>)"

definition job :: "(unit, unit option) action list \<Rightarrow> (unit, unit option) action" where
  "job as = Container (container_new ''job'' (Some ())) as"

lemmas scripted_defs = scripted_def task_def job_def leaf_new_def container_new_def
  action_good_def leaf_hooks_ok_def node_ok.simps is_fresh_def rooted_def root_new_def

section \<open>Execution\<close>

text \<open>
  success of the whole tree. When every concrete action of a fresh, well-formed tree
  completes at once and without an error, one call of \<open>execute\<close> on the tree returns (the depth of
  the tree is enough recursion), every leaf and every container of the tree is completed with
  error 0, children appended while executing included, and the parent is told 0 exactly once.
\<close>

theorem execute_completes_tree:
  assumes "action_good n False False S a" and "is_fresh a"
  shows "\<exists>a' w'. action_execute n S a w = Some (a', w', Some 0) \<and> all_done a'"
proof -
  from ex.run_ok [OF assms(1), of w] assms(2) obtain a' w' m
    where "action_execute n S a w = Some (a', w', m)" and "action_good n False False S a'"
      and "run_outcome False False a' m"
    by (auto simp: startable_def)
  then show ?thesis
    by (auto simp: run_outcome_def action_good_def dest: wf_all_done)
qed

theorem execute_completes_tree_witness:
  "\<exists>a' w'. action_execute 3 (scripted (\<lambda>_. 0) (\<lambda>_. 0)) (job [job [task ''a'', task ''b''], task ''c'']) ((), [])
      = Some (a', w', Some 0) \<and> all_done a'"
  by (rule execute_completes_tree) (simp_all add: scripted_defs numeral_3_eq_3)

text \<open>
  C11: \<open>execute\<close> always returns, keeps the invariant, and its outcome is one of three. On a
  well-formed action that is not started or waiting, one call with as much recursion as the tree
  is deep returns, for leaves that complete, fail or stay pending and for containers with or
  without a timeout; afterwards the tree is well-formed again, and the action is still executing
  and its parent was told nothing, or it is done and its parent was told 0, or it failed and its
  parent was told exactly its positive error.
\<close>

theorem execute_total:
  assumes "action_good n mw mf S a" and "startable mw a"
  shows "\<exists>a' w' m. action_execute n S a w = Some (a', w', m) \<and> action_good n mw mf S a' \<and>
    (mw \<and> action_getStatus a' = AS_EXECUTING \<and> m = None \<or>
     action_getStatus a' = AS_COMPLETED \<and> action_getError a' = 0 \<and> m = Some 0 \<or>
     mf \<and> action_getStatus a' \<in> {AS_ERROR_STOPPED, AS_COMPLETED} \<and> action_getError a' > 0
       \<and> m = Some (action_getError a'))"
proof -
  from ex.run_ok [OF assms, of w] obtain a' w' m
    where "action_execute n S a w = Some (a', w', m)" and "action_good n mw mf S a'"
      and "run_outcome mw mf a' m"
    by blast
  then show ?thesis unfolding run_outcome_def is_done_def by blast
qed

theorem execute_total_witness:
  "\<exists>a' w' m. action_execute 2 (scripted (\<lambda>nm. if nm = ''b'' then -1 else 0) (\<lambda>_. 0))
      (job [task ''a'', task ''b'']) ((), []) = Some (a', w', m) \<and>
    action_good 2 True True (scripted (\<lambda>nm. if nm = ''b'' then -1 else 0) (\<lambda>_. 0)) a' \<and>
    (True \<and> action_getStatus a' = AS_EXECUTING \<and> m = None \<or>
     action_getStatus a' = AS_COMPLETED \<and> action_getError a' = 0 \<and> m = Some 0 \<or>
     True \<and> action_getStatus a' \<in> {AS_ERROR_STOPPED, AS_COMPLETED} \<and> action_getError a' > 0
       \<and> m = Some (action_getError a'))"
  by (rule execute_total) (simp_all add: scripted_defs startable_def numeral_2_eq_2)

text \<open>
  C12: a container stops at the first error. When a well-formed container that was started or
  resumed comes back with an error, it is stopped at some index; every child before that index
  has completed its whole subtree, and nothing after it has started anything at all.
\<close>

theorem execute_stops_at_error:
  assumes "action_good n mw mf S (Container c as)" and "startable mw (Container c as)"
    and "action_execute n S (Container c as) w = Some (Container c' as', w', Some r)" and "r \<noteq> 0"
  shows "ct_mStatus c' = AS_ERROR_STOPPED \<and> ct_mError c' = r \<and> r > 0 \<and>
    (\<exists>i. ct_mIndex c' = int i \<and> list_all all_done (take i as') \<and> list_all all_fresh (drop (Suc i) as'))"
proof -
  from ex.run_ok [OF assms(1,2), of w] assms(3) have good: "action_good n mw mf S (Container c' as')"
    and out: "run_outcome mw mf (Container c' as') (Some r)"
    by auto
  have wf: "node_ok mw c' as'" "\<forall>a \<in> set as'. action_wf mw a"
    using good by (simp_all add: action_good_def list_all_iff)
  have r: "ct_mError c' = r" "r > 0" "ct_mStatus c' = AS_ERROR_STOPPED"
    using out assms(4) wf(1) by (auto simp: run_outcome_def is_done_def node_ok.simps)
  with wf(1) obtain i where i: "ct_mIndex c' = int i" "list_all is_done (take i as')"
      "list_all is_fresh (drop (Suc i) as')"
    by (auto simp: node_ok.simps intro: that [of "nat (ct_mIndex c')"])
  have "list_all all_done (take i as')" "list_all all_fresh (drop (Suc i) as')"
    using i(2,3) wf(2) unfolding list_all_iff
    by (meson in_set_takeD in_set_dropD wf_all_done wf_all_fresh)+
  with r i(1) show ?thesis by blast
qed

theorem execute_stops_at_error_witness:
  "\<exists>c' as' w'. action_execute 2 (scripted (\<lambda>nm. if nm = ''b'' then 7 else 0) (\<lambda>_. 0))
      (Container (container_new ''job'' ()) [task ''a'', task ''b'', task ''c'']) ((), [])
      = Some (Container c' as', w', Some 7) \<and>
    ct_mStatus c' = AS_ERROR_STOPPED \<and>
    (\<exists>i. ct_mIndex c' = int i \<and> list_all all_done (take i as') \<and> list_all all_fresh (drop (Suc i) as'))"
proof -
  let ?S = "scripted (\<lambda>nm. if nm = ''b'' then 7 else 0) (\<lambda>_. 0)"
  let ?c = "container_new ''job'' ()" and ?as = "[task ''a'', task ''b'', task ''c'']"
  have "\<exists>c' as' w'. action_execute 2 ?S (Container ?c ?as) ((), []) = Some (Container c' as', w', Some 7)"
    by (simp add: scripted_defs numeral_2_eq_2 ct_execute_def ct_start_def ct_run_def ct_loop.simps
        leaf_execute_def ct_notified_def ct_update_def ct_report_def Let_def INFINITE_TIMEOUT_def
        leaf_arm_def)
  moreover have "action_good 2 True True ?S (Container ?c ?as)" "startable True (Container ?c ?as)"
    by (simp_all add: scripted_defs startable_def numeral_2_eq_2)
  ultimately show ?thesis using execute_stops_at_error [where r = 7] by (metis zero_neq_numeral)
qed

section \<open>Roll back\<close>


definition finished_leaf :: "string \<Rightarrow> (unit, 'q) action" where
  "finished_leaf nm = Leaf (leaf_new 1 nm ()\<lparr>lf_mUndoRequired := True, lf_mStatus := AS_COMPLETED\<rparr>)"




section \<open>The main loop\<close>


definition demo_policy :: "(unit, unit, unit, string list) policy" where
  "demo_policy t d as q w = (as @ [job [task ''a'', task ''b'']], q, w)"

definition demo_start :: "(unit, unit, unit, string list) controller" where
  "demo_start = \<lparr>ci_root = root_new, ci_children = [],
     ci_queue = \<lparr>mlistTrigger = [(SYSTEM_REGISTER_SINK, Some (RegisterElementTrigger ''x'' E_OK))], mlistPriority = []\<rparr>,
     ci_world = ((), [])\<rparr>"

lemma demo_policy_ok: "policy_ok 2 mw True (scripted r u) demo_policy" if "mw \<or> (\<forall>x. r x \<ge> 0 \<and> u x \<ge> 0)"
  using that by (auto simp: policy_ok_def demo_policy_def scripted_defs numeral_2_eq_2)

lemma demo_start_ok: "root_ok 3 mw True (scripted r u) demo_start" if "mw \<or> (\<forall>x. r x \<ge> 0 \<and> u x \<ge> 0)"
  using that by (auto simp: root_ok_def demo_start_def scripted_defs numeral_3_eq_3)


section \<open>The controller under any interleaving\<close>

text \<open>
  The entry points that touch the action tree: the main loop, an acknowledgement of the routing
  side or an expired timer for the leaf that waits, and a new trigger in either queue.
\<close>

inductive controller_step :: "nat \<Rightarrow> ('p, 'q option, 't, 'e) action_sys \<Rightarrow> ('p, 'q, 't, 'e) policy
    \<Rightarrow> ('p, 'q, 't, 'e) controller \<Rightarrow> ('p, 'q, 't, 'e) controller \<Rightarrow> bool"
  for d S policy where
  step_iterate: "iterateActions k d S policy s = Some s' \<Longrightarrow> controller_step d S policy s s'"
| step_ack: "running p (Container (ci_root s) (ci_children s)) \<Longrightarrow> r \<ge> 0 \<Longrightarrow>
    action_event (rooted S) (leaf_update (as_leaf S) r) p (Container (ci_root s) (ci_children s)) (ci_world s)
      = Some (Container c as, w, m) \<Longrightarrow>
    controller_step d S policy s (s\<lparr>ci_root := c, ci_children := as, ci_world := w\<rparr>)"
| step_timeout: "running p (Container (ci_root s) (ci_children s)) \<Longrightarrow>
    action_event (rooted S) (leaf_timeout (as_leaf S)) p (Container (ci_root s) (ci_children s)) (ci_world s)
      = Some (Container c as, w, m) \<Longrightarrow>
    controller_step d S policy s (s\<lparr>ci_root := c, ci_children := as, ci_world := w\<rparr>)"
| step_queue: "controller_step d S policy s (s\<lparr>ci_queue := snd (tq_queue t e (ci_queue s))\<rparr>)"
| step_priority: "controller_step d S policy s (s\<lparr>ci_queue := snd (tq_queueWithPriority t e (ci_queue s))\<rparr>)"

inductive_cases controller_stepE: "controller_step d S policy s s'"

lemma iterateActions_root_ok:
  "iterateActions k (Suc n) S policy s = Some s' \<Longrightarrow> root_ok (Suc n) mw mf S s \<Longrightarrow>
   policy_ok n mw mf S policy \<Longrightarrow> root_ok (Suc n) mw mf S s'"
proof (induction k arbitrary: s)
  case 0
  then show ?case by simp
next
  case (Suc k)
  obtain s1 where s1: "iterate_actions (Suc n) S s = Some s1" "root_ok (Suc n) mw mf S s1"
    using round_ok [OF Suc.prems(2)] by blast
  obtain go s2 where s2: "iterate_trigger policy s1 = (go, s2)" by (metis surj_pair)
  note tr = trigger_ok(1) [OF s1(2) Suc.prems(3) s2]
  show ?case
  proof (cases go)
    case False
    with s1(1) s2 tr Suc.prems(1) show ?thesis by simp
  next
    case True
    with s1(1) s2 Suc.prems(1) have "iterateActions k (Suc n) S policy s2 = Some s'" by simp
    from Suc.IH [OF this tr Suc.prems(3)] show ?thesis .
  qed
qed

lemma event_root_ok:
  assumes "root_ok (Suc n) True True S s" and "running p (Container (ci_root s) (ci_children s))"
    and "event_ok True ev"
    and "action_event (rooted S) ev p (Container (ci_root s) (ci_children s)) (ci_world s)
      = Some (Container c as, w, m)"
  shows "root_ok (Suc n) True True S (s\<lparr>ci_root := c, ci_children := as, ci_world := w\<rparr>)"
proof -
  have "action_good (Suc n) True True (rooted S) (Container c as)"
    using event_tree_ok [OF _ assms(2,3), of "Suc n" "rooted S" "ci_world s"] assms(1,4)
    by (auto simp: root_ok_def)
  moreover have "ct_priv c = None"
    using assms(1,2,4)
    by (cases p) (auto simp: root_ok_def dest: ct_notified_priv split: if_splits option.splits prod.splits)
  ultimately show ?thesis by (simp add: root_ok_def)
qed

lemma controller_step_ok:
  assumes "controller_step (Suc n) S policy s s'" and "root_ok (Suc n) True True S s"
    and "policy_ok n True True S policy"
  shows "root_ok (Suc n) True True S s'"
  using assms
proof (induction rule: controller_step.induct)
  case (step_iterate k s s')
  then show ?case by (blast intro: iterateActions_root_ok)
next
  case (step_ack p s r c as w m)
  show ?case
    by (rule event_root_ok [OF step_ack(4,1) _ step_ack(3)])
      (simp add: event_ok_update step_ack(2))
next
  case (step_timeout p s c as w m)
  show ?case
    by (rule event_root_ok [OF step_timeout(3,1) event_ok_timeout step_timeout(2)])
qed (simp_all add: root_ok_def)



end
