(* ===== verification/Ordered_Map.thy ===== *)
theory Ordered_Map
  imports Gc_Prelude
begin

text \<open>
  \<open>std::map\<close> where the code iterates over it: a list of pairs with strictly ascending keys.
  Lookup is \<^const>\<open>map_of\<close>, \<open>m[k] = v\<close> is \<open>om_insert\<close>, and erasing while iterating is a filter.
  The locale \<open>ordered_container\<close> is the contract of such a container, with the abstract view
  as a partial function.
\<close>

fun om_insert :: "'k :: linorder \<Rightarrow> 'v \<Rightarrow> ('k \<times> 'v) list \<Rightarrow> ('k \<times> 'v) list" where
  "om_insert k v [] = [(k, v)]"
| "om_insert k v ((k', v') # m) =
     (if k < k' then (k, v) # (k', v') # m
      else if k = k' then (k, v) # m
      else (k', v') # om_insert k v m)"

definition om_erase :: "'k \<Rightarrow> ('k \<times> 'v) list \<Rightarrow> ('k \<times> 'v) list" where
  "om_erase k m = filter (\<lambda>(k', v). k' \<noteq> k) m"

definition om_ok :: "('k :: linorder \<times> 'v) list \<Rightarrow> bool" where
  "om_ok m \<longleftrightarrow> sorted_wrt (<) (map fst m)"

locale ordered_container =
  fixes ok :: "'m \<Rightarrow> bool"
    and lookup :: "'m \<Rightarrow> 'k \<Rightarrow> 'v option"
    and ins :: "'k \<Rightarrow> 'v \<Rightarrow> 'm \<Rightarrow> 'm"
    and del :: "'k \<Rightarrow> 'm \<Rightarrow> 'm"
  assumes ok_ins: "ok m \<Longrightarrow> ok (ins k v m)"
    and ok_del: "ok m \<Longrightarrow> ok (del k m)"
    and lookup_ins: "ok m \<Longrightarrow> lookup (ins k v m) = (lookup m)(k \<mapsto> v)"
    and lookup_del: "ok m \<Longrightarrow> lookup (del k m) = (lookup m)(k := None)"
    and ext: "ok m \<Longrightarrow> ok m' \<Longrightarrow> lookup m = lookup m' \<Longrightarrow> m = m'"
begin

lemma ins_same: "ok m \<Longrightarrow> lookup m k = Some v \<Longrightarrow> ins k v m = m"
  by (rule ext) (auto simp: ok_ins lookup_ins)

lemma ins_ins: "ok m \<Longrightarrow> ins k v (ins k v' m) = ins k v m"
  by (rule ext) (auto simp: ok_ins lookup_ins)

lemma del_ins: "ok m \<Longrightarrow> lookup m k = None \<Longrightarrow> del k (ins k v m) = m"
  by (rule ext) (auto simp: ok_ins ok_del lookup_ins lookup_del)

end

lemma om_insert_keys: "fst ` set (om_insert k v m) = insert k (fst ` set m)"
  by (induction m rule: om_insert.induct) force+

lemma om_ok_insert [intro]: "om_ok m \<Longrightarrow> om_ok (om_insert k v m)"
proof (induction k v m rule: om_insert.induct)
  case (1 k v)
  then show ?case by (simp add: om_ok_def)
next
  case (2 k v k' v' m)
  then show ?case
    using om_insert_keys [of k v m] by (force simp: om_ok_def)
qed

lemma om_ok_filter [intro]: "om_ok m \<Longrightarrow> om_ok (filter P m)"
  unfolding om_ok_def by (induction m) auto

lemma map_of_om_insert: "om_ok m \<Longrightarrow> map_of (om_insert k v m) = (map_of m)(k \<mapsto> v)"
proof (induction k v m rule: om_insert.induct)
  case (1 k v)
  then show ?case by auto
next
  case (2 k v k' v' m)
  have "k < k' \<Longrightarrow> k \<notin> fst ` set m" using 2(2) by (force simp: om_ok_def)
  with 2 show ?case by (auto simp: om_ok_def fun_eq_iff)
qed

lemma map_of_filter_key: "map_of (filter (\<lambda>(k, v). P k) m) = (\<lambda>k. if P k then map_of m k else None)"
  by (induction m) auto

lemma om_ext: "om_ok m \<Longrightarrow> om_ok m' \<Longrightarrow> map_of m = map_of m' \<Longrightarrow> m = m'"
proof -
  assume ok: "om_ok m" "om_ok m'" and eq: "map_of m = map_of m'"
  have d: "distinct (map fst m)" "distinct (map fst m')"
    using ok strict_sorted_iff by (auto simp: om_ok_def)
  have "set m = set m'" using eq d by (metis map_of_inject_set)
  moreover have "inj_on fst (set m)" using d(1) by (simp add: distinct_map)
  moreover have "map fst m = map fst m'"
    using ok \<open>set m = set m'\<close> by (auto simp: om_ok_def intro: strict_sorted_equal)
  ultimately show "m = m'" by (metis map_inj_on Un_absorb)
qed

interpretation om: ordered_container om_ok map_of om_insert om_erase
  by unfold_locales
    (auto simp: map_of_om_insert om_erase_def map_of_filter_key [of "\<lambda>k'. k' \<noteq> _"] fun_eq_iff intro: om_ext)

lemma om_ok_Nil [simp]: "om_ok []"
  by (simp add: om_ok_def)

end
