(* ===== verification/Element_Graph.thy ===== *)
theory Element_Graph
  imports Gc_Types Ordered_Map "HOL-Library.Char_ord" "HOL-Library.List_Lexorder"
begin

text \<open>
  \<open>CAmElement\<close>: the graph of controller elements. An element observes its subjects; both ends of
  the link are lists of pointers, so the graph is a store from addresses to elements. Also the
  factories \<open>CAmFactory\<close> that keep the elements of one class by name.
\<close>

section \<open>Elements\<close>

type_synonym el_addr = nat

record element =
  el_mName :: string
  el_mID :: "16 word"
  el_mType :: gc_Element_e
  el_priority :: int
  el_mListObservers :: "el_addr list"
  el_mListSubjects :: "el_addr list"

type_synonym el_store = "el_addr \<Rightarrow> element"

text \<open>\<open>getElement()\<close> of an element is the element itself, so \<open>this\<close> stands for it.\<close>

definition el_register :: "el_addr \<Rightarrow> el_addr option \<Rightarrow> el_store \<Rightarrow> am_Error_e \<times> el_store" where
  "el_register this pObserver h =
     (case pObserver of
        None \<Rightarrow> (E_NOT_POSSIBLE, h)
      | Some ob \<Rightarrow>
          if ob \<notin> set (el_mListObservers (h this))
          then (E_OK, h(this := h this\<lparr>el_mListObservers := el_mListObservers (h this) @ [ob]\<rparr>))
          else (E_ALREADY_EXISTS, h))"

definition el_deregister :: "el_addr \<Rightarrow> el_addr option \<Rightarrow> el_store \<Rightarrow> am_Error_e \<times> el_store" where
  "el_deregister this pObserver h =
     (case pObserver of
        None \<Rightarrow> (E_OK, h)
      | Some ob \<Rightarrow> (E_OK, h(this := h this\<lparr>el_mListObservers := remove1 ob (el_mListObservers (h this))\<rparr>)))"

definition push_subject :: "el_addr \<Rightarrow> el_addr \<Rightarrow> el_store \<Rightarrow> el_store" where
  "push_subject this s h = h(this := h this\<lparr>el_mListSubjects := el_mListSubjects (h this) @ [s]\<rparr>)"

definition el_attach :: "el_addr \<Rightarrow> el_addr option \<Rightarrow> el_store \<Rightarrow> am_Error_e \<times> el_store" where
  "el_attach this pSubject h =
     (case pSubject of
        None \<Rightarrow> (E_NOT_POSSIBLE, h)
      | Some s \<Rightarrow>
          (case el_register s (Some this) h of
             (E_OK, h1) \<Rightarrow> (E_OK, push_subject this s h1)
           | (E_ALREADY_EXISTS, h1) \<Rightarrow>
               if s \<in> set (el_mListSubjects (h1 this)) then (E_ALREADY_EXISTS, h1)
               else (E_OK, push_subject this s h1)
           | (e, h1) \<Rightarrow> (e, h1)))"

definition el_detach :: "el_addr \<Rightarrow> el_addr option \<Rightarrow> el_store \<Rightarrow> am_Error_e \<times> el_store" where
  "el_detach this pSubject h =
     (case pSubject of
        None \<Rightarrow> (E_NOT_POSSIBLE, h)
      | Some s \<Rightarrow>
          if s \<in> set (el_mListSubjects (h this))
          then el_deregister s (Some this)
                 (h(this := h this\<lparr>el_mListSubjects := remove1 s (el_mListSubjects (h this))\<rparr>))
          else (E_OK, h))"

text \<open>\<open>_detachAll\<close> erases the subjects from the front of the list, deregistering at each.\<close>

definition el_detachAll :: "el_addr \<Rightarrow> el_store \<Rightarrow> el_store" where
  "el_detachAll this h =
     (let h1 = foldl (\<lambda>h s. snd (el_deregister s (Some this) h)) h (el_mListSubjects (h this))
      in h1(this := h1 this\<lparr>el_mListSubjects := []\<rparr>))"

text \<open>\<open>removeObservers\<close> deregisters the first observer until none is left.\<close>

definition el_removeObservers :: "el_addr \<Rightarrow> el_store \<Rightarrow> el_store" where
  "el_removeObservers this h =
     foldl (\<lambda>h ob. snd (el_deregister this (Some ob) h)) h (el_mListObservers (h this))"

definition el_getObserverCount :: "gc_Element_e \<Rightarrow> el_addr \<Rightarrow> el_store \<Rightarrow> nat" where
  "el_getObserverCount ty this h =
     length (filter (\<lambda>ob. el_mType (h ob) = ty) (el_mListObservers (h this)))"

definition el_notify :: "(el_addr \<Rightarrow> el_addr \<Rightarrow> 'd \<Rightarrow> 'w \<Rightarrow> 'w) \<Rightarrow> el_addr \<Rightarrow> 'd \<Rightarrow> el_store \<Rightarrow> 'w \<Rightarrow> 'w" where
  "el_notify upd this updateData h w =
     foldl (\<lambda>w ob. upd ob this updateData w) w (el_mListObservers (h this))"

datatype el_filter = FilterType gc_Element_e | FilterName string | FilterPriority int
  | FilterTypeName gc_Element_e string | FilterTypeID gc_Element_e "16 word"

fun isFilterMatch :: "element \<Rightarrow> el_filter \<Rightarrow> bool" where
  "isFilterMatch e (FilterType ty) \<longleftrightarrow> el_mType e = ty"
| "isFilterMatch e (FilterName n) \<longleftrightarrow> el_mName e = n"
| "isFilterMatch e (FilterPriority p) \<longleftrightarrow> el_priority e = p"
| "isFilterMatch e (FilterTypeName ty n) \<longleftrightarrow> el_mType e = ty \<and> el_mName e = n"
| "isFilterMatch e (FilterTypeID ty i) \<longleftrightarrow> el_mType e = ty \<and> el_mID e = i"

text \<open>
  The search walks the subjects depth first and adds every match that is not in the list yet.
  It visits the subjects of an element again each time it comes by, and does not return on a
  cycle: \<open>None\<close> is the exhausted recursion depth.
\<close>

fun getListElements :: "nat \<Rightarrow> el_filter \<Rightarrow> el_store \<Rightarrow> el_addr \<Rightarrow> el_addr list \<Rightarrow> el_addr list option"
  and walk_subjects :: "nat \<Rightarrow> el_filter \<Rightarrow> el_store \<Rightarrow> el_addr list \<Rightarrow> el_addr list \<Rightarrow> el_addr list option"
where
  "getListElements 0 f h this found = None"
| "getListElements (Suc d) f h this found = walk_subjects d f h (el_mListSubjects (h this)) found"
| "walk_subjects d f h [] found = Some found"
| "walk_subjects d f h (s # ss) found =
     (case getListElements d f h s
        (if isFilterMatch (h s) f \<and> s \<notin> set found then found @ [s] else found) of
        None \<Rightarrow> None
      | Some found' \<Rightarrow> walk_subjects d f h ss found')"

lemmas el_defs [gc_unfold] = el_register_def el_deregister_def push_subject_def el_attach_def
  el_detach_def el_detachAll_def el_removeObservers_def el_notify_def

section \<open>The two ends of a link\<close>

definition links_ok :: "el_store \<Rightarrow> bool" where
  "links_ok h \<longleftrightarrow>
     (\<forall>a b. b \<in> set (el_mListSubjects (h a)) \<longleftrightarrow> a \<in> set (el_mListObservers (h b))) \<and>
     (\<forall>a. distinct (el_mListSubjects (h a)) \<and> distinct (el_mListObservers (h a)))"

definition linked :: "el_store \<Rightarrow> (el_addr \<times> el_addr) set" where
  "linked h = {(a, b). b \<in> set (el_mListSubjects (h a))}"

lemma attach_links:
  assumes "links_ok h" and "el_attach a (Some b) h = (e, h')" and "a \<noteq> b"
  shows "links_ok h'" and "linked h' = insert (a, b) (linked h)"
    and "e = (if (a, b) \<in> linked h then E_ALREADY_EXISTS else E_OK)"
  using assms by (auto simp: el_defs links_ok_def linked_def split: if_splits)

lemma detach_links:
  assumes "links_ok h" and "el_detach a (Some b) h = (e, h')" and "a \<noteq> b"
  shows "links_ok h'" and "linked h' = linked h - {(a, b)}" and "e = E_OK"
  using assms by (auto simp: el_defs links_ok_def linked_def split: if_splits)

text \<open>
  The contract the topology code relies on: attaching adds one link, detaching removes one,
  whatever is linked besides.
\<close>

locale link_service =
  fixes ok :: "'h \<Rightarrow> bool"
    and rel :: "'h \<Rightarrow> ('a \<times> 'a) set"
    and link :: "'a \<Rightarrow> 'a \<Rightarrow> 'h \<Rightarrow> 'h"
    and unlink :: "'a \<Rightarrow> 'a \<Rightarrow> 'h \<Rightarrow> 'h"
  assumes ok_link: "ok h \<Longrightarrow> a \<noteq> b \<Longrightarrow> ok (link a b h)"
    and ok_unlink: "ok h \<Longrightarrow> a \<noteq> b \<Longrightarrow> ok (unlink a b h)"
    and rel_link: "ok h \<Longrightarrow> a \<noteq> b \<Longrightarrow> rel (link a b h) = insert (a, b) (rel h)"
    and rel_unlink: "ok h \<Longrightarrow> a \<noteq> b \<Longrightarrow> rel (unlink a b h) = rel h - {(a, b)}"
begin

lemma unlink_link: "ok h \<Longrightarrow> a \<noteq> b \<Longrightarrow> (a, b) \<notin> rel h \<Longrightarrow> rel (unlink a b (link a b h)) = rel h"
  by (simp add: rel_unlink rel_link ok_link)

lemma link_commute:
  "ok h \<Longrightarrow> a \<noteq> b \<Longrightarrow> c \<noteq> d \<Longrightarrow> rel (link a b (link c d h)) = rel (link c d (link a b h))"
  by (auto simp: rel_link ok_link)

lemma unlink_all:
  "ok h \<Longrightarrow> a \<notin> set bs \<Longrightarrow> ok (foldl (\<lambda>h b. unlink a b h) h bs) \<and>
     rel (foldl (\<lambda>h b. unlink a b h) h bs) = rel h - {a} \<times> set bs"
proof (induction bs arbitrary: h)
  case Nil
  then show ?case by simp
next
  case (Cons b bs)
  then have "ok (unlink a b h)" "rel (unlink a b h) = rel h - {(a, b)}"
    by (simp_all add: ok_unlink rel_unlink)
  with Cons.IH [of "unlink a b h"] Cons.prems show ?case by auto
qed

end

definition el_link :: "el_addr \<Rightarrow> el_addr \<Rightarrow> el_store \<Rightarrow> el_store" where
  "el_link a b h = snd (el_attach a (Some b) h)"

definition el_unlink :: "el_addr \<Rightarrow> el_addr \<Rightarrow> el_store \<Rightarrow> el_store" where
  "el_unlink a b h = snd (el_detach a (Some b) h)"

interpretation el: link_service links_ok linked el_link el_unlink
proof
  fix h :: el_store and a b :: el_addr
  assume ok: "links_ok h" and ab: "a \<noteq> b"
  obtain e h' where x: "el_attach a (Some b) h = (e, h')" by (metis surj_pair)
  obtain e' h'' where y: "el_detach a (Some b) h = (e', h'')" by (metis surj_pair)
  from attach_links [OF ok x ab] x
  show "links_ok (el_link a b h)" and "linked (el_link a b h) = insert (a, b) (linked h)"
    by (simp_all add: el_link_def)
  from detach_links [OF ok y ab] y
  show "links_ok (el_unlink a b h)" and "linked (el_unlink a b h) = linked h - {(a, b)}"
    by (simp_all add: el_unlink_def)
qed

text \<open>Detaching from everything, as an element does when it is unregistered.\<close>

lemma deregister_all:
  "a \<notin> set ss \<Longrightarrow> foldl (\<lambda>h s. snd (el_deregister s (Some a) h)) h ss =
     (\<lambda>x. h x\<lparr>el_mListObservers := (if x \<in> set ss
        then foldl (\<lambda>os s. if s = x then remove1 a os else os) (el_mListObservers (h x)) ss
        else el_mListObservers (h x))\<rparr>)"
proof (induction ss arbitrary: h)
  case Nil
  then show ?case by simp
next
  case (Cons s ss)
  have neutral: "x \<notin> set ss \<Longrightarrow> foldl (\<lambda>os s. if s = x then remove1 a os else os) l ss = l" for x l
    by (induction ss arbitrary: l) auto
  from Cons show ?case by (auto simp: el_deregister_def fun_eq_iff neutral)
qed

lemma foldl_remove1_distinct:
  "distinct ss \<Longrightarrow> x \<in> set ss \<Longrightarrow> foldl (\<lambda>os s. if s = x then remove1 a os else os) l ss = remove1 a l"
proof (induction ss arbitrary: l)
  case (Cons s ss)
  have neutral: "x \<notin> set ss \<Longrightarrow> foldl (\<lambda>os s. if s = x then remove1 a os else os) l ss = l" for l
    by (induction ss arbitrary: l) auto
  from Cons neutral show ?case by auto
qed simp

text \<open>
  an element that detaches from all its subjects leaves no link behind. In a graph whose links
  agree at both ends and where the element does not observe itself, \<open>_detachAll\<close> removes exactly
  the links from the element to its subjects, at both ends, and keeps every other link; the graph
  still agrees at both ends and no observer is listed twice.
\<close>

theorem detachAll_removes_links:
  assumes "links_ok h" and "(a, a) \<notin> linked h"
  shows "links_ok (el_detachAll a h) \<and> linked (el_detachAll a h) = linked h - {a} \<times> UNIV"
proof -
  let ?ss = "el_mListSubjects (h a)"
  have d: "distinct ?ss" "a \<notin> set ?ss" using assms by (auto simp: links_ok_def linked_def)
  have x: "el_detachAll a h = (\<lambda>x. if x = a then h a\<lparr>el_mListSubjects := []\<rparr>
      else h x\<lparr>el_mListObservers := (if x \<in> set ?ss then remove1 a (el_mListObservers (h x))
        else el_mListObservers (h x))\<rparr>)"
    using d deregister_all [OF d(2), of h] by (auto simp: el_detachAll_def Let_def fun_eq_iff foldl_remove1_distinct)
  show ?thesis
    using assms d unfolding x by (auto simp: links_ok_def linked_def split: if_splits)
qed

theorem detachAll_removes_links_witness:
  "let h = el_link 1 3 (el_link 1 2 (\<lambda>a. \<lparr>el_mName = [], el_mID = 0, el_mType = ET_SINK, el_priority = 0,
             el_mListObservers = [], el_mListSubjects = []\<rparr>))
   in linked (el_detachAll 1 h) = {}"
proof -
  let ?h0 = "\<lambda>a :: el_addr. \<lparr>el_mName = [], el_mID = 0, el_mType = ET_SINK, el_priority = 0,
             el_mListObservers = [], el_mListSubjects = []\<rparr>"
  have h0: "links_ok ?h0" "linked ?h0 = {}" by (auto simp: links_ok_def linked_def)
  have h: "links_ok (el_link 1 3 (el_link 1 2 ?h0))" "linked (el_link 1 3 (el_link 1 2 ?h0)) = {(1, 2), (1, 3)}"
    using h0 by (auto simp: el.ok_link el.rel_link)
  from detachAll_removes_links [OF h(1), of 1] h(2) show ?thesis by (auto simp: Let_def)
qed

lemma removeObservers_eq: "el_removeObservers a h = h(a := h a\<lparr>el_mListObservers := []\<rparr>)"
proof -
  have "foldl (\<lambda>h ob. snd (el_deregister a (Some ob) h)) h (el_mListObservers (h a)) =
      h(a := h a\<lparr>el_mListObservers := []\<rparr>)"
  proof (induction "el_mListObservers (h a)" arbitrary: h)
    case Nil
    then show ?case by (simp add: fun_eq_iff)
  next
    case (Cons x xs)
    let ?h = "h(a := h a\<lparr>el_mListObservers := xs\<rparr>)"
    have "foldl (\<lambda>h ob. snd (el_deregister a (Some ob) h)) ?h (el_mListObservers (?h a)) =
        ?h(a := ?h a\<lparr>el_mListObservers := []\<rparr>)" by (rule Cons.hyps(1)) simp
    with Cons.hyps(2) [symmetric] show ?case by (simp add: el_deregister_def)
  qed
  then show ?thesis by (simp add: el_removeObservers_def)
qed

text \<open>
  C29: \<open>removeObservers\<close> only clears one end of the links. It empties the observer list of the
  element but leaves the element in the subject list of each former observer; when such an
  observer attaches again, the element is in its subject list twice.
\<close>

theorem removeObservers_one_sided:
  assumes "links_ok h" and "(ob, a) \<in> linked h" and "ob \<noteq> a"
  shows "el_mListObservers (el_removeObservers a h a) = [] \<and> linked (el_removeObservers a h) = linked h \<and>
    fst (el_attach ob (Some a) (el_removeObservers a h)) = E_OK \<and>
    count_list (el_mListSubjects (snd (el_attach ob (Some a) (el_removeObservers a h)) ob)) a = 2"
proof -
  have c: "count_list (el_mListSubjects (h ob)) a = 1"
    using assms(1,2) by (auto simp: links_ok_def linked_def count_list_eq_length_filter distinct_length_filter)
  show ?thesis
    using assms(3) c unfolding removeObservers_eq
    by (auto simp: linked_def el_attach_def el_register_def push_subject_def split: if_splits)
qed

theorem removeObservers_one_sided_witness:
  "let h = el_link 1 2 (\<lambda>a. \<lparr>el_mName = [], el_mID = 0, el_mType = ET_SINK, el_priority = 0,
             el_mListObservers = [], el_mListSubjects = []\<rparr>)
   in count_list (el_mListSubjects (snd (el_attach 1 (Some 2) (el_removeObservers 2 h)) 1)) 2 = 2"
proof -
  let ?h0 = "\<lambda>a :: el_addr. \<lparr>el_mName = [], el_mID = 0, el_mType = ET_SINK, el_priority = 0,
             el_mListObservers = [], el_mListSubjects = []\<rparr>"
  have h0: "links_ok ?h0" "linked ?h0 = {}" by (auto simp: links_ok_def linked_def)
  have h: "links_ok (el_link 1 2 ?h0)" "(1, 2) \<in> linked (el_link 1 2 ?h0)"
    using h0 by (auto simp: el.ok_link el.rel_link)
  from removeObservers_one_sided [OF h] show ?thesis by (simp add: Let_def)
qed

section \<open>The search through the subjects\<close>

lemma walk_subjects_ok:
  assumes "\<And>s found. s \<in> set ss \<Longrightarrow> \<exists>r. getListElements d f h s found = Some r \<and>
      set r = set found \<union> {b. (s, b) \<in> (linked h)\<^sup>+ \<and> isFilterMatch (h b) f} \<and> (distinct found \<longrightarrow> distinct r)"
  shows "\<exists>r. walk_subjects d f h ss found = Some r \<and>
      set r = set found \<union> {b. (\<exists>s \<in> set ss. (s, b) \<in> (linked h)\<^sup>*) \<and> isFilterMatch (h b) f} \<and>
      (distinct found \<longrightarrow> distinct r)"
  using assms
proof (induction ss arbitrary: found)
  case Nil
  then show ?case by simp
next
  case (Cons s ss)
  let ?fd = "if isFilterMatch (h s) f \<and> s \<notin> set found then found @ [s] else found"
  obtain r where r: "getListElements d f h s ?fd = Some r"
      "set r = set ?fd \<union> {b. (s, b) \<in> (linked h)\<^sup>+ \<and> isFilterMatch (h b) f}" "distinct ?fd \<longrightarrow> distinct r"
    using Cons.prems [of s ?fd] by auto
  obtain r' where r': "walk_subjects d f h ss r = Some r'"
      "set r' = set r \<union> {b. (\<exists>s \<in> set ss. (s, b) \<in> (linked h)\<^sup>*) \<and> isFilterMatch (h b) f}"
      "distinct r \<longrightarrow> distinct r'"
    using Cons.IH [of r] Cons.prems by auto
  have "set ?fd \<union> {b. (s, b) \<in> (linked h)\<^sup>+ \<and> isFilterMatch (h b) f}
      = set found \<union> {b. (s, b) \<in> (linked h)\<^sup>* \<and> isFilterMatch (h b) f}"
    by (auto simp: rtrancl_eq_or_trancl)
  with r r' show ?case by auto
qed

lemma getListElements_ok:
  assumes "\<And>a b. (a, b) \<in> linked h \<Longrightarrow> rank b < (rank a :: nat)"
  shows "rank this < d \<Longrightarrow> \<exists>r. getListElements d f h this found = Some r \<and>
      set r = set found \<union> {b. (this, b) \<in> (linked h)\<^sup>+ \<and> isFilterMatch (h b) f} \<and> (distinct found \<longrightarrow> distinct r)"
proof (induction d arbitrary: this found)
  case 0
  then show ?case by simp
next
  case (Suc d)
  have sub: "s \<in> set (el_mListSubjects (h this)) \<Longrightarrow> rank s < d" for s
    using assms [of this s] Suc.prems by (simp add: linked_def)
  have step: "{b. (\<exists>s \<in> set (el_mListSubjects (h this)). (s, b) \<in> (linked h)\<^sup>*) \<and> isFilterMatch (h b) f}
      = {b. (this, b) \<in> (linked h)\<^sup>+ \<and> isFilterMatch (h b) f}"
    by (auto simp: trancl_unfold_left linked_def relcomp_unfold)
  show ?case
    using walk_subjects_ok [OF Suc.IH [OF sub], of "el_mListSubjects (h this)" found] step by simp
qed

text \<open>
  C18: the search finds exactly the matching elements below. When the subject links of a graph
  have no cycle, bounded by a rank, the search from an element returns; its result holds, besides
  what was found before and each element once, exactly the elements that are reachable from it
  over subject links and match the filter.
\<close>

theorem search_finds_reachable:
  assumes "\<forall>a b. b \<in> set (el_mListSubjects (h a)) \<longrightarrow> rank b < rank a" and "rank this < d"
  shows "\<exists>r. getListElements d f h this [] = Some r \<and> distinct r \<and>
    set r = {b. (this, b) \<in> {(a, b). b \<in> set (el_mListSubjects (h a))}\<^sup>+ \<and> isFilterMatch (h b) f}"
  using getListElements_ok [where h = h and rank = rank and this = this and d = d and f = f and found = "[]"] assms
  by (auto simp: linked_def)

theorem search_finds_reachable_witness:
  "\<exists>r. getListElements 4 (FilterType ET_SINK) (\<lambda>a. \<lparr>el_mName = [], el_mID = 0,
      el_mType = (if a = 0 then ET_SINK else ET_ROUTE), el_priority = 0, el_mListObservers = [],
      el_mListSubjects = (if a = 0 then [] else [a - 1])\<rparr>) 3 [] = Some r \<and> distinct r \<and> r = [0]"
proof -
  let ?h = "\<lambda>a :: el_addr. \<lparr>el_mName = [], el_mID = 0,
      el_mType = (if a = 0 then ET_SINK else ET_ROUTE), el_priority = 0, el_mListObservers = [],
      el_mListSubjects = (if a = 0 then [] else [a - 1])\<rparr>"
  have ac: "\<forall>a b. b \<in> set (el_mListSubjects (?h a)) \<longrightarrow> id b < id a" by simp
  obtain r where r: "getListElements 4 (FilterType ET_SINK) ?h 3 [] = Some r" "distinct r"
    using search_finds_reachable [OF ac, of 3 4 "FilterType ET_SINK"] by auto
  moreover have "getListElements 4 (FilterType ET_SINK) ?h 3 [] = Some [0]"
    by (simp add: eval_nat_numeral)
  ultimately show ?thesis by simp
qed

section \<open>Factories\<close>

text \<open>
  \<open>CAmFactory<T>\<close> keeps the elements of a class in a map by name; \<open>'e\<close> is the class, with its
  name and ID. The registration of an element with the daemon, and its reversal, are the
  virtual methods \<open>_register\<close> and \<open>_unregister\<close>: here functions on the element and the world.
\<close>

type_synonym 'e factory = "(string \<times> 'e) list"

definition fa_getElement :: "string \<Rightarrow> 'e factory \<Rightarrow> 'e option" where
  "fa_getElement nm m = map_of m nm"

fun first_with_ID :: "('e \<Rightarrow> 16 word) \<Rightarrow> 16 word \<Rightarrow> 'e factory \<Rightarrow> 'e option" where
  "first_with_ID getID ID [] = None"
| "first_with_ID getID ID ((n, e) # m) = (if getID e = ID then Some e else first_with_ID getID ID m)"

definition fa_getElementByID :: "('e \<Rightarrow> 16 word) \<Rightarrow> 16 word \<Rightarrow> 'e factory \<Rightarrow> 'e option" where
  "fa_getElementByID getID ID m = (if ID = 0 then None else first_with_ID getID ID m)"

definition fa_getListElements :: "'e factory \<Rightarrow> 'e list" where
  "fa_getListElements m = map snd m"

definition fa_createElement :: "(string \<Rightarrow> 'w \<Rightarrow> 'e option \<times> 'w) \<Rightarrow> ('e \<Rightarrow> 'w \<Rightarrow> am_Error_e \<times> 'e \<times> 'w)
    \<Rightarrow> string \<Rightarrow> 'e factory \<Rightarrow> 'w \<Rightarrow> 'e option \<times> 'e factory \<times> 'w" where
  "fa_createElement construct register nm m w =
     (case fa_getElement nm m of
        Some e \<Rightarrow> (Some e, m, w)
      | None \<Rightarrow>
          (case construct nm w of
             (None, w1) \<Rightarrow> (None, m, w1)
           | (Some e, w1) \<Rightarrow>
               (case register e w1 of
                  (err, e1, w2) \<Rightarrow>
                    if err \<noteq> E_OK then (None, m, w2) else (Some e1, om_insert nm e1 m, w2))))"

definition fa_destroyElement :: "('e \<Rightarrow> 'w \<Rightarrow> am_Error_e \<times> 'w) \<Rightarrow> string \<Rightarrow> 'e factory \<Rightarrow> 'w
    \<Rightarrow> am_Error_e \<times> 'e factory \<times> 'w" where
  "fa_destroyElement unregister nm m w =
     (case fa_getElement nm m of
        None \<Rightarrow> (E_OK, m, w)
      | Some e \<Rightarrow> (case unregister e w of (err, w1) \<Rightarrow> (E_OK, if err = E_OK then om_erase nm m else m, w1)))"

definition fa_destroyElementByID :: "('e \<Rightarrow> 16 word) \<Rightarrow> ('e \<Rightarrow> string) \<Rightarrow> ('e \<Rightarrow> 'w \<Rightarrow> am_Error_e \<times> 'w)
    \<Rightarrow> 16 word \<Rightarrow> 'e factory \<Rightarrow> 'w \<Rightarrow> am_Error_e \<times> 'e factory \<times> 'w" where
  "fa_destroyElementByID getID getName unregister ID m w =
     (case fa_getElementByID getID ID m of
        None \<Rightarrow> (E_OK, m, w)
      | Some e \<Rightarrow>
          (case unregister e w of (err, w1) \<Rightarrow> (E_OK, if err = E_OK then om_erase (getName e) m else m, w1)))"

definition fa_destroyAll :: "'e factory \<Rightarrow> am_Error_e \<times> 'e factory" where
  "fa_destroyAll m = (E_OK, [])"

lemmas fa_defs [gc_unfold] = fa_getElement_def fa_createElement_def fa_destroyElement_def

text \<open>
  One element per name. Creating an element under a name that is taken returns the existing
  one without registering anything; under a free name the element is found afterwards exactly when
  its registration succeeded, and a failed registration leaves the factory as it was; no other
  name is affected and the factory stays ordered by name. Destroying the element gives the old
  factory back, unless the daemon refuses to unregister it, in which case it stays although the
  call reports success.
\<close>

theorem factory_create_destroy:
  assumes "om_ok m" and "fa_createElement construct register nm m w = (res, m', w')"
    and "fa_destroyElement unregister nm m' w' = (err, m'', w'')"
  shows "om_ok m' \<and> om_ok m'' \<and> err = E_OK \<and>
    (\<forall>nm'. nm' \<noteq> nm \<longrightarrow> fa_getElement nm' m' = fa_getElement nm' m) \<and>
    fa_getElement nm m' = res \<and>
    (fa_getElement nm m \<noteq> None \<longrightarrow> res = fa_getElement nm m \<and> m' = m \<and> w' = w) \<and>
    (\<forall>e. fa_getElement nm m = None \<and> res = Some e \<longrightarrow>
       m'' = (if fst (unregister e w') = E_OK then m else m'))"
proof -
  have find: "map_of (om_insert nm e m) = (map_of m)(nm \<mapsto> e)" for e
    using om.lookup_ins [OF assms(1)] .
  show ?thesis
    using assms om.del_ins [OF assms(1), of nm]
    by (auto simp: fa_defs find om.ok_ins om.ok_del split: option.splits prod.splits if_splits)
qed

theorem factory_create_destroy_witness:
  "let (res, m', w') = fa_createElement (\<lambda>nm w. (Some (7 :: nat), w)) (\<lambda>e w. (E_OK, e, w)) ''sink'' [(''amp'', 3)] ();
       (err, m'', w'') = fa_destroyElement (\<lambda>e w. (E_OK, w)) ''sink'' m' w'
   in fa_getElement ''sink'' m' = Some 7 \<and> m'' = [(''amp'', 3)]"
proof -
  let ?m = "[(''amp'', 3 :: nat)]"
  obtain res m' w' where c: "fa_createElement (\<lambda>nm w. (Some (7 :: nat), w)) (\<lambda>e w. (E_OK, e, w)) ''sink'' ?m () = (res, m', w')"
    by (metis prod_cases3)
  obtain err m'' w'' where d: "fa_destroyElement (\<lambda>e w. (E_OK, w)) ''sink'' m' w' = (err, m'', w'')"
    by (metis prod_cases3)
  have "res = Some 7" using c by (auto simp: fa_defs)
  with factory_create_destroy [OF _ c d] c d show ?thesis by (simp add: fa_getElement_def om_ok_def)
qed

end
