(* ===== verification/Limit_Element.thy ===== *)
theory Limit_Element
  imports Gc_Types Ordered_Map
begin

text \<open>
  \<open>CAmLimitableElement\<close>: the independent volume limits of a class, source or sink element,
  each under a 32 bit pattern, kept in a \<open>std::map\<close>; and the limit and mute actions that
  set them and take them back (\<open>CAmActionLimit\<close>, \<open>CAmActionMute\<close>).
\<close>

section \<open>The limits of an element\<close>

type_synonym limit_map = "(32 word \<times> gc_LimitVolume_s) list"

definition DEFAULT_LIMIT_PATTERN :: "32 word" where
  "DEFAULT_LIMIT_PATTERN = 0xFFFFFFFF"

definition covered_by :: "32 word \<Rightarrow> 32 word \<Rightarrow> bool" where
  "covered_by pattern p \<longleftrightarrow> and p (not pattern) = 0"

definition setLimitState :: "gc_LimitState_e \<Rightarrow> gc_LimitVolume_s \<Rightarrow> 32 word \<Rightarrow> limit_map \<Rightarrow> limit_map" where
  "setLimitState limitState lv pattern m =
     (if limitState = LS_LIMITED then om_insert pattern lv m
      else if limitState = LS_UNLIMITED then filter (\<lambda>(p, l). \<not> covered_by pattern p) m
      else m)"

definition getLimit :: "32 word \<Rightarrow> limit_map \<Rightarrow> gc_LimitState_e \<times> gc_LimitVolume_s" where
  "getLimit pattern m =
     (case map_of m pattern of
        None \<Rightarrow> (LS_UNLIMITED, \<lparr>limitType = LT_ABSOLUTE, limitVolume = AM_VOLUME_NO_LIMIT\<rparr>)
      | Some l \<Rightarrow> (LS_LIMITED, l))"

definition getLimits :: "limit_map \<Rightarrow> gc_LimitVolume_s list" where
  "getLimits m = map snd m"

definition le_getMuteState :: "limit_map \<Rightarrow> am_MuteState_e" where
  "le_getMuteState m =
     (if list_ex (\<lambda>l. limitType l = LT_ABSOLUTE \<and> AM_MUTE = limitVolume l) (getLimits m)
      then MS_MUTED else MS_UNMUTED)"

lemmas limit_defs [gc_unfold] = setLimitState_def getLimit_def getLimits_def le_getMuteState_def

lemma setLimitState_ok: "om_ok m \<Longrightarrow> om_ok (setLimitState s lv p m)"
  by (auto simp: setLimitState_def)

lemma map_of_setLimitState:
  "om_ok m \<Longrightarrow> map_of (setLimitState s lv p m) =
    (if s = LS_LIMITED then (map_of m)(p \<mapsto> lv)
     else if s = LS_UNLIMITED then (\<lambda>q. if covered_by p q then None else map_of m q)
     else map_of m)"
  by (auto simp: setLimitState_def map_of_om_insert map_of_filter_key [of "\<lambda>q. \<not> covered_by p q"] fun_eq_iff)

lemma covered_refl [simp]: "covered_by p p"
  by (simp add: covered_by_def)

lemma covered_default [simp]: "covered_by DEFAULT_LIMIT_PATTERN p"
proof -
  have "DEFAULT_LIMIT_PATTERN = - 1" by (simp add: DEFAULT_LIMIT_PATTERN_def)
  then show ?thesis unfolding covered_by_def by (elim ssubst) simp
qed

section \<open>The actions that set limits\<close>

text \<open>
  Both actions remember, for every element they change, the limit that was set under their
  pattern before. Elements are addressed by \<open>'i\<close>.
\<close>

type_synonym 'i limit_store = "'i \<Rightarrow> limit_map"

record 'i undo_item =
  ui_pElement :: 'i
  ui_state :: gc_LimitState_e
  ui_limit :: gc_LimitVolume_s

text \<open>
  The request of a limit action: \<open>None\<close> when its mandatory parameter is missing or wrong. An
  absolute volume wins over a step; without either the limit has no type and volume 0.
\<close>

definition limit_request :: "gc_LimitState_e option \<Rightarrow> am_volume_t option \<Rightarrow> am_volume_t option
    \<Rightarrow> (gc_LimitState_e \<times> gc_LimitVolume_s) option" where
  "limit_request stateParam volumeParam stepParam =
     (case stateParam of
        None \<Rightarrow> None
      | Some s \<Rightarrow>
          if s \<noteq> LS_LIMITED \<and> s \<noteq> LS_UNLIMITED then None
          else Some (s,
            if s = LS_LIMITED then
              (case volumeParam of
                 Some v \<Rightarrow> \<lparr>limitType = LT_ABSOLUTE, limitVolume = v\<rparr>
               | None \<Rightarrow> (case stepParam of
                   Some v \<Rightarrow> \<lparr>limitType = LT_RELATIVE, limitVolume = v\<rparr>
                 | None \<Rightarrow> \<lparr>limitType = LT_UNKNOWN, limitVolume = 0\<rparr>))
            else \<lparr>limitType = LT_UNKNOWN, limitVolume = 0\<rparr>))"

text \<open>The element to limit: the class, found by name or by a connection, the source, the sink.\<close>

definition limit_target :: "'i option \<Rightarrow> 'i option \<Rightarrow> 'i option \<Rightarrow> 'i option \<Rightarrow> 'i option" where
  "limit_target byClassName byConnection source sink =
     (case (case byClassName of Some c \<Rightarrow> Some c | None \<Rightarrow> byConnection) of
        Some c \<Rightarrow> Some c
      | None \<Rightarrow> (case source of Some s \<Rightarrow> Some s | None \<Rightarrow> sink))"

definition limit_apply_to :: "32 word \<Rightarrow> gc_LimitState_e \<Rightarrow> gc_LimitVolume_s \<Rightarrow> 'i
    \<Rightarrow> 'i undo_item list \<times> 'i limit_store \<Rightarrow> 'i undo_item list \<times> 'i limit_store" where
  "limit_apply_to pattern s lv i us =
     (case us of (undos, st) \<Rightarrow>
        let (prevState, prev) = getLimit pattern (st i)
        in (\<lparr>ui_pElement = i, ui_state = prevState, ui_limit = prev\<rparr> # undos,
            st(i := setLimitState s lv pattern (st i))))"

definition limit_applyLimit :: "gc_LimitState_e option \<Rightarrow> am_volume_t option \<Rightarrow> am_volume_t option
    \<Rightarrow> 'i option \<Rightarrow> 'i option \<Rightarrow> 'i option \<Rightarrow> 'i option \<Rightarrow> 32 word
    \<Rightarrow> 'i undo_item list \<times> 'i limit_store \<Rightarrow> 'i undo_item list \<times> 'i limit_store" where
  "limit_applyLimit stateParam volumeParam stepParam cls conn source sink pattern us =
     (case limit_request stateParam volumeParam stepParam of
        None \<Rightarrow> us
      | Some (s, lv) \<Rightarrow>
          (case limit_target cls conn source sink of
             None \<Rightarrow> us
           | Some i \<Rightarrow> limit_apply_to pattern s lv i us))"

definition limit_undo :: "'i undo_item list \<times> 'i limit_store \<Rightarrow> 'i undo_item list \<times> 'i limit_store" where
  "limit_undo us =
     (case us of (undos, st) \<Rightarrow>
        ([], foldl (\<lambda>st u. st(ui_pElement u :=
           setLimitState (ui_state u) (ui_limit u) DEFAULT_LIMIT_PATTERN (st (ui_pElement u)))) st undos))"

definition mute_updateLimitState :: "32 word \<Rightarrow> am_MuteState_e \<Rightarrow> 'i option
    \<Rightarrow> 'i undo_item list \<times> 'i limit_store \<Rightarrow> 'i undo_item list \<times> 'i limit_store" where
  "mute_updateLimitState pattern requested pElement us =
     (case pElement of
        None \<Rightarrow> us
      | Some i \<Rightarrow>
          (if requested = MS_MUTED
           then limit_apply_to pattern LS_LIMITED \<lparr>limitType = LT_ABSOLUTE, limitVolume = AM_MUTE\<rparr> i us
           else limit_apply_to pattern LS_UNLIMITED
                  \<lparr>limitType = LT_ABSOLUTE, limitVolume = AM_VOLUME_NO_LIMIT\<rparr> i us))"

definition mute_undo :: "32 word \<Rightarrow> 'i undo_item list \<times> 'i limit_store \<Rightarrow> 'i undo_item list \<times> 'i limit_store" where
  "mute_undo pattern us =
     (case us of (undos, st) \<Rightarrow>
        ([], foldl (\<lambda>st u. st(ui_pElement u :=
           setLimitState (ui_state u) (ui_limit u) pattern (st (ui_pElement u)))) st undos))"

lemmas limit_action_defs [gc_unfold] = limit_request_def limit_target_def limit_apply_to_def
  limit_applyLimit_def limit_undo_def mute_updateLimitState_def mute_undo_def

section \<open>Properties\<close>

text \<open>
  C19: limits are independent of each other. In an ordered limit map, limiting a pattern makes
  exactly that pattern answer the given limit; releasing a pattern makes every pattern that uses
  only its bits answer unlimited and leaves all others as they were; an unknown state changes
  nothing; the map stays ordered, and an element counts as muted exactly when one of its limits is
  the absolute mute volume.
\<close>

theorem setLimitState_getLimit:
  assumes "om_ok m" and "m' = setLimitState s lv p m"
  shows "om_ok m' \<and>
    (s = LS_LIMITED \<longrightarrow> (\<forall>q. getLimit q m' = (if q = p then (LS_LIMITED, lv) else getLimit q m))) \<and>
    (s = LS_UNLIMITED \<longrightarrow> (\<forall>q. getLimit q m' = (if and q (not p) = 0
       then (LS_UNLIMITED, \<lparr>limitType = LT_ABSOLUTE, limitVolume = AM_VOLUME_NO_LIMIT\<rparr>) else getLimit q m))) \<and>
    (s \<noteq> LS_LIMITED \<and> s \<noteq> LS_UNLIMITED \<longrightarrow> m' = m) \<and>
    (le_getMuteState m' = MS_MUTED \<longleftrightarrow>
       (\<exists>q. getLimit q m' = (LS_LIMITED, \<lparr>limitType = LT_ABSOLUTE, limitVolume = AM_MUTE\<rparr>)))"
proof -
  have ok: "om_ok m'" using assms by (simp add: setLimitState_ok)
  have dist: "distinct (map fst m')"
    using ok by (auto simp: om_ok_def strict_sorted_iff)
  have "le_getMuteState m' = MS_MUTED \<longleftrightarrow>
      (\<exists>q l. (q, l) \<in> set m' \<and> limitType l = LT_ABSOLUTE \<and> AM_MUTE = limitVolume l)"
    unfolding le_getMuteState_def getLimits_def list_ex_iff by (simp; force)
  also have "\<dots> \<longleftrightarrow> (\<exists>q. map_of m' q = Some \<lparr>limitType = LT_ABSOLUTE, limitVolume = AM_MUTE\<rparr>)"
  proof -
    have "limitType l = LT_ABSOLUTE \<and> AM_MUTE = limitVolume l \<longleftrightarrow> l = \<lparr>limitType = LT_ABSOLUTE, limitVolume = AM_MUTE\<rparr>"
      for l :: gc_LimitVolume_s by (cases l) auto
    then show ?thesis using dist by (simp add: map_of_eq_Some_iff)
  qed
  finally have muted: "le_getMuteState m' = MS_MUTED \<longleftrightarrow>
      (\<exists>q. map_of m' q = Some \<lparr>limitType = LT_ABSOLUTE, limitVolume = AM_MUTE\<rparr>)" .
  have lim: "getLimit q m' = (LS_LIMITED, l) \<longleftrightarrow> map_of m' q = Some l" for q l
    by (simp add: getLimit_def split: option.splits)
  note look = map_of_setLimitState [OF assms(1), of s lv p, folded assms(2)]
  show ?thesis
    unfolding lim using ok muted
    by (intro conjI impI) (simp_all add: getLimit_def look covered_by_def,
        simp add: assms(2) setLimitState_def)
qed

theorem setLimitState_getLimit_witness:
  "let m = setLimitState LS_LIMITED \<lparr>limitType = LT_ABSOLUTE, limitVolume = AM_MUTE\<rparr> 3
             [(1, \<lparr>limitType = LT_RELATIVE, limitVolume = -100\<rparr>)]
   in le_getMuteState m = MS_MUTED \<and> getLimit 1 m = (LS_LIMITED, \<lparr>limitType = LT_RELATIVE, limitVolume = -100\<rparr>)"
proof -
  let ?m = "[(1, \<lparr>limitType = LT_RELATIVE, limitVolume = -100\<rparr>)] :: limit_map"
  let ?l = "\<lparr>limitType = LT_ABSOLUTE, limitVolume = AM_MUTE\<rparr>"
  have g: "getLimit 1 ?m = (LS_LIMITED, \<lparr>limitType = LT_RELATIVE, limitVolume = -100\<rparr>)" by (simp add: getLimit_def)
  have "om_ok ?m" by (simp add: om_ok_def)
  note t = setLimitState_getLimit [OF this refl, of LS_LIMITED ?l 3]
  from t have q: "\<forall>q. getLimit q (setLimitState LS_LIMITED ?l 3 ?m) = (if q = 3 then (LS_LIMITED, ?l) else getLimit q ?m)"
    by blast
  then have "getLimit 3 (setLimitState LS_LIMITED ?l 3 ?m) = (LS_LIMITED, ?l)" by simp
  with t have "le_getMuteState (setLimitState LS_LIMITED ?l 3 ?m) = MS_MUTED" by blast
  with q g show ?thesis by (simp add: Let_def)
qed

lemma getLimit_cases:
  "getLimit p m = (s, l) \<Longrightarrow> (case map_of m p of
      None \<Rightarrow> s = LS_UNLIMITED \<and> l = \<lparr>limitType = LT_ABSOLUTE, limitVolume = AM_VOLUME_NO_LIMIT\<rparr>
    | Some l' \<Rightarrow> s = LS_LIMITED \<and> l = l')"
  by (auto simp: getLimit_def split: option.splits)

text \<open>The limit map of the element after setting and undoing under two patterns.\<close>

lemma set_undo_lookup:
  assumes "om_ok m" and "getLimit p m = (s0, l0)" and "s = LS_LIMITED \<or> s = LS_UNLIMITED"
  shows "map_of (setLimitState s0 l0 p (setLimitState s lv p m)) =
    (\<lambda>q. if q \<noteq> p \<and> covered_by p q \<and> (s = LS_UNLIMITED \<or> map_of m p = None) then None else map_of m q)"
  using assms getLimit_cases [OF assms(2)]
  by (auto simp: map_of_setLimitState setLimitState_ok fun_eq_iff split: option.splits)

text \<open>
  when the undo of a mute action is exact. Muting or unmuting an element under a pattern and
  undoing it restores all limits of all elements, with no undo item left, exactly when the element
  has no limit under another pattern that uses only bits of this one, or when it was muted and the
  pattern itself was limited before. Otherwise the undo loses such a limit; with the default pattern,
  which covers all others, that is every limit of the element.
\<close>

theorem mute_undo_exact:
  assumes "\<forall>j. om_ok (st j)"
  shows "mute_undo p (mute_updateLimitState p requested (Some i) ([], st)) = ([], st) \<longleftrightarrow>
    (\<forall>q. q \<noteq> p \<and> and q (not p) = 0 \<longrightarrow> map_of (st i) q = None) \<or>
    (requested = MS_MUTED \<and> map_of (st i) p \<noteq> None)"
proof -
  obtain s0 l0 where g: "getLimit p (st i) = (s0, l0)" by (metis surj_pair)
  define s where "s = (if requested = MS_MUTED then LS_LIMITED else LS_UNLIMITED)"
  define lv where "lv = (if requested = MS_MUTED
     then \<lparr>limitType = LT_ABSOLUTE, limitVolume = AM_MUTE\<rparr>
     else \<lparr>limitType = LT_ABSOLUTE, limitVolume = AM_VOLUME_NO_LIMIT\<rparr>)"
  have ok: "om_ok (st i)" using assms by simp
  define m' where "m' = setLimitState s0 l0 p (setLimitState s lv p (st i))"
  have "mute_undo p (mute_updateLimitState p requested (Some i) ([], st)) = ([], st(i := m'))"
    by (simp add: limit_action_defs g s_def lv_def m'_def)
  then have "mute_undo p (mute_updateLimitState p requested (Some i) ([], st)) = ([], st) \<longleftrightarrow> m' = st i"
    by (auto simp: fun_upd_idem_iff)
  also have "\<dots> \<longleftrightarrow> map_of m' = map_of (st i)"
    using ok by (auto simp: m'_def setLimitState_ok intro: om_ext)
  also have "\<dots> \<longleftrightarrow> (\<forall>q. q \<noteq> p \<and> covered_by p q \<and> (s = LS_UNLIMITED \<or> map_of (st i) p = None)
      \<longrightarrow> map_of (st i) q = None)"
    using set_undo_lookup [OF ok g, of s lv] by (auto simp: m'_def s_def fun_eq_iff)
  also have "\<dots> \<longleftrightarrow> (\<forall>q. q \<noteq> p \<and> and q (not p) = 0 \<longrightarrow> map_of (st i) q = None) \<or>
    (requested = MS_MUTED \<and> map_of (st i) p \<noteq> None)"
    by (auto simp: covered_by_def s_def)
  finally show ?thesis .
qed

theorem mute_undo_exact_witness:
  "mute_undo 4 (mute_updateLimitState 4 MS_MUTED (Some ()) ([], \<lambda>_. [(3, \<lparr>limitType = LT_RELATIVE, limitVolume = -100\<rparr>)]))
     = ([], \<lambda>_. [(3, \<lparr>limitType = LT_RELATIVE, limitVolume = -100\<rparr>)])"
  using mute_undo_exact [of "\<lambda>_. [(3, \<lparr>limitType = LT_RELATIVE, limitVolume = -100\<rparr>)]" 4 MS_MUTED "()"]
  by (auto simp: om_ok_def)

text \<open>
  The undo of a limit action works on the default pattern, not on its own. After an element
  was limited under another pattern and the action is undone, the element either has lost every
  limit it had, when the pattern was not limited before, or it keeps the new limit under the
  pattern and has the old one under the default pattern.
\<close>

theorem limit_undo_wrong_pattern:
  assumes "om_ok (st i)" and "p \<noteq> DEFAULT_LIMIT_PATTERN" and "limit_request sp vp tp = Some (LS_LIMITED, lv)"
    and "limit_undo (limit_applyLimit sp vp tp (Some i) None None None p ([], st)) = (us, st')"
  shows "(map_of (st i) p = None \<longrightarrow> st' i = []) \<and>
    (\<forall>l. map_of (st i) p = Some l \<longrightarrow>
       getLimit p (st' i) = (LS_LIMITED, lv) \<and> getLimit DEFAULT_LIMIT_PATTERN (st' i) = (LS_LIMITED, l))"
proof -
  obtain s0 l0 where g: "getLimit p (st i) = (s0, l0)" by (metis surj_pair)
  have st': "st' i = setLimitState s0 l0 DEFAULT_LIMIT_PATTERN (setLimitState LS_LIMITED lv p (st i))"
    using assms(3,4) g by (auto simp: limit_action_defs)
  show ?thesis
  proof (cases "map_of (st i) p")
    case None
    with getLimit_cases [OF g] have "s0 = LS_UNLIMITED" by simp
    with None show ?thesis by (simp add: st' setLimitState_def [of LS_UNLIMITED])
  next
    case (Some l)
    with getLimit_cases [OF g] have "s0 = LS_LIMITED" "l0 = l" by simp_all
    with Some assms(1,2) show ?thesis
      by (simp add: st' getLimit_def map_of_setLimitState setLimitState_ok)
  qed
qed

theorem limit_undo_wrong_pattern_witness:
  "snd (limit_undo (limit_applyLimit (Some LS_LIMITED) (Some (-200)) None (Some ()) None None None 4
      ([], \<lambda>_. [(3, \<lparr>limitType = LT_RELATIVE, limitVolume = -100\<rparr>)]))) () = []"
  using limit_undo_wrong_pattern [of "\<lambda>_. [(3, \<lparr>limitType = LT_RELATIVE, limitVolume = -100\<rparr>)]" "()" 4 "Some LS_LIMITED"
      "Some (-200)" None "\<lparr>limitType = LT_ABSOLUTE, limitVolume = -200\<rparr>"]
  by (cases "limit_undo (limit_applyLimit (Some LS_LIMITED) (Some (-200)) None (Some ()) None None None 4
      ([], \<lambda>_. [(3, \<lparr>limitType = LT_RELATIVE, limitVolume = -100\<rparr>)]))")
    (simp add: om_ok_def DEFAULT_LIMIT_PATTERN_def limit_request_def)

end
