(* ===== verification/Route_Point.thy ===== *)
theory Route_Point
  imports Limit_Element
begin

text \<open>
  \<open>CAmRoutePointElement\<close> with \<open>CAmSinkElement\<close> and \<open>CAmSourceElement\<close>, the two ends of a route:
  volume, offset and mute state, the sound properties with their ranges and their mapping, the
  volume curves, and the update of an element in the daemon's database. The database behind
  \<open>IAmControlReceive\<close> belongs to the daemon; the functions of it that an operation calls are
  parameters on its state \<open>'db\<close>.
\<close>

section \<open>Configuration and state\<close>

record gc_SoundProperty_s =
  gp_type :: am_propertyType_t
  gp_minValue :: am_propertyValue_t
  gp_maxValue :: am_propertyValue_t
  gp_isPersistenceSupported :: bool   \<comment> \<open>only in \<open>gc_MainSoundProperty_s\<close>\<close>

record gc_NodePoint_s =
  np_domainName :: string
  np_className :: string
  np_isVolumeChangeSupported :: bool
  np_isPersistencySupported :: bool
  np_isVolumePersistencySupported :: bool
  np_priority :: int
  np_listGCMainSoundProperties :: "gc_SoundProperty_s list"
  np_listGCSoundProperties :: "gc_SoundProperty_s list"
  np_MSP_TO_SP :: "am_propertyType_t \<rightharpoonup> am_propertyType_t"
  np_SP_TO_MSP :: "am_propertyType_t \<rightharpoonup> am_propertyType_t"

record route_point =
  rp_mType :: gc_Element_e
  rp_mName :: string
  rp_mID :: am_ID_t
  rp_mConfig :: gc_NodePoint_s
  rp_mVolume :: am_volume_t
  rp_mMinVolume :: am_volume_t
  rp_mMaxVolume :: am_volume_t
  rp_mOffsetVolume :: am_volume_t
  rp_mMuteState :: am_MuteState_e
  rp_mainVolume :: am_mainVolume_t
  rp_limits :: limit_map

definition rp_getVolumeSupport :: "route_point \<Rightarrow> bool" where
  "rp_getVolumeSupport p = np_isVolumeChangeSupported (rp_mConfig p)"

definition rp_setVolume :: "am_volume_t \<Rightarrow> route_point \<Rightarrow> route_point" where
  "rp_setVolume v p = p\<lparr>rp_mVolume := v\<rparr>"

definition rp_setOffsetVolume :: "am_volume_t \<Rightarrow> route_point \<Rightarrow> route_point" where
  "rp_setOffsetVolume v p = p\<lparr>rp_mOffsetVolume := v\<rparr>"

text \<open>
  A mute state that changes goes to the database for a sink; the answer only decides about a log
  message (which is the failure message for a success).
\<close>

definition rp_setMuteState :: "(am_MuteState_e \<Rightarrow> am_ID_t \<Rightarrow> 'db \<Rightarrow> am_Error_e \<times> 'db)
    \<Rightarrow> am_MuteState_e \<Rightarrow> route_point \<Rightarrow> 'db \<Rightarrow> route_point \<times> 'db" where
  "rp_setMuteState changeSinkMuteStateDB muteState p db =
     (if rp_mMuteState p \<noteq> muteState then
        (let db' = (if rp_mType p = ET_SINK then snd (changeSinkMuteStateDB muteState (rp_mID p) db) else db)
         in (p\<lparr>rp_mMuteState := muteState\<rparr>, db'))
      else (p, db))"

definition sink_setMainVolume :: "(am_mainVolume_t \<Rightarrow> am_ID_t \<Rightarrow> 'db \<Rightarrow> am_Error_e \<times> 'db)
    \<Rightarrow> am_mainVolume_t \<Rightarrow> route_point \<Rightarrow> 'db \<Rightarrow> route_point \<times> 'db" where
  "sink_setMainVolume changeSinkMainVolumeDB mainVolume p db =
     (if mainVolume \<noteq> rp_mainVolume p then
        (case changeSinkMainVolumeDB mainVolume (rp_mID p) db of
           (result, db') \<Rightarrow>
             (if result = E_OK \<or> result = E_NO_CHANGE then p\<lparr>rp_mainVolume := mainVolume\<rparr> else p, db'))
      else (p, db))"

definition sink_register :: "(route_point \<Rightarrow> 'db \<Rightarrow> am_Error_e \<times> am_ID_t \<times> 'db)
    \<Rightarrow> route_point \<Rightarrow> 'db \<Rightarrow> am_Error_e \<times> route_point \<times> 'db" where
  "sink_register enterDB p db =
     (case enterDB p db of (e, newID, db') \<Rightarrow>
        if e = E_OK then (E_OK, p\<lparr>rp_mID := newID\<rparr>, db') else (E_DATABASE_ERROR, p, db'))"

definition sink_unregister :: "(am_ID_t \<Rightarrow> 'db \<Rightarrow> am_Error_e \<times> 'db)
    \<Rightarrow> route_point \<Rightarrow> 'db \<Rightarrow> am_Error_e \<times> route_point \<times> 'db" where
  "sink_unregister removeDB p db =
     (case removeDB (rp_mID p) db of (e, db') \<Rightarrow>
        if e = E_OK then (E_OK, p\<lparr>rp_mID := 0\<rparr>, db') else (E_DATABASE_ERROR, p, db'))"

text \<open>The source element has the same two operations on its own tables.\<close>

definition source_register :: "(route_point \<Rightarrow> 'db \<Rightarrow> am_Error_e \<times> am_ID_t \<times> 'db)
    \<Rightarrow> route_point \<Rightarrow> 'db \<Rightarrow> am_Error_e \<times> route_point \<times> 'db" where
  "source_register enterDB p db =
     (case enterDB p db of (e, newID, db') \<Rightarrow>
        if e = E_OK then (E_OK, p\<lparr>rp_mID := newID\<rparr>, db') else (E_DATABASE_ERROR, p, db'))"

definition source_unregister :: "(am_ID_t \<Rightarrow> 'db \<Rightarrow> am_Error_e \<times> 'db)
    \<Rightarrow> route_point \<Rightarrow> 'db \<Rightarrow> am_Error_e \<times> route_point \<times> 'db" where
  "source_unregister removeDB p db =
     (case removeDB (rp_mID p) db of (e, db') \<Rightarrow>
        if e = E_OK then (E_OK, p\<lparr>rp_mID := 0\<rparr>, db') else (E_DATABASE_ERROR, p, db'))"

section \<open>Sound properties\<close>

definition isSoundPropertyConfigured :: "am_propertyType_t \<Rightarrow> gc_SoundProperty_s list \<Rightarrow> bool" where
  "isSoundPropertyConfigured t l = list_ex (\<lambda>g. gp_type g = t) l"

definition isMSPPersistenceSupported :: "gc_NodePoint_s \<Rightarrow> am_propertyType_t \<Rightarrow> bool" where
  "isMSPPersistenceSupported cfg t =
     (case find_key gp_type t (np_listGCMainSoundProperties cfg) of
        None \<Rightarrow> False | Some g \<Rightarrow> gp_isPersistenceSupported g)"

text \<open>\<open>std::min\<close> and \<open>std::max\<close> on 16 bit signed values.\<close>

definition smin :: "16 word \<Rightarrow> 16 word \<Rightarrow> 16 word" where
  "smin a b = (if sint b < sint a then b else a)"

definition smax :: "16 word \<Rightarrow> 16 word \<Rightarrow> 16 word" where
  "smax a b = (if sint a < sint b then b else a)"

definition saturateSoundProperty :: "am_propertyType_t \<Rightarrow> gc_SoundProperty_s list
    \<Rightarrow> am_propertyValue_t \<Rightarrow> am_Error_e \<times> am_propertyValue_t" where
  "saturateSoundProperty t l v =
     (case find_key gp_type t l of
        None \<Rightarrow> (E_UNKNOWN, v)
      | Some g \<Rightarrow> (E_OK, smin (smax v (gp_minValue g)) (gp_maxValue g)))"

definition mainSoundPropertyToSoundProperty :: "gc_NodePoint_s \<Rightarrow> am_MainSoundProperty_s
    \<Rightarrow> am_SoundProperty_s \<Rightarrow> am_Error_e \<times> am_SoundProperty_s" where
  "mainSoundPropertyToSoundProperty cfg msp sp =
     (case np_MSP_TO_SP cfg (pr_type msp) of
        Some t \<Rightarrow> (E_OK, \<lparr>pr_type = t, pr_value = pr_value msp\<rparr>)
      | None \<Rightarrow> (E_DATABASE_ERROR, sp))"

definition soundPropertyToMainSoundProperty :: "gc_NodePoint_s \<Rightarrow> am_SoundProperty_s
    \<Rightarrow> am_MainSoundProperty_s \<Rightarrow> am_Error_e \<times> am_MainSoundProperty_s" where
  "soundPropertyToMainSoundProperty cfg sp msp =
     (case np_SP_TO_MSP cfg (pr_type sp) of
        Some t \<Rightarrow> (E_OK, \<lparr>pr_type = t, pr_value = pr_value sp\<rparr>)
      | None \<Rightarrow> (E_DATABASE_ERROR, msp))"

text \<open>
  Setting main sound properties: the database first; then every property with persistence is
  handed to the class element (\<open>setLast\<close>, with the name and type of the element), if there is one.
\<close>

definition setMainSoundPropertiesValue ::
  "(am_MainSoundProperty_s list \<Rightarrow> am_ID_t \<Rightarrow> 'db \<Rightarrow> am_Error_e \<times> 'db)
   \<Rightarrow> (string \<Rightarrow> (gc_Element_e \<times> string \<Rightarrow> am_MainSoundProperty_s \<Rightarrow> 'db \<Rightarrow> 'db) option)
   \<Rightarrow> am_MainSoundProperty_s list \<Rightarrow> route_point \<Rightarrow> 'db \<Rightarrow> am_Error_e \<times> 'db" where
  "setMainSoundPropertiesValue changeDB classElement props p db =
     (case changeDB props (rp_mID p) db of
        (result, db1) \<Rightarrow>
          if result = E_OK then
            (E_OK, foldl (\<lambda>db prop.
               if isMSPPersistenceSupported (rp_mConfig p) (pr_type prop) then
                 (case classElement (np_className (rp_mConfig p)) of
                    None \<Rightarrow> db
                  | Some setLast \<Rightarrow> setLast (rp_mType p, rp_mName p) prop db)
               else db) db1 props)
          else (result, db1))"

section \<open>Updating an element in the database\<close>

text \<open>
  One round of each of the three loops of \<open>upadateDB\<close>. A sound property that the database has
  already is overwritten by nothing: the code assigns the new value to itself. A main sound
  property is overwritten or appended.
\<close>

definition merge_SP :: "gc_NodePoint_s \<Rightarrow> am_SoundProperty_s list \<times> am_MainSoundProperty_s list
    \<Rightarrow> am_SoundProperty_s \<Rightarrow> am_SoundProperty_s list \<times> am_MainSoundProperty_s list" where
  "merge_SP cfg st sp =
     (case st of (sps, msps) \<Rightarrow>
        if isSoundPropertyConfigured (pr_type sp) (np_listGCSoundProperties cfg) then
          (let sps' = insert_missing pr_type sp sps
           in case soundPropertyToMainSoundProperty cfg sp \<lparr>pr_type = 0, pr_value = 0\<rparr> of
                (err, msp) \<Rightarrow> if err \<noteq> E_OK then (sps', msps) else (sps', upsert pr_type msp msps))
        else (sps, msps))"

definition merge_MSP :: "gc_NodePoint_s \<Rightarrow> am_MainSoundProperty_s list \<Rightarrow> am_MainSoundProperty_s
    \<Rightarrow> am_MainSoundProperty_s list" where
  "merge_MSP cfg msps msp =
     (if isSoundPropertyConfigured (pr_type msp) (np_listGCMainSoundProperties cfg)
      then upsert pr_type msp msps else msps)"

definition merge_format :: "16 word list \<Rightarrow> 16 word \<Rightarrow> 16 word list" where
  "merge_format fs f = (if f \<in> set fs then fs else fs @ [f])"

record am_point_db =   \<comment> \<open>the fields of \<open>am_Sink_s\<close> and \<open>am_Source_s\<close> that are read\<close>
  pd_listSoundProperties :: "am_SoundProperty_s list"
  pd_listConnectionFormats :: "16 word list"
  pd_listMainSoundProperties :: "am_MainSoundProperty_s list"

definition updated_lists :: "gc_NodePoint_s \<Rightarrow> am_point_db \<Rightarrow> am_SoundProperty_s list \<Rightarrow> 16 word list
    \<Rightarrow> am_MainSoundProperty_s list \<Rightarrow> am_point_db" where
  "updated_lists cfg db newSP newFormats newMSP =
     (let (sps, msps) = foldl (merge_SP cfg) (pd_listSoundProperties db, pd_listMainSoundProperties db) newSP;
          msps' = foldl (merge_MSP cfg) msps newMSP;
          fs = foldl merge_format (pd_listConnectionFormats db) newFormats
      in \<lparr>pd_listSoundProperties = sps, pd_listConnectionFormats = fs, pd_listMainSoundProperties = msps'\<rparr>)"

definition sink_upadateDB :: "(am_ID_t \<Rightarrow> 'db \<Rightarrow> am_point_db) \<Rightarrow> (am_ID_t \<Rightarrow> 16 word \<Rightarrow> am_point_db \<Rightarrow> 'db \<Rightarrow> am_Error_e \<times> 'db)
    \<Rightarrow> 16 word \<Rightarrow> am_SoundProperty_s list \<Rightarrow> 16 word list \<Rightarrow> am_MainSoundProperty_s list
    \<Rightarrow> route_point \<Rightarrow> 'db \<Rightarrow> am_Error_e \<times> 'db" where
  "sink_upadateDB getSinkInfoDB changeSinkDB classId newSP newFormats newMSP p db =
     changeSinkDB (rp_mID p) classId
       (updated_lists (rp_mConfig p) (getSinkInfoDB (rp_mID p) db) newSP newFormats newMSP) db"

definition source_upadateDB :: "(am_ID_t \<Rightarrow> 'db \<Rightarrow> am_point_db) \<Rightarrow> (am_ID_t \<Rightarrow> 16 word \<Rightarrow> am_point_db \<Rightarrow> 'db \<Rightarrow> am_Error_e \<times> 'db)
    \<Rightarrow> 16 word \<Rightarrow> am_SoundProperty_s list \<Rightarrow> 16 word list \<Rightarrow> am_MainSoundProperty_s list
    \<Rightarrow> route_point \<Rightarrow> 'db \<Rightarrow> am_Error_e \<times> 'db" where
  "source_upadateDB getSourceInfoDB changeSourceDB classId newSP newFormats newMSP p db =
     changeSourceDB (rp_mID p) classId
       (updated_lists (rp_mConfig p) (getSourceInfoDB (rp_mID p) db) newSP newFormats newMSP) db"

text \<open>The lookup of a notification configuration by type in what the database answers.\<close>

definition getNotificationConfigurations :: "am_Error_e \<times> am_NotificationConfiguration_s list
    \<Rightarrow> 16 word \<Rightarrow> am_NotificationConfiguration_s \<Rightarrow> am_Error_e \<times> am_NotificationConfiguration_s" where
  "getNotificationConfigurations answer t out =
     (case answer of (result, l) \<Rightarrow>
        if result = E_OK then
          (case find_key nc_type t l of None \<Rightarrow> (E_UNKNOWN, out) | Some c \<Rightarrow> (E_OK, c))
        else (result, out))"

section \<open>Volume curves\<close>

text \<open>
  A volume curve is a \<open>std::map\<close> of supporting points, interpolated linearly in between and
  constant outside. The four operations of the machine's floating point type are parameters.
\<close>

record 'f arith =
  f_sub :: "'f \<Rightarrow> 'f \<Rightarrow> 'f"
  f_div :: "'f \<Rightarrow> 'f \<Rightarrow> 'f"
  f_mul :: "'f \<Rightarrow> 'f \<Rightarrow> 'f"
  f_add :: "'f \<Rightarrow> 'f \<Rightarrow> 'f"

text \<open>\<open>upper_bound\<close>: what lies up to the key, and what lies above it.\<close>

definition split_upper :: "'f :: linorder \<Rightarrow> ('f \<times> 'f) list \<Rightarrow> ('f \<times> 'f) list \<times> ('f \<times> 'f) list" where
  "split_upper x m = (takeWhile (\<lambda>(k, v). \<not> x < k) m, dropWhile (\<lambda>(k, v). \<not> x < k) m)"

definition lookupForward :: "'f arith \<Rightarrow> 'f :: linorder \<Rightarrow> ('f \<times> 'f) list \<Rightarrow> 'f" where
  "lookupForward A lhs m =
     (if m = [] then lhs
      else (case split_upper lhs m of
          (lows, []) \<Rightarrow> snd (last m)
        | ([], u # _) \<Rightarrow> snd u
        | (lows, u # _) \<Rightarrow>
            (let l = last lows
             in f_add A (f_mul A (f_div A (f_sub A (snd u) (snd l)) (f_sub A (fst u) (fst l)))
                  (f_sub A lhs (fst l))) (snd l))))"

definition lookupReverse :: "'f arith \<Rightarrow> 'f :: linorder \<Rightarrow> ('f \<times> 'f) list \<Rightarrow> 'f" where
  "lookupReverse A rhs m =
     lookupForward A rhs (foldl (\<lambda>r (k, v). om_insert v k r) [] m)"

lemmas route_point_defs [gc_unfold] = rp_getVolumeSupport_def rp_setVolume_def rp_setOffsetVolume_def
  rp_setMuteState_def saturateSoundProperty_def mainSoundPropertyToSoundProperty_def
  soundPropertyToMainSoundProperty_def isSoundPropertyConfigured_def

section \<open>Properties\<close>

lemma find_key_append: "find_key key k (xs @ ys) =
    (case find_key key k xs of None \<Rightarrow> find_key key k ys | Some y \<Rightarrow> Some y)"
  by (induction xs) auto

lemma find_key_foldl_upsert:
  "find_key key k (foldl (\<lambda>m x. if P x then upsert key x m else m) m xs) =
     find_key key k (rev (filter P xs) @ m)"
  by (induction xs arbitrary: m) (auto simp: find_key_append split: option.splits)

lemma find_key_foldl_insert_missing:
  "find_key key k (foldl (\<lambda>m x. if P x then insert_missing key x m else m) m xs) =
     find_key key k (m @ filter P xs)"
  by (induction xs arbitrary: m) (auto simp: find_key_append split: option.splits)

lemma find_key_filter:
  "find_key key k (filter (\<lambda>x. Q (key x)) xs) = (if Q k then find_key key k xs else None)"
  by (induction xs) auto

lemma merge_format_set:
  "set (foldl merge_format fs new) = set fs \<union> set new \<and> (distinct fs \<longrightarrow> distinct (foldl merge_format fs new))"
  by (induction new arbitrary: fs) (auto simp: merge_format_def)

text \<open>The main sound properties that the routing side's sound properties are converted to.\<close>

fun converted :: "gc_NodePoint_s \<Rightarrow> am_SoundProperty_s list \<Rightarrow> am_MainSoundProperty_s list" where
  "converted cfg [] = []"
| "converted cfg (sp # sps) =
     (case np_SP_TO_MSP cfg (pr_type sp) of
        Some t \<Rightarrow> if isSoundPropertyConfigured (pr_type sp) (np_listGCSoundProperties cfg)
                   then \<lparr>pr_type = t, pr_value = pr_value sp\<rparr> # converted cfg sps else converted cfg sps
      | None \<Rightarrow> converted cfg sps)"

lemma merge_SP_foldl:
  "foldl (merge_SP cfg) (sps, msps) new =
     (foldl (\<lambda>m x. if isSoundPropertyConfigured (pr_type x) (np_listGCSoundProperties cfg)
         then insert_missing pr_type x m else m) sps new,
      foldl (\<lambda>m x. if True then upsert pr_type x m else m) msps (converted cfg new))"
  by (induction new arbitrary: sps msps)
    (auto simp: merge_SP_def soundPropertyToMainSoundProperty_def Let_def split: option.splits)

text \<open>
  what the update of a sink or source writes to the database. A sound property type keeps the
  value the database has; one it does not have takes the first value given, if the type is
  configured. A main sound property takes the last configured value given for it, otherwise the
  last one converted from a configured sound property, otherwise it keeps the value of the
  database. The connection formats are those of the database and the new ones, none twice.
\<close>

theorem upadateDB_lists:
  assumes "updated_lists cfg db newSP newFormats newMSP = r"
  shows "find_key pr_type t (pd_listSoundProperties r) =
      (case find_key pr_type t (pd_listSoundProperties db) of
         Some y \<Rightarrow> Some y
       | None \<Rightarrow> if isSoundPropertyConfigured t (np_listGCSoundProperties cfg)
                 then find_key pr_type t newSP else None) \<and>
    find_key pr_type t (pd_listMainSoundProperties r) =
      find_key pr_type t
        (rev (filter (\<lambda>m. isSoundPropertyConfigured (pr_type m) (np_listGCMainSoundProperties cfg)) newMSP)
         @ rev (converted cfg newSP) @ pd_listMainSoundProperties db) \<and>
    set (pd_listConnectionFormats r) = set (pd_listConnectionFormats db) \<union> set newFormats \<and>
    (distinct (pd_listConnectionFormats db) \<longrightarrow> distinct (pd_listConnectionFormats r))"
proof -
  let ?sps = "foldl (\<lambda>m x. if isSoundPropertyConfigured (pr_type x) (np_listGCSoundProperties cfg)
         then insert_missing pr_type x m else m) (pd_listSoundProperties db) newSP"
  let ?msps = "foldl (\<lambda>m x. if True then upsert pr_type x m else m) (pd_listMainSoundProperties db) (converted cfg newSP)"
  have r: "r = \<lparr>pd_listSoundProperties = ?sps,
      pd_listConnectionFormats = foldl merge_format (pd_listConnectionFormats db) newFormats,
      pd_listMainSoundProperties = foldl (merge_MSP cfg) ?msps newMSP\<rparr>"
    using assms by (simp add: updated_lists_def merge_SP_foldl Let_def)
  have m: "foldl (merge_MSP cfg) ms newMSP =
      foldl (\<lambda>m x. if isSoundPropertyConfigured (pr_type x) (np_listGCMainSoundProperties cfg) then upsert pr_type x m else m) ms newMSP"
    for ms by (simp add: merge_MSP_def [abs_def])
  have "find_key pr_type t ?sps = (case find_key pr_type t (pd_listSoundProperties db) of
         Some y \<Rightarrow> Some y
       | None \<Rightarrow> if isSoundPropertyConfigured t (np_listGCSoundProperties cfg)
                 then find_key pr_type t newSP else None)"
    by (simp add: find_key_foldl_insert_missing find_key_append
        find_key_filter [where Q = "\<lambda>t. isSoundPropertyConfigured t (np_listGCSoundProperties cfg)"] split: option.splits)
  moreover have "find_key pr_type t (foldl (merge_MSP cfg) ?msps newMSP) = find_key pr_type t
        (rev (filter (\<lambda>m. isSoundPropertyConfigured (pr_type m) (np_listGCMainSoundProperties cfg)) newMSP)
         @ rev (converted cfg newSP) @ pd_listMainSoundProperties db)"
    unfolding m find_key_foldl_upsert find_key_append
    using find_key_foldl_upsert [of pr_type t "\<lambda>_. True" "pd_listMainSoundProperties db" "converted cfg newSP"]
    by (simp add: find_key_append split: option.splits)
  ultimately show ?thesis using merge_format_set [of "pd_listConnectionFormats db" newFormats]
    by (simp add: r)
qed

theorem upadateDB_lists_witness:
  "let cfg = \<lparr>np_domainName = [], np_className = [], np_isVolumeChangeSupported = False, np_isPersistencySupported = False,
         np_isVolumePersistencySupported = False, np_priority = 0, np_listGCMainSoundProperties = [],
         np_listGCSoundProperties = [\<lparr>gp_type = 1, gp_minValue = 0, gp_maxValue = 9, gp_isPersistenceSupported = False\<rparr>],
         np_MSP_TO_SP = Map.empty, np_SP_TO_MSP = [1 \<mapsto> 5]\<rparr>;
       db = \<lparr>pd_listSoundProperties = [\<lparr>pr_type = 1, pr_value = 3\<rparr>], pd_listConnectionFormats = [], pd_listMainSoundProperties = []\<rparr>;
       r = updated_lists cfg db [\<lparr>pr_type = 1, pr_value = 8\<rparr>] [2] []
   in find_key pr_type 1 (pd_listSoundProperties r) = Some \<lparr>pr_type = 1, pr_value = 3\<rparr> \<and>
      find_key pr_type 5 (pd_listMainSoundProperties r) = Some \<lparr>pr_type = 5, pr_value = 8\<rparr>"
  unfolding Let_def
  by (intro conjI; subst upadateDB_lists [OF refl, THEN conjunct1] upadateDB_lists [OF refl, THEN conjunct2, THEN conjunct1])
    (simp_all add: isSoundPropertyConfigured_def)

text \<open>
  Saturation of a sound property. For a type without a configured range the value is left
  alone and the call fails; for a configured one with a proper range it succeeds with a value of
  the range, and a value of the range is not changed. Values are signed 16 bit numbers.
\<close>

theorem saturateSoundProperty_range:
  assumes "saturateSoundProperty t l v = (e, v')"
  shows "(e = E_OK \<longleftrightarrow> isSoundPropertyConfigured t l) \<and> (e \<noteq> E_OK \<longrightarrow> e = E_UNKNOWN \<and> v' = v) \<and>
    (\<forall>g. find_key gp_type t l = Some g \<and> sint (gp_minValue g) \<le> sint (gp_maxValue g) \<longrightarrow>
       sint (gp_minValue g) \<le> sint v' \<and> sint v' \<le> sint (gp_maxValue g) \<and>
       (sint (gp_minValue g) \<le> sint v \<and> sint v \<le> sint (gp_maxValue g) \<longrightarrow> v' = v))"
proof -
  have "isSoundPropertyConfigured t l \<longleftrightarrow> find_key gp_type t l \<noteq> None"
    by (auto simp: find_key_None_iff isSoundPropertyConfigured_def list_ex_iff)
  then show ?thesis
    using assms by (auto simp: saturateSoundProperty_def smin_def smax_def split: option.splits if_splits)
qed

theorem saturateSoundProperty_range_witness:
  "saturateSoundProperty 4 [\<lparr>gp_type = 4, gp_minValue = -10, gp_maxValue = 10, gp_isPersistenceSupported = False\<rparr>] (-20)
     = (E_OK, -10)"
proof -
  obtain e v where s: "saturateSoundProperty 4 [\<lparr>gp_type = 4, gp_minValue = -10, gp_maxValue = 10,
      gp_isPersistenceSupported = False\<rparr>] (-20) = (e, v)" by (metis surj_pair)
  from saturateSoundProperty_range [OF s] s show ?thesis
    by (simp add: isSoundPropertyConfigured_def saturateSoundProperty_def smin_def smax_def)
qed

lemma split_upper_at_key:
  assumes "om_ok (xs @ (k, v) # ys)"
  shows "split_upper k (xs @ (k, v) # ys) = (xs @ [(k, v)], ys)"
proof -
  have lo: "\<forall>(k', v') \<in> set xs. k' < k" and hi: "\<forall>(k', v') \<in> set ys. k < k'"
    using assms by (auto simp: om_ok_def sorted_wrt_append)
  have t: "takeWhile (\<lambda>(k', v). \<not> k < k') ys = []" "dropWhile (\<lambda>(k', v). \<not> k < k') ys = ys"
    using hi by (cases ys; auto)+
  show ?thesis
    using lo t by (auto simp: split_upper_def takeWhile_append dropWhile_append)
qed

text \<open>
  a volume curve goes through its supporting points and is constant outside. For an ordered
  curve, with any arithmetic in which \<open>a - a = 0\<close>, \<open>x * 0 = 0\<close> and \<open>0 + y = y\<close>, the value at the key
  of a supporting point is the value of that point, below the first key it is the first value and
  above the last key the last one; an empty curve is the identity.
\<close>

theorem volume_curve_points:
  assumes "om_ok m" and "\<forall>a. f_sub A a a = z" and "\<forall>x. f_mul A x z = z" and "\<forall>y. f_add A z y = y"
  shows "(\<forall>k v. (k, v) \<in> set m \<longrightarrow> lookupForward A k m = v) \<and>
    (\<forall>x. m \<noteq> [] \<and> x < fst (hd m) \<longrightarrow> lookupForward A x m = snd (hd m)) \<and>
    (\<forall>x. m \<noteq> [] \<and> fst (last m) < x \<longrightarrow> lookupForward A x m = snd (last m)) \<and>
    lookupForward A x [] = x"
proof (intro conjI allI impI)
  fix k v
  assume "(k, v) \<in> set m"
  then obtain xs ys where m: "m = xs @ (k, v) # ys" by (meson split_list)
  show "lookupForward A k m = v"
    using split_upper_at_key [of xs k v ys] assms m
    by (cases ys; cases xs) (simp_all add: lookupForward_def)
next
  fix x
  assume "m \<noteq> [] \<and> x < fst (hd m)"
  then obtain k v ys where m: "m = (k, v) # ys" "x < k" by (cases m) auto
  then have "split_upper x m = ([], m)" by (simp add: split_upper_def)
  with m show "lookupForward A x m = snd (hd m)" by (simp add: lookupForward_def)
next
  fix x
  assume x: "m \<noteq> [] \<and> fst (last m) < x"
  obtain ys p where m: "m = ys @ [p]" using x by (cases m rule: rev_cases) auto
  have "fst q \<le> fst p" if "q \<in> set m" for q
    using that assms(1) by (auto simp: m om_ok_def sorted_wrt_append)
  moreover have "last m = p" by (simp add: m)
  ultimately have "\<forall>q \<in> set m. fst q < x" using x by force
  then have "split_upper x m = (m, [])"
    by (force simp: split_upper_def takeWhile_eq_all_conv dropWhile_eq_Nil_conv)
  with x show "lookupForward A x m = snd (last m)" by (cases m) (simp_all add: lookupForward_def)
qed (simp add: lookupForward_def)

theorem volume_curve_points_witness:
  "lookupForward \<lparr>f_sub = (-), f_div = (\<lambda>a b. a), f_mul = (*), f_add = (+)\<rparr> (2 :: int) [(1, 10), (2, 20), (5, 50)] = 20"
  using volume_curve_points [of "[(1, 10), (2, 20), (5, 50)]" "\<lparr>f_sub = (-), f_div = (\<lambda>a b. a), f_mul = (*), f_add = (+)\<rparr>" "0 :: int"]
  by (simp add: om_ok_def)

end
