(* ===== verification/Main_Connection.thy ===== *)
theory Main_Connection
  imports Route_Point Trigger_Queue "HOL-Library.Multiset"
begin

text \<open>
  \<open>CAmMainConnectionElement\<close> with \<open>CAmRouteElement\<close>, the factory's chronological list and
  \<open>CAmConnectionListFilter\<close>. Sources and sinks are shared between routes, so a route holds their
  addresses (or null) and the operations read a store of points. The state of a main connection
  lives in the daemon's database; its two functions are parameters.
\<close>

section \<open>State\<close>

type_synonym points = "nat \<Rightarrow> route_point"

record route_element =
  re_mName :: string
  re_mpSourceElement :: "nat option"
  re_mpSinkElement :: "nat option"
  re_mState :: am_ConnectionState_e

definition re_getPriority :: "points \<Rightarrow> route_element \<Rightarrow> int" where
  "re_getPriority pts r =
     (case (re_mpSourceElement r, re_mpSinkElement r) of
        (Some s, Some k) \<Rightarrow> np_priority (rp_mConfig (pts s)) + np_priority (rp_mConfig (pts k))
      | _ \<Rightarrow> 0)"

record main_connection =
  mc_mName :: string
  mc_mID :: am_ID_t
  mc_mpClassElement :: "string option"   \<comment> \<open>the class element, by its name\<close>
  mc_mainSourceName :: string
  mc_mainSinkName :: string
  mc_mListRouteElements :: "route_element list"
  mc_mOngoingTransitions :: "nat list"
  mc_mMainVolume :: am_mainVolume_t

definition mc_getClassName :: "main_connection \<Rightarrow> string" where
  "mc_getClassName c = (case mc_mpClassElement c of Some nm \<Rightarrow> nm | None \<Rightarrow> '''')"

definition mc_registerTransitionAction :: "nat option \<Rightarrow> main_connection \<Rightarrow> main_connection" where
  "mc_registerTransitionAction act c =
     (case act of None \<Rightarrow> c | Some a \<Rightarrow> c\<lparr>mc_mOngoingTransitions := mc_mOngoingTransitions c @ [a]\<rparr>)"

definition mc_unregisterTransitionAction :: "nat \<Rightarrow> main_connection \<Rightarrow> main_connection" where
  "mc_unregisterTransitionAction a c = c\<lparr>mc_mOngoingTransitions := remove1 a (mc_mOngoingTransitions c)\<rparr>"

type_synonym 'db state_db = "am_ID_t \<Rightarrow> 'db \<Rightarrow> am_Error_e \<times> am_ConnectionState_e"

definition mc_getState :: "'db state_db \<Rightarrow> main_connection \<Rightarrow> 'db \<Rightarrow> am_ConnectionState_e" where
  "mc_getState getInfoDB c db =
     (case getInfoDB (mc_mID c) db of (result, s) \<Rightarrow> if result = E_OK then s else CS_UNKNOWN)"

definition mc_setState :: "'db state_db \<Rightarrow> (am_ID_t \<Rightarrow> am_ConnectionState_e \<Rightarrow> 'db \<Rightarrow> 'db)
    \<Rightarrow> (am_ConnectionState_e \<Rightarrow> 'db \<Rightarrow> 'db) \<Rightarrow> am_ConnectionState_e \<Rightarrow> main_connection \<Rightarrow> 'db \<Rightarrow> 'db" where
  "mc_setState getInfoDB changeStateDB notifyObs s c db =
     (if mc_getState getInfoDB c db \<noteq> s then notifyObs s (changeStateDB (mc_mID c) s db) else db)"

definition mc_setStateChangeTrigger :: "'db state_db \<Rightarrow> am_Error_e \<Rightarrow> main_connection \<Rightarrow> 'db
    \<Rightarrow> trigger_queue \<Rightarrow> trigger_queue" where
  "mc_setStateChangeTrigger getInfoDB actionResult c db q =
     snd (tq_queueWithPriority SYSTEM_CONNECTION_STATE_CHANGE
       (Some (ConnectionStateChangeTrigger (mc_mName c) (mc_getState getInfoDB c db) actionResult)) q)"

section \<open>Disposal\<close>

definition latent_connect :: "main_connection \<Rightarrow> trigger_pair \<Rightarrow> bool" where
  "latent_connect c trig =
     (case trig of
        (USER_CONNECTION_REQUEST, Some (ConnectTrigger src snk cls)) \<Rightarrow>
          snk = mc_mainSinkName c \<and> src = mc_mainSourceName c
      | _ \<Rightarrow> False)"

definition mc_permitsDispose :: "'db state_db \<Rightarrow> trigger_queue \<Rightarrow> main_connection \<Rightarrow> 'db \<Rightarrow> bool" where
  "mc_permitsDispose getInfoDB q c db =
     (let n = length (mc_mOngoingTransitions c);
          n' = foldl (\<lambda>n trig. if latent_connect c trig then Suc n else n) n (tq_getSnapShot q)
      in mc_getState getInfoDB c db = CS_DISCONNECTED \<and> n' = 0)"

section \<open>State of the route\<close>

fun route_state :: "am_ConnectionState_e \<Rightarrow> route_element list \<Rightarrow> am_ConnectionState_e" where
  "route_state s [] = s"
| "route_state s (r # rs) = (if re_mState r \<noteq> CS_CONNECTED then re_mState r else route_state (re_mState r) rs)"

definition mc_newState :: "am_SourceState_e option \<Rightarrow> main_connection \<Rightarrow> am_ConnectionState_e" where
  "mc_newState mainSourceState c =
     (let s = route_state CS_DISCONNECTED (mc_mListRouteElements c)
      in case mainSourceState of
           None \<Rightarrow> s
         | Some src \<Rightarrow> if s = CS_CONNECTED \<and> src \<noteq> SS_ON then CS_SUSPENDED else s)"

definition mc_updateState :: "'db state_db \<Rightarrow> (am_ID_t \<Rightarrow> am_ConnectionState_e \<Rightarrow> 'db \<Rightarrow> 'db)
    \<Rightarrow> (am_ConnectionState_e \<Rightarrow> 'db \<Rightarrow> 'db) \<Rightarrow> am_SourceState_e option \<Rightarrow> main_connection \<Rightarrow> 'db \<Rightarrow> 'db" where
  "mc_updateState getInfoDB changeStateDB notifyObs mainSourceState c db =
     mc_setState getInfoDB changeStateDB notifyObs (mc_newState mainSourceState c) c db"

text \<open>
  The availability of each end is asked of the database (\<open>avail\<close>); a null end is dereferenced by
  the code, which has no defined result (\<open>None\<close>).
\<close>

fun route_availability :: "(nat \<Rightarrow> am_Availability_e) \<Rightarrow> am_Availability_e \<Rightarrow> route_element list
    \<Rightarrow> am_Availability_e option" where
  "route_availability avail ret [] = Some ret"
| "route_availability avail ret (r # rs) =
     (case (re_mpSourceElement r, re_mpSinkElement r) of
        (Some s, Some k) \<Rightarrow>
          if avail s = A_UNKNOWN \<or> avail k = A_UNKNOWN then Some A_UNKNOWN
          else if avail s = A_UNAVAILABLE \<or> avail k = A_UNAVAILABLE
          then route_availability avail A_UNAVAILABLE rs
          else route_availability avail ret rs
      | _ \<Rightarrow> None)"

definition mc_getRouteAvailability :: "(nat \<Rightarrow> am_Availability_e) \<Rightarrow> main_connection \<Rightarrow> am_Availability_e option" where
  "mc_getRouteAvailability avail c =
     (if mc_mListRouteElements c = [] then Some A_UNKNOWN
      else route_availability avail A_AVAILABLE (mc_mListRouteElements c))"

definition mc_getPriority :: "points \<Rightarrow> route_element list \<Rightarrow> int" where
  "mc_getPriority pts found = foldl (\<lambda>p r. p + re_getPriority pts r) 0 found"

section \<open>Volume, offset, mute state and limits along the route\<close>

definition ends_of :: "main_connection \<Rightarrow> nat option list" where
  "ends_of c = concat (map (\<lambda>r. [re_mpSourceElement r, re_mpSinkElement r]) (mc_mListRouteElements c))"

definition supports_volume :: "points \<Rightarrow> nat option \<Rightarrow> bool" where
  "supports_volume pts p = (case p of None \<Rightarrow> False | Some a \<Rightarrow> rp_getVolumeSupport (pts a))"

definition mc_getVolume :: "points \<Rightarrow> main_connection \<Rightarrow> am_volume_t" where
  "mc_getVolume pts c =
     foldl (\<lambda>v p. if supports_volume pts p then v + rp_mVolume (pts (the p)) else v) AM_VOLUME_NO_LIMIT (ends_of c)"

definition mc_getOffsetVolume :: "points \<Rightarrow> main_connection \<Rightarrow> am_volume_t" where
  "mc_getOffsetVolume pts c =
     foldl (\<lambda>v p. if supports_volume pts p then v + rp_mOffsetVolume (pts (the p)) else v) AM_VOLUME_NO_LIMIT (ends_of c)"

definition mc_getMuteState :: "points \<Rightarrow> main_connection \<Rightarrow> am_MuteState_e" where
  "mc_getMuteState pts c =
     foldl (\<lambda>ret p.
        if ret = MS_UNKNOWN then ret
        else if supports_volume pts p then
          (let mute = rp_mMuteState (pts (the p))
           in if mute = MS_UNKNOWN then MS_UNKNOWN else if mute = MS_MUTED then MS_MUTED else ret)
        else ret) MS_UNMUTED (ends_of c)"

definition mc_setMainVolume :: "am_mainVolume_t \<Rightarrow> main_connection \<Rightarrow> main_connection" where
  "mc_setMainVolume v c = c\<lparr>mc_mMainVolume := v\<rparr>"

definition mc_getVolumeChangeElements :: "points \<Rightarrow> gc_SetSourceStateDirection_e \<Rightarrow> main_connection
    \<Rightarrow> nat list \<Rightarrow> nat list" where
  "mc_getVolumeChangeElements pts direction c l =
     (let l' = foldl (\<lambda>l p. if supports_volume pts p then the p # l else l) l (ends_of c)
      in if direction = SD_MAINSOURCE_TO_MAINSINK then rev l' else l')"

definition mc_getLimits :: "(string \<Rightarrow> limit_map) \<Rightarrow> points \<Rightarrow> main_connection \<Rightarrow> gc_LimitVolume_s list" where
  "mc_getLimits classLimits pts c =
     (case mc_mpClassElement c of None \<Rightarrow> [] | Some nm \<Rightarrow> getLimits (classLimits nm)) @
     concat (map (\<lambda>a. getLimits (rp_limits (pts a))) (mc_getVolumeChangeElements pts SD_MAINSINK_TO_MAINSOURCE c []))"

definition mc_isSinkBelonging :: "nat option \<Rightarrow> main_connection \<Rightarrow> bool" where
  "mc_isSinkBelonging pSink c = list_ex (\<lambda>r. re_mpSinkElement r = pSink) (mc_mListRouteElements c)"

definition mc_isSourceBelonging :: "nat option \<Rightarrow> main_connection \<Rightarrow> bool" where
  "mc_isSourceBelonging pSource c = list_ex (\<lambda>r. re_mpSourceElement r = pSource) (mc_mListRouteElements c)"

section \<open>The filter\<close>

record connection_filter =
  cf_mClassName :: string
  cf_mSourceName :: string
  cf_mSinkName :: string
  cf_mListConnectionStates :: "am_ConnectionState_e list"
  cf_mListExceptSources :: "string list"
  cf_mListExceptSinks :: "string list"
  cf_mListExceptClasses :: "string list"

definition cf_new :: connection_filter where
  "cf_new = \<lparr>cf_mClassName = '''', cf_mSourceName = '''', cf_mSinkName = '''', cf_mListConnectionStates = [],
     cf_mListExceptSources = [], cf_mListExceptSinks = [], cf_mListExceptClasses = []\<rparr>"

definition matches_name :: "string \<Rightarrow> string \<Rightarrow> bool" where
  "matches_name filterName inputName = (if '''' = filterName then True else filterName = inputName)"

definition matchesAny :: "'a list \<Rightarrow> 'a \<Rightarrow> bool" where
  "matchesAny l x = (if l = [] then True else x \<in> set l)"

text \<open>The loop over the route: \<open>None\<close> when an exception ends it, a null end has no defined result.\<close>

datatype scan = Excepted | Undefined | Scanned bool bool

fun scan_route :: "(nat \<Rightarrow> string) \<Rightarrow> connection_filter \<Rightarrow> bool \<Rightarrow> bool \<Rightarrow> route_element list \<Rightarrow> scan" where
  "scan_route nm f sourceMatch sinkMatch [] = Scanned sourceMatch sinkMatch"
| "scan_route nm f sourceMatch sinkMatch (r # rs) =
     (case (re_mpSourceElement r, re_mpSinkElement r) of
        (Some s, Some k) \<Rightarrow>
          if (cf_mListExceptSources f \<noteq> [] \<and> matchesAny (cf_mListExceptSources f) (nm s))
           \<or> (cf_mListExceptSinks f \<noteq> [] \<and> matchesAny (cf_mListExceptSinks f) (nm k))
          then Excepted
          else scan_route nm f (sourceMatch \<or> matches_name (cf_mSourceName f) (nm s))
                 (sinkMatch \<or> matches_name (cf_mSinkName f) (nm k)) rs
      | _ \<Rightarrow> Undefined)"

definition cf_matches :: "points \<Rightarrow> (main_connection \<Rightarrow> am_ConnectionState_e) \<Rightarrow> connection_filter
    \<Rightarrow> main_connection option \<Rightarrow> bool option" where
  "cf_matches pts getState f pCandidate =
     (case pCandidate of
        None \<Rightarrow> Some False
      | Some c \<Rightarrow>
          if \<not> matches_name (cf_mClassName f) (mc_getClassName c)
           \<or> (cf_mListExceptClasses f \<noteq> [] \<and> matchesAny (cf_mListExceptClasses f) (mc_getClassName c))
           \<or> \<not> matchesAny (cf_mListConnectionStates f) (getState c)
          then Some False
          else (case scan_route (\<lambda>a. rp_mName (pts a)) f False False (mc_mListRouteElements c) of
              Excepted \<Rightarrow> Some False
            | Undefined \<Rightarrow> None
            | Scanned src snk \<Rightarrow> Some (src \<and> snk)))"

section \<open>The factory's list\<close>

text \<open>
  \<open>mOrderedList\<close> holds the connections in the order they were made, here their names; \<open>look\<close> is
  the lookup of the factory's map.
\<close>

definition mf_construct :: "string \<Rightarrow> string list \<Rightarrow> string list" where
  "mf_construct nm l = l @ [nm]"

definition mf_destruct :: "string \<Rightarrow> string list \<Rightarrow> string list" where
  "mf_destruct nm l = remove1 nm l"

definition mf_moveToEnd :: "(string \<Rightarrow> main_connection option) \<Rightarrow> string \<Rightarrow> gc_Order_e \<Rightarrow> string list \<Rightarrow> string list" where
  "mf_moveToEnd look nm position l =
     (case look nm of
        None \<Rightarrow> l
      | Some _ \<Rightarrow>
          if nm \<in> set l then
            (if position = O_NEWEST then remove1 nm l @ [nm]
             else if position = O_OLDEST then nm # remove1 nm l else l)
          else l)"

fun select_matching :: "('a \<Rightarrow> bool option) \<Rightarrow> 'a list \<Rightarrow> 'a list option" where
  "select_matching P [] = Some []"
| "select_matching P (x # xs) =
     (case P x of None \<Rightarrow> None
      | Some b \<Rightarrow> (case select_matching P xs of None \<Rightarrow> None | Some ys \<Rightarrow> Some (if b then x # ys else ys)))"

text \<open>\<open>std::stable_sort\<close> is the library's stable \<^const>\<open>sort_key\<close>.\<close>

definition order_list :: "('a \<Rightarrow> int) \<Rightarrow> gc_Order_e \<Rightarrow> 'a list \<Rightarrow> 'a list" where
  "order_list prio order l =
     (if length l \<le> 1 then l
      else (case order of
          O_HIGH_PRIORITY \<Rightarrow> sort_key prio l
        | O_LOW_PRIORITY \<Rightarrow> sort_key (\<lambda>x. - prio x) l
        | O_NEWEST \<Rightarrow> rev l
        | O_OLDEST \<Rightarrow> l))"

definition mf_getListElements :: "points \<Rightarrow> (string \<Rightarrow> main_connection option) \<Rightarrow> (main_connection \<Rightarrow> am_ConnectionState_e)
    \<Rightarrow> (string \<Rightarrow> int) \<Rightarrow> connection_filter \<Rightarrow> gc_Order_e \<Rightarrow> string list \<Rightarrow> string list option" where
  "mf_getListElements pts look getState prio f order l =
     (case select_matching (\<lambda>nm. cf_matches pts getState f (look nm)) l of
        None \<Rightarrow> None
      | Some found \<Rightarrow> Some (order_list prio order found))"

section \<open>The main volume of a shared sink\<close>

text \<open>Every element along the connected connections of the sink counts once.\<close>

fun sum_once :: "points \<Rightarrow> nat list \<Rightarrow> am_volume_t \<Rightarrow> nat list \<Rightarrow> am_volume_t \<times> nat list" where
  "sum_once pts [] v seen = (v, seen)"
| "sum_once pts (a # as) v seen =
     (if a \<in> set seen then sum_once pts as v seen else sum_once pts as (v + rp_mVolume (pts a)) (seen @ [a]))"

fun sum_connections :: "points \<Rightarrow> main_connection list \<Rightarrow> am_volume_t \<Rightarrow> nat list \<Rightarrow> am_volume_t \<times> nat list" where
  "sum_connections pts [] v seen = (v, seen)"
| "sum_connections pts (c # cs) v seen =
     (case sum_once pts (mc_getVolumeChangeElements pts SD_MAINSINK_TO_MAINSOURCE c []) v seen of
        (v', seen') \<Rightarrow> sum_connections pts cs v' seen')"

text \<open>
  \<open>connected\<close> is the result of the factory's search for the connected connections of the main
  sink; \<open>toMain\<close> the conversion of the sink's volume curve. The result is the new main volume of the
  sink and of this connection.
\<close>

definition mc_updateMainVolume :: "points \<Rightarrow> main_connection list \<Rightarrow> (am_volume_t \<Rightarrow> am_mainVolume_t)
    \<Rightarrow> am_ConnectionState_e \<Rightarrow> main_connection \<Rightarrow> am_mainVolume_t \<times> main_connection" where
  "mc_updateMainVolume pts connected toMain state c =
     (let volume = (if state = CS_CONNECTED then fst (sum_connections pts connected 0 []) else mc_getVolume pts c)
      in (toMain volume, mc_setMainVolume (toMain (mc_getVolume pts c)) c))"

section \<open>Lemmas\<close>

abbreviation complete_route :: "main_connection \<Rightarrow> bool" where
  "complete_route c \<equiv> \<forall>r\<in>set (mc_mListRouteElements c). re_mpSourceElement r \<noteq> None \<and> re_mpSinkElement r \<noteq> None"

lemma select_matching_total:
  "\<forall>x\<in>set l. P x \<noteq> None \<Longrightarrow> select_matching P l = Some (filter (\<lambda>x. P x = Some True) l)"
  by (induction l) auto

lemma scan_route_defined:
  "\<forall>r\<in>set rs. re_mpSourceElement r \<noteq> None \<and> re_mpSinkElement r \<noteq> None \<Longrightarrow> scan_route nm f a b rs \<noteq> Undefined"
  by (induction rs arbitrary: a b) (auto split: option.splits)

lemma cf_matches_defined:
  "complete_route c \<Longrightarrow> cf_matches pts gs f (Some c) \<noteq> None"
  using scan_route_defined [of "mc_mListRouteElements c"]
  by (auto simp: cf_matches_def split: scan.splits)

lemma order_list_eq:
  "order_list prio order l =
     (case order of O_HIGH_PRIORITY \<Rightarrow> sort_key prio l | O_LOW_PRIORITY \<Rightarrow> sort_key (\<lambda>x. - prio x) l
      | O_NEWEST \<Rightarrow> rev l | O_OLDEST \<Rightarrow> l)"
proof (cases l)
  case (Cons a xs)
  then show ?thesis by (cases xs) (auto simp: order_list_def split: gc_Order_e.split)
qed (simp add: order_list_def split: gc_Order_e.split)

lemma order_list_stable:
  "order = O_HIGH_PRIORITY \<or> order = O_LOW_PRIORITY
   \<Longrightarrow> filter (\<lambda>x. prio x = k) (order_list prio order l) = filter (\<lambda>x. prio x = k) l"
  using sort_key_stable [of prio k l] sort_key_stable [of "\<lambda>x. - prio x" "- k" l]
  by (auto simp: order_list_eq)

lemma order_list_mset: "mset (order_list prio order l) = mset l"
  by (simp add: order_list_eq split: gc_Order_e.split)

lemma route_state_spec:
  "route_state s rs =
     (case find (\<lambda>r. re_mState r \<noteq> CS_CONNECTED) rs of
        Some r \<Rightarrow> re_mState r | None \<Rightarrow> if rs = [] then s else CS_CONNECTED)"
  by (induction rs arbitrary: s) auto

lemma balance_trans:
  fixes v :: "'a :: ab_group_add"
  assumes "v' + a = v1 + s'" "v1 + s = v + a"
  shows "v' + s = v + s'"
proof -
  have "v' = v1 + s' - a" "v1 = v + a - s" using assms by (simp_all add: eq_diff_eq)
  then show ?thesis by (simp add: algebra_simps)
qed

lemma add_left_shift: "v' + (x + s) = v + x + s' \<longleftrightarrow> v' + s = v + (s' :: 'a :: ab_group_add)"
proof -
  have "v' + (x + s) = x + (v' + s)" "v + x + s' = x + (v + s')" by (simp_all add: algebra_simps)
  then show ?thesis by simp
qed

lemma sum_once_spec:
  assumes "sum_once pts as v seen = (v', seen')"
  shows "set seen' = set seen \<union> set as
       \<and> v' + (\<Sum>a\<in>set seen. rp_mVolume (pts a)) = v + (\<Sum>a\<in>set seen'. rp_mVolume (pts a))"
  using assms
proof (induction pts as v seen arbitrary: v' seen' rule: sum_once.induct)
  case (2 pts a as v seen)
  show ?case
  proof (cases "a \<in> set seen")
    case False
    then have "sum_once pts as (v + rp_mVolume (pts a)) (seen @ [a]) = (v', seen')" using 2(3) by simp
    from 2(2) [OF False this] have
      "set seen' = set (seen @ [a]) \<union> set as"
      "v' + (\<Sum>a\<in>set (seen @ [a]). rp_mVolume (pts a)) = (v + rp_mVolume (pts a)) + (\<Sum>a\<in>set seen'. rp_mVolume (pts a))"
      by blast+
    moreover have "(\<Sum>a\<in>set (seen @ [a]). rp_mVolume (pts a)) = rp_mVolume (pts a) + (\<Sum>a\<in>set seen. rp_mVolume (pts a))"
      using False by simp
    ultimately show ?thesis by (simp add: add_left_shift)
  next
    case True
    then have "sum_once pts as v seen = (v', seen')" using 2(3) by simp
    from 2(1) [OF True this] True show ?thesis by (simp add: insert_absorb)
  qed
qed simp

lemma sum_connections_spec:
  assumes "sum_connections pts cs v seen = (v', seen')"
  shows "set seen' = set seen \<union> (\<Union>c\<in>set cs. set (mc_getVolumeChangeElements pts SD_MAINSINK_TO_MAINSOURCE c []))
       \<and> v' + (\<Sum>a\<in>set seen. rp_mVolume (pts a)) = v + (\<Sum>a\<in>set seen'. rp_mVolume (pts a))"
  using assms
proof (induction pts cs v seen arbitrary: v' seen' rule: sum_connections.induct)
  case (2 pts c cs v seen)
  obtain v1 s1 where o: "sum_once pts (mc_getVolumeChangeElements pts SD_MAINSINK_TO_MAINSOURCE c []) v seen = (v1, s1)"
    by fastforce
  have r: "sum_connections pts cs v1 s1 = (v', seen')" using 2(2) o by simp
  have i: "set seen' = set s1 \<union> (\<Union>c\<in>set cs. set (mc_getVolumeChangeElements pts SD_MAINSINK_TO_MAINSOURCE c []))"
    "v' + (\<Sum>a\<in>set s1. rp_mVolume (pts a)) = v1 + (\<Sum>a\<in>set seen'. rp_mVolume (pts a))"
    using 2(1) [OF o [symmetric] r] by auto
  have j: "set s1 = set seen \<union> set (mc_getVolumeChangeElements pts SD_MAINSINK_TO_MAINSOURCE c [])"
    "v1 + (\<Sum>a\<in>set seen. rp_mVolume (pts a)) = v + (\<Sum>a\<in>set s1. rp_mVolume (pts a))"
    using sum_once_spec [OF o] by auto
  have "v' + (\<Sum>a\<in>set seen. rp_mVolume (pts a)) = v + (\<Sum>a\<in>set seen'. rp_mVolume (pts a))"
    by (rule balance_trans [OF i(2) j(2)])
  then show ?case using i(1) j(1) by auto
qed simp

lemma change_elements_fold:
  "foldl (\<lambda>l p. if supports_volume pts p then the p # l else l) l ps = map the (rev (filter (supports_volume pts) ps)) @ l"
  by (induction ps arbitrary: l) auto

lemma mute_fold_unknown:
  "foldl (\<lambda>ret p. if ret = MS_UNKNOWN then ret
        else if supports_volume pts p then
          (let mute = rp_mMuteState (pts (the p))
           in if mute = MS_UNKNOWN then MS_UNKNOWN else if mute = MS_MUTED then MS_MUTED else ret)
        else ret) MS_UNKNOWN ps = MS_UNKNOWN"
  by (induction ps) auto

lemma mute_fold:
  "foldl (\<lambda>ret p. if ret = MS_UNKNOWN then ret
        else if supports_volume pts p then
          (let mute = rp_mMuteState (pts (the p))
           in if mute = MS_UNKNOWN then MS_UNKNOWN else if mute = MS_MUTED then MS_MUTED else ret)
        else ret) s ps =
     (let marks = map (\<lambda>p. rp_mMuteState (pts (the p))) (filter (supports_volume pts) ps)
      in if s = MS_UNKNOWN \<or> MS_UNKNOWN \<in> set marks then MS_UNKNOWN
         else if MS_MUTED \<in> set marks then MS_MUTED else s)"
proof (induction ps arbitrary: s)
  case (Cons p ps)
  show ?case
    by (cases "s = MS_UNKNOWN"; cases "supports_volume pts p"; cases "rp_mMuteState (pts (the p))")
      (simp_all add: Cons.IH Let_def mute_fold_unknown)
qed (simp add: Let_def)

lemma latent_fold:
  "foldl (\<lambda>n trig. if latent_connect c trig then Suc n else n) n q = n + length (filter (latent_connect c) q)"
  by (induction q arbitrary: n) auto

section \<open>Properties\<close>


text \<open>
  a main connection may be disposed of exactly when the database reports it disconnected, no
  transition action runs on it and no connect request for its two ends waits in the queue.
\<close>

theorem permitsDispose_iff:
  "mc_permitsDispose getInfoDB q c db \<longleftrightarrow>
     getInfoDB (mc_mID c) db = (E_OK, CS_DISCONNECTED) \<and> mc_mOngoingTransitions c = [] \<and>
     (\<forall>cls. (USER_CONNECTION_REQUEST, Some (ConnectTrigger (mc_mainSourceName c) (mc_mainSinkName c) cls))
        \<notin> set (tq_getSnapShot q))"
proof -
  have l: "latent_connect c t \<longleftrightarrow>
      (\<exists>cls. t = (USER_CONNECTION_REQUEST, Some (ConnectTrigger (mc_mainSourceName c) (mc_mainSinkName c) cls)))" for t
    by (auto simp: latent_connect_def split: prod.splits gc_Trigger_e.splits option.splits gc_TriggerElement_s.splits)
  have d: "mc_getState getInfoDB c db = CS_DISCONNECTED \<longleftrightarrow> getInfoDB (mc_mID c) db = (E_OK, CS_DISCONNECTED)"
    by (auto simp: mc_getState_def split: prod.splits)
  have n: "length (filter (latent_connect c) ts) = 0 \<longleftrightarrow> (\<forall>t\<in>set ts. \<not> latent_connect c t)" for ts
    by (simp add: filter_empty_conv)
  show ?thesis
    unfolding mc_permitsDispose_def Let_def latent_fold d using n [of "tq_getSnapShot q"] by (auto simp: l)
qed

text \<open>
  the state of a main connection follows its routes. It is connected or suspended exactly when
  there are routes and all of them are connected: connected if the state of the main source is on or
  not known, suspended otherwise. If a route is not connected, the first such route, counted from
  the main source, gives the state; without routes the connection is disconnected.
\<close>

theorem newState_of_routes:
  "mc_newState src c =
     (case find (\<lambda>r. re_mState r \<noteq> CS_CONNECTED) (mc_mListRouteElements c) of
        Some r \<Rightarrow> re_mState r
      | None \<Rightarrow> if mc_mListRouteElements c = [] then CS_DISCONNECTED
                else if src = None \<or> src = Some SS_ON then CS_CONNECTED else CS_SUSPENDED)"
proof (cases "find (\<lambda>r. re_mState r \<noteq> CS_CONNECTED) (mc_mListRouteElements c)")
  case None
  then show ?thesis by (cases src) (auto simp: mc_newState_def route_state_spec Let_def)
next
  case (Some r)
  then have "re_mState r \<noteq> CS_CONNECTED" by (auto simp: find_Some_iff)
  then show ?thesis using Some by (cases src) (auto simp: mc_newState_def route_state_spec Let_def)
qed

text \<open>
  the observers of a main connection hear of a state exactly once. After an update the database,
  if it stores what it is told, has the new state; the notification is sent exactly when the state
  was another one before, so a second update changes nothing.
\<close>

theorem updateState_idempotent:
  assumes "\<And>s db. getInfoDB (mc_mID c) (changeStateDB (mc_mID c) s db) = (E_OK, s)"
    and "\<And>s db. getInfoDB (mc_mID c) (notifyObs s db) = getInfoDB (mc_mID c) db"
    and "mc_newState src c \<noteq> CS_UNKNOWN"
    and "mc_updateState getInfoDB changeStateDB notifyObs src c db = db'"
  shows "getInfoDB (mc_mID c) db' = (E_OK, mc_newState src c) \<and>
    db' = (if getInfoDB (mc_mID c) db = (E_OK, mc_newState src c) then db
           else notifyObs (mc_newState src c) (changeStateDB (mc_mID c) (mc_newState src c) db)) \<and>
    mc_updateState getInfoDB changeStateDB notifyObs src c db' = db'"
proof -
  have g: "mc_getState getInfoDB c d = mc_newState src c \<longleftrightarrow> getInfoDB (mc_mID c) d = (E_OK, mc_newState src c)" for d
    using assms(3) by (auto simp: mc_getState_def split: prod.splits)
  show ?thesis
    using assms(4) by (auto simp: mc_updateState_def mc_setState_def g assms(1,2) split: if_splits)
qed

text \<open>
  The mute state along a route. It is unknown as soon as one element with volume support does
  not know its mute state, otherwise muted if one of them is muted, otherwise unmuted.
\<close>

theorem getMuteState_of_route:
  "mc_getMuteState pts c =
     (let marks = map (\<lambda>a. rp_mMuteState (pts a)) (mc_getVolumeChangeElements pts SD_MAINSINK_TO_MAINSOURCE c [])
      in if MS_UNKNOWN \<in> set marks then MS_UNKNOWN else if MS_MUTED \<in> set marks then MS_MUTED else MS_UNMUTED)"
  by (simp add: mc_getMuteState_def mute_fold mc_getVolumeChangeElements_def change_elements_fold Let_def
      image_image del: set_map) (simp add: image_image)

text \<open>
  The order in which the elements of a route change their volume. From the main source to the
  main sink the elements with volume support come in the order of the route, in the other direction
  in the reverse order; elements without support and null ends are left out.
\<close>

theorem getVolumeChangeElements_order:
  "map Some (mc_getVolumeChangeElements pts SD_MAINSOURCE_TO_MAINSINK c []) = filter (supports_volume pts) (ends_of c)
   \<and> mc_getVolumeChangeElements pts SD_MAINSINK_TO_MAINSOURCE c []
     = rev (mc_getVolumeChangeElements pts SD_MAINSOURCE_TO_MAINSINK c [])"
proof -
  have "map Some (map the (filter (supports_volume pts) ps)) = filter (supports_volume pts) ps" for ps
    by (induction ps) (auto simp: supports_volume_def split: option.splits)
  then show ?thesis
    by (simp add: mc_getVolumeChangeElements_def change_elements_fold Let_def rev_map)
qed

text \<open>
  The main volume of a connected connection. It is the user value of the sum of the volumes of all
  elements with volume support along the connections given, and an element that several of them
  share counts once.
\<close>

theorem updateMainVolume_counts_once:
  "fst (mc_updateMainVolume pts connected toMain CS_CONNECTED c) =
     toMain (\<Sum>a \<in> (\<Union>c\<in>set connected. set (mc_getVolumeChangeElements pts SD_MAINSINK_TO_MAINSOURCE c [])).
       rp_mVolume (pts a))"
proof -
  obtain v s where e: "sum_connections pts connected 0 [] = (v, s)" by fastforce
  show ?thesis using sum_connections_spec [OF e] by (simp add: mc_updateMainVolume_def e)
qed

lemma scan_route_spec:
  assumes "\<forall>r\<in>set rs. re_mpSourceElement r \<noteq> None \<and> re_mpSinkElement r \<noteq> None"
  shows "scan_route nm f a b rs =
    (if \<exists>r\<in>set rs. nm (the (re_mpSourceElement r)) \<in> set (cf_mListExceptSources f)
           \<or> nm (the (re_mpSinkElement r)) \<in> set (cf_mListExceptSinks f)
     then Excepted
     else Scanned (a \<or> (\<exists>r\<in>set rs. matches_name (cf_mSourceName f) (nm (the (re_mpSourceElement r)))))
            (b \<or> (\<exists>r\<in>set rs. matches_name (cf_mSinkName f) (nm (the (re_mpSinkElement r))))))"
  using assms by (induction rs arbitrary: a b) (auto simp: matchesAny_def)

text \<open>
  which main connections a filter lets through, when every route of the connection has both
  ends: the class, one of the sources and one of the sinks have the names asked for, the state is
  listed, and neither the class nor any source or sink of the route is excepted. An empty name or an
  empty list in the filter asks for nothing.
\<close>

theorem filter_matches_iff:
  assumes "complete_route c"
  shows "cf_matches pts getState f (Some c) = Some
    (matches_name (cf_mClassName f) (mc_getClassName c) \<and>
     mc_getClassName c \<notin> set (cf_mListExceptClasses f) \<and>
     (cf_mListConnectionStates f = [] \<or> getState c \<in> set (cf_mListConnectionStates f)) \<and>
     (let names = \<lambda>sel. map (\<lambda>r. rp_mName (pts (the (sel r)))) (mc_mListRouteElements c)
      in (\<forall>x\<in>set (names re_mpSourceElement). x \<notin> set (cf_mListExceptSources f)) \<and>
         (\<forall>x\<in>set (names re_mpSinkElement). x \<notin> set (cf_mListExceptSinks f)) \<and>
         (\<exists>x\<in>set (names re_mpSourceElement). matches_name (cf_mSourceName f) x) \<and>
         (\<exists>x\<in>set (names re_mpSinkElement). matches_name (cf_mSinkName f) x)))"
  using scan_route_spec [OF assms, of "\<lambda>a. rp_mName (pts a)" f False False]
  by (auto simp: cf_matches_def matchesAny_def split: if_splits)

section \<open>Witnesses\<close>

definition demo_config :: "bool \<Rightarrow> int \<Rightarrow> gc_NodePoint_s" where
  "demo_config support prio = \<lparr>np_domainName = ''dom'', np_className = [], np_isVolumeChangeSupported = support,
     np_isPersistencySupported = False, np_isVolumePersistencySupported = False, np_priority = prio,
     np_listGCMainSoundProperties = [], np_listGCSoundProperties = [],
     np_MSP_TO_SP = Map.empty, np_SP_TO_MSP = Map.empty\<rparr>"

definition demo_points :: points where
  "demo_points = (\<lambda>a. \<lparr>rp_mType = (if a = 2 then ET_SINK else ET_SOURCE),
     rp_mName = (if a = 2 then ''snk'' else if a = 1 then ''src'' else ''tuner''), rp_mID = of_nat a,
     rp_mConfig = demo_config True (if a = 1 then 3 else 1), rp_mVolume = (if a = 1 then - 100 else if a = 2 then - 200 else - 300),
     rp_mMinVolume = - 3000, rp_mMaxVolume = 0, rp_mOffsetVolume = 0, rp_mMuteState = MS_UNMUTED,
     rp_mainVolume = 0, rp_limits = []\<rparr>)"

definition demo_connection :: "nat \<Rightarrow> am_ConnectionState_e \<Rightarrow> main_connection" where
  "demo_connection a s = \<lparr>mc_mName = ''c'', mc_mID = of_nat a, mc_mpClassElement = Some ''BASE'',
     mc_mainSourceName = rp_mName (demo_points a), mc_mainSinkName = ''snk'',
     mc_mListRouteElements = [\<lparr>re_mName = ''r'', re_mpSourceElement = Some a, re_mpSinkElement = Some 2, re_mState = s\<rparr>],
     mc_mOngoingTransitions = [], mc_mMainVolume = 0\<rparr>"


theorem updateState_idempotent_witness:
  "let db = mc_updateState (\<lambda>i d. (E_OK, d i)) (\<lambda>i s d. d(i := s)) (\<lambda>s d. d) (Some SS_PAUSED)
       (demo_connection 1 CS_CONNECTED) (\<lambda>_. CS_DISCONNECTED)
   in db 1 = CS_SUSPENDED"
  using updateState_idempotent [of "\<lambda>i d. (E_OK, d i)" "demo_connection 1 CS_CONNECTED" "\<lambda>i s d. d(i := s)"
      "\<lambda>s d. d" "Some SS_PAUSED" "\<lambda>_. CS_DISCONNECTED", OF _ _ _ refl]
  by (simp add: mc_newState_def demo_connection_def)

theorem filter_matches_iff_witness:
  "cf_matches demo_points (\<lambda>c. CS_CONNECTED) (cf_new\<lparr>cf_mSinkName := ''snk'', cf_mListExceptSources := [''tuner'']\<rparr>)
     (Some (demo_connection 1 CS_CONNECTED)) = Some True"
  by (subst filter_matches_iff)
    (simp_all add: demo_connection_def cf_new_def matches_name_def demo_points_def)

end
