(* ===== verification/Volume_Core.thy ===== *)
theory Volume_Core
  imports Main_Connection Handle_Store
begin

text \<open>
  \<open>CAmActionSetVolumeCore\<close>: how the volume actions balance the volume, the offset and the mute
  state of main connections over the sinks and sources along their routes. A first table holds one
  row per main connection, a second one column per element; both are \<open>std::map\<close>s over pointers, here
  ordered association lists over addresses, so every loop visits them in address order. Volumes are
  16 bit and wrap; comparisons of sums happen in \<open>int\<close>, as the integer promotions have it.
\<close>

section \<open>State\<close>

record VolumeInfo_t =
  vi_muteState :: am_MuteState_e
  vi_volume :: am_volume_t
  vi_offset :: am_volume_t

definition nullDiff :: VolumeInfo_t where
  "nullDiff = \<lparr>vi_muteState = MS_UNKNOWN, vi_volume = AM_VOLUME_NO_LIMIT, vi_offset = AM_VOLUME_NO_LIMIT\<rparr>"

record ConnectionInfo_t =
  co_actual :: VolumeInfo_t
  co_target :: VolumeInfo_t
  co_relative :: am_volume_t
  co_adjustable :: bool

text \<open>What \<open>operator[]\<close> makes for a new key: the base class is constructed, the rest zeroed.\<close>

definition co_default :: ConnectionInfo_t where
  "co_default = \<lparr>co_actual = nullDiff, co_target = nullDiff, co_relative = 0, co_adjustable = False\<rparr>"

record MatrixColumn_t =
  cl_actual :: VolumeInfo_t
  cl_target :: VolumeInfo_t
  cl_ordinal :: "32 word"
  cl_connections :: "nat list"   \<comment> \<open>a \<open>std::set\<close> of pointers, ascending\<close>

definition cl_default :: MatrixColumn_t where
  "cl_default = \<lparr>cl_actual = nullDiff, cl_target = nullDiff, cl_ordinal = 0, cl_connections = []\<rparr>"

type_synonym connection_map = "(nat \<times> ConnectionInfo_t) list"
type_synonym matrix = "(nat \<times> MatrixColumn_t) list"

text \<open>
  What the actions read of the rest: the sinks and sources, the limits of the classes, the main
  connections with the factory's chronological list of their addresses, and the state that the
  database reports for each.
\<close>

record volume_world =
  vw_points :: points
  vw_classLimits :: "string \<Rightarrow> limit_map"
  vw_conns :: "nat \<Rightarrow> main_connection"
  vw_list :: "nat list"
  vw_getState :: "main_connection \<Rightarrow> am_ConnectionState_e"

definition vw_search :: "volume_world \<Rightarrow> connection_filter \<Rightarrow> nat list option" where
  "vw_search W f = select_matching (\<lambda>a. cf_matches (vw_points W) (vw_getState W) f (Some (vw_conns W a))) (vw_list W)"

definition change_elements :: "volume_world \<Rightarrow> nat \<Rightarrow> nat list" where
  "change_elements W pConnection =
     mc_getVolumeChangeElements (vw_points W) SD_MAINSINK_TO_MAINSOURCE (vw_conns W pConnection) []"

section \<open>First step: the connections\<close>

definition note_limit :: "ConnectionInfo_t \<Rightarrow> gc_LimitVolume_s \<Rightarrow> ConnectionInfo_t" where
  "note_limit s lim =
     (if limitType lim = LT_ABSOLUTE \<and> limitVolume lim = AM_MUTE
      then s\<lparr>co_target := (co_target s)\<lparr>vi_muteState := MS_MUTED\<rparr>\<rparr>
      else if limitType lim = LT_ABSOLUTE \<and> limitVolume lim <s vi_offset (co_target s)
      then s\<lparr>co_target := (co_target s)\<lparr>vi_offset := limitVolume lim\<rparr>\<rparr>
      else if limitType lim = LT_RELATIVE \<and> limitVolume lim <s co_relative s
      then s\<lparr>co_relative := limitVolume lim\<rparr>
      else s)"

definition getConnectionVolumes :: "volume_world \<Rightarrow> nat \<Rightarrow> bool \<Rightarrow> ConnectionInfo_t" where
  "getConnectionVolumes W pConnection adjustable =
     (let c = vw_conns W pConnection;
          actual = \<lparr>vi_muteState = mc_getMuteState (vw_points W) c, vi_volume = mc_getVolume (vw_points W) c,
                    vi_offset = mc_getOffsetVolume (vw_points W) c\<rparr>;
          s0 = \<lparr>co_actual = actual,
                co_target = \<lparr>vi_muteState = MS_UNMUTED, vi_volume = vi_volume actual, vi_offset = AM_VOLUME_NO_LIMIT\<rparr>,
                co_relative = AM_VOLUME_NO_LIMIT, co_adjustable = adjustable\<rparr>
      in foldl note_limit s0 (mc_getLimits (vw_classLimits W) (vw_points W) c))"

text \<open>The selection parameters of an action, \<open>None\<close> where a parameter is not set.\<close>

record selection =
  sel_class :: "string option"
  sel_source :: "string option"
  sel_sink :: "string option"
  sel_connection :: "string option"

definition param_or_empty :: "string option \<Rightarrow> string" where
  "param_or_empty p = (case p of None \<Rightarrow> '''' | Some v \<Rightarrow> v)"

text \<open>
  \<open>lookup\<close> finds a main connection by name. The second search of the code appends to an empty list.
\<close>

definition selected_connections :: "volume_world \<Rightarrow> (string \<Rightarrow> nat option) \<Rightarrow> selection \<Rightarrow> nat option list option" where
  "selected_connections W lookup p =
     (case (sel_connection p, sel_source p, sel_sink p) of
        (Some connectionName, _, _) \<Rightarrow> Some [lookup connectionName]
      | (None, Some sourceName, Some sinkName) \<Rightarrow> Some [lookup (sourceName @ '':'' @ sinkName)]
      | _ \<Rightarrow>
         (let f = cf_new\<lparr>cf_mClassName := param_or_empty (sel_class p), cf_mSinkName := param_or_empty (sel_sink p)\<rparr>
          in case vw_search W (f\<lparr>cf_mListConnectionStates := [CS_CONNECTED]\<rparr>) of
               None \<Rightarrow> None
             | Some (c # cs) \<Rightarrow> Some (map Some (c # cs))
             | Some [] \<Rightarrow> map_option (map Some)
                 (vw_search W (f\<lparr>cf_mListConnectionStates := [CS_DISCONNECTED, CS_SUSPENDED]\<rparr>))))"

definition setupConnectionMap :: "volume_world \<Rightarrow> (string \<Rightarrow> nat option) \<Rightarrow> selection \<Rightarrow> connection_map
    \<Rightarrow> connection_map option" where
  "setupConnectionMap W lookup p cm =
     (case selected_connections W lookup p of
        None \<Rightarrow> None
      | Some l \<Rightarrow> Some (foldl (\<lambda>cm c. case c of None \<Rightarrow> cm | Some a \<Rightarrow> om_insert a (getConnectionVolumes W a True) cm) cm l))"

text \<open>
  One row of the first table against all others: the lowest relative limit becomes an absolute
  offset. \<open>all\<close> is the table as it stands, with the rows before it already converted.
\<close>

definition resolve_one :: "connection_map \<Rightarrow> nat \<Rightarrow> ConnectionInfo_t \<Rightarrow> ConnectionInfo_t" where
  "resolve_one all k1 i1 =
     (if co_relative i1 \<noteq> AM_VOLUME_NO_LIMIT then
        (foldl (\<lambda>i (k2, i2).
            if k1 = k2 then i
            else (let limit = vi_volume (co_target i2) + vi_offset (co_target i2) + co_relative i
                  in if sint limit < sint (vi_volume (co_target i)) + sint (vi_offset (co_target i))
                     then i\<lparr>co_target := (co_target i)\<lparr>vi_offset := limit - vi_volume (co_target i)\<rparr>\<rparr>
                     else i)) i1 all)\<lparr>co_relative := AM_VOLUME_NO_LIMIT\<rparr>
      else i1)"

fun resolve_rows :: "connection_map \<Rightarrow> connection_map \<Rightarrow> connection_map" where
  "resolve_rows rows [] = rows"
| "resolve_rows rows ((k, i) # rest) = (let i' = resolve_one (rows @ (k, i) # rest) k i in resolve_rows (rows @ [(k, i')]) rest)"

definition resolveRelativeLimits :: "connection_map \<Rightarrow> connection_map" where
  "resolveRelativeLimits cm = resolve_rows [] cm"

section \<open>Second step: the elements\<close>

definition getElementVolumes :: "route_point \<Rightarrow> MatrixColumn_t \<Rightarrow> MatrixColumn_t" where
  "getElementVolumes p col =
     (let actual = \<lparr>vi_muteState = rp_mMuteState p, vi_volume = rp_mVolume p, vi_offset = rp_mOffsetVolume p\<rparr>
      in col\<lparr>cl_actual := actual, cl_target := actual\<rparr>)"

definition set_insert :: "nat \<Rightarrow> nat list \<Rightarrow> nat list" where
  "set_insert a l = (if a \<in> set l then l else insort a l)"

text \<open>A connection that uses the element is noted, and gets a row of its own if it has none.\<close>

definition note_affected :: "volume_world \<Rightarrow> nat \<Rightarrow> connection_map \<times> matrix \<Rightarrow> nat \<Rightarrow> connection_map \<times> matrix" where
  "note_affected W pCandidate s pAffected =
     (case s of (cm, mx) \<Rightarrow>
        let col = the (map_of mx pCandidate);
            mx' = om_insert pCandidate (col\<lparr>cl_connections := set_insert pAffected (cl_connections col)\<rparr>) mx
        in (if map_of cm pAffected = None then om_insert pAffected (getConnectionVolumes W pAffected False) cm else cm, mx'))"

definition user_filter :: "volume_world \<Rightarrow> am_ConnectionState_e list \<Rightarrow> nat \<Rightarrow> connection_filter" where
  "user_filter W states a =
     (let f = cf_new\<lparr>cf_mListConnectionStates := states\<rparr>; p = vw_points W a
      in if rp_mType p = ET_SINK then f\<lparr>cf_mSinkName := rp_mName p\<rparr> else f\<lparr>cf_mSourceName := rp_mName p\<rparr>)"

definition setup_column :: "volume_world \<Rightarrow> am_ConnectionState_e list \<Rightarrow> nat \<Rightarrow> nat
    \<Rightarrow> connection_map \<times> matrix \<times> 32 word \<Rightarrow> (connection_map \<times> matrix \<times> 32 word) option" where
  "setup_column W states pAddressed pCandidate s =
     (case s of (cm, mx, nextOrdinal) \<Rightarrow>
        let col = (case map_of mx pCandidate of None \<Rightarrow> cl_default | Some c \<Rightarrow> c);
            (col1, ord1) = (if cl_connections col = [] then (col\<lparr>cl_ordinal := nextOrdinal\<rparr>, nextOrdinal)
                            else (col, cl_ordinal col));
            col2 = getElementVolumes (vw_points W pCandidate)
                     (col1\<lparr>cl_connections := set_insert pAddressed (cl_connections col1)\<rparr>)
        in case vw_search W (user_filter W states pCandidate) of
             None \<Rightarrow> None
           | Some l \<Rightarrow> (case foldl (note_affected W pCandidate) (cm, om_insert pCandidate col2 mx) l of
                (cm', mx') \<Rightarrow> Some (cm', mx', ord1 + 1)))"

fun setup_columns :: "volume_world \<Rightarrow> am_ConnectionState_e list \<Rightarrow> nat \<Rightarrow> nat list
    \<Rightarrow> connection_map \<times> matrix \<times> 32 word \<Rightarrow> (connection_map \<times> matrix \<times> 32 word) option" where
  "setup_columns W states pAddressed [] s = Some s"
| "setup_columns W states pAddressed (a # as) s =
     (case setup_column W states pAddressed a s of None \<Rightarrow> None | Some s' \<Rightarrow> setup_columns W states pAddressed as s')"

text \<open>
  The loop over the first table goes on while the table grows: a connection inserted on the way is
  itself treated as an addressed one if its address lies above the iterator, and not otherwise. The
  first argument bounds the number of rounds; \<open>None\<close> is a route with a missing end.
\<close>

fun setup_rows :: "nat \<Rightarrow> volume_world \<Rightarrow> am_ConnectionState_e list \<Rightarrow> nat
    \<Rightarrow> connection_map \<times> matrix \<times> 32 word \<Rightarrow> (connection_map \<times> matrix \<times> 32 word) option" where
  "setup_rows 0 W states below s = None"
| "setup_rows (Suc n) W states below s =
     (case filter (\<lambda>k. below \<le> k) (map fst (fst s)) of
        [] \<Rightarrow> Some s
      | k # _ \<Rightarrow> (case setup_columns W states k (change_elements W k) s of
           None \<Rightarrow> None | Some s' \<Rightarrow> setup_rows n W states (Suc k) s'))"

definition setupVolumeMatrix :: "nat \<Rightarrow> volume_world \<Rightarrow> am_ConnectionState_e list
    \<Rightarrow> connection_map \<times> matrix \<Rightarrow> (connection_map \<times> matrix) option" where
  "setupVolumeMatrix fuel W states s =
     (case setup_rows fuel W states 0 (fst s, snd s, 0) of None \<Rightarrow> None | Some (cm, mx, _) \<Rightarrow> Some (cm, mx))"

definition qualifiesForChanges :: "connection_map \<Rightarrow> MatrixColumn_t \<Rightarrow> bool" where
  "qualifiesForChanges cm col =
     (case cl_connections col of
        [] \<Rightarrow> False
      | [c] \<Rightarrow> (case map_of cm c of None \<Rightarrow> False | Some i \<Rightarrow> co_adjustable i)
      | _ \<Rightarrow> False)"

definition getVolumeDiff :: "connection_map \<Rightarrow> matrix \<Rightarrow> nat \<Rightarrow> VolumeInfo_t" where
  "getVolumeDiff cm mx c =
     (let info = (case map_of cm c of None \<Rightarrow> co_default | Some i \<Rightarrow> i)
      in if \<not> co_adjustable info then nullDiff
         else (let (d, overall) = foldl (\<lambda>(d, ov) (a, col).
                     if c \<in> set (cl_connections col)
                     then (d\<lparr>vi_volume := vi_volume d - vi_volume (cl_target col),
                             vi_offset := vi_offset d - vi_offset (cl_target col)\<rparr>,
                           if vi_muteState (cl_target col) = MS_MUTED then MS_MUTED else ov)
                     else (d, ov)) (co_target info, MS_UNMUTED) mx
               in if overall = vi_muteState (co_target info) then d\<lparr>vi_muteState := MS_UNKNOWN\<rparr> else d))"

text \<open>The part of an element in the differences of its connections, and its new target.\<close>

definition element_diff :: "(nat \<times> VolumeInfo_t) list \<Rightarrow> nat list \<Rightarrow> VolumeInfo_t" where
  "element_diff diffs cs =
     foldl (\<lambda>e c. case (case map_of diffs c of None \<Rightarrow> nullDiff | Some d \<Rightarrow> d) of d \<Rightarrow>
         \<lparr>vi_muteState = (if vi_muteState d \<noteq> MS_UNKNOWN then vi_muteState d else vi_muteState e),
          vi_volume = (if vi_volume d \<noteq> 0 then vi_volume d else vi_volume e),
          vi_offset = (if vi_offset d \<noteq> 0 then vi_offset d else vi_offset e)\<rparr>) nullDiff cs"

definition clip :: "route_point \<Rightarrow> am_volume_t \<Rightarrow> am_volume_t" where
  "clip p v = smax (rp_mMinVolume p) (smin (rp_mMaxVolume p) v)"

definition change_target :: "route_point \<Rightarrow> VolumeInfo_t \<Rightarrow> MatrixColumn_t \<Rightarrow> MatrixColumn_t" where
  "change_target p e col =
     col\<lparr>cl_target := \<lparr>vi_muteState = (if vi_muteState e \<noteq> MS_UNKNOWN then vi_muteState e else vi_muteState (cl_target col)),
        vi_volume = clip p (vi_volume (cl_actual col) + vi_volume e),
        vi_offset = clip p (vi_offset (cl_actual col) + vi_offset e)\<rparr>\<rparr>"

definition balance_element :: "volume_world \<Rightarrow> connection_map \<Rightarrow> nat
    \<Rightarrow> matrix \<times> (nat \<times> VolumeInfo_t) list \<Rightarrow> matrix \<times> (nat \<times> VolumeInfo_t) list" where
  "balance_element W cm a s =
     (case s of (mx, diffs) \<Rightarrow>
        let col = the (map_of mx a)
        in if qualifiesForChanges cm col then
             (let mx' = om_insert a (change_target (vw_points W a) (element_diff diffs (cl_connections col)) col) mx
              in (mx', foldl (\<lambda>ds c. om_insert c (getVolumeDiff cm mx' c) ds) diffs (cl_connections col)))
           else s)"

fun balance_elements :: "volume_world \<Rightarrow> connection_map \<Rightarrow> nat list
    \<Rightarrow> matrix \<times> (nat \<times> VolumeInfo_t) list \<Rightarrow> matrix \<times> (nat \<times> VolumeInfo_t) list" where
  "balance_elements W cm [] s = s"
| "balance_elements W cm (a # as) s =
     (if list_all (\<lambda>(c, d). d = nullDiff) (snd s) then s else balance_elements W cm as (balance_element W cm a s))"

definition element_order :: "gc_SetSourceStateDirection_e \<Rightarrow> matrix \<Rightarrow> nat list" where
  "element_order direction mx =
     (case direction of
        SD_MAINSOURCE_TO_MAINSINK \<Rightarrow> map fst (sort_key (\<lambda>(a, col). - int (unat (cl_ordinal col))) mx)
      | SD_MAINSINK_TO_MAINSOURCE \<Rightarrow> map fst (sort_key (\<lambda>(a, col). int (unat (cl_ordinal col))) mx))"

definition calculateElementVolumes :: "volume_world \<Rightarrow> gc_SetSourceStateDirection_e
    \<Rightarrow> connection_map \<times> matrix \<Rightarrow> connection_map \<times> matrix" where
  "calculateElementVolumes W direction s =
     (case s of (cm, mx) \<Rightarrow>
        if cm = [] then s
        else (let cm' = resolveRelativeLimits cm;
                  diffs = map (\<lambda>(c, i). (c, getVolumeDiff cm' mx c)) cm'
              in (cm', fst (balance_elements W cm' (element_order direction mx) (mx, diffs)))))"

section \<open>Sums along a connection\<close>

abbreviation uses :: "nat \<Rightarrow> MatrixColumn_t \<Rightarrow> bool" where
  "uses c col \<equiv> c \<in> set (cl_connections col)"

definition sum_over :: "(VolumeInfo_t \<Rightarrow> am_volume_t) \<Rightarrow> nat \<Rightarrow> matrix \<Rightarrow> am_volume_t" where
  "sum_over part c mx = sum_list (map (\<lambda>(a, col). if uses c col then part (cl_target col) else 0) mx)"

lemma sum_over_Cons:
  "sum_over part c ((a, col) # mx) = (if uses c col then part (cl_target col) else 0) + sum_over part c mx"
  by (simp add: sum_over_def)

lemma sum_over_append: "sum_over part c (xs @ ys) = sum_over part c xs + sum_over part c ys"
  by (simp add: sum_over_def)

lemma diff_fold:
  "foldl (\<lambda>(d, ov) (a, col).
       if uses c col
       then (d\<lparr>vi_volume := vi_volume d - vi_volume (cl_target col), vi_offset := vi_offset d - vi_offset (cl_target col)\<rparr>,
             if vi_muteState (cl_target col) = MS_MUTED then MS_MUTED else ov)
       else (d, ov)) (d, ov) mx =
   (d\<lparr>vi_volume := vi_volume d - sum_over vi_volume c mx, vi_offset := vi_offset d - sum_over vi_offset c mx\<rparr>,
    if \<exists>(a, col)\<in>set mx. uses c col \<and> vi_muteState (cl_target col) = MS_MUTED then MS_MUTED else ov)"
proof (induction mx arbitrary: d ov)
  case (Cons x mx)
  obtain a col where x: "x = (a, col)" by fastforce
  show ?case unfolding x by (simp add: Cons.IH sum_over_Cons diff_diff_eq)
qed (simp add: sum_over_def)

definition connection_target :: "connection_map \<Rightarrow> nat \<Rightarrow> VolumeInfo_t" where
  "connection_target cm c = (case map_of cm c of None \<Rightarrow> nullDiff | Some i \<Rightarrow> co_target i)"

definition connection_adjustable :: "connection_map \<Rightarrow> nat \<Rightarrow> bool" where
  "connection_adjustable cm c = (case map_of cm c of None \<Rightarrow> False | Some i \<Rightarrow> co_adjustable i)"

lemma getVolumeDiff_volume:
  "connection_adjustable cm c \<Longrightarrow>
     vi_volume (getVolumeDiff cm mx c) = vi_volume (connection_target cm c) - sum_over vi_volume c mx"
  by (auto simp: getVolumeDiff_def connection_adjustable_def connection_target_def diff_fold Let_def
      split: option.splits)

lemma getVolumeDiff_offset:
  "connection_adjustable cm c \<Longrightarrow>
     vi_offset (getVolumeDiff cm mx c) = vi_offset (connection_target cm c) - sum_over vi_offset c mx"
  by (auto simp: getVolumeDiff_def connection_adjustable_def connection_target_def diff_fold Let_def
      split: option.splits)

lemma qualifies_iff:
  "qualifiesForChanges cm col \<longleftrightarrow> (\<exists>c. cl_connections col = [c] \<and> connection_adjustable cm c)"
  by (auto simp: qualifiesForChanges_def connection_adjustable_def split: list.splits option.splits)

text \<open>Writing a column back.\<close>

lemma om_insert_present:
  "om_ok (xs @ (k, v) # ys) \<Longrightarrow> om_insert k v' (xs @ (k, v) # ys) = xs @ (k, v') # ys"
  by (induction xs) (auto simp: om_ok_def)

lemma map_of_split:
  "map_of mx a = Some col \<Longrightarrow> \<exists>xs ys. mx = xs @ (a, col) # ys"
  using map_of_SomeD split_list by metis

lemma sum_over_change:
  assumes "om_ok mx" and "map_of mx a = Some col" and "cl_connections col' = cl_connections col"
  shows "sum_over part c (om_insert a col' mx)
       = sum_over part c mx + (if uses c col then part (cl_target col') - part (cl_target col) else 0)"
proof -
  obtain xs ys where mx: "mx = xs @ (a, col) # ys" using map_of_split [OF assms(2)] by blast
  have "om_insert a col' mx = xs @ (a, col') # ys" using om_insert_present assms(1) mx by fastforce
  then show ?thesis by (simp add: mx sum_over_append sum_over_Cons assms(3))
qed

lemma change_target_connections [simp]: "cl_connections (change_target p e col) = cl_connections col"
  by (simp add: change_target_def)

lemma change_target_frame [simp]:
  "cl_actual (change_target p e col) = cl_actual col" "cl_ordinal (change_target p e col) = cl_ordinal col"
  by (simp_all add: change_target_def)

section \<open>Balancing\<close>

definition in_range :: "route_point \<Rightarrow> am_volume_t \<Rightarrow> bool" where
  "in_range p v \<longleftrightarrow> sint (rp_mMinVolume p) \<le> sint v \<and> sint v \<le> sint (rp_mMaxVolume p)"

lemma clip_in_range: "in_range p v \<Longrightarrow> clip p v = v"
  by (rule signed_word_eqI) (auto simp: in_range_def clip_def smin_def smax_def)

lemma clip_cases: "clip p v = v \<or> clip p v = rp_mMinVolume p \<or> clip p v = rp_mMaxVolume p"
  by (simp add: clip_def smin_def smax_def)

lemma clip_range: "sint (rp_mMinVolume p) \<le> sint (rp_mMaxVolume p) \<Longrightarrow> in_range p (clip p v)"
  by (auto simp: in_range_def clip_def smin_def smax_def)

lemma mute_change_other:
  assumes "om_ok mx" "map_of mx a = Some col" "cl_connections col' = cl_connections col" "\<not> uses c col"
  shows "(\<exists>(a, col)\<in>set (om_insert a col' mx). uses c col \<and> vi_muteState (cl_target col) = MS_MUTED)
     \<longleftrightarrow> (\<exists>(a, col)\<in>set mx. uses c col \<and> vi_muteState (cl_target col) = MS_MUTED)"
proof -
  obtain xs ys where mx: "mx = xs @ (a, col) # ys" using map_of_split [OF assms(2)] by blast
  have "om_insert a col' mx = xs @ (a, col') # ys" using om_insert_present assms(1) mx by fastforce
  then show ?thesis using assms(3,4) by (auto simp: mx)
qed

lemma getVolumeDiff_other:
  assumes "om_ok mx" "map_of mx a = Some col" "cl_connections col' = cl_connections col" "\<not> uses c col"
  shows "getVolumeDiff cm (om_insert a col' mx) c = getVolumeDiff cm mx c"
proof -
  have s: "sum_over part c (om_insert a col' mx) = sum_over part c mx" for part
    using sum_over_change [OF assms(1-3), of part c] assms(4) by simp
  show ?thesis unfolding getVolumeDiff_def diff_fold mute_change_other [OF assms] s by (rule refl)
qed

text \<open>The state of the loop after the elements \<open>seen\<close>, for the volume or for the offset.\<close>

definition settled :: "(VolumeInfo_t \<Rightarrow> am_volume_t) \<Rightarrow> volume_world \<Rightarrow> connection_map \<Rightarrow> nat set \<Rightarrow> matrix \<Rightarrow> nat \<Rightarrow> bool" where
  "settled part W cm seen mx c \<longleftrightarrow>
     part (getVolumeDiff cm mx c) = 0 \<or>
     (\<forall>a\<in>seen. \<forall>col. map_of mx a = Some col \<and> cl_connections col = [c] \<longrightarrow>
        part (cl_target col) \<in> {rp_mMinVolume (vw_points W a), rp_mMaxVolume (vw_points W a)})"

definition column_step :: "volume_world \<Rightarrow> connection_map \<Rightarrow> nat set \<Rightarrow> nat \<Rightarrow> MatrixColumn_t \<Rightarrow> MatrixColumn_t \<Rightarrow> bool" where
  "column_step W cm seen a col0 col \<longleftrightarrow>
     cl_connections col = cl_connections col0 \<and> cl_actual col = cl_actual col0 \<and> cl_ordinal col = cl_ordinal col0 \<and>
     (a \<notin> seen \<or> \<not> qualifiesForChanges cm col0 \<longrightarrow> col = col0) \<and>
     (col = col0 \<or> in_range (vw_points W a) (vi_volume (cl_target col)) \<and> in_range (vw_points W a) (vi_offset (cl_target col)))"

definition balance_inv :: "volume_world \<Rightarrow> connection_map \<Rightarrow> matrix \<Rightarrow> nat set
    \<Rightarrow> matrix \<times> (nat \<times> VolumeInfo_t) list \<Rightarrow> bool" where
  "balance_inv W cm mx0 seen s \<longleftrightarrow>
     om_ok (fst s) \<and> om_ok (snd s) \<and>
     (\<forall>c. connection_adjustable cm c \<longrightarrow> map_of (snd s) c = Some (getVolumeDiff cm (fst s) c)) \<and>
     (\<forall>a. rel_option (column_step W cm seen a) (map_of mx0 a) (map_of (fst s) a)) \<and>
     (\<forall>c. connection_adjustable cm c \<longrightarrow>
        settled vi_volume W cm seen (fst s) c \<and> settled vi_offset W cm seen (fst s) c)"

text \<open>What the set-up of the table gives for the columns that may change.\<close>

definition columns_ready :: "volume_world \<Rightarrow> connection_map \<Rightarrow> matrix \<Rightarrow> bool" where
  "columns_ready W cm mx \<longleftrightarrow> om_ok mx \<and>
     (\<forall>a col. map_of mx a = Some col \<and> qualifiesForChanges cm col \<longrightarrow>
        cl_target col = cl_actual col \<and>
        sint (rp_mMinVolume (vw_points W a)) \<le> sint (rp_mMaxVolume (vw_points W a)) \<and>
        in_range (vw_points W a) (vi_volume (cl_actual col)) \<and> in_range (vw_points W a) (vi_offset (cl_actual col)))"

lemma element_diff_single:
  "map_of diffs c = Some d \<Longrightarrow> element_diff diffs [c] = d"
  by (simp add: element_diff_def nullDiff_def AM_VOLUME_NO_LIMIT_def)

lemma settled_other:
  assumes "om_ok mx" "map_of mx a = Some col" "cl_connections col' = cl_connections col"
    and "cl_connections col = [c']" "c \<noteq> c'" "settled part W cm seen mx c"
  shows "settled part W cm (insert a seen) (om_insert a col' mx) c"
proof -
  have "\<not> uses c col" using assms(4,5) by simp
  then show ?thesis
    using assms getVolumeDiff_other [OF assms(1-3)]
    by (auto simp: settled_def om.lookup_ins [OF assms(1)])
qed

lemma settled_self:
  assumes ok: "om_ok mx" and col: "map_of mx a = Some col" and con: "cl_connections col' = [c]" "cl_connections col = [c]"
    and diff: "\<And>mx. part (getVolumeDiff cm mx c) = part (connection_target cm c) - sum_over part c mx"
    and tgt: "part (cl_target col') = clip (vw_points W a) (part (cl_target col) + part (getVolumeDiff cm mx c))"
    and rng: "in_range (vw_points W a) (part (cl_target col))"
    and prev: "settled part W cm seen mx c"
  shows "settled part W cm (insert a seen) (om_insert a col' mx) c"
proof -
  let ?d = "part (getVolumeDiff cm mx c)"
  have "part (getVolumeDiff cm (om_insert a col' mx) c) = ?d - (part (cl_target col') - part (cl_target col))"
    unfolding diff using sum_over_change [OF ok col, of col' part c] con by simp
  then have zero: "part (cl_target col') = part (cl_target col) + ?d \<Longrightarrow>
      part (getVolumeDiff cm (om_insert a col' mx) c) = 0"
    by simp
  show ?thesis
  proof (cases "part (cl_target col') = part (cl_target col) + ?d")
    case True
    then show ?thesis using zero by (simp add: settled_def)
  next
    case False
    then have lim: "part (cl_target col') \<in> {rp_mMinVolume (vw_points W a), rp_mMaxVolume (vw_points W a)}"
      using clip_cases [of "vw_points W a" "part (cl_target col) + ?d"] unfolding tgt by blast
    have "?d \<noteq> 0"
    proof
      assume z: "?d = 0"
      then have "part (cl_target col') = part (cl_target col)" by (simp add: tgt clip_in_range [OF rng])
      then show False using False z by simp
    qed
    then have old: "\<forall>a\<in>seen. \<forall>col. map_of mx a = Some col \<and> cl_connections col = [c] \<longrightarrow>
        part (cl_target col) \<in> {rp_mMinVolume (vw_points W a), rp_mMaxVolume (vw_points W a)}"
      using prev unfolding settled_def by blast
    show ?thesis
      unfolding settled_def om.lookup_ins [OF ok]
    proof (intro disjI2 ballI allI impI)
      fix b col2
      assume "b \<in> insert a seen" and b: "((map_of mx)(a \<mapsto> col')) b = Some col2 \<and> cl_connections col2 = [c]"
      then show "part (cl_target col2) \<in> {rp_mMinVolume (vw_points W b), rp_mMaxVolume (vw_points W b)}"
      proof (cases "b = a")
        case True
        then have "col2 = col'" using b by simp
        then show ?thesis using True lim by simp
      next
        case False
        then have "b \<in> seen" "map_of mx b = Some col2" using b \<open>b \<in> insert a seen\<close> by simp_all
        then show ?thesis using old b by blast
      qed
    qed
  qed
qed

lemma balance_element_inv:
  assumes inv: "balance_inv W cm mx0 seen s" and ready: "columns_ready W cm mx0"
    and a: "a \<notin> seen" "map_of mx0 a \<noteq> None"
  shows "balance_inv W cm mx0 (insert a seen) (balance_element W cm a s)"
proof -
  obtain mx diffs where s: "s = (mx, diffs)" by fastforce
  obtain col0 where col0: "map_of mx0 a = Some col0" using a(2) by auto
  have ok: "om_ok mx" "om_ok diffs"
    and dv: "\<And>c. connection_adjustable cm c \<Longrightarrow> map_of diffs c = Some (getVolumeDiff cm mx c)"
    and rel: "\<And>b. rel_option (column_step W cm seen b) (map_of mx0 b) (map_of mx b)"
    and set: "\<And>c. connection_adjustable cm c \<Longrightarrow> settled vi_volume W cm seen mx c"
        "\<And>c. connection_adjustable cm c \<Longrightarrow> settled vi_offset W cm seen mx c"
    using inv by (auto simp: balance_inv_def s)
  obtain col where col: "map_of mx a = Some col" and step: "column_step W cm seen a col0 col"
    using rel [of a] by (auto simp: col0 option_rel_Some1)
  have eq: "col = col0" using step a(1) by (simp add: column_step_def)
  have grow: "rel_option (column_step W cm (insert a seen) b) (map_of mx0 b) (map_of mx b)" for b
    using rel [of b] by (cases "map_of mx0 b"; cases "map_of mx b") (auto simp: column_step_def)
  show ?thesis
  proof (cases "qualifiesForChanges cm col0")
    case False
    have "settled part W cm (insert a seen) mx c" if "connection_adjustable cm c" "settled part W cm seen mx c" for part c
    proof -
      have "cl_connections col \<noteq> [c]" using False that(1) by (auto simp: qualifies_iff eq)
      then show ?thesis using that(2) col by (auto simp: settled_def)
    qed
    then show ?thesis
      using ok dv grow set False by (simp add: balance_inv_def s balance_element_def col eq)
  next
    case True
    then obtain c where c: "cl_connections col = [c]" "connection_adjustable cm c" by (auto simp: qualifies_iff eq)
    define col' where "col' = change_target (vw_points W a) (getVolumeDiff cm mx c) col"
    define mx' where "mx' = om_insert a col' mx"
    have res: "balance_element W cm a s = (mx', om_insert c (getVolumeDiff cm mx' c) diffs)"
      using True by (simp add: s balance_element_def col eq c(1) [unfolded eq]
          element_diff_single [OF dv [OF c(2)]] col'_def mx'_def Let_def)
    have con: "cl_connections col' = cl_connections col" "cl_connections col' = [c]"
      by (simp_all add: col'_def c(1))
    have rdy: "cl_target col = cl_actual col" "sint (rp_mMinVolume (vw_points W a)) \<le> sint (rp_mMaxVolume (vw_points W a))"
        "in_range (vw_points W a) (vi_volume (cl_actual col))" "in_range (vw_points W a) (vi_offset (cl_actual col))"
      using ready True col0 unfolding columns_ready_def eq by blast+
    have other: "getVolumeDiff cm mx' c' = getVolumeDiff cm mx c'" if "c' \<noteq> c" for c'
      unfolding mx'_def by (rule getVolumeDiff_other [OF ok(1) col con(1)]) (simp add: c(1) that)
    have sv: "settled vi_volume W cm (insert a seen) mx' c'" if "connection_adjustable cm c'" for c'
    proof (cases "c' = c")
      case True
      show ?thesis unfolding True mx'_def
        by (rule settled_self [OF ok(1) col con(2) c(1)])
          (simp_all add: getVolumeDiff_volume [OF c(2)] col'_def change_target_def rdy set(1) [OF c(2)])
    qed (use settled_other [OF ok(1) col con(1) c(1) _ set(1) [OF that]] in \<open>simp add: mx'_def\<close>)
    have so: "settled vi_offset W cm (insert a seen) mx' c'" if "connection_adjustable cm c'" for c'
    proof (cases "c' = c")
      case True
      show ?thesis unfolding True mx'_def
        by (rule settled_self [OF ok(1) col con(2) c(1)])
          (simp_all add: getVolumeDiff_offset [OF c(2)] col'_def change_target_def rdy set(2) [OF c(2)])
    qed (use settled_other [OF ok(1) col con(1) c(1) _ set(2) [OF that]] in \<open>simp add: mx'_def\<close>)
    have st: "column_step W cm (insert a seen) a col0 col'"
      using True clip_range [OF rdy(2)] by (auto simp: column_step_def col'_def change_target_def eq)
    have "rel_option (column_step W cm (insert a seen) b) (map_of mx0 b) (map_of mx' b)" for b
      using grow [of b] st by (cases "b = a") (auto simp: mx'_def om.lookup_ins [OF ok(1)] col0)
    moreover have "map_of (om_insert c (getVolumeDiff cm mx' c) diffs) c' = Some (getVolumeDiff cm mx' c')"
      if "connection_adjustable cm c'" for c'
      using dv [OF that] other by (cases "c' = c") (auto simp: om.lookup_ins [OF ok(2)])
    ultimately show ?thesis
      using ok sv so by (simp add: balance_inv_def res mx'_def om_ok_insert)
  qed
qed

lemma balance_elements_inv:
  "balance_inv W cm mx0 seen s \<Longrightarrow> columns_ready W cm mx0 \<Longrightarrow> distinct as \<Longrightarrow> set as \<inter> seen = {} \<Longrightarrow>
     set as \<subseteq> dom (map_of mx0) \<Longrightarrow>
     \<exists>seen'. balance_inv W cm mx0 seen' (balance_elements W cm as s) \<and>
       (seen' = seen \<union> set as \<or> list_all (\<lambda>(c, d). d = nullDiff) (snd (balance_elements W cm as s)))"
proof (induction as arbitrary: seen s)
  case Nil
  then show ?case by auto
next
  case (Cons a as)
  show ?case
  proof (cases "list_all (\<lambda>(c, d). d = nullDiff) (snd s)")
    case True
    then show ?thesis using Cons.prems(1) by auto
  next
    case False
    have "balance_inv W cm mx0 (insert a seen) (balance_element W cm a s)"
      using Cons.prems by (intro balance_element_inv) auto
    from Cons.IH [OF this] Cons.prems False show ?thesis by auto
  qed
qed

lemma resolve_one_frame: "co_adjustable (resolve_one all k i) = co_adjustable i"
  unfolding resolve_one_def
  by (simp add: foldl_frame [where g = co_adjustable] Let_def split: prod.split)

lemma resolve_rows_frame:
  "map (\<lambda>(k, i). (k, co_adjustable i)) (resolve_rows rows rest) = map (\<lambda>(k, i). (k, co_adjustable i)) (rows @ rest)"
  by (induction rows rest rule: resolve_rows.induct) (simp_all add: Let_def resolve_one_frame)

lemma map_of_projected: "map_of (map (\<lambda>(k, i). (k, f i)) m) k = map_option f (map_of m k)"
  by (induction m) auto

lemma resolve_adjustable: "connection_adjustable (resolveRelativeLimits cm) c = connection_adjustable cm c"
proof -
  have "map_option co_adjustable (map_of (resolveRelativeLimits cm) c) = map_option co_adjustable (map_of cm c)"
    using resolve_rows_frame [of "[]" cm] by (simp add: resolveRelativeLimits_def map_of_projected [symmetric])
  then show ?thesis by (auto simp: connection_adjustable_def split: option.splits)
qed

lemma resolve_keys: "map fst (resolveRelativeLimits cm) = map fst cm"
proof -
  have "map fst (map (\<lambda>(k, i). (k, co_adjustable i)) (resolveRelativeLimits cm)) = map fst (map (\<lambda>(k, i). (k, co_adjustable i)) cm)"
    using resolve_rows_frame [of "[]" cm] by (simp add: resolveRelativeLimits_def)
  then show ?thesis by (simp add: comp_def split_beta')
qed

lemma qualifies_resolve: "qualifiesForChanges (resolveRelativeLimits cm) col = qualifiesForChanges cm col"
  by (simp add: qualifies_iff resolve_adjustable)

lemma element_order_set: "set (element_order d mx) = fst ` set mx"
  by (simp add: element_order_def split: gc_SetSourceStateDirection_e.split)

lemma element_order_distinct: "om_ok mx \<Longrightarrow> distinct (element_order d mx)"
proof -
  assume "om_ok mx"
  then have "distinct (map fst mx)" using strict_sorted_iff by (auto simp: om_ok_def)
  moreover have "mset (element_order d mx) = mset (map fst mx)"
    by (simp add: element_order_def split: gc_SetSourceStateDirection_e.split)
  ultimately show ?thesis by (metis mset_eq_imp_distinct_iff)
qed

lemma settled_start: "settled part W cm {} mx c"
  by (simp add: settled_def)

lemma column_step_refl: "column_step W cm {} a col col"
  by (simp add: column_step_def)

lemma sum_over_lookup:
  assumes "om_ok mx"
  shows "sum_over part c mx = (\<Sum>a\<in>dom (map_of mx).
     case map_of mx a of None \<Rightarrow> 0 | Some col \<Rightarrow> if uses c col then part (cl_target col) else 0)"
proof -
  let ?f = "\<lambda>a. case map_of mx a of None \<Rightarrow> 0 | Some col \<Rightarrow> if uses c col then part (cl_target col) else 0"
  have d: "distinct (map fst mx)" using assms strict_sorted_iff by (auto simp: om_ok_def)
  have "map_of mx a = Some col" if "(a, col) \<in> set mx" for a col using that d by (simp add: map_of_eq_Some_iff)
  then have "sum_over part c mx = sum_list (map ?f (map fst mx))"
    by (auto simp: sum_over_def comp_def intro!: arg_cong [of _ _ sum_list])
  also have "\<dots> = (\<Sum>a\<in>set (map fst mx). ?f a)" using d by (simp add: sum_list_distinct_conv_sum_set del: map_map)
  also have "set (map fst mx) = dom (map_of mx)" by (simp add: dom_map_of_conv_image_fst)
  finally show ?thesis .
qed

lemma sum_over_same:
  assumes "om_ok mx" "om_ok mx'"
    and "\<And>a. rel_option (\<lambda>col col'. cl_connections col' = cl_connections col \<and> (uses c col \<longrightarrow> col' = col)) (map_of mx a) (map_of mx' a)"
  shows "sum_over part c mx' = sum_over part c mx"
proof -
  have "(case map_of mx' a of None \<Rightarrow> 0 | Some col \<Rightarrow> if uses c col then part (cl_target col) else 0)
      = (case map_of mx a of None \<Rightarrow> 0 | Some col \<Rightarrow> if uses c col then part (cl_target col) else 0)" for a
    using assms(3) [of a] by (cases "map_of mx a"; cases "map_of mx' a") auto
  moreover have "dom (map_of mx') = dom (map_of mx)"
  proof -
    have "map_of mx' a = None \<longleftrightarrow> map_of mx a = None" for a
      using assms(3) [of a] by (cases "map_of mx a"; cases "map_of mx' a") auto
    then show ?thesis by (auto simp: dom_def)
  qed
  ultimately show ?thesis by (simp add: sum_over_lookup [OF assms(1)] sum_over_lookup [OF assms(2)])
qed

lemma calculate_result:
  assumes ready: "columns_ready W cm mx" and ok: "om_ok cm" and calc: "calculateElementVolumes W d (cm, mx) = (cm', mx')"
  shows "cm' = resolveRelativeLimits cm \<and> om_ok mx' \<and>
    (\<exists>seen. (\<forall>a. rel_option (column_step W cm seen a) (map_of mx a) (map_of mx' a))) \<and>
    (\<forall>c. connection_adjustable cm c \<longrightarrow>
       settled vi_volume W cm' (dom (map_of mx)) mx' c \<and> settled vi_offset W cm' (dom (map_of mx)) mx' c)"
proof (cases "cm = []")
  case True
  then have "cm' = []" "mx' = mx" using calc by (auto simp: calculateElementVolumes_def)
  moreover have "rel_option (column_step W cm {} a) (map_of mx a) (map_of mx a)" for a
    by (cases "map_of mx a") (simp_all add: column_step_refl)
  ultimately show ?thesis
    using ready True by (auto simp: resolveRelativeLimits_def connection_adjustable_def columns_ready_def)
next
  case False
  let ?cm = "resolveRelativeLimits cm"
  let ?diffs = "map (\<lambda>(c, i). (c, getVolumeDiff ?cm mx c)) ?cm"
  let ?r = "balance_elements W ?cm (element_order d mx) (mx, ?diffs)"
  have r: "cm' = ?cm" "mx' = fst ?r" using calc False by (auto simp: calculateElementVolumes_def Let_def)
  have rdy: "columns_ready W ?cm mx" using ready unfolding columns_ready_def qualifies_resolve .
  have keys: "map fst ?diffs = map fst cm" unfolding resolve_keys [of cm, symmetric] by (induction ?cm) auto
  have dv: "map_of ?diffs c = Some (getVolumeDiff ?cm mx c)" if "connection_adjustable ?cm c" for c
  proof -
    from that obtain i where "map_of ?cm c = Some i" by (auto simp: connection_adjustable_def split: option.splits)
    moreover have "map_of (map (\<lambda>(c, i). (c, f c)) m) c = map_option (\<lambda>_. f c) (map_of m c)" for m :: connection_map and f :: "nat \<Rightarrow> VolumeInfo_t"
      by (induction m) auto
    ultimately show ?thesis by simp
  qed
  have "rel_option (column_step W ?cm {} a) (map_of mx a) (map_of mx a)" for a
    by (cases "map_of mx a") (simp_all add: column_step_refl)
  then have "balance_inv W ?cm mx {} (mx, ?diffs)"
    using rdy ok dv keys by (simp add: balance_inv_def columns_ready_def settled_start om_ok_def del: map_map)
  from balance_elements_inv [OF this rdy, of "element_order d mx"]
  obtain seen where inv: "balance_inv W ?cm mx seen ?r"
    and fin: "seen = set (element_order d mx) \<or> list_all (\<lambda>(c, d). d = nullDiff) (snd ?r)"
    using rdy element_order_distinct [of mx d]
    by (auto simp: element_order_set dom_map_of_conv_image_fst columns_ready_def)
  have set: "settled part W ?cm (dom (map_of mx)) (fst ?r) c"
    if "connection_adjustable cm c" "part = vi_volume \<or> part = vi_offset" for c part
  proof -
    have "settled part W ?cm seen (fst ?r) c"
      using inv that by (auto simp: balance_inv_def resolve_adjustable)
    moreover have "part (getVolumeDiff ?cm (fst ?r) c) = 0" if "list_all (\<lambda>(c, d). d = nullDiff) (snd ?r)"
    proof -
      have "map_of (snd ?r) c = Some (getVolumeDiff ?cm (fst ?r) c)"
        using inv \<open>connection_adjustable cm c\<close> by (simp add: balance_inv_def resolve_adjustable)
      from map_of_SomeD [OF this] that have "getVolumeDiff ?cm (fst ?r) c = nullDiff" by (auto simp: list_all_iff)
      then show ?thesis
        using \<open>part = vi_volume \<or> part = vi_offset\<close> by (auto simp: nullDiff_def AM_VOLUME_NO_LIMIT_def)
    qed
    ultimately show ?thesis
      using fin by (auto simp: settled_def element_order_set dom_map_of_conv_image_fst)
  qed
  have "column_step W ?cm seen = column_step W cm seen"
    by (simp add: column_step_def qualifies_resolve fun_eq_iff)
  then show ?thesis using inv set by (auto simp: r balance_inv_def)
qed

section \<open>The set-up of the tables\<close>

definition volumes_of :: "route_point \<Rightarrow> VolumeInfo_t" where
  "volumes_of p = \<lparr>vi_muteState = rp_mMuteState p, vi_volume = rp_mVolume p, vi_offset = rp_mOffsetVolume p\<rparr>"

definition rows_inv :: "volume_world \<Rightarrow> connection_map \<Rightarrow> connection_map \<Rightarrow> bool" where
  "rows_inv W cm0 cm \<longleftrightarrow> om_ok cm \<and> map_of cm0 \<subseteq>\<^sub>m map_of cm \<and>
     (\<forall>k i. map_of cm k = Some i \<and> map_of cm0 k = None \<longrightarrow> k \<in> set (vw_list W) \<and> \<not> co_adjustable i)"

definition matrix_inv :: "volume_world \<Rightarrow> connection_map \<Rightarrow> matrix \<Rightarrow> bool" where
  "matrix_inv W cm mx \<longleftrightarrow> om_ok mx \<and>
     (\<forall>a col. map_of mx a = Some col \<longrightarrow>
        cl_target col = volumes_of (vw_points W a) \<and> cl_actual col = volumes_of (vw_points W a) \<and>
        cl_connections col \<noteq> [] \<and> set (cl_connections col) \<subseteq> dom (map_of cm))"

text \<open>The columns only ever gain connections.\<close>

definition covers :: "matrix \<Rightarrow> matrix \<Rightarrow> bool" where
  "covers mx mx' \<longleftrightarrow> (\<forall>a col. map_of mx a = Some col \<longrightarrow>
     (\<exists>col'. map_of mx' a = Some col' \<and> set (cl_connections col) \<subseteq> set (cl_connections col')))"

lemma covers_refl: "covers mx mx"
  by (auto simp: covers_def)

lemma covers_trans: "covers mx mx' \<Longrightarrow> covers mx' mx'' \<Longrightarrow> covers mx mx''"
  unfolding covers_def by (meson subset_trans)

lemma set_set_insert [simp]: "set (set_insert a l) = insert a (set l)"
  by (auto simp: set_insert_def set_insort_key)

lemma set_insert_nonempty [simp]: "set_insert a l \<noteq> []"
  by (cases l) (auto simp: set_insert_def)

lemma getConnectionVolumes_adjustable: "co_adjustable (getConnectionVolumes W c b) = b"
  unfolding getConnectionVolumes_def Let_def
  by (subst foldl_frame [where g = co_adjustable]) (simp_all add: note_limit_def)

lemma note_affected_inv:
  assumes "rows_inv W cm0 cm" "matrix_inv W cm mx" "a \<in> dom (map_of mx)" "c \<in> set (vw_list W)"
    and "note_affected W a (cm, mx) c = (cm', mx')"
  shows "rows_inv W cm0 cm' \<and> matrix_inv W cm' mx' \<and> covers mx mx' \<and> a \<in> dom (map_of mx')"
proof -
  obtain col where col: "map_of mx a = Some col" using assms(3) by auto
  have ok: "om_ok cm" "om_ok mx" using assms(1,2) by (auto simp: rows_inv_def matrix_inv_def)
  have cm': "cm' = (if map_of cm c = None then om_insert c (getConnectionVolumes W c False) cm else cm)"
    and mx': "mx' = om_insert a (col\<lparr>cl_connections := set_insert c (cl_connections col)\<rparr>) mx"
    using assms(5) by (auto simp: note_affected_def col Let_def)
  have "map_of cm0 c = None" if "map_of cm c = None"
    using assms(1) that by (auto simp: rows_inv_def map_le_def) (metis domIff)
  then have "rows_inv W cm0 cm'"
    using assms(1,4) getConnectionVolumes_adjustable [of W c False]
    by (auto simp: cm' rows_inv_def om.lookup_ins [OF ok(1)] map_le_def om_ok_insert split: if_splits)
  moreover have "dom (map_of cm') = insert c (dom (map_of cm))"
    by (auto simp: cm' om.lookup_ins [OF ok(1)])
  then have "dom (map_of cm) \<subseteq> dom (map_of cm')" "c \<in> dom (map_of cm')" by auto
  then have "matrix_inv W cm' mx'"
    using assms(2) col unfolding matrix_inv_def mx' om.lookup_ins [OF ok(2)] by (auto simp: om_ok_insert) blast+
  moreover have "covers mx mx'"
    using col by (auto simp: covers_def mx' om.lookup_ins [OF ok(2)])
  ultimately show ?thesis by (auto simp: mx' om.lookup_ins [OF ok(2)])
qed

lemma note_all_inv:
  "rows_inv W cm0 cm \<Longrightarrow> matrix_inv W cm mx \<Longrightarrow> a \<in> dom (map_of mx) \<Longrightarrow> set l \<subseteq> set (vw_list W) \<Longrightarrow>
   foldl (note_affected W a) (cm, mx) l = (cm', mx') \<Longrightarrow>
   rows_inv W cm0 cm' \<and> matrix_inv W cm' mx' \<and> covers mx mx'"
proof (induction l arbitrary: cm mx)
  case Nil
  then show ?case by (simp add: covers_refl)
next
  case (Cons c l)
  obtain cm1 mx1 where e: "note_affected W a (cm, mx) c = (cm1, mx1)" by fastforce
  from note_affected_inv [OF Cons.prems(1-3) _ e] Cons.prems(4)
  have "rows_inv W cm0 cm1" "matrix_inv W cm1 mx1" "covers mx mx1" "a \<in> dom (map_of mx1)" by auto
  with Cons.IH [of cm1 mx1] Cons.prems(4,5) e show ?case by (auto intro: covers_trans)
qed

lemma search_defined:
  assumes "\<forall>c\<in>set (vw_list W). complete_route (vw_conns W c)"
  shows "\<exists>l. vw_search W f = Some l \<and> set l \<subseteq> set (vw_list W)"
proof -
  have "\<forall>x\<in>set (vw_list W). cf_matches (vw_points W) (vw_getState W) f (Some (vw_conns W x)) \<noteq> None"
    using assms cf_matches_defined by blast
  from select_matching_total [OF this] show ?thesis by (auto simp: vw_search_def)
qed

lemma setup_column_inv:
  assumes routes: "\<forall>c\<in>set (vw_list W). complete_route (vw_conns W c)"
    and inv: "rows_inv W cm0 cm" "matrix_inv W cm mx" and k: "k \<in> dom (map_of cm)"
  shows "\<exists>cm' mx' ord'. setup_column W states k a (cm, mx, ord) = Some (cm', mx', ord') \<and>
    rows_inv W cm0 cm' \<and> matrix_inv W cm' mx' \<and> covers mx mx' \<and> dom (map_of cm) \<subseteq> dom (map_of cm') \<and>
    (\<exists>col. map_of mx' a = Some col \<and> uses k col)"
proof -
  obtain l where l: "vw_search W (user_filter W states a) = Some l" "set l \<subseteq> set (vw_list W)"
    using search_defined [OF routes] by blast
  define col where "col = (case map_of mx a of None \<Rightarrow> cl_default | Some c \<Rightarrow> c)"
  obtain col1 ord1 where c1: "(if cl_connections col = [] then (col\<lparr>cl_ordinal := ord\<rparr>, ord) else (col, cl_ordinal col)) = (col1, ord1)"
    by (metis surj_pair)
  define col2 where "col2 = getElementVolumes (vw_points W a) (col1\<lparr>cl_connections := set_insert k (cl_connections col1)\<rparr>)"
  have con: "cl_connections col1 = cl_connections col" using c1 by (auto split: if_splits)
  have okm: "om_ok mx" and okc: "om_ok cm" using inv by (auto simp: matrix_inv_def rows_inv_def)
  have two: "cl_target col2 = volumes_of (vw_points W a)" "cl_actual col2 = volumes_of (vw_points W a)"
    "set (cl_connections col2) = insert k (set (cl_connections col))" "cl_connections col2 \<noteq> []"
    by (simp_all add: col2_def getElementVolumes_def volumes_of_def Let_def con)
  have sub: "set (cl_connections col) \<subseteq> dom (map_of cm)"
    using inv(2) by (auto simp: col_def matrix_inv_def cl_default_def split: option.splits)
  let ?mx1 = "om_insert a col2 mx"
  have m1: "matrix_inv W cm ?mx1"
    using inv(2) two sub k by (auto simp: matrix_inv_def om.lookup_ins [OF okm] om_ok_insert)
  have c1': "covers mx ?mx1"
    using two(3) by (auto simp: covers_def om.lookup_ins [OF okm] col_def)
  obtain cm' mx' where f: "foldl (note_affected W a) (cm, ?mx1) l = (cm', mx')" by fastforce
  have n: "rows_inv W cm0 cm'" "matrix_inv W cm' mx'" "covers ?mx1 mx'"
    using note_all_inv [OF inv(1) m1 _ l(2) f] by (auto simp: om.lookup_ins [OF okm])
  have d: "dom (map_of cm) \<subseteq> dom (map_of cm')"
  proof -
    have "rows_inv W cm cm" using okc by (auto simp: rows_inv_def)
    from note_all_inv [OF this m1 _ l(2) f] have "map_of cm \<subseteq>\<^sub>m map_of cm'"
      by (auto simp: om.lookup_ins [OF okm] rows_inv_def)
    then show ?thesis by (rule map_le_implies_dom_le)
  qed
  have "\<exists>c'. map_of mx' a = Some c' \<and> uses k c'"
    using n(3) two(3) by (auto simp: covers_def om.lookup_ins [OF okm] dest!: spec [of _ a])
  moreover have "setup_column W states k a (cm, mx, ord) = Some (cm', mx', ord1 + 1)"
    unfolding setup_column_def Let_def prod.case col_def [symmetric] c1 col2_def [symmetric] l(1) option.case f
    by (rule refl)
  ultimately show ?thesis using n d covers_trans [OF c1' n(3)] by blast
qed

lemma rows_inv_dom: "rows_inv W cm0 cm \<Longrightarrow> dom (map_of cm0) \<subseteq> dom (map_of cm)"
  by (simp add: rows_inv_def map_le_implies_dom_le)

lemma setup_columns_inv:
  assumes routes: "\<forall>c\<in>set (vw_list W). complete_route (vw_conns W c)"
  shows "rows_inv W cm0 cm \<Longrightarrow> matrix_inv W cm mx \<Longrightarrow> k \<in> dom (map_of cm) \<Longrightarrow>
    \<exists>cm' mx' ord'. setup_columns W states k as (cm, mx, ord) = Some (cm', mx', ord') \<and>
    rows_inv W cm0 cm' \<and> matrix_inv W cm' mx' \<and> covers mx mx' \<and> dom (map_of cm) \<subseteq> dom (map_of cm') \<and>
    (\<forall>a\<in>set as. \<exists>col. map_of mx' a = Some col \<and> uses k col)"
proof (induction as arbitrary: cm mx ord)
  case Nil
  then show ?case by (simp add: covers_refl)
next
  case (Cons a as)
  from setup_column_inv [OF routes Cons.prems, of states a ord] obtain cm1 mx1 ord1 where
    1: "setup_column W states k a (cm, mx, ord) = Some (cm1, mx1, ord1)" "rows_inv W cm0 cm1" "matrix_inv W cm1 mx1"
      "covers mx mx1" "dom (map_of cm) \<subseteq> dom (map_of cm1)" "\<exists>col. map_of mx1 a = Some col \<and> uses k col"
    by blast
  from Cons.IH [OF 1(2,3), of ord1] Cons.prems(3) 1(5) obtain cm2 mx2 ord2 where
    2: "setup_columns W states k as (cm1, mx1, ord1) = Some (cm2, mx2, ord2)" "rows_inv W cm0 cm2" "matrix_inv W cm2 mx2"
      "covers mx1 mx2" "dom (map_of cm1) \<subseteq> dom (map_of cm2)" "\<forall>a\<in>set as. \<exists>col. map_of mx2 a = Some col \<and> uses k col"
    by blast
  have "\<exists>col. map_of mx2 a = Some col \<and> uses k col" using 1(6) 2(4) unfolding covers_def by blast
  then show ?case using 1 2 covers_trans [OF 1(4) 2(4)] by auto
qed

lemma covers_uses: "covers mx mx' \<Longrightarrow> \<exists>col. map_of mx a = Some col \<and> uses k col \<Longrightarrow> \<exists>col. map_of mx' a = Some col \<and> uses k col"
  unfolding covers_def by blast

text \<open>The rows the loop has yet to visit: it ends because the addresses of all connections are finitely many.\<close>

lemma setup_rows_inv:
  assumes routes: "\<forall>c\<in>set (vw_list W). complete_route (vw_conns W c)"
  shows "rows_inv W cm0 cm \<Longrightarrow> matrix_inv W cm mx \<Longrightarrow>
    card {k \<in> set (map fst cm0 @ vw_list W). below \<le> k} < fuel \<Longrightarrow>
    (\<forall>k\<in>dom (map_of cm). k < below \<longrightarrow> k \<in> dom (map_of cm0) \<longrightarrow> (\<forall>a\<in>set (change_elements W k). \<exists>col. map_of mx a = Some col \<and> uses k col)) \<Longrightarrow>
    \<exists>cm' mx' ord'. setup_rows fuel W states below (cm, mx, ord) = Some (cm', mx', ord') \<and>
      rows_inv W cm0 cm' \<and> matrix_inv W cm' mx' \<and>
      (\<forall>k\<in>dom (map_of cm0). \<forall>a\<in>set (change_elements W k). \<exists>col. map_of mx' a = Some col \<and> uses k col)"
proof (induction fuel arbitrary: below cm mx ord)
  case 0
  then show ?case by simp
next
  case (Suc n)
  show ?case
  proof (cases "filter (\<lambda>k. below \<le> k) (map fst cm)")
    case Nil
    then have "\<forall>k\<in>set (map fst cm). \<not> below \<le> k" by (metis filter_empty_conv)
    then have "\<forall>k\<in>dom (map_of cm). k < below" by (auto simp: dom_map_of_conv_image_fst)
    moreover have "dom (map_of cm0) \<subseteq> dom (map_of cm)"
      by (rule rows_inv_dom [OF Suc.prems(1)])
    ultimately have "\<forall>k\<in>dom (map_of cm0). \<forall>a\<in>set (change_elements W k). \<exists>col. map_of mx a = Some col \<and> uses k col"
      using Suc.prems(4) by blast
    then show ?thesis using Nil Suc.prems(1,2) by simp
  next
    case (Cons k ks)
    have fs: "set (k # ks) = {k \<in> set (map fst cm). below \<le> k}" unfolding Cons [symmetric] by (rule set_filter)
    then have kin: "k \<in> set (map fst cm)" "below \<le> k" by auto
    have least: "\<forall>k'\<in>set (map fst cm). below \<le> k' \<longrightarrow> k \<le> k'"
    proof -
      have "sorted_wrt (<) (k # ks)"
        using Suc.prems(1) sorted_wrt_filter [of "(<)" "map fst cm" "\<lambda>k. below \<le> k"] Cons
        by (simp add: rows_inv_def om_ok_def)
      moreover have "k' \<in> set (k # ks)" if "k' \<in> set (map fst cm)" "below \<le> k'" for k'
        using that unfolding fs by blast
      ultimately show ?thesis by fastforce
    qed
    have kd: "k \<in> dom (map_of cm)" using kin(1) by (simp add: dom_map_of_conv_image_fst)
    from setup_columns_inv [OF routes Suc.prems(1,2) kd, of states "change_elements W k" ord]
    obtain cm1 mx1 ord1 where 1: "setup_columns W states k (change_elements W k) (cm, mx, ord) = Some (cm1, mx1, ord1)"
        "rows_inv W cm0 cm1" "matrix_inv W cm1 mx1" "covers mx mx1"
        "\<forall>a\<in>set (change_elements W k). \<exists>col. map_of mx1 a = Some col \<and> uses k col"
      by blast
    have "k \<in> set (map fst cm0 @ vw_list W)"
    proof (cases "map_of cm0 k")
      case None
      then show ?thesis using kd Suc.prems(1) by (auto simp: rows_inv_def)
    next
      case (Some i)
      then show ?thesis by (auto dest: map_of_SomeD intro: image_eqI [where x = "(k, i)"])
    qed
    then have "{k' \<in> set (map fst cm0 @ vw_list W). Suc k \<le> k'} \<subseteq> {k' \<in> set (map fst cm0 @ vw_list W). below \<le> k'}"
        "k \<in> {k' \<in> set (map fst cm0 @ vw_list W). below \<le> k'}"
        "k \<notin> {k' \<in> set (map fst cm0 @ vw_list W). Suc k \<le> k'}"
      using kin(2) by (auto simp del: set_append set_map)
    then have sub: "{k' \<in> set (map fst cm0 @ vw_list W). Suc k \<le> k'} \<subset> {k' \<in> set (map fst cm0 @ vw_list W). below \<le> k'}"
      by blast
    have "card {k' \<in> set (map fst cm0 @ vw_list W). Suc k \<le> k'} < n"
    proof -
      have "finite {k' \<in> set (map fst cm0 @ vw_list W). below \<le> k'}" by (rule finite_subset [OF _ finite_set]) blast
      from psubset_card_mono [OF this sub] show ?thesis using Suc.prems(3) by linarith
    qed
    moreover have "\<forall>k'\<in>dom (map_of cm1). k' < Suc k \<longrightarrow> k' \<in> dom (map_of cm0) \<longrightarrow>
        (\<forall>a\<in>set (change_elements W k'). \<exists>col. map_of mx1 a = Some col \<and> uses k' col)"
    proof (intro ballI impI)
      fix k' a
      assume k': "k' \<in> dom (map_of cm1)" "k' < Suc k" "k' \<in> dom (map_of cm0)" "a \<in> set (change_elements W k')"
      show "\<exists>col. map_of mx1 a = Some col \<and> uses k' col"
      proof (cases "k' = k")
        case True
        then show ?thesis using 1(5) k'(4) by blast
      next
        case False
        have d: "k' \<in> dom (map_of cm)"
          using k'(3) rows_inv_dom [OF Suc.prems(1)] by blast
        then have "k' \<in> set (map fst cm)" by (simp add: dom_map_of_conv_image_fst)
        then have "k' < below" using least k'(2) False by (meson le_antisym less_Suc_eq_le not_less)
        then show ?thesis using Suc.prems(4) d k'(3,4) covers_uses [OF 1(4)] by blast
      qed
    qed
    ultimately show ?thesis
      using Suc.IH [OF 1(2,3), of "Suc k" ord1] Cons 1(1) by auto
  qed
qed

section \<open>Properties\<close>

definition ranges_ok :: "volume_world \<Rightarrow> bool" where
  "ranges_ok W \<longleftrightarrow> (\<forall>a. in_range (vw_points W a) (rp_mVolume (vw_points W a)) \<and> in_range (vw_points W a) (rp_mOffsetVolume (vw_points W a)))"

lemma ready_of_inv: "matrix_inv W cm mx \<Longrightarrow> ranges_ok W \<Longrightarrow> columns_ready W cm' mx"
proof -
  assume inv: "matrix_inv W cm mx" "ranges_ok W"
  have "sint (rp_mMinVolume (vw_points W a)) \<le> sint (rp_mMaxVolume (vw_points W a))" for a
    using inv(2) unfolding ranges_ok_def in_range_def by (meson order_trans)
  then show ?thesis
    using inv by (auto simp add: columns_ready_def matrix_inv_def ranges_ok_def volumes_of_def)
qed

lemma setup_result:
  assumes "om_ok cm" and "\<forall>c\<in>set (vw_list W). complete_route (vw_conns W c)"
    and "length cm + length (vw_list W) < fuel"
  shows "\<exists>cm' mx. setupVolumeMatrix fuel W states (cm, []) = Some (cm', mx) \<and> rows_inv W cm cm' \<and> matrix_inv W cm' mx \<and>
    (\<forall>c\<in>dom (map_of cm). \<forall>a\<in>set (change_elements W c). \<exists>col. map_of mx a = Some col \<and> uses c col)"
proof -
  have "rows_inv W cm cm" using assms(1) by (auto simp: rows_inv_def)
  moreover have "matrix_inv W cm []" by (simp add: matrix_inv_def)
  moreover have "card {k \<in> set (map fst cm @ vw_list W). 0 \<le> k} < fuel"
    using card_length [of "map fst cm @ vw_list W"] assms(3) by (simp add: Un_def)
  ultimately show ?thesis
    using setup_rows_inv [OF assms(2), of cm cm "[]" 0 fuel states 0] by (fastforce simp: setupVolumeMatrix_def)
qed

text \<open>
  the set-up of the two tables of a volume action. When every connection of the factory has both
  ends in each of its routes, the set-up returns. The rows of the addressed connections stay as they
  are; every row that is added belongs to a connection of the factory and may not be adjusted. Each
  column starts from the present state of its element, is used only by connections that have a row,
  and the elements of every addressed connection have a column that names this connection.
\<close>

theorem setupVolumeMatrix_tables:
  assumes "om_ok cm" and "\<forall>c\<in>set (vw_list W). complete_route (vw_conns W c)"
    and "length cm + length (vw_list W) < fuel"
  shows "\<exists>cm' mx. setupVolumeMatrix fuel W states (cm, []) = Some (cm', mx) \<and> om_ok cm' \<and> om_ok mx \<and>
    (\<forall>c i. map_of cm c = Some i \<longrightarrow> map_of cm' c = Some i) \<and>
    (\<forall>c i. map_of cm' c = Some i \<and> map_of cm c = None \<longrightarrow> c \<in> set (vw_list W) \<and> \<not> co_adjustable i) \<and>
    (\<forall>a col. map_of mx a = Some col \<longrightarrow> cl_target col = volumes_of (vw_points W a) \<and>
       cl_actual col = volumes_of (vw_points W a) \<and> set (cl_connections col) \<subseteq> dom (map_of cm')) \<and>
    (\<forall>c a. map_of cm c \<noteq> None \<and> a \<in> set (change_elements W c) \<longrightarrow>
       (\<exists>col. map_of mx a = Some col \<and> c \<in> set (cl_connections col)))"
proof -
  obtain cm' mx where r: "setupVolumeMatrix fuel W states (cm, []) = Some (cm', mx)" "rows_inv W cm cm'" "matrix_inv W cm' mx"
      "\<forall>c\<in>dom (map_of cm). \<forall>a\<in>set (change_elements W c). \<exists>col. map_of mx a = Some col \<and> uses c col"
    using setup_result [OF assms] by blast
  have "map_of cm' c = Some i" if "map_of cm c = Some i" for c i
    using r(2) that by (auto simp: rows_inv_def map_le_def) (metis domI)
  moreover have "\<forall>c i. map_of cm' c = Some i \<and> map_of cm c = None \<longrightarrow> c \<in> set (vw_list W) \<and> \<not> co_adjustable i"
    using r(2) unfolding rows_inv_def by blast
  moreover have "\<forall>a col. map_of mx a = Some col \<longrightarrow> cl_target col = volumes_of (vw_points W a) \<and>
       cl_actual col = volumes_of (vw_points W a) \<and> set (cl_connections col) \<subseteq> dom (map_of cm')"
    using r(3) unfolding matrix_inv_def by blast
  ultimately show ?thesis using r by (auto simp: rows_inv_def matrix_inv_def)
qed

text \<open>
  C20: what balancing achieves for a connection that may be adjusted. Its target volume is exactly the
  sum of the target volumes along it, or every element that it has for itself ends at a limit of its
  own range; the same holds for the offset. Sums are those of the 16 bit volumes. Before, the columns
  are as the set-up leaves them and the volumes lie in the ranges of their elements.
\<close>

theorem balance_reaches_target:
  assumes "columns_ready W cm mx" and "om_ok cm" and "calculateElementVolumes W d (cm, mx) = (cm', mx')"
    and "connection_adjustable cm c"
  shows "(vi_volume (connection_target cm' c) = sum_over vi_volume c mx' \<or>
          (\<forall>a col. map_of mx' a = Some col \<and> cl_connections col = [c] \<longrightarrow>
             vi_volume (cl_target col) \<in> {rp_mMinVolume (vw_points W a), rp_mMaxVolume (vw_points W a)})) \<and>
         (vi_offset (connection_target cm' c) = sum_over vi_offset c mx' \<or>
          (\<forall>a col. map_of mx' a = Some col \<and> cl_connections col = [c] \<longrightarrow>
             vi_offset (cl_target col) \<in> {rp_mMinVolume (vw_points W a), rp_mMaxVolume (vw_points W a)}))"
proof -
  note r = calculate_result [OF assms(1-3)]
  then obtain seen where rel: "\<And>a. rel_option (column_step W cm seen a) (map_of mx a) (map_of mx' a)" by blast
  have dom: "a \<in> dom (map_of mx)" if "map_of mx' a = Some col" for a col
    using rel [of a] that by (auto simp: option_rel_Some2)
  have adj: "connection_adjustable cm' c" using r assms(4) by (simp add: resolve_adjustable)
  have sv: "settled vi_volume W cm' (dom (map_of mx)) mx' c" "settled vi_offset W cm' (dom (map_of mx)) mx' c"
    using r assms(4) by blast+
  have "part (getVolumeDiff cm' mx' c) = 0 \<or> (\<forall>a col. map_of mx' a = Some col \<and> cl_connections col = [c] \<longrightarrow>
      part (cl_target col) \<in> {rp_mMinVolume (vw_points W a), rp_mMaxVolume (vw_points W a)})"
    if "settled part W cm' (dom (map_of mx)) mx' c" for part
    using that dom unfolding settled_def by blast
  from this [OF sv(1)] this [OF sv(2)] show ?thesis
    unfolding getVolumeDiff_volume [OF adj] getVolumeDiff_offset [OF adj] right_minus_eq by blast
qed


section \<open>Witnesses\<close>

text \<open>Two sources share a sink; the first connection is to be lowered by 5 dB.\<close>

definition demo_world :: volume_world where
  "demo_world = \<lparr>vw_points = demo_points, vw_classLimits = (\<lambda>_. []), vw_conns = (\<lambda>a. demo_connection a CS_CONNECTED),
     vw_list = [1, 3], vw_getState = (\<lambda>_. CS_CONNECTED)\<rparr>"

definition demo_rows :: connection_map where
  "demo_rows = [(1, \<lparr>co_actual = \<lparr>vi_muteState = MS_UNMUTED, vi_volume = - 300, vi_offset = 0\<rparr>,
     co_target = \<lparr>vi_muteState = MS_UNMUTED, vi_volume = - 350, vi_offset = 0\<rparr>, co_relative = 0, co_adjustable = True\<rparr>)]"

definition demo_tables :: "connection_map \<times> matrix" where
  "demo_tables = the (setupVolumeMatrix 4 demo_world [CS_CONNECTED] (demo_rows, []))"

definition demo_balanced :: "connection_map \<times> matrix" where
  "demo_balanced = calculateElementVolumes demo_world SD_MAINSINK_TO_MAINSOURCE demo_tables"

lemma demo_hyps:
  "om_ok demo_rows" "\<forall>c\<in>set (vw_list demo_world). complete_route (vw_conns demo_world c)"
  "length demo_rows + length (vw_list demo_world) < 4" "ranges_ok demo_world"
  by (simp_all add: demo_rows_def demo_world_def demo_connection_def om_ok_def ranges_ok_def in_range_def demo_points_def)

lemma demo_setup: "setupVolumeMatrix 4 demo_world [CS_CONNECTED] (demo_rows, []) = Some demo_tables"
  using setup_result [OF demo_hyps(1-3), of "[CS_CONNECTED]"] by (auto simp: demo_tables_def)

theorem setupVolumeMatrix_tables_witness:
  "\<exists>cm' mx. setupVolumeMatrix 4 demo_world [CS_CONNECTED] (demo_rows, []) = Some (cm', mx) \<and>
     map_of cm' 1 = map_of demo_rows 1 \<and> (\<exists>col. map_of mx 2 = Some col \<and> 1 \<in> set (cl_connections col))"
proof -
  have e: "2 \<in> set (change_elements demo_world 1)" "map_of demo_rows 1 \<noteq> None" by code_simp+
  then obtain i where "map_of demo_rows 1 = Some i" by blast
  with setupVolumeMatrix_tables [OF demo_hyps(1-3), of "[CS_CONNECTED]"] e show ?thesis by metis
qed

theorem balance_reaches_target_witness:
  "vi_volume (connection_target (fst demo_balanced) 1) = sum_over vi_volume 1 (snd demo_balanced)
   \<and> sum_over vi_volume 1 (snd demo_balanced) = - 350"
proof -
  obtain cm1 mx1 where t: "demo_tables = (cm1, mx1)" by fastforce
  obtain cm2 mx2 where b: "demo_balanced = (cm2, mx2)" by fastforce
  have inv: "rows_inv demo_world demo_rows cm1" "matrix_inv demo_world cm1 mx1"
    using setup_result [OF demo_hyps(1-3), of "[CS_CONNECTED]"] demo_setup [unfolded t] by auto
  have "connection_adjustable (fst demo_tables) 1" by code_simp
  then have adj: "connection_adjustable cm1 1" unfolding t fst_conv .
  have ok: "om_ok cm1" using inv(1) by (simp add: rows_inv_def)
  have "calculateElementVolumes demo_world SD_MAINSINK_TO_MAINSOURCE (cm1, mx1) = (cm2, mx2)"
    using b t by (simp add: demo_balanced_def)
  from balance_reaches_target [OF ready_of_inv [OF inv(2) demo_hyps(4)] ok this adj]
  have "vi_volume (connection_target cm2 1) = sum_over vi_volume 1 mx2 \<or>
      (\<forall>a col. map_of mx2 a = Some col \<and> cl_connections col = [1] \<longrightarrow>
         vi_volume (cl_target col) \<in> {rp_mMinVolume (vw_points demo_world a), rp_mMaxVolume (vw_points demo_world a)})"
    by blast
  moreover have "case map_of (snd demo_balanced) 1 of None \<Rightarrow> False | Some col \<Rightarrow> cl_connections col = [1] \<and>
      vi_volume (cl_target col) \<notin> {rp_mMinVolume (vw_points demo_world 1), rp_mMaxVolume (vw_points demo_world 1)}"
    by code_simp
  ultimately have "vi_volume (connection_target cm2 1) = sum_over vi_volume 1 mx2"
    unfolding b snd_conv by (auto split: option.splits)
  moreover have "sum_over vi_volume 1 (snd demo_balanced) = - 350" by code_simp
  ultimately show ?thesis unfolding b by simp
qed


end
