(* ===== verification/Volume_Actions.thy ===== *)
theory Volume_Actions
  imports Volume_Core Action_Command
begin

text \<open>
  The actions on top of the volume tables: \<open>CAmActionSetVolume\<close>, \<open>CAmActionLimit\<close> and
  \<open>CAmActionMute\<close>, each up to the list of element requests it creates, and the leaf action
  \<open>CAmActionSetElementVolume\<close> that sends one of them to the routing side, as an instance of the
  leaf action framework.
\<close>

section \<open>What the actions share\<close>

text \<open>Names are found by the factories: sinks, sources and main connections by address.\<close>

record finders =
  fi_sink :: "string \<Rightarrow> nat option"
  fi_source :: "string \<Rightarrow> nat option"
  fi_connection :: "string \<Rightarrow> nat option"
  fi_class :: "string \<Rightarrow> string option"

text \<open>
  \<open>_isLowLevelRequest\<close>: \<open>None\<close> for a request that is not a direct one, otherwise the element, null
  when it is not found; a problem is only logged.
\<close>

definition isLowLevelRequest :: "finders \<Rightarrow> selection \<Rightarrow> nat option option" where
  "isLowLevelRequest F p =
     (if sel_connection p \<noteq> None \<or> sel_class p \<noteq> None \<or> (sel_source p \<noteq> None) = (sel_sink p \<noteq> None) then None
      else (case sel_source p of
          Some nm \<Rightarrow> Some (fi_source F nm)
        | None \<Rightarrow> (case sel_sink p of Some nm \<Rightarrow> Some (fi_sink F nm) | None \<Rightarrow> Some None)))"

text \<open>\<open>_createActionSetElementVolume\<close> for every column: one request per element that is to change.\<close>

definition element_requests :: "matrix \<Rightarrow> (nat \<times> VolumeInfo_t) list" where
  "element_requests mx = map (\<lambda>(a, col). (a, cl_target col)) (filter (\<lambda>(a, col). cl_target col \<noteq> cl_actual col) mx)"

definition column_of :: "nat \<Rightarrow> matrix \<Rightarrow> MatrixColumn_t" where
  "column_of a mx = (case map_of mx a of None \<Rightarrow> cl_default | Some c \<Rightarrow> c)"

section \<open>Setting a volume\<close>

record volume_params =
  vp_mainVolume :: "am_mainVolume_t option"
  vp_mainVolumeStep :: "am_mainVolume_t option"
  vp_volume :: "am_volume_t option"
  vp_volumeStep :: "am_volume_t option"

datatype volume_target = VT_Point nat | VT_Connection nat

text \<open>
  \<open>mainSink\<close> is the sink of a main connection, null if it is not found; \<open>toVolume\<close> converts the
  user scale of a sink. \<open>None\<close>: a null sink is dereferenced.
\<close>

definition getCurrentVolume :: "volume_world \<Rightarrow> volume_target \<Rightarrow> am_volume_t" where
  "getCurrentVolume W t = (case t of VT_Point a \<Rightarrow> rp_mVolume (vw_points W a) | VT_Connection c \<Rightarrow> mc_getVolume (vw_points W) (vw_conns W c))"

definition getRequestedVolume :: "volume_world \<Rightarrow> (nat \<Rightarrow> nat option) \<Rightarrow> (nat \<Rightarrow> am_mainVolume_t \<Rightarrow> am_volume_t)
    \<Rightarrow> volume_params \<Rightarrow> volume_target \<Rightarrow> am_volume_t option" where
  "getRequestedVolume W mainSink toVolume p t =
     (let isSource = (case t of VT_Point a \<Rightarrow> rp_mType (vw_points W a) = ET_SOURCE | VT_Connection c \<Rightarrow> False);
          pSink = (case t of VT_Point a \<Rightarrow> (if isSource then None else Some a) | VT_Connection c \<Rightarrow> mainSink c);
          currentMain = (case t of VT_Point a \<Rightarrow> rp_mainVolume (vw_points W a) | VT_Connection c \<Rightarrow> mc_mMainVolume (vw_conns W c))
      in if isSource \<and> (vp_mainVolume p \<noteq> None \<or> vp_mainVolumeStep p \<noteq> None) then Some AM_MUTE
         else (case vp_mainVolume p of
             Some v \<Rightarrow> map_option (\<lambda>s. toVolume s v) pSink
           | None \<Rightarrow> (case vp_mainVolumeStep p of
             Some v \<Rightarrow> map_option (\<lambda>s. toVolume s (currentMain + v)) pSink
           | None \<Rightarrow> (case vp_volume p of
             Some v \<Rightarrow> Some v
           | None \<Rightarrow> (case vp_volumeStep p of
             Some v \<Rightarrow> Some (v + getCurrentVolume W t)
           | None \<Rightarrow> Some (getCurrentVolume W t))))))"

definition compensateMainVolumeChange :: "ConnectionInfo_t \<Rightarrow> ConnectionInfo_t" where
  "compensateMainVolumeChange i =
     (let volumeDiff = vi_volume (co_target i) - vi_volume (co_actual i);
          offsetDiff = vi_offset (co_target i) - vi_offset (co_actual i)
      in if volumeDiff \<noteq> 0 \<and> vi_offset (co_target i) <s AM_VOLUME_NO_LIMIT then
           (let offsetDiff' = offsetDiff - volumeDiff
            in i\<lparr>co_target := (co_target i)\<lparr>vi_offset :=
                 word_of_int (min (sint AM_VOLUME_NO_LIMIT) (sint (vi_offset (co_target i)) + sint offsetDiff'))\<rparr>\<rparr>)
         else i)"

definition set_requested :: "nat \<Rightarrow> volume_params \<Rightarrow> am_volume_t \<Rightarrow> ConnectionInfo_t \<Rightarrow> ConnectionInfo_t" where
  "set_requested rows p requested i =
     (let i1 = (if rows = 1 \<or> requested <s vi_offset (co_target i)
                then i\<lparr>co_target := (co_target i)\<lparr>vi_volume := requested\<rparr>\<rparr> else i)
      in if vp_mainVolume p \<noteq> None \<or> vp_mainVolumeStep p \<noteq> None then compensateMainVolumeChange i1 else i1)"

fun request_rows :: "volume_world \<Rightarrow> (nat \<Rightarrow> nat option) \<Rightarrow> (nat \<Rightarrow> am_mainVolume_t \<Rightarrow> am_volume_t)
    \<Rightarrow> volume_params \<Rightarrow> nat \<Rightarrow> connection_map \<Rightarrow> connection_map option" where
  "request_rows W mainSink toVolume p rows [] = Some []"
| "request_rows W mainSink toVolume p rows ((c, i) # cm) =
     (case getRequestedVolume W mainSink toVolume p (VT_Connection c) of
        None \<Rightarrow> None
      | Some v \<Rightarrow> map_option (\<lambda>cm'. (c, set_requested rows p v i) # cm') (request_rows W mainSink toVolume p rows cm))"

definition setVolume_balanced :: "nat \<Rightarrow> volume_world \<Rightarrow> (nat \<Rightarrow> nat option) \<Rightarrow> (nat \<Rightarrow> am_mainVolume_t \<Rightarrow> am_volume_t)
    \<Rightarrow> volume_params \<Rightarrow> connection_map \<Rightarrow> (connection_map \<times> matrix) option" where
  "setVolume_balanced fuel W mainSink toVolume p cm =
     (case request_rows W mainSink toVolume p (length cm) cm of
        None \<Rightarrow> None
      | Some cm' \<Rightarrow> map_option (calculateElementVolumes W SD_MAINSINK_TO_MAINSOURCE)
                      (setupVolumeMatrix fuel W [CS_CONNECTED] (cm', [])))"

definition setVolume_direct :: "volume_world \<Rightarrow> (nat \<Rightarrow> nat option) \<Rightarrow> (nat \<Rightarrow> am_mainVolume_t \<Rightarrow> am_volume_t)
    \<Rightarrow> volume_params \<Rightarrow> nat option \<Rightarrow> connection_map \<times> matrix \<Rightarrow> (connection_map \<times> matrix) option" where
  "setVolume_direct W mainSink toVolume p pElement s =
     (case (pElement, s) of
        (None, _) \<Rightarrow> Some s
      | (Some a, (cm, mx)) \<Rightarrow>
          if rp_getVolumeSupport (vw_points W a) then
            (let pt = vw_points W a; col = getElementVolumes pt (column_of a mx)
             in case getRequestedVolume W mainSink toVolume p (VT_Point a) of
                  None \<Rightarrow> None
                | Some requested \<Rightarrow>
                    (let requested' = (if rp_mMaxVolume pt <s requested \<or> requested <s rp_mMinVolume pt
                                       then smax (smin requested (rp_mMaxVolume pt)) (rp_mMinVolume pt) else requested);
                         diff = requested' - vi_volume (cl_actual col);
                         col' = col\<lparr>cl_target := (cl_target col)\<lparr>vi_volume := vi_volume (cl_target col) + diff\<rparr>\<rparr>
                     in Some (foldl (\<lambda>cm c. case (case map_of cm c of None \<Rightarrow> co_default | Some i \<Rightarrow> i) of i \<Rightarrow>
                                om_insert c (i\<lparr>co_target := (co_target i)\<lparr>vi_volume := vi_volume (co_target i) + diff\<rparr>\<rparr>) cm)
                                cm (cl_connections col'),
                              om_insert a col' mx)))
          else Some s)"

definition setVolume_execute :: "nat \<Rightarrow> volume_world \<Rightarrow> finders \<Rightarrow> (nat \<Rightarrow> nat option) \<Rightarrow> (nat \<Rightarrow> am_mainVolume_t \<Rightarrow> am_volume_t)
    \<Rightarrow> selection \<Rightarrow> volume_params \<Rightarrow> (connection_map \<times> matrix) option" where
  "setVolume_execute fuel W F mainSink toVolume sel p =
     (case setupConnectionMap W (fi_connection F) sel [] of
        None \<Rightarrow> None
      | Some cm \<Rightarrow>
          (let internal = (vp_volume p \<noteq> None \<or> vp_volumeStep p \<noteq> None) \<and> \<not> (vp_mainVolume p \<noteq> None \<or> vp_mainVolumeStep p \<noteq> None)
           in case (if internal \<or> cm = [] then isLowLevelRequest F sel else None) of
                Some pDirect \<Rightarrow> setVolume_direct W mainSink toVolume p pDirect (cm, [])
              | None \<Rightarrow> setVolume_balanced fuel W mainSink toVolume p cm))"

section \<open>Limiting and muting\<close>

text \<open>An element with limits: a class, a sink or a source. The world seen as a store of limits.\<close>

datatype limitable = LI_Class string | LI_Point nat

definition limits_of :: "volume_world \<Rightarrow> limitable limit_store" where
  "limits_of W i = (case i of LI_Class nm \<Rightarrow> vw_classLimits W nm | LI_Point a \<Rightarrow> rp_limits (vw_points W a))"

definition with_limits :: "volume_world \<Rightarrow> limitable limit_store \<Rightarrow> volume_world" where
  "with_limits W st = W\<lparr>vw_classLimits := (\<lambda>nm. st (LI_Class nm)),
     vw_points := (\<lambda>a. vw_points W a\<lparr>rp_limits := st (LI_Point a)\<rparr>)\<rparr>"

definition classByConnection :: "volume_world \<Rightarrow> finders \<Rightarrow> string \<Rightarrow> limitable option" where
  "classByConnection W F nm =
     (case fi_connection F nm of None \<Rightarrow> None
      | Some c \<Rightarrow> map_option LI_Class (fi_class F (mc_getClassName (vw_conns W c))))"

record limit_params =
  lp_limitState :: "gc_LimitState_e option"
  lp_volume :: "am_volume_t option"
  lp_volumeStep :: "am_volume_t option"
  lp_pattern :: "32 word option"

definition pattern_or_default :: "32 word option \<Rightarrow> 32 word" where
  "pattern_or_default p = (case p of None \<Rightarrow> DEFAULT_LIMIT_PATTERN | Some v \<Rightarrow> v)"

text \<open>
  \<open>_applyLimit\<close> in the world: the limits change, and when a limit was set the rows of the addressed
  connections are computed anew. An early return leaves the rows alone.
\<close>

definition limit_target_of :: "volume_world \<Rightarrow> finders \<Rightarrow> selection \<Rightarrow> limitable option" where
  "limit_target_of W F sel =
     limit_target (map_option LI_Class (fi_class F (param_or_empty (sel_class sel))))
       (case sel_connection sel of None \<Rightarrow> None | Some nm \<Rightarrow> classByConnection W F nm)
       (map_option LI_Point (fi_source F (param_or_empty (sel_source sel))))
       (map_option LI_Point (fi_sink F (param_or_empty (sel_sink sel))))"

definition limit_apply :: "finders \<Rightarrow> selection \<Rightarrow> limit_params
    \<Rightarrow> limitable undo_item list \<times> volume_world \<times> connection_map
    \<Rightarrow> limitable undo_item list \<times> volume_world \<times> connection_map" where
  "limit_apply F sel p s =
     (case s of (undos, W, cm) \<Rightarrow>
        case (limit_request (lp_limitState p) (lp_volume p) (lp_volumeStep p), limit_target_of W F sel) of
          (Some (st, lv), Some i) \<Rightarrow>
            (case limit_apply_to (pattern_or_default (lp_pattern p)) st lv i (undos, limits_of W) of
               (undos', store) \<Rightarrow>
                 (let W' = with_limits W store
                  in (undos', W', map (\<lambda>(c, _). (c, getConnectionVolumes W' c True)) cm)))
        | _ \<Rightarrow> s)"

definition limit_column :: "gc_LimitVolume_s list \<Rightarrow> MatrixColumn_t \<Rightarrow> MatrixColumn_t" where
  "limit_column limits col =
     foldl (\<lambda>col lim.
         if limitType lim = LT_ABSOLUTE \<and> limitVolume lim = AM_MUTE
         then col\<lparr>cl_target := (cl_target col)\<lparr>vi_muteState := MS_MUTED\<rparr>\<rparr>
         else if limitType lim = LT_ABSOLUTE \<and> limitVolume lim <s vi_offset (cl_target col)
         then col\<lparr>cl_target := (cl_target col)\<lparr>vi_offset := limitVolume lim\<rparr>\<rparr>
         else col)
       (col\<lparr>cl_target := (cl_target col)\<lparr>vi_muteState := MS_UNMUTED, vi_offset := AM_VOLUME_NO_LIMIT\<rparr>\<rparr>) limits"

definition limit_direct :: "volume_world \<Rightarrow> nat option \<Rightarrow> connection_map \<times> matrix \<Rightarrow> connection_map \<times> matrix" where
  "limit_direct W pElement s =
     (case s of (cm, mx) \<Rightarrow>
        let cm' = resolveRelativeLimits cm
        in case pElement of
             None \<Rightarrow> (cm', mx)
           | Some a \<Rightarrow>
               (let col = (case map_of mx a of None \<Rightarrow> getElementVolumes (vw_points W a) cl_default | Some c \<Rightarrow> c)
                in (cm', om_insert a (limit_column (getLimits (rp_limits (vw_points W a))) col) mx)))"

definition limit_execute :: "nat \<Rightarrow> finders \<Rightarrow> selection \<Rightarrow> limit_params \<Rightarrow> limitable undo_item list \<times> volume_world
    \<Rightarrow> (limitable undo_item list \<times> volume_world \<times> connection_map \<times> matrix) option" where
  "limit_execute fuel F sel p s =
     (case s of (undos, W) \<Rightarrow>
        case setupConnectionMap W (fi_connection F) sel [] of
          None \<Rightarrow> None
        | Some cm \<Rightarrow>
            (case limit_apply F sel p (undos, W, cm) of (undos', W', cm1) \<Rightarrow>
               case setupVolumeMatrix fuel W' [CS_CONNECTED, CS_UNKNOWN] (cm1, []) of
                 None \<Rightarrow> None
               | Some tables \<Rightarrow>
                   (case (case isLowLevelRequest F sel of
                       Some pDirect \<Rightarrow> limit_direct W' pDirect tables
                     | None \<Rightarrow> calculateElementVolumes W' SD_MAINSOURCE_TO_MAINSINK tables) of
                      (cm2, mx2) \<Rightarrow> Some (undos', W', cm2, mx2))))"

text \<open>Muting. The class of each addressed connection is limited unless the request names one itself.\<close>

definition mute_targets :: "volume_world \<Rightarrow> finders \<Rightarrow> selection \<Rightarrow> connection_map \<Rightarrow> limitable option list" where
  "mute_targets W F sel cm =
     (case (sel_class sel, sel_connection sel) of
        (Some className, _) \<Rightarrow> [map_option LI_Class (fi_class F className)]
      | (None, Some connectionName) \<Rightarrow> [classByConnection W F connectionName]
      | (None, None) \<Rightarrow> map (\<lambda>(c, _). map_option LI_Class (fi_class F (mc_getClassName (vw_conns W c)))) cm)"

definition mute_limits :: "32 word \<Rightarrow> am_MuteState_e \<Rightarrow> limitable option list \<Rightarrow> limitable undo_item list \<times> volume_world
    \<Rightarrow> limitable undo_item list \<times> volume_world" where
  "mute_limits pattern requested targets s =
     (case foldl (\<lambda>us t. mute_updateLimitState pattern requested t us) (fst s, limits_of (snd s)) targets of
        (undos', store) \<Rightarrow> (undos', with_limits (snd s) store))"

definition mute_execute :: "nat \<Rightarrow> finders \<Rightarrow> selection \<Rightarrow> am_MuteState_e option \<Rightarrow> 32 word option
    \<Rightarrow> limitable undo_item list \<times> volume_world
    \<Rightarrow> (am_Error_e \<times> limitable undo_item list \<times> volume_world \<times> connection_map \<times> matrix) option" where
  "mute_execute fuel F sel stateParam patternParam s =
     (case s of (undos, W) \<Rightarrow>
        case stateParam of
          None \<Rightarrow> Some (E_OK, undos, W, [], [])
        | Some requested \<Rightarrow>
            (case setupConnectionMap W (fi_connection F) sel [] of
               None \<Rightarrow> None
             | Some cm \<Rightarrow>
                 (case setupVolumeMatrix fuel W [CS_CONNECTED] (cm, []) of
                    None \<Rightarrow> None
                  | Some (cm1, mx1) \<Rightarrow>
                      (case isLowLevelRequest F sel of
                         Some None \<Rightarrow> Some (E_NOT_POSSIBLE, undos, W, cm1, mx1)
                       | Some (Some a) \<Rightarrow>
                           (case mute_limits (pattern_or_default patternParam) requested [Some (LI_Point a)] (undos, W) of
                              (undos', W') \<Rightarrow>
                                (let col = (case map_of mx1 a of None \<Rightarrow> getElementVolumes (vw_points W a) cl_default | Some c \<Rightarrow> c)
                                 in Some (E_OK, undos', W', cm1,
                                      om_insert a (col\<lparr>cl_target := (cl_target col)\<lparr>vi_muteState := requested\<rparr>\<rparr>) mx1)))
                       | None \<Rightarrow>
                           (case mute_limits (pattern_or_default patternParam) requested (mute_targets W F sel cm1) (undos, W) of
                              (undos', W') \<Rightarrow>
                                (case calculateElementVolumes W' SD_MAINSINK_TO_MAINSOURCE
                                        (map (\<lambda>(c, i). (c, i\<lparr>co_target := (co_target i)\<lparr>vi_muteState := requested\<rparr>\<rparr>)) cm1, mx1) of
                                   (cm2, mx2) \<Rightarrow> Some (E_OK, undos', W', cm2, mx2)))))))"

section \<open>The request to one element\<close>

text \<open>
  \<open>CAmActionSetElementVolume\<close>. The elements, the handle store and the daemon with the routing side
  are its environment; observers in the handle store are the addresses of the leaf actions. The
  routing side is reached through the functions of \<open>daemon\<close>.
\<close>

record 'w volume_env =
  en_points :: points
  en_handles :: "nat handle_store"
  en_daemon :: 'w

record 'w daemon =
  dm_setVolume :: "gc_Element_e \<Rightarrow> am_ID_t \<Rightarrow> am_volume_t \<Rightarrow> 16 word \<Rightarrow> 16 word \<Rightarrow> am_Handle_s \<Rightarrow> 'w \<Rightarrow> am_Error_e \<times> am_Handle_s \<times> 'w"
  dm_changeSinkMuteStateDB :: "am_MuteState_e \<Rightarrow> am_ID_t \<Rightarrow> 'w \<Rightarrow> am_Error_e \<times> 'w"
  dm_clock :: "'w \<Rightarrow> timespec \<times> 'w"
  dm_routingVolume :: "route_point \<Rightarrow> am_volume_t \<Rightarrow> am_volume_t"
  dm_present :: bool

record set_element =
  se_mHandle :: am_Handle_s
  se_mpElement :: "nat option"
  se_mRequested :: VolumeInfo_t
  se_mRecent :: VolumeInfo_t
  se_mRampTime :: "16 word"
  se_mRampType :: "16 word"

definition se_new :: "nat option \<Rightarrow> VolumeInfo_t \<Rightarrow> 16 word \<Rightarrow> 16 word \<Rightarrow> set_element" where
  "se_new pElement settings rampTime rampType = \<lparr>se_mHandle = \<lparr>handleType = H_UNKNOWN, handle = 0\<rparr>, se_mpElement = pElement,
     se_mRequested = settings, se_mRecent = nullDiff, se_mRampTime = rampTime, se_mRampType = rampType\<rparr>"

definition se_leaf :: "nat \<Rightarrow> set_element \<Rightarrow> set_element leaf" where
  "se_leaf this p = (leaf_new this ''CAmActionSetElementVolume'' p)\<lparr>lf_mUndoRequired := True\<rparr>"

definition sent_volume :: "route_point \<Rightarrow> VolumeInfo_t \<Rightarrow> am_volume_t" where
  "sent_volume p request =
     (if vi_muteState request = MS_MUTED then AM_MUTE
      else smin (rp_mMaxVolume p) (smax (vi_volume request + vi_offset request) (rp_mMinVolume p)))"

definition setRoutingSideVolume :: "'w daemon \<Rightarrow> nat \<Rightarrow> VolumeInfo_t \<Rightarrow> set_element \<Rightarrow> 'w volume_env \<Rightarrow> int \<times> set_element \<times> 'w volume_env" where
  "setRoutingSideVolume D this request p e =
     (case se_mpElement p of
        None \<Rightarrow> (error_code E_NOT_POSSIBLE, p, e)
      | Some a \<Rightarrow>
          if \<not> dm_present D then (error_code E_NOT_POSSIBLE, p, e)
          else (let pt = en_points e a
                in if rp_mType pt = ET_SINK \<or> rp_mType pt = ET_SOURCE then
                     (case dm_setVolume D (rp_mType pt) (rp_mID pt) (dm_routingVolume D pt (sent_volume pt request))
                             (se_mRampType p) (se_mRampTime p) (se_mHandle p) (en_daemon e) of
                        (result, h, w) \<Rightarrow>
                          (let p' = p\<lparr>se_mHandle := h\<rparr>; e' = e\<lparr>en_daemon := w\<rparr>
                           in if result = E_OK
                              then (E_WAIT_FOR_CHILD_COMPLETION, p', e'\<lparr>en_handles := hs_saveHandle h (Some this) (en_handles e')\<rparr>)
                              else (error_code result, p', e')))
                   else (error_code E_UNKNOWN, p, e)))"

definition se_execute :: "'w daemon \<Rightarrow> set_element leaf \<Rightarrow> 'w volume_env \<Rightarrow> int \<times> set_element \<times> 'w volume_env" where
  "se_execute D l e =
     (let p = lf_priv l
      in case se_mpElement p of
           None \<Rightarrow> (0, p, e)
         | Some a \<Rightarrow>
             if \<not> rp_getVolumeSupport (en_points e a) then (0, p, e)
             else (let p1 = p\<lparr>se_mRecent := volumes_of (en_points e a)\<rparr>
                   in if se_mRecent p1 \<noteq> se_mRequested p1 then setRoutingSideVolume D (lf_this l) (se_mRequested p1) p1 e
                      else (0, p1, e)))"

definition take_over :: "'w daemon \<Rightarrow> VolumeInfo_t \<Rightarrow> nat \<Rightarrow> 'w volume_env \<Rightarrow> 'w volume_env" where
  "take_over D v a e =
     (case rp_setMuteState (dm_changeSinkMuteStateDB D) (vi_muteState v) (en_points e a) (en_daemon e) of
        (pt, w) \<Rightarrow> e\<lparr>en_points := (en_points e)(a := rp_setOffsetVolume (vi_offset v) (rp_setVolume (vi_volume v) pt)),
                       en_daemon := w\<rparr>)"

definition se_update :: "'w daemon \<Rightarrow> set_element leaf \<Rightarrow> int \<Rightarrow> 'w volume_env \<Rightarrow> set_element \<times> 'w volume_env" where
  "se_update D l result e =
     (let p = lf_priv l; e1 = e\<lparr>en_handles := hs_clearHandle (se_mHandle p) (en_handles e)\<rparr>
      in case se_mpElement p of
           None \<Rightarrow> (p, e1)
         | Some a \<Rightarrow>
             if \<not> rp_getVolumeSupport (en_points e1 a) then (p, e1)
             else if result = 0 \<and> lf_mStatus l = AS_COMPLETED then (p, take_over D (se_mRequested p) a e1)
             else if lf_mStatus l = AS_UNDO_COMPLETE then (p, take_over D (se_mRecent p) a e1)
             else (p, e1))"

text \<open>The undo of an action on a null element, which the code does not survive, is not called.\<close>

definition se_undo :: "'w daemon \<Rightarrow> set_element leaf \<Rightarrow> 'w volume_env \<Rightarrow> int \<times> set_element \<times> 'w volume_env" where
  "se_undo D l e = setRoutingSideVolume D (lf_this l) (se_mRecent (lf_priv l)) (lf_priv l) e"

definition se_sys :: "'w daemon \<Rightarrow> (nat \<Rightarrow> 32 word \<Rightarrow> timer_handle \<Rightarrow> 't \<Rightarrow> bool \<times> timer_handle \<times> 't)
    \<Rightarrow> (timer_handle \<Rightarrow> 't \<Rightarrow> timer_handle \<times> 't) \<Rightarrow> (set_element, 't, 'w volume_env) leaf_sys" where
  "se_sys D setT remT =
     \<lparr>ls_clock = (\<lambda>e. case dm_clock D (en_daemon e) of (ts, w) \<Rightarrow> (ts, e\<lparr>en_daemon := w\<rparr>)),
      ls_setTimer = setT, ls_removeTimer = remT,
      ls_execute = se_execute D, ls_undo = se_undo D, ls_update = se_update D,
      ls_timeout = (\<lambda>l e. (lf_priv l, e)), ls_cleanup = (\<lambda>l e. (lf_priv l, e))\<rparr>"

section \<open>Lemmas\<close>

definition accepts :: "'w daemon \<Rightarrow> bool" where
  "accepts D \<longleftrightarrow> dm_present D \<and> (\<forall>ty i v rt ty' h w. fst (dm_setVolume D ty i v rt ty' h w) = E_OK)"

definition volume_point :: "route_point \<Rightarrow> bool" where
  "volume_point p \<longleftrightarrow> rp_getVolumeSupport p \<and> (rp_mType p = ET_SINK \<or> rp_mType p = ET_SOURCE)"

lemma send_accepted:
  assumes "accepts D" "se_mpElement p = Some a" "volume_point (en_points e a)"
  shows "\<exists>p' e'. setRoutingSideVolume D this v p e = (- 1, p', e') \<and> se_mpElement p' = Some a \<and>
    se_mRequested p' = se_mRequested p \<and> se_mRecent p' = se_mRecent p \<and> en_points e' = en_points e \<and>
    en_handles e' (uHandle (se_mHandle p')) = Some (Some this)"
proof -
  let ?pt = "en_points e a"
  obtain h w where "dm_setVolume D (rp_mType ?pt) (rp_mID ?pt) (dm_routingVolume D ?pt (sent_volume ?pt v))
      (se_mRampType p) (se_mRampTime p) (se_mHandle p) (en_daemon e) = (E_OK, h, w)"
    using assms(1) unfolding accepts_def by (metis prod.collapse)
  then show ?thesis
    using assms by (auto simp: setRoutingSideVolume_def accepts_def volume_point_def Let_def
        E_WAIT_FOR_CHILD_COMPLETION_def hs_saveHandle_def)
qed

lemma take_over_points:
  "en_points (take_over D v a e) = (en_points e)(a := (en_points e a)\<lparr>rp_mMuteState := vi_muteState v,
     rp_mVolume := vi_volume v, rp_mOffsetVolume := vi_offset v\<rparr>)"
  by (auto simp: take_over_def rp_setMuteState_def rp_setVolume_def rp_setOffsetVolume_def Let_def fun_eq_iff split: prod.splits)

lemma volumes_of_set [simp]:
  "volumes_of (p\<lparr>rp_mMuteState := vi_muteState v, rp_mVolume := vi_volume v, rp_mOffsetVolume := vi_offset v\<rparr>) = v"
  by (simp add: volumes_of_def)

lemma set_volumes_back:
  "p\<lparr>rp_mMuteState := m, rp_mVolume := v, rp_mOffsetVolume := f, rp_mMuteState := vi_muteState (volumes_of p),
     rp_mVolume := vi_volume (volumes_of p), rp_mOffsetVolume := vi_offset (volumes_of p)\<rparr> = p"
  by (simp add: volumes_of_def)

lemma se_clock_points [simp]: "en_points (snd (ls_clock (se_sys D sT rT) e)) = en_points e"
  by (simp add: se_sys_def split: prod.split)

text \<open>
  C22: the volume of one element over a request and its undo. Against a routing side that accepts
  requests, the action waits after its start and nothing has changed; the acknowledgement of success
  gives the element the requested volume, offset and mute state; the undo waits again, and its
  acknowledgement, whatever it reports, brings the element back to where it was. No other element
  changes.
\<close>

theorem set_element_volume_undone:
  assumes D: "accepts D" and pt: "volume_point (en_points e a)"
    and p: "se_mpElement p = Some a" "se_mRequested p \<noteq> volumes_of (en_points e a)"
    and x: "leaf_execute (se_sys D sT rT) (se_leaf this p) (t, e) = (l1, (t1, e1), n1)"
    and u: "leaf_update (se_sys D sT rT) 0 l1 (t1, e1) = (l2, (t2, e2), n2)"
    and y: "leaf_undo (se_sys D sT rT) l2 (t2, e2) = (l3, (t3, e3), n3)"
    and v: "leaf_update (se_sys D sT rT) r l3 (t3, e3) = (l4, (t4, e4), n4)"
  shows "lf_mStatus l1 = AS_EXECUTING \<and> en_points e1 = en_points e \<and>
    lf_mStatus l2 = AS_COMPLETED \<and> volumes_of (en_points e2 a) = se_mRequested p \<and>
    lf_mStatus l3 = AS_UNDOING \<and> en_points e3 = en_points e2 \<and>
    lf_mStatus l4 = AS_UNDO_COMPLETE \<and> en_points e4 = en_points e \<and>
    (\<forall>b. b \<noteq> a \<longrightarrow> en_points e2 b = en_points e b)"
proof -
  let ?S = "se_sys D sT rT"
  have ops: "ls_execute ?S = se_execute D" "ls_undo ?S = se_undo D" "ls_update ?S = se_update D" by (simp_all add: se_sys_def)
  have new: "lf_mStatus (se_leaf this p) = AS_NOT_STARTED" "lf_priv (se_leaf this p) = p" "lf_mUndoRequired (se_leaf this p)"
    by (simp_all add: se_leaf_def leaf_new_def)
  let ?p1 = "p\<lparr>se_mRecent := volumes_of (en_points e a)\<rparr>"
  obtain lx err p' e' where 1: "lf_priv lx = p" "se_execute D lx (snd (ls_clock ?S e)) = (err, p', e')"
      "lf_priv l1 = p'" "lf_mUndoRequired l1" "lf_mStatus l1 = (if err \<ge> 0 then AS_COMPLETED else AS_EXECUTING)"
      "e1 = e' \<or> e1 = snd (ls_clock ?S e')"
    using leaf_execute_priv [OF x new(1)] new by (auto simp: ops)
  obtain p'' e'' where s: "setRoutingSideVolume D (lf_this lx) (se_mRequested p) ?p1 (snd (ls_clock ?S e)) = (- 1, p'', e'')"
      "se_mpElement p'' = Some a" "se_mRequested p'' = se_mRequested p" "se_mRecent p'' = volumes_of (en_points e a)"
      "en_points e'' = en_points e"
    using send_accepted [OF D, of ?p1 a "snd (ls_clock ?S e)" "lf_this lx" "se_mRequested p"] p(1) pt by auto
  have e1: "err = - 1" "p' = p''" "e' = e''"
    using 1(1,2) s(1) p pt by (auto simp: se_execute_def volume_point_def Let_def)
  have en1: "en_points e1 = en_points e" using 1(6) e1(3) s(5) by auto
  have l1: "lf_mStatus l1 = AS_EXECUTING" "lf_priv l1 = p''" using 1 e1 by simp_all
  obtain lu where 2: "lf_priv lu = p''" "lf_mStatus lu = AS_COMPLETED" "se_update D lu 0 (snd (ls_clock ?S e1)) = (lf_priv l2, e2)"
      "lf_mUndoRequired l2" "lf_mStatus l2 = AS_COMPLETED"
    using leaf_update_priv [OF u] l1 1(4) by (auto simp: ops)
  have pt1: "rp_getVolumeSupport (en_points e a)" using pt by (simp add: volume_point_def)
  have l2: "lf_priv l2 = p''" and en2: "en_points e2 = (en_points e)(a := (en_points e a)\<lparr>rp_mMuteState := vi_muteState (se_mRequested p),
      rp_mVolume := vi_volume (se_mRequested p), rp_mOffsetVolume := vi_offset (se_mRequested p)\<rparr>)"
    using 2(1-3) s(2,3) pt1 en1 by (auto simp: se_update_def Let_def take_over_points)
  have pt2: "volume_point (en_points e2 a)" using pt by (simp add: en2 volume_point_def rp_getVolumeSupport_def)
  obtain ly erry py ey where 3: "lf_priv ly = p''" "se_undo D ly (snd (ls_clock ?S e2)) = (erry, py, ey)" "lf_priv l3 = py"
      "lf_mStatus l3 = (if erry \<ge> 0 then AS_UNDO_COMPLETE else AS_UNDOING)" "e3 = ey \<or> e3 = snd (ls_clock ?S ey)"
    using leaf_undo_priv [OF y 2(5,4)] l2 by (auto simp: ops)
  obtain p3 e3' where s3: "setRoutingSideVolume D (lf_this ly) (se_mRecent p'') p'' (snd (ls_clock ?S e2)) = (- 1, p3, e3')"
      "se_mpElement p3 = Some a" "se_mRecent p3 = volumes_of (en_points e a)" "en_points e3' = en_points e2"
    using send_accepted [OF D s(2), of "snd (ls_clock ?S e2)" "lf_this ly" "se_mRecent p''"] pt2 s(4) by auto
  have l3: "lf_mStatus l3 = AS_UNDOING" "lf_priv l3 = p3" and en3: "en_points e3 = en_points e2"
    using 3 s3 by (auto simp: se_undo_def)
  obtain lv where 4: "lf_priv lv = p3" "lf_mStatus lv = AS_UNDO_COMPLETE" "se_update D lv r (snd (ls_clock ?S e3)) = (lf_priv l4, e4)"
      "lf_mStatus l4 = AS_UNDO_COMPLETE"
    using leaf_update_priv [OF v] l3 by (auto simp: ops)
  have "rp_getVolumeSupport (en_points e2 a)" using pt2 by (simp add: volume_point_def)
  then have "en_points e4 = (en_points e2)(a := (en_points e2 a)\<lparr>rp_mMuteState := vi_muteState (volumes_of (en_points e a)),
      rp_mVolume := vi_volume (volumes_of (en_points e a)), rp_mOffsetVolume := vi_offset (volumes_of (en_points e a))\<rparr>)"
    using 4(1-3) s3(2,3) en3 by (auto simp: se_update_def Let_def take_over_points)
  then have "en_points e4 = en_points e" by (simp add: en2 set_volumes_back [simplified])
  then show ?thesis using l1 en1 2(5) en2 l3 en3 4(4) by simp
qed

definition demo_daemon :: "nat daemon" where
  "demo_daemon = \<lparr>dm_setVolume = (\<lambda>ty i v rt ty' h w. (E_OK, \<lparr>handleType = H_SETSINKVOLUME, handle = of_nat w\<rparr>, Suc w)),
     dm_changeSinkMuteStateDB = (\<lambda>m i w. (E_OK, w)), dm_clock = (\<lambda>w. (\<lparr>tv_sec = int w, tv_nsec = 0\<rparr>, w)),
     dm_routingVolume = (\<lambda>p v. v), dm_present = True\<rparr>"

theorem set_element_volume_undone_witness:
  "\<exists>l2 t2 e2 l4 t4 e4. volumes_of (en_points e2 (2 :: nat)) = \<lparr>vi_muteState = MS_MUTED, vi_volume = - 70, vi_offset = - 5\<rparr>
     \<and> lf_mStatus (l2 :: set_element leaf) = AS_COMPLETED \<and> lf_mStatus (l4 :: set_element leaf) = AS_UNDO_COMPLETE
     \<and> (t2 :: unit) = t4 \<and> en_points (e4 :: nat volume_env) = demo_points \<and> en_daemon (e2 :: nat volume_env) = 1"
proof -
  let ?S = "se_sys demo_daemon (\<lambda>c ms h (t :: unit). (False, h, t)) (\<lambda>h t. (h, t))"
  let ?p = "se_new (Some 2) \<lparr>vi_muteState = MS_MUTED, vi_volume = - 70, vi_offset = - 5\<rparr> 0 0"
  let ?e = "\<lparr>en_points = demo_points, en_handles = Map.empty, en_daemon = 0\<rparr> :: nat volume_env"
  obtain l1 t1 e1 n1 where x: "leaf_execute ?S (se_leaf 9 ?p) ((), ?e) = (l1, (t1, e1), n1)" by (metis surj_pair)
  obtain l2 t2 e2 n2 where u: "leaf_update ?S 0 l1 (t1, e1) = (l2, (t2, e2), n2)" by (metis surj_pair)
  obtain l3 t3 e3 n3 where y: "leaf_undo ?S l2 (t2, e2) = (l3, (t3, e3), n3)" by (metis surj_pair)
  obtain l4 t4 e4 n4 where v: "leaf_update ?S 4 l3 (t3, e3) = (l4, (t4, e4), n4)" by (metis surj_pair)
  have h: "accepts demo_daemon" "volume_point (en_points ?e 2)" "se_mpElement ?p = Some 2"
      "se_mRequested ?p \<noteq> volumes_of (en_points ?e 2)"
    by (simp_all add: accepts_def demo_daemon_def volume_point_def demo_points_def demo_config_def
        rp_getVolumeSupport_def se_new_def volumes_of_def)
  have "en_daemon e2 = 1"
    using x u by (auto simp: leaf_execute_def leaf_update_def se_sys_def se_execute_def se_update_def Let_def demo_daemon_def
        se_leaf_def se_new_def leaf_new_def demo_points_def demo_config_def rp_getVolumeSupport_def volumes_of_def
        setRoutingSideVolume_def E_WAIT_FOR_CHILD_COMPLETION_def take_over_def rp_setMuteState_def leaf_disarm_def
        hs_saveHandle_def hs_clearHandle_def)
  then show ?thesis
    using set_element_volume_undone [OF h x u y v] by (auto simp: se_new_def)
qed

text \<open>The limits that a mute action sets, over a list of targets.\<close>

definition mute_limit :: gc_LimitVolume_s where
  "mute_limit = \<lparr>limitType = LT_ABSOLUTE, limitVolume = AM_MUTE\<rparr>"

lemma mute_step:
  assumes "\<forall>i. om_ok (st i)" "mute_updateLimitState pattern MS_MUTED t (undos, st) = (undos', st')"
  shows "(\<forall>i. om_ok (st' i)) \<and> (\<forall>i. getLimit pattern (st' i) =
    (if t = Some i then (LS_LIMITED, mute_limit) else getLimit pattern (st i)))"
proof (cases t)
  case None
  then show ?thesis using assms by (simp add: mute_updateLimitState_def)
next
  case (Some x)
  then have "st' = st(x := om_insert pattern mute_limit (st x))"
    using assms(2) by (auto simp: mute_updateLimitState_def limit_apply_to_def setLimitState_def mute_limit_def split: prod.splits)
  then show ?thesis
    using assms(1) Some by (auto simp: getLimit_def om.lookup_ins om_ok_insert)
qed

lemma mute_fold_limits:
  assumes "\<forall>i. om_ok (st i)"
    and "foldl (\<lambda>us t. mute_updateLimitState pattern MS_MUTED t us) (undos, st) targets = (undos', st')"
  shows "getLimit pattern (st' i) = (if Some i \<in> set targets then (LS_LIMITED, mute_limit) else getLimit pattern (st i))"
  using assms
proof (induction targets arbitrary: undos st)
  case (Cons t targets)
  obtain u1 st1 where e: "mute_updateLimitState pattern MS_MUTED t (undos, st) = (u1, st1)" by fastforce
  from mute_step [OF Cons.prems(1) e] Cons.IH [of st1 u1] Cons.prems(2) e show ?case by auto
qed simp

text \<open>
  a mute request for one connection, named by its two ends, also limits the classes of the
  connections that are merely linked to it. After the request every connection that has a row in the
  table, addressed or reached through a shared sink or source, has the mute limit set under the
  pattern at its class; classes of no such connection keep their limit.
\<close>

theorem mute_limits_linked:
  assumes "isLowLevelRequest F sel = None" and "sel_class sel = None" and "sel_connection sel = None"
    and "\<forall>i. om_ok (limits_of W i)"
    and "mute_execute fuel F sel (Some MS_MUTED) pat (undos, W) = Some (err, undos', W', cm, mx)"
  shows "getLimit (pattern_or_default pat) (vw_classLimits W' nm) =
    (if \<exists>c\<in>dom (map_of cm). fi_class F (mc_getClassName (vw_conns W c)) = Some nm
     then (LS_LIMITED, \<lparr>limitType = LT_ABSOLUTE, limitVolume = AM_MUTE\<rparr>)
     else getLimit (pattern_or_default pat) (vw_classLimits W nm))"
proof -
  let ?pat = "pattern_or_default pat"
  obtain cm1 mx1 st where r: "foldl (\<lambda>us t. mute_updateLimitState ?pat MS_MUTED t us) (undos, limits_of W) (mute_targets W F sel cm1) = (undos', st)"
      "W' = with_limits W st"
      "calculateElementVolumes W' SD_MAINSINK_TO_MAINSOURCE
         (map (\<lambda>(c, i). (c, i\<lparr>co_target := (co_target i)\<lparr>vi_muteState := MS_MUTED\<rparr>\<rparr>)) cm1, mx1) = (cm, mx)"
    using assms(1,5) by (auto simp: mute_execute_def mute_limits_def split: option.splits prod.splits)
  have "map fst cm = map fst (map (\<lambda>(c, i). (c, i\<lparr>co_target := (co_target i)\<lparr>vi_muteState := MS_MUTED\<rparr>\<rparr>)) cm1)"
    using r(3) resolve_keys by (auto simp: calculateElementVolumes_def Let_def split: if_splits)
  then have k: "map fst cm = map fst cm1" by (simp add: comp_def split_beta')
  have "Some (LI_Class nm) \<in> set (mute_targets W F sel cm1) \<longleftrightarrow>
      (\<exists>c\<in>set (map fst cm1). fi_class F (mc_getClassName (vw_conns W c)) = Some nm)"
    using assms(2,3) by (auto simp: mute_targets_def image_iff split_beta' eq_commute [of "Some _"])
  then have e: "Some (LI_Class nm) \<in> set (mute_targets W F sel cm1) \<longleftrightarrow>
      (\<exists>c\<in>dom (map_of cm). fi_class F (mc_getClassName (vw_conns W c)) = Some nm)"
    by (simp only: dom_map_of_conv_image_fst set_map [symmetric] k)
  show ?thesis
    unfolding e [symmetric] using mute_fold_limits [OF assms(4) r(1), of "LI_Class nm"]
    by (simp add: r(2) with_limits_def limits_of_def mute_limit_def)
qed

definition demo_classes :: volume_world where
  "demo_classes = demo_world\<lparr>vw_conns := (\<lambda>a. (demo_connection a CS_CONNECTED)\<lparr>mc_mpClassElement := Some (if a = 1 then ''A'' else ''B'')\<rparr>)\<rparr>"

theorem mute_limits_linked_witness:
  "\<exists>undos W' cm mx. mute_execute 4 \<lparr>fi_sink = \<lambda>_. Some 2, fi_source = \<lambda>_. Some 1, fi_connection = \<lambda>_. Some 1, fi_class = Some\<rparr>
       \<lparr>sel_class = None, sel_source = Some ''src'', sel_sink = Some ''snk'', sel_connection = None\<rparr>
       (Some MS_MUTED) (Some 2) ([], demo_classes) = Some (E_OK, undos, W', cm, mx) \<and>
     getLimit 2 (vw_classLimits W' ''B'') = (LS_LIMITED, \<lparr>limitType = LT_ABSOLUTE, limitVolume = AM_MUTE\<rparr>) \<and>
     getLimit 2 (vw_classLimits W' ''C'') = getLimit 2 []"
proof -
  let ?F = "\<lparr>fi_sink = \<lambda>_. Some 2, fi_source = \<lambda>_. Some 1, fi_connection = \<lambda>_. Some 1, fi_class = Some\<rparr> :: finders"
  let ?sel = "\<lparr>sel_class = None, sel_source = Some ''src'', sel_sink = Some ''snk'', sel_connection = None\<rparr>"
  have "case mute_execute 4 ?F ?sel (Some MS_MUTED) (Some 2) ([], demo_classes) of None \<Rightarrow> False
     | Some (err, undos, W', cm, mx) \<Rightarrow> err = E_OK \<and> map fst cm = [1, 3]"
    by code_simp
  then obtain undos W' cm mx where r: "mute_execute 4 ?F ?sel (Some MS_MUTED) (Some 2) ([], demo_classes) = Some (E_OK, undos, W', cm, mx)"
      "map fst cm = [1, 3]" by (auto split: option.splits)
  have d: "dom (map_of cm) = {1, 3}" using arg_cong [OF r(2), of set] by (simp add: dom_map_of_conv_image_fst)
  have "\<forall>i. om_ok (limits_of demo_classes i)"
    by (simp add: limits_of_def demo_classes_def demo_world_def demo_points_def split: limitable.split)
  note use = mute_limits_linked [OF _ _ _ this r(1), simplified d]
  show ?thesis
    using use [of "''B''"] use [of "''C''"] r(1)
    by (auto simp: isLowLevelRequest_def pattern_or_default_def demo_classes_def demo_world_def mc_getClassName_def)
qed

end
