(* ===== verification/Policy_Parser.thy ===== *)
theory Policy_Parser
  imports Gc_Types "HOL-Library.Monad_Syntax"
begin

text \<open>
  The expression language of policy conditions (\<open>CAmXmlConfigParser.cpp\<close>, \<open>CAmProcessNode\<close> and
  \<open>parsePolicyFunction\<close>) and the conversion of symbolic constants (\<open>CAmXmlParserCommon.cpp\<close>). The
  parser walks over a C string by position. Reading the terminator is reading a zero character,
  reading behind it has no defined result: \<open>None\<close>. Results are \<open>Inl\<close> the error or \<open>Inr\<close> the value.
\<close>

section \<open>C strings\<close>

definition NUL :: char where
  "NUL = CHR 0x00"

definition char_at :: "string \<Rightarrow> nat \<Rightarrow> char option" where
  "char_at s i = (if i < length s then Some (s ! i) else if i = length s then Some NUL else None)"

text \<open>\<open>to_string\<close> of a number or of an enumerator.\<close>

fun nat_dec :: "nat \<Rightarrow> string" where
  "nat_dec n = (if n < 10 then [char_of (48 + n)] else nat_dec (n div 10) @ [char_of (48 + n mod 10)])"

declare nat_dec.simps [simp del]

definition dec :: "int \<Rightarrow> string" where
  "dec i = (if i < 0 then CHR ''-'' # nat_dec (nat (- i)) else nat_dec (nat i))"

definition isdigit :: "char \<Rightarrow> bool" where
  "isdigit c \<longleftrightarrow> 48 \<le> (of_char c :: nat) \<and> (of_char c :: nat) \<le> 57"

definition isspace :: "char \<Rightarrow> bool" where
  "isspace c \<longleftrightarrow> c = CHR '' '' \<or> (9 \<le> (of_char c :: nat) \<and> (of_char c :: nat) \<le> 13)"

definition digits_value :: "string \<Rightarrow> int" where
  "digits_value s = foldl (\<lambda>n c. 10 * n + (of_char c - 48)) 0 s"

text \<open>
  \<open>strtol\<close> when it consumes the whole string: white space, a sign, digits; the value saturates at the
  64 bit range.
\<close>

definition strtol_all :: "string \<Rightarrow> int option" where
  "strtol_all s =
     (let t = dropWhile isspace s;
          (neg, ds) = (case t of [] \<Rightarrow> (False, []) | c # cs \<Rightarrow> if c = CHR ''-'' then (True, cs) else if c = CHR ''+'' then (False, cs) else (False, t));
          v = (if neg then - digits_value ds else digits_value ds)
      in if ds \<noteq> [] \<and> list_all isdigit ds then Some (max (- (2 ^ 63)) (min (2 ^ 63 - 1) v)) else None)"

text \<open>The assignment of a \<open>long\<close> to an \<open>int\<close>.\<close>

definition to_int32 :: "int \<Rightarrow> int" where
  "to_int32 i = sint (word_of_int i :: 32 word)"

text \<open>\<open>atoi\<close> reads the number at the start of the text and ignores what follows.\<close>

definition atoi :: "string \<Rightarrow> int" where
  "atoi s =
     (let t = dropWhile isspace s;
          (neg, ds) = (case t of [] \<Rightarrow> (False, []) | c # cs \<Rightarrow> if c = CHR ''-'' then (True, cs) else if c = CHR ''+'' then (False, cs) else (False, t));
          v = digits_value (takeWhile isdigit ds)
      in to_int32 (max (- (2 ^ 63)) (min (2 ^ 63 - 1) (if neg then - v else v))))"

text \<open>Reading words from a string stream.\<close>

fun getListNames :: "string \<Rightarrow> string list" where
  "getListNames [] = []"
| "getListNames (c # s) =
     (if isspace c then getListNames s
      else (case s of
          [] \<Rightarrow> [[c]]
        | c' # _ \<Rightarrow> if isspace c' then [c] # getListNames s
                     else (case getListNames s of [] \<Rightarrow> [[c]] | w # ws \<Rightarrow> (c # w) # ws)))"

definition hex_value :: "char \<Rightarrow> int option" where
  "hex_value c = (let n = of_char c :: int in
     if 48 \<le> n \<and> n \<le> 57 then Some (n - 48) else if 65 \<le> n \<and> n \<le> 70 then Some (n - 55)
     else if 97 \<le> n \<and> n \<le> 102 then Some (n - 87) else None)"

text \<open>\<open>enums\<close> is the table of constants read from the schema files.\<close>

definition getEnumerationValue :: "(string \<rightharpoonup> int) \<Rightarrow> string \<Rightarrow> int option" where
  "getEnumerationValue enums str =
     (case (if str = [] then None else strtol_all str) of
        Some i \<Rightarrow> Some (to_int32 i)
      | None \<Rightarrow> if str = ''FALSE'' then Some 0 else enums str)"

section \<open>Data\<close>

datatype gc_OperandType_e = OT_Invalid | OT_SINK | OT_SOURCE | OT_CLASS | OT_CONNECTION | OT_DOMAIN
  | OT_DOMAIN_OF_SOURCE | OT_DOMAIN_OF_SINK | OT_CLASS_OF_SOURCE | OT_CLASS_OF_SINK | OT_SOURCE_OF_CLASS
  | OT_SINK_OF_CLASS | OT_CONNECTION_OF_CLASS | OT_CONNECTION_OF_SOURCE | OT_CONNECTION_OF_SINK | OT_SYSTEM | OT_USER

record gc_FunctionElement_s =
  fe_functionName :: string
  fe_category :: gc_OperandType_e
  fe_mandatoryParameter :: string
  fe_optionalParameter :: string
  fe_optionalParameter2 :: string
  fe_isValueMacro :: bool

datatype gc_RHSElement_s = RHSValue string | RHSFunction gc_FunctionElement_s

text \<open>The operator is what the cast of the looked-up number gives, so any number.\<close>

record gc_ConditionStruct_s =
  cs_leftObject :: gc_FunctionElement_s
  cs_operation :: int
  cs_rightObject :: gc_RHSElement_s

definition mValidFunctionNames :: "string list" where
  "mValidFunctionNames = [''name'', ''elements'', ''priority'', ''connectionState'', ''volume'',
     ''mainVolume'', ''isMainVolumeStep'', ''volumeLimit'', ''soundProperty'', ''mainSoundPropertyType'',
     ''systemPropertyType'', ''mainSoundPropertyValue'', ''systemPropertyValue'',
     ''muteState'', ''isRegistrationComplete'', ''availability'', ''availabilityReason'',
     ''interruptState'', ''isRegistered'', ''state'', ''connectionFormat'', ''peek'',
     ''error'', ''domainState'', ''sourceState'', ''notificationConfigurationStatus'',
     ''notificationConfigurationParam'', ''notificationDataValue'', ''notificationDataType'',
     ''mainNotificationConfigurationType'', ''mainNotificationConfigurationStatus'',
     ''mainNotificationConfigurationParam'', ''scale'', ''count'']"

definition mValidCategory :: "(string \<times> gc_OperandType_e) list" where
  "mValidCategory = [(''SINK'', OT_SINK), (''SOURCE'', OT_SOURCE), (''CLASS'', OT_CLASS),
     (''CONNECTION'', OT_CONNECTION), (''DOMAIN'', OT_DOMAIN), (''DOMAINOFSOURCE'', OT_DOMAIN_OF_SOURCE),
     (''DOMAINOFSINK'', OT_DOMAIN_OF_SINK), (''CLASSOFSOURCE'', OT_CLASS_OF_SOURCE),
     (''CLASSOFSINK'', OT_CLASS_OF_SINK), (''SOURCEOFCLASS'', OT_SOURCE_OF_CLASS),
     (''SINKOFCLASS'', OT_SINK_OF_CLASS), (''CONNECTIONOFCLASS'', OT_CONNECTION_OF_CLASS),
     (''CONNECTIONOFSOURCE'', OT_CONNECTION_OF_SOURCE), (''CONNECTIONOFSINK'', OT_CONNECTION_OF_SINK),
     (''SYSTEM'', OT_SYSTEM), (''USER'', OT_USER)]"

section \<open>Tokens\<close>

abbreviation QUOTE :: char where
  "QUOTE \<equiv> CHR 0x22"

definition removeLeadingSpace :: "string \<Rightarrow> nat \<Rightarrow> nat option" where
  "removeLeadingSpace s i =
     (if i \<le> length s then Some (i + length (takeWhile (\<lambda>c. c = CHR '' '' \<or> c = CHR 0x09) (drop i s))) else None)"

text \<open>
  The offset of the first token at level zero. The level is unsigned and a quotation mark that opens
  takes it one down, so to the largest number at level zero: an opening bracket in the quoted text
  brings it back to zero.
\<close>

fun element_offset :: "char \<Rightarrow> char \<Rightarrow> 32 word \<Rightarrow> bool \<Rightarrow> string \<Rightarrow> nat" where
  "element_offset token invalidToken nestingLevel isString [] = 0"
| "element_offset token invalidToken nestingLevel isString (chr # rest) =
     (if nestingLevel = 0 \<and> (chr = token \<or> chr = invalidToken) then 0
      else if chr = QUOTE then
        Suc (element_offset token invalidToken (if \<not> isString then nestingLevel - 1 else nestingLevel + 1) (\<not> isString) rest)
      else if chr = CHR ''('' then Suc (element_offset token invalidToken (nestingLevel + 1) isString rest)
      else if chr = CHR '')'' then Suc (element_offset token invalidToken (nestingLevel - 1) isString rest)
      else Suc (element_offset token invalidToken nestingLevel isString rest))"

definition findElement :: "nat \<Rightarrow> char \<Rightarrow> string \<Rightarrow> char \<Rightarrow> (string \<times> nat) option" where
  "findElement startPosition token s invalidToken =
     (case removeLeadingSpace s startPosition of
        None \<Rightarrow> None
      | Some p \<Rightarrow> (let n = element_offset token invalidToken 0 False (drop p s) in Some (take n (drop p s), p + n)))"

section \<open>Functions\<close>

definition strip_quotes :: "string \<Rightarrow> string option" where
  "strip_quotes p =
     (if p \<noteq> [] \<and> hd p = QUOTE then map_option fst (findElement 1 QUOTE p QUOTE) else Some p)"

text \<open>The check of a mandatory parameter that is not quoted.\<close>

definition macro_allowed :: "string \<Rightarrow> string \<Rightarrow> string \<Rightarrow> bool" where
  "macro_allowed functionName category mandatoryParameter =
     (if CHR ''('' \<in> set mandatoryParameter then True
      else if take 4 mandatoryParameter = ''REQ_'' then True
      else if functionName = ''isRegistered'' \<or> functionName = ''isRegistrationComplete''
            \<or> (functionName = ''state'' \<and> category = ''DOMAIN'')
      then category = ''DOMAIN'' \<and> (mandatoryParameter = ''ALL'' \<or> mandatoryParameter = ''REQUESTING'')
      else mandatoryParameter = ''REQUESTING'')"

definition optional_parameter :: "string \<Rightarrow> string \<Rightarrow> nat \<Rightarrow> (string \<times> nat) option" where
  "optional_parameter s dflt p =
     do {
       c \<leftarrow> char_at s p;
       if c = CHR '','' then
         do { (v, q) \<leftarrow> findElement (p + 1) (CHR '')'') s (CHR '',''); v' \<leftarrow> strip_quotes v; Some (v', q) }
       else Some (dflt, p) }"

definition parse_rest :: "string \<Rightarrow> string \<Rightarrow> string \<Rightarrow> string \<Rightarrow> bool \<Rightarrow> nat
    \<Rightarrow> (am_Error_e + gc_FunctionElement_s \<times> nat) option" where
  "parse_rest s functionName category mandatoryParameter isValueMacro p =
     do {
       (opt1, p1) \<leftarrow> optional_parameter s
          (if functionName = ''mainNotificationConfigurationParam'' \<or> functionName = ''mainNotificationConfigurationStatus''
           then ''REQUESTING'' else []) p;
       (opt2, p2) \<leftarrow> optional_parameter s [] p1;
       case map_of mValidCategory category of
         None \<Rightarrow> Some (Inl E_UNKNOWN)
       | Some ot \<Rightarrow> Some (Inr (\<lparr>fe_functionName = functionName, fe_category = ot, fe_mandatoryParameter = mandatoryParameter,
             fe_optionalParameter = opt1, fe_optionalParameter2 = opt2, fe_isValueMacro = isValueMacro\<rparr>, p2 + 1)) }"

definition parsePolicyFunction :: "string \<Rightarrow> nat \<Rightarrow> (am_Error_e + gc_FunctionElement_s \<times> nat) option" where
  "parsePolicyFunction s startPosition =
     do {
       (functionName, p1) \<leftarrow> findElement startPosition (CHR ''('') s (CHR '','');
       if functionName \<notin> set mValidFunctionNames then Some (Inl E_UNKNOWN)
       else do {
         (category0, p2) \<leftarrow> findElement (p1 + 1) (CHR '','') s (CHR '')'');
         c2 \<leftarrow> char_at s p2;
         let category = (if c2 = CHR '')'' \<and> category0 = [] then ''USER'' else category0);
         (mandatory0, p3) \<leftarrow> (if c2 = CHR '')'' then Some (''REQUESTING'', p2 + 1)
                              else findElement (p2 + 1) (CHR '')'') s (CHR '',''));
         if mandatory0 = [] \<or> hd mandatory0 \<noteq> QUOTE then
           (if macro_allowed functionName category mandatory0 then parse_rest s functionName category mandatory0 True p3
            else Some (Inl E_UNKNOWN))
         else do {
           mandatory \<leftarrow> strip_quotes mandatory0;
           parse_rest s functionName category mandatory False p3 } } }"

section \<open>Conditions\<close>

definition findRHSFromCondition :: "string \<Rightarrow> nat \<Rightarrow> (am_Error_e + gc_RHSElement_s) option" where
  "findRHSFromCondition s p =
     do {
       c \<leftarrow> char_at s p;
       if c = QUOTE then map_option (\<lambda>(v, q). Inr (RHSValue v)) (findElement (p + 1) QUOTE s QUOTE)
       else if CHR ''('' \<in> set (drop p s) then
         map_option (\<lambda>r. case r of Inl e \<Rightarrow> Inl e | Inr (f, q) \<Rightarrow> Inr (RHSFunction f)) (parsePolicyFunction s p)
       else map_option (\<lambda>(v, q). Inr (RHSValue v)) (findElement p QUOTE s (CHR '' '')) }"

definition parseCondition :: "(string \<rightharpoonup> int) \<Rightarrow> string \<Rightarrow> (am_Error_e + gc_ConditionStruct_s) option" where
  "parseCondition enums s =
     do {
       p0 \<leftarrow> removeLeadingSpace s 0;
       r \<leftarrow> parsePolicyFunction s p0;
       case r of
         Inl e \<Rightarrow> Some (Inl E_UNKNOWN)
       | Inr (lhs, p1) \<Rightarrow>
           do {
             p2 \<leftarrow> removeLeadingSpace s p1;
             (operatorString, p3) \<leftarrow> findElement p2 (CHR '' '') s QUOTE;
             case getEnumerationValue enums operatorString of
               None \<Rightarrow> Some (Inl E_UNKNOWN)
             | Some operation \<Rightarrow>
                 do {
                   p4 \<leftarrow> removeLeadingSpace s (p3 + 1);
                   rr \<leftarrow> findRHSFromCondition s p4;
                   case rr of
                     Inl e \<Rightarrow> Some (Inl E_UNKNOWN)
                   | Inr rhs \<Rightarrow> Some (Inr \<lparr>cs_leftObject = lhs, cs_operation = operation, cs_rightObject = rhs\<rparr>) } } }"

section \<open>Printing a number and reading it back\<close>

lemma nat_dec_digits: "list_all isdigit (nat_dec n)"
proof (induction n rule: nat_dec.induct)
  case (1 n)
  have "isdigit (char_of (48 + k mod 10))" for k :: nat
    using mod_less_divisor[of 10 k] by (simp add: isdigit_def)
  from this[of n] 1 show ?case
    by (subst nat_dec.simps) (auto simp: list_all_append)
qed

lemma nat_dec_nonempty [simp]: "nat_dec n \<noteq> []"
  by (subst nat_dec.simps) simp

lemma digit_char:
  assumes "n < 10"
  shows "(of_char (char_of (48 + n) :: char) :: int) = 48 + int n"
proof -
  have "(of_char (char_of (48 + n) :: char) :: int) = int (of_char (char_of (48 + n) :: char))"
    by (simp only: of_nat_of_char)
  also have "\<dots> = 48 + int n"
    using assms by simp
  finally show ?thesis .
qed

lemma digits_value_snoc: "digits_value (s @ [c]) = 10 * digits_value s + (of_char c - 48)"
  by (simp add: digits_value_def)

lemma digits_value_nat_dec: "digits_value (nat_dec n) = int n"
proof (induction n rule: nat_dec.induct)
  case (1 n)
  show ?case
  proof (cases "n < 10")
    case True
    then show ?thesis
      by (subst nat_dec.simps) (simp add: digits_value_def digit_char)
  next
    case False
    then have "digits_value (nat_dec n) = 10 * digits_value (nat_dec (n div 10)) + int (n mod 10)"
      by (subst nat_dec.simps) (simp add: digits_value_snoc digit_char)
    also have "\<dots> = int n"
      using 1 False by (simp add: zmod_int zdiv_int)
    finally show ?thesis .
  qed
qed

lemma digit_not_sign: "isdigit c \<Longrightarrow> c \<noteq> CHR ''-'' \<and> c \<noteq> CHR ''+'' \<and> \<not> isspace c"
  by (auto simp: isdigit_def isspace_def)

lemma digits_no_space: "\<lbrakk>list_all isdigit ds; ds \<noteq> []\<rbrakk> \<Longrightarrow> dropWhile isspace ds = ds"
  by (cases ds) (auto dest: digit_not_sign)

lemma strtol_all_dec:
  assumes "- (2 ^ 31) \<le> i" "i < 2 ^ 31"
  shows "strtol_all (dec i) = Some i"
proof (cases "i < 0")
  case True
  have "dropWhile isspace (dec i) = CHR ''-'' # nat_dec (nat (- i))"
    using True by (simp add: dec_def isspace_def)
  then show ?thesis
    using assms True by (simp add: strtol_all_def nat_dec_digits digits_value_nat_dec)
next
  case False
  obtain c cs where d: "nat_dec (nat i) = c # cs"
    by (cases "nat_dec (nat i)") auto
  have c: "isdigit c"
    using nat_dec_digits[of "nat i"] by (simp add: d)
  have "dropWhile isspace (dec i) = c # cs"
    using False digits_no_space[OF nat_dec_digits nat_dec_nonempty, of "nat i"] by (simp add: dec_def d)
  then show ?thesis
    using assms False digit_not_sign[OF c] nat_dec_digits[of "nat i"] digits_value_nat_dec[of "nat i"]
    by (simp add: strtol_all_def d)
qed

lemma to_int32_id: "\<lbrakk>- (2 ^ 31) \<le> i; i < 2 ^ 31\<rbrakk> \<Longrightarrow> to_int32 i = i"
  by (simp add: to_int32_def sint_sbintrunc' signed_take_bit_int_eq_self)

lemma takeWhile_digits:
  "rest = [] \<or> \<not> isdigit (hd rest) \<Longrightarrow> takeWhile isdigit (nat_dec n @ rest) = nat_dec n"
  using nat_dec_digits[of n] by (cases rest) (auto simp: takeWhile_append list_all_iff)

lemma atoi_dec_append:
  assumes "- (2 ^ 31) \<le> i" "i < 2 ^ 31" "rest = [] \<or> \<not> isdigit (hd rest)"
  shows "atoi (dec i @ rest) = i"
proof (cases "i < 0")
  case True
  have "dropWhile isspace (dec i @ rest) = CHR ''-'' # nat_dec (nat (- i)) @ rest"
    using True by (simp add: dec_def isspace_def)
  then show ?thesis
    using assms True by (simp add: atoi_def takeWhile_digits digits_value_nat_dec to_int32_id)
next
  case False
  obtain c cs where d: "nat_dec (nat i) = c # cs"
    by (cases "nat_dec (nat i)") auto
  have c: "isdigit c"
    using nat_dec_digits[of "nat i"] by (simp add: d)
  have "dropWhile isspace (dec i @ rest) = c # cs @ rest"
    using False digit_not_sign[OF c] by (simp add: dec_def d)
  then show ?thesis
    using assms False digit_not_sign[OF c] takeWhile_digits[of rest "nat i"] digits_value_nat_dec[of "nat i"]
    by (simp add: atoi_def d to_int32_id)
qed

lemma atoi_dec: "\<lbrakk>- (2 ^ 31) \<le> i; i < 2 ^ 31\<rbrakk> \<Longrightarrow> atoi (dec i) = i"
  using atoi_dec_append[of i "[]"] by simp

lemma dec_inj: "\<lbrakk>- (2 ^ 31) \<le> i; i < 2 ^ 31; - (2 ^ 31) \<le> j; j < 2 ^ 31\<rbrakk> \<Longrightarrow> dec i = dec j \<longleftrightarrow> i = j"
  by (metis atoi_dec)

text \<open>
  Numbers travel between the policy engine and the configuration as decimal strings. Every 32 bit
  number printed with \<open>to_string\<close> is read back by \<open>getEnumerationValue\<close> as the same number, whatever the
  table of symbolic constants holds; the sign and zero included.
\<close>

theorem enumeration_of_printed_number:
  assumes "- (2 ^ 31) \<le> i" "i < 2 ^ 31"
  shows "getEnumerationValue enums (dec i) = Some i"
proof -
  have "dec i \<noteq> []"
    by (simp add: dec_def)
  then show ?thesis
    using assms by (simp add: getEnumerationValue_def strtol_all_dec to_int32_id)
qed

lemma enumeration_of_printed_number_witness:
  "getEnumerationValue [''-1200'' \<mapsto> 7] (dec (- 1200)) = Some (- 1200)"
  by (rule enumeration_of_printed_number) simp_all

section \<open>Printing a function and reading it back\<close>

definition plain :: "char \<Rightarrow> bool" where
  "plain c \<longleftrightarrow> c \<noteq> QUOTE \<and> c \<noteq> CHR ''('' \<and> c \<noteq> CHR '')''"

definition no_lead :: "string \<Rightarrow> bool" where
  "no_lead s \<longleftrightarrow> s \<noteq> [] \<and> hd s \<noteq> CHR '' '' \<and> hd s \<noteq> CHR 0x09"

lemma element_offset_plain:
  "\<lbrakk>\<forall>c\<in>set xs. plain c \<and> (level = 0 \<longrightarrow> c \<noteq> t \<and> c \<noteq> i)\<rbrakk>
    \<Longrightarrow> element_offset t i level b (xs @ ys) = length xs + element_offset t i level b ys"
  by (induction xs) (auto simp: plain_def)

lemma element_offset_bare:
  "\<lbrakk>\<forall>c\<in>set tok. plain c \<and> c \<noteq> t \<and> c \<noteq> i; d = t \<or> d = i\<rbrakk>
    \<Longrightarrow> element_offset t i 0 False (tok @ d # post) = length tok"
  using element_offset_plain[of tok 0 t i False "d # post"] by simp

lemma element_offset_quoted:
  assumes "\<forall>c\<in>set m. plain c" "t \<noteq> QUOTE" "i \<noteq> QUOTE" "d = t \<or> d = i"
  shows "element_offset t i 0 False ((QUOTE # m @ [QUOTE]) @ d # post) = length (QUOTE # m @ [QUOTE])"
  using assms element_offset_plain[of m "-1" t i True "QUOTE # d # post"] by auto

lemma findElement_at:
  assumes "no_lead (tok @ [d])" "element_offset t i 0 False (tok @ d # post) = length tok"
  shows "findElement (length pre) t (pre @ tok @ d # post) i = Some (tok, length pre + length tok)"
proof -
  have "removeLeadingSpace (pre @ tok @ d # post) (length pre) = Some (length pre)"
    using assms(1) by (cases tok) (auto simp: removeLeadingSpace_def no_lead_def)
  then show ?thesis
    using assms(2) by (simp add: findElement_def)
qed

lemma strip_quoted:
  assumes "\<forall>c\<in>set m. plain c" "no_lead (m @ [QUOTE])"
  shows "strip_quotes (QUOTE # m @ [QUOTE]) = Some m"
proof -
  have "element_offset QUOTE QUOTE 0 False (m @ [QUOTE]) = length m"
    using assms(1) by (intro element_offset_bare) (auto simp: plain_def)
  then have "findElement (length [QUOTE]) QUOTE ([QUOTE] @ m @ QUOTE # []) QUOTE = Some (m, length [QUOTE] + length m)"
    by (intro findElement_at assms(2))
  then show ?thesis
    by (simp add: strip_quotes_def)
qed

lemma char_at_end:
  "char_at (pre @ tok @ d # post) (length pre + length tok) = Some d"
  by (simp add: char_at_def nth_append)

definition quoted :: "string \<Rightarrow> string" where
  "quoted m = QUOTE # m @ [QUOTE]"

definition print_function :: "string \<Rightarrow> string \<Rightarrow> string \<Rightarrow> string \<Rightarrow> string \<Rightarrow> string" where
  "print_function functionName category m o1 o2 =
     functionName @ CHR ''('' # category @ CHR '','' # quoted m @ CHR '','' # quoted o1 @ CHR '','' # quoted o2 @ '')''"

lemma names_printable: "f \<in> set mValidFunctionNames \<Longrightarrow> no_lead (f @ [d]) \<and> (\<forall>c\<in>set f. plain c \<and> c \<noteq> CHR ''('' \<and> c \<noteq> CHR '','')"
proof -
  have "\<forall>f\<in>set mValidFunctionNames. no_lead f \<and> (\<forall>c\<in>set f. plain c \<and> c \<noteq> CHR ''('' \<and> c \<noteq> CHR '','')"
    by code_simp
  then show "f \<in> set mValidFunctionNames \<Longrightarrow> ?thesis"
    by (auto simp: no_lead_def)
qed

lemma categories_printable:
  "map_of mValidCategory k = Some ot \<Longrightarrow> no_lead (k @ [d]) \<and> (\<forall>c\<in>set k. plain c \<and> c \<noteq> CHR '','' \<and> c \<noteq> CHR '')'') \<and> k \<noteq> []"
proof -
  have "\<forall>(k, ot)\<in>set mValidCategory. no_lead k \<and> (\<forall>c\<in>set k. plain c \<and> c \<noteq> CHR '','' \<and> c \<noteq> CHR '')'')"
    by code_simp
  then show "map_of mValidCategory k = Some ot \<Longrightarrow> ?thesis"
    by (fastforce simp: no_lead_def dest: map_of_SomeD)
qed

lemma findElement_bare:
  assumes "no_lead (tok @ [d])" "\<forall>c\<in>set tok. plain c \<and> c \<noteq> t \<and> c \<noteq> i" "d = t \<or> d = i"
  shows "findElement (length pre) t (pre @ tok @ d # post) i = Some (tok, length pre + length tok)"
  by (rule findElement_at[OF assms(1) element_offset_bare[OF assms(2,3)]])

lemma findElement_quoted:
  assumes "\<forall>c\<in>set m. plain c" "t \<noteq> QUOTE" "i \<noteq> QUOTE" "d = t \<or> d = i"
  shows "findElement (length pre) t (pre @ quoted m @ d # post) i = Some (quoted m, length pre + length (quoted m))"
proof (rule findElement_at)
  show "no_lead (quoted m @ [d])"
    by (simp add: no_lead_def quoted_def)
  show "element_offset t i 0 False (quoted m @ d # post) = length (quoted m)"
    unfolding quoted_def by (rule element_offset_quoted[OF assms])
qed

lemma strip_quotes_quoted:
  "\<lbrakk>\<forall>c\<in>set m. plain c; no_lead (m @ [QUOTE])\<rbrakk> \<Longrightarrow> strip_quotes (quoted m) = Some m"
  unfolding quoted_def by (rule strip_quoted)

text \<open>An optional parameter that is there.\<close>

lemma optional_parameter_quoted:
  assumes "\<forall>c\<in>set v. plain c" "no_lead (v @ [QUOTE])" "d = CHR '')'' \<or> d = CHR '',''"
  shows "optional_parameter (pre @ CHR '','' # quoted v @ d # post) dflt (length pre)
    = Some (v, length pre + 1 + length (quoted v))"
proof -
  have "findElement (length (pre @ [CHR '','']) ) (CHR '')'') ((pre @ [CHR '','']) @ quoted v @ d # post) (CHR '','')
      = Some (quoted v, length (pre @ [CHR '','']) + length (quoted v))"
    using assms by (intro findElement_quoted) auto
  then show ?thesis
    using strip_quotes_quoted[OF assms(1,2)] by (simp add: optional_parameter_def char_at_def)
qed

lemma parse_rest_quoted:
  assumes "\<forall>c\<in>set o1. plain c" "no_lead (o1 @ [QUOTE])" "\<forall>c\<in>set o2. plain c" "no_lead (o2 @ [QUOTE])"
    and "map_of mValidCategory category = Some ot"
  shows "parse_rest (pre @ CHR '','' # quoted o1 @ CHR '','' # quoted o2 @ CHR '')'' # post) functionName category m isMacro (length pre)
    = Some (Inr (\<lparr>fe_functionName = functionName, fe_category = ot, fe_mandatoryParameter = m,
        fe_optionalParameter = o1, fe_optionalParameter2 = o2, fe_isValueMacro = isMacro\<rparr>,
        length (pre @ CHR '','' # quoted o1 @ CHR '','' # quoted o2 @ '')'')))"
proof -
  have 1: "optional_parameter (pre @ CHR '','' # quoted o1 @ CHR '','' # quoted o2 @ CHR '')'' # post) x (length pre)
      = Some (o1, length pre + 1 + length (quoted o1))" for x
    using assms(1,2) by (intro optional_parameter_quoted) auto
  have "optional_parameter ((pre @ CHR '','' # quoted o1) @ CHR '','' # quoted o2 @ CHR '')'' # post) []
      (length (pre @ CHR '','' # quoted o1)) = Some (o2, length (pre @ CHR '','' # quoted o1) + 1 + length (quoted o2))"
    using assms(3,4) by (intro optional_parameter_quoted) auto
  then have 2: "optional_parameter (pre @ CHR '','' # quoted o1 @ CHR '','' # quoted o2 @ CHR '')'' # post) []
      (length pre + 1 + length (quoted o1)) = Some (o2, length pre + 1 + length (quoted o1) + 1 + length (quoted o2))"
    by simp
  show ?thesis
    unfolding parse_rest_def 1 by (simp add: 2[simplified] assms(5))
qed

text \<open>
  C23: a policy function written with all its parameters in quotation marks is parsed into exactly its
  parts, and the position ends behind its closing bracket whatever follows: for every supported function
  name and category, and parameters of any length (the empty one and ones with commas in them included)
  that hold no quotation mark or bracket and do not begin with white space.
\<close>

theorem parse_printed_function:
  assumes "functionName \<in> set mValidFunctionNames" "map_of mValidCategory category = Some ot"
    and "\<forall>v\<in>{m, o1, o2}. (\<forall>c\<in>set v. plain c) \<and> no_lead (v @ [QUOTE])"
  shows "parsePolicyFunction (print_function functionName category m o1 o2 @ rest) 0
    = Some (Inr (\<lparr>fe_functionName = functionName, fe_category = ot, fe_mandatoryParameter = m,
        fe_optionalParameter = o1, fe_optionalParameter2 = o2, fe_isValueMacro = False\<rparr>,
        length (print_function functionName category m o1 o2)))"
proof -
  let ?c = "CHR '',''"
  let ?tail = "?c # quoted o1 @ ?c # quoted o2 @ CHR '')'' # rest"
  let ?s = "functionName @ CHR ''('' # category @ ?c # quoted m @ ?tail"
  let ?p1 = "functionName @ ''(''"
  let ?p2 = "?p1 @ category @ [?c]"
  note names = names_printable[OF assms(1)] and cats = categories_printable[OF assms(2)]
  have s: "print_function functionName category m o1 o2 @ rest = ?s"
    by (simp add: print_function_def)
  have 1: "findElement 0 (CHR ''('') ?s ?c = Some (functionName, length functionName)"
    using findElement_bare[of functionName "CHR ''(''" "CHR ''(''" ?c "[]"] names by simp
  have 2: "findElement (length functionName + 1) ?c ?s (CHR '')'') = Some (category, length functionName + 1 + length category)"
    using findElement_bare[of category ?c ?c "CHR '')''" ?p1 "quoted m @ ?tail"] cats by simp
  have 3: "char_at ?s (length functionName + 1 + length category) = Some ?c"
    using char_at_end[of ?p1 category ?c "quoted m @ ?tail"] by simp
  have 4: "findElement (length functionName + 1 + length category + 1) (CHR '')'') ?s ?c
      = Some (quoted m, length (?p2 @ quoted m))"
    using findElement_quoted[of m "CHR '')''" ?c ?c ?p2 "quoted o1 @ ?c # quoted o2 @ CHR '')'' # rest"] assms(3) by simp
  have 5: "parse_rest ?s functionName category m False (length (?p2 @ quoted m))
      = Some (Inr (\<lparr>fe_functionName = functionName, fe_category = ot, fe_mandatoryParameter = m,
        fe_optionalParameter = o1, fe_optionalParameter2 = o2, fe_isValueMacro = False\<rparr>,
        length (print_function functionName category m o1 o2)))"
    using parse_rest_quoted[of o1 o2 category ot "?p2 @ quoted m" rest functionName m False] assms(2,3)
    by (simp add: print_function_def)
  have "quoted m \<noteq> [] \<and> hd (quoted m) = QUOTE"
    by (simp add: quoted_def)
  moreover have "strip_quotes (quoted m) = Some m"
    using assms(3) by (intro strip_quotes_quoted) auto
  ultimately show ?thesis
    unfolding s parsePolicyFunction_def using assms(1) by (simp add: 1 2[simplified] 3[simplified] 4[simplified] 5[simplified])
qed

lemma parse_printed_function_witness:
  "parsePolicyFunction (print_function ''connectionState'' ''CLASS'' ''BASE, ALT'' [] ''1'' @ '' EQ 3'') 0
    = Some (Inr (\<lparr>fe_functionName = ''connectionState'', fe_category = OT_CLASS, fe_mandatoryParameter = ''BASE, ALT'',
        fe_optionalParameter = [], fe_optionalParameter2 = ''1'', fe_isValueMacro = False\<rparr>,
        length (print_function ''connectionState'' ''CLASS'' ''BASE, ALT'' [] ''1'')))"
  by (rule parse_printed_function) code_simp+

text \<open>
  An opening bracket inside a quoted name is counted as nesting although the name is quoted, and
  the quotation mark before it took the level below zero, so the level is zero within the quotation: the
  next comma in the name ends the parameter there.
\<close>

theorem bracket_in_quotes_splits:
  assumes "\<forall>c\<in>set a. plain c" "\<forall>c\<in>set b. plain c \<and> c \<noteq> CHR '',''"
  shows "findElement 0 (CHR '')'') (QUOTE # a @ CHR ''('' # b @ CHR '','' # post) (CHR '','')
    = Some (QUOTE # a @ CHR ''('' # b, length a + length b + 2)"
proof -
  let ?post = "b @ CHR '','' # post"
  have "element_offset (CHR '')'') (CHR '','') 0 False (QUOTE # a @ CHR ''('' # ?post)
      = Suc (element_offset (CHR '')'') (CHR '','') (- 1) True (a @ CHR ''('' # ?post))"
    by simp
  also have "element_offset (CHR '')'') (CHR '','') (- 1) True (a @ CHR ''('' # ?post)
      = length a + Suc (element_offset (CHR '')'') (CHR '','') 0 True ?post)"
    using element_offset_plain[of a "- 1" "CHR '')''" "CHR '',''" True "CHR ''('' # ?post"] assms(1) by simp
  also have "element_offset (CHR '')'') (CHR '','') 0 True ?post = length b"
    using element_offset_plain[of b 0 "CHR '')''" "CHR '',''" True "CHR '','' # post"] assms(2) by (simp add: plain_def)
  finally show ?thesis
    using findElement_at[of "QUOTE # a @ CHR ''('' # b" "CHR '',''" "CHR '')''" "CHR '',''" post "[]"]
    by (simp add: no_lead_def)
qed

lemma bracket_in_quotes_splits_witness:
  "findElement 0 (CHR '')'') (QUOTE # ''Radio '' @ CHR ''('' # ''FM'' @ CHR '','' # ''AM)'' @ [QUOTE]) (CHR '','')
    = Some (QUOTE # ''Radio '' @ CHR ''('' # ''FM'', 10)"
  using bracket_in_quotes_splits[of "''Radio ''" "''FM''" "''AM)'' @ [QUOTE]"] by (simp add: plain_def)

end
