(* ===== verification/Policy_Config.thy ===== *)
theory Policy_Config
  imports Ordered_Map Policy_Parser "HOL-Library.List_Lexorder" "HOL-Library.Char_ord" "HOL-Library.Multiset"
begin

text \<open>
  The configuration behind the policies (\<open>CAmConfigurationReader.cpp\<close>): what is taken over from the
  parsed file into the maps of sources, sinks, gateways, domains and classes, and the list of policy
  processes of a trigger. The maps are ordered by name as \<open>std::map\<close> is, bytes compared as unsigned.
  The parser of the file gives the configuration or an error, here \<open>None\<close>.
\<close>

section \<open>Data\<close>

datatype gc_Registration_e = REG_NONE | REG_CONTROLLER | REG_ROUTER

datatype gc_Action_e = ACTION_UNKNOWN | ACTION_CONNECT | ACTION_DISCONNECT | ACTION_TRANSFER | ACTION_SET_VOLUME
  | ACTION_LIMIT | ACTION_UNLIMIT | ACTION_PUSH | ACTION_POP | ACTION_SUSPEND | ACTION_RESUME | ACTION_MUTE | ACTION_UNMUTE
  | ACTION_SET_PROPERTY | ACTION_SET_PROPERTIES | ACTION_REGISTER | ACTION_DEBUG | ACTION_SET_SYSTEM_PROPERTY
  | ACTION_SET_SYSTEM_PROPERTIES | ACTION_SET_NOTIFICATION_CONFIGURATION

type_synonym param_map = "(string \<times> string) list"

record gc_Action_s =
  actionType :: gc_Action_e
  mapParameters :: param_map

record gc_Process_s =
  priority :: int
  stopEvaluation :: bool
  listConditions :: "gc_ConditionStruct_s list"
  listActions :: "gc_Action_s list"

record gc_Policy_s =
  listEvents :: "gc_Trigger_e list"
  listProcesses :: "gc_Process_s list"

text \<open>The fields of a source or a sink that the reader and the policies use.\<close>

record gc_Point_s =
  cp_name :: string
  cp_ID :: "16 word"
  cp_domainName :: string
  cp_className :: string
  cp_registrationType :: gc_Registration_e
  cp_priority :: int
  cp_domainID :: "16 word"
  cp_listGCSoundProperties :: "am_SoundProperty_s list"
  cp_listGCMainSoundProperties :: "(am_MainSoundProperty_s \<times> bool) list"
  cp_listSoundProperties :: "am_SoundProperty_s list"
  cp_listMainSoundProperties :: "(am_MainSoundProperty_s \<times> bool) list"

record gc_Gateway_s =
  gw_name :: string
  gw_sinkName :: string
  gw_sourceName :: string
  gw_controlDomainName :: string
  gw_registrationType :: gc_Registration_e
  gw_sourceID :: "16 word"
  gw_sinkID :: "16 word"
  gw_controlDomainID :: "16 word"

record gc_Domain_s =
  do_name :: string
  do_domainID :: "16 word"
  do_registrationType :: gc_Registration_e

record gc_Class_s =
  ca_name :: string
  ca_classID :: "16 word"
  ca_priority :: int

record gc_Configuration_s =
  cg_listSources :: "gc_Point_s list"
  cg_listSinks :: "gc_Point_s list"
  cg_listGateways :: "gc_Gateway_s list"
  cg_listDomains :: "gc_Domain_s list"
  cg_listClasses :: "gc_Class_s list"
  cg_listPolicies :: "gc_Policy_s list"

record config_reader =
  mMapSources :: "(string \<times> gc_Point_s) list"
  mMapSinks :: "(string \<times> gc_Point_s) list"
  mMapGateways :: "(string \<times> gc_Gateway_s) list"
  mMapDomains :: "(string \<times> gc_Domain_s) list"
  mMapClasses :: "(string \<times> gc_Class_s) list"
  mListPolicies :: "gc_Policy_s list"

definition cr_empty :: config_reader where
  "cr_empty = \<lparr>mMapSources = [], mMapSinks = [], mMapGateways = [], mMapDomains = [], mMapClasses = [], mListPolicies = []\<rparr>"

section \<open>Taking over the parsed file\<close>

definition prepareDomainMap :: "gc_Domain_s list \<Rightarrow> config_reader \<Rightarrow> config_reader" where
  "prepareDomainMap ds r = foldl (\<lambda>r d.
     if do_registrationType d \<noteq> REG_NONE then r\<lparr>mMapDomains := om_insert (do_name d) d (mMapDomains r)\<rparr> else r) r ds"

definition prepareElementSet :: "config_reader \<Rightarrow> gc_Point_s \<Rightarrow> gc_Point_s" where
  "prepareElementSet r p =
     (case map_of (mMapDomains r) (cp_domainName p) of
        None \<Rightarrow> p
      | Some d \<Rightarrow> p\<lparr>cp_domainID := do_domainID d,
            cp_listSoundProperties := cp_listSoundProperties p @ cp_listGCSoundProperties p,
            cp_listMainSoundProperties := cp_listMainSoundProperties p @ cp_listGCMainSoundProperties p\<rparr>)"

definition prepareSinkMap :: "gc_Point_s list \<Rightarrow> config_reader \<Rightarrow> config_reader" where
  "prepareSinkMap ps r = foldl (\<lambda>r p.
     if cp_registrationType p \<noteq> REG_NONE then r\<lparr>mMapSinks := om_insert (cp_name p) (prepareElementSet r p) (mMapSinks r)\<rparr> else r) r ps"

definition prepareSourceMap :: "gc_Point_s list \<Rightarrow> config_reader \<Rightarrow> config_reader" where
  "prepareSourceMap ps r = foldl (\<lambda>r p.
     if cp_registrationType p \<noteq> REG_NONE then r\<lparr>mMapSources := om_insert (cp_name p) (prepareElementSet r p) (mMapSources r)\<rparr> else r) r ps"

definition prepareGateway :: "config_reader \<Rightarrow> gc_Gateway_s \<Rightarrow> gc_Gateway_s option" where
  "prepareGateway r g =
     (if gw_registrationType g = REG_NONE then None
      else case map_of (mMapSources r) (gw_sourceName g) of
             None \<Rightarrow> None
           | Some src \<Rightarrow>
               (case map_of (mMapSinks r) (gw_sinkName g) of
                  None \<Rightarrow> None
                | Some snk \<Rightarrow>
                    (case map_of (mMapDomains r) (gw_controlDomainName g) of
                       None \<Rightarrow> None
                     | Some d \<Rightarrow> Some (g\<lparr>gw_sourceID := cp_ID src, gw_sinkID := cp_ID snk, gw_controlDomainID := do_domainID d\<rparr>))))"

definition prepareGatewayMap :: "gc_Gateway_s list \<Rightarrow> config_reader \<Rightarrow> config_reader" where
  "prepareGatewayMap gs r = foldl (\<lambda>r g.
     case prepareGateway r g of None \<Rightarrow> r | Some g' \<Rightarrow> r\<lparr>mMapGateways := om_insert (gw_name g) g' (mMapGateways r)\<rparr>) r gs"

definition prepareClassMap :: "gc_Class_s list \<Rightarrow> config_reader \<Rightarrow> config_reader" where
  "prepareClassMap cs r = foldl (\<lambda>r c. r\<lparr>mMapClasses := om_insert (ca_name c) c (mMapClasses r)\<rparr>) r cs"

definition reload :: "gc_Configuration_s option \<Rightarrow> config_reader" where
  "reload parsed =
     (case parsed of
        None \<Rightarrow> cr_empty
      | Some c \<Rightarrow>
          (prepareClassMap (cg_listClasses c) (prepareGatewayMap (cg_listGateways c) (prepareSourceMap (cg_listSources c)
            (prepareSinkMap (cg_listSinks c) (prepareDomainMap (cg_listDomains c) cr_empty)))))
          \<lparr>mListPolicies := cg_listPolicies c\<rparr>)"

section \<open>Queries\<close>

definition cr_getListElements :: "(string \<times> 'e) list \<Rightarrow> 'e list" where
  "cr_getListElements m = map snd m"

definition getElementByName :: "string \<Rightarrow> (string \<times> 'e) list \<Rightarrow> 'e option" where
  "getElementByName nm m = map_of m nm"

definition getListProcess :: "gc_Trigger_e \<Rightarrow> config_reader \<Rightarrow> gc_Process_s list" where
  "getListProcess trig r =
     sort_key priority (concat (map (\<lambda>p. concat (map (\<lambda>t. if t = trig \<or> t = USER_ALL_TRIGGER then listProcesses p else [])
       (listEvents p))) (mListPolicies r)))"

section \<open>What the maps hold\<close>

lemma foldl_invariant: "\<lbrakk>P r; \<And>r x. x \<in> set xs \<Longrightarrow> P r \<Longrightarrow> P (f r x)\<rbrakk> \<Longrightarrow> P (foldl f r xs)"
  by (induction xs arbitrary: r) auto

text \<open>An entry carries its key as name, is to be registered, and its domain is resolved.\<close>

definition point_entry :: "config_reader \<Rightarrow> string \<times> gc_Point_s \<Rightarrow> bool" where
  "point_entry r e \<longleftrightarrow> cp_name (snd e) = fst e \<and> cp_registrationType (snd e) \<noteq> REG_NONE \<and>
     (\<forall>d. map_of (mMapDomains r) (cp_domainName (snd e)) = Some d \<longrightarrow> cp_domainID (snd e) = do_domainID d)"

definition gateway_entry :: "config_reader \<Rightarrow> string \<times> gc_Gateway_s \<Rightarrow> bool" where
  "gateway_entry r e \<longleftrightarrow> gw_name (snd e) = fst e \<and> gw_registrationType (snd e) \<noteq> REG_NONE \<and>
     (\<exists>src snk d. map_of (mMapSources r) (gw_sourceName (snd e)) = Some src \<and> gw_sourceID (snd e) = cp_ID src \<and>
        map_of (mMapSinks r) (gw_sinkName (snd e)) = Some snk \<and> gw_sinkID (snd e) = cp_ID snk \<and>
        map_of (mMapDomains r) (gw_controlDomainName (snd e)) = Some d \<and> gw_controlDomainID (snd e) = do_domainID d)"

definition config_ok :: "config_reader \<Rightarrow> bool" where
  "config_ok r \<longleftrightarrow> om_ok (mMapSources r) \<and> om_ok (mMapSinks r) \<and> om_ok (mMapGateways r) \<and> om_ok (mMapDomains r) \<and> om_ok (mMapClasses r) \<and>
     (\<forall>e\<in>set (mMapSources r) \<union> set (mMapSinks r). point_entry r e) \<and> (\<forall>e\<in>set (mMapGateways r). gateway_entry r e)"

lemma entry_upd [simp]:
  "point_entry (r\<lparr>mMapGateways := g\<rparr>) = point_entry r" "gateway_entry (r\<lparr>mMapGateways := g\<rparr>) = gateway_entry r"
  "point_entry (r\<lparr>mMapClasses := c\<rparr>) = point_entry r" "gateway_entry (r\<lparr>mMapClasses := c\<rparr>) = gateway_entry r"
  "point_entry (r\<lparr>mListPolicies := l\<rparr>) = point_entry r" "gateway_entry (r\<lparr>mListPolicies := l\<rparr>) = gateway_entry r"
  "point_entry (r\<lparr>mMapSinks := m\<rparr>) = point_entry r" "point_entry (r\<lparr>mMapSources := m\<rparr>) = point_entry r"
  by (simp_all add: point_entry_def gateway_entry_def fun_eq_iff)

lemma set_om_insert: "e \<in> set (om_insert k v m) \<Longrightarrow> e = (k, v) \<or> e \<in> set m"
  by (induction k v m rule: om_insert.induct) (auto split: if_splits)

lemma prepareElementSet_simps [simp]:
  "cp_name (prepareElementSet r p) = cp_name p"
  "cp_registrationType (prepareElementSet r p) = cp_registrationType p"
  by (auto simp: prepareElementSet_def split: option.splits)

lemma prepareElementSet_entry:
  "cp_registrationType p \<noteq> REG_NONE \<Longrightarrow> point_entry r (cp_name p, prepareElementSet r p)"
  by (auto simp: point_entry_def prepareElementSet_def split: option.splits)

lemma prepareDomainMap_ok:
  assumes "om_ok (mMapDomains r)"
  shows "om_ok (mMapDomains (prepareDomainMap ds r))"
    "mMapSources (prepareDomainMap ds r) = mMapSources r" "mMapSinks (prepareDomainMap ds r) = mMapSinks r"
    "mMapGateways (prepareDomainMap ds r) = mMapGateways r" "mMapClasses (prepareDomainMap ds r) = mMapClasses r"
  unfolding prepareDomainMap_def using assms
  by (auto intro!: foldl_frame foldl_invariant[where P = "\<lambda>r. om_ok (mMapDomains r)"])

lemma prepareSinkMap_ok:
  assumes "config_ok r" "mMapGateways r = []"
  shows "config_ok (prepareSinkMap ps r) \<and> mMapGateways (prepareSinkMap ps r) = []"
  unfolding prepareSinkMap_def
proof (rule foldl_invariant[where P = "\<lambda>r. config_ok r \<and> mMapGateways r = []"])
  show "config_ok r \<and> mMapGateways r = []"
    using assms by simp
next
  fix r p
  assume "config_ok r \<and> mMapGateways r = []"
  then show "config_ok (if cp_registrationType p \<noteq> REG_NONE then r\<lparr>mMapSinks := om_insert (cp_name p) (prepareElementSet r p) (mMapSinks r)\<rparr> else r) \<and>
      mMapGateways (if cp_registrationType p \<noteq> REG_NONE then r\<lparr>mMapSinks := om_insert (cp_name p) (prepareElementSet r p) (mMapSinks r)\<rparr> else r) = []"
    using prepareElementSet_entry[of p r] by (auto simp: config_ok_def dest!: set_om_insert)
qed

lemma prepareSourceMap_ok:
  assumes "config_ok r" "mMapGateways r = []"
  shows "config_ok (prepareSourceMap ps r) \<and> mMapGateways (prepareSourceMap ps r) = []"
  unfolding prepareSourceMap_def
proof (rule foldl_invariant[where P = "\<lambda>r. config_ok r \<and> mMapGateways r = []"])
  show "config_ok r \<and> mMapGateways r = []"
    using assms by simp
next
  fix r p
  assume "config_ok r \<and> mMapGateways r = []"
  then show "config_ok (if cp_registrationType p \<noteq> REG_NONE then r\<lparr>mMapSources := om_insert (cp_name p) (prepareElementSet r p) (mMapSources r)\<rparr> else r) \<and>
      mMapGateways (if cp_registrationType p \<noteq> REG_NONE then r\<lparr>mMapSources := om_insert (cp_name p) (prepareElementSet r p) (mMapSources r)\<rparr> else r) = []"
    using prepareElementSet_entry[of p r] by (auto simp: config_ok_def dest!: set_om_insert)
qed

lemma prepareGateway_entry: "prepareGateway r g = Some g' \<Longrightarrow> gateway_entry r (gw_name g, g')"
  by (auto simp: prepareGateway_def gateway_entry_def split: if_splits option.splits)

lemma prepareGatewayMap_ok:
  assumes "config_ok r"
  shows "config_ok (prepareGatewayMap gs r)"
  unfolding prepareGatewayMap_def
proof (rule foldl_invariant[where P = config_ok, OF assms])
  fix r g
  assume "config_ok r"
  then show "config_ok (case prepareGateway r g of None \<Rightarrow> r | Some g' \<Rightarrow> r\<lparr>mMapGateways := om_insert (gw_name g) g' (mMapGateways r)\<rparr>)"
    using prepareGateway_entry[of r g]
    by (auto simp: config_ok_def split: option.splits dest!: set_om_insert)
qed

lemma prepareClassMap_ok: "config_ok r \<Longrightarrow> config_ok (prepareClassMap cs r)"
  unfolding prepareClassMap_def
  by (rule foldl_invariant[where P = config_ok]) (simp_all add: config_ok_def om_ok_insert)

lemma reload_ok: "config_ok (reload parsed)"
proof (cases parsed)
  case None
  then show ?thesis
    by (simp add: reload_def config_ok_def cr_empty_def)
next
  case (Some c)
  let ?d = "prepareDomainMap (cg_listDomains c) cr_empty"
  have d: "config_ok ?d" "mMapGateways ?d = []"
    using prepareDomainMap_ok[of cr_empty "cg_listDomains c"] by (auto simp: config_ok_def cr_empty_def)
  have p: "config_ok (r\<lparr>mListPolicies := x\<rparr>) = config_ok r" for r x
    by (simp add: config_ok_def)
  show ?thesis
    unfolding reload_def Some option.case p
    using prepareSinkMap_ok[OF d, of "cg_listSinks c"] prepareSourceMap_ok[of "prepareSinkMap (cg_listSinks c) ?d" "cg_listSources c"]
    by (auto intro!: prepareClassMap_ok prepareGatewayMap_ok)
qed

text \<open>
  C31: after every (re)load of the configuration, whatever the file holds, the references within it are
  resolved. Each gateway that can be looked up by name carries this name, is meant to be registered, and
  its source, sink and control domain are configured and the numbers it carries are theirs; each source
  and sink that can be looked up is meant to be registered and carries the number of its domain where the
  domain is configured.
\<close>

theorem reload_resolves_references:
  "\<forall>r. reload parsed = r \<longrightarrow>
    (\<forall>n g. getElementByName n (mMapGateways r) = Some g \<longrightarrow> gw_name g = n \<and> gw_registrationType g \<noteq> REG_NONE \<and>
       (\<exists>src snk d. getElementByName (gw_sourceName g) (mMapSources r) = Some src \<and> gw_sourceID g = cp_ID src \<and>
          getElementByName (gw_sinkName g) (mMapSinks r) = Some snk \<and> gw_sinkID g = cp_ID snk \<and>
          getElementByName (gw_controlDomainName g) (mMapDomains r) = Some d \<and> gw_controlDomainID g = do_domainID d)) \<and>
    (\<forall>m\<in>{mMapSources r, mMapSinks r}. \<forall>n p. getElementByName n m = Some p \<longrightarrow> cp_name p = n \<and> cp_registrationType p \<noteq> REG_NONE \<and>
       (\<forall>d. getElementByName (cp_domainName p) (mMapDomains r) = Some d \<longrightarrow> cp_domainID p = do_domainID d))"
proof (intro allI impI)
  fix r
  assume "reload parsed = r"
  then have ok: "config_ok r"
    using reload_ok[of parsed] by simp
  have g: "map_of (mMapGateways r) n = Some g \<Longrightarrow> gateway_entry r (n, g)" for n g
    using ok by (auto simp: config_ok_def dest!: map_of_SomeD)
  have p: "m \<in> {mMapSources r, mMapSinks r} \<Longrightarrow> map_of m n = Some x \<Longrightarrow> point_entry r (n, x)" for m n x
    using ok by (auto simp: config_ok_def dest!: map_of_SomeD)
  show "(\<forall>n g. getElementByName n (mMapGateways r) = Some g \<longrightarrow> gw_name g = n \<and> gw_registrationType g \<noteq> REG_NONE \<and>
       (\<exists>src snk d. getElementByName (gw_sourceName g) (mMapSources r) = Some src \<and> gw_sourceID g = cp_ID src \<and>
          getElementByName (gw_sinkName g) (mMapSinks r) = Some snk \<and> gw_sinkID g = cp_ID snk \<and>
          getElementByName (gw_controlDomainName g) (mMapDomains r) = Some d \<and> gw_controlDomainID g = do_domainID d)) \<and>
    (\<forall>m\<in>{mMapSources r, mMapSinks r}. \<forall>n p. getElementByName n m = Some p \<longrightarrow> cp_name p = n \<and> cp_registrationType p \<noteq> REG_NONE \<and>
       (\<forall>d. getElementByName (cp_domainName p) (mMapDomains r) = Some d \<longrightarrow> cp_domainID p = do_domainID d))"
    unfolding getElementByName_def using g p by (auto simp: gateway_entry_def point_entry_def)
qed

definition demo_configuration :: gc_Configuration_s where
  "demo_configuration = (let p = \<lparr>cp_name = ''snk'', cp_ID = 0, cp_domainName = ''dom'', cp_className = [], cp_registrationType = REG_CONTROLLER,
       cp_priority = 0, cp_domainID = 0, cp_listGCSoundProperties = [], cp_listGCMainSoundProperties = [],
       cp_listSoundProperties = [], cp_listMainSoundProperties = []\<rparr>
     in \<lparr>cg_listSources = [p\<lparr>cp_name := ''src'', cp_ID := 7\<rparr>], cg_listSinks = [p\<lparr>cp_ID := 9\<rparr>],
         cg_listGateways = [\<lparr>gw_name = ''gw'', gw_sinkName = ''snk'', gw_sourceName = ''src'', gw_controlDomainName = ''dom'',
           gw_registrationType = REG_ROUTER, gw_sourceID = 0, gw_sinkID = 0, gw_controlDomainID = 0\<rparr>],
         cg_listDomains = [\<lparr>do_name = ''dom'', do_domainID = 3, do_registrationType = REG_ROUTER\<rparr>],
         cg_listClasses = [], cg_listPolicies = []\<rparr>)"

lemma reload_resolves_references_witness:
  "\<exists>g. getElementByName ''gw'' (mMapGateways (reload (Some demo_configuration))) = Some g \<and> gw_sourceID g = 7 \<and>
     (\<exists>src. getElementByName (gw_sourceName g) (mMapSources (reload (Some demo_configuration))) = Some src \<and> gw_sourceID g = cp_ID src)"
proof -
  let ?r = "reload (Some demo_configuration)"
  have "map_option gw_sourceID (getElementByName ''gw'' (mMapGateways ?r)) = Some 7"
    by code_simp
  then obtain g where g: "getElementByName ''gw'' (mMapGateways ?r) = Some g" "gw_sourceID g = 7"
    by auto
  with reload_resolves_references[of "Some demo_configuration"] show ?thesis
    by blast
qed

section \<open>The processes of a trigger\<close>

definition hits :: "gc_Trigger_e \<Rightarrow> gc_Policy_s \<Rightarrow> nat" where
  "hits trig p = length (filter (\<lambda>t. t = trig \<or> t = USER_ALL_TRIGGER) (listEvents p))"

lemma count_repeated:
  "count (mset (concat (map (\<lambda>t. if P t then xs else []) ts))) x = length (filter P ts) * count (mset xs) x"
  by (induction ts) auto

lemma count_policies:
  "count (mset (concat (map (\<lambda>p. concat (map (\<lambda>t. if P t then listProcesses p else []) (listEvents p))) ps))) x
    = (\<Sum>p\<leftarrow>ps. length (filter P (listEvents p)) * count (mset (listProcesses p)) x)"
  by (induction ps) (simp_all add: count_repeated)

text \<open>
  the processes that a trigger runs through. They come in ascending order of priority; processes of
  equal priority keep the order in which the policies list them; and each process occurs as often as its
  policy lists it times the number of events of the policy that match, so that a policy for both this
  trigger and all triggers is run twice.
\<close>

theorem getListProcess_order:
  "sorted (map priority (getListProcess trig r)) \<and>
   (\<forall>k. filter (\<lambda>p. priority p = k) (getListProcess trig r) =
      concat (map (\<lambda>p. concat (replicate (hits trig p) (filter (\<lambda>x. priority x = k) (listProcesses p)))) (mListPolicies r))) \<and>
   (\<forall>x. count (mset (getListProcess trig r)) x = (\<Sum>p\<leftarrow>mListPolicies r. hits trig p * count (mset (listProcesses p)) x))"
proof (intro conjI allI)
  have rep: "concat (map (\<lambda>t. if P t then xs else []) ts) = concat (replicate (length (filter P ts)) xs)" for P ts and xs :: "'x list"
    by (induction ts) auto
  have fc: "filter Q (concat (replicate n xs)) = concat (replicate n (filter Q xs))" for Q n and xs :: "gc_Process_s list"
    by (induction n) auto
  show "sorted (map priority (getListProcess trig r))"
    by (simp add: getListProcess_def)
  fix k
  show "filter (\<lambda>p. priority p = k) (getListProcess trig r) =
      concat (map (\<lambda>p. concat (replicate (hits trig p) (filter (\<lambda>x. priority x = k) (listProcesses p)))) (mListPolicies r))"
    unfolding getListProcess_def sort_key_stable hits_def rep
    by (simp add: filter_concat comp_def fc)
next
  fix x
  show "count (mset (getListProcess trig r)) x = (\<Sum>p\<leftarrow>mListPolicies r. hits trig p * count (mset (listProcesses p)) x)"
    unfolding getListProcess_def mset_sort hits_def count_policies ..
qed

end
