(* ===== verification/Policy_Functions.thy ===== *)
theory Policy_Functions
  imports Policy_Config
begin

text \<open>
  The functions of policy conditions (\<open>CAmPolicyFunctions.cpp\<close>) and the macros of a trigger
  (\<open>CAmPolicyEngine::evaluateMacro\<close>). What a function asks the controller for, behind
  \<open>IAmPolicyReceive\<close> and the element factories, is the record \<open>policy_env\<close> of queries; \<open>scale\<close>, which
  computes in floating point, is one of them. A parameter of a function may be a function again: the
  evaluation runs with fuel, and \<open>Timeout\<close> is the result when it is used up. \<open>Undefined\<close> is a read
  behind the end of a text or of a variable that was never set.
\<close>

section \<open>Numbers of enumerators\<close>

primrec connection_state_code :: "am_ConnectionState_e \<Rightarrow> int" where
  "connection_state_code CS_UNKNOWN = 0"
| "connection_state_code CS_CONNECTING = 1"
| "connection_state_code CS_CONNECTED = 2"
| "connection_state_code CS_DISCONNECTING = 3"
| "connection_state_code CS_DISCONNECTED = 4"
| "connection_state_code CS_SUSPENDED = 5"

primrec mute_state_code :: "am_MuteState_e \<Rightarrow> int" where
  "mute_state_code MS_UNKNOWN = 0"
| "mute_state_code MS_MUTED = 1"
| "mute_state_code MS_UNMUTED = 2"

primrec source_state_code :: "am_SourceState_e \<Rightarrow> int" where
  "source_state_code SS_UNKNNOWN = 0"
| "source_state_code SS_ON = 1"
| "source_state_code SS_OFF = 2"
| "source_state_code SS_PAUSED = 3"

primrec availability_code :: "am_Availability_e \<Rightarrow> int" where
  "availability_code A_UNKNOWN = 0"
| "availability_code A_AVAILABLE = 1"
| "availability_code A_UNAVAILABLE = 2"

primrec interrupt_state_code :: "am_InterruptState_e \<Rightarrow> int" where
  "interrupt_state_code IS_UNKNOWN = 0"
| "interrupt_state_code IS_OFF = 1"
| "interrupt_state_code IS_INTERRUPTED = 2"

primrec limit_state_code :: "gc_LimitState_e \<Rightarrow> int" where
  "limit_state_code LS_UNKNWON = 0"
| "limit_state_code LS_LIMITED = 1"
| "limit_state_code LS_UNLIMITED = 2"
| "limit_state_code LS_MAX = 3"

text \<open>The triggers in the order of their declaration.\<close>

definition trigger_code :: "gc_Trigger_e \<Rightarrow> int" where
  "trigger_code trig = int (length (takeWhile (\<lambda>t. t \<noteq> trig)
     [TRIGGER_UNKNOWN, USER_CONNECTION_REQUEST, USER_DISCONNECTION_REQUEST, USER_SET_SINK_MUTE_STATE,
      USER_SET_VOLUME, USER_SET_SINK_MAIN_SOUND_PROPERTY, USER_SET_SINK_MAIN_SOUND_PROPERTIES,
      USER_SET_SOURCE_MAIN_SOUND_PROPERTY, USER_SET_SOURCE_MAIN_SOUND_PROPERTIES,
      USER_SET_SYSTEM_PROPERTY, USER_SET_SYSTEM_PROPERTIES,
      USER_SET_SINK_MAIN_NOTIFICATION_CONFIGURATION, USER_SET_SOURCE_MAIN_NOTIFICATION_CONFIGURATION,
      SYSTEM_SOURCE_AVAILABILITY_CHANGED, SYSTEM_SINK_AVAILABILITY_CHANGED,
      SYSTEM_INTERRUPT_STATE_CHANGED, SYSTEM_SINK_MUTE_STATE_CHANGED,
      SYSTEM_SINK_MAIN_SOUND_PROPERTY_CHANGED, SYSTEM_SOURCE_MAIN_SOUND_PROPERTY_CHANGED,
      SYSTEM_VOLUME_CHANGED, SYSTEM_SINK_NOTIFICATION_DATA_CHANGED, SYSTEM_SOURCE_NOTIFICATION_DATA_CHANGED,
      SYSTEM_REGISTER_DOMAIN, SYSTEM_REGISTER_SOURCE, SYSTEM_REGISTER_SINK, SYSTEM_REGISTER_GATEWAY,
      SYSTEM_REGISTER_EARLY_CONNECTION, SYSTEM_DEREGISTER_DOMAIN, SYSTEM_DEREGISTER_SOURCE,
      SYSTEM_DEREGISTER_SINK, SYSTEM_DEREGISTER_GATEWAY, SYSTEM_DOMAIN_REGISTRATION_COMPLETE,
      SYSTEM_CONNECTION_STATE_CHANGE, SYSTEM_STORED_SINK_VOLUME, SYSTEM_ALL_DOMAIN_REGISTRATION_COMPLETE]))"

abbreviation dec_s :: "16 word \<Rightarrow> string" where
  "dec_s v \<equiv> dec (sint v)"

abbreviation dec_u :: "16 word \<Rightarrow> string" where
  "dec_u v \<equiv> dec (uint v)"

definition dec_bool :: "bool \<Rightarrow> string" where
  "dec_bool b = dec (if b then 1 else 0)"

section \<open>Data\<close>

record gc_triggerParams_s =
  tp_triggerType :: gc_Trigger_e
  tp_sinkName :: string
  tp_sourceName :: string
  tp_domainName :: string
  tp_gatewayName :: string
  tp_className :: string
  tp_connectionName :: string
  tp_connectionState :: am_ConnectionState_e
  tp_status :: am_Error_e
  tp_mainVolume :: am_mainVolume_t
  tp_isVolumeStep :: bool
  tp_mainSoundProperty :: am_MainSoundProperty_s
  tp_listMainSoundProperty :: "am_MainSoundProperty_s list"
  tp_systemProperty :: am_SystemProperty_s
  tp_availability :: am_Availability_s
  tp_muteState :: am_MuteState_e
  tp_interruptState :: am_InterruptState_e
  tp_notificatonPayload :: am_NotificationPayload_s
  tp_notificatonConfiguration :: am_NotificationConfiguration_s
  tp_listSystemProperties :: "am_SystemProperty_s list"

text \<open>The initial values; \<open>MSP_UNKNOWN\<close>, \<open>SYP_UNKNOWN\<close>, \<open>NT_UNKNOWN\<close> and \<open>AR_UNKNOWN\<close> are zero.\<close>

definition tp_init :: gc_triggerParams_s where
  "tp_init = \<lparr>tp_triggerType = TRIGGER_UNKNOWN, tp_sinkName = [], tp_sourceName = [], tp_domainName = [], tp_gatewayName = [],
     tp_className = [], tp_connectionName = [], tp_connectionState = CS_UNKNOWN, tp_status = E_OK, tp_mainVolume = 0,
     tp_isVolumeStep = False, tp_mainSoundProperty = \<lparr>pr_type = 0, pr_value = 0\<rparr>, tp_listMainSoundProperty = [],
     tp_systemProperty = \<lparr>pr_type = 0, pr_value = 0\<rparr>, tp_availability = \<lparr>availability = A_UNKNOWN, availabilityReason = 0\<rparr>,
     tp_muteState = MS_UNKNOWN, tp_interruptState = IS_UNKNOWN, tp_notificatonPayload = \<lparr>np_type = 0, np_value = 0\<rparr>,
     tp_notificatonConfiguration = \<lparr>nc_type = 0, nc_status = 0, nc_parameter = 0\<rparr>, tp_listSystemProperties = []\<rparr>"

record gc_ConnectionInfo_s =
  ci_sourceName :: string
  ci_sinkName :: string
  ci_connectionName :: string
  ci_priority :: int
  ci_connectionState :: am_ConnectionState_e
  ci_volume :: am_volume_t

record policy_env =
  pv_config :: config_reader
  pv_enums :: "string \<rightharpoonup> int"
  pv_isDomainRegistrationComplete :: "string \<Rightarrow> bool"
  pv_isRegistered :: "gc_Element_e \<Rightarrow> string \<Rightarrow> bool"
  pv_getAvailability :: "gc_Element_e \<Rightarrow> string \<Rightarrow> am_Error_e \<times> am_Availability_s"
  pv_getInterruptState :: "gc_Element_e \<Rightarrow> string \<Rightarrow> am_Error_e \<times> am_InterruptState_e"
  pv_getMuteState :: "gc_Element_e \<Rightarrow> string \<Rightarrow> am_Error_e \<times> am_MuteState_e"
  pv_getMainSoundProperty :: "gc_Element_e \<Rightarrow> string \<Rightarrow> 16 word \<Rightarrow> am_Error_e \<times> 16 word"
  pv_getSoundProperty :: "gc_Element_e \<Rightarrow> string \<Rightarrow> 16 word \<Rightarrow> am_Error_e \<times> 16 word"
  pv_getSystemProperty :: "16 word \<Rightarrow> am_Error_e \<times> 16 word"
  pv_getVolume :: "gc_Element_e \<Rightarrow> string \<Rightarrow> am_Error_e \<times> am_volume_t"
  pv_getMainVolume :: "gc_Element_e \<Rightarrow> string \<Rightarrow> am_Error_e \<times> am_mainVolume_t"
  pv_getListMainConnections :: "gc_Element_e \<Rightarrow> string \<Rightarrow> am_Error_e \<times> gc_ConnectionInfo_s list"
  pv_getListNotificationConfigurations :: "gc_Element_e \<Rightarrow> string \<Rightarrow> am_Error_e \<times> am_NotificationConfiguration_s list"
  pv_getListMainNotificationConfigurations :: "gc_Element_e \<Rightarrow> string \<Rightarrow> am_Error_e \<times> am_NotificationConfiguration_s list"
  pv_getOrderedConnections :: "string \<Rightarrow> int \<Rightarrow> am_Error_e \<times> gc_ConnectionInfo_s list"
  pv_domain :: "string \<Rightarrow> (16 word \<times> am_Error_e \<times> int) option"  \<comment> \<open>number and answer of \<open>getState\<close>\<close>
  pv_sources :: "(string \<times> 16 word) list"  \<comment> \<open>name and domain of every source element\<close>
  pv_sinks :: "(string \<times> 16 word) list"
  pv_sourceState :: "string \<Rightarrow> am_SourceState_e option"
  pv_offsetVolume :: "gc_Element_e \<Rightarrow> string \<Rightarrow> am_volume_t option"
  pv_routeAvailability :: "string \<Rightarrow> am_Availability_e option"
  pv_scale :: "string \<Rightarrow> string \<Rightarrow> am_Error_e \<times> string"
  pv_CF_GENIVI_STEREO :: "16 word"

section \<open>Macros\<close>

definition mapRequesting :: "gc_triggerParams_s \<Rightarrow> (string \<times> string) list" where
  "mapRequesting t =
    [(''REQ_TRIG_TYPE'', dec (trigger_code (tp_triggerType t))),
     (''REQ_SINK_NAME'', tp_sinkName t),
     (''REQ_SOURCE_NAME'', tp_sourceName t),
     (''REQ_DOMAIN_NAME'', tp_domainName t),
     (''REQ_GATEWAY_NAME'', tp_gatewayName t),
     (''REQ_CLASS_NAME'', tp_className t),
     (''REQ_CON_NAME'', tp_connectionName t),
     (''REQ_CON_STATE'', dec (connection_state_code (tp_connectionState t))),
     (''REQ_STATUS'', dec (error_code (tp_status t))),
     (''REQ_MAIN_VOL'', dec_s (tp_mainVolume t)),
     (''REQ_MSP_TYPE'', dec_u (pr_type (tp_mainSoundProperty t))),
     (''REQ_MSP_VAL'', dec_s (pr_value (tp_mainSoundProperty t))),
     (''REQ_SYP_TYPE'', dec_u (pr_type (tp_systemProperty t))),
     (''REQ_SYP_VAL'', dec_s (pr_value (tp_systemProperty t))),
     (''REQ_AVAIL_STATE'', dec (availability_code (availability (tp_availability t)))),
     (''REQ_AVAIL_REASON'', dec_u (availabilityReason (tp_availability t))),
     (''REQ_MUTE_STATE'', dec (mute_state_code (tp_muteState t))),
     (''REQ_INT_STATE'', dec (interrupt_state_code (tp_interruptState t))),
     (''REQ_NP_TYPE'', dec_u (np_type (tp_notificatonPayload t))),
     (''REQ_NP_VAL'', dec_s (np_value (tp_notificatonPayload t))),
     (''REQ_NC_TYPE'', dec_u (nc_type (tp_notificatonConfiguration t))),
     (''REQ_NC_STATUS'', dec_u (nc_status (tp_notificatonConfiguration t))),
     (''REQ_NC_PARAM'', dec_s (nc_parameter (tp_notificatonConfiguration t)))]"

definition evaluateMacro :: "gc_triggerParams_s \<Rightarrow> string \<Rightarrow> string" where
  "evaluateMacro t requested =
     (if take 4 requested \<noteq> ''REQ_'' then requested
      else case map_of (mapRequesting t) requested of None \<Rightarrow> requested | Some v \<Rightarrow> v)"

section \<open>Helpers of the functions\<close>

abbreviation REQUESTING :: string where
  "REQUESTING \<equiv> ''REQUESTING''"

definition getValueOfParameter :: "gc_FunctionElement_s \<Rightarrow> string \<Rightarrow> string" where
  "getValueOfParameter f requested =
     (if fe_mandatoryParameter f \<noteq> REQUESTING \<or> \<not> fe_isValueMacro f then fe_mandatoryParameter f else requested)"

definition isSingleDomainRequest :: "gc_FunctionElement_s \<Rightarrow> string \<Rightarrow> bool \<times> string" where
  "isSingleDomainRequest f requested =
     (if fe_mandatoryParameter f = REQUESTING then (True, requested)
      else if fe_mandatoryParameter f \<noteq> ''ALL'' \<or> \<not> fe_isValueMacro f then (True, fe_mandatoryParameter f)
      else (False, requested))"

definition getConnectionList :: "policy_env \<Rightarrow> gc_Element_e \<Rightarrow> string \<Rightarrow> string \<Rightarrow> gc_triggerParams_s \<Rightarrow> am_Error_e \<times> gc_ConnectionInfo_s list" where
  "getConnectionList V elementType elementName opt t =
     (case pv_getListMainConnections V elementType elementName of (err, cs) \<Rightarrow>
        if err \<noteq> E_OK then (E_UNKNOWN, [])
        else if opt = ''ALL'' \<or> opt = [] then (E_OK, cs)
        else if opt = ''OTHERS'' then (E_OK, filter (\<lambda>c. \<not> (ci_sinkName c = tp_sinkName t \<and> ci_sourceName c = tp_sourceName t)) cs)
        else (E_OK, filter (\<lambda>c. dec (connection_state_code (ci_connectionState c)) = opt) cs))"

definition getNameList :: "policy_env \<Rightarrow> string \<Rightarrow> string \<Rightarrow> gc_triggerParams_s \<Rightarrow> bool \<Rightarrow> am_Error_e \<times> string list" where
  "getNameList V mandatory opt t isSinkRequired =
     (case getConnectionList V ET_CLASS mandatory opt t of (err, cs) \<Rightarrow>
        if err \<noteq> E_OK then (E_UNKNOWN, [])
        else (E_OK, map (if isSinkRequired then ci_sinkName else ci_sourceName) cs))"

definition connection_of :: "gc_triggerParams_s \<Rightarrow> string" where
  "connection_of t = tp_sourceName t @ CHR '':'' # tp_sinkName t"

text \<open>A query whose success gives one output.\<close>

definition one_output :: "('a \<Rightarrow> string) \<Rightarrow> am_Error_e \<times> 'a \<Rightarrow> am_Error_e \<times> string list" where
  "one_output str r = (if fst r = E_OK then (E_OK, [str (snd r)]) else (E_UNKNOWN, []))"

section \<open>The functions\<close>

text \<open>
  Each gives an error and the outputs it appended. A number that \<open>getEnumerationValue\<close> stores into a
  property or notification type keeps its low 16 bits there.
\<close>

definition findNTStatusParam :: "policy_env \<Rightarrow> gc_FunctionElement_s \<Rightarrow> string \<Rightarrow> gc_Element_e \<Rightarrow> 16 word \<Rightarrow> bool \<Rightarrow> am_Error_e \<times> string list" where
  "findNTStatusParam V f requested elementType ntType isStatusReq =
     (case (if fe_optionalParameter f = [] then Some ntType
            else map_option word_of_int (getEnumerationValue (pv_enums V) (fe_optionalParameter f))) of
        None \<Rightarrow> (E_NOT_POSSIBLE, [])
      | Some ty \<Rightarrow>
          (case pv_getListNotificationConfigurations V elementType (getValueOfParameter f requested) of (err, ncs) \<Rightarrow>
             if err \<noteq> E_OK then (E_UNKNOWN, [])
             else (case find (\<lambda>nc. nc_type nc = ty) ncs of
                     None \<Rightarrow> (E_UNKNOWN, [])
                   | Some nc \<Rightarrow> (E_OK, [if isStatusReq then dec_u (nc_status nc) else dec_s (nc_parameter nc)]))))"

definition findMainNTStatusParam :: "policy_env \<Rightarrow> gc_FunctionElement_s \<Rightarrow> string \<Rightarrow> gc_Element_e \<Rightarrow> 16 word \<Rightarrow> bool \<Rightarrow> am_Error_e \<times> string list" where
  "findMainNTStatusParam V f requested elementType ntType isStatusReq =
     (case pv_getListMainNotificationConfigurations V elementType (getValueOfParameter f requested) of (err, ncs) \<Rightarrow>
        if err \<noteq> E_OK then (E_UNKNOWN, [])
        else (case (if fe_optionalParameter f = REQUESTING then Some ntType
                    else map_option word_of_int (getEnumerationValue (pv_enums V) (fe_optionalParameter f))) of
                None \<Rightarrow> (E_NOT_POSSIBLE, [])
              | Some ty \<Rightarrow>
                  (case find (\<lambda>nc. nc_type nc = ty) ncs of
                     None \<Rightarrow> (E_UNKNOWN, [])
                   | Some nc \<Rightarrow> (E_OK, [if isStatusReq then dec_u (nc_status nc) else dec_s (nc_parameter nc)]))))"

definition findMainNT :: "bool \<Rightarrow> policy_env \<Rightarrow> gc_FunctionElement_s \<Rightarrow> gc_triggerParams_s \<Rightarrow> am_Error_e \<times> string list" where
  "findMainNT isStatusReq V f t =
     (case fe_category f of
        OT_SINK \<Rightarrow> findMainNTStatusParam V f (tp_sinkName t) ET_SINK (nc_type (tp_notificatonConfiguration t)) isStatusReq
      | OT_SOURCE \<Rightarrow> findMainNTStatusParam V f (tp_sourceName t) ET_SOURCE (nc_type (tp_notificatonConfiguration t)) isStatusReq
      | _ \<Rightarrow> (E_NOT_POSSIBLE, []))"

definition findNT :: "bool \<Rightarrow> policy_env \<Rightarrow> gc_FunctionElement_s \<Rightarrow> gc_triggerParams_s \<Rightarrow> am_Error_e \<times> string list" where
  "findNT isStatusReq V f t =
     (case fe_category f of
        OT_SINK \<Rightarrow> findNTStatusParam V f (tp_sinkName t) ET_SINK (nc_type (tp_notificatonConfiguration t)) isStatusReq
      | OT_SOURCE \<Rightarrow> findNTStatusParam V f (tp_sourceName t) ET_SOURCE (nc_type (tp_notificatonConfiguration t)) isStatusReq
      | OT_USER \<Rightarrow> (E_OK, [if isStatusReq then dec_u (nc_status (tp_notificatonConfiguration t))
                         else dec_s (nc_parameter (tp_notificatonConfiguration t))])
      | _ \<Rightarrow> (E_NOT_POSSIBLE, []))"

definition findUserNotificationType :: "policy_env \<Rightarrow> gc_FunctionElement_s \<Rightarrow> gc_triggerParams_s \<Rightarrow> am_Error_e \<times> string list" where
  "findUserNotificationType V f t = (E_OK, [dec_u (nc_type (tp_notificatonConfiguration t))])"

definition findNotificationType :: "policy_env \<Rightarrow> gc_FunctionElement_s \<Rightarrow> gc_triggerParams_s \<Rightarrow> am_Error_e \<times> string list" where
  "findNotificationType V f t = (E_OK, [dec_u (np_type (tp_notificatonPayload t))])"

definition findUserNotificationValue :: "policy_env \<Rightarrow> gc_FunctionElement_s \<Rightarrow> gc_triggerParams_s \<Rightarrow> am_Error_e \<times> string list" where
  "findUserNotificationValue V f t = (E_OK, [dec_s (np_value (tp_notificatonPayload t))])"

definition findDeviceVolume :: "policy_env \<Rightarrow> gc_FunctionElement_s \<Rightarrow> gc_triggerParams_s \<Rightarrow> am_Error_e \<times> string list" where
  "findDeviceVolume V f t =
     (case fe_category f of
        OT_SINK \<Rightarrow> one_output dec_s (pv_getVolume V ET_SINK (getValueOfParameter f (tp_sinkName t)))
      | OT_SOURCE \<Rightarrow> one_output dec_s (pv_getVolume V ET_SOURCE (getValueOfParameter f (tp_sourceName t)))
      | OT_CONNECTION \<Rightarrow> one_output dec_s (pv_getVolume V ET_CONNECTION (getValueOfParameter f (connection_of t)))
      | OT_CLASS \<Rightarrow>
          (case getConnectionList V ET_CLASS (getValueOfParameter f (tp_className t)) (fe_optionalParameter f) t of (err, cs) \<Rightarrow>
             if err \<noteq> E_OK then (E_UNKNOWN, []) else (E_OK, map (\<lambda>c. dec_s (ci_volume c)) cs))
      | _ \<Rightarrow> (E_NOT_POSSIBLE, []))"

definition findMainVolume :: "policy_env \<Rightarrow> gc_FunctionElement_s \<Rightarrow> gc_triggerParams_s \<Rightarrow> am_Error_e \<times> string list" where
  "findMainVolume V f t =
     (case fe_category f of
        OT_SINK \<Rightarrow> one_output dec_s (pv_getMainVolume V ET_SINK (getValueOfParameter f (tp_sinkName t)))
      | OT_SOURCE \<Rightarrow> one_output dec_s (pv_getMainVolume V ET_SOURCE (getValueOfParameter f (tp_sourceName t)))
      | OT_USER \<Rightarrow> (E_OK, [dec_s (tp_mainVolume t)])
      | _ \<Rightarrow> (E_NOT_POSSIBLE, []))"

definition findIsMainVolumeStep :: "policy_env \<Rightarrow> gc_FunctionElement_s \<Rightarrow> gc_triggerParams_s \<Rightarrow> am_Error_e \<times> string list" where
  "findIsMainVolumeStep V f t = (E_OK, [dec_bool (tp_isVolumeStep t)])"

definition findDevicePropertyValue :: "policy_env \<Rightarrow> gc_FunctionElement_s \<Rightarrow> gc_triggerParams_s \<Rightarrow> am_Error_e \<times> string list" where
  "findDevicePropertyValue V f t =
     (case (case fe_category f of OT_SINK \<Rightarrow> Some (ET_SINK, tp_sinkName t) | OT_SOURCE \<Rightarrow> Some (ET_SOURCE, tp_sourceName t) | _ \<Rightarrow> None) of
        None \<Rightarrow> (E_NOT_POSSIBLE, [])
      | Some (elementType, requested) \<Rightarrow>
          (case getEnumerationValue (pv_enums V) (fe_optionalParameter f) of
             None \<Rightarrow> (E_NOT_POSSIBLE, [])
           | Some v \<Rightarrow> one_output dec_s (pv_getSoundProperty V elementType (getValueOfParameter f requested) (word_of_int v))))"

definition findMainSoundPropertyValue :: "policy_env \<Rightarrow> gc_FunctionElement_s \<Rightarrow> gc_triggerParams_s \<Rightarrow> am_Error_e \<times> string list" where
  "findMainSoundPropertyValue V f t =
     (if fe_category f = OT_USER then (E_OK, [dec_s (pr_value (tp_mainSoundProperty t))])
      else case (case fe_category f of OT_SINK \<Rightarrow> Some (ET_SINK, tp_sinkName t) | OT_SOURCE \<Rightarrow> Some (ET_SOURCE, tp_sourceName t) | _ \<Rightarrow> None) of
        None \<Rightarrow> (E_NOT_POSSIBLE, [])
      | Some (elementType, requested) \<Rightarrow>
          (case getEnumerationValue (pv_enums V) (fe_optionalParameter f) of
             None \<Rightarrow> (E_NOT_POSSIBLE, [])
           | Some v \<Rightarrow> one_output dec_s (pv_getMainSoundProperty V elementType (getValueOfParameter f requested) (word_of_int v))))"

definition findMainSoundPropertyType :: "policy_env \<Rightarrow> gc_FunctionElement_s \<Rightarrow> gc_triggerParams_s \<Rightarrow> am_Error_e \<times> string list" where
  "findMainSoundPropertyType V f t = (E_OK, [dec_u (pr_type (tp_mainSoundProperty t))])"

definition findSystemPropertyType :: "policy_env \<Rightarrow> gc_FunctionElement_s \<Rightarrow> gc_triggerParams_s \<Rightarrow> am_Error_e \<times> string list" where
  "findSystemPropertyType V f t = (E_OK, [dec_u (pr_type (tp_systemProperty t))])"

definition findSystemPropertyValue :: "policy_env \<Rightarrow> gc_FunctionElement_s \<Rightarrow> gc_triggerParams_s \<Rightarrow> am_Error_e \<times> string list" where
  "findSystemPropertyValue V f t =
     (case fe_category f of
        OT_SYSTEM \<Rightarrow>
          (case (if fe_mandatoryParameter f = [] then Some (pr_type (tp_systemProperty t))
                 else map_option word_of_int (getEnumerationValue (pv_enums V) (fe_mandatoryParameter f))) of
             None \<Rightarrow> (E_NOT_POSSIBLE, [])
           | Some property \<Rightarrow> one_output dec_s (pv_getSystemProperty V property))
      | OT_USER \<Rightarrow> (E_OK, [dec_s (pr_value (tp_systemProperty t))])
      | _ \<Rightarrow> (E_NOT_POSSIBLE, []))"

definition findUserErrorValue :: "policy_env \<Rightarrow> gc_FunctionElement_s \<Rightarrow> gc_triggerParams_s \<Rightarrow> am_Error_e \<times> string list" where
  "findUserErrorValue V f t = (E_OK, [dec (error_code (tp_status t))])"

definition requested_name :: "gc_FunctionElement_s \<Rightarrow> string \<Rightarrow> am_Error_e \<times> string list" where
  "requested_name f nm = (if fe_mandatoryParameter f = REQUESTING \<and> fe_isValueMacro f then (E_OK, [nm]) else (E_UNKNOWN, []))"

definition findDomainOrClassOfElementName :: "(string \<times> gc_Point_s) list \<Rightarrow> gc_FunctionElement_s \<Rightarrow> string \<Rightarrow> bool \<Rightarrow> am_Error_e \<times> string list" where
  "findDomainOrClassOfElementName m f requested isClassRequired =
     (case getElementByName (getValueOfParameter f requested) m of
        None \<Rightarrow> (E_UNKNOWN, [])
      | Some p \<Rightarrow> (E_OK, [if isClassRequired then cp_className p else cp_domainName p]))"

definition members_of_class :: "policy_env \<Rightarrow> (string \<times> gc_Point_s) list \<Rightarrow> gc_FunctionElement_s \<Rightarrow> gc_triggerParams_s \<Rightarrow> bool \<Rightarrow> am_Error_e \<times> string list" where
  "members_of_class V m f t isSinkRequired =
     (let c = getValueOfParameter f (tp_className t) in
      if fe_optionalParameter f = ''ALL'' \<or> fe_optionalParameter f = []
      then (E_OK, map cp_name (filter (\<lambda>p. cp_className p = c) (cr_getListElements m)))
      else getNameList V c (fe_optionalParameter f) t isSinkRequired)"

definition findName :: "policy_env \<Rightarrow> gc_FunctionElement_s \<Rightarrow> gc_triggerParams_s \<Rightarrow> am_Error_e \<times> string list" where
  "findName V f t =
     (case fe_category f of
        OT_SINK \<Rightarrow> requested_name f (tp_sinkName t)
      | OT_SOURCE \<Rightarrow> requested_name f (tp_sourceName t)
      | OT_CLASS \<Rightarrow> requested_name f (tp_className t)
      | OT_CONNECTION \<Rightarrow> requested_name f (if tp_connectionName t = [] then connection_of t else tp_connectionName t)
      | OT_DOMAIN_OF_SOURCE \<Rightarrow> findDomainOrClassOfElementName (mMapSources (pv_config V)) f (tp_sourceName t) False
      | OT_DOMAIN_OF_SINK \<Rightarrow> findDomainOrClassOfElementName (mMapSinks (pv_config V)) f (tp_sinkName t) False
      | OT_CLASS_OF_SOURCE \<Rightarrow> findDomainOrClassOfElementName (mMapSources (pv_config V)) f (tp_sourceName t) True
      | OT_CLASS_OF_SINK \<Rightarrow> findDomainOrClassOfElementName (mMapSinks (pv_config V)) f (tp_sinkName t) True
      | OT_SOURCE_OF_CLASS \<Rightarrow> members_of_class V (mMapSources (pv_config V)) f t False
      | OT_SINK_OF_CLASS \<Rightarrow> members_of_class V (mMapSinks (pv_config V)) f t True
      | OT_DOMAIN \<Rightarrow> requested_name f (tp_domainName t)
      | _ \<Rightarrow> (E_NOT_POSSIBLE, []))"

definition elements_in :: "(string \<times> 16 word) list \<Rightarrow> 16 word \<Rightarrow> string list" where
  "elements_in es d = map fst (filter (\<lambda>e. snd e = d) es)"

definition findSubItems :: "policy_env \<Rightarrow> gc_FunctionElement_s \<Rightarrow> gc_triggerParams_s \<Rightarrow> am_Error_e \<times> string list" where
  "findSubItems V f t =
     (case fe_category f of
        OT_CLASS \<Rightarrow>
          (let c = (if fe_mandatoryParameter f = REQUESTING then tp_className t else fe_mandatoryParameter f);
               opt = fe_optionalParameter f in
           if opt = ''CONNECTION'' then
             (case pv_getListMainConnections V ET_CLASS c of (err, cs) \<Rightarrow> (err, map ci_connectionName cs))
           else if opt = ''SOURCE'' then getNameList V c ''ALL'' t False
           else if opt = ''SINK'' then getNameList V c ''ALL'' t True
           else (E_OK, []))
      | OT_DOMAIN \<Rightarrow>
          (case pv_domain V (fe_mandatoryParameter f) of
             None \<Rightarrow> (E_OK, [])
           | Some (d, _) \<Rightarrow>
               if fe_optionalParameter f = ''SOURCE'' then (E_OK, elements_in (pv_sources V) d)
               else if fe_optionalParameter f = ''SINK'' then (E_OK, elements_in (pv_sinks V) d)
               else (E_NOT_POSSIBLE, []))
      | _ \<Rightarrow> (E_NOT_POSSIBLE, []))"

text \<open>The position in the list is an unsigned 32 bit number, so a negative one lies behind every list.\<close>

definition findPeek :: "policy_env \<Rightarrow> gc_FunctionElement_s \<Rightarrow> gc_triggerParams_s \<Rightarrow> am_Error_e \<times> string list" where
  "findPeek V f t =
     (if fe_category f \<notin> {OT_SOURCE_OF_CLASS, OT_SINK_OF_CLASS} then (E_NOT_POSSIBLE, [])
      else case (if fe_optionalParameter f = [] then Some 0 else getEnumerationValue (pv_enums V) (fe_optionalParameter f)) of
        None \<Rightarrow> (E_NOT_POSSIBLE, [])
      | Some order \<Rightarrow>
          (let index = (if fe_optionalParameter2 f = [] then 0 else unat (word_of_int (atoi (fe_optionalParameter2 f)) :: 32 word)) in
           case pv_getOrderedConnections V (getValueOfParameter f (tp_className t)) order of (err, cs) \<Rightarrow>
             if err = E_OK \<and> index < length cs
             then (E_OK, [(if fe_category f = OT_SINK_OF_CLASS then ci_sinkName else ci_sourceName) (cs ! index)])
             else (E_UNKNOWN, [])))"

definition findScale :: "policy_env \<Rightarrow> gc_FunctionElement_s \<Rightarrow> gc_triggerParams_s \<Rightarrow> am_Error_e \<times> string list" where
  "findScale V f t = (case pv_scale V (fe_mandatoryParameter f) (fe_optionalParameter f) of (err, out) \<Rightarrow> (err, [out]))"

text \<open>
  The table of delimiters that \<open>strchr\<close> searches has no terminator; here the search ends with it.
\<close>

definition word_delimiter :: "char \<Rightarrow> bool" where
  "word_delimiter c \<longleftrightarrow> c \<in> set [CHR '' '', CHR 0x09, CHR 0x0A, CHR '','', CHR '';'']"

fun count_words :: "bool \<Rightarrow> 32 word \<Rightarrow> string \<Rightarrow> 32 word" where
  "count_words inWord n [] = n"
| "count_words inWord n (c # s) =
     (if word_delimiter c then count_words False n s
      else if \<not> inWord then count_words True (n + 1) s
      else count_words inWord n s)"

definition findCount :: "policy_env \<Rightarrow> gc_FunctionElement_s \<Rightarrow> gc_triggerParams_s \<Rightarrow> am_Error_e \<times> string list" where
  "findCount V f t = (E_OK, [dec (uint (count_words False 0 (fe_mandatoryParameter f)))])"

definition connection_priorities :: "am_Error_e \<times> gc_ConnectionInfo_s list \<Rightarrow> am_Error_e \<times> string list" where
  "connection_priorities r = (if fst r \<noteq> E_OK then (E_UNKNOWN, []) else (E_OK, map (\<lambda>c. dec (ci_priority c)) (snd r)))"

definition findPriority :: "policy_env \<Rightarrow> gc_FunctionElement_s \<Rightarrow> gc_triggerParams_s \<Rightarrow> am_Error_e \<times> string list" where
  "findPriority V f t =
     (case fe_category f of
        OT_SINK \<Rightarrow> (case getElementByName (getValueOfParameter f (tp_sinkName t)) (mMapSinks (pv_config V)) of
            None \<Rightarrow> (E_UNKNOWN, []) | Some p \<Rightarrow> (E_OK, [dec (cp_priority p)]))
      | OT_SOURCE \<Rightarrow> (case getElementByName (getValueOfParameter f (tp_sourceName t)) (mMapSources (pv_config V)) of
            None \<Rightarrow> (E_UNKNOWN, []) | Some p \<Rightarrow> (E_OK, [dec (cp_priority p)]))
      | OT_CLASS \<Rightarrow> (case getElementByName (getValueOfParameter f (tp_className t)) (mMapClasses (pv_config V)) of
            None \<Rightarrow> (E_UNKNOWN, []) | Some c \<Rightarrow> (E_OK, [dec (ca_priority c)]))
      | OT_CONNECTION \<Rightarrow> connection_priorities (pv_getListMainConnections V ET_CONNECTION (getValueOfParameter f (connection_of t)))
      | OT_CONNECTION_OF_CLASS \<Rightarrow>
          connection_priorities (getConnectionList V ET_CLASS (getValueOfParameter f (tp_className t)) (fe_optionalParameter f) t)
      | _ \<Rightarrow> (E_NOT_POSSIBLE, []))"

definition states_of :: "policy_env \<Rightarrow> gc_FunctionElement_s \<Rightarrow> string \<Rightarrow> gc_Element_e \<Rightarrow> am_Error_e \<times> string list" where
  "states_of V f requested elementType =
     (let nm = getValueOfParameter f requested in
      case pv_getListMainConnections V elementType nm of (err, cs) \<Rightarrow>
        if err \<noteq> E_OK then (E_DATABASE_ERROR, [])
        else (E_OK, map (\<lambda>c. dec (connection_state_code (ci_connectionState c)))
               (filter (\<lambda>c. case elementType of
                     ET_SOURCE \<Rightarrow> nm = ci_sourceName c
                   | ET_SINK \<Rightarrow> nm = ci_sinkName c
                   | ET_CONNECTION \<Rightarrow> nm = ci_connectionName c \<or> nm = ci_sourceName c @ CHR '':'' # ci_sinkName c
                   | _ \<Rightarrow> False) cs)))"

definition findConnectionState :: "policy_env \<Rightarrow> gc_FunctionElement_s \<Rightarrow> gc_triggerParams_s \<Rightarrow> am_Error_e \<times> string list" where
  "findConnectionState V f t =
     (case fe_category f of
        OT_CONNECTION_OF_CLASS \<Rightarrow>
          (case getConnectionList V ET_CLASS (getValueOfParameter f (tp_className t)) (fe_optionalParameter f) t of (err, cs) \<Rightarrow>
             if err \<noteq> E_OK then (E_UNKNOWN, []) else (E_OK, map (\<lambda>c. dec (connection_state_code (ci_connectionState c))) cs))
      | OT_CONNECTION_OF_SOURCE \<Rightarrow> states_of V f (tp_sourceName t) ET_SOURCE
      | OT_CONNECTION_OF_SINK \<Rightarrow> states_of V f (tp_sinkName t) ET_SINK
      | OT_CONNECTION \<Rightarrow> states_of V f [] ET_CONNECTION
      | OT_USER \<Rightarrow> (E_OK, [dec (connection_state_code (tp_connectionState t))])
      | _ \<Rightarrow> (E_NOT_POSSIBLE, []))"

definition findLimit :: "policy_env \<Rightarrow> gc_FunctionElement_s \<Rightarrow> gc_triggerParams_s \<Rightarrow> am_Error_e \<times> string list" where
  "findLimit V f t =
     (case (case fe_category f of OT_SOURCE \<Rightarrow> pv_offsetVolume V ET_SOURCE (fe_mandatoryParameter f)
              | OT_SINK \<Rightarrow> pv_offsetVolume V ET_SINK (fe_mandatoryParameter f)
              | OT_CONNECTION \<Rightarrow> pv_offsetVolume V ET_CONNECTION (fe_mandatoryParameter f)
              | _ \<Rightarrow> None) of
        None \<Rightarrow> (E_NOT_POSSIBLE, [])
      | Some v \<Rightarrow> (E_OK, [dec_s v]))"

definition findMuteState :: "policy_env \<Rightarrow> gc_FunctionElement_s \<Rightarrow> gc_triggerParams_s \<Rightarrow> am_Error_e \<times> string list" where
  "findMuteState V f t =
     (case fe_category f of
        OT_SINK \<Rightarrow> one_output (\<lambda>m. dec (mute_state_code m)) (pv_getMuteState V ET_SINK (getValueOfParameter f (tp_sinkName t)))
      | OT_CLASS \<Rightarrow> one_output (\<lambda>m. dec (mute_state_code m)) (pv_getMuteState V ET_CLASS (getValueOfParameter f (tp_className t)))
      | OT_CONNECTION \<Rightarrow> one_output (\<lambda>m. dec (mute_state_code m)) (pv_getMuteState V ET_CONNECTION (getValueOfParameter f (connection_of t)))
      | OT_USER \<Rightarrow> (E_OK, [dec (mute_state_code (tp_muteState t))])
      | _ \<Rightarrow> (E_NOT_POSSIBLE, []))"

definition availability_of :: "policy_env \<Rightarrow> gc_FunctionElement_s \<Rightarrow> gc_triggerParams_s \<Rightarrow> am_Error_e \<times> am_Availability_s" where
  "availability_of V f t =
     (case fe_category f of
        OT_SINK \<Rightarrow> pv_getAvailability V ET_SINK (getValueOfParameter f (tp_sinkName t))
      | OT_SOURCE \<Rightarrow> pv_getAvailability V ET_SOURCE (getValueOfParameter f (tp_sourceName t))
      | OT_USER \<Rightarrow> (E_OK, tp_availability t)
      | _ \<Rightarrow> (E_NOT_POSSIBLE, tp_availability t))"

definition findAvailability :: "policy_env \<Rightarrow> gc_FunctionElement_s \<Rightarrow> gc_triggerParams_s \<Rightarrow> am_Error_e \<times> string list" where
  "findAvailability V f t =
     (if fe_category f = OT_CONNECTION then
        (case pv_routeAvailability V (fe_mandatoryParameter f) of
           None \<Rightarrow> (E_NON_EXISTENT, [])
         | Some a \<Rightarrow> (E_OK, [dec (availability_code a)]))
      else case availability_of V f t of (err, a) \<Rightarrow> (err, if err = E_OK then [dec (availability_code (availability a))] else []))"

definition findAvailabilityReason :: "policy_env \<Rightarrow> gc_FunctionElement_s \<Rightarrow> gc_triggerParams_s \<Rightarrow> am_Error_e \<times> string list" where
  "findAvailabilityReason V f t =
     (case availability_of V f t of (err, a) \<Rightarrow> (err, if err = E_OK then [dec_u (availabilityReason a)] else []))"

definition findConnectionFormat :: "policy_env \<Rightarrow> gc_FunctionElement_s \<Rightarrow> gc_triggerParams_s \<Rightarrow> am_Error_e \<times> string list" where
  "findConnectionFormat V f t =
     (if fe_category f \<in> {OT_CONNECTION, OT_CLASS} then (E_OK, [dec_u (pv_CF_GENIVI_STEREO V)]) else (E_NOT_POSSIBLE, []))"

definition findInterruptState :: "policy_env \<Rightarrow> gc_FunctionElement_s \<Rightarrow> gc_triggerParams_s \<Rightarrow> am_Error_e \<times> string list" where
  "findInterruptState V f t =
     (case fe_category f of
        OT_SOURCE \<Rightarrow> one_output (\<lambda>i. dec (interrupt_state_code i)) (pv_getInterruptState V ET_SOURCE (getValueOfParameter f (tp_sourceName t)))
      | OT_CONNECTION \<Rightarrow> one_output (\<lambda>i. dec (interrupt_state_code i)) (pv_getInterruptState V ET_CONNECTION (getValueOfParameter f []))
      | OT_USER \<Rightarrow> (E_OK, [dec (interrupt_state_code (tp_interruptState t))])
      | _ \<Rightarrow> (E_NOT_POSSIBLE, []))"

text \<open>The domains a request is about: one by name, or all that are configured.\<close>

definition requested_domains :: "policy_env \<Rightarrow> gc_FunctionElement_s \<Rightarrow> gc_triggerParams_s \<Rightarrow> gc_Domain_s list" where
  "requested_domains V f t =
     (case isSingleDomainRequest f (tp_domainName t) of (single, nm) \<Rightarrow>
        if single then (case getElementByName nm (mMapDomains (pv_config V)) of None \<Rightarrow> [] | Some d \<Rightarrow> [d])
        else cr_getListElements (mMapDomains (pv_config V)))"

fun all_domains :: "(string \<Rightarrow> bool) \<Rightarrow> am_Error_e \<times> bool \<Rightarrow> gc_Domain_s list \<Rightarrow> am_Error_e \<times> bool" where
  "all_domains P r [] = r"
| "all_domains P r (d # ds) = (if P (do_name d) then all_domains P (E_OK, True) ds else (E_OK, False))"

definition domains_answer :: "(string \<Rightarrow> bool) \<Rightarrow> gc_Domain_s list \<Rightarrow> am_Error_e \<times> string list" where
  "domains_answer P ds = (case all_domains P (E_UNKNOWN, False) ds of (err, b) \<Rightarrow> (err, [dec_bool b]))"

definition findIsRegistered :: "policy_env \<Rightarrow> gc_FunctionElement_s \<Rightarrow> gc_triggerParams_s \<Rightarrow> am_Error_e \<times> string list" where
  "findIsRegistered V f t =
     (case fe_category f of
        OT_SINK \<Rightarrow> (E_OK, [dec_bool (pv_isRegistered V ET_SINK (getValueOfParameter f (tp_sinkName t)))])
      | OT_SOURCE \<Rightarrow> (E_OK, [dec_bool (pv_isRegistered V ET_SOURCE (getValueOfParameter f (tp_sourceName t)))])
      | OT_DOMAIN \<Rightarrow> domains_answer (pv_isRegistered V ET_DOMAIN) (requested_domains V f t)
      | _ \<Rightarrow> (E_NOT_POSSIBLE, []))"

definition findIsDomainRegistrationComplete :: "policy_env \<Rightarrow> gc_FunctionElement_s \<Rightarrow> gc_triggerParams_s \<Rightarrow> am_Error_e \<times> string list" where
  "findIsDomainRegistrationComplete V f t =
     (if fe_category f \<noteq> OT_DOMAIN then (E_NOT_POSSIBLE, [])
      else domains_answer (pv_isDomainRegistrationComplete V) (requested_domains V f t))"

text \<open>The loop over the domains leaves at the first one, on both branches before the output.\<close>

definition findState :: "policy_env \<Rightarrow> gc_FunctionElement_s \<Rightarrow> gc_triggerParams_s \<Rightarrow> am_Error_e \<times> string list" where
  "findState V f t =
     (case fe_category f of
        OT_SOURCE \<Rightarrow> (case pv_sourceState V (getValueOfParameter f (tp_sourceName t)) of
            None \<Rightarrow> (E_UNKNOWN, []) | Some s \<Rightarrow> (E_OK, [dec (source_state_code s)]))
      | OT_DOMAIN \<Rightarrow> (case requested_domains V f t of
            [] \<Rightarrow> (E_OK, [])
          | d # ds \<Rightarrow> (case pv_domain V (do_name d) of None \<Rightarrow> (E_UNKNOWN, []) | Some (_, err, _) \<Rightarrow> (err, [])))
      | _ \<Rightarrow> (E_NOT_POSSIBLE, []))"

section \<open>The tables of functions\<close>

definition mMapFunctionReturnValue :: "(string \<times> bool) list" where
  "mMapFunctionReturnValue =
     [(''name'', True), (''elements'', True), (''priority'', False), (''connectionState'', False), (''volume'', False),
      (''mainVolume'', False), (''isMainVolumeStep'', False), (''volumeLimit'', False), (''soundProperty'', False),
      (''mainSoundPropertyType'', False), (''systemPropertyType'', False), (''mainSoundPropertyValue'', False),
      (''systemPropertyValue'', False), (''muteState'', False), (''isRegistrationComplete'', False), (''availability'', False),
      (''availabilityReason'', False), (''connectionFormat'', False), (''interruptState'', False), (''isRegistered'', False),
      (''state'', False), (''peek'', True), (''error'', False), (''notificationConfigurationStatus'', False),
      (''notificationConfigurationParam'', False), (''notificationDataValue'', False), (''notificationDataType'', False),
      (''mainNotificationConfigurationType'', False), (''mainNotificationConfigurationStatus'', False),
      (''mainNotificationConfigurationParam'', False), (''scale'', False), (''count'', False)]"

text \<open>\<open>operator[]\<close> gives false for a name that is not in the table.\<close>

definition returns_string :: "string \<Rightarrow> bool" where
  "returns_string nm = (case map_of mMapFunctionReturnValue nm of None \<Rightarrow> False | Some b \<Rightarrow> b)"

definition mMapFunctionNameToFunctionMaps ::
    "(string \<times> (policy_env \<Rightarrow> gc_FunctionElement_s \<Rightarrow> gc_triggerParams_s \<Rightarrow> am_Error_e \<times> string list)) list" where
  "mMapFunctionNameToFunctionMaps =
     [(''name'', findName), (''elements'', findSubItems), (''priority'', findPriority), (''connectionState'', findConnectionState),
      (''volume'', findDeviceVolume), (''mainVolume'', findMainVolume), (''isMainVolumeStep'', findIsMainVolumeStep),
      (''volumeLimit'', findLimit), (''soundProperty'', findDevicePropertyValue),
      (''mainSoundPropertyValue'', findMainSoundPropertyValue), (''mainSoundPropertyType'', findMainSoundPropertyType),
      (''systemPropertyType'', findSystemPropertyType), (''systemPropertyValue'', findSystemPropertyValue),
      (''muteState'', findMuteState), (''isRegistrationComplete'', findIsDomainRegistrationComplete),
      (''availability'', findAvailability), (''availabilityReason'', findAvailabilityReason),
      (''interruptState'', findInterruptState), (''isRegistered'', findIsRegistered), (''state'', findState),
      (''connectionFormat'', findConnectionFormat), (''peek'', findPeek), (''error'', findUserErrorValue),
      (''notificationConfigurationStatus'', findNT True), (''notificationConfigurationParam'', findNT False),
      (''notificationDataValue'', findUserNotificationValue), (''notificationDataType'', findNotificationType),
      (''mainNotificationConfigurationType'', findUserNotificationType),
      (''mainNotificationConfigurationStatus'', findMainNT True), (''mainNotificationConfigurationParam'', findMainNT False),
      (''scale'', findScale), (''count'', findCount)]"

section \<open>Evaluation\<close>

datatype 'a outcome = Timeout | Undefined | Ret 'a

fun obind :: "'a outcome \<Rightarrow> ('a \<Rightarrow> 'b outcome) \<Rightarrow> 'b outcome" where
  "obind Timeout k = Timeout"
| "obind Undefined k = Undefined"
| "obind (Ret x) k = k x"

fun join_outputs :: "string list \<Rightarrow> string" where
  "join_outputs [] = []"
| "join_outputs [x] = x"
| "join_outputs (x # y # xs) = x @ CHR '' '' # join_outputs (y # xs)"

text \<open>The call of a function once its parameters are evaluated: \<open>None\<close> is false.\<close>

definition call_function :: "policy_env \<Rightarrow> gc_triggerParams_s \<Rightarrow> gc_FunctionElement_s \<Rightarrow> string list option" where
  "call_function V t f =
     (case map_of mMapFunctionNameToFunctionMaps (fe_functionName f) of
        None \<Rightarrow> None
      | Some g \<Rightarrow> (case g V f t of (err, out) \<Rightarrow> if err = E_OK then Some out else None))"

definition executeFunction :: "(string \<Rightarrow> string outcome) \<Rightarrow> policy_env \<Rightarrow> gc_triggerParams_s \<Rightarrow> gc_FunctionElement_s \<Rightarrow> string list option outcome" where
  "executeFunction evaluate V t f =
     obind (evaluate (fe_mandatoryParameter f)) (\<lambda>m.
     obind (evaluate (fe_optionalParameter f)) (\<lambda>o1.
     obind (evaluate (fe_optionalParameter2 f)) (\<lambda>o2.
       Ret (call_function V t (f\<lparr>fe_mandatoryParameter := m, fe_optionalParameter := o1, fe_optionalParameter2 := o2\<rparr>)))))"

fun evaluateParameter :: "nat \<Rightarrow> policy_env \<Rightarrow> gc_triggerParams_s \<Rightarrow> string \<Rightarrow> string outcome" where
  "evaluateParameter 0 V t parameter = Timeout"
| "evaluateParameter (Suc fuel) V t parameter =
     (let p = evaluateMacro t parameter in
      if CHR ''('' \<notin> set p then Ret p
      else case parsePolicyFunction p 0 of
             None \<Rightarrow> Undefined
           | Some (Inl err) \<Rightarrow> Ret p
           | Some (Inr (nested, position)) \<Rightarrow>
               obind (executeFunction (evaluateParameter fuel V t) V t nested)
                 (\<lambda>r. Ret (case r of None \<Rightarrow> p | Some out \<Rightarrow> join_outputs out)))"

section \<open>Conditions\<close>

definition conditionResult :: "'a :: linorder \<Rightarrow> int \<Rightarrow> 'a \<Rightarrow> bool" where
  "conditionResult lhs op rhs =
     (if op = 0 then lhs = rhs else if op = 1 then lhs > rhs else if op = 2 then lhs \<ge> rhs
      else if op = 3 then lhs < rhs else if op = 4 then lhs \<le> rhs else if op = 5 then lhs \<noteq> rhs else False)"

definition compare_outputs :: "policy_env \<Rightarrow> string \<Rightarrow> int \<Rightarrow> string list \<Rightarrow> string \<Rightarrow> bool outcome" where
  "compare_outputs V functionName op outputs rhs =
     (if op = 6 \<or> op = 7 then
        (case (if returns_string functionName then Some rhs else map_option dec (getEnumerationValue (pv_enums V) rhs)) of
           None \<Rightarrow> Undefined
         | Some r \<Rightarrow> Ret ((op = 6) = (r \<in> set outputs)))
      else case outputs of
             [] \<Rightarrow> Ret False
           | x # xs \<Rightarrow>
               if returns_string functionName then Ret (conditionResult x op rhs)
               else (case getEnumerationValue (pv_enums V) rhs of
                       None \<Rightarrow> Ret False
                     | Some n \<Rightarrow> Ret (conditionResult (atoi x) op n)))"

definition isConditionTrue :: "nat \<Rightarrow> policy_env \<Rightarrow> gc_triggerParams_s \<Rightarrow> gc_ConditionStruct_s \<Rightarrow> bool outcome" where
  "isConditionTrue fuel V t c =
     obind (executeFunction (evaluateParameter fuel V t) V t (cs_leftObject c)) (\<lambda>l.
       case l of
         None \<Rightarrow> Ret False
       | Some outputs \<Rightarrow>
           (case cs_rightObject c of
              RHSValue v \<Rightarrow> compare_outputs V (fe_functionName (cs_leftObject c)) (cs_operation c) outputs v
            | RHSFunction g \<Rightarrow>
                obind (executeFunction (evaluateParameter fuel V t) V t g) (\<lambda>r.
                  case r of
                    None \<Rightarrow> Ret False
                  | Some [] \<Rightarrow> Ret False
                  | Some (v # vs) \<Rightarrow> compare_outputs V (fe_functionName (cs_leftObject c)) (cs_operation c) outputs v)))"

fun evaluateConditionSet :: "nat \<Rightarrow> policy_env \<Rightarrow> gc_triggerParams_s \<Rightarrow> gc_ConditionStruct_s list \<Rightarrow> bool outcome" where
  "evaluateConditionSet fuel V t [] = Ret True"
| "evaluateConditionSet fuel V t (c # cs) =
     obind (isConditionTrue fuel V t c) (\<lambda>b. if b then evaluateConditionSet fuel V t cs else Ret False)"

section \<open>Nested functions: when the evaluation ends\<close>

abbreviation OPEN :: char where
  "OPEN \<equiv> CHR ''(''"

lemma nat_dec_chars: "c \<in> set (nat_dec n) \<Longrightarrow> isdigit c"
  using nat_dec_digits[of n] by (simp add: list_all_iff)

lemma dec_no_bracket [simp]: "OPEN \<notin> set (dec i)"
  by (auto simp: dec_def isdigit_def dest!: nat_dec_chars)

text \<open>A trigger none of whose names holds an opening bracket.\<close>

definition bracket_free :: "gc_triggerParams_s \<Rightarrow> bool" where
  "bracket_free t \<longleftrightarrow> (\<forall>nm\<in>{tp_sinkName t, tp_sourceName t, tp_domainName t, tp_gatewayName t, tp_className t, tp_connectionName t}. OPEN \<notin> set nm)"

lemma evaluateMacro_bracket:
  assumes "bracket_free t" "OPEN \<in> set (evaluateMacro t p)"
  shows "evaluateMacro t p = p"
proof (rule ccontr)
  assume "evaluateMacro t p \<noteq> p"
  then obtain v where "map_of (mapRequesting t) p = Some v" "evaluateMacro t p = v"
    by (auto simp: evaluateMacro_def split: if_splits option.splits)
  moreover have "\<forall>(k, v)\<in>set (mapRequesting t). OPEN \<notin> set v"
    using assms(1) by (simp add: mapRequesting_def bracket_free_def)
  ultimately show False
    using assms(2) by (auto dest!: map_of_SomeD)
qed

lemma removeLeadingSpace_range: "removeLeadingSpace s i = Some p \<Longrightarrow> i \<le> p \<and> p \<le> length s"
  using length_takeWhile_le[of "\<lambda>c. c = CHR '' '' \<or> c = CHR 0x09" "drop i s"]
  by (auto simp: removeLeadingSpace_def split: if_splits)

lemma findElement_length:
  assumes "findElement i t s u = Some (v, q)"
  shows "i + length v \<le> length s"
proof -
  from assms obtain p where "removeLeadingSpace s i = Some p" and v: "v = take (element_offset t u 0 False (drop p s)) (drop p s)"
    by (auto simp: findElement_def Let_def split: option.splits)
  then show ?thesis
    using removeLeadingSpace_range[of s i p] by (auto simp: v)
qed

lemma strip_quotes_length: "strip_quotes v = Some w \<Longrightarrow> length w \<le> length v"
  by (auto simp: strip_quotes_def split: if_splits dest!: findElement_length)

text \<open>A parameter is shorter than the text it was in, or it is one of the implied ones.\<close>

definition short :: "string \<Rightarrow> string \<Rightarrow> bool" where
  "short s v \<longleftrightarrow> length v < length s \<or> OPEN \<notin> set v"

lemma optional_parameter_short:
  assumes "optional_parameter s d p = Some (v, q)" "short s d"
  shows "short s v"
proof (cases "char_at s p = Some (CHR '','')")
  case True
  with assms obtain w r where "findElement (p + 1) (CHR '')'') s (CHR '','') = Some (w, r)" "strip_quotes w = Some v"
    by (auto simp: optional_parameter_def bind_eq_Some_conv)
  then show ?thesis
    using findElement_length strip_quotes_length by (fastforce simp: short_def)
next
  case False
  with assms show ?thesis
    by (auto simp: optional_parameter_def bind_eq_Some_conv split: if_splits)
qed

lemma parse_rest_short:
  assumes "parse_rest s nm cat m b p = Some (Inr (f, q))"
  shows "fe_mandatoryParameter f = m \<and> short s (fe_optionalParameter f) \<and> short s (fe_optionalParameter2 f)"
proof -
  obtain o1 p1 o2 p2 where
    "optional_parameter s (if nm = ''mainNotificationConfigurationParam'' \<or> nm = ''mainNotificationConfigurationStatus'' then REQUESTING else []) p = Some (o1, p1)"
    "optional_parameter s [] p1 = Some (o2, p2)"
    "fe_mandatoryParameter f = m" "fe_optionalParameter f = o1" "fe_optionalParameter2 f = o2"
    using assms by (auto simp: parse_rest_def bind_eq_Some_conv split: option.splits)
  then show ?thesis
    using optional_parameter_short[of s _ p o1 p1] optional_parameter_short[of s "[]" p1 o2 p2] by (auto simp: short_def)
qed

lemma parse_short:
  assumes "parsePolicyFunction s i = Some (Inr (f, q))"
  shows "short s (fe_mandatoryParameter f) \<and> short s (fe_optionalParameter f) \<and> short s (fe_optionalParameter2 f)"
proof -
  obtain nm p1 where "(if nm \<notin> set mValidFunctionNames then Some (Inl E_UNKNOWN)
       else do {
         (category0, p2) \<leftarrow> findElement (p1 + 1) (CHR '','') s (CHR '')'');
         c2 \<leftarrow> char_at s p2;
         let category = (if c2 = CHR '')'' \<and> category0 = [] then ''USER'' else category0);
         (mandatory0, p3) \<leftarrow> (if c2 = CHR '')'' then Some (''REQUESTING'', p2 + 1)
                              else findElement (p2 + 1) (CHR '')'') s (CHR '',''));
         if mandatory0 = [] \<or> hd mandatory0 \<noteq> QUOTE then
           (if macro_allowed nm category mandatory0 then parse_rest s nm category mandatory0 True p3
            else Some (Inl E_UNKNOWN))
         else do {
           mandatory \<leftarrow> strip_quotes mandatory0;
           parse_rest s nm category mandatory False p3 } }) = Some (Inr (f, q))"
    using assms unfolding parsePolicyFunction_def by (auto simp only: bind_eq_Some_conv prod.case)
  then have "\<exists>c0 p2. findElement (p1 + 1) (CHR '','') s (CHR '')'') = Some (c0, p2) \<and>
      (\<exists>c2. char_at s p2 = Some c2 \<and> (\<exists>m0 p3. (if c2 = CHR '')'' then Some (REQUESTING, p2 + 1) else findElement (p2 + 1) (CHR '')'') s (CHR '','')) = Some (m0, p3) \<and>
      (if m0 = [] \<or> hd m0 \<noteq> QUOTE then
           (if macro_allowed nm (if c2 = CHR '')'' \<and> c0 = [] then ''USER'' else c0) m0
            then parse_rest s nm (if c2 = CHR '')'' \<and> c0 = [] then ''USER'' else c0) m0 True p3 else Some (Inl E_UNKNOWN))
         else do { mandatory \<leftarrow> strip_quotes m0; parse_rest s nm (if c2 = CHR '')'' \<and> c0 = [] then ''USER'' else c0) mandatory False p3 })
       = Some (Inr (f, q))))"
    by (cases "nm \<in> set mValidFunctionNames")
      (simp_all only: if_True if_False not_True_eq_False not_False_eq_True bind_eq_Some_conv Let_def split_paired_Ex prod.case option.inject sum.distinct)
  then obtain c0 p2 c2 m0 p3 where
    c2: "char_at s p2 = Some c2" and
    m0: "(if c2 = CHR '')'' then Some (REQUESTING, p2 + 1) else findElement (p2 + 1) (CHR '')'') s (CHR '','')) = Some (m0, p3)" and
    rest: "(if m0 = [] \<or> hd m0 \<noteq> QUOTE then
           (if macro_allowed nm (if c2 = CHR '')'' \<and> c0 = [] then ''USER'' else c0) m0
            then parse_rest s nm (if c2 = CHR '')'' \<and> c0 = [] then ''USER'' else c0) m0 True p3 else Some (Inl E_UNKNOWN))
         else do { mandatory \<leftarrow> strip_quotes m0; parse_rest s nm (if c2 = CHR '')'' \<and> c0 = [] then ''USER'' else c0) mandatory False p3 })
       = Some (Inr (f, q))"
    by blast
  have m: "short s m0"
    using m0 findElement_length[of "p2 + 1" "CHR '')''" s "CHR '',''" m0 p3] by (auto simp: short_def split: if_splits)
  show ?thesis
  proof (cases "m0 = [] \<or> hd m0 \<noteq> QUOTE")
    case True
    then show ?thesis
      using rest m by (auto dest!: parse_rest_short split: if_splits)
  next
    case False
    then obtain m1 where m1: "strip_quotes m0 = Some m1"
      and r: "parse_rest s nm (if c2 = CHR '')'' \<and> c0 = [] then ''USER'' else c0) m1 False p3 = Some (Inr (f, q))"
      using rest by (auto simp: bind_eq_Some_conv)
    have "length m0 < length s"
      using m0 False findElement_length[of "p2 + 1" "CHR '')''" s "CHR '',''" m0 p3] by (auto split: if_splits)
    then have "short s m1"
      using strip_quotes_length[OF m1] by (simp add: short_def)
    with parse_rest_short[OF r] show ?thesis
      by simp
  qed
qed

lemma obind_Timeout: "obind x k = Timeout \<longleftrightarrow> x = Timeout \<or> (\<exists>a. x = Ret a \<and> k a = Timeout)"
  by (cases x) auto

lemma executeFunction_ends:
  assumes "\<forall>v\<in>{fe_mandatoryParameter f, fe_optionalParameter f, fe_optionalParameter2 f}. ev v \<noteq> Timeout"
  shows "executeFunction ev V t f \<noteq> Timeout"
  using assms by (auto simp: executeFunction_def obind_Timeout)

lemma evaluateParameter_flat:
  "\<lbrakk>bracket_free t; OPEN \<notin> set p; 0 < n\<rbrakk> \<Longrightarrow> evaluateParameter n V t p \<noteq> Timeout"
  by (cases n) (auto simp: Let_def dest: evaluateMacro_bracket)

lemma evaluateParameter_ends:
  assumes "bracket_free t"
  shows "length p < n \<Longrightarrow> evaluateParameter n V t p \<noteq> Timeout"
proof (induction n arbitrary: p)
  case 0
  then show ?case by simp
next
  case (Suc n)
  let ?p = "evaluateMacro t p"
  show ?case
  proof (cases "OPEN \<in> set ?p")
    case False
    then show ?thesis
      by simp
  next
    case True
    with assms have p: "?p = p"
      by (rule evaluateMacro_bracket)
    with True have "p \<noteq> []"
      by auto
    then have "0 < n"
      using Suc.prems by (cases p) auto
    have sh: "short p v \<Longrightarrow> evaluateParameter n V t v \<noteq> Timeout" for v
      using Suc evaluateParameter_flat[OF assms _ \<open>0 < n\<close>] by (auto simp: short_def)
    have "executeFunction (evaluateParameter n V t) V t f \<noteq> Timeout" if "parsePolicyFunction p 0 = Some (Inr (f, q))" for f q
      using parse_short[OF that] sh by (intro executeFunction_ends) auto
    then show ?thesis
      by (auto simp: p Let_def obind_Timeout split: option.splits sum.splits)
  qed
qed

text \<open>More fuel gives the same result.\<close>

lemma obind_mono: "\<lbrakk>obind x k \<noteq> Timeout; x \<noteq> Timeout \<Longrightarrow> y = x; \<And>a. k a \<noteq> Timeout \<Longrightarrow> k' a = k a\<rbrakk> \<Longrightarrow> obind y k' = obind x k"
  by (cases x) auto

lemma executeFunction_mono:
  assumes "executeFunction ev V t f \<noteq> Timeout" and "\<And>v. ev v \<noteq> Timeout \<Longrightarrow> ev' v = ev v"
  shows "executeFunction ev' V t f = executeFunction ev V t f"
  using assms(1) unfolding executeFunction_def by (elim obind_mono) (auto intro: assms(2) obind_mono)

lemma evaluateParameter_mono: "evaluateParameter n V t p \<noteq> Timeout \<Longrightarrow> evaluateParameter (Suc n) V t p = evaluateParameter n V t p"
proof (induction n arbitrary: p)
  case 0
  then show ?case by simp
next
  case (Suc n)
  let ?p = "evaluateMacro t p"
  show ?case
  proof (cases "\<exists>f q. OPEN \<in> set ?p \<and> parsePolicyFunction ?p 0 = Some (Inr (f, q))")
    case True
    then obtain f q where fq: "OPEN \<in> set ?p" "parsePolicyFunction ?p 0 = Some (Inr (f, q))"
      by auto
    with Suc.prems have "executeFunction (evaluateParameter n V t) V t f \<noteq> Timeout"
      by auto
    then have "executeFunction (evaluateParameter (Suc n) V t) V t f = executeFunction (evaluateParameter n V t) V t f"
      by (rule executeFunction_mono) (rule Suc.IH)
    then show ?thesis
      using fq by (simp add: evaluateParameter.simps(2)[of "Suc n"] evaluateParameter.simps(2)[of n] del: evaluateParameter.simps)
  next
    case False
    then show ?thesis
      by (auto simp: Let_def split: option.splits sum.splits)
  qed
qed

definition params_of :: "gc_FunctionElement_s \<Rightarrow> string set" where
  "params_of f = {fe_mandatoryParameter f, fe_optionalParameter f, fe_optionalParameter2 f}"

fun condition_params :: "gc_ConditionStruct_s \<Rightarrow> string set" where
  "condition_params c = params_of (cs_leftObject c) \<union> (case cs_rightObject c of RHSValue v \<Rightarrow> {} | RHSFunction g \<Rightarrow> params_of g)"

lemma compare_outputs_ends [simp]: "compare_outputs V nm op out v \<noteq> Timeout"
  by (auto simp: compare_outputs_def split: option.splits list.splits)

lemma executeFunction_enough:
  assumes "bracket_free t" "\<forall>v\<in>params_of f. length v < n"
  shows "executeFunction (evaluateParameter n V t) V t f \<noteq> Timeout"
  using assms evaluateParameter_ends[OF assms(1)] by (intro executeFunction_ends) (auto simp: params_of_def)

lemma isConditionTrue_ends:
  assumes "bracket_free t" "\<forall>v\<in>condition_params c. length v < n"
  shows "isConditionTrue n V t c \<noteq> Timeout"
  using assms executeFunction_enough[OF assms(1), of "cs_leftObject c" n V]
    executeFunction_enough[OF assms(1), of _ n V]
  by (auto simp: isConditionTrue_def obind_Timeout split: option.splits gc_RHSElement_s.splits list.splits)

lemma isConditionTrue_mono:
  assumes "isConditionTrue n V t c \<noteq> Timeout"
  shows "isConditionTrue (Suc n) V t c = isConditionTrue n V t c"
  using assms unfolding isConditionTrue_def
  by (elim obind_mono) (auto intro!: executeFunction_mono evaluateParameter_mono obind_mono split: option.splits gc_RHSElement_s.splits)

lemma evaluateConditionSet_ends:
  "\<lbrakk>bracket_free t; \<forall>c\<in>set cs. \<forall>v\<in>condition_params c. length v < n\<rbrakk> \<Longrightarrow> evaluateConditionSet n V t cs \<noteq> Timeout"
  by (induction cs) (auto simp: obind_Timeout isConditionTrue_ends simp del: condition_params.simps)

lemma evaluateConditionSet_mono:
  "evaluateConditionSet n V t cs \<noteq> Timeout \<Longrightarrow> evaluateConditionSet (Suc n) V t cs = evaluateConditionSet n V t cs"
proof (induction cs)
  case (Cons c cs)
  have "obind (isConditionTrue (Suc n) V t c) (\<lambda>b. if b then evaluateConditionSet (Suc n) V t cs else Ret False)
      = obind (isConditionTrue n V t c) (\<lambda>b. if b then evaluateConditionSet n V t cs else Ret False)"
    using Cons.prems by (intro obind_mono) (auto simp: isConditionTrue_mono Cons.IH split: if_splits)
  then show ?case
    by simp
qed simp

text \<open>
  C25: the evaluation of a condition set ends. When no name in the trigger holds an opening bracket, any
  fuel beyond the length of the longest parameter in the conditions is enough, however deeply functions
  are nested in the parameters, and all such fuels give the same result: the conditions hold, do not
  hold, or the text of a nested function is read behind its end.
\<close>

theorem evaluateConditionSet_returns:
  assumes "bracket_free t" and "\<forall>c\<in>set cs. \<forall>v\<in>condition_params c. length v < n"
  shows "\<exists>r. r \<noteq> Timeout \<and> (\<forall>fuel\<ge>n. evaluateConditionSet fuel V t cs = r)"
proof (intro exI conjI allI impI)
  have e: "evaluateConditionSet k V t cs \<noteq> Timeout" if "n \<le> k" for k
    using assms that by (intro evaluateConditionSet_ends) (auto intro: less_le_trans)
  then show "evaluateConditionSet n V t cs \<noteq> Timeout"
    by simp
  fix fuel
  assume "n \<le> fuel"
  then show "evaluateConditionSet fuel V t cs = evaluateConditionSet n V t cs"
    by (induction fuel rule: dec_induct) (simp_all add: e evaluateConditionSet_mono)
qed

definition demo_condition :: gc_ConditionStruct_s where
  "demo_condition = \<lparr>cs_leftObject = \<lparr>fe_functionName = ''mainVolume'', fe_category = OT_USER, fe_mandatoryParameter = REQUESTING,
       fe_optionalParameter = [], fe_optionalParameter2 = [], fe_isValueMacro = True\<rparr>,
     cs_operation = 1, cs_rightObject = RHSValue ''-20''\<rparr>"

lemma evaluateConditionSet_returns_witness:
  "\<forall>V. \<exists>r. r \<noteq> Timeout \<and> (\<forall>fuel\<ge>11. evaluateConditionSet fuel V tp_init [demo_condition] = r)"
  by (intro allI evaluateConditionSet_returns) (code_simp, simp add: demo_condition_def params_of_def)

text \<open>
  a name with a function in it can keep the evaluation from ending. A sink whose name is a function
  of the requested sink is evaluated again for its own parameter, without end.
\<close>

definition bad_name :: string where
  "bad_name = ''name(SINK,REQ_SINK_NAME)''"

theorem evaluation_of_name_diverges:
  "\<forall>V fuel. evaluateParameter fuel V (tp_init\<lparr>tp_sinkName := bad_name\<rparr>) ''REQ_SINK_NAME'' = Timeout"
proof (intro allI)
  fix V fuel
  show "evaluateParameter fuel V (tp_init\<lparr>tp_sinkName := bad_name\<rparr>) ''REQ_SINK_NAME'' = Timeout"
  proof (induction fuel)
    case (Suc fuel)
    have "evaluateMacro (tp_init\<lparr>tp_sinkName := bad_name\<rparr>) ''REQ_SINK_NAME'' = bad_name"
      by (simp add: evaluateMacro_def mapRequesting_def)
    moreover have "OPEN \<in> set bad_name"
      by (simp add: bad_name_def)
    moreover have "parsePolicyFunction bad_name 0 = Some (Inr (\<lparr>fe_functionName = ''name'', fe_category = OT_SINK,
        fe_mandatoryParameter = ''REQ_SINK_NAME'', fe_optionalParameter = [], fe_optionalParameter2 = [], fe_isValueMacro = True\<rparr>, 24))"
      by code_simp
    ultimately show ?case
      using Suc by (simp add: executeFunction_def)
  qed simp
qed

section \<open>What a condition says\<close>

text \<open>
  a condition on numbers compares numbers. When the function on the left gives the numbers \<open>xs\<close> as
  its outputs and the right side is a number \<open>n\<close>, in symbolic or decimal form, then \<open>INC\<close> and \<open>EXC\<close> are
  membership in \<open>xs\<close>, the six comparisons compare the first of \<open>xs\<close> with \<open>n\<close> as signed numbers, and
  without outputs only \<open>EXC\<close> holds.
\<close>

theorem condition_on_numbers:
  assumes "executeFunction (evaluateParameter fuel V t) V t (cs_leftObject c) = Ret (Some (map dec xs))"
    and "\<not> returns_string (fe_functionName (cs_leftObject c))"
    and "cs_rightObject c = RHSValue v" and "getEnumerationValue (pv_enums V) v = Some n"
    and "\<forall>x\<in>set (n # xs). - (2 ^ 31) \<le> x \<and> x < 2 ^ 31"
  shows "isConditionTrue fuel V t c = Ret
    (if cs_operation c = 6 then n \<in> set xs
     else if cs_operation c = 7 then n \<notin> set xs
     else xs \<noteq> [] \<and> conditionResult (hd xs) (cs_operation c) n)"
proof -
  have "dec n \<in> set (map dec xs) \<longleftrightarrow> n \<in> set xs"
    using assms(5) dec_inj by auto
  moreover have "xs \<noteq> [] \<Longrightarrow> atoi (dec (hd xs)) = hd xs"
    using assms(5) by (cases xs) (auto intro: atoi_dec)
  ultimately show ?thesis
    using assms(1-4) by (cases xs) (auto simp: isConditionTrue_def compare_outputs_def)
qed

text \<open>The condition \<open>mainVolume(USER) GT -20\<close> on a request for a volume.\<close>

lemma demo_condition_parsed:
  "parseCondition [''GT'' \<mapsto> 1] ''mainVolume(USER) GT -20'' = Some (Inr demo_condition)"
  by code_simp

lemma demo_condition_left:
  "executeFunction (evaluateParameter 1 V (tp_init\<lparr>tp_mainVolume := v\<rparr>)) V (tp_init\<lparr>tp_mainVolume := v\<rparr>) (cs_leftObject demo_condition)
    = Ret (Some (map dec [sint v]))"
  by (simp add: executeFunction_def demo_condition_def evaluateMacro_def call_function_def mMapFunctionNameToFunctionMaps_def findMainVolume_def)

lemma condition_on_numbers_witness:
  "\<forall>V. isConditionTrue 1 V (tp_init\<lparr>tp_mainVolume := -10\<rparr>) demo_condition = Ret True"
proof
  fix V
  have "isConditionTrue 1 V (tp_init\<lparr>tp_mainVolume := -10\<rparr>) demo_condition = Ret
    (if cs_operation demo_condition = 6 then -20 \<in> set [sint (-10 :: 16 word)]
     else if cs_operation demo_condition = 7 then -20 \<notin> set [sint (-10 :: 16 word)]
     else [sint (-10 :: 16 word)] \<noteq> [] \<and> conditionResult (hd [sint (-10 :: 16 word)]) (cs_operation demo_condition) (-20))"
  proof (rule condition_on_numbers)
    show "executeFunction (evaluateParameter 1 V (tp_init\<lparr>tp_mainVolume := -10\<rparr>)) V (tp_init\<lparr>tp_mainVolume := -10\<rparr>) (cs_leftObject demo_condition)
        = Ret (Some (map dec [sint (-10 :: 16 word)]))"
      by (rule demo_condition_left)
    show "\<not> returns_string (fe_functionName (cs_leftObject demo_condition))"
      by code_simp
    show "cs_rightObject demo_condition = RHSValue ''-20''"
      by (simp add: demo_condition_def)
    have "strtol_all ''-20'' = Some (-20)"
      by code_simp
    then show "getEnumerationValue (pv_enums V) ''-20'' = Some (-20)"
      by (simp add: getEnumerationValue_def to_int32_id)
    show "\<forall>x\<in>set [-20, sint (-10 :: 16 word)]. - (2 ^ 31) \<le> x \<and> x < 2 ^ 31"
      by simp
  qed
  also have "\<dots> = Ret True"
    by (simp add: demo_condition_def conditionResult_def)
  finally show "isConditionTrue 1 V (tp_init\<lparr>tp_mainVolume := -10\<rparr>) demo_condition = Ret True" .
qed

text \<open>
  the state of a domain is never known to a condition. Whatever domains are configured or registered
  and whatever state they report, a condition whose left side is \<open>state(DOMAIN, ...)\<close> with any operator but
  \<open>EXC\<close> does not hold, because the loop that should append the state leaves before it does.
\<close>

theorem domain_state_condition_fails:
  assumes "fe_functionName (cs_leftObject c) = ''state''" and "fe_category (cs_leftObject c) = OT_DOMAIN"
    and "cs_operation c \<noteq> 7"
  shows "isConditionTrue fuel V t c \<noteq> Ret True"
proof -
  have call: "call_function V t f \<in> {None, Some []}" if "fe_functionName f = ''state''" "fe_category f = OT_DOMAIN" for f
    using that by (auto simp: call_function_def mMapFunctionNameToFunctionMaps_def findState_def split: list.splits option.splits)
  have call': "call_function V t ((cs_leftObject c)\<lparr>fe_mandatoryParameter := m, fe_optionalParameter := o1, fe_optionalParameter2 := o2\<rparr>) \<in> {None, Some []}" for m o1 o2
    by (rule call) (simp_all add: assms)
  have "executeFunction ev V t (cs_leftObject c) \<in> {Timeout, Undefined, Ret None, Ret (Some [])}" for ev
  proof -
    have "executeFunction ev V t (cs_leftObject c) = Ret r \<Longrightarrow> r \<in> {None, Some []}" for r
      unfolding executeFunction_def using call'
      by (cases "ev (fe_mandatoryParameter (cs_leftObject c))"; cases "ev (fe_optionalParameter (cs_leftObject c))";
          cases "ev (fe_optionalParameter2 (cs_leftObject c))") auto
    then show ?thesis
      by (cases "executeFunction ev V t (cs_leftObject c)") auto
  qed
  note left = this[of "evaluateParameter fuel V t"]
  have cmp: "compare_outputs V ''state'' (cs_operation c) [] v \<noteq> Ret True" for v
    using assms(3) by (auto simp: compare_outputs_def split: option.splits)
  have ob: "obind x k \<noteq> Ret True" if "\<And>a. k a \<noteq> Ret True" for x :: "string list option outcome" and k
    using that by (cases x) auto
  have "executeFunction (evaluateParameter fuel V t) V t (cs_leftObject c) = Ret (Some []) \<Longrightarrow> ?thesis"
    by (cases "cs_rightObject c") (auto simp: isConditionTrue_def assms(1) cmp intro!: ob split: option.splits list.splits)
  with left show ?thesis
    by (auto simp: isConditionTrue_def)
qed

lemma domain_state_condition_fails_witness:
  "\<forall>fuel V t. isConditionTrue fuel V t \<lparr>cs_leftObject = \<lparr>fe_functionName = ''state'', fe_category = OT_DOMAIN, fe_mandatoryParameter = ''ALL'',
     fe_optionalParameter = [], fe_optionalParameter2 = [], fe_isValueMacro = True\<rparr>, cs_operation = 0, cs_rightObject = RHSValue ''1''\<rparr> \<noteq> Ret True"
  by (intro allI domain_state_condition_fails) simp_all

end
