(* ===== verification/Policy_Engine.thy ===== *)
theory Policy_Engine
  imports Policy_Functions Trigger_Queue
begin

text \<open>
  The policy engine (\<open>CAmPolicyEngine.cpp\<close>): from a trigger to the list of actions. The processes of
  the trigger are tried in order; the actions of one whose conditions hold get their parameters
  evaluated and completed from the trigger; at the end come the actions that a trigger implies by
  itself. What the engine asks elements and the controller for is the record \<open>engine_env\<close>; what it
  changes, the trigger queue and the domains of routes, is \<open>engine_state\<close>.
\<close>

section \<open>Parameters of actions\<close>

definition isParameterSet :: "string \<Rightarrow> param_map \<Rightarrow> bool" where
  "isParameterSet k m \<longleftrightarrow> map_of m k \<noteq> None"

definition set_param :: "string \<Rightarrow> string \<Rightarrow> gc_Action_s \<Rightarrow> gc_Action_s" where
  "set_param k v a = a\<lparr>mapParameters := om_insert k v (mapParameters a)\<rparr>"

definition set_missing :: "string \<Rightarrow> string \<Rightarrow> gc_Action_s \<Rightarrow> gc_Action_s" where
  "set_missing k v a = (if isParameterSet k (mapParameters a) then a else set_param k v a)"

definition complete_target :: "gc_triggerParams_s \<Rightarrow> gc_Action_s \<Rightarrow> gc_Action_s" where
  "complete_target t a =
     (if actionType a \<in> {ACTION_MUTE, ACTION_UNMUTE} then
        (if \<not> isParameterSet ''sinkName'' (mapParameters a) \<and> \<not> isParameterSet ''className'' (mapParameters a)
         then set_param ''sinkName'' (tp_sinkName t) a else a)
      else if actionType a = ACTION_SET_VOLUME then
        (if list_ex (\<lambda>k. isParameterSet k (mapParameters a)) [''volume'', ''volumeStep'', ''mainVolume'', ''mainVolumeStep''] then a
         else set_param (if tp_isVolumeStep t then ''mainVolumeStep'' else ''mainVolume'') (dec_s (tp_mainVolume t)) a)
      else if actionType a = ACTION_SET_PROPERTY then
        set_missing ''propertyValue'' (dec_s (pr_value (tp_mainSoundProperty t)))
          (set_missing ''propertyType'' (dec_u (pr_type (tp_mainSoundProperty t))) a)
      else a)"

text \<open>
  The two branches for lists of properties read the parameter into a variable that is not used.
\<close>

definition updateActionParameters :: "gc_triggerParams_s \<Rightarrow> gc_Action_s \<Rightarrow> gc_Action_s" where
  "updateActionParameters t a0 =
     (let a = complete_target t a0; nc = tp_notificatonConfiguration t; sp = tp_systemProperty t in
      case actionType a of
        ACTION_MUTE \<Rightarrow> set_param ''muteState'' (dec (mute_state_code MS_MUTED)) a
      | ACTION_UNMUTE \<Rightarrow> set_param ''muteState'' (dec (mute_state_code MS_UNMUTED)) a
      | ACTION_LIMIT \<Rightarrow> set_param ''limitState'' (dec (limit_state_code LS_LIMITED)) a
      | ACTION_UNLIMIT \<Rightarrow> set_param ''limitState'' (dec (limit_state_code LS_UNLIMITED)) a
      | ACTION_DEBUG \<Rightarrow> set_missing ''debugValue'' (dec_s (pr_value sp)) (set_missing ''debugType'' (dec_u (pr_type sp)) a)
      | ACTION_SET_SYSTEM_PROPERTY \<Rightarrow>
          set_missing ''propertyValue'' (dec_s (pr_value sp)) (set_missing ''propertyType'' (dec_u (pr_type sp)) a)
      | ACTION_SET_NOTIFICATION_CONFIGURATION \<Rightarrow>
          set_missing ''notificationConfigurationStatus'' (dec_u (nc_status nc))
            (set_missing ''notificationConfigurationParam'' (dec_s (nc_parameter nc))
              (set_missing ''notificationConfigurationType'' (dec_u (nc_type nc)) a))
      | _ \<Rightarrow> a)"

text \<open>
  Replacing the unquoted macro within an exception list and dropping the quotation marks. A macro at
  the very start is compared with the byte before the buffer of the text, \<open>before\<close>. A name that
  contains the macro again is replaced again, so the loop has fuel.
\<close>

fun find_sub :: "string \<Rightarrow> string \<Rightarrow> nat option" where
  "find_sub pat [] = (if pat = [] then Some 0 else None)"
| "find_sub pat (c # s) = (if take (length pat) (c # s) = pat then Some 0 else map_option Suc (find_sub pat s))"

definition find_from :: "string \<Rightarrow> nat \<Rightarrow> string \<Rightarrow> nat option" where
  "find_from pat i s = (if i \<le> length s then map_option (\<lambda>k. i + k) (find_sub pat (drop i s)) else None)"

fun replace_macro :: "nat \<Rightarrow> char \<Rightarrow> string \<Rightarrow> nat option \<Rightarrow> string \<Rightarrow> string outcome" where
  "replace_macro fuel before rep None s = Ret s"
| "replace_macro 0 before rep (Some found) s = Timeout"
| "replace_macro (Suc fuel) before rep (Some found) s =
     (let s' = (if (if found = 0 then before else s ! (found - 1)) \<noteq> QUOTE then take found s @ rep @ drop (found + 10) s else s)
      in replace_macro fuel before rep (find_from REQUESTING (found + 1) s') s')"

definition removeDoubleQuotes :: "nat \<Rightarrow> char \<Rightarrow> string \<Rightarrow> string \<Rightarrow> string outcome" where
  "removeDoubleQuotes fuel before rep s =
     obind (replace_macro fuel before rep (find_from REQUESTING 0 s) s) (\<lambda>s'. Ret (filter (\<lambda>c. c \<noteq> QUOTE) s'))"

fun quotes_from_bracket :: "bool \<Rightarrow> string \<Rightarrow> string" where
  "quotes_from_bracket seen [] = []"
| "quotes_from_bracket seen (c # s) =
     (let seen' = (seen \<or> c = CHR ''('') in (if seen' \<and> c = CHR 0x27 then QUOTE else c) # quotes_from_bracket seen' s)"

definition evaluateParameterFunction :: "nat \<Rightarrow> policy_env \<Rightarrow> gc_triggerParams_s \<Rightarrow> string \<Rightarrow> string outcome" where
  "evaluateParameterFunction fuel V t v =
     (if CHR ''('' \<in> set v then evaluateParameter fuel V t (quotes_from_bracket False v) else Ret v)"

definition property_list :: "am_Property_s list \<Rightarrow> string" where
  "property_list ps = concat (map (\<lambda>p. ''('' @ dec_u (pr_type p) @ '':'' @ dec_s (pr_value p) @ '')'') ps)"

definition convert_value :: "nat \<Rightarrow> char \<Rightarrow> policy_env \<Rightarrow> gc_triggerParams_s \<Rightarrow> string \<Rightarrow> string \<Rightarrow> string outcome" where
  "convert_value fuel before V t k v0 =
     obind (evaluateParameterFunction fuel V t (evaluateMacro t v0)) (\<lambda>v.
       if k = ''exceptSource'' then removeDoubleQuotes fuel before (tp_sourceName t) v
       else if k = ''exceptSink'' then removeDoubleQuotes fuel before (tp_sinkName t) v
       else if k = ''exceptClass'' then removeDoubleQuotes fuel before (tp_className t) v
       else if v \<noteq> [] \<and> hd v = QUOTE then removeDoubleQuotes fuel before [] v
       else if v = REQUESTING then
         Ret (if k = ''sourceName'' then tp_sourceName t
              else if k = ''sinkName'' then tp_sinkName t
              else if k = ''className'' then tp_className t
              else if k = ''listMainSoundProperties'' then property_list (tp_listMainSoundProperty t)
              else if k = ''listSystemProperties'' then property_list (tp_listSystemProperties t)
              else v)
       else Ret v)"

fun convert_params :: "nat \<Rightarrow> char \<Rightarrow> policy_env \<Rightarrow> gc_triggerParams_s \<Rightarrow> param_map \<Rightarrow> param_map outcome" where
  "convert_params fuel before V t [] = Ret []"
| "convert_params fuel before V t ((k, v) # m) =
     obind (convert_value fuel before V t k v) (\<lambda>v'. obind (convert_params fuel before V t m) (\<lambda>m'. Ret ((k, v') # m')))"

definition convertActionParamsToValues :: "nat \<Rightarrow> char \<Rightarrow> policy_env \<Rightarrow> gc_triggerParams_s \<Rightarrow> gc_Action_s \<Rightarrow> gc_Action_s outcome" where
  "convertActionParamsToValues fuel before V t a =
     obind (convert_params fuel before V t (mapParameters a)) (\<lambda>m. Ret (a\<lparr>mapParameters := m\<rparr>))"

section \<open>Actions of the policies\<close>

fun process_actions :: "nat \<Rightarrow> char \<Rightarrow> policy_env \<Rightarrow> gc_triggerParams_s \<Rightarrow> gc_Action_s list \<Rightarrow> gc_Action_s list outcome" where
  "process_actions fuel before V t [] = Ret []"
| "process_actions fuel before V t (a # as) =
     obind (convertActionParamsToValues fuel before V t a) (\<lambda>a'.
     obind (process_actions fuel before V t as) (\<lambda>as'. Ret (updateActionParameters t a' # as')))"

definition getActionsfromPolicy :: "nat \<Rightarrow> char \<Rightarrow> policy_env \<Rightarrow> gc_triggerParams_s \<Rightarrow> gc_Process_s \<Rightarrow> (bool \<times> gc_Action_s list) outcome" where
  "getActionsfromPolicy fuel before V t p =
     obind (evaluateConditionSet fuel V t (listConditions p)) (\<lambda>b.
       if b then obind (process_actions fuel before V t (listActions p)) (\<lambda>as. Ret (stopEvaluation p, as))
       else Ret (False, []))"

fun policy_loop :: "nat \<Rightarrow> char \<Rightarrow> policy_env \<Rightarrow> gc_triggerParams_s \<Rightarrow> gc_Process_s list \<Rightarrow> gc_Action_s list outcome" where
  "policy_loop fuel before V t [] = Ret []"
| "policy_loop fuel before V t (p # ps) =
     obind (getActionsfromPolicy fuel before V t p) (\<lambda>(stop, as).
       if stop then Ret as else obind (policy_loop fuel before V t ps) (\<lambda>rest. Ret (as @ rest)))"

section \<open>Implicit actions\<close>

record engine_connection =
  ec_name :: string
  ec_mainSource :: string
  ec_mainSink :: string
  ec_routes :: "(nat \<times> string \<times> string) list"  \<comment> \<open>route element, names of its source and sink\<close>

record engine_env =
  ev_policy :: policy_env
  ev_connection :: "string \<Rightarrow> engine_connection option"
  ev_classByConnection :: "string \<Rightarrow> string option"
  ev_getDomainInfoByID :: "16 word \<Rightarrow> am_Error_e"
  ev_getListGatewaysOfDomain :: "16 word \<Rightarrow> am_Error_e \<times> 16 word list"
  ev_getListSinksOfDomain :: "16 word \<Rightarrow> am_Error_e \<times> 16 word list"
  ev_getListSourcesOfDomain :: "16 word \<Rightarrow> am_Error_e \<times> 16 word list"
  ev_gateway :: "16 word \<Rightarrow> 16 word option"  \<comment> \<open>its sink\<close>
  ev_gatewayByName :: "string \<Rightarrow> (16 word \<times> 16 word) option"  \<comment> \<open>its source and sink\<close>
  ev_sink :: "16 word \<Rightarrow> string option"
  ev_source :: "16 word \<Rightarrow> string option"
  ev_elementClassName :: "gc_Element_e \<Rightarrow> string \<Rightarrow> string"
  ev_lastSoundProperty :: "string \<Rightarrow> gc_Element_e \<Rightarrow> string \<Rightarrow> am_MainSoundProperty_s list option"  \<comment> \<open>of a class\<close>
  ev_isMSPPersistenceSupported :: "gc_Element_e \<Rightarrow> string \<Rightarrow> 16 word \<Rightarrow> bool"
  ev_SYP_REGSTRATION_SOUND_PROP_RESTORED :: "16 word"

record engine_state =
  es_queue :: trigger_queue
  es_routeDomain :: "nat \<Rightarrow> 16 word"

definition static_points :: "(string \<times> gc_Point_s) list \<Rightarrow> string \<Rightarrow> gc_Point_s list" where
  "static_points m domainName =
     filter (\<lambda>p. cp_registrationType p = REG_CONTROLLER \<and> cp_domainName p = domainName) (cr_getListElements m)"

definition getListStaticGateways :: "policy_env \<Rightarrow> string \<Rightarrow> string \<Rightarrow> string list" where
  "getListStaticGateways V listSources listSinks =
     map gw_name (filter (\<lambda>g.
         \<not> pv_isRegistered V ET_GATEWAY (gw_name g) \<and> gw_registrationType g = REG_CONTROLLER \<and>
         (pv_isRegistered V ET_SOURCE (gw_sourceName g) \<or> find_sub (gw_sourceName g) listSources \<noteq> None) \<and>
         (pv_isRegistered V ET_SINK (gw_sinkName g) \<or> find_sub (gw_sinkName g) listSinks \<noteq> None))
       (cr_getListElements (mMapGateways (pv_config V))))"

text \<open>
  The set of the names of the main connections that an element of a given name takes part in. A
  \<open>std::set\<close> is a sorted list without duplicates.
\<close>

definition getMainConnectionName :: "engine_env \<Rightarrow> gc_Element_e \<Rightarrow> string \<Rightarrow> string list \<Rightarrow> string list" where
  "getMainConnectionName N elementType nm names =
     (if elementType = ET_MAX then names
      else foldl (\<lambda>ns ci.
          case ev_connection N (ci_sourceName ci @ CHR '':'' # ci_sinkName ci) of
            None \<Rightarrow> ns
          | Some c \<Rightarrow> if \<exists>(r, src, snk)\<in>set (ec_routes c). src = nm \<or> snk = nm then insort_insert (ec_name c) ns else ns)
        names (snd (pv_getListMainConnections (ev_policy N) elementType nm)))"

definition disconnect_action :: "engine_env \<Rightarrow> string \<Rightarrow> engine_connection \<Rightarrow> string \<Rightarrow> gc_Action_s" where
  "disconnect_action N nm c cls =
     set_param ''sinkName'' (ec_mainSink c) (set_param ''sourceName'' (ec_mainSource c)
       (set_param ''className'' cls (set_param ''connectionName'' nm \<lparr>actionType = ACTION_DISCONNECT, mapParameters = []\<rparr>)))"

definition createDisconnectActions :: "engine_env \<Rightarrow> string list \<Rightarrow> gc_Action_s list \<Rightarrow> gc_Action_s list" where
  "createDisconnectActions N names as =
     foldl (\<lambda>as nm.
        case ev_connection N nm of
          None \<Rightarrow> as
        | Some c \<Rightarrow> (case ev_classByConnection N (ec_name c) of None \<Rightarrow> as | Some cls \<Rightarrow> as @ [disconnect_action N nm c cls])) as names"

text \<open>The list of a query that succeeded.\<close>

definition listed :: "am_Error_e \<times> 'a list \<Rightarrow> 'a list" where
  "listed r = (if fst r = E_OK then snd r else [])"

definition domain_connections :: "engine_env \<Rightarrow> 16 word \<Rightarrow> string list" where
  "domain_connections N d =
     (let gs = (if ev_getDomainInfoByID N d = E_OK then listed (ev_getListGatewaysOfDomain N d) else []);
          n1 = foldl (\<lambda>ns g. case ev_gateway N g of None \<Rightarrow> ns
                 | Some snk \<Rightarrow> (case ev_sink N snk of None \<Rightarrow> ns | Some nm \<Rightarrow> getMainConnectionName N ET_SINK nm ns)) [] gs;
          n2 = foldl (\<lambda>ns i. case ev_sink N i of None \<Rightarrow> ns | Some nm \<Rightarrow> getMainConnectionName N ET_SINK nm ns) n1
                 (listed (ev_getListSinksOfDomain N d))
      in foldl (\<lambda>ns i. case ev_source N i of None \<Rightarrow> ns | Some nm \<Rightarrow> getMainConnectionName N ET_SOURCE nm ns) n2
           (listed (ev_getListSourcesOfDomain N d)))"

definition clear_route_domains :: "engine_env \<Rightarrow> 16 word \<Rightarrow> string list \<Rightarrow> (nat \<Rightarrow> 16 word) \<Rightarrow> nat \<Rightarrow> 16 word" where
  "clear_route_domains N d names rd =
     foldl (\<lambda>rd nm. case ev_connection N nm of None \<Rightarrow> rd
        | Some c \<Rightarrow> foldl (\<lambda>rd (r, src, snk). if rd r = d then rd(r := 0) else rd) rd (ec_routes c)) rd names"

definition domainDeregister :: "engine_env \<Rightarrow> string \<Rightarrow> gc_Action_s list \<times> engine_state \<Rightarrow> gc_Action_s list \<times> engine_state" where
  "domainDeregister N nm s =
     (case pv_domain (ev_policy N) nm of
        None \<Rightarrow> s
      | Some (d, _) \<Rightarrow>
          (let names = domain_connections N d
           in (createDisconnectActions N names (fst s),
               (snd s)\<lparr>es_routeDomain := clear_route_domains N d names (es_routeDomain (snd s))\<rparr>)))"

definition gatewayDeregister :: "engine_env \<Rightarrow> string \<Rightarrow> gc_Action_s list \<Rightarrow> gc_Action_s list" where
  "gatewayDeregister N nm as =
     (case ev_gatewayByName N nm of
        None \<Rightarrow> as
      | Some (src, snk) \<Rightarrow>
          (case ev_source N src of
             None \<Rightarrow> as
           | Some srcName \<Rightarrow>
               (let n1 = getMainConnectionName N ET_SOURCE srcName [] in
                case ev_sink N snk of
                  None \<Rightarrow> as
                | Some snkName \<Rightarrow> createDisconnectActions N (getMainConnectionName N ET_SINK snkName n1) as)))"

definition queue_trigger :: "gc_Trigger_e \<Rightarrow> gc_TriggerElement_s \<Rightarrow> trigger_queue \<Rightarrow> trigger_queue" where
  "queue_trigger ty d q = snd (tq_queue ty (Some d) q)"

definition scheduleSoundPropertyTriggers :: "engine_env \<Rightarrow> gc_Element_e \<Rightarrow> string \<Rightarrow> trigger_queue \<Rightarrow> trigger_queue" where
  "scheduleSoundPropertyTriggers N ty nm q =
     (case ev_lastSoundProperty N (ev_elementClassName N ty nm) ty nm of
        None \<Rightarrow> q
      | Some ps \<Rightarrow>
          (let q1 = foldl (\<lambda>q p.
                 if \<not> ev_isMSPPersistenceSupported N ty nm (pr_type p) then q
                 else if ty = ET_SINK then queue_trigger USER_SET_SINK_MAIN_SOUND_PROPERTY (SinkSoundPropertyTrigger nm p) q
                 else if ty = ET_SOURCE then queue_trigger USER_SET_SOURCE_MAIN_SOUND_PROPERTY (SourceSoundPropertyTrigger nm p) q
                 else q) q ps
           in if ps = [] then q1
              else if ty = ET_SINK then queue_trigger USER_SET_SINK_MAIN_SOUND_PROPERTIES (SinkSoundPropertiesTrigger nm ps) q1
              else if ty = ET_SOURCE then queue_trigger USER_SET_SOURCE_MAIN_SOUND_PROPERTIES (SourceSoundPropertiesTrigger nm ps) q1
              else q1))"

definition restoreMainSoundProperties :: "engine_env \<Rightarrow> string \<Rightarrow> trigger_queue \<Rightarrow> trigger_queue" where
  "restoreMainSoundProperties N domainName q =
     (case pv_domain (ev_policy N) domainName of
        None \<Rightarrow> q
      | Some (d, _) \<Rightarrow>
          (let q1 = foldl (\<lambda>q i. case ev_sink N i of None \<Rightarrow> q | Some nm \<Rightarrow> scheduleSoundPropertyTriggers N ET_SINK nm q) q
                 (listed (ev_getListSinksOfDomain N d))
           in foldl (\<lambda>q i. case ev_source N i of None \<Rightarrow> q | Some nm \<Rightarrow> scheduleSoundPropertyTriggers N ET_SOURCE nm q) q1
                (listed (ev_getListSourcesOfDomain N d))))"

definition updateSystemProperty :: "engine_env \<Rightarrow> gc_Action_s list \<Rightarrow> gc_Action_s list" where
  "updateSystemProperty N as =
     as @ [set_param ''debugValue'' (dec 1) (set_param ''debugType'' (dec_u (ev_SYP_REGSTRATION_SOUND_PROP_RESTORED N))
       \<lparr>actionType = ACTION_DEBUG, mapParameters = []\<rparr>)]"

text \<open>
  \<open>+=\<close> on an entry of the parameter map, which creates it when it is missing; without names nothing
  is created.
\<close>

definition add_names :: "string \<Rightarrow> string list \<Rightarrow> gc_Action_s \<Rightarrow> gc_Action_s" where
  "add_names k names a =
     foldl (\<lambda>a nm. set_param k ((case map_of (mapParameters a) k of None \<Rightarrow> [] | Some v \<Rightarrow> v) @ nm @ '' '') a) a names"

definition register_action :: "policy_env \<Rightarrow> gc_triggerParams_s \<Rightarrow> bool \<Rightarrow> bool \<Rightarrow> gc_Action_s" where
  "register_action V t points gateways =
     (let a0 = \<lparr>actionType = ACTION_REGISTER, mapParameters = []\<rparr>;
          a1 = (if points then add_names ''sinkName'' (map cp_name (static_points (mMapSinks (pv_config V)) (tp_domainName t))) a0 else a0);
          a2 = (if points then add_names ''sourceName'' (map cp_name (static_points (mMapSources (pv_config V)) (tp_domainName t))) a1 else a1);
          text = (\<lambda>k. case map_of (mapParameters a2) k of None \<Rightarrow> [] | Some v \<Rightarrow> v)
      in if gateways then add_names ''gatewayName'' (getListStaticGateways V (text ''sourceName'') (text ''sinkName'')) a2 else a2)"

definition getImplicitActions :: "engine_env \<Rightarrow> gc_triggerParams_s \<Rightarrow> gc_Action_s list \<times> engine_state \<Rightarrow> gc_Action_s list \<times> engine_state" where
  "getImplicitActions N t s =
     (let as = fst s; st = snd s; V = ev_policy N;
          register = (\<lambda>points. let a = register_action V t points True in
            (if mapParameters a \<noteq> [] then as @ [updateActionParameters t a] else as, st))
      in case tp_triggerType t of
           SYSTEM_DEREGISTER_SOURCE \<Rightarrow> (createDisconnectActions N (getMainConnectionName N ET_SOURCE (tp_sourceName t) []) as, st)
         | SYSTEM_DEREGISTER_SINK \<Rightarrow> (createDisconnectActions N (getMainConnectionName N ET_SINK (tp_sinkName t) []) as, st)
         | SYSTEM_DOMAIN_REGISTRATION_COMPLETE \<Rightarrow> (as, st\<lparr>es_queue := restoreMainSoundProperties N (tp_domainName t) (es_queue st)\<rparr>)
         | SYSTEM_ALL_DOMAIN_REGISTRATION_COMPLETE \<Rightarrow> (updateSystemProperty N as, st)
         | SYSTEM_DEREGISTER_GATEWAY \<Rightarrow> (gatewayDeregister N (tp_gatewayName t) as, st)
         | SYSTEM_DEREGISTER_DOMAIN \<Rightarrow> domainDeregister N (tp_domainName t) s
         | SYSTEM_REGISTER_DOMAIN \<Rightarrow> register True
         | SYSTEM_REGISTER_SINK \<Rightarrow> register False
         | SYSTEM_REGISTER_SOURCE \<Rightarrow> register False
         | _ \<Rightarrow> s)"

section \<open>A trigger\<close>

definition getActions :: "nat \<Rightarrow> char \<Rightarrow> engine_env \<Rightarrow> gc_triggerParams_s \<Rightarrow> engine_state \<Rightarrow> (gc_Action_s list \<times> engine_state) outcome" where
  "getActions fuel before N t st =
     obind (policy_loop fuel before (ev_policy N) t (getListProcess (tp_triggerType t) (pv_config (ev_policy N))))
       (\<lambda>as. Ret (getImplicitActions N t (as, st)))"

text \<open>The class of an element whose availability changed is filled in from the configuration.\<close>

definition trigger_class :: "policy_env \<Rightarrow> gc_triggerParams_s \<Rightarrow> gc_triggerParams_s" where
  "trigger_class V t =
     (case (if tp_triggerType t = SYSTEM_SOURCE_AVAILABILITY_CHANGED then getElementByName (tp_sourceName t) (mMapSources (pv_config V))
            else if tp_triggerType t = SYSTEM_SINK_AVAILABILITY_CHANGED then getElementByName (tp_sinkName t) (mMapSinks (pv_config V))
            else None) of
        None \<Rightarrow> t
      | Some p \<Rightarrow> t\<lparr>tp_className := cp_className p\<rparr>)"

definition processTrigger :: "nat \<Rightarrow> char \<Rightarrow> engine_env \<Rightarrow> (gc_Action_s list \<Rightarrow> 'r) \<Rightarrow> gc_triggerParams_s \<Rightarrow> engine_state \<Rightarrow> ('r \<times> engine_state) outcome" where
  "processTrigger fuel before N setListActions t st =
     obind (getActions fuel before N (trigger_class (ev_policy N) t) st) (\<lambda>(as, st'). Ret (setListActions as, st'))"

section \<open>Which policies are applied\<close>

definition up_to :: "('a \<Rightarrow> bool) \<Rightarrow> 'a list \<Rightarrow> 'a list" where
  "up_to P xs = takeWhile (\<lambda>x. \<not> P x) xs @ take 1 (dropWhile (\<lambda>x. \<not> P x) xs)"

lemma up_to_simps [simp]: "up_to P [] = []" "up_to P (x # xs) = x # (if P x then [] else up_to P xs)"
  by (simp_all add: up_to_def)

lemma policy_loop_applies:
  assumes "\<forall>p\<in>set ps. evaluateConditionSet fuel V t (listConditions p) = Ret (holds p) \<and>
      (holds p \<longrightarrow> process_actions fuel before V t (listActions p) = Ret (acts p))"
  shows "policy_loop fuel before V t ps = Ret (concat (map acts (up_to stopEvaluation (filter holds ps))))"
  using assms by (induction ps) (auto simp: getActionsfromPolicy_def)


section \<open>Completed parameters\<close>

lemma set_param_simps [simp]:
  "actionType (set_param k v a) = actionType a"
  "mapParameters (set_param k v a) = om_insert k v (mapParameters a)"
  by (simp_all add: set_param_def)

lemma set_missing_type [simp]: "actionType (set_missing k v a) = actionType a"
  by (simp add: set_missing_def)

lemma set_missing_ok [intro]: "om_ok (mapParameters a) \<Longrightarrow> om_ok (mapParameters (set_missing k v a))"
  by (auto simp: set_missing_def)

lemma set_missing_lookup:
  "om_ok (mapParameters a) \<Longrightarrow> map_of (mapParameters (set_missing k v a)) =
     (case map_of (mapParameters a) k of None \<Rightarrow> (map_of (mapParameters a))(k \<mapsto> v) | Some _ \<Rightarrow> map_of (mapParameters a))"
  by (auto simp: set_missing_def isParameterSet_def map_of_om_insert split: option.splits)

lemma set_missing_keeps:
  "\<lbrakk>om_ok (mapParameters a); map_of (mapParameters a) k = Some v\<rbrakk> \<Longrightarrow> map_of (mapParameters (set_missing j w a)) k = Some v"
  by (auto simp: set_missing_lookup split: option.splits)

lemma set_missing_set: "isParameterSet k (mapParameters a) \<Longrightarrow> set_missing k v a = a"
  by (simp add: set_missing_def)

lemma isParameterSet_insert [simp]: "om_ok m \<Longrightarrow> isParameterSet k (om_insert j v m) \<longleftrightarrow> k = j \<or> isParameterSet k m"
  by (auto simp: isParameterSet_def map_of_om_insert)

lemma isParameterSet_missing [simp]:
  "om_ok (mapParameters a) \<Longrightarrow> isParameterSet k (mapParameters (set_missing j v a)) \<longleftrightarrow> k = j \<or> isParameterSet k (mapParameters a)"
  by (auto simp: set_missing_def)

lemma complete_target_type [simp]: "actionType (complete_target t a) = actionType a"
  by (simp add: complete_target_def)

lemma complete_target_ok [intro]: "om_ok (mapParameters a) \<Longrightarrow> om_ok (mapParameters (complete_target t a))"
  by (auto simp: complete_target_def)

lemma update_type: "actionType (updateActionParameters t a) = actionType a"
  by (cases "actionType a") (simp_all add: updateActionParameters_def Let_def)

lemma new_param_keeps:
  "\<lbrakk>om_ok m; map_of m k = Some v; \<not> isParameterSet j m\<rbrakk> \<Longrightarrow> map_of (om_insert j w m) k = Some v"
  by (auto simp: isParameterSet_def map_of_om_insert)

lemma complete_target_keeps:
  "\<lbrakk>om_ok (mapParameters a); map_of (mapParameters a) k = Some v\<rbrakk> \<Longrightarrow> map_of (mapParameters (complete_target t a)) k = Some v"
  by (simp add: complete_target_def new_param_keeps set_missing_keeps set_missing_ok)

lemma update_keeps:
  assumes "om_ok (mapParameters a)" "map_of (mapParameters a) k = Some v" "k \<noteq> ''muteState''" "k \<noteq> ''limitState''"
  shows "map_of (mapParameters (updateActionParameters t a)) k = Some v"
proof -
  let ?c = "complete_target t a"
  have "om_ok (mapParameters ?c)" "map_of (mapParameters ?c) k = Some v"
    using assms complete_target_keeps by auto
  then show ?thesis
    using assms(3,4)
    by (cases "actionType a") (simp_all add: updateActionParameters_def Let_def map_of_om_insert set_missing_keeps set_missing_ok)
qed

lemma mute_completed:
  assumes "om_ok (mapParameters a)" "actionType a \<in> {ACTION_MUTE, ACTION_UNMUTE}"
  shows "map_of (mapParameters (updateActionParameters t a)) ''muteState'' = Some (dec (if actionType a = ACTION_MUTE then 1 else 2))"
    and "isParameterSet ''className'' (mapParameters a) \<or> isParameterSet ''sinkName'' (mapParameters a) \<or>
         map_of (mapParameters (updateActionParameters t a)) ''sinkName'' = Some (tp_sinkName t)"
proof -
  have u: "updateActionParameters t a = set_param ''muteState'' (dec (if actionType a = ACTION_MUTE then 1 else 2)) (complete_target t a)"
    using assms(2) by (auto simp: updateActionParameters_def)
  have ok: "om_ok (mapParameters (complete_target t a))"
    using assms(1) by (rule complete_target_ok)
  show "map_of (mapParameters (updateActionParameters t a)) ''muteState'' = Some (dec (if actionType a = ACTION_MUTE then 1 else 2))"
    by (simp add: u map_of_om_insert ok)
  show "isParameterSet ''className'' (mapParameters a) \<or> isParameterSet ''sinkName'' (mapParameters a) \<or>
         map_of (mapParameters (updateActionParameters t a)) ''sinkName'' = Some (tp_sinkName t)"
    unfolding u set_param_simps map_of_om_insert[OF ok] using assms
    by (auto simp: complete_target_def map_of_om_insert)
qed

definition volume_requests :: "param_map \<Rightarrow> string list" where
  "volume_requests m = filter (\<lambda>k. isParameterSet k m) [''volume'', ''volumeStep'', ''mainVolume'', ''mainVolumeStep'']"

lemma volume_completed:
  assumes "om_ok (mapParameters a)" "actionType a = ACTION_SET_VOLUME"
  shows "volume_requests (mapParameters (updateActionParameters t a)) = (if volume_requests (mapParameters a) = []
              then [if tp_isVolumeStep t then ''mainVolumeStep'' else ''mainVolume''] else volume_requests (mapParameters a))"
proof -
  have u: "updateActionParameters t a = complete_target t a"
    using assms(2) by (simp add: updateActionParameters_def Let_def)
  show ?thesis
    unfolding u using assms by (simp add: complete_target_def volume_requests_def)
qed

text \<open>
  C26: what is filled into an action from its trigger. The type of the action and every parameter that
  the policy gave stay, the mute and limit state apart. A muting or unmuting action ends up with a target,
  the sink of the trigger when the policy names neither sink nor class, and with its own state, and a
  volume action with exactly one request unless the policy gave it more.
\<close>

theorem updateActionParameters_completes:
  assumes "om_ok (mapParameters a)"
  shows "actionType (updateActionParameters t a) = actionType a \<and>
    (\<forall>k v. k \<noteq> ''muteState'' \<and> k \<noteq> ''limitState'' \<and> map_of (mapParameters a) k = Some v \<longrightarrow>
           map_of (mapParameters (updateActionParameters t a)) k = Some v) \<and>
    (actionType a \<in> {ACTION_MUTE, ACTION_UNMUTE} \<longrightarrow>
           map_of (mapParameters (updateActionParameters t a)) ''muteState'' = Some (dec (if actionType a = ACTION_MUTE then 1 else 2)) \<and>
           (isParameterSet ''className'' (mapParameters a) \<or> isParameterSet ''sinkName'' (mapParameters a) \<or>
            map_of (mapParameters (updateActionParameters t a)) ''sinkName'' = Some (tp_sinkName t))) \<and>
    (actionType a = ACTION_SET_VOLUME \<longrightarrow>
           volume_requests (mapParameters (updateActionParameters t a)) = (if volume_requests (mapParameters a) = []
              then [if tp_isVolumeStep t then ''mainVolumeStep'' else ''mainVolume''] else volume_requests (mapParameters a)))"
proof (intro conjI impI)
  show "actionType (updateActionParameters t a) = actionType a"
    by (rule update_type)
  show "\<forall>k v. k \<noteq> ''muteState'' \<and> k \<noteq> ''limitState'' \<and> map_of (mapParameters a) k = Some v \<longrightarrow>
           map_of (mapParameters (updateActionParameters t a)) k = Some v"
    using update_keeps[OF assms] by blast
qed (use mute_completed[OF assms] volume_completed[OF assms] in blast)+

definition demo_mute :: gc_Action_s where
  "demo_mute = \<lparr>actionType = ACTION_MUTE, mapParameters = [(''muteState'', ''2''), (''rampTime'', ''50'')]\<rparr>"

lemma updateActionParameters_completes_witness:
  "map_of (mapParameters (updateActionParameters (tp_init\<lparr>tp_sinkName := ''amp''\<rparr>) demo_mute)) ''sinkName'' = Some ''amp'' \<and>
   map_of (mapParameters (updateActionParameters (tp_init\<lparr>tp_sinkName := ''amp''\<rparr>) demo_mute)) ''muteState'' = Some ''1'' \<and>
   map_of (mapParameters (updateActionParameters (tp_init\<lparr>tp_sinkName := ''amp''\<rparr>) demo_mute)) ''rampTime'' = Some ''50''"
proof -
  have ok: "om_ok (mapParameters demo_mute)"
    by code_simp
  have d: "dec 1 = ''1''"
    by code_simp
  show ?thesis
    using updateActionParameters_completes[OF ok, of "tp_init\<lparr>tp_sinkName := ''amp''\<rparr>"]
    by (simp add: demo_mute_def isParameterSet_def d)
qed

definition demo_policies :: "gc_Process_s list" where
  "demo_policies = (let p = \<lparr>priority = 2, stopEvaluation = False, listConditions = [demo_condition], listActions = [demo_mute]\<rparr>
     in [p, p\<lparr>priority := 1, listConditions := [], listActions := [demo_mute\<lparr>actionType := ACTION_UNMUTE\<rparr>]\<rparr>])"

definition demo_trigger :: gc_triggerParams_s where
  "demo_trigger = tp_init\<lparr>tp_triggerType := USER_SET_VOLUME, tp_sinkName := ''amp'', tp_mainVolume := -10\<rparr>"

definition demo_env :: policy_env where
  "demo_env = \<lparr>pv_config = cr_empty\<lparr>mListPolicies := [\<lparr>listEvents = [USER_SET_VOLUME], listProcesses = demo_policies\<rparr>]\<rparr>,
     pv_enums = Map.empty, pv_isDomainRegistrationComplete = (\<lambda>_. False), pv_isRegistered = (\<lambda>_ _. False),
     pv_getAvailability = (\<lambda>_ _. (E_UNKNOWN, tp_availability tp_init)), pv_getInterruptState = (\<lambda>_ _. (E_UNKNOWN, IS_UNKNOWN)),
     pv_getMuteState = (\<lambda>_ _. (E_UNKNOWN, MS_UNKNOWN)), pv_getMainSoundProperty = (\<lambda>_ _ _. (E_UNKNOWN, 0)),
     pv_getSoundProperty = (\<lambda>_ _ _. (E_UNKNOWN, 0)), pv_getSystemProperty = (\<lambda>_. (E_UNKNOWN, 0)),
     pv_getVolume = (\<lambda>_ _. (E_UNKNOWN, 0)), pv_getMainVolume = (\<lambda>_ _. (E_UNKNOWN, 0)),
     pv_getListMainConnections = (\<lambda>_ _. (E_OK, [\<lparr>ci_sourceName = ''radio'', ci_sinkName = ''amp'', ci_connectionName = ''radio:amp'',
        ci_priority = 0, ci_connectionState = CS_CONNECTED, ci_volume = 0\<rparr>])),
     pv_getListNotificationConfigurations = (\<lambda>_ _. (E_UNKNOWN, [])), pv_getListMainNotificationConfigurations = (\<lambda>_ _. (E_UNKNOWN, [])),
     pv_getOrderedConnections = (\<lambda>_ _. (E_UNKNOWN, [])), pv_domain = (\<lambda>_. None), pv_sources = [], pv_sinks = [],
     pv_sourceState = (\<lambda>_. None), pv_offsetVolume = (\<lambda>_ _. None), pv_routeAvailability = (\<lambda>_. None),
     pv_scale = (\<lambda>_ _. (E_UNKNOWN, [])), pv_CF_GENIVI_STEREO = 2\<rparr>"

definition demo_engine :: engine_env where
  "demo_engine = \<lparr>ev_policy = demo_env,
     ev_connection = (\<lambda>n. if n = ''radio:amp'' then Some \<lparr>ec_name = ''radio:amp'', ec_mainSource = ''radio'', ec_mainSink = ''amp'',
        ec_routes = [(0, ''radio'', ''gw''), (1, ''gw'', ''amp'')]\<rparr> else None),
     ev_classByConnection = (\<lambda>_. Some ''BASE''), ev_getDomainInfoByID = (\<lambda>_. E_OK),
     ev_getListGatewaysOfDomain = (\<lambda>_. (E_OK, [])), ev_getListSinksOfDomain = (\<lambda>_. (E_OK, [])), ev_getListSourcesOfDomain = (\<lambda>_. (E_OK, [])),
     ev_gateway = (\<lambda>_. None), ev_gatewayByName = (\<lambda>_. None), ev_sink = (\<lambda>_. None), ev_source = (\<lambda>_. None),
     ev_elementClassName = (\<lambda>_ _. []), ev_lastSoundProperty = (\<lambda>_ _ _. None), ev_isMSPPersistenceSupported = (\<lambda>_ _ _. False),
     ev_SYP_REGSTRATION_SOUND_PROP_RESTORED = 0\<rparr>"

definition demo_acts :: "gc_Process_s \<Rightarrow> gc_Action_s list" where
  "demo_acts p = (case process_actions 11 NUL demo_env demo_trigger (listActions p) of Ret as \<Rightarrow> as | _ \<Rightarrow> [])"


section \<open>Deregistration\<close>

lemma insort_insert_sorted_set:
  "\<lbrakk>sorted xs; distinct xs\<rbrakk> \<Longrightarrow> sorted (insort_insert x xs) \<and> distinct (insort_insert x xs) \<and> set (insort_insert x xs) = insert x (set xs)"
  by (simp add: sorted_insort_insert distinct_insort_insert set_insort_insert)

text \<open>The main connections that an element takes part in.\<close>

definition takes_part :: "engine_env \<Rightarrow> string \<Rightarrow> gc_ConnectionInfo_s \<Rightarrow> engine_connection \<Rightarrow> bool" where
  "takes_part N nm ci c \<longleftrightarrow> ev_connection N (ci_sourceName ci @ CHR '':'' # ci_sinkName ci) = Some c \<and>
     (\<exists>(r, src, snk)\<in>set (ec_routes c). src = nm \<or> snk = nm)"

definition involved :: "engine_env \<Rightarrow> gc_Element_e \<Rightarrow> string \<Rightarrow> string set" where
  "involved N ty nm = {ec_name c | ci c. ci \<in> set (snd (pv_getListMainConnections (ev_policy N) ty nm)) \<and> takes_part N nm ci c}"

definition name_set :: "string set \<Rightarrow> string list \<Rightarrow> bool" where
  "name_set A ns \<longleftrightarrow> sorted ns \<and> distinct ns \<and> set ns = A"

lemma name_set_list: "name_set A ns \<Longrightarrow> ns = sorted_list_of_set A"
  by (auto simp: name_set_def sorted_list_of_set.idem_if_sorted_distinct)

lemma getMainConnectionName_set:
  assumes "name_set A ns" "ty \<noteq> ET_MAX"
  shows "name_set (A \<union> involved N ty nm) (getMainConnectionName N ty nm ns)"
proof -
  let ?hit = "takes_part N nm"
  have "name_set (A \<union> {ec_name c | ci c. ci \<in> set cis \<and> ?hit ci c})
      (foldl (\<lambda>ns ci. case ev_connection N (ci_sourceName ci @ CHR '':'' # ci_sinkName ci) of None \<Rightarrow> ns
          | Some c \<Rightarrow> if \<exists>(r, src, snk)\<in>set (ec_routes c). src = nm \<or> snk = nm then insort_insert (ec_name c) ns else ns) ns cis)"
    if "name_set A ns" for A ns and cis :: "gc_ConnectionInfo_s list"
    using that
  proof (induction cis arbitrary: A ns)
    case Nil
    then show ?case by simp
  next
    case (Cons ci cis)
    let ?ns = "case ev_connection N (ci_sourceName ci @ CHR '':'' # ci_sinkName ci) of None \<Rightarrow> ns
          | Some c \<Rightarrow> if \<exists>(r, src, snk)\<in>set (ec_routes c). src = nm \<or> snk = nm then insort_insert (ec_name c) ns else ns"
    have "name_set (A \<union> {ec_name c | c. ?hit ci c}) ?ns"
      using Cons.prems insort_insert_sorted_set[of ns] by (auto simp: name_set_def takes_part_def split: option.splits)
    note IH = Cons.IH[OF this]
    have "A \<union> {ec_name c | x c. x \<in> set (ci # cis) \<and> ?hit x c} = (A \<union> {ec_name c | c. ?hit ci c}) \<union> {ec_name c | ci c. ci \<in> set cis \<and> ?hit ci c}"
      by auto
    then show ?case
      using IH by (simp only: foldl_Cons)
  qed
  from this[OF assms(1)] show ?thesis
    using assms(2) by (simp add: getMainConnectionName_def involved_def)
qed

definition disconnection :: "engine_env \<Rightarrow> string \<Rightarrow> gc_Action_s option" where
  "disconnection N nm = Option.bind (ev_connection N nm) (\<lambda>c. map_option (disconnect_action N nm c) (ev_classByConnection N (ec_name c)))"

lemma createDisconnectActions_eq: "createDisconnectActions N names as = as @ List.map_filter (disconnection N) names"
  unfolding createDisconnectActions_def
  by (induction names arbitrary: as) (auto simp: List.map_filter_simps disconnection_def split: option.splits)



end
