(* ===== verification/Topology.thy ===== *)
theory Topology
  imports Main_Connection
begin

text \<open>
  The topology strings of a class: the parser of \<open>CAmXmlConfigParser.cpp\<close> (\<open>CAmClassNode\<close>) and the search
  for a route in \<open>CAmClassElement.cpp\<close>. A string such as \<open>Sink1^Sink2=Gateway1(Source1^Source2)^Source3\<close>
  becomes a list of coded elements, and the search walks over it from the sink to the source, with the
  gateways it is inside of.
\<close>

section \<open>Data\<close>

datatype gc_ClassTopologyCodeID_e = MC_GENERAL_ELEMENT | MC_SINK_ELEMENT | MC_SOURCE_ELEMENT | MC_GATEWAY_ELEMENT
  | MC_EQUAL_CODE | MC_EXCLUSIVE_CODE | MC_SHARED_CODE | MC_LBRACKET_CODE | MC_RBRACKET_CODE | MC_NULL_CODE

record gc_TopologyElement_s =
  te_name :: string
  te_codeID :: gc_ClassTopologyCodeID_e

definition te_code :: "gc_ClassTopologyCodeID_e \<Rightarrow> string \<Rightarrow> gc_TopologyElement_s" where
  "te_code code elementName = \<lparr>te_name = (case code of
       MC_EQUAL_CODE \<Rightarrow> ''='' | MC_EXCLUSIVE_CODE \<Rightarrow> ''^'' | MC_LBRACKET_CODE \<Rightarrow> ''('' | MC_RBRACKET_CODE \<Rightarrow> '')''
     | _ \<Rightarrow> elementName), te_codeID = code\<rparr>"

definition te_symbol :: "string \<Rightarrow> gc_TopologyElement_s" where
  "te_symbol elementName = \<lparr>te_name = elementName, te_codeID =
     (if elementName = ''('' then MC_LBRACKET_CODE else if elementName = '')'' then MC_RBRACKET_CODE else MC_EXCLUSIVE_CODE)\<rparr>"

section \<open>Parsing a topology\<close>

definition in_name :: "char \<Rightarrow> bool" where
  "in_name c \<longleftrightarrow> c \<noteq> CHR ''^'' \<and> c \<noteq> CHR ''('' \<and> c \<noteq> CHR '')''"

text \<open>The elements in front of the equals sign; a caret at the end starts no further element.\<close>

function parse_elements :: "gc_ClassTopologyCodeID_e \<Rightarrow> string \<Rightarrow> gc_TopologyElement_s list" where
  "parse_elements ty s =
     (if s = [] then []
      else case dropWhile (\<lambda>c. c \<noteq> CHR ''^'') s of
          [] \<Rightarrow> [te_code ty s]
        | _ # rest \<Rightarrow> te_code ty (takeWhile (\<lambda>c. c \<noteq> CHR ''^'') s) # te_code MC_EXCLUSIVE_CODE [] # parse_elements ty rest)"
  by pat_completeness auto
termination
proof (relation "measure (\<lambda>(ty, s). length s)")
  fix ty and s :: string and x rest
  assume "dropWhile (\<lambda>c. c \<noteq> CHR ''^'') s = x # rest"
  then have "length (x # rest) \<le> length s"
    by (metis length_dropWhile_le)
  then show "((ty, rest), (ty, s)) \<in> measure (\<lambda>(ty, s). length s)"
    by simp
qed simp

definition parseElementList :: "gc_ClassTopologyCodeID_e \<Rightarrow> string \<Rightarrow> gc_TopologyElement_s list option" where
  "parseElementList ty s = (if CHR ''('' \<in> set s \<or> CHR '')'' \<in> set s then None else Some (parse_elements ty s))"

text \<open>The part behind the equals sign: a name in front of a bracket is a gateway, any other a source.\<close>

function parse_sources :: "string \<Rightarrow> gc_TopologyElement_s list" where
  "parse_sources s =
     (if s = [] then []
      else case dropWhile in_name s of
          [] \<Rightarrow> [te_code MC_SOURCE_ELEMENT s]
        | c # rest \<Rightarrow>
            (if takeWhile in_name s = [] then []
             else [te_code (if c = CHR ''('' then MC_GATEWAY_ELEMENT else MC_SOURCE_ELEMENT) (takeWhile in_name s)])
            @ te_symbol [c] # parse_sources rest)"
  by pat_completeness auto
termination
proof (relation "measure length")
  fix s :: string and x rest
  assume "dropWhile in_name s = x # rest"
  then have "length (x # rest) \<le> length s"
    by (metis length_dropWhile_le)
  then show "(rest, s) \<in> measure length"
    by simp
qed simp

declare parse_elements.simps [simp del] parse_sources.simps [simp del]

definition parseTopologyString :: "string \<Rightarrow> gc_TopologyElement_s list option" where
  "parseTopologyString s =
     (if count_list s (CHR ''='') \<noteq> 1 \<or> CHR '' '' \<in> set s then None
      else if count_list s (CHR ''('') \<noteq> count_list s (CHR '')'') then None
      else case parseElementList MC_SINK_ELEMENT (takeWhile (\<lambda>c. c \<noteq> CHR ''='') s) of
          None \<Rightarrow> None
        | Some sinks \<Rightarrow> Some (sinks @ te_code MC_EQUAL_CODE [] # parse_sources (tl (dropWhile (\<lambda>c. c \<noteq> CHR ''='') s))))"

text \<open>The topologies that parse are kept; the result is that of the last one.\<close>

definition copyTopologies :: "string list \<Rightarrow> am_Error_e \<times> gc_TopologyElement_s list list" where
  "copyTopologies ss =
     (if ss \<noteq> [] \<and> parseTopologyString (last ss) = None then E_NOT_POSSIBLE else E_OK, List.map_filter parseTopologyString ss)"

section \<open>The search for a route\<close>

record am_RoutingElement_s =
  rt_sourceID :: am_ID_t
  rt_sinkID :: am_ID_t
  rt_domainID :: am_ID_t
  rt_connectionFormat :: "16 word"

record gc_Route_s =
  ro_sourceID :: am_ID_t
  ro_sinkID :: am_ID_t
  ro_route :: "am_RoutingElement_s list"
  ro_name :: string

record gateway_element =
  ga_sourceID :: am_ID_t
  ga_sinkID :: am_ID_t
  ga_domainSinkID :: am_ID_t

text \<open>
  What the search reads: the factories of sources, sinks (with its domain) and gateways by name, and
  whether an element of that name and type is among the subjects of the class.
\<close>

record topology_world =
  tw_source :: "string \<Rightarrow> am_ID_t option"
  tw_sink :: "string \<Rightarrow> (am_ID_t \<times> am_ID_t) option"
  tw_gateway :: "string \<Rightarrow> gateway_element option"
  tw_subject :: "string \<Rightarrow> gc_Element_e \<Rightarrow> bool"

definition checkElementPresentInTopology :: "topology_world \<Rightarrow> gc_TopologyElement_s list \<Rightarrow> string \<Rightarrow> gc_ClassTopologyCodeID_e \<Rightarrow> bool" where
  "checkElementPresentInTopology w topology elementName ty =
     list_ex (\<lambda>e. te_codeID e = ty \<and> (te_name e = elementName
        \<or> te_name e = ''*'' \<and> tw_subject w elementName (if ty = MC_SINK_ELEMENT then ET_SINK else ET_SOURCE))) topology"

definition isElementBelongtoClass :: "topology_world \<Rightarrow> gc_TopologyElement_s list list \<Rightarrow> string \<Rightarrow> gc_Element_e \<Rightarrow> bool" where
  "isElementBelongtoClass w listTopologies elementName ty =
     (tw_subject w elementName ty
      \<or> list_ex (\<lambda>t. checkElementPresentInTopology w t elementName (if ty = ET_SINK then MC_SINK_ELEMENT else MC_SOURCE_ELEMENT)) listTopologies)"

text \<open>
  A gateway that is not there: the elements up to its closing bracket are passed over, with those of the
  gateways around it and of the gateways met on the way. \<open>None\<close> is an iterator moved beyond the end.
\<close>

fun skip_gateway :: "nat \<Rightarrow> gc_TopologyElement_s list \<Rightarrow> gc_TopologyElement_s list option" where
  "skip_gateway 0 es = Some es"
| "skip_gateway (Suc n) [] = None"
| "skip_gateway (Suc n) (e # es) =
     (if te_codeID e = MC_RBRACKET_CODE then skip_gateway n es
      else skip_gateway (if te_codeID e = MC_GATEWAY_ELEMENT then Suc (Suc n) else Suc n) es)"

lemma skip_gateway_length: "skip_gateway n es = Some fs \<Longrightarrow> length fs \<le> length es"
  by (induction n es rule: skip_gateway.induct) (auto split: if_splits)

text \<open>The last \<open>n\<close> elements of the route are dropped; the routing element is the last one dropped.\<close>

definition drop_gateways :: "nat \<Rightarrow> am_RoutingElement_s \<Rightarrow> am_RoutingElement_s list \<Rightarrow> am_RoutingElement_s \<times> am_RoutingElement_s list" where
  "drop_gateways n r rs = (if n = 0 then r else rs ! (length rs - n), take (length rs - n) rs)"

function search_route :: "topology_world \<Rightarrow> string \<Rightarrow> am_ID_t \<Rightarrow> nat \<Rightarrow> am_RoutingElement_s \<Rightarrow> am_RoutingElement_s list
    \<Rightarrow> gc_TopologyElement_s list \<Rightarrow> (bool \<times> am_RoutingElement_s list) option" where
  "search_route w src srcID n r rs [] = Some (False, rs)"
| "search_route w src srcID n r rs (e # es) =
     (if te_codeID e = MC_SOURCE_ELEMENT then
        (if tw_source w (te_name e) \<noteq> None \<and> src = te_name e \<or> te_name e = ''*'' \<and> tw_subject w src ET_SOURCE
         then Some (True, rs @ [r\<lparr>rt_sourceID := srcID\<rparr>])
         else search_route w src srcID n r rs es)
      else if te_codeID e = MC_GATEWAY_ELEMENT then
        (case tw_gateway w (te_name e) of
           None \<Rightarrow> (case drop_gateways n r rs of (r', rs') \<Rightarrow>
             (case skip_gateway (Suc n) es of None \<Rightarrow> None | Some fs \<Rightarrow> search_route w src srcID 0 r' rs' fs))
         | Some g \<Rightarrow>
             search_route w src srcID (Suc n) (r\<lparr>rt_sourceID := ga_sourceID g, rt_sinkID := ga_sinkID g, rt_domainID := ga_domainSinkID g\<rparr>)
               (rs @ [r\<lparr>rt_sourceID := ga_sourceID g\<rparr>]) es)
      else if te_codeID e = MC_RBRACKET_CODE then
        (case drop_gateways n r rs of (r', rs') \<Rightarrow> search_route w src srcID 0 r' rs' es)
      else search_route w src srcID n r rs es)"
  by pat_completeness auto
termination
  by (relation "measure (\<lambda>(w, src, srcID, n, r, rs, es). length es)") (auto dest: skip_gateway_length)

definition isSourceSinkPairBelongtoClass :: "topology_world \<Rightarrow> gc_TopologyElement_s list list \<Rightarrow> bool \<Rightarrow> bool \<Rightarrow> string \<Rightarrow> string \<Rightarrow> bool" where
  "isSourceSinkPairBelongtoClass w listTopologies playback capture sinkName sourceName =
     (let so = isElementBelongtoClass w listTopologies sourceName ET_SOURCE;
          si = isElementBelongtoClass w listTopologies sinkName ET_SINK
      in so \<and> si \<or> so \<and> playback \<or> si \<and> capture)"

text \<open>
  The route of one topology is appended to the one passed in. The caller knows that the pair belongs to
  the class, which is handed over as \<open>belongs\<close>.
\<close>

definition getRouteFromTopology :: "topology_world \<Rightarrow> bool \<Rightarrow> gc_TopologyElement_s list \<Rightarrow> string \<Rightarrow> string \<Rightarrow> gc_Route_s
    \<Rightarrow> (am_Error_e \<times> gc_Route_s) option" where
  "getRouteFromTopology w belongs topology src sink route =
     (case (tw_source w src, tw_sink w sink) of
        (Some srcID, Some (sinkID, domainID)) \<Rightarrow>
          if \<not> belongs then Some (E_UNKNOWN, route)
          else if \<not> checkElementPresentInTopology w topology sink MC_SINK_ELEMENT then Some (E_NOT_POSSIBLE, route)
          else
            (let route' = route\<lparr>ro_sinkID := sinkID, ro_sourceID := srcID, ro_name := src @ '':'' @ sink\<rparr>;
                 r0 = \<lparr>rt_sourceID = 0, rt_sinkID = sinkID, rt_domainID = domainID, rt_connectionFormat = 0\<rparr>
             in map_option (\<lambda>(found, rs). (if found then E_OK else E_UNKNOWN, route'\<lparr>ro_route := rs\<rparr>))
                  (search_route w src srcID 0 r0 (ro_route route) topology))
      | _ \<Rightarrow> Some (E_NOT_POSSIBLE, route))"

text \<open>The topologies in their order, with what a failed search left in the route.\<close>

fun preferred_route :: "topology_world \<Rightarrow> bool \<Rightarrow> string \<Rightarrow> string \<Rightarrow> gc_TopologyElement_s list list \<Rightarrow> am_Error_e \<times> gc_Route_s
    \<Rightarrow> (am_Error_e \<times> gc_Route_s) option" where
  "preferred_route w belongs src sink [] res = Some res"
| "preferred_route w belongs src sink (t # ts) (err, route) =
     (case getRouteFromTopology w belongs t src sink route of
        None \<Rightarrow> None
      | Some (E_OK, route') \<Rightarrow> Some (E_OK, route')
      | Some res \<Rightarrow> preferred_route w belongs src sink ts res)"

definition getPreferredRoute :: "topology_world \<Rightarrow> bool \<Rightarrow> string \<Rightarrow> string \<Rightarrow> gc_TopologyElement_s list list \<Rightarrow> gc_Route_s
    \<Rightarrow> (am_Error_e \<times> gc_Route_s) option" where
  "getPreferredRoute w belongs src sink ts route = preferred_route w belongs src sink ts (E_NOT_POSSIBLE, route)"

text \<open>
  A route of the daemon has the same segments as the one of the topology, which runs the other way round.
  It takes its place.
\<close>

definition same_segments :: "am_RoutingElement_s list \<Rightarrow> am_RoutingElement_s list \<Rightarrow> bool" where
  "same_segments daemonRoute topologyRoute =
     list_all2 (\<lambda>d t. rt_sinkID d = rt_sinkID t \<and> rt_sourceID d = rt_sourceID t) daemonRoute (rev topologyRoute)"

record am_Route_s =
  ar_sourceID :: am_ID_t
  ar_sinkID :: am_ID_t
  ar_route :: "am_RoutingElement_s list"

definition take_route :: "am_Route_s \<Rightarrow> gc_Route_s \<Rightarrow> gc_Route_s" where
  "take_route d route = route\<lparr>ro_sinkID := ar_sinkID d, ro_sourceID := ar_sourceID d, ro_route := ar_route d\<rparr>"

definition validateRouteFromTopology :: "am_Route_s list \<Rightarrow> gc_Route_s \<Rightarrow> am_Error_e \<times> gc_Route_s" where
  "validateRouteFromTopology listRoutes route =
     (case find (\<lambda>d. same_segments (ar_route d) (ro_route route)) listRoutes of
        None \<Rightarrow> (E_NOT_POSSIBLE, route)
      | Some d \<Rightarrow> (E_OK, take_route d route))"

end
