(* ===== verification/Topology_Props.thy ===== *)
theory Topology_Props
  imports Topology
begin

text \<open>
  What the topology code does with the strings of the documentation: sinks, and sources that stand alone or
  inside of gateways, which may follow one another. The parser gives their elements, the search finds the
  first place of the source whose gateways are there, and returns for every string with closed brackets.
\<close>

section \<open>The strings of the documentation\<close>

datatype source_item = Direct string | Via "string list" "string list"  \<comment> \<open>gateways from the outside in, sources\<close>

fun separated :: "'a list \<Rightarrow> 'a list list \<Rightarrow> 'a list" where
  "separated sep [] = []"
| "separated sep [x] = x"
| "separated sep (x # y # xs) = x @ sep @ separated sep (y # xs)"

definition name_ok :: "string \<Rightarrow> bool" where
  "name_ok s \<longleftrightarrow> s \<noteq> [] \<and> set s \<inter> {CHR ''^'', CHR ''('', CHR '')'', CHR ''='', CHR '' ''} = {}"

fun item_ok :: "source_item \<Rightarrow> bool" where
  "item_ok (Direct s) = name_ok s"
| "item_ok (Via gs ss) = (gs \<noteq> [] \<and> ss \<noteq> [] \<and> list_all name_ok gs \<and> list_all name_ok ss)"

fun item_text :: "source_item \<Rightarrow> string" where
  "item_text (Direct s) = s"
| "item_text (Via gs ss) = concat (map (\<lambda>g. g @ ''('') gs) @ separated ''^'' ss @ replicate (length gs) (CHR '')'')"

definition topology_text :: "string list \<Rightarrow> source_item list \<Rightarrow> string" where
  "topology_text sinks items = separated ''^'' sinks @ ''='' @ separated ''^'' (map item_text items)"

abbreviation "excl \<equiv> te_code MC_EXCLUSIVE_CODE []"
abbreviation "src_code \<equiv> te_code MC_SOURCE_ELEMENT"
abbreviation "gw_codes \<equiv> (\<lambda>g. [te_code MC_GATEWAY_ELEMENT g, te_code MC_LBRACKET_CODE []])"

fun item_codes :: "source_item \<Rightarrow> gc_TopologyElement_s list" where
  "item_codes (Direct s) = [src_code s]"
| "item_codes (Via gs ss) = concat (map gw_codes gs) @ separated [excl] (map (\<lambda>s. [src_code s]) ss)
     @ replicate (length gs) (te_code MC_RBRACKET_CODE [])"

definition topology_codes :: "string list \<Rightarrow> source_item list \<Rightarrow> gc_TopologyElement_s list" where
  "topology_codes sinks items = separated [excl] (map (\<lambda>s. [te_code MC_SINK_ELEMENT s]) sinks)
     @ te_code MC_EQUAL_CODE [] # separated [excl] (map item_codes items)"

section \<open>Parsing them\<close>

lemma te_symbol_codes [simp]:
  "te_symbol ''^'' = excl" "te_symbol ''('' = te_code MC_LBRACKET_CODE []" "te_symbol '')'' = te_code MC_RBRACKET_CODE []"
  by (simp_all add: te_symbol_def te_code_def)

lemma in_name_special [simp]: "\<not> in_name (CHR ''^'')" "\<not> in_name (CHR ''('')" "\<not> in_name (CHR '')'')"
  by (simp_all add: in_name_def)

lemma in_name_of_name: "name_ok s \<Longrightarrow> c \<in> set s \<Longrightarrow> in_name c"
  by (auto simp: name_ok_def in_name_def)

lemma while_until [simp]:
  "d \<notin> set s \<Longrightarrow> takeWhile (\<lambda>c. c \<noteq> d) (s @ t) = s @ takeWhile (\<lambda>c. c \<noteq> d) t"
  "d \<notin> set s \<Longrightarrow> dropWhile (\<lambda>c. c \<noteq> d) (s @ t) = dropWhile (\<lambda>c. c \<noteq> d) t"
  by (induction s) auto

lemma name_ok_while [simp]:
  "name_ok s \<Longrightarrow> takeWhile in_name (s @ t) = s @ takeWhile in_name t"
  "name_ok s \<Longrightarrow> dropWhile in_name (s @ t) = dropWhile in_name t"
  using in_name_of_name by (auto simp: takeWhile_append2 dropWhile_append2)

lemma parse_sources_name: "name_ok s \<Longrightarrow> parse_sources s = [src_code s]"
  using name_ok_while[of s "[]"] by (subst parse_sources.simps) (simp add: name_ok_def del: dropWhile_eq_Nil_conv)

lemma parse_sources_before:
  "name_ok s \<Longrightarrow> \<not> in_name c \<Longrightarrow> parse_sources (s @ c # t)
     = te_code (if c = CHR ''('' then MC_GATEWAY_ELEMENT else MC_SOURCE_ELEMENT) s # te_symbol [c] # parse_sources t"
  by (subst parse_sources.simps) (simp add: name_ok_def[of s])

lemma parse_sources_symbol: "\<not> in_name c \<Longrightarrow> parse_sources (c # t) = te_symbol [c] # parse_sources t"
  by (subst parse_sources.simps) simp

lemma parse_gateways:
  "list_all name_ok gs \<Longrightarrow> parse_sources (concat (map (\<lambda>g. g @ ''('') gs) @ t) = concat (map gw_codes gs) @ parse_sources t"
  by (induction gs) (auto simp: parse_sources_before)

lemma parse_closed:
  "parse_sources (replicate n (CHR '')'') @ t) = replicate n (te_code MC_RBRACKET_CODE []) @ parse_sources t"
  by (induction n) (auto simp: parse_sources_symbol)

lemma parse_inside:
  "list_all name_ok ss \<Longrightarrow> ss \<noteq> [] \<Longrightarrow> parse_sources (separated ''^'' ss @ CHR '')'' # t)
     = separated [excl] (map (\<lambda>s. [src_code s]) ss) @ te_code MC_RBRACKET_CODE [] # parse_sources t"
  by (induction "''^''" ss rule: separated.induct) (auto simp: parse_sources_before)

lemma parse_item:
  assumes "item_ok it" "t = [] \<or> (\<exists>u. t = CHR ''^'' # u)"
  shows "parse_sources (item_text it @ t) = item_codes it @ (case t of [] \<Rightarrow> [] | _ # u \<Rightarrow> excl # parse_sources u)"
proof (cases it)
  case (Direct s)
  then show ?thesis
    using assms by (auto simp: parse_sources_name parse_sources_before)
next
  case (Via gs ss)
  obtain n where n: "length gs = Suc n"
    using assms(1) Via by (cases gs) auto
  have "parse_sources (replicate n (CHR '')'') @ t) = replicate n (te_code MC_RBRACKET_CODE []) @ (case t of [] \<Rightarrow> [] | _ # u \<Rightarrow> excl # parse_sources u)"
    using assms(2) by (auto simp: parse_closed parse_sources_symbol parse_sources.simps[of "[]"])
  then show ?thesis
    using assms(1) Via n by (simp add: parse_gateways parse_inside)
qed

lemma parse_items:
  "list_all item_ok items \<Longrightarrow> parse_sources (separated ''^'' (map item_text items)) = separated [excl] (map item_codes items)"
proof (induction items rule: induct_list012)
  case 1
  then show ?case by (simp add: parse_sources.simps)
next
  case (2 it)
  then show ?case using parse_item[of it "[]"] by simp
next
  case (3 it it' items)
  then show ?case by (simp add: parse_item)
qed

lemma parse_sinks:
  "list_all name_ok sinks \<Longrightarrow> parse_elements ty (separated ''^'' sinks) = separated [excl] (map (\<lambda>s. [te_code ty s]) sinks)"
proof (induction sinks rule: induct_list012)
  case 1
  then show ?case by (simp add: parse_elements.simps)
next
  case (2 s)
  then have "dropWhile (\<lambda>c. c \<noteq> CHR ''^'') s = []" "s \<noteq> []"
    by (auto simp: name_ok_def)
  then show ?case by (subst parse_elements.simps) (simp del: dropWhile_eq_Nil_conv)
next
  case (3 s s' sinks)
  let ?u = "separated ''^'' (s' # sinks)"
  have "dropWhile (\<lambda>c. c \<noteq> CHR ''^'') (s @ CHR ''^'' # ?u) = CHR ''^'' # ?u" "takeWhile (\<lambda>c. c \<noteq> CHR ''^'') (s @ CHR ''^'' # ?u) = s"
    using "3.prems" by (simp_all add: name_ok_def)
  then show ?case
    using 3 by (subst separated.simps, subst parse_elements.simps) simp
qed

lemma set_separated: "set (separated sep xs) \<subseteq> set sep \<union> \<Union> (set ` set xs)"
  by (induction sep xs rule: separated.induct) auto

lemma count_list_append_eq [simp]: "count_list (xs @ ys) x = count_list xs x + count_list ys x"
  by (induction xs) auto

lemma count_list_replicate [simp]: "count_list (replicate n y) x = (if x = y then n else 0)"
  by (induction n) auto

lemma count_name [simp]: "name_ok s \<Longrightarrow> c \<in> {CHR ''('', CHR '')'', CHR ''='', CHR '' ''} \<Longrightarrow> count_list s c = 0"
  by (auto simp: name_ok_def count_list_0_iff)

lemma count_names: "list_all name_ok ss \<Longrightarrow> c \<in> {CHR ''('', CHR '')'', CHR ''='', CHR '' ''} \<Longrightarrow> count_list (separated ''^'' ss) c = 0"
  by (induction "''^''" ss rule: separated.induct) auto

lemma count_gateways:
  "list_all name_ok gs \<Longrightarrow> c \<in> {CHR ''('', CHR '')'', CHR ''='', CHR '' ''}
     \<Longrightarrow> count_list (concat (map (\<lambda>g. g @ ''('') gs)) c = (if c = CHR ''('' then length gs else 0)"
  by (induction gs) auto

lemma count_item:
  "item_ok it \<Longrightarrow> count_list (item_text it) (CHR ''('') = count_list (item_text it) (CHR '')'')"
  "item_ok it \<Longrightarrow> count_list (item_text it) (CHR ''='') = 0"
  "item_ok it \<Longrightarrow> count_list (item_text it) (CHR '' '') = 0"
  by (cases it; simp add: count_gateways count_names)+

lemma count_items:
  assumes "list_all item_ok items"
  shows "count_list (separated ''^'' (map item_text items)) (CHR ''('') = count_list (separated ''^'' (map item_text items)) (CHR '')'')"
    "count_list (separated ''^'' (map item_text items)) (CHR ''='') = 0"
    "count_list (separated ''^'' (map item_text items)) (CHR '' '') = 0"
  using assms by (induction items rule: induct_list012) (simp_all add: count_item)

lemma parse_topology_text:
  assumes "list_all name_ok sinks" "list_all item_ok items"
  shows "parseTopologyString (topology_text sinks items) = Some (topology_codes sinks items)"
proof -
  have no: "c \<notin> set (separated ''^'' sinks)" if "c \<in> {CHR ''('', CHR '')'', CHR ''='', CHR '' ''}" for c
    using count_names[OF assms(1) that] by (simp add: count_list_0_iff)
  have space: "CHR '' '' \<notin> set (separated ''^'' (map item_text items))"
    using count_items(3)[OF assms(2)] by (simp add: count_list_0_iff)
  have "takeWhile (\<lambda>c. c \<noteq> CHR ''='') (topology_text sinks items) = separated ''^'' sinks"
    using no by (simp add: topology_text_def)
  moreover have "dropWhile (\<lambda>c. c \<noteq> CHR ''='') (topology_text sinks items) = CHR ''='' # separated ''^'' (map item_text items)"
    using no by (simp add: topology_text_def)
  moreover have "count_list (topology_text sinks items) (CHR ''='') = 1"
    using count_names[OF assms(1)] count_items[OF assms(2)] by (simp add: topology_text_def)
  moreover have "count_list (topology_text sinks items) (CHR ''('') = count_list (topology_text sinks items) (CHR '')'')"
    using count_names[OF assms(1)] count_items[OF assms(2)] by (simp add: topology_text_def)
  moreover have "CHR '' '' \<notin> set (topology_text sinks items)"
    using no space by (simp add: topology_text_def)
  ultimately show ?thesis
    using no assms by (simp add: parseTopologyString_def parseElementList_def parse_sinks parse_items topology_codes_def)
qed


section \<open>The route they describe\<close>

text \<open>
  The route through an item: a source that stands alone is connected directly; behind gateways there is one
  segment per gateway, each from the gateway's source side to what lies outside of it.
\<close>

definition place :: "topology_world \<Rightarrow> string \<Rightarrow> string \<Rightarrow> bool" where
  "place w src s \<longleftrightarrow> tw_source w s \<noteq> None \<and> src = s \<or> s = ''*'' \<and> tw_subject w src ET_SOURCE"

fun enter_gateways :: "topology_world \<Rightarrow> am_RoutingElement_s \<Rightarrow> string list \<Rightarrow> am_RoutingElement_s \<times> am_RoutingElement_s list" where
  "enter_gateways w r [] = (r, [])"
| "enter_gateways w r (g # gs) =
     (let ga = the (tw_gateway w g);
          (r', segs) = enter_gateways w (r\<lparr>rt_sourceID := ga_sourceID ga, rt_sinkID := ga_sinkID ga, rt_domainID := ga_domainSinkID ga\<rparr>) gs
      in (r', r\<lparr>rt_sourceID := ga_sourceID ga\<rparr> # segs))"

fun item_route :: "topology_world \<Rightarrow> string \<Rightarrow> am_ID_t \<Rightarrow> am_RoutingElement_s \<Rightarrow> source_item \<Rightarrow> am_RoutingElement_s list option" where
  "item_route w src srcID r (Direct s) = (if place w src s then Some [r\<lparr>rt_sourceID := srcID\<rparr>] else None)"
| "item_route w src srcID r (Via gs ss) =
     (if list_all (\<lambda>g. tw_gateway w g \<noteq> None) gs \<and> list_ex (place w src) ss
      then (case enter_gateways w r gs of (r', segs) \<Rightarrow> Some (segs @ [r'\<lparr>rt_sourceID := srcID\<rparr>])) else None)"

fun first_route :: "topology_world \<Rightarrow> string \<Rightarrow> am_ID_t \<Rightarrow> am_RoutingElement_s \<Rightarrow> source_item list \<Rightarrow> am_RoutingElement_s list option" where
  "first_route w src srcID r [] = None"
| "first_route w src srcID r (it # its) =
     (case item_route w src srcID r it of Some segs \<Rightarrow> Some segs | None \<Rightarrow> first_route w src srcID r its)"

section \<open>The search finds it\<close>

lemma te_codeID_code [simp]: "te_codeID (te_code c nm) = c"
  by (simp add: te_code_def)

lemma te_name_code [simp]: "te_name (te_code MC_SOURCE_ELEMENT nm) = nm" "te_name (te_code MC_GATEWAY_ELEMENT nm) = nm"
    "te_name (te_code MC_SINK_ELEMENT nm) = nm"
  by (simp_all add: te_code_def)

definition alike :: "am_RoutingElement_s \<Rightarrow> am_RoutingElement_s \<Rightarrow> bool" where
  "alike r r' \<longleftrightarrow> (\<forall>x. r\<lparr>rt_sourceID := x\<rparr> = r'\<lparr>rt_sourceID := x\<rparr>)"

lemma alike_refl [simp]: "alike r r"
  by (simp add: alike_def)

lemma alike_update [simp]: "alike (r\<lparr>rt_sourceID := x\<rparr>) r' \<longleftrightarrow> alike r r'"
  by (simp add: alike_def)

lemma enter_gateways_alike: "alike r r' \<Longrightarrow> gs \<noteq> [] \<Longrightarrow> enter_gateways w r gs = enter_gateways w r' gs"
  by (cases gs) (auto simp: alike_def)

lemma enter_gateways_length: "length (snd (enter_gateways w r gs)) = length gs"
  by (induction gs arbitrary: r) (auto simp: Let_def split_beta)

lemma enter_gateways_hd: "gs \<noteq> [] \<Longrightarrow> alike (hd (snd (enter_gateways w r gs))) r"
  by (cases gs) (auto simp: Let_def split_beta)

lemma search_sources:
  "list_all (\<lambda>s. \<not> place w src s) ss \<Longrightarrow>
     search_route w src srcID n r rs (separated [excl] (map (\<lambda>s. [src_code s]) ss) @ es) = search_route w src srcID n r rs es"
  by (induction ss rule: induct_list012) (auto simp: place_def)

lemma search_sources_found:
  "list_ex (place w src) ss \<Longrightarrow>
     search_route w src srcID n r rs (separated [excl] (map (\<lambda>s. [src_code s]) ss) @ es) = Some (True, rs @ [r\<lparr>rt_sourceID := srcID\<rparr>])"
  by (induction ss rule: induct_list012) (auto simp: place_def)

lemma search_gateways:
  "list_all (\<lambda>g. tw_gateway w g \<noteq> None) gs \<Longrightarrow>
     search_route w src srcID n r rs (concat (map gw_codes gs) @ es)
       = search_route w src srcID (n + length gs) (fst (enter_gateways w r gs)) (rs @ snd (enter_gateways w r gs)) es"
  by (induction gs arbitrary: n r rs) (auto simp: Let_def split_beta)

lemma search_closed: "search_route w src srcID 0 r rs (replicate n (te_code MC_RBRACKET_CODE []) @ es) = search_route w src srcID 0 r rs es"
  by (induction n) (auto simp: drop_gateways_def)

lemma skip_sources: "skip_gateway (Suc n) (separated [excl] (map (\<lambda>s. [src_code s]) ss) @ es) = skip_gateway (Suc n) es"
  by (induction ss rule: induct_list012) auto

lemma skip_gateways: "skip_gateway (Suc n) (concat (map gw_codes gs) @ es) = skip_gateway (Suc n + length gs) es"
  by (induction gs arbitrary: n) auto

lemma skip_closed: "skip_gateway n (replicate n (te_code MC_RBRACKET_CODE []) @ es) = Some es"
  by (induction n) auto

lemma drop_entered:
  "length segs = n \<Longrightarrow> drop_gateways n r (rs @ segs) = (if n = 0 then r else hd segs, rs)"
  by (cases segs) (auto simp: drop_gateways_def nth_append)

lemma search_via_missing:
  assumes "\<not> list_all (\<lambda>g. tw_gateway w g \<noteq> None) gs"
  shows "\<exists>r'. alike r' r \<and> search_route w src srcID 0 r rs (item_codes (Via gs ss) @ es) = search_route w src srcID 0 r' rs es"
proof -
  obtain gs1 g gs2 where gs: "gs = gs1 @ g # gs2" "list_all (\<lambda>g. tw_gateway w g \<noteq> None) gs1" "tw_gateway w g = None"
    using split_list_first_prop[of gs "\<lambda>g. tw_gateway w g = None"] assms by (auto simp: list_all_iff)
  let ?n = "length gs1"
  let ?tail = "separated [excl] (map (\<lambda>s. [src_code s]) ss) @ replicate (Suc ?n + length gs2) (te_code MC_RBRACKET_CODE []) @ es"
  have skip: "skip_gateway (Suc ?n) (te_code MC_LBRACKET_CODE [] # concat (map gw_codes gs2) @ ?tail) = Some es"
    using skip_gateways[of ?n gs2 ?tail] skip_sources[of "?n + length gs2" ss] skip_closed[of "Suc (?n + length gs2)" es]
    by simp
  have segs: "length (snd (enter_gateways w r gs1)) = ?n"
    by (rule enter_gateways_length)
  let ?r = "if gs1 = [] then r else hd (snd (enter_gateways w r gs1))"
  have "alike ?r r"
    using enter_gateways_hd by auto
  moreover have "search_route w src srcID 0 r rs (item_codes (Via gs ss) @ es) = search_route w src srcID 0 ?r rs es"
    using gs(3) skip drop_entered[OF segs] by (simp add: gs(1) search_gateways[OF gs(2)])
  ultimately show ?thesis
    by blast
qed

lemma search_item:
  assumes "item_ok it" "alike r r0"
  shows "case item_route w src srcID r0 it of
      Some segs \<Rightarrow> search_route w src srcID 0 r rs (item_codes it @ es) = Some (True, rs @ segs)
    | None \<Rightarrow> \<exists>r'. alike r' r0 \<and> search_route w src srcID 0 r rs (item_codes it @ es) = search_route w src srcID 0 r' rs es"
proof (cases it)
  case (Direct s)
  then show ?thesis
    using assms(2) by (auto simp: place_def alike_def)
next
  case (Via gs ss)
  then have gs: "gs \<noteq> []" using assms(1) by simp
  have enter: "enter_gateways w r gs = enter_gateways w r0 gs"
    by (rule enter_gateways_alike[OF assms(2) gs])
  show ?thesis
  proof (cases "list_all (\<lambda>g. tw_gateway w g \<noteq> None) gs")
    case False
    then show ?thesis
      using search_via_missing[OF False, of r src srcID rs ss es] assms(2) Via by (auto simp: alike_def)
  next
    case True
    obtain r' segs where e: "enter_gateways w r0 gs = (r', segs)" by (cases "enter_gateways w r0 gs") auto
    have len: "length segs = length gs" using enter_gateways_length[of w r0 gs] e by simp
    show ?thesis
    proof (cases "list_ex (place w src) ss")
      case ex: True
      then show ?thesis
        using True Via by (simp add: search_gateways search_sources_found enter e)
    next
      case no: False
      have none: "list_all (\<lambda>s. \<not> place w src s) ss" using no by (auto simp: list_all_iff list_ex_iff)
      obtain n where n: "length gs = Suc n" using gs by (cases gs) auto
      have "alike (hd segs) r0" using enter_gateways_hd[OF gs, of w r0] e by simp
      moreover have "search_route w src srcID 0 r rs (item_codes it @ es) = search_route w src srcID 0 (hd segs) rs es"
        using True Via n drop_entered[OF len, of r' rs]
        by (simp add: search_gateways search_sources[OF none] enter e search_closed)
      ultimately show ?thesis
        using no Via by auto
    qed
  qed
qed

lemma search_items:
  assumes "list_all item_ok items" "alike r r0"
  shows "search_route w src srcID 0 r rs (separated [excl] (map item_codes items))
    = Some (case first_route w src srcID r0 items of Some segs \<Rightarrow> (True, rs @ segs) | None \<Rightarrow> (False, rs))"
  using assms
proof (induction items arbitrary: r rule: induct_list012)
  case 1
  then show ?case by simp
next
  case (2 it)
  then show ?case
    using search_item[of it r r0 w src srcID rs "[]"] by (auto split: option.splits)
next
  case (3 it it' items)
  let ?es = "excl # separated [excl] (map item_codes (it' # items))"
  have "search_route w src srcID 0 r' rs ?es = search_route w src srcID 0 r' rs (separated [excl] (map item_codes (it' # items)))" for r'
    by simp
  then show ?case
    using search_item[of it r r0 w src srcID rs ?es] "3.IH"(2) "3.prems" by (auto split: option.splits)
qed


lemma search_no_place:
  "list_all (\<lambda>e. te_codeID e \<notin> {MC_SOURCE_ELEMENT, MC_GATEWAY_ELEMENT, MC_RBRACKET_CODE}) ps \<Longrightarrow>
     search_route w src srcID n r rs (ps @ es) = search_route w src srcID n r rs es"
  by (induction ps) auto

lemma sinks_no_place:
  "list_all (\<lambda>e. te_codeID e \<notin> {MC_SOURCE_ELEMENT, MC_GATEWAY_ELEMENT, MC_RBRACKET_CODE})
     (separated [excl] (map (\<lambda>s. [te_code MC_SINK_ELEMENT s]) sinks))"
  by (induction sinks rule: induct_list012) auto

lemma sink_present:
  "sink \<in> set sinks \<Longrightarrow> checkElementPresentInTopology w (topology_codes sinks items) sink MC_SINK_ELEMENT"
  unfolding checkElementPresentInTopology_def topology_codes_def list_ex_append
  by (induction sinks rule: induct_list012) auto

text \<open>
  C36: a topology string of the documented form is parsed, and for a source and one of its sinks that are
  registered the search gives the route of the first item that names the source (or the asterisk, for a
  source of the class) and whose gateways are all registered: directly, or with one segment per gateway.
  Without such an item the route stays as it was.
\<close>

theorem topology_route:
  assumes "list_all name_ok sinks" "list_all item_ok items" "sink \<in> set sinks"
    and "tw_source w src = Some srcID" "tw_sink w sink = Some (sinkID, domainID)"
  shows "\<exists>t. parseTopologyString (topology_text sinks items) = Some t
    \<and> getRouteFromTopology w True t src sink route = Some
        (let route' = route\<lparr>ro_sinkID := sinkID, ro_sourceID := srcID, ro_name := src @ '':'' @ sink\<rparr>
         in case first_route w src srcID \<lparr>rt_sourceID = 0, rt_sinkID = sinkID, rt_domainID = domainID, rt_connectionFormat = 0\<rparr> items of
              Some segs \<Rightarrow> (E_OK, route'\<lparr>ro_route := ro_route route @ segs\<rparr>)
            | None \<Rightarrow> (E_UNKNOWN, route'))"
proof (intro exI conjI)
  show "parseTopologyString (topology_text sinks items) = Some (topology_codes sinks items)"
    by (rule parse_topology_text[OF assms(1,2)])
  let ?r0 = "\<lparr>rt_sourceID = 0, rt_sinkID = sinkID, rt_domainID = domainID, rt_connectionFormat = 0\<rparr>"
  have "search_route w src srcID 0 ?r0 rs (topology_codes sinks items)
      = Some (case first_route w src srcID ?r0 items of Some segs \<Rightarrow> (True, rs @ segs) | None \<Rightarrow> (False, rs))" for rs
    using search_items[OF assms(2), of ?r0 ?r0] by (simp add: topology_codes_def search_no_place[OF sinks_no_place])
  then show "getRouteFromTopology w True (topology_codes sinks items) src sink route = Some
        (let route' = route\<lparr>ro_sinkID := sinkID, ro_sourceID := srcID, ro_name := src @ '':'' @ sink\<rparr>
         in case first_route w src srcID ?r0 items of
              Some segs \<Rightarrow> (E_OK, route'\<lparr>ro_route := ro_route route @ segs\<rparr>)
            | None \<Rightarrow> (E_UNKNOWN, route'))"
    using assms(3-5) by (simp add: getRouteFromTopology_def sink_present Let_def split: option.splits)
qed

definition demo_topology :: topology_world where
  "demo_topology = \<lparr>tw_source = map_of [(''Source1'', 1), (''Source3'', 3)], tw_sink = map_of [(''Sink1'', (7, 70))],
     tw_gateway = map_of [(''Gateway1'', \<lparr>ga_sourceID = 11, ga_sinkID = 12, ga_domainSinkID = 80\<rparr>)], tw_subject = (\<lambda>nm ty. False)\<rparr>"

definition demo_route :: gc_Route_s where
  "demo_route = \<lparr>ro_sourceID = 0, ro_sinkID = 0, ro_route = [], ro_name = []\<rparr>"

theorem topology_route_witness:
  "\<exists>t. parseTopologyString ''Sink1^Sink2=Gateway1(Source1^Source2)^Source3'' = Some t
    \<and> getRouteFromTopology demo_topology True t ''Source1'' ''Sink1'' demo_route = Some (E_OK,
        \<lparr>ro_sourceID = 1, ro_sinkID = 7, ro_route = [\<lparr>rt_sourceID = 11, rt_sinkID = 7, rt_domainID = 70, rt_connectionFormat = 0\<rparr>,
           \<lparr>rt_sourceID = 1, rt_sinkID = 12, rt_domainID = 80, rt_connectionFormat = 0\<rparr>], ro_name = ''Source1:Sink1''\<rparr>)"
proof -
  let ?sinks = "[''Sink1'', ''Sink2'']" and ?items = "[Via [''Gateway1''] [''Source1'', ''Source2''], Direct ''Source3'']"
  have "list_all name_ok ?sinks" "list_all item_ok ?items" "''Sink1'' \<in> set ?sinks"
    "tw_source demo_topology ''Source1'' = Some 1" "tw_sink demo_topology ''Sink1'' = Some (7, 70)"
    by (simp_all add: name_ok_def demo_topology_def)
  from topology_route[OF this, of demo_route] show ?thesis
    by (simp add: topology_text_def place_def demo_topology_def demo_route_def Let_def)
qed

section \<open>Closed brackets keep the search inside\<close>

fun closes :: "nat \<Rightarrow> gc_TopologyElement_s list \<Rightarrow> bool" where
  "closes d [] = (d = 0)"
| "closes d (e # es) =
     (if te_codeID e = MC_GATEWAY_ELEMENT then closes (Suc d) es
      else if te_codeID e = MC_RBRACKET_CODE then 0 < d \<and> closes (d - 1) es
      else closes d es)"

lemma skip_closes: "closes d es \<Longrightarrow> n \<le> d \<Longrightarrow> \<exists>fs. skip_gateway n es = Some fs \<and> closes (d - n) fs"
proof (induction n es arbitrary: d rule: skip_gateway.induct)
  case (3 n e es)
  show ?case
  proof (cases "te_codeID e = MC_RBRACKET_CODE")
    case True
    then show ?thesis using "3.IH"(1)[OF True, of "d - 1"] "3.prems" by (cases d) auto
  next
    case False
    then show ?thesis
      using "3.IH"(2)[OF False, of "if te_codeID e = MC_GATEWAY_ELEMENT then Suc d else d"] "3.prems"
      by (auto split: if_splits)
  qed
qed auto

lemma drop_gateways_snd: "snd (drop_gateways n r rs) = take (length rs - n) rs"
  by (simp add: drop_gateways_def)

lemma search_closes:
  "closes d es \<Longrightarrow> n \<le> d \<Longrightarrow> n \<le> length rs \<Longrightarrow>
     \<exists>found rs'. search_route w src srcID n r rs es = Some (found, rs') \<and> (\<not> found \<longrightarrow> rs' = take (length rs - n) rs)"
proof (induction w src srcID n r rs es arbitrary: d rule: search_route.induct)
  case (1 w src srcID n r rs)
  then show ?case by (auto intro: exI[of _ False])
next
  case (2 w src srcID n r rs e es)
  obtain r' rs' where d: "drop_gateways n r rs = (r', rs')" "rs' = take (length rs - n) rs"
    using drop_gateways_snd[of n r rs] by (cases "drop_gateways n r rs") auto
  show ?case
  proof (cases "te_codeID e = MC_SOURCE_ELEMENT")
    case True
    then show ?thesis using "2.IH"(1)[OF True, of d] "2.prems" by auto
  next
    case ns: False
    show ?thesis
    proof (cases "te_codeID e = MC_GATEWAY_ELEMENT")
      case gw: True
      show ?thesis
      proof (cases "tw_gateway w (te_name e)")
        case None
        obtain fs where fs: "skip_gateway (Suc n) es = Some fs" "closes (Suc d - Suc n) fs"
          using skip_closes[of "Suc d" es "Suc n"] "2.prems" gw by auto
        show ?thesis
          using "2.IH"(2)[OF ns gw None d(1)[symmetric] fs(1), of "Suc d - Suc n"] fs d None gw by simp
      next
        case (Some g)
        show ?thesis
          using "2.IH"(3)[OF ns gw Some, of "Suc d"] "2.prems" gw Some by auto
      qed
    next
      case ng: False
      show ?thesis
      proof (cases "te_codeID e = MC_RBRACKET_CODE")
        case rb: True
        show ?thesis
          using "2.IH"(4)[OF ns ng rb d(1)[symmetric], of "d - 1"] "2.prems" d rb ng by auto
      next
        case False
        then show ?thesis using "2.IH"(5)[OF ns ng False, of d] "2.prems" ns ng by auto
      qed
    qed
  qed
qed

lemma getRouteFromTopology_closes:
  assumes "closes 0 t"
  shows "\<exists>err route'. getRouteFromTopology w belongs t src sink route = Some (err, route')
    \<and> (err \<noteq> E_OK \<longrightarrow> ro_route route' = ro_route route)"
proof (cases "tw_source w src")
  case None
  then show ?thesis by (simp add: getRouteFromTopology_def)
next
  case so: (Some srcID)
  show ?thesis
  proof (cases "tw_sink w sink")
    case None
    then show ?thesis using so by (simp add: getRouteFromTopology_def)
  next
    case (Some p)
    let ?r0 = "\<lparr>rt_sourceID = 0, rt_sinkID = fst p, rt_domainID = snd p, rt_connectionFormat = 0\<rparr>"
    obtain found rs where s: "search_route w src srcID 0 ?r0 (ro_route route) t = Some (found, rs)" "\<not> found \<longrightarrow> rs = ro_route route"
      using search_closes[OF assms, of 0 "ro_route route" w src srcID ?r0] by auto
    show ?thesis
      using so Some s(2) by (simp add: getRouteFromTopology_def Let_def split_beta s(1))
  qed
qed

text \<open>
  when in every topology of a class each gateway is followed by its closing bracket, the search for a
  preferred route never leaves the list of elements, and topologies without the route leave no segment
  behind in it.
\<close>

theorem preferred_route_stays_inside:
  assumes "list_all (closes 0) listTopologies"
  shows "\<exists>err route'. getPreferredRoute w belongs src sink listTopologies route = Some (err, route')
    \<and> (err \<noteq> E_OK \<longrightarrow> ro_route route' = ro_route route)"
proof -
  have "\<exists>err' route'. preferred_route w belongs src sink ts (err, route) = Some (err', route')
      \<and> (err' \<noteq> E_OK \<longrightarrow> ro_route route' = ro_route route)"
    if "list_all (closes 0) ts" "err \<noteq> E_OK" for ts err route
    using that
  proof (induction ts arbitrary: err route)
    case Nil
    then show ?case by simp
  next
    case (Cons t ts)
    obtain e r where r: "getRouteFromTopology w belongs t src sink route = Some (e, r)" "e \<noteq> E_OK \<longrightarrow> ro_route r = ro_route route"
      using getRouteFromTopology_closes[of t w belongs src sink route] Cons.prems(1) by (auto simp del: de_Morgan_conj)
    show ?case
    proof (cases "e = E_OK")
      case True
      then show ?thesis using r by simp
    next
      case False
      then show ?thesis using Cons.IH[of e r] Cons.prems r by (cases e) auto
    qed
  qed
  from this[OF assms, of E_NOT_POSSIBLE route] show ?thesis
    by (simp add: getPreferredRoute_def)
qed

theorem preferred_route_stays_inside_witness:
  "\<exists>err route'. getPreferredRoute demo_topology True ''Source9'' ''Sink1''
      [topology_codes [''Sink1''] [Via [''Gateway2'', ''Gateway3''] [''Source9'']]] demo_route = Some (err, route')
    \<and> (err \<noteq> E_OK \<longrightarrow> ro_route route' = ro_route demo_route)"
  by (rule preferred_route_stays_inside) (simp add: topology_codes_def)

text \<open>
  A closing bracket drops all gateways passed so far: in a topology with a source behind an inner
  gateway and another one beside it, within the outer gateway, the route to the second source leads from
  the sink to the source directly, without the gateway.
\<close>

theorem source_beside_inner_gateway:
  "\<exists>t. parseTopologyString ''Sink1=Gateway1(Gateway1(Source1)^Source3)'' = Some t
    \<and> closes 0 t
    \<and> getRouteFromTopology demo_topology True t ''Source3'' ''Sink1'' demo_route = Some (E_OK,
        \<lparr>ro_sourceID = 3, ro_sinkID = 7, ro_route = [\<lparr>rt_sourceID = 3, rt_sinkID = 7, rt_domainID = 70, rt_connectionFormat = 0\<rparr>],
         ro_name = ''Source3:Sink1''\<rparr>)"
proof (intro exI conjI)
  let ?t = "the (parseTopologyString ''Sink1=Gateway1(Gateway1(Source1)^Source3)'')"
  show "parseTopologyString ''Sink1=Gateway1(Gateway1(Source1)^Source3)'' = Some ?t"
    by code_simp
  show "closes 0 ?t"
    by code_simp
  show "getRouteFromTopology demo_topology True ?t ''Source3'' ''Sink1'' demo_route = Some (E_OK,
        \<lparr>ro_sourceID = 3, ro_sinkID = 7, ro_route = [\<lparr>rt_sourceID = 3, rt_sinkID = 7, rt_domainID = 70, rt_connectionFormat = 0\<rparr>],
         ro_name = ''Source3:Sink1''\<rparr>)"
    by code_simp
qed

end
