(* ===== verification/Persistence.thy ===== *)
theory Persistence
  imports Policy_Parser Ordered_Map "HOL-Library.List_Lexorder" "HOL-Library.Char_ord"
begin

text \<open>
  The default persistence (\<open>CAmPersistenceDefault.cpp\<close>): a map from five keys to strings, which is read
  from a file when it is opened and written back when the object goes. Between the strings and the file
  stand structures of classes, sinks and connections; the XML nodes that read and write them are a
  parameter.
\<close>

section \<open>Splitting a string\<close>

fun pieces :: "char \<Rightarrow> string \<Rightarrow> string list" where
  "pieces d [] = [[]]"
| "pieces d (c # s) = (if c = d then [] # pieces d s else (case pieces d s of [] \<Rightarrow> [[c]] | p # ps \<Rightarrow> (c # p) # ps))"

text \<open>The pieces in front of a delimiter unless empty, and what is left, which must not be empty.\<close>

definition parseString :: "char \<Rightarrow> string \<Rightarrow> am_Error_e \<times> string list" where
  "parseString d s =
     (if s = [] then (E_NOT_POSSIBLE, [])
      else (let ps = pieces d s; toks = filter (\<lambda>t. t \<noteq> []) (butlast ps)
            in if last ps \<noteq> [] \<and> length ps \<noteq> 1 then (E_OK, toks @ [last ps]) else (E_NOT_POSSIBLE, toks)))"

definition split_ok :: "char \<Rightarrow> string \<Rightarrow> string list option" where
  "split_ok d s = (case parseString d s of (err, ts) \<Rightarrow> if err = E_OK then Some ts else None)"

text \<open>A split that has to give exactly two parts.\<close>

definition split_two :: "char \<Rightarrow> string \<Rightarrow> (string \<times> string) option" where
  "split_two d s = (case split_ok d s of Some [a, b] \<Rightarrow> Some (a, b) | _ \<Rightarrow> None)"

section \<open>Data\<close>

definition MAX_NEG_VOL :: "16 word" where
  "MAX_NEG_VOL = - 32768"

record gc_persistence_connectionData_s =
  pn_sourceName :: string
  pn_volume :: "16 word"
  pn_order :: "16 word"
  pn_lastConnectionValid :: "16 word"

definition pn_init :: gc_persistence_connectionData_s where
  "pn_init = \<lparr>pn_sourceName = [], pn_volume = MAX_NEG_VOL, pn_order = - 1, pn_lastConnectionValid = MAX_NEG_VOL\<rparr>"

record gc_persistence_stackData_s =
  ps_listConnection :: "gc_persistence_connectionData_s list"
  ps_sinkName :: string
  ps_volume :: "16 word"

definition ps_init :: gc_persistence_stackData_s where
  "ps_init = \<lparr>ps_listConnection = [], ps_sinkName = [], ps_volume = MAX_NEG_VOL\<rparr>"

record gc_persistence_mainSoundProData_s =
  pm_listMainSoundProperty :: "(string \<times> string) list"  \<comment> \<open>type and value\<close>
  pm_sinkName :: string
  pm_sourceName :: string

record gc_persistence_classData_s =
  pc_name :: string
  pc_volume :: "16 word"
  pc_listConnections :: "gc_persistence_stackData_s list"
  pc_listMainSoundProperties :: "gc_persistence_mainSoundProData_s list"

definition pc_init :: gc_persistence_classData_s where
  "pc_init = \<lparr>pc_name = [], pc_volume = MAX_NEG_VOL, pc_listConnections = [], pc_listMainSoundProperties = []\<rparr>"

type_synonym file_data = "(string \<times> string) list"

section \<open>The map of strings\<close>

definition pd_read :: "string \<Rightarrow> file_data \<Rightarrow> am_Error_e \<times> string option" where
  "pd_read keyName d = (case map_of d keyName of Some v \<Rightarrow> (E_OK, Some v) | None \<Rightarrow> (E_DATABASE_ERROR, None))"

definition pd_write :: "string \<Rightarrow> string \<Rightarrow> file_data \<Rightarrow> am_Error_e \<times> file_data" where
  "pd_write keyName v d = (E_OK, om_insert keyName v d)"

section \<open>Strings to structures\<close>

definition updateMainConnectionVolume :: "string \<Rightarrow> string \<Rightarrow> string \<Rightarrow> 16 word
    \<Rightarrow> gc_persistence_classData_s list \<Rightarrow> gc_persistence_classData_s list" where
  "updateMainConnectionVolume className sourceName sinkName v cls =
     (let conn = pn_init\<lparr>pn_sourceName := sourceName, pn_volume := v\<rparr>;
          stack = ps_init\<lparr>ps_sinkName := sinkName, ps_listConnection := [conn]\<rparr>;
          upd_conns = (\<lambda>cs. if list_ex (\<lambda>c. pn_sourceName c = sourceName) cs
             then map (\<lambda>c. if pn_sourceName c = sourceName then c\<lparr>pn_volume := v\<rparr> else c) cs else cs @ [conn]);
          upd_stacks = (\<lambda>ss. if list_ex (\<lambda>s. ps_sinkName s = sinkName) ss
             then map (\<lambda>s. if ps_sinkName s = sinkName then s\<lparr>ps_listConnection := upd_conns (ps_listConnection s)\<rparr> else s) ss
             else ss @ [stack\<lparr>ps_listConnection := [conn, conn]\<rparr>])
      in if list_ex (\<lambda>c. pc_name c = className) cls
         then map (\<lambda>c. if pc_name c = className then c\<lparr>pc_listConnections := upd_stacks (pc_listConnections c)\<rparr> else c) cls
         else cls @ [pc_init\<lparr>pc_name := className, pc_listConnections := [stack]\<rparr>])"

definition connection_volume_entry :: "string \<Rightarrow> gc_persistence_classData_s list \<Rightarrow> string \<Rightarrow> gc_persistence_classData_s list" where
  "connection_volume_entry className cls str =
     (case split_two (CHR '':'') str of
        None \<Rightarrow> cls
      | Some (sourceName, r) \<Rightarrow>
          (case split_two (CHR ''='') r of
             None \<Rightarrow> cls
           | Some (sinkName, v) \<Rightarrow> updateMainConnectionVolume className sourceName sinkName (word_of_int (atoi v)) cls))"

text \<open>A class string: its name and the rest.\<close>

definition each_class :: "(string \<Rightarrow> string \<Rightarrow> 'c \<Rightarrow> 'c) \<Rightarrow> string \<Rightarrow> 'c \<Rightarrow> 'c" where
  "each_class f str cls =
     (case split_ok (CHR 0x7B) str of
        None \<Rightarrow> cls
      | Some ts \<Rightarrow> foldl (\<lambda>cls t. case split_two (CHR '','') t of None \<Rightarrow> cls | Some (nm, r) \<Rightarrow> f nm r cls) cls ts)"

definition lastMainConnectionVolumeStruct :: "string \<Rightarrow> gc_persistence_classData_s list \<Rightarrow> gc_persistence_classData_s list" where
  "lastMainConnectionVolumeStruct = each_class (\<lambda>className r cls.
     case split_ok (CHR ''['') r of None \<Rightarrow> cls | Some es \<Rightarrow> foldl (connection_volume_entry className) cls es)"

definition updateClassVolume :: "gc_persistence_classData_s \<Rightarrow> gc_persistence_classData_s list \<Rightarrow> gc_persistence_classData_s list" where
  "updateClassVolume d cls =
     (let upd_stacks = (\<lambda>ss. foldl (\<lambda>ss i. if list_ex (\<lambda>s. ps_sinkName s = ps_sinkName i) ss
             then map (\<lambda>s. if ps_sinkName s = ps_sinkName i then s\<lparr>ps_volume := ps_volume i\<rparr> else s) ss
             else ss @ [i]) ss (pc_listConnections d))
      in if list_ex (\<lambda>c. pc_name c = pc_name d) cls
         then map (\<lambda>c. if pc_name c = pc_name d then c\<lparr>pc_listConnections := upd_stacks (pc_listConnections c)\<rparr> else c) cls
         else cls @ [d])"

definition class_volume_entry :: "gc_persistence_classData_s \<Rightarrow> string \<Rightarrow> gc_persistence_classData_s" where
  "class_volume_entry d str =
     (case split_two (CHR '':'') str of
        None \<Rightarrow> d
      | Some (sinkName, v) \<Rightarrow>
          if sinkName = ''*'' then d\<lparr>pc_volume := word_of_int (atoi v)\<rparr>
          else d\<lparr>pc_listConnections := pc_listConnections d @ [ps_init\<lparr>ps_sinkName := sinkName, ps_volume := word_of_int (atoi v)\<rparr>]\<rparr>)"

definition lastClassVolumeStruct :: "string \<Rightarrow> gc_persistence_classData_s list \<Rightarrow> gc_persistence_classData_s list" where
  "lastClassVolumeStruct = each_class (\<lambda>className r cls.
     case split_ok (CHR ''['') r of None \<Rightarrow> cls
       | Some es \<Rightarrow> updateClassVolume (foldl class_volume_entry (pc_init\<lparr>pc_name := className\<rparr>) es) cls)"

definition updateMainConnection :: "gc_persistence_classData_s \<Rightarrow> gc_persistence_classData_s list \<Rightarrow> gc_persistence_classData_s list" where
  "updateMainConnection d cls =
     (let upd_conns = (\<lambda>cs is. foldl (\<lambda>cs i. if list_ex (\<lambda>c. pn_sourceName c = pn_sourceName i) cs
             then map (\<lambda>c. if pn_sourceName c = pn_sourceName i then c\<lparr>pn_lastConnectionValid := 1\<rparr> else c) cs else cs @ [i]) cs is);
          upd_stacks = (\<lambda>ss. foldl (\<lambda>ss i. if list_ex (\<lambda>s. ps_sinkName s = ps_sinkName i) ss
             then map (\<lambda>s. if ps_sinkName s = ps_sinkName i
                   then s\<lparr>ps_listConnection := upd_conns (ps_listConnection s) (ps_listConnection i)\<rparr> else s) ss
             else ss @ [i]) ss (pc_listConnections d))
      in if list_ex (\<lambda>c. pc_name c = pc_name d) cls
         then map (\<lambda>c. if pc_name c = pc_name d then c\<lparr>pc_listConnections := upd_stacks (pc_listConnections c)\<rparr> else c) cls
         else cls @ [d])"

definition main_connection_entry :: "string \<Rightarrow> gc_persistence_classData_s list \<Rightarrow> string \<Rightarrow> gc_persistence_classData_s list" where
  "main_connection_entry className cls str =
     (case split_two (CHR '':'') str of
        None \<Rightarrow> cls
      | Some (sourceName, sinkName) \<Rightarrow>
          updateMainConnection (pc_init\<lparr>pc_name := className, pc_listConnections :=
            [ps_init\<lparr>ps_sinkName := sinkName, ps_listConnection := [pn_init\<lparr>pn_sourceName := sourceName, pn_lastConnectionValid := 1\<rparr>]\<rparr>]\<rparr>) cls)"

definition lastMainConnectionStruct :: "string \<Rightarrow> gc_persistence_classData_s list \<Rightarrow> gc_persistence_classData_s list" where
  "lastMainConnectionStruct = each_class (\<lambda>className r cls.
     case split_ok (CHR '';'') r of None \<Rightarrow> cls | Some es \<Rightarrow> foldl (main_connection_entry className) cls es)"

definition updateMainSoundProperty :: "gc_persistence_classData_s \<Rightarrow> gc_persistence_classData_s list \<Rightarrow> gc_persistence_classData_s list" where
  "updateMainSoundProperty d cls =
     (if list_ex (\<lambda>c. pc_name c = pc_name d) cls
      then map (\<lambda>c. if pc_name c = pc_name d then c\<lparr>pc_listMainSoundProperties := pc_listMainSoundProperties d\<rparr> else c) cls
      else cls @ [d])"

text \<open>
  The name of the element starts behind its type; a name too short for that makes \<open>substr\<close> throw. Only
  the first character of a value is kept.
\<close>

definition sound_element :: "string \<Rightarrow> gc_persistence_mainSoundProData_s option" where
  "sound_element elementName =
     (if take 9 elementName = ''ET_SOURCE'' then
        (if 10 \<le> length elementName then Some \<lparr>pm_listMainSoundProperty = [], pm_sinkName = [], pm_sourceName = drop 10 elementName\<rparr> else None)
      else if 8 \<le> length elementName then Some \<lparr>pm_listMainSoundProperty = [], pm_sinkName = drop 8 elementName, pm_sourceName = []\<rparr>
      else None)"

definition sound_values :: "string \<Rightarrow> (string \<times> string) list" where
  "sound_values str = concat (map (\<lambda>p. case split_two (CHR '':'') p of None \<Rightarrow> [] | Some (ty, v) \<Rightarrow> [(ty, take 1 v)]) (snd (parseString (CHR ''('') str)))"

fun sound_entries :: "gc_persistence_classData_s \<Rightarrow> string list \<Rightarrow> gc_persistence_classData_s option" where
  "sound_entries d [] = Some d"
| "sound_entries d (e # es) =
     (case split_two (CHR ''='') e of
        None \<Rightarrow> sound_entries d es
      | Some (elementName, vs) \<Rightarrow>
          (case sound_element elementName of
             None \<Rightarrow> None
           | Some m \<Rightarrow> sound_entries (d\<lparr>pc_listMainSoundProperties := pc_listMainSoundProperties d @ [m\<lparr>pm_listMainSoundProperty := sound_values vs\<rparr>]\<rparr>) es))"

definition lastMainSoundPropertyStruct :: "string \<Rightarrow> gc_persistence_classData_s list option \<Rightarrow> gc_persistence_classData_s list option" where
  "lastMainSoundPropertyStruct = each_class (\<lambda>className r cls.
     case split_ok (CHR ''['') r of None \<Rightarrow> cls
       | Some es \<Rightarrow> Option.bind cls (\<lambda>cls. map_option (\<lambda>d. updateMainSoundProperty d cls) (sound_entries (pc_init\<lparr>pc_name := className\<rparr>) es)))"

definition lastSystemPropertyStruct :: "string \<Rightarrow> (string \<times> string) list \<Rightarrow> (string \<times> string) list" where
  "lastSystemPropertyStruct str out =
     (case split_ok (CHR ''('') str of
        None \<Rightarrow> out
      | Some ts \<Rightarrow> out @ concat (map (\<lambda>p. case split_two (CHR '':'') p of None \<Rightarrow> []
            | Some (ty, v) \<Rightarrow> [(ty, takeWhile (\<lambda>c. c \<noteq> CHR '')'') v)]) ts))"

text \<open>The keys are taken in their order; a missing one reads as an empty string and is skipped.\<close>

definition stringToStruct :: "file_data \<Rightarrow> (gc_persistence_classData_s list \<times> (string \<times> string) list) option" where
  "stringToStruct d =
     (let val = (\<lambda>k. case map_of d k of None \<Rightarrow> [] | Some v \<Rightarrow> v);
          c1 = lastClassVolumeStruct (val ''lastClassVolume'') [];
          c2 = lastMainConnectionStruct (val ''lastMainConnection'') c1;
          c3 = lastMainConnectionVolumeStruct (val ''lastMainConnectionVolume'') c2
      in map_option (\<lambda>c4. (c4, lastSystemPropertyStruct (val ''lastSystemProperty'') []))
           (lastMainSoundPropertyStruct (val ''lastMainSoundProperty'') (Some c3)))"


section \<open>Structures to strings\<close>

definition class_text :: "(gc_persistence_classData_s \<Rightarrow> string) \<Rightarrow> gc_persistence_classData_s \<Rightarrow> string" where
  "class_text f c = CHR 0x7B # pc_name c @ '','' @ (if pc_name c \<noteq> [] then f c else []) @ [CHR 0x7D]"

definition last_main_connection_volume_text :: "gc_persistence_classData_s \<Rightarrow> string" where
  "last_main_connection_volume_text c = concat (map (\<lambda>s. concat (map (\<lambda>n.
       if pn_sourceName n \<noteq> [] \<and> ps_sinkName s \<noteq> [] \<and> pn_volume n \<noteq> MAX_NEG_VOL
       then CHR ''['' # pn_sourceName n @ '':'' @ ps_sinkName s @ ''='' @ dec (sint (pn_volume n)) @ '']'' else [])
     (ps_listConnection s))) (pc_listConnections c))"

definition volume_entry :: "string \<Rightarrow> 16 word \<Rightarrow> string" where
  "volume_entry nm v = CHR ''['' # nm @ '':'' @ dec (sint v) @ '']''"

definition last_class_volume_text :: "gc_persistence_classData_s \<Rightarrow> string" where
  "last_class_volume_text c =
     concat (map (\<lambda>s. if ps_sinkName s \<noteq> [] \<and> ps_volume s \<noteq> MAX_NEG_VOL then volume_entry (ps_sinkName s) (ps_volume s) else [])
       (pc_listConnections c))
     @ (if pc_volume c \<noteq> MAX_NEG_VOL then volume_entry ''*'' (pc_volume c) else [])"

definition last_main_connection_text :: "gc_persistence_classData_s \<Rightarrow> string" where
  "last_main_connection_text c = concat (map (\<lambda>s. concat (map (\<lambda>n.
       if pn_sourceName n \<noteq> [] \<and> pn_lastConnectionValid n = 1 \<and> ps_sinkName s \<noteq> []
       then pn_sourceName n @ '':'' @ ps_sinkName s @ '';'' else [])
     (ps_listConnection s))) (pc_listConnections c))"

definition type_value_text :: "string \<times> string \<Rightarrow> string" where
  "type_value_text = (\<lambda>(ty, v). CHR ''('' # ty @ '':'' @ v @ '')'')"

text \<open>
  The text of the types and values is not cleared between the elements, nor between the classes: it is the
  first component of the result, and every element carries what the elements before it had.
\<close>

fun sound_elements_text :: "string \<Rightarrow> gc_persistence_mainSoundProData_s list \<Rightarrow> string \<times> string" where
  "sound_elements_text acc [] = (acc, [])"
| "sound_elements_text acc (m # ms) =
     (let acc' = acc @ concat (map type_value_text (filter (\<lambda>(ty, v). ty \<noteq> []) (pm_listMainSoundProperty m)));
          nm = (if pm_sourceName m \<noteq> [] then ''ET_SOURCE_'' @ pm_sourceName m else ''ET_SINK_'' @ pm_sinkName m);
          (acc'', out) = sound_elements_text acc' ms
      in (acc'', CHR ''['' # nm @ ''='' @ acc' @ '']'' @ out))"

fun sound_classes_text :: "string \<Rightarrow> gc_persistence_classData_s list \<Rightarrow> string" where
  "sound_classes_text acc [] = []"
| "sound_classes_text acc (c # cs) =
     (let (acc', inside) = (if pc_name c \<noteq> [] then sound_elements_text acc (pc_listMainSoundProperties c) else (acc, []))
      in CHR 0x7B # pc_name c @ '','' @ inside @ [CHR 0x7D] @ sound_classes_text acc' cs)"

definition system_text :: "(string \<times> string) list \<Rightarrow> string" where
  "system_text ps = CHR 0x7B # concat (map type_value_text (filter (\<lambda>(ty, v). ty \<noteq> [] \<and> v \<noteq> []) ps)) @ [CHR 0x7D]"

text \<open>\<open>std::map::insert\<close>: an entry that is there stays.\<close>

definition fd_insert :: "string \<Rightarrow> string \<Rightarrow> file_data \<Rightarrow> file_data" where
  "fd_insert k v d = (case map_of d k of None \<Rightarrow> om_insert k v d | Some _ \<Rightarrow> d)"

definition structTostring :: "gc_persistence_classData_s list \<Rightarrow> (string \<times> string) list \<Rightarrow> file_data \<Rightarrow> am_Error_e \<times> file_data" where
  "structTostring cls sys d =
     (let d1 = (if cls = [] then d else
            fd_insert ''lastMainSoundProperty'' (sound_classes_text [] cls)
            (fd_insert ''lastMainConnection'' (concat (map (class_text last_main_connection_text) cls))
            (fd_insert ''lastClassVolume'' (concat (map (class_text last_class_volume_text) cls))
            (fd_insert ''lastMainConnectionVolume'' (concat (map (class_text last_main_connection_volume_text) cls)) d))));
          d2 = (if sys = [] then d1 else fd_insert ''lastSystemProperty'' (system_text sys) d1)
      in (if cls = [] \<and> sys = [] then E_WRONG_FORMAT else E_OK, d2))"

section \<open>Opening and leaving\<close>

text \<open>
  The path of the environment replaces the file name. \<open>parse\<close> is the XML library with the persistence
  nodes: the structures of the file with the name, or nothing if there is no document or no root.
\<close>

definition readFromXML :: "(string \<Rightarrow> (gc_persistence_classData_s list \<times> (string \<times> string) list) option)
    \<Rightarrow> string option \<Rightarrow> string \<Rightarrow> file_data \<Rightarrow> am_Error_e \<times> string \<times> file_data" where
  "readFromXML parse env mFileName d =
     (let fn = (case env of Some p \<Rightarrow> p | None \<Rightarrow> mFileName)
      in if fn = [] then (E_NON_EXISTENT, fn, d)
         else (case parse fn of
             None \<Rightarrow> (E_NON_EXISTENT, fn, d)
           | Some (cls, sys) \<Rightarrow> (case structTostring cls sys d of (r, d') \<Rightarrow> (if r = E_OK then E_OK else E_WRONG_FORMAT, fn, d'))))"

definition pd_open :: "(string \<Rightarrow> (gc_persistence_classData_s list \<times> (string \<times> string) list) option)
    \<Rightarrow> string option \<Rightarrow> string \<Rightarrow> file_data \<Rightarrow> am_Error_e \<times> string \<times> file_data" where
  "pd_open parse env mFileName d =
     (case readFromXML parse env mFileName d of (r, fn, d') \<Rightarrow> (if r = E_OK then E_OK else E_NON_EXISTENT, fn, d'))"

text \<open>The directories made before the file is written: what stands before each slash.\<close>

definition createSubDirectories :: "string \<Rightarrow> string list" where
  "createSubDirectories fn = map (\<lambda>i. take i fn) (filter (\<lambda>i. fn ! i = CHR ''/'') [0..<length fn])"

end
