(* ===== verification/Persistence_Props.thy ===== *)
theory Persistence_Props
  imports Persistence
begin

text \<open>
  What is written can be read: the round trips of the persistence strings, over the splitting of a string
  that is put together from its pieces.
\<close>

section \<open>Splitting what was joined\<close>

lemma pieces_no_delim [simp]: "d \<notin> set s \<Longrightarrow> pieces d s = [s]"
  by (induction s) auto

lemma pieces_nonempty [simp]: "pieces d s \<noteq> []"
  by (induction s) (auto split: list.splits)

lemma pieces_delim [simp]: "d \<notin> set s \<Longrightarrow> pieces d (s @ d # t) = s # pieces d t"
  by (induction s) auto

definition join :: "char \<Rightarrow> string list \<Rightarrow> string" where
  "join d ls = concat (map ((#) d) ls)"

lemma join_simps [simp]: "join d [] = []" "join d (l # ls) = d # l @ join d ls"
  by (simp_all add: join_def)

lemma join_append [simp]: "join d (ls @ ms) = join d ls @ join d ms"
  by (induction ls) auto

lemma pieces_join_append:
  "\<lbrakk>d \<notin> set s; \<forall>l\<in>set ls. d \<notin> set l\<rbrakk> \<Longrightarrow> pieces d (s @ join d ls) = s # ls"
  by (induction ls arbitrary: s) auto

lemma pieces_join: "\<forall>l\<in>set ls. d \<notin> set l \<Longrightarrow> pieces d (join d ls) = [] # ls"
  using pieces_join_append[of d "[]" ls] by simp

lemma filter_nonempty: "[] \<notin> set ls \<Longrightarrow> filter (\<lambda>t. t \<noteq> []) ls = ls"
  by (induction ls) auto

lemma split_ok_join:
  assumes "ls \<noteq> []" "[] \<notin> set ls" "\<forall>l\<in>set ls. d \<notin> set l"
  shows "split_ok d (join d ls) = Some ls"
proof -
  have "join d ls \<noteq> []"
    using assms(1) by (cases ls) auto
  moreover have "[] \<notin> set (butlast ls)"
    using assms(2) in_set_butlastD by fastforce
  moreover have "last ls \<noteq> []"
    using assms(1,2) last_in_set by metis
  ultimately show ?thesis
    using assms by (simp add: split_ok_def parseString_def Let_def pieces_join filter_nonempty)
qed

lemma split_ok_none: "d \<notin> set s \<Longrightarrow> split_ok d s = None"
  by (simp add: split_ok_def parseString_def Let_def)

lemma split_two_join:
  "\<lbrakk>d \<notin> set a; d \<notin> set b; a \<noteq> []; b \<noteq> []\<rbrakk> \<Longrightarrow> split_two d (a @ d # b) = Some (a, b)"
  by (simp add: split_two_def split_ok_def parseString_def Let_def)

text \<open>An element text of entries, closed by one more character.\<close>

lemma split_ok_join_close:
  assumes "ls \<noteq> []" "[] \<notin> set ls" "\<forall>l\<in>set ls. d \<notin> set l" "d \<notin> set e"
  shows "split_ok d (join d ls @ e) = Some (butlast ls @ [last ls @ e])"
proof -
  have "ls = butlast ls @ [last ls]"
    using assms(1) by simp
  then have "join d ls @ e = join d (butlast ls @ [last ls @ e])"
    using join_append[of d "butlast ls" "[last ls]"] by simp
  moreover have "[] \<notin> set (butlast ls @ [last ls @ e])"
    using assms(1,2) in_set_butlastD last_in_set by fastforce
  moreover have "\<forall>l\<in>set (butlast ls @ [last ls @ e]). d \<notin> set l"
    using assms in_set_butlastD last_in_set by fastforce
  ultimately show ?thesis
    using split_ok_join by (metis snoc_eq_iff_butlast)
qed

section \<open>Numbers in the text\<close>

lemma set_dec: "c \<in> set (dec i) \<Longrightarrow> c = CHR ''-'' \<or> isdigit c"
  using nat_dec_digits[of "nat i"] nat_dec_digits[of "nat (- i)"]
  by (auto simp: dec_def list_all_iff split: if_splits)

lemma not_in_dec [simp]: "c \<noteq> CHR ''-'' \<Longrightarrow> \<not> isdigit c \<Longrightarrow> c \<notin> set (dec i)"
  using set_dec by blast

lemma separators_no_digit [simp]:
  "\<not> isdigit (CHR '':'')" "\<not> isdigit (CHR ''='')" "\<not> isdigit (CHR '','')" "\<not> isdigit (CHR '';'')"
  "\<not> isdigit (CHR ''['')" "\<not> isdigit (CHR '']'')" "\<not> isdigit (CHR ''('')" "\<not> isdigit (CHR '')'')"
  "\<not> isdigit (CHR 0x7B)" "\<not> isdigit (CHR 0x7D)"
  by code_simp+

lemma atoi_volume: "rest = [] \<or> \<not> isdigit (hd rest) \<Longrightarrow> word_of_int (atoi (dec (sint (v :: 16 word)) @ rest)) = v"
  using atoi_dec_append[of "sint v" rest] sint_greater_eq[of v] sint_less[of v] by simp


section \<open>Class volumes\<close>

text \<open>A name that can stand in these strings: not empty and free of the characters that separate.\<close>

definition plain_name :: "string \<Rightarrow> bool" where
  "plain_name s \<longleftrightarrow> s \<noteq> [] \<and> set s \<inter> set [CHR 0x7B, CHR 0x7D, CHR '','', CHR ''['', CHR '']'', CHR '':'', CHR '';'', CHR ''='', CHR ''('', CHR '')''] = {}"

definition volume_list :: "gc_persistence_classData_s \<Rightarrow> (string \<times> 16 word) list" where
  "volume_list c = map (\<lambda>s. (ps_sinkName s, ps_volume s)) (filter (\<lambda>s. ps_sinkName s \<noteq> [] \<and> ps_volume s \<noteq> MAX_NEG_VOL) (pc_listConnections c))
     @ (if pc_volume c \<noteq> MAX_NEG_VOL then [(''*'', pc_volume c)] else [])"

definition volume_piece :: "string \<times> 16 word \<Rightarrow> string" where
  "volume_piece = (\<lambda>(nm, v). nm @ '':'' @ dec (sint v) @ '']'')"

text \<open>What the strings of the class volumes hold of a class.\<close>

definition class_volume_part :: "gc_persistence_classData_s \<Rightarrow> gc_persistence_classData_s" where
  "class_volume_part c = pc_init\<lparr>pc_name := pc_name c, pc_volume := pc_volume c,
     pc_listConnections := map (\<lambda>s. ps_init\<lparr>ps_sinkName := ps_sinkName s, ps_volume := ps_volume s\<rparr>)
       (filter (\<lambda>s. ps_sinkName s \<noteq> [] \<and> ps_volume s \<noteq> MAX_NEG_VOL) (pc_listConnections c))\<rparr>"

definition volumes_ok :: "gc_persistence_classData_s \<Rightarrow> bool" where
  "volumes_ok c \<longleftrightarrow> plain_name (pc_name c)
     \<and> list_all (\<lambda>s. ps_sinkName s \<noteq> [] \<longrightarrow> plain_name (ps_sinkName s) \<and> ps_sinkName s \<noteq> ''*'') (pc_listConnections c)"

lemma concat_map_if_filter: "concat (map (\<lambda>x. if P x then f x else []) xs) = concat (map f (filter P xs))"
  by (induction xs) auto

lemma last_class_volume_text_join: "last_class_volume_text c = join (CHR ''['') (map volume_piece (volume_list c))"
  by (simp add: last_class_volume_text_def volume_list_def join_def volume_piece_def volume_entry_def
    concat_map_if_filter comp_def)

lemma each_class_texts:
  assumes "\<forall>c\<in>set cls. plain_name (pc_name c) \<and> CHR 0x7B \<notin> set (body c) \<and> CHR '','' \<notin> set (body c)"
  shows "each_class f (concat (map (class_text body) cls)) acc = foldl (\<lambda>acc c. f (pc_name c) (body c @ [CHR 0x7D]) acc) acc cls"
proof (cases "cls = []")
  case True
  then show ?thesis by (simp add: each_class_def split_ok_none)
next
  case False
  define piece where "piece c = pc_name c @ CHR '','' # body c @ [CHR 0x7D]" for c
  have "concat (map (class_text body) cls) = join (CHR 0x7B) (map piece cls)"
    using assms by (induction cls) (auto simp: class_text_def piece_def plain_name_def)
  moreover have "split_ok (CHR 0x7B) (join (CHR 0x7B) (map piece cls)) = Some (map piece cls)"
    using assms False by (intro split_ok_join) (auto simp: piece_def plain_name_def)
  moreover have two: "split_two (CHR '','') (piece c) = Some (pc_name c, body c @ [CHR 0x7D])" if "c \<in> set cls" for c
    unfolding piece_def using assms that by (intro split_two_join) (auto simp: plain_name_def)
  moreover have "foldl (\<lambda>cls t. case split_two (CHR '','') t of None \<Rightarrow> cls | Some (nm, r) \<Rightarrow> f nm r cls) acc (map piece cls)
      = foldl (\<lambda>acc c. f (pc_name c) (body c @ [CHR 0x7D]) acc) acc cls"
    using two by (induction cls arbitrary: acc) auto
  ultimately show ?thesis
    by (simp add: each_class_def)
qed

definition add_volume :: "gc_persistence_classData_s \<Rightarrow> string \<times> 16 word \<Rightarrow> gc_persistence_classData_s" where
  "add_volume d = (\<lambda>(nm, v). if nm = ''*'' then d\<lparr>pc_volume := v\<rparr>
     else d\<lparr>pc_listConnections := pc_listConnections d @ [ps_init\<lparr>ps_sinkName := nm, ps_volume := v\<rparr>]\<rparr>)"

lemma class_volume_entry_piece:
  assumes "nm \<noteq> []" "CHR '':'' \<notin> set nm" "CHR '':'' \<notin> set r"
  shows "class_volume_entry d (volume_piece (nm, v) @ r) = add_volume d (nm, v)"
proof -
  have "split_two (CHR '':'') (nm @ CHR '':'' # dec (sint v) @ CHR '']'' # r) = Some (nm, dec (sint v) @ CHR '']'' # r)"
    using assms by (intro split_two_join) auto
  then show ?thesis
    by (simp add: class_volume_entry_def volume_piece_def add_volume_def atoi_volume)
qed

lemma class_volume_entries:
  assumes "list_all (\<lambda>(nm, v). nm \<noteq> [] \<and> CHR '':'' \<notin> set nm) xs" "xs \<noteq> []"
  shows "foldl class_volume_entry d (butlast (map volume_piece xs) @ [last (map volume_piece xs) @ [CHR 0x7D]]) = foldl add_volume d xs"
proof -
  have all: "foldl class_volume_entry d (map volume_piece ys) = foldl add_volume d ys"
    if "list_all (\<lambda>(nm, v). nm \<noteq> [] \<and> CHR '':'' \<notin> set nm) ys" for ys d
    using that class_volume_entry_piece[of _ "[]"] by (induction ys arbitrary: d) auto
  obtain ys y where xs: "xs = ys @ [y]"
    using assms(2) by (cases xs rule: rev_cases) auto
  then show ?thesis
    using assms(1) all[of ys d] class_volume_entry_piece[of "fst y" "[CHR 0x7D]" _ "snd y"] by (auto simp: split_beta)
qed

lemma add_volumes_sinks:
  "list_all (\<lambda>s. ps_sinkName s \<noteq> ''*'') ss \<Longrightarrow>
     foldl add_volume d (map (\<lambda>s. (ps_sinkName s, ps_volume s)) ss)
       = d\<lparr>pc_listConnections := pc_listConnections d @ map (\<lambda>s. ps_init\<lparr>ps_sinkName := ps_sinkName s, ps_volume := ps_volume s\<rparr>) ss\<rparr>"
  by (induction ss arbitrary: d) (auto simp: add_volume_def)

lemma add_volume_list:
  "volumes_ok c \<Longrightarrow> foldl add_volume (pc_init\<lparr>pc_name := pc_name c\<rparr>) (volume_list c) = class_volume_part c"
  by (auto simp: volume_list_def volumes_ok_def list_all_iff add_volumes_sinks class_volume_part_def add_volume_def pc_init_def)

lemma volume_list_names:
  "volumes_ok c \<Longrightarrow> list_all (\<lambda>(nm, v). nm \<noteq> [] \<and> set nm \<inter> {CHR '':'', CHR ''['', CHR 0x7B, CHR '',''} = {}) (volume_list c)"
  by (auto simp: volume_list_def volumes_ok_def plain_name_def list_all_iff)

lemma set_joinE:
  assumes "x \<in> set (join d ls)" obtains "x = d" | l where "l \<in> set ls" "x \<in> set l"
  using assms by (auto simp: join_def split: if_splits)

lemma last_class_volume_text_char:
  assumes "volumes_ok c" "x \<in> {CHR 0x7B, CHR '',''}" shows "x \<notin> set (last_class_volume_text c)"
proof
  assume "x \<in> set (last_class_volume_text c)"
  then show False
    unfolding last_class_volume_text_join
  proof (rule set_joinE)
    assume "x = CHR ''[''" then show False using assms(2) by auto
  next
    fix l assume "l \<in> set (map volume_piece (volume_list c))" and x: "x \<in> set l"
    then obtain nm v where nv: "(nm, v) \<in> set (volume_list c)" "l = volume_piece (nm, v)" by auto
    have "x \<notin> set nm" using volume_list_names[OF assms(1)] nv(1) assms(2) by (auto simp: list_all_iff)
    moreover have "x \<notin> set (dec (sint v))" using assms(2) by auto
    ultimately show False using x assms(2) unfolding nv(2) volume_piece_def by auto
  qed
qed

lemma last_class_volume_text_chars:
  assumes "volumes_ok c" shows "CHR 0x7B \<notin> set (last_class_volume_text c)" "CHR '','' \<notin> set (last_class_volume_text c)"
  using last_class_volume_text_char[OF assms] by simp_all

lemma class_volume_step:
  assumes "volumes_ok c"
  shows "(case split_ok (CHR ''['') (last_class_volume_text c @ [CHR 0x7D]) of None \<Rightarrow> acc
       | Some es \<Rightarrow> updateClassVolume (foldl class_volume_entry (pc_init\<lparr>pc_name := pc_name c\<rparr>) es) acc)
     = (if volume_list c = [] then acc else updateClassVolume (class_volume_part c) acc)"
proof (cases "volume_list c = []")
  case True
  then show ?thesis by (simp add: last_class_volume_text_join split_ok_none)
next
  case False
  let ?es = "map volume_piece (volume_list c)"
  have names: "list_all (\<lambda>(nm, v). nm \<noteq> [] \<and> CHR '':'' \<notin> set nm) (volume_list c)"
    using volume_list_names[OF assms] by (auto simp: list_all_iff)
  have "split_ok (CHR ''['') (join (CHR ''['') ?es @ [CHR 0x7D]) = Some (butlast ?es @ [last ?es @ [CHR 0x7D]])"
    using False volume_list_names[OF assms]
    by (intro split_ok_join_close) (auto simp: volume_piece_def list_all_iff)
  moreover have "foldl class_volume_entry (pc_init\<lparr>pc_name := pc_name c\<rparr>) (butlast ?es @ [last ?es @ [CHR 0x7D]]) = class_volume_part c"
    using class_volume_entries[OF names False] add_volume_list[OF assms] by metis
  ultimately show ?thesis
    using False by (simp add: last_class_volume_text_join del: foldl_append)
qed

text \<open>
  C34: what the persistence writes as the last class volumes it reads back: for classes of distinct plain
  names whose sinks have plain names, the string of the structures gives the structures with the volumes of
  the classes and of their sinks, without the classes and sinks that have none.
\<close>

theorem class_volumes_roundtrip:
  assumes "distinct (map pc_name cls)" "list_all volumes_ok cls"
  shows "lastClassVolumeStruct (concat (map (class_text last_class_volume_text) cls)) []
    = map class_volume_part (filter (\<lambda>c. volume_list c \<noteq> []) cls)"
proof -
  have step: "foldl (\<lambda>acc c. if volume_list c = [] then acc else updateClassVolume (class_volume_part c) acc) acc cs
      = acc @ map class_volume_part (filter (\<lambda>c. volume_list c \<noteq> []) cs)"
    if "distinct (map pc_name cs)" "pc_name ` set acc \<inter> pc_name ` set cs = {}" for acc cs
    using that by (induction cs arbitrary: acc)
      (auto simp: updateClassVolume_def class_volume_part_def list_ex_iff Let_def disjoint_iff image_iff)
  have fold: "foldl (\<lambda>acc c. case split_ok (CHR ''['') (last_class_volume_text c @ [CHR 0x7D]) of None \<Rightarrow> acc
       | Some es \<Rightarrow> updateClassVolume (foldl class_volume_entry (pc_init\<lparr>pc_name := pc_name c\<rparr>) es) acc) acc cs
     = foldl (\<lambda>acc c. if volume_list c = [] then acc else updateClassVolume (class_volume_part c) acc) acc cs"
    if "list_all volumes_ok cs" for acc cs
    using that by (induction cs arbitrary: acc) (auto simp: class_volume_step)
  have "\<forall>c\<in>set cls. plain_name (pc_name c) \<and> CHR 0x7B \<notin> set (last_class_volume_text c) \<and> CHR '','' \<notin> set (last_class_volume_text c)"
    using assms(2) last_class_volume_text_chars by (auto simp: list_all_iff volumes_ok_def)
  note texts = each_class_texts[OF this]
  show ?thesis
    unfolding lastClassVolumeStruct_def texts fold[OF assms(2)] using step[of cls "[]"] assms(1) by simp
qed

theorem class_volumes_roundtrip_witness:
  "lastClassVolumeStruct (concat (map (class_text last_class_volume_text)
      [pc_init\<lparr>pc_name := ''BASE'', pc_volume := - 300,
         pc_listConnections := [ps_init\<lparr>ps_sinkName := ''S1'', ps_volume := 50\<rparr>, ps_init\<lparr>ps_sinkName := ''S2''\<rparr>]\<rparr>,
       pc_init\<lparr>pc_name := ''MUTED''\<rparr>])) []
   = [pc_init\<lparr>pc_name := ''BASE'', pc_volume := - 300, pc_listConnections := [ps_init\<lparr>ps_sinkName := ''S1'', ps_volume := 50\<rparr>]\<rparr>]"
proof -
  let ?cls = "[pc_init\<lparr>pc_name := ''BASE'', pc_volume := - 300,
         pc_listConnections := [ps_init\<lparr>ps_sinkName := ''S1'', ps_volume := 50\<rparr>, ps_init\<lparr>ps_sinkName := ''S2''\<rparr>]\<rparr>,
       pc_init\<lparr>pc_name := ''MUTED''\<rparr>]"
  have "distinct (map pc_name ?cls)" "list_all volumes_ok ?cls"
    by (simp_all add: pc_init_def ps_init_def volumes_ok_def plain_name_def)
  from class_volumes_roundtrip[OF this] show ?thesis
    by (simp add: class_volume_part_def volume_list_def pc_init_def ps_init_def MAX_NEG_VOL_def)
qed

section \<open>Properties of elements and of the system\<close>

lemma texts_join: "concat (map type_value_text ps) = join (CHR ''('') (map (\<lambda>(ty, v). ty @ '':'' @ v @ '')'') ps)"
  by (induction ps) (auto simp: type_value_text_def)

lemma split_value:
  "plain_name ty \<Longrightarrow> plain_name v \<Longrightarrow> CHR '':'' \<notin> set e \<Longrightarrow> split_two (CHR '':'') (ty @ CHR '':'' # v @ CHR '')'' # e) = Some (ty, v @ CHR '')'' # e)"
  by (intro split_two_join) (auto simp: plain_name_def)

text \<open>
  of the sound properties of an element only the first character of a value survives: the text of
  properties with plain types and values, as it stands in the string of an element, reads back with every
  type and every value cut to one character.
\<close>

theorem sound_values_truncated:
  assumes "ps \<noteq> []" "list_all (\<lambda>(ty, v). plain_name ty \<and> plain_name v) ps"
  shows "sound_values (concat (map type_value_text ps) @ '']'') = map (\<lambda>(ty, v). (ty, take 1 v)) ps"
proof -
  let ?f = "\<lambda>(ty, v). ty @ '':'' @ v @ '')''"
  have split: "split_ok (CHR ''('') (join (CHR ''('') (map ?f ps) @ '']'') = Some (butlast (map ?f ps) @ [last (map ?f ps) @ '']''])"
    using assms by (intro split_ok_join_close) (auto simp: plain_name_def list_all_iff split_beta)
  let ?v = "\<lambda>p. case split_two (CHR '':'') p of None \<Rightarrow> [] | Some (ty, v) \<Rightarrow> [(ty, take 1 v)]"
  have head: "take 1 (v @ e) = take 1 v" if "plain_name v" for v e :: string
    using that by (cases v) (auto simp: plain_name_def)
  have one: "?v (?f p @ e) = [(fst p, take 1 (snd p))]" if "plain_name (fst p)" "plain_name (snd p)" "CHR '':'' \<notin> set e" for p e
    using that split_value[of "fst p" "snd p" e] head[of "snd p" "CHR '')'' # e"] by (simp add: split_beta del: take_append)
  have all: "concat (map ?v (map ?f qs)) = map (\<lambda>(ty, v). (ty, take 1 v)) qs" if "list_all (\<lambda>(ty, v). plain_name ty \<and> plain_name v) qs" for qs
    using that one[of _ "[]"] by (induction qs) (auto simp: split_beta)
  obtain qs q where ps: "ps = qs @ [q]"
    using assms(1) by (cases ps rule: rev_cases) auto
  have "concat (map ?v (butlast (map ?f ps) @ [last (map ?f ps) @ '']''])) = map (\<lambda>(ty, v). (ty, take 1 v)) ps"
    using all[of qs] one[of q "'']''"] assms(2) by (simp add: ps split_beta)
  moreover have "snd (parseString (CHR ''('') (join (CHR ''('') (map ?f ps) @ '']'')) = butlast (map ?f ps) @ [last (map ?f ps) @ '']'']"
    using split by (auto simp: split_ok_def split_beta split: if_splits)
  ultimately show ?thesis
    by (simp only: sound_values_def texts_join)
qed

theorem sound_values_truncated_witness:
  "sound_values (concat (map type_value_text [(''1'', ''15''), (''2'', ''-3'')]) @ '']'') = [(''1'', ''1''), (''2'', ''-'')]"
  using sound_values_truncated[of "[(''1'', ''15''), (''2'', ''-3'')]"] by (simp add: plain_name_def)

definition property_text :: "gc_persistence_mainSoundProData_s \<Rightarrow> string" where
  "property_text m = concat (map type_value_text (filter (\<lambda>(ty, v). ty \<noteq> []) (pm_listMainSoundProperty m)))"

definition element_name :: "gc_persistence_mainSoundProData_s \<Rightarrow> string" where
  "element_name m = (if pm_sourceName m \<noteq> [] then ''ET_SOURCE_'' @ pm_sourceName m else ''ET_SINK_'' @ pm_sinkName m)"

lemma sound_elements_text_append:
  "sound_elements_text acc (ms @ ns) =
     (let (acc', out) = sound_elements_text acc ms; (acc'', out') = sound_elements_text acc' ns in (acc'', out @ out'))"
  by (induction acc ms rule: sound_elements_text.induct) (auto simp: Let_def split_beta)

lemma sound_elements_text_acc: "fst (sound_elements_text acc ms) = acc @ concat (map property_text ms)"
  by (induction acc ms rule: sound_elements_text.induct) (auto simp: Let_def split_beta property_text_def)

text \<open>
  the text that collects the sound properties is never cleared: in the string of the sound properties
  an element carries, in front of its own properties, those of every element written before it.
\<close>

theorem sound_properties_accumulate:
  "snd (sound_elements_text acc (ms @ [m])) =
     snd (sound_elements_text acc ms)
       @ ''['' @ element_name m @ ''='' @ acc @ concat (map property_text ms) @ property_text m @ '']''"
  by (simp add: sound_elements_text_append Let_def split_beta sound_elements_text_acc)
    (simp add: property_text_def element_name_def)

text \<open>
  the system properties survive the persistence: the string written for plain types and values reads
  back as the same list.
\<close>

theorem system_properties_roundtrip:
  assumes "list_all (\<lambda>(ty, v). plain_name ty \<and> plain_name v) ps"
  shows "lastSystemPropertyStruct (system_text ps) [] = ps"
proof (cases "ps = []")
  case True
  then show ?thesis by (simp add: system_text_def) code_simp
next
  case False
  let ?f = "\<lambda>(ty, v). ty @ '':'' @ v @ '')''"
  let ?v = "\<lambda>p. case split_two (CHR '':'') p of None \<Rightarrow> [] | Some (ty, v) \<Rightarrow> [(ty, takeWhile (\<lambda>c. c \<noteq> CHR '')'') v)]"
  have filt: "filter (\<lambda>(ty, v). ty \<noteq> [] \<and> v \<noteq> []) ps = ps"
    using assms by (auto simp: list_all_iff plain_name_def filter_id_conv)
  obtain qs q where ps: "ps = qs @ [q]"
    using False by (cases ps rule: rev_cases) auto
  have bits: "pieces (CHR ''('') ([CHR 0x7B] @ join (CHR ''('') (butlast (map ?f ps) @ [last (map ?f ps) @ [CHR 0x7D]]))
      = [CHR 0x7B] # butlast (map ?f ps) @ [last (map ?f ps) @ [CHR 0x7D]]"
    using assms by (intro pieces_join_append) (auto simp: ps plain_name_def list_all_iff split_beta)
  have written: "system_text ps = [CHR 0x7B] @ join (CHR ''('') (butlast (map ?f ps) @ [last (map ?f ps) @ [CHR 0x7D]])"
    unfolding system_text_def filt texts_join by (simp add: ps)
  have ne: "filter (\<lambda>t. t \<noteq> []) (butlast (map ?f ps)) = butlast (map ?f ps)"
    by (rule filter_nonempty) (auto simp: ps split_beta)
  have "split_ok (CHR ''('') (system_text ps) = Some ([CHR 0x7B] # butlast (map ?f ps) @ [last (map ?f ps) @ [CHR 0x7D]])"
    using bits ne by (simp add: split_ok_def parseString_def Let_def written butlast_append)
  moreover have one: "?v (?f p @ e) = [p]" if "plain_name (fst p)" "plain_name (snd p)" "CHR '':'' \<notin> set e" for p e
    using that split_value[of "fst p" "snd p" e] by (auto simp: split_beta takeWhile_append plain_name_def)
  moreover have "concat (map ?v (map ?f qs)) = qs" if "list_all (\<lambda>(ty, v). plain_name ty \<and> plain_name v) qs" for qs
    using that one[of _ "[]"] by (induction qs) (auto simp: split_beta)
  moreover have "?v [CHR 0x7B] = []"
    by code_simp
  ultimately show ?thesis
    using assms by (simp add: lastSystemPropertyStruct_def ps split_beta)
qed

theorem system_properties_roundtrip_witness:
  "lastSystemPropertyStruct (system_text [(''61440'', ''4''), (''61569'', ''100'')]) [] = [(''61440'', ''4''), (''61569'', ''100'')]"
  by (rule system_properties_roundtrip) (simp add: plain_name_def)

end
