(* ===== verification/Class_Element.thy ===== *)
theory Class_Element
  imports Topology Policy_Parser
begin

text \<open>
  \<open>CAmClassElement\<close> without its limits: the last volumes of the class and of its main connections, the last
  sound properties of its elements, their texts for the persistence, the class's part in making a main
  connection, and the queries of \<open>CAmClassFactory\<close>. The daemon is a parameter.
\<close>

section \<open>State\<close>

datatype gc_Class_e = C_UNKNOWN | C_PLAYBACK | C_CAPTURE | C_MAX

record gc_LastMainSoundProperty_s =
  ls_elementName :: string
  ls_elementType :: gc_Element_e
  ls_listLastMainSoundProperty :: "am_MainSoundProperty_s list"

record class_element =
  ce_mName :: string
  ce_mID :: am_ID_t
  ce_classID :: "16 word"
  ce_type :: gc_Class_e
  ce_listTopologies :: "gc_TopologyElement_s list list"
  ce_listClassProperties :: "am_Property_s list"
  ce_isVolumePersistencySupported :: bool
  ce_defaultVolume :: am_volume_t
  ce_mSourceClassID :: am_ID_t
  ce_mSinkClassID :: am_ID_t
  ce_mClassLastVolume :: "string \<times> (string \<times> am_mainVolume_t) list"  \<comment> \<open>class name, volume per sink\<close>
  ce_mLastMainConnectionsVolume :: "string \<times> (string \<times> am_mainVolume_t) list"  \<comment> \<open>class name, volume per connection\<close>
  ce_mLastMainSoundProperties :: "string \<times> gc_LastMainSoundProperty_s list"
  ce_mLastMainSoundPropertiesFromPersistence :: "string \<times> gc_LastMainSoundProperty_s list"

record gc_Class_config =   \<comment> \<open>\<open>gc_Class_s\<close> as the class element reads it\<close>
  cc_classID :: "16 word"
  cc_name :: string
  cc_type :: gc_Class_e
  cc_listTopologies :: "gc_TopologyElement_s list list"
  cc_listClassProperties :: "am_Property_s list"
  cc_isVolumePersistencySupported :: bool
  cc_defaultVolume :: am_volume_t

definition ce_new :: "gc_Class_config \<Rightarrow> class_element" where
  "ce_new c = \<lparr>ce_mName = cc_name c, ce_mID = 0, ce_classID = cc_classID c, ce_type = cc_type c,
     ce_listTopologies = cc_listTopologies c, ce_listClassProperties = cc_listClassProperties c,
     ce_isVolumePersistencySupported = cc_isVolumePersistencySupported c, ce_defaultVolume = cc_defaultVolume c,
     ce_mSourceClassID = 0, ce_mSinkClassID = 0, ce_mClassLastVolume = (cc_name c, []),
     ce_mLastMainConnectionsVolume = (cc_name c, []), ce_mLastMainSoundProperties = (cc_name c, []),
     ce_mLastMainSoundPropertiesFromPersistence = ([], [])\<rparr>"

definition RESERVED_PROPERTIES_BASE :: "16 word" where
  "RESERVED_PROPERTIES_BASE = 61440"

definition CP_PER_SINK_CLASS_VOLUME_SUPPORT :: "16 word" where
  "CP_PER_SINK_CLASS_VOLUME_SUPPORT = RESERVED_PROPERTIES_BASE"

definition MSP_SINK_PER_CLASS_VOLUME_TYPE :: "am_ID_t \<Rightarrow> am_propertyType_t" where
  "MSP_SINK_PER_CLASS_VOLUME_TYPE i = RESERVED_PROPERTIES_BASE + 384 - 101 + i"

definition isPerSinkClassVolumeEnabled :: "class_element \<Rightarrow> bool" where
  "isPerSinkClassVolumeEnabled c =
     (case find_key pr_type CP_PER_SINK_CLASS_VOLUME_SUPPORT (ce_listClassProperties c) of
        None \<Rightarrow> False | Some p \<Rightarrow> pr_value p \<noteq> 0)"

section \<open>Registration\<close>

text \<open>
  Entering a source class and a sink class: with the identifier asked for, to an error and the identifier
  given. A dynamic identifier in the configuration asks for any.
\<close>

definition ce_register :: "16 word \<Rightarrow> (am_ID_t \<Rightarrow> 'db \<Rightarrow> am_Error_e \<times> am_ID_t \<times> 'db) \<Rightarrow> (am_ID_t \<Rightarrow> 'db \<Rightarrow> am_Error_e \<times> am_ID_t \<times> 'db)
    \<Rightarrow> class_element \<times> 'db \<Rightarrow> am_Error_e \<times> class_element \<times> 'db" where
  "ce_register boundary enterSourceClassDB enterSinkClassDB = (\<lambda>(c, db).
     (let asked = (if ce_classID c < boundary then ce_classID c else 0)
      in case enterSourceClassDB asked db of (r1, sourceClassID, db1) \<Rightarrow>
        if r1 \<noteq> E_OK then (E_DATABASE_ERROR, c, db1)
        else (let c1 = (if ce_type c = C_PLAYBACK then c\<lparr>ce_mID := sourceClassID\<rparr> else c)
              in case enterSinkClassDB asked db1 of (r2, sinkClassID, db2) \<Rightarrow>
                if r2 \<noteq> E_OK then (E_DATABASE_ERROR, c1, db2)
                else (let c2 = (if ce_type c = C_CAPTURE then c1\<lparr>ce_mID := sinkClassID\<rparr> else c1)
                      in (E_OK, c2\<lparr>ce_mSinkClassID := sinkClassID, ce_mSourceClassID := sourceClassID\<rparr>, db2)))))"

definition ce_unregister :: "(am_ID_t \<Rightarrow> 'db \<Rightarrow> 'db) \<Rightarrow> (am_ID_t \<Rightarrow> 'db \<Rightarrow> 'db) \<Rightarrow> class_element \<Rightarrow> 'db \<Rightarrow> am_Error_e \<times> 'db" where
  "ce_unregister removeSourceClassDB removeSinkClassDB c db =
     (E_OK, if ce_type c = C_PLAYBACK then removeSourceClassDB (ce_mID c) db
            else if ce_type c = C_CAPTURE then removeSinkClassDB (ce_mID c) db else db)"

section \<open>Last volumes\<close>

definition restoreVolume :: "string \<times> (string \<times> am_mainVolume_t) list \<Rightarrow> class_element \<Rightarrow> am_Error_e \<times> class_element" where
  "restoreVolume lastClassVolume c = (E_UNKNOWN, c\<lparr>ce_mClassLastVolume := lastClassVolume\<rparr>)"

definition restoreLastMainConnectionsVolume :: "string \<times> (string \<times> am_mainVolume_t) list \<Rightarrow> class_element \<Rightarrow> class_element" where
  "restoreLastMainConnectionsVolume v c = c\<lparr>ce_mLastMainConnectionsVolume := v\<rparr>"

text \<open>The caller's volume stays when neither a last nor a default volume is there.\<close>

definition getLastVolume :: "string \<Rightarrow> class_element \<Rightarrow> am_mainVolume_t \<Rightarrow> am_Error_e \<times> am_mainVolume_t" where
  "getLastVolume sinkName c mainVolume =
     (case find_key fst (if isPerSinkClassVolumeEnabled c then sinkName else ''*'') (snd (ce_mClassLastVolume c)) of
        Some (_, v) \<Rightarrow> (E_OK, v)
      | None \<Rightarrow> (E_OK, if ce_defaultVolume c \<noteq> AM_MUTE then ce_defaultVolume c else mainVolume))"

record volume_connection =   \<comment> \<open>what is read of a main connection and its ends\<close>
  vc_name :: string
  vc_mainVolume :: am_mainVolume_t
  vc_source :: "bool option"   \<comment> \<open>the main source, and whether its volume is persistent\<close>
  vc_sink :: "(string \<times> bool) option"   \<comment> \<open>the main sink, and whether its volume is persistent\<close>

definition getLastConnectionVolume :: "volume_connection option \<Rightarrow> class_element \<Rightarrow> am_mainVolume_t \<Rightarrow> am_Error_e \<times> am_mainVolume_t" where
  "getLastConnectionVolume conn c mainVolume =
     (case conn of
        None \<Rightarrow> (E_NOT_POSSIBLE, mainVolume)
      | Some k \<Rightarrow>
          (case find_key fst (vc_name k) (snd (ce_mLastMainConnectionsVolume c)) of
             Some (_, v) \<Rightarrow> (E_OK, v)
           | None \<Rightarrow> (case vc_sink k of Some (sinkName, _) \<Rightarrow> getLastVolume sinkName c mainVolume | None \<Rightarrow> (E_NOT_POSSIBLE, mainVolume))))"

text \<open>
  With volumes per sink the database follows: the sink's property of the class is changed unless it has
  the value. \<open>getMSP\<close> gives the value read, whatever it is when the sink does not have the property.
\<close>

definition setLastClassVolume :: "(string \<Rightarrow> am_ID_t option) \<Rightarrow> (am_ID_t \<Rightarrow> am_propertyType_t \<Rightarrow> 'db \<Rightarrow> 16 word)
    \<Rightarrow> (am_MainSoundProperty_s \<Rightarrow> am_ID_t \<Rightarrow> 'db \<Rightarrow> am_Error_e \<times> 'db) \<Rightarrow> string \<Rightarrow> am_mainVolume_t \<Rightarrow> class_element \<times> 'db
    \<Rightarrow> am_Error_e \<times> class_element \<times> 'db" where
  "setLastClassVolume findSink getMSP changeMSP sinkName v = (\<lambda>(c, db).
     (if \<not> ce_isVolumePersistencySupported c \<and> \<not> isPerSinkClassVolumeEnabled c then (E_OK, c, db)
      else
        (let nm = (if isPerSinkClassVolumeEnabled c then sinkName else ''*'');
             c' = c\<lparr>ce_mClassLastVolume := (fst (ce_mClassLastVolume c), upsert fst (nm, v) (snd (ce_mClassLastVolume c)))\<rparr>
         in if isPerSinkClassVolumeEnabled c then
              (case findSink nm of
                 None \<Rightarrow> (E_OK, c', db)
               | Some sink \<Rightarrow>
                   (let p = \<lparr>pr_type = MSP_SINK_PER_CLASS_VOLUME_TYPE (ce_mID c), pr_value = v\<rparr>
                    in if getMSP sink (pr_type p) db \<noteq> v
                       then (case changeMSP p sink db of (r, db') \<Rightarrow> (r, c', db')) else (E_OK, c', db)))
            else (E_OK, c', db))))"

definition setLastMainConnectionVolume :: "volume_connection \<Rightarrow> class_element \<Rightarrow> am_Error_e \<times> class_element" where
  "setLastMainConnectionVolume k c =
     (case (vc_source k, vc_sink k) of
        (Some so, Some (_, si)) \<Rightarrow>
          (E_OK, if so \<or> si
                 then c\<lparr>ce_mLastMainConnectionsVolume := (fst (ce_mLastMainConnectionsVolume c),
                        upsert fst (vc_name k, vc_mainVolume k) (snd (ce_mLastMainConnectionsVolume c)))\<rparr>
                 else c)
      | _ \<Rightarrow> (E_NOT_POSSIBLE, c))"

definition setLastVolume :: "(string \<Rightarrow> am_ID_t option) \<Rightarrow> (am_ID_t \<Rightarrow> am_propertyType_t \<Rightarrow> 'db \<Rightarrow> 16 word)
    \<Rightarrow> (am_MainSoundProperty_s \<Rightarrow> am_ID_t \<Rightarrow> 'db \<Rightarrow> am_Error_e \<times> 'db) \<Rightarrow> volume_connection option \<Rightarrow> string \<Rightarrow> am_mainVolume_t
    \<Rightarrow> class_element \<times> 'db \<Rightarrow> am_Error_e \<times> class_element \<times> 'db" where
  "setLastVolume findSink getMSP changeMSP conn sinkName v = (\<lambda>(c, db).
     (let (r1, c1, db1) =
        (case conn of
           None \<Rightarrow> (E_UNKNOWN, c, db)
         | Some k \<Rightarrow>
             (case setLastMainConnectionVolume k c of (r, c') \<Rightarrow>
               (case (vc_sink k, vc_source k) of
                  (Some (nm, _), Some _) \<Rightarrow> setLastClassVolume findSink getMSP changeMSP nm (vc_mainVolume k) (c', db)
                | _ \<Rightarrow> (r, c', db))))
      in if sinkName \<noteq> [] then setLastClassVolume findSink getMSP changeMSP sinkName v (c1, db1) else (r1, c1, db1)))"

section \<open>Last sound properties\<close>

definition same_element :: "string \<Rightarrow> gc_Element_e \<Rightarrow> gc_LastMainSoundProperty_s \<Rightarrow> bool" where
  "same_element nm ty l \<longleftrightarrow> ls_elementType l = ty \<and> ls_elementName l = nm"

fun updateListLastMainSoundProperty :: "string \<Rightarrow> gc_Element_e \<Rightarrow> am_MainSoundProperty_s \<Rightarrow> gc_LastMainSoundProperty_s list
    \<Rightarrow> gc_LastMainSoundProperty_s list option" where
  "updateListLastMainSoundProperty nm ty p [] = None"
| "updateListLastMainSoundProperty nm ty p (l # ls) =
     (if same_element nm ty l
      then Some (l\<lparr>ls_listLastMainSoundProperty := upsert pr_type p (ls_listLastMainSoundProperty l)\<rparr> # ls)
      else map_option ((#) l) (updateListLastMainSoundProperty nm ty p ls))"

definition setLastSoundProperty :: "string \<Rightarrow> gc_Element_e \<Rightarrow> am_MainSoundProperty_s \<Rightarrow> class_element \<Rightarrow> class_element" where
  "setLastSoundProperty nm ty p c =
     (let (cn, ls) = ce_mLastMainSoundProperties c
      in c\<lparr>ce_mLastMainSoundProperties := (cn,
           case updateListLastMainSoundProperty nm ty p ls of
             Some ls' \<Rightarrow> ls'
           | None \<Rightarrow> ls @ [\<lparr>ls_elementName = nm, ls_elementType = ty, ls_listLastMainSoundProperty = [p]\<rparr>])\<rparr>)"

definition getLastSoundProperty :: "string \<Rightarrow> gc_Element_e \<Rightarrow> class_element \<Rightarrow> am_MainSoundProperty_s list option" where
  "getLastSoundProperty nm ty c =
     map_option ls_listLastMainSoundProperty
       (find (same_element nm ty) (snd (ce_mLastMainSoundPropertiesFromPersistence c)))"

definition restoreMainSoundProperties_ce :: "string \<times> gc_LastMainSoundProperty_s list \<Rightarrow> class_element \<Rightarrow> class_element" where
  "restoreMainSoundProperties_ce v c = c\<lparr>ce_mLastMainSoundPropertiesFromPersistence := v\<rparr>"


section \<open>Texts for the persistence\<close>

fun element_type_text :: "gc_Element_e \<Rightarrow> string" where
  "element_type_text ET_UNKNOWN = ''ET_UNKNOWN''"
| "element_type_text ET_SOURCE = ''ET_SOURCE''"
| "element_type_text ET_SINK = ''ET_SINK''"
| "element_type_text ET_ROUTE = ''ET_ROUTE''"
| "element_type_text ET_DOMAIN = ''ET_DOMAIN''"
| "element_type_text ET_CLASS = ''ET_CLASS''"
| "element_type_text ET_CONNECTION = ''ET_CONNECTION''"
| "element_type_text ET_GATEWAY = ''ET_GATEWAY''"
| "element_type_text ET_SYSTEM = ''ET_SYSTEM''"
| "element_type_text ET_MAX = ''ET_MAX''"

definition braced :: "string \<Rightarrow> string \<Rightarrow> string" where
  "braced nm inside = CHR 0x7B # nm @ '','' @ inside @ [CHR 0x7D]"

definition getVolumeString :: "class_element \<Rightarrow> string" where
  "getVolumeString c = (let (nm, vs) = ce_mClassLastVolume c
     in if nm \<noteq> [] \<and> vs \<noteq> [] then braced nm (concat (map (\<lambda>(sink, v). ''['' @ sink @ '':'' @ dec (sint v) @ '']'') vs)) else [])"

definition getLastMainConnectionsVolumeString :: "class_element \<Rightarrow> string" where
  "getLastMainConnectionsVolumeString c = (let (nm, vs) = ce_mLastMainConnectionsVolume c
     in if nm \<noteq> [] \<and> vs \<noteq> [] then braced nm (concat (map (\<lambda>(conn, v). ''['' @ conn @ ''='' @ dec (sint v) @ '']'') vs)) else [])"

definition property_pair_text :: "am_MainSoundProperty_s \<Rightarrow> string" where
  "property_pair_text p = ''('' @ dec (uint (pr_type p)) @ '':'' @ dec (sint (pr_value p)) @ '')''"

definition last_property_text :: "gc_LastMainSoundProperty_s \<Rightarrow> string" where
  "last_property_text l = ''['' @ element_type_text (ls_elementType l) @ ''_'' @ ls_elementName l @ ''=''
     @ concat (map property_pair_text (ls_listLastMainSoundProperty l)) @ '']''"

definition getLastMainSoundPropertiesString :: "class_element \<Rightarrow> string" where
  "getLastMainSoundPropertiesString c = (let (nm, ls) = ce_mLastMainSoundProperties c
     in if nm \<noteq> [] \<and> ls \<noteq> [] then braced nm (concat (map last_property_text ls)) else [])"

text \<open>The connections of the class that are connected, suspended or disconnected, oldest first.\<close>

definition class_filter :: "string \<Rightarrow> am_ConnectionState_e list \<Rightarrow> connection_filter" where
  "class_filter nm states = cf_new\<lparr>cf_mClassName := nm, cf_mListConnectionStates := states\<rparr>"

definition getMainConnectionString :: "(connection_filter \<Rightarrow> gc_Order_e \<Rightarrow> string list option) \<Rightarrow> (string \<Rightarrow> bool) \<Rightarrow> class_element \<Rightarrow> string option" where
  "getMainConnectionString search persistent c =
     map_option (\<lambda>names. let s = concat (map (\<lambda>nm. nm @ '';'') (filter persistent names)) in if s \<noteq> [] then braced (ce_mName c) s else [])
       (search (class_filter (ce_mName c) [CS_CONNECTED, CS_SUSPENDED, CS_DISCONNECTED]) O_OLDEST)"

section \<open>Making a main connection\<close>

definition getMainConnection :: "(connection_filter \<Rightarrow> gc_Order_e \<Rightarrow> string list option) \<Rightarrow> string \<Rightarrow> string \<Rightarrow> am_ConnectionState_e list
    \<Rightarrow> gc_Order_e \<Rightarrow> class_element \<Rightarrow> string option option" where
  "getMainConnection search sourceName sinkName states order c =
     map_option (\<lambda>names. case names of [] \<Rightarrow> None | nm # _ \<Rightarrow> Some nm)
       (search ((class_filter (ce_mName c) states)\<lparr>cf_mSourceName := sourceName, cf_mSinkName := sinkName\<rparr>) order)"

text \<open>
  What the class element calls: the routes of the daemon, the system property that allows routes outside
  of the topologies, and the factory of the main connections. \<open>km_create\<close> constructs and registers a
  connection, \<open>km_attach\<close> attaches its routes and ends to it and the connection to the class, \<open>km_search\<close>
  is the search by a filter, oldest first.
\<close>

record 'w connection_maker =
  km_topology :: "'w \<Rightarrow> topology_world"
  km_getRoute :: "am_ID_t \<Rightarrow> am_ID_t \<Rightarrow> 'w \<Rightarrow> am_Error_e \<times> am_Route_s list"
  km_isNonTopologyRouteAllowed :: "'w \<Rightarrow> bool"
  km_existing :: "string \<Rightarrow> 'w \<Rightarrow> am_ID_t option"
  km_create :: "gc_Route_s \<Rightarrow> 'w \<Rightarrow> am_ID_t option \<times> 'w"
  km_attach :: "string \<Rightarrow> string \<Rightarrow> am_ID_t \<Rightarrow> string \<Rightarrow> 'w \<Rightarrow> 'w"
  km_nameOf :: "am_ID_t \<Rightarrow> 'w \<Rightarrow> string"
  km_moveToEnd :: "string \<Rightarrow> 'w \<Rightarrow> 'w"
  km_search :: "connection_filter \<Rightarrow> 'w \<Rightarrow> string list"

definition updateMainConnectionQueue :: "'w connection_maker \<Rightarrow> class_element \<Rightarrow> 'w \<Rightarrow> 'w" where
  "updateMainConnectionQueue K c w =
     (case km_search K (class_filter (ce_mName c) [CS_CONNECTED, CS_SUSPENDED]) w of
        [] \<Rightarrow> w | nm # _ \<Rightarrow> km_moveToEnd K nm w)"

definition daemon_route :: "string \<Rightarrow> string \<Rightarrow> am_Route_s \<Rightarrow> gc_Route_s" where
  "daemon_route sourceName sinkName d = \<lparr>ro_sourceID = ar_sourceID d, ro_sinkID = ar_sinkID d, ro_route = ar_route d,
     ro_name = sourceName @ '':'' @ sinkName\<rparr>"

text \<open>
  The route for a new connection. \<open>blank\<close> is the route before anything is assigned to it; with no route of
  the daemon but no error either it is used as it is. \<open>None\<close>: the search leaves the topology.
\<close>

definition choose_route :: "'w connection_maker \<Rightarrow> gc_Route_s \<Rightarrow> class_element \<Rightarrow> string \<Rightarrow> string \<Rightarrow> am_ID_t \<Rightarrow> am_ID_t \<Rightarrow> 'w
    \<Rightarrow> (am_Error_e \<times> gc_Route_s) option" where
  "choose_route K blank c sourceName sinkName srcID sinkID w =
     (case km_getRoute K srcID sinkID w of (result, routes) \<Rightarrow>
        if result \<noteq> E_OK then Some (result, blank)
        else (case routes of
            [] \<Rightarrow> Some (E_OK, blank)
          | d # _ \<Rightarrow>
              (let T = km_topology K w;
                   belongs = isSourceSinkPairBelongtoClass T (ce_listTopologies c) (ce_type c = C_PLAYBACK) (ce_type c = C_CAPTURE) sinkName sourceName
               in case getPreferredRoute T belongs sourceName sinkName (ce_listTopologies c) blank of
                    None \<Rightarrow> None
                  | Some (r, route) \<Rightarrow>
                      if r \<noteq> E_OK \<and> km_isNonTopologyRouteAllowed K w then Some (E_OK, daemon_route sourceName sinkName d)
                      else Some (validateRouteFromTopology routes route))))"

definition createMainConnection :: "'w connection_maker \<Rightarrow> gc_Route_s \<Rightarrow> class_element \<Rightarrow> string \<Rightarrow> string \<Rightarrow> 'w
    \<Rightarrow> (am_Error_e \<times> am_ID_t option \<times> 'w) option" where
  "createMainConnection K blank c sourceName sinkName w =
     (case (tw_source (km_topology K w) sourceName, tw_sink (km_topology K w) sinkName) of
        (Some srcID, Some (sinkID, _)) \<Rightarrow>
          (let finish = (\<lambda>i w. Some (E_OK, Some i, updateMainConnectionQueue K c (km_moveToEnd K (km_nameOf K i w) w)))
           in case km_existing K (sourceName @ '':'' @ sinkName) w of
                Some i \<Rightarrow> finish i w
              | None \<Rightarrow>
                  (case choose_route K blank c sourceName sinkName srcID sinkID w of
                     None \<Rightarrow> None
                   | Some (r, route) \<Rightarrow>
                       if r \<noteq> E_OK then Some (r, None, w)
                       else (case km_create K route w of
                           (None, w') \<Rightarrow> Some (E_OK, None, w')
                         | (Some i, w') \<Rightarrow> finish i (km_attach K sourceName sinkName i (ce_mName c) w'))))
      | _ \<Rightarrow> Some (E_NOT_POSSIBLE, None, w))"

section \<open>The factory's queries\<close>

definition ce_isElementBelongtoClass :: "(class_element \<Rightarrow> topology_world) \<Rightarrow> string \<Rightarrow> gc_Element_e \<Rightarrow> class_element \<Rightarrow> bool" where
  "ce_isElementBelongtoClass T nm ty c = isElementBelongtoClass (T c) (ce_listTopologies c) nm ty"

text \<open>The class of a source and a sink is the last that they belong to.\<close>

definition cf_getElement :: "(class_element \<Rightarrow> topology_world) \<Rightarrow> string \<Rightarrow> string \<Rightarrow> class_element list \<Rightarrow> class_element option" where
  "cf_getElement T sourceName sinkName cs =
     foldl (\<lambda>found c. if isSourceSinkPairBelongtoClass (T c) (ce_listTopologies c) (ce_type c = C_PLAYBACK) (ce_type c = C_CAPTURE) sinkName sourceName
        then Some c else found) None cs"

definition getElementsBySource :: "(class_element \<Rightarrow> topology_world) \<Rightarrow> string \<Rightarrow> class_element list \<Rightarrow> class_element list" where
  "getElementsBySource T sourceName cs = filter (ce_isElementBelongtoClass T sourceName ET_SOURCE) cs"

definition getElementsBySink :: "(class_element \<Rightarrow> topology_world) \<Rightarrow> string \<Rightarrow> class_element list \<Rightarrow> class_element list" where
  "getElementsBySink T sinkName cs = filter (ce_isElementBelongtoClass T sinkName ET_SINK) cs"

definition getElementBySourceClassID :: "am_ID_t \<Rightarrow> class_element list \<Rightarrow> class_element option" where
  "getElementBySourceClassID i cs = find (\<lambda>c. ce_mSourceClassID c = i) cs"

definition getElementBySinkClassID :: "am_ID_t \<Rightarrow> class_element list \<Rightarrow> class_element option" where
  "getElementBySinkClassID i cs = find (\<lambda>c. ce_mSinkClassID c = i) cs"

definition getElementByConnection :: "(string \<Rightarrow> string option) \<Rightarrow> (string \<Rightarrow> class_element option) \<Rightarrow> string \<Rightarrow> class_element option" where
  "getElementByConnection classNameOf find_class connectionName =
     (case classNameOf connectionName of None \<Rightarrow> None | Some nm \<Rightarrow> find_class nm)"

end
