(* ===== verification/System_Element.thy ===== *)
theory System_Element
  imports Policy_Parser Gc_Types
begin

text \<open>
  \<open>CAmSystemElement\<close>: the system properties with their defaults, and the list of those that survive a
  restart. The daemon's database of the properties is a parameter.
\<close>

definition system_property_type :: "nat \<Rightarrow> nat \<Rightarrow> am_propertyType_t" where
  "system_property_type useCase offset = 61440 + of_nat (128 * useCase) + of_nat offset"

abbreviation "SYP_GLOBAL_LOG_THRESHOLD \<equiv> system_property_type 0 0"
abbreviation "SYP_REGISTRATION_ALLOW_UNKNOWN_ELEMENT \<equiv> system_property_type 1 0"
abbreviation "SYP_REGISTRATION_DOMAIN_TIMEOUT \<equiv> system_property_type 1 1"
abbreviation "SYP_REGSTRATION_SOUND_PROP_RESTORED \<equiv> system_property_type 1 2"
abbreviation "SYP_CONNECTION_ALLOW_ONLY_TOPOLOGY_ROUTES \<equiv> system_property_type 2 0"

record system_element =
  sy_readOnly :: bool
  sy_listGCSystemProperties :: "(am_SystemProperty_s \<times> bool) list"   \<comment> \<open>configured, with their persistence\<close>
  sy_mListSystemProperties :: "am_SystemProperty_s list"
  sy_mListLastSystemProperties :: "am_SystemProperty_s list"

text \<open>The default log threshold is the daemon's level of information messages.\<close>

definition sy_defaults :: "am_propertyValue_t \<Rightarrow> am_SystemProperty_s list" where
  "sy_defaults llInfo = map (\<lambda>(t, v). \<lparr>pr_type = t, pr_value = v\<rparr>)
     [(SYP_GLOBAL_LOG_THRESHOLD, llInfo), (SYP_REGISTRATION_ALLOW_UNKNOWN_ELEMENT, 0),
      (SYP_CONNECTION_ALLOW_ONLY_TOPOLOGY_ROUTES, 1), (SYP_REGISTRATION_DOMAIN_TIMEOUT, 10000),
      (SYP_REGSTRATION_SOUND_PROP_RESTORED, 0)]"

definition sy_new :: "am_propertyValue_t \<Rightarrow> bool \<Rightarrow> (am_SystemProperty_s \<times> bool) list \<Rightarrow> system_element" where
  "sy_new llInfo readOnly conf = \<lparr>sy_readOnly = readOnly, sy_listGCSystemProperties = conf,
     sy_mListSystemProperties = foldl (\<lambda>ps p. insert_missing pr_type p ps) (map fst conf) (sy_defaults llInfo),
     sy_mListLastSystemProperties = []\<rparr>"

definition findSystemProperty :: "am_propertyType_t \<Rightarrow> am_SystemProperty_s list \<Rightarrow> am_Error_e \<times> am_propertyValue_t option" where
  "findSystemProperty ty ps = (case find_key pr_type ty ps of Some p \<Rightarrow> (E_OK, Some (pr_value p)) | None \<Rightarrow> (E_NOT_POSSIBLE, None))"

definition sy_register :: "(am_SystemProperty_s list \<Rightarrow> 'db \<Rightarrow> 'db) \<Rightarrow> system_element \<Rightarrow> 'db \<Rightarrow> am_Error_e \<times> 'db" where
  "sy_register enterListDB s db = (E_OK, if sy_mListSystemProperties s \<noteq> [] then enterListDB (sy_mListSystemProperties s) db else db)"

text \<open>A property is read from the database; a value that is not found leaves the caller's.\<close>

definition getSystemProperty :: "('db \<Rightarrow> am_Error_e \<times> am_SystemProperty_s list) \<Rightarrow> am_propertyType_t \<Rightarrow> 'db \<Rightarrow> am_Error_e \<times> am_propertyValue_t option" where
  "getSystemProperty listDB ty db = (case listDB db of (r, ps) \<Rightarrow> if r = E_OK then findSystemProperty ty ps else (r, None))"

definition isUnknownElementRegistrationSupported :: "('db \<Rightarrow> am_Error_e \<times> am_SystemProperty_s list) \<Rightarrow> 'db \<Rightarrow> bool" where
  "isUnknownElementRegistrationSupported listDB db =
     (case snd (getSystemProperty listDB SYP_REGISTRATION_ALLOW_UNKNOWN_ELEMENT db) of Some v \<Rightarrow> v \<noteq> 0 | None \<Rightarrow> True)"

text \<open>Here the caller's value is not initialised: \<open>garbage\<close>.\<close>

definition isNonTopologyRouteAllowed :: "am_propertyValue_t \<Rightarrow> ('db \<Rightarrow> am_Error_e \<times> am_SystemProperty_s list) \<Rightarrow> 'db \<Rightarrow> bool" where
  "isNonTopologyRouteAllowed garbage listDB db =
     ((case snd (getSystemProperty listDB SYP_CONNECTION_ALLOW_ONLY_TOPOLOGY_ROUTES db) of Some v \<Rightarrow> v | None \<Rightarrow> garbage) = 0)"

definition getDebugLevel :: "('db \<Rightarrow> am_Error_e \<times> am_SystemProperty_s list) \<Rightarrow> 'db \<Rightarrow> am_propertyValue_t" where
  "getDebugLevel listDB db = (case snd (getSystemProperty listDB SYP_GLOBAL_LOG_THRESHOLD db) of Some v \<Rightarrow> v | None \<Rightarrow> - 1)"

definition isPersistenceSupported :: "am_propertyType_t \<Rightarrow> system_element \<Rightarrow> bool" where
  "isPersistenceSupported ty s =
     (case find_key (\<lambda>(p, _). pr_type p) ty (sy_listGCSystemProperties s) of Some (_, b) \<Rightarrow> b | None \<Rightarrow> False)"

definition remember :: "system_element \<Rightarrow> am_SystemProperty_s \<Rightarrow> system_element" where
  "remember s p = (if isPersistenceSupported (pr_type p) s
     then s\<lparr>sy_mListLastSystemProperties := upsert pr_type p (sy_mListLastSystemProperties s)\<rparr> else s)"

definition setSystemProperty :: "(am_SystemProperty_s \<Rightarrow> 'db \<Rightarrow> am_Error_e \<times> 'db) \<Rightarrow> am_SystemProperty_s \<Rightarrow> system_element \<times> 'db
    \<Rightarrow> am_Error_e \<times> system_element \<times> 'db" where
  "setSystemProperty changeDB p = (\<lambda>(s, db). case changeDB p db of (r, db') \<Rightarrow> (r, if r = E_OK then remember s p else s, db'))"

definition setSystemProperties :: "(am_SystemProperty_s list \<Rightarrow> 'db \<Rightarrow> am_Error_e \<times> 'db) \<Rightarrow> am_SystemProperty_s list \<Rightarrow> system_element \<times> 'db
    \<Rightarrow> am_Error_e \<times> system_element \<times> 'db" where
  "setSystemProperties changeListDB ps = (\<lambda>(s, db). case changeListDB ps db of
     (r, db') \<Rightarrow> (r, if r = E_OK then foldl remember s ps else s, db'))"

definition getLastSystemPropertiesString :: "system_element \<Rightarrow> string" where
  "getLastSystemPropertiesString s =
     (if sy_mListLastSystemProperties s = [] then []
      else CHR 0x7B # concat (map (\<lambda>p. ''('' @ dec (uint (pr_type p)) @ '':'' @ dec (sint (pr_value p)) @ '')'') (sy_mListLastSystemProperties s)) @ [CHR 0x7D])"

text \<open>What holds of the remembered properties: one of each type, and only of those to be remembered.\<close>

definition remembered_ok :: "system_element \<Rightarrow> bool" where
  "remembered_ok s \<longleftrightarrow> distinct (map pr_type (sy_mListLastSystemProperties s))
     \<and> list_all (\<lambda>p. isPersistenceSupported (pr_type p) s) (sy_mListLastSystemProperties s)"

lemma set_upsert: "set (upsert key x xs) \<subseteq> insert x (set xs)"
  by (induction xs) auto

lemma remember_keeps: "sy_listGCSystemProperties (remember s p) = sy_listGCSystemProperties s"
  by (simp add: remember_def)

lemma isPersistenceSupported_remember [simp]: "isPersistenceSupported ty (remember s p) = isPersistenceSupported ty s"
  by (simp add: isPersistenceSupported_def remember_keeps)

lemma remember_ok: "remembered_ok s \<Longrightarrow> remembered_ok (remember s p)"
proof (cases "isPersistenceSupported (pr_type p) s")
  case True
  assume ok: "remembered_ok s"
  have "q = p \<or> q \<in> set (sy_mListLastSystemProperties s)" if "q \<in> set (upsert pr_type p (sy_mListLastSystemProperties s))" for q
    using that set_upsert by fastforce
  then show ?thesis
    using ok True unfolding remembered_ok_def list_all_iff isPersistenceSupported_remember
    by (auto simp: remember_def)
qed (simp add: remember_def)

lemma foldl_remember_ok: "remembered_ok s \<Longrightarrow> remembered_ok (foldl remember s ps)"
  by (induction ps arbitrary: s) (auto simp: remember_ok)

lemma remember_value:
  "find_key pr_type ty (sy_mListLastSystemProperties (remember s p)) =
     (if pr_type p = ty \<and> isPersistenceSupported ty s then Some p else find_key pr_type ty (sy_mListLastSystemProperties s))"
  by (auto simp: remember_def)

text \<open>
  setting system properties keeps the list for the restart in order, whatever the database answers:
  one entry per type, and only types marked as persistent. Of a property that is accepted and persistent
  the list has the value set; an unsuccessful change leaves the list alone.
\<close>

theorem setSystemProperty_remembers:
  assumes "remembered_ok s"
  shows "remembered_ok (fst (snd (setSystemProperty changeDB p (s, db))))
    \<and> find_key pr_type ty (sy_mListLastSystemProperties (fst (snd (setSystemProperty changeDB p (s, db)))))
        = (if fst (changeDB p db) = E_OK \<and> pr_type p = ty \<and> isPersistenceSupported ty s then Some p
           else find_key pr_type ty (sy_mListLastSystemProperties s))
    \<and> remembered_ok (fst (snd (setSystemProperties changeListDB ps (s, db))))"
  using assms by (auto simp: setSystemProperty_def setSystemProperties_def split_beta remember_ok foldl_remember_ok remember_value)

theorem setSystemProperty_remembers_witness:
  "let s = sy_new 4 False [(\<lparr>pr_type = 61569, pr_value = 700\<rparr>, True)]; p = \<lparr>pr_type = 61569, pr_value = 800\<rparr>
   in remembered_ok (fst (snd (setSystemProperty (\<lambda>p db. (E_OK, p)) p (s, p))))
    \<and> find_key pr_type 61569 (sy_mListLastSystemProperties (fst (snd (setSystemProperty (\<lambda>p db. (E_OK, p)) p (s, p)))))
        = (if fst (E_OK, p) = E_OK \<and> pr_type p = 61569 \<and> isPersistenceSupported 61569 s then Some p
           else find_key pr_type 61569 (sy_mListLastSystemProperties s))
    \<and> remembered_ok (fst (snd (setSystemProperties (\<lambda>p db. (E_UNKNOWN, db)) [p] (s, p))))"
  unfolding Let_def by (rule setSystemProperty_remembers) (simp add: remembered_ok_def sy_new_def)

end
