(* ===== verification/Controller_Persistence.thy ===== *)
theory Controller_Persistence
  imports Persistence_Props Class_Element System_Element Policy_Engine
begin

text \<open>
  The controller's side of the persistence (\<open>CAmControllerPlugin.cpp\<close>): at the run-down it writes the texts
  of its class elements and of the system element, at the start it reads them back into the elements, into
  triggers and into main connections. The persistence is used through its interface \<open>IAmPersistence\<close>: \<open>rd\<close>
  reads a key, \<open>wr\<close> writes one.
\<close>

section \<open>Writing\<close>

type_synonym class_store = "string \<Rightarrow> class_element option"
type_synonym 'p writer = "string \<Rightarrow> string \<Rightarrow> 'p \<Rightarrow> am_Error_e \<times> 'p"
type_synonym 'p reader = "string \<Rightarrow> 'p \<Rightarrow> am_Error_e \<times> string option"

text \<open>The classes of the configuration in their order; each must have its element.\<close>

fun class_elements :: "class_store \<Rightarrow> string list \<Rightarrow> class_element list option" where
  "class_elements st [] = Some []"
| "class_elements st (nm # nms) =
     (case st nm of None \<Rightarrow> None | Some c \<Rightarrow> map_option ((#) c) (class_elements st nms))"

definition store_texts :: "'p writer \<Rightarrow> string \<Rightarrow> (class_element \<Rightarrow> string) \<Rightarrow> class_store \<Rightarrow> string list \<Rightarrow> 'p \<Rightarrow> am_Error_e \<times> 'p" where
  "store_texts wr key f st classes p =
     (case class_elements st classes of None \<Rightarrow> (E_NOT_POSSIBLE, p) | Some cs \<Rightarrow> wr key (concat (map f cs)) p)"

definition storeMainConnectiontoPersistency :: "'p writer \<Rightarrow> (class_element \<Rightarrow> string) \<Rightarrow> class_store \<Rightarrow> string list \<Rightarrow> 'p \<Rightarrow> am_Error_e \<times> 'p" where
  "storeMainConnectiontoPersistency wr mainConnectionString = store_texts wr ''lastMainConnection'' mainConnectionString"

definition storeVolumetoPersistency :: "'p writer \<Rightarrow> class_store \<Rightarrow> string list \<Rightarrow> 'p \<Rightarrow> am_Error_e \<times> 'p" where
  "storeVolumetoPersistency wr = store_texts wr ''lastClassVolume''
     (\<lambda>c. if ce_isVolumePersistencySupported c then getVolumeString c else [])"

definition storeMainSoundPropertytoPersistence :: "'p writer \<Rightarrow> class_store \<Rightarrow> string list \<Rightarrow> 'p \<Rightarrow> am_Error_e \<times> 'p" where
  "storeMainSoundPropertytoPersistence wr = store_texts wr ''lastMainSoundProperty'' getLastMainSoundPropertiesString"

definition storeMainConnectionVolumetoPersistency :: "'p writer \<Rightarrow> class_store \<Rightarrow> string list \<Rightarrow> 'p \<Rightarrow> am_Error_e \<times> 'p" where
  "storeMainConnectionVolumetoPersistency wr = store_texts wr ''lastMainConnectionVolume'' getLastMainConnectionsVolumeString"

definition storeSystemPropertytoPersistence :: "'p writer \<Rightarrow> system_element option \<Rightarrow> 'p \<Rightarrow> am_Error_e \<times> 'p" where
  "storeSystemPropertytoPersistence wr s p =
     (case s of None \<Rightarrow> (E_NOT_POSSIBLE, p) | Some e \<Rightarrow> wr ''lastSystemProperty'' (getLastSystemPropertiesString e) p)"

section \<open>Reading\<close>

text \<open>The tokens of a split are taken two at a time; one that is left over is dropped.\<close>

fun pairs :: "'a list \<Rightarrow> ('a \<times> 'a) list" where
  "pairs (a # b # r) = (a, b) # pairs r"
| "pairs _ = []"

definition split_pairs :: "char \<Rightarrow> string \<Rightarrow> (string \<times> string) list" where
  "split_pairs d s = (case split_ok d s of None \<Rightarrow> [] | Some ts \<Rightarrow> pairs ts)"

text \<open>Of the pairs in a volume entry the last one counts; one token too many makes the entry void.\<close>

definition named_value :: "char \<Rightarrow> string \<Rightarrow> (string \<times> 16 word) option" where
  "named_value d s =
     (case split_ok d s of
        None \<Rightarrow> None
      | Some ts \<Rightarrow>
          if odd (length ts) then None
          else (case last (pairs ts) of (nm, v) \<Rightarrow> if nm = [] then None else Some (nm, word_of_int (atoi v))))"

definition read_text :: "'p reader \<Rightarrow> string \<Rightarrow> 'p \<Rightarrow> am_Error_e \<times> string" where
  "read_text rd key p = (case rd key p of (r, v) \<Rightarrow> (r, case v of None \<Rightarrow> [] | Some s \<Rightarrow> s))"

definition last_class_volumes :: "string \<Rightarrow> (string \<times> (string \<times> 16 word) list) list" where
  "last_class_volumes classStr = List.map_filter (\<lambda>(nm, rest).
     case split_ok (CHR ''['') rest of None \<Rightarrow> None | Some es \<Rightarrow> Some (nm, List.map_filter (named_value (CHR '':'')) es))
     (split_pairs (CHR '','') classStr)"

text \<open>The first class without an element ends the restoring.\<close>

fun restore_volumes :: "(string \<times> (string \<times> 16 word) list) list \<Rightarrow> class_store \<Rightarrow> am_Error_e \<times> class_store" where
  "restore_volumes [] st = (E_OK, st)"
| "restore_volumes ((nm, vs) # r) st =
     (case st nm of None \<Rightarrow> (E_NOT_POSSIBLE, st) | Some c \<Rightarrow> restore_volumes r (st(nm \<mapsto> snd (restoreVolume (nm, vs) c))))"

definition restoreVolumefromPersistency :: "'p reader \<Rightarrow> 'p \<Rightarrow> class_store \<Rightarrow> am_Error_e \<times> class_store" where
  "restoreVolumefromPersistency rd p st =
     (case read_text rd ''lastClassVolume'' p of (r, s) \<Rightarrow>
        if r \<noteq> E_OK then (r, st)
        else (case split_ok (CHR 0x7B) s of
            None \<Rightarrow> (E_NOT_POSSIBLE, st)
          | Some cs \<Rightarrow> restore_volumes (concat (map last_class_volumes cs)) st))"

text \<open>The list of the connection volumes is not cleared between the pairs of one class text.\<close>

fun last_connection_volumes :: "(string \<times> string) list \<Rightarrow> (string \<times> 16 word) list \<Rightarrow> (string \<times> (string \<times> 16 word) list) list" where
  "last_connection_volumes [] acc = []"
| "last_connection_volumes ((nm, rest) # ps) acc =
     (case split_ok (CHR ''['') rest of
        None \<Rightarrow> last_connection_volumes ps acc
      | Some es \<Rightarrow> (let acc' = acc @ List.map_filter (named_value (CHR ''='')) es in (nm, acc') # last_connection_volumes ps acc'))"

definition restore_connection_volumes :: "(string \<times> (string \<times> 16 word) list) list \<Rightarrow> class_store \<Rightarrow> class_store" where
  "restore_connection_volumes vs st = foldl (\<lambda>st (nm, v).
     case st nm of None \<Rightarrow> st | Some c \<Rightarrow> st(nm \<mapsto> restoreLastMainConnectionsVolume (nm, v) c)) st vs"

definition restoreMainConnectionVolumefromPersistency :: "'p reader \<Rightarrow> 'p \<Rightarrow> class_store \<Rightarrow> am_Error_e \<times> class_store" where
  "restoreMainConnectionVolumefromPersistency rd p st =
     (case read_text rd ''lastMainConnectionVolume'' p of (r, s) \<Rightarrow>
        if r \<noteq> E_OK then (r, st)
        else (case split_ok (CHR 0x7B) s of
            None \<Rightarrow> (E_NOT_POSSIBLE, st)
          | Some cs \<Rightarrow> (E_OK, restore_connection_volumes (concat (map (\<lambda>c. last_connection_volumes (split_pairs (CHR '','') c) []) cs)) st)))"

text \<open>An element's name with its type in it, wherever that stands.\<close>

definition erase_sub :: "string \<Rightarrow> string \<Rightarrow> string option" where
  "erase_sub pat s = map_option (\<lambda>k. take k s @ drop (k + length pat) s) (find_sub pat s)"

definition typed_name :: "string \<Rightarrow> (string \<times> gc_Element_e) option" where
  "typed_name s =
     (case erase_sub ''ET_SINK_'' s of
        Some nm \<Rightarrow> Some (nm, ET_SINK)
      | None \<Rightarrow> (case erase_sub ''ET_SOURCE_'' s of Some nm \<Rightarrow> Some (nm, ET_SOURCE) | None \<Rightarrow> None))"

definition read_properties :: "string \<Rightarrow> am_Property_s list" where
  "read_properties s = map (\<lambda>(t, v). \<lparr>pr_type = word_of_int (atoi t), pr_value = word_of_int (atoi v)\<rparr>) (split_pairs (CHR '':'') s)"

fun sound_tokens :: "string list \<Rightarrow> gc_LastMainSoundProperty_s list" where
  "sound_tokens [] = []"
| "sound_tokens (a # r) =
     (case typed_name a of
        None \<Rightarrow> sound_tokens r
      | Some (nm, ty) \<Rightarrow>
          (case r of
             [] \<Rightarrow> []
           | b # r' \<Rightarrow>
               (case split_ok (CHR ''('') b of
                  None \<Rightarrow> sound_tokens r'
                | Some ps \<Rightarrow> \<lparr>ls_elementName = nm, ls_elementType = ty, ls_listLastMainSoundProperty = concat (map read_properties ps)\<rparr>
                    # sound_tokens r')))"

definition last_sound_properties :: "string \<Rightarrow> (string \<times> gc_LastMainSoundProperty_s list) list" where
  "last_sound_properties classStr = List.map_filter (\<lambda>(nm, rest).
     case split_ok (CHR ''['') rest of None \<Rightarrow> None
       | Some es \<Rightarrow> Some (nm, concat (map (\<lambda>e. case split_ok (CHR ''='') e of None \<Rightarrow> [] | Some ts \<Rightarrow> sound_tokens ts) es)))
     (split_pairs (CHR '','') classStr)"

fun restore_sound :: "(string \<times> gc_LastMainSoundProperty_s list) list \<Rightarrow> class_store \<Rightarrow> am_Error_e \<times> class_store" where
  "restore_sound [] st = (E_OK, st)"
| "restore_sound ((nm, ls) # r) st =
     (case st nm of None \<Rightarrow> (E_NOT_POSSIBLE, st) | Some c \<Rightarrow> restore_sound r (st(nm \<mapsto> restoreMainSoundProperties_ce (nm, ls) c)))"

definition restoreMainSoundPropertyfromPersistency :: "'p reader \<Rightarrow> 'p \<Rightarrow> class_store \<Rightarrow> am_Error_e \<times> class_store" where
  "restoreMainSoundPropertyfromPersistency rd p st =
     (case read_text rd ''lastMainSoundProperty'' p of (r, s) \<Rightarrow>
        if r \<noteq> E_OK then (r, st)
        else (case split_ok (CHR 0x7B) s of
            None \<Rightarrow> (E_NOT_POSSIBLE, st)
          | Some cs \<Rightarrow> restore_sound (concat (map last_sound_properties cs)) st))"

text \<open>
  Each pair becomes a trigger. A token that is left over moves the iterator beyond the end: \<open>None\<close>.
\<close>

definition system_triggers :: "string \<Rightarrow> am_SystemProperty_s list option" where
  "system_triggers s =
     (case split_ok (CHR '':'') s of
        None \<Rightarrow> Some []
      | Some ts \<Rightarrow> if odd (length ts) then None
          else Some (map (\<lambda>(t, v). \<lparr>pr_type = word_of_int (atoi t), pr_value = word_of_int (atoi v)\<rparr>) (pairs ts)))"

fun queue_system :: "string list \<Rightarrow> trigger_queue \<Rightarrow> trigger_queue option" where
  "queue_system [] q = Some q"
| "queue_system (s # ss) q =
     (case system_triggers s of
        None \<Rightarrow> None
      | Some ps \<Rightarrow> queue_system ss (foldl (\<lambda>q p. snd (tq_queue USER_SET_SYSTEM_PROPERTY (Some (SystemPropertyTrigger p)) q)) q ps))"

definition restoreSystemPropertyfromPersistence :: "'p reader \<Rightarrow> 'p \<Rightarrow> trigger_queue \<Rightarrow> (am_Error_e \<times> trigger_queue) option" where
  "restoreSystemPropertyfromPersistence rd p q =
     (case read_text rd ''lastSystemProperty'' p of (r, s) \<Rightarrow>
        if r \<noteq> E_OK then Some (r, q)
        else (case split_ok (CHR ''('') s of
            None \<Rightarrow> Some (E_NOT_POSSIBLE, q)
          | Some ps \<Rightarrow> map_option (Pair E_OK) (queue_system ps q)))"

section \<open>Restoring main connections\<close>

text \<open>The names go into a \<open>std::set\<close>, which is not cleared between the pairs of one class text.\<close>

definition connection_set :: "string list \<Rightarrow> string list \<Rightarrow> string list" where
  "connection_set names acc = sorted_list_of_set (set acc \<union> {nm \<in> set names. CHR 0x7D \<notin> set nm})"

fun last_connections :: "(string \<times> string) list \<Rightarrow> string list \<Rightarrow> string list list" where
  "last_connections [] acc = []"
| "last_connections ((nm, rest) # ps) acc =
     (case split_ok (CHR '';'') rest of
        None \<Rightarrow> last_connections ps acc
      | Some ts \<Rightarrow> (let acc' = connection_set ts acc in acc' # last_connections ps acc'))"

definition createLastMainConnection :: "'w connection_maker \<Rightarrow> gc_Route_s \<Rightarrow> (string \<Rightarrow> string \<Rightarrow> 'w \<Rightarrow> class_element option) \<Rightarrow> string \<Rightarrow> 'w
    \<Rightarrow> (am_Error_e \<times> 'w) option" where
  "createLastMainConnection K blank findClass mainConnection w =
     (case split_ok (CHR '':'') mainConnection of
        Some (sourceName # sinkName # _) \<Rightarrow>
          (case (tw_source (km_topology K w) sourceName, tw_sink (km_topology K w) sinkName) of
             (Some srcID, Some (sinkID, _)) \<Rightarrow>
               (case findClass sourceName sinkName w of
                  None \<Rightarrow> Some (E_NOT_POSSIBLE, w)
                | Some c \<Rightarrow>
                    (case km_getRoute K srcID sinkID w of (r, routes) \<Rightarrow>
                       if r \<noteq> E_OK then Some (r, w)
                       else if routes = [] then Some (E_NOT_POSSIBLE, w)
                       else map_option (\<lambda>(r, _, w'). (r, w')) (createMainConnection K blank c sourceName sinkName w)))
           | _ \<Rightarrow> Some (E_NON_EXISTENT, w))
      | _ \<Rightarrow> Some (E_NOT_POSSIBLE, w))"

fun create_connections :: "'w connection_maker \<Rightarrow> gc_Route_s \<Rightarrow> (string \<Rightarrow> string \<Rightarrow> 'w \<Rightarrow> class_element option) \<Rightarrow> string list \<Rightarrow> 'w \<Rightarrow> 'w option" where
  "create_connections K blank findClass [] w = Some w"
| "create_connections K blank findClass (nm # nms) w =
     (case createLastMainConnection K blank findClass nm w of None \<Rightarrow> None | Some (_, w') \<Rightarrow> create_connections K blank findClass nms w')"

definition connections_of_text :: "string \<Rightarrow> string list option" where
  "connections_of_text s = map_option (\<lambda>cs. concat (concat (map (\<lambda>c. last_connections (split_pairs (CHR '','') c) []) cs))) (split_ok (CHR 0x7B) s)"

definition restoreConnectionsFromPersistency :: "'p reader \<Rightarrow> 'w connection_maker \<Rightarrow> gc_Route_s \<Rightarrow> (string \<Rightarrow> string \<Rightarrow> 'w \<Rightarrow> class_element option)
    \<Rightarrow> 'p \<Rightarrow> 'w \<Rightarrow> (am_Error_e \<times> 'w) option" where
  "restoreConnectionsFromPersistency rd K blank findClass p w =
     (case read_text rd ''lastMainConnection'' p of (r, s) \<Rightarrow>
        if r \<noteq> E_OK \<or> s = [] then Some (E_DATABASE_ERROR, w)
        else (case connections_of_text s of
            None \<Rightarrow> Some (E_NOT_POSSIBLE, w)
          | Some nms \<Rightarrow> map_option (Pair E_OK) (create_connections K blank findClass nms w)))"

end
