(* ===== verification/Policy_Send.thy ===== *)
theory Policy_Send
  imports Policy_Functions Trigger_Queue
begin

text \<open>
  \<open>CAmPolicySend\<close>, the way from the controller to the policy engine, and
  \<open>CAmControllerPlugin::_forwardTriggertoPolicyEngine\<close>, which takes a trigger out of its queue entry.
  \<open>proc\<close> is \<open>CAmPolicyEngine::processTrigger\<close> on a state of the caller's. The code casts the data of a
  trigger to the structure that belongs to its type; data of another structure is read as garbage, the
  model then gives \<open>None\<close>.
\<close>

section \<open>The hooks of the policy sender\<close>

type_synonym 'w processor = "gc_triggerParams_s \<Rightarrow> 'w \<Rightarrow> am_Error_e \<times> 'w"

text \<open>A registration that failed in the daemon is not forwarded.\<close>

definition if_registered :: "'w processor \<Rightarrow> am_Error_e \<Rightarrow> 'w processor" where
  "if_registered proc status p w = (if E_OK \<noteq> status then (E_OK, w) else proc p w)"

definition hookRegisterDomain :: "'w processor \<Rightarrow> string \<Rightarrow> am_Error_e \<Rightarrow> 'w \<Rightarrow> am_Error_e \<times> 'w" where
  "hookRegisterDomain proc nm status = if_registered proc status (tp_init\<lparr>tp_triggerType := SYSTEM_REGISTER_DOMAIN, tp_domainName := nm\<rparr>)"

definition hookRegisterSource :: "'w processor \<Rightarrow> string \<Rightarrow> am_Error_e \<Rightarrow> 'w \<Rightarrow> am_Error_e \<times> 'w" where
  "hookRegisterSource proc nm status = if_registered proc status (tp_init\<lparr>tp_triggerType := SYSTEM_REGISTER_SOURCE, tp_sourceName := nm\<rparr>)"

definition hookRegisterSink :: "'w processor \<Rightarrow> string \<Rightarrow> am_Error_e \<Rightarrow> 'w \<Rightarrow> am_Error_e \<times> 'w" where
  "hookRegisterSink proc nm status = if_registered proc status (tp_init\<lparr>tp_triggerType := SYSTEM_REGISTER_SINK, tp_sinkName := nm\<rparr>)"

definition hookRegisterGateway :: "'w processor \<Rightarrow> string \<Rightarrow> am_Error_e \<Rightarrow> 'w \<Rightarrow> am_Error_e \<times> 'w" where
  "hookRegisterGateway proc nm status = if_registered proc status (tp_init\<lparr>tp_triggerType := SYSTEM_REGISTER_GATEWAY, tp_gatewayName := nm\<rparr>)"

definition hookDeregisterDomain :: "'w processor \<Rightarrow> string \<Rightarrow> am_Error_e \<Rightarrow> 'w \<Rightarrow> am_Error_e \<times> 'w" where
  "hookDeregisterDomain proc nm status = if_registered proc status (tp_init\<lparr>tp_triggerType := SYSTEM_DEREGISTER_DOMAIN, tp_domainName := nm\<rparr>)"

definition hookDeregisterSource :: "'w processor \<Rightarrow> string \<Rightarrow> am_Error_e \<Rightarrow> 'w \<Rightarrow> am_Error_e \<times> 'w" where
  "hookDeregisterSource proc nm status = if_registered proc status (tp_init\<lparr>tp_triggerType := SYSTEM_DEREGISTER_SOURCE, tp_sourceName := nm\<rparr>)"

definition hookDeregisterSink :: "'w processor \<Rightarrow> string \<Rightarrow> am_Error_e \<Rightarrow> 'w \<Rightarrow> am_Error_e \<times> 'w" where
  "hookDeregisterSink proc nm status = if_registered proc status (tp_init\<lparr>tp_triggerType := SYSTEM_DEREGISTER_SINK, tp_sinkName := nm\<rparr>)"

definition hookDeregisterGateway :: "'w processor \<Rightarrow> string \<Rightarrow> am_Error_e \<Rightarrow> 'w \<Rightarrow> am_Error_e \<times> 'w" where
  "hookDeregisterGateway proc nm status = if_registered proc status (tp_init\<lparr>tp_triggerType := SYSTEM_DEREGISTER_GATEWAY, tp_gatewayName := nm\<rparr>)"

definition hookDomainRegistrationComplete :: "'w processor \<Rightarrow> string \<Rightarrow> 'w \<Rightarrow> am_Error_e \<times> 'w" where
  "hookDomainRegistrationComplete proc nm = proc (tp_init\<lparr>tp_triggerType := SYSTEM_DOMAIN_REGISTRATION_COMPLETE, tp_domainName := nm\<rparr>)"

definition hookAllDomainRegistrationComplete :: "'w processor \<Rightarrow> am_Error_e \<Rightarrow> 'w \<Rightarrow> am_Error_e \<times> 'w" where
  "hookAllDomainRegistrationComplete proc err = proc (tp_init\<lparr>tp_triggerType := SYSTEM_ALL_DOMAIN_REGISTRATION_COMPLETE, tp_status := err\<rparr>)"

definition hookConnectionRequest :: "'w processor \<Rightarrow> string \<Rightarrow> string \<Rightarrow> string \<Rightarrow> 'w \<Rightarrow> am_Error_e \<times> 'w" where
  "hookConnectionRequest proc cls src sink = proc (tp_init\<lparr>tp_triggerType := USER_CONNECTION_REQUEST, tp_sinkName := sink, tp_sourceName := src, tp_className := cls\<rparr>)"

definition hookDisconnectionRequest :: "'w processor \<Rightarrow> string \<Rightarrow> string \<Rightarrow> string \<Rightarrow> 'w \<Rightarrow> am_Error_e \<times> 'w" where
  "hookDisconnectionRequest proc cls src sink = proc (tp_init\<lparr>tp_triggerType := USER_DISCONNECTION_REQUEST, tp_sinkName := sink, tp_sourceName := src, tp_className := cls\<rparr>)"

definition hookSourceAvailabilityChange :: "'w processor \<Rightarrow> string \<Rightarrow> am_Availability_s \<Rightarrow> 'w \<Rightarrow> am_Error_e \<times> 'w" where
  "hookSourceAvailabilityChange proc nm a = proc (tp_init\<lparr>tp_triggerType := SYSTEM_SOURCE_AVAILABILITY_CHANGED, tp_sourceName := nm, tp_availability := a\<rparr>)"

definition hookSinkAvailabilityChange :: "'w processor \<Rightarrow> string \<Rightarrow> am_Availability_s \<Rightarrow> 'w \<Rightarrow> am_Error_e \<times> 'w" where
  "hookSinkAvailabilityChange proc nm a = proc (tp_init\<lparr>tp_triggerType := SYSTEM_SINK_AVAILABILITY_CHANGED, tp_sinkName := nm, tp_availability := a\<rparr>)"

definition hookSourceInterruptStateChange :: "'w processor \<Rightarrow> string \<Rightarrow> am_InterruptState_e \<Rightarrow> 'w \<Rightarrow> am_Error_e \<times> 'w" where
  "hookSourceInterruptStateChange proc nm st = proc (tp_init\<lparr>tp_triggerType := SYSTEM_INTERRUPT_STATE_CHANGED, tp_sourceName := nm, tp_interruptState := st\<rparr>)"

definition hookSetMainSourceSoundProperty :: "'w processor \<Rightarrow> string \<Rightarrow> am_MainSoundProperty_s \<Rightarrow> 'w \<Rightarrow> am_Error_e \<times> 'w" where
  "hookSetMainSourceSoundProperty proc nm p = proc (tp_init\<lparr>tp_triggerType := USER_SET_SOURCE_MAIN_SOUND_PROPERTY, tp_sourceName := nm, tp_mainSoundProperty := p\<rparr>)"

definition hookSetMainSourceSoundProperties :: "'w processor \<Rightarrow> string \<Rightarrow> am_MainSoundProperty_s list \<Rightarrow> 'w \<Rightarrow> am_Error_e \<times> 'w" where
  "hookSetMainSourceSoundProperties proc nm ps = proc (tp_init\<lparr>tp_triggerType := USER_SET_SOURCE_MAIN_SOUND_PROPERTIES, tp_sourceName := nm, tp_listMainSoundProperty := ps\<rparr>)"

definition hookSetMainSinkSoundProperty :: "'w processor \<Rightarrow> string \<Rightarrow> am_MainSoundProperty_s \<Rightarrow> 'w \<Rightarrow> am_Error_e \<times> 'w" where
  "hookSetMainSinkSoundProperty proc nm p = proc (tp_init\<lparr>tp_triggerType := USER_SET_SINK_MAIN_SOUND_PROPERTY, tp_sinkName := nm, tp_mainSoundProperty := p\<rparr>)"

definition hookSetMainSinkSoundProperties :: "'w processor \<Rightarrow> string \<Rightarrow> am_MainSoundProperty_s list \<Rightarrow> 'w \<Rightarrow> am_Error_e \<times> 'w" where
  "hookSetMainSinkSoundProperties proc nm ps = proc (tp_init\<lparr>tp_triggerType := USER_SET_SINK_MAIN_SOUND_PROPERTIES, tp_sinkName := nm, tp_listMainSoundProperty := ps\<rparr>)"

definition hookSetSystemProperties :: "'w processor \<Rightarrow> am_SystemProperty_s list \<Rightarrow> 'w \<Rightarrow> am_Error_e \<times> 'w" where
  "hookSetSystemProperties proc ps = proc (tp_init\<lparr>tp_triggerType := USER_SET_SYSTEM_PROPERTIES, tp_listSystemProperties := ps\<rparr>)"

definition hookSetSystemProperty :: "'w processor \<Rightarrow> am_SystemProperty_s \<Rightarrow> 'w \<Rightarrow> am_Error_e \<times> 'w" where
  "hookSetSystemProperty proc p = proc (tp_init\<lparr>tp_triggerType := USER_SET_SYSTEM_PROPERTY, tp_systemProperty := p\<rparr>)"

definition hookVolumeChange :: "'w processor \<Rightarrow> string \<Rightarrow> am_mainVolume_t \<Rightarrow> bool \<Rightarrow> 'w \<Rightarrow> am_Error_e \<times> 'w" where
  "hookVolumeChange proc nm v isStep = proc (tp_init\<lparr>tp_triggerType := USER_SET_VOLUME, tp_sinkName := nm, tp_mainVolume := v, tp_isVolumeStep := isStep\<rparr>)"

definition hookSetSinkMuteState :: "'w processor \<Rightarrow> string \<Rightarrow> am_MuteState_e \<Rightarrow> 'w \<Rightarrow> am_Error_e \<times> 'w" where
  "hookSetSinkMuteState proc nm ms = proc (tp_init\<lparr>tp_triggerType := USER_SET_SINK_MUTE_STATE, tp_sinkName := nm, tp_muteState := ms\<rparr>)"

definition hookSetMainSinkNotificationConfiguration :: "'w processor \<Rightarrow> string \<Rightarrow> am_NotificationConfiguration_s \<Rightarrow> 'w \<Rightarrow> am_Error_e \<times> 'w" where
  "hookSetMainSinkNotificationConfiguration proc nm c = proc (tp_init\<lparr>tp_triggerType := USER_SET_SINK_MAIN_NOTIFICATION_CONFIGURATION, tp_sinkName := nm, tp_notificatonConfiguration := c\<rparr>)"

definition hookConnectionStateChange :: "'w processor \<Rightarrow> string \<Rightarrow> am_ConnectionState_e \<Rightarrow> am_Error_e \<Rightarrow> 'w \<Rightarrow> am_Error_e \<times> 'w" where
  "hookConnectionStateChange proc nm st err = proc (tp_init\<lparr>tp_triggerType := SYSTEM_CONNECTION_STATE_CHANGE, tp_connectionName := nm, tp_connectionState := st, tp_status := err\<rparr>)"

definition hookStoredMainConnectionVolume :: "'w processor \<Rightarrow> string \<Rightarrow> am_mainVolume_t \<Rightarrow> 'w \<Rightarrow> am_Error_e \<times> 'w" where
  "hookStoredMainConnectionVolume proc nm v = proc (tp_init\<lparr>tp_triggerType := SYSTEM_STORED_SINK_VOLUME, tp_connectionName := nm, tp_mainVolume := v\<rparr>)"

definition hookSetMainSourceNotificationConfiguration :: "'w processor \<Rightarrow> string \<Rightarrow> am_NotificationConfiguration_s \<Rightarrow> 'w \<Rightarrow> am_Error_e \<times> 'w" where
  "hookSetMainSourceNotificationConfiguration proc nm c = proc (tp_init\<lparr>tp_triggerType := USER_SET_SOURCE_MAIN_NOTIFICATION_CONFIGURATION, tp_sourceName := nm, tp_notificatonConfiguration := c\<rparr>)"

definition hookSinkNotificationDataChanged :: "'w processor \<Rightarrow> string \<Rightarrow> am_NotificationPayload_s \<Rightarrow> 'w \<Rightarrow> am_Error_e \<times> 'w" where
  "hookSinkNotificationDataChanged proc nm p = proc (tp_init\<lparr>tp_triggerType := SYSTEM_SINK_NOTIFICATION_DATA_CHANGED, tp_sinkName := nm, tp_notificatonPayload := p\<rparr>)"

definition hookSourceNotificationDataChanged :: "'w processor \<Rightarrow> string \<Rightarrow> am_NotificationPayload_s \<Rightarrow> 'w \<Rightarrow> am_Error_e \<times> 'w" where
  "hookSourceNotificationDataChanged proc nm p = proc (tp_init\<lparr>tp_triggerType := SYSTEM_SOURCE_NOTIFICATION_DATA_CHANGED, tp_sourceName := nm, tp_notificatonPayload := p\<rparr>)"

lemmas policy_send_defs = if_registered_def hookRegisterDomain_def hookRegisterSource_def hookRegisterSink_def hookRegisterGateway_def
  hookDeregisterDomain_def hookDeregisterSource_def hookDeregisterSink_def hookDeregisterGateway_def
  hookDomainRegistrationComplete_def hookAllDomainRegistrationComplete_def hookConnectionRequest_def hookDisconnectionRequest_def
  hookSourceAvailabilityChange_def hookSinkAvailabilityChange_def hookSourceInterruptStateChange_def hookSetMainSourceSoundProperty_def
  hookSetMainSourceSoundProperties_def hookSetMainSinkSoundProperty_def hookSetMainSinkSoundProperties_def hookSetSystemProperties_def
  hookSetSystemProperty_def hookVolumeChange_def hookSetSinkMuteState_def hookSetMainSinkNotificationConfiguration_def
  hookConnectionStateChange_def hookStoredMainConnectionVolume_def hookSetMainSourceNotificationConfiguration_def hookSinkNotificationDataChanged_def
  hookSourceNotificationDataChanged_def

section \<open>From the queue to the policy\<close>

text \<open>
  The dispatch by the type of the trigger. Types without a case of their own are dropped with success;
  without a policy sender (before the start and after the rundown) nothing is forwarded.
\<close>

definition forwardTriggertoPolicyEngine :: "bool \<Rightarrow> 'w processor \<Rightarrow> gc_Trigger_e \<Rightarrow> gc_TriggerElement_s \<Rightarrow> 'w \<Rightarrow> (am_Error_e \<times> 'w) option" where
  "forwardTriggertoPolicyEngine sender proc t d w =
     (if \<not> sender then Some (E_UNKNOWN, w) else
      case t of
        SYSTEM_REGISTER_SINK \<Rightarrow> (case d of RegisterElementTrigger nm st \<Rightarrow> Some (hookRegisterSink proc nm st w) | _ \<Rightarrow> None)
      | SYSTEM_REGISTER_SOURCE \<Rightarrow> (case d of RegisterElementTrigger nm st \<Rightarrow> Some (hookRegisterSource proc nm st w) | _ \<Rightarrow> None)
      | SYSTEM_SINK_AVAILABILITY_CHANGED \<Rightarrow> (case d of AvailabilityChangeTrigger nm a \<Rightarrow> Some (hookSinkAvailabilityChange proc nm a w) | _ \<Rightarrow> None)
      | SYSTEM_SOURCE_AVAILABILITY_CHANGED \<Rightarrow> (case d of AvailabilityChangeTrigger nm a \<Rightarrow> Some (hookSourceAvailabilityChange proc nm a w) | _ \<Rightarrow> None)
      | SYSTEM_DEREGISTER_SINK \<Rightarrow> (case d of UnRegisterElementTrigger nm st \<Rightarrow> Some (hookDeregisterSink proc nm st w) | _ \<Rightarrow> None)
      | SYSTEM_DEREGISTER_SOURCE \<Rightarrow> (case d of UnRegisterElementTrigger nm st \<Rightarrow> Some (hookDeregisterSource proc nm st w) | _ \<Rightarrow> None)
      | USER_CONNECTION_REQUEST \<Rightarrow> (case d of ConnectTrigger src sink cls \<Rightarrow> Some (hookConnectionRequest proc cls src sink w) | _ \<Rightarrow> None)
      | USER_DISCONNECTION_REQUEST \<Rightarrow> (case d of DisconnectTrigger src sink cls \<Rightarrow> Some (hookDisconnectionRequest proc cls src sink w) | _ \<Rightarrow> None)
      | USER_SET_SINK_MUTE_STATE \<Rightarrow> (case d of SinkMuteTrigger nm ms \<Rightarrow> Some (hookSetSinkMuteState proc nm ms w) | _ \<Rightarrow> None)
      | USER_SET_VOLUME \<Rightarrow> (case d of SinkVolumeChangeTrigger nm v isStep \<Rightarrow> Some (hookVolumeChange proc nm v isStep w) | _ \<Rightarrow> None)
      | USER_SET_SINK_MAIN_SOUND_PROPERTY \<Rightarrow> (case d of SinkSoundPropertyTrigger nm p \<Rightarrow> Some (hookSetMainSinkSoundProperty proc nm p w) | _ \<Rightarrow> None)
      | USER_SET_SINK_MAIN_SOUND_PROPERTIES \<Rightarrow> (case d of SinkSoundPropertiesTrigger nm ps \<Rightarrow> Some (hookSetMainSinkSoundProperties proc nm ps w) | _ \<Rightarrow> None)
      | USER_SET_SOURCE_MAIN_SOUND_PROPERTY \<Rightarrow> (case d of SourceSoundPropertyTrigger nm p \<Rightarrow> Some (hookSetMainSourceSoundProperty proc nm p w) | _ \<Rightarrow> None)
      | USER_SET_SOURCE_MAIN_SOUND_PROPERTIES \<Rightarrow> (case d of SourceSoundPropertiesTrigger nm ps \<Rightarrow> Some (hookSetMainSourceSoundProperties proc nm ps w) | _ \<Rightarrow> None)
      | SYSTEM_INTERRUPT_STATE_CHANGED \<Rightarrow> (case d of SourceInterruptChangeTrigger nm st \<Rightarrow> Some (hookSourceInterruptStateChange proc nm st w) | _ \<Rightarrow> None)
      | SYSTEM_REGISTER_DOMAIN \<Rightarrow> (case d of RegisterElementTrigger nm st \<Rightarrow> Some (hookRegisterDomain proc nm st w) | _ \<Rightarrow> None)
      | SYSTEM_DEREGISTER_DOMAIN \<Rightarrow> (case d of UnRegisterElementTrigger nm st \<Rightarrow> Some (hookDeregisterDomain proc nm st w) | _ \<Rightarrow> None)
      | SYSTEM_REGISTER_GATEWAY \<Rightarrow> (case d of RegisterElementTrigger nm st \<Rightarrow> Some (hookRegisterGateway proc nm st w) | _ \<Rightarrow> None)
      | SYSTEM_DEREGISTER_GATEWAY \<Rightarrow> (case d of UnRegisterElementTrigger nm st \<Rightarrow> Some (hookDeregisterGateway proc nm st w) | _ \<Rightarrow> None)
      | SYSTEM_DOMAIN_REGISTRATION_COMPLETE \<Rightarrow> (case d of DomainRegisterationCompleteTrigger nm \<Rightarrow> Some (hookDomainRegistrationComplete proc nm w) | _ \<Rightarrow> None)
      | SYSTEM_ALL_DOMAIN_REGISTRATION_COMPLETE \<Rightarrow> (case d of AllDomainRegisterationCompleteTrigger st \<Rightarrow> Some (hookAllDomainRegistrationComplete proc st w) | _ \<Rightarrow> None)
      | USER_SET_SYSTEM_PROPERTY \<Rightarrow> (case d of SystemPropertyTrigger p \<Rightarrow> Some (hookSetSystemProperty proc p w) | _ \<Rightarrow> None)
      | USER_SET_SYSTEM_PROPERTIES \<Rightarrow> (case d of SystemPropertiesTrigger ps \<Rightarrow> Some (hookSetSystemProperties proc ps w) | _ \<Rightarrow> None)
      | SYSTEM_CONNECTION_STATE_CHANGE \<Rightarrow> (case d of ConnectionStateChangeTrigger nm cs st \<Rightarrow> Some (hookConnectionStateChange proc nm cs st w) | _ \<Rightarrow> None)
      | USER_SET_SINK_MAIN_NOTIFICATION_CONFIGURATION \<Rightarrow> (case d of NotificationConfigurationTrigger nm c \<Rightarrow> Some (hookSetMainSinkNotificationConfiguration proc nm c w) | _ \<Rightarrow> None)
      | USER_SET_SOURCE_MAIN_NOTIFICATION_CONFIGURATION \<Rightarrow> (case d of NotificationConfigurationTrigger nm c \<Rightarrow> Some (hookSetMainSourceNotificationConfiguration proc nm c w) | _ \<Rightarrow> None)
      | SYSTEM_SINK_NOTIFICATION_DATA_CHANGED \<Rightarrow> (case d of NotificationDataTrigger nm p \<Rightarrow> Some (hookSinkNotificationDataChanged proc nm p w) | _ \<Rightarrow> None)
      | SYSTEM_SOURCE_NOTIFICATION_DATA_CHANGED \<Rightarrow> (case d of NotificationDataTrigger nm p \<Rightarrow> Some (hookSourceNotificationDataChanged proc nm p w) | _ \<Rightarrow> None)
      | _ \<Rightarrow> Some (E_OK, w))"

text \<open>The types of data that belong to a type of trigger: what the casts of the dispatch expect.\<close>

definition data_matches :: "gc_Trigger_e \<Rightarrow> gc_TriggerElement_s \<Rightarrow> bool" where
  "data_matches t d =
     (case d of
        RegisterElementTrigger _ _ \<Rightarrow> t \<in> {SYSTEM_REGISTER_SINK, SYSTEM_REGISTER_SOURCE, SYSTEM_REGISTER_DOMAIN, SYSTEM_REGISTER_GATEWAY,
          SYSTEM_REGISTER_EARLY_CONNECTION}
      | AvailabilityChangeTrigger _ _ \<Rightarrow> t \<in> {SYSTEM_SINK_AVAILABILITY_CHANGED, SYSTEM_SOURCE_AVAILABILITY_CHANGED}
      | UnRegisterElementTrigger _ _ \<Rightarrow> t \<in> {SYSTEM_DEREGISTER_SINK, SYSTEM_DEREGISTER_SOURCE, SYSTEM_DEREGISTER_DOMAIN, SYSTEM_DEREGISTER_GATEWAY}
      | ConnectTrigger _ _ _ \<Rightarrow> t \<in> {USER_CONNECTION_REQUEST}
      | DisconnectTrigger _ _ _ \<Rightarrow> t \<in> {USER_DISCONNECTION_REQUEST}
      | SinkMuteTrigger _ _ \<Rightarrow> t \<in> {USER_SET_SINK_MUTE_STATE}
      | SinkVolumeChangeTrigger _ _ _ \<Rightarrow> t \<in> {USER_SET_VOLUME}
      | SinkSoundPropertyTrigger _ _ \<Rightarrow> t \<in> {USER_SET_SINK_MAIN_SOUND_PROPERTY}
      | SinkSoundPropertiesTrigger _ _ \<Rightarrow> t \<in> {USER_SET_SINK_MAIN_SOUND_PROPERTIES}
      | SourceSoundPropertyTrigger _ _ \<Rightarrow> t \<in> {USER_SET_SOURCE_MAIN_SOUND_PROPERTY}
      | SourceSoundPropertiesTrigger _ _ \<Rightarrow> t \<in> {USER_SET_SOURCE_MAIN_SOUND_PROPERTIES}
      | SourceInterruptChangeTrigger _ _ \<Rightarrow> t \<in> {SYSTEM_INTERRUPT_STATE_CHANGED}
      | DomainRegisterationCompleteTrigger _ \<Rightarrow> t \<in> {SYSTEM_DOMAIN_REGISTRATION_COMPLETE}
      | AllDomainRegisterationCompleteTrigger _ \<Rightarrow> t \<in> {SYSTEM_ALL_DOMAIN_REGISTRATION_COMPLETE}
      | SystemPropertyTrigger _ \<Rightarrow> t \<in> {USER_SET_SYSTEM_PROPERTY}
      | SystemPropertiesTrigger _ \<Rightarrow> t \<in> {USER_SET_SYSTEM_PROPERTIES}
      | ConnectionStateChangeTrigger _ _ _ \<Rightarrow> t \<in> {SYSTEM_CONNECTION_STATE_CHANGE}
      | NotificationConfigurationTrigger _ _ \<Rightarrow> t \<in> {USER_SET_SINK_MAIN_NOTIFICATION_CONFIGURATION, USER_SET_SOURCE_MAIN_NOTIFICATION_CONFIGURATION}
      | NotificationDataTrigger _ _ \<Rightarrow> t \<in> {SYSTEM_SINK_NOTIFICATION_DATA_CHANGED, SYSTEM_SOURCE_NOTIFICATION_DATA_CHANGED})"

text \<open>What the policy engine can read back of a trigger from its parameters.\<close>

definition trigger_of_params :: "gc_triggerParams_s \<Rightarrow> gc_TriggerElement_s option" where
  "trigger_of_params p =
     (case tp_triggerType p of
        SYSTEM_REGISTER_SINK \<Rightarrow> Some (RegisterElementTrigger (tp_sinkName p) (tp_status p))
      | SYSTEM_REGISTER_SOURCE \<Rightarrow> Some (RegisterElementTrigger (tp_sourceName p) (tp_status p))
      | SYSTEM_SINK_AVAILABILITY_CHANGED \<Rightarrow> Some (AvailabilityChangeTrigger (tp_sinkName p) (tp_availability p))
      | SYSTEM_SOURCE_AVAILABILITY_CHANGED \<Rightarrow> Some (AvailabilityChangeTrigger (tp_sourceName p) (tp_availability p))
      | SYSTEM_DEREGISTER_SINK \<Rightarrow> Some (UnRegisterElementTrigger (tp_sinkName p) (tp_status p))
      | SYSTEM_DEREGISTER_SOURCE \<Rightarrow> Some (UnRegisterElementTrigger (tp_sourceName p) (tp_status p))
      | USER_CONNECTION_REQUEST \<Rightarrow> Some (ConnectTrigger (tp_sourceName p) (tp_sinkName p) (tp_className p))
      | USER_DISCONNECTION_REQUEST \<Rightarrow> Some (DisconnectTrigger (tp_sourceName p) (tp_sinkName p) (tp_className p))
      | USER_SET_SINK_MUTE_STATE \<Rightarrow> Some (SinkMuteTrigger (tp_sinkName p) (tp_muteState p))
      | USER_SET_VOLUME \<Rightarrow> Some (SinkVolumeChangeTrigger (tp_sinkName p) (tp_mainVolume p) (tp_isVolumeStep p))
      | USER_SET_SINK_MAIN_SOUND_PROPERTY \<Rightarrow> Some (SinkSoundPropertyTrigger (tp_sinkName p) (tp_mainSoundProperty p))
      | USER_SET_SINK_MAIN_SOUND_PROPERTIES \<Rightarrow> Some (SinkSoundPropertiesTrigger (tp_sinkName p) (tp_listMainSoundProperty p))
      | USER_SET_SOURCE_MAIN_SOUND_PROPERTY \<Rightarrow> Some (SourceSoundPropertyTrigger (tp_sourceName p) (tp_mainSoundProperty p))
      | USER_SET_SOURCE_MAIN_SOUND_PROPERTIES \<Rightarrow> Some (SourceSoundPropertiesTrigger (tp_sourceName p) (tp_listMainSoundProperty p))
      | SYSTEM_INTERRUPT_STATE_CHANGED \<Rightarrow> Some (SourceInterruptChangeTrigger (tp_sourceName p) (tp_interruptState p))
      | SYSTEM_REGISTER_DOMAIN \<Rightarrow> Some (RegisterElementTrigger (tp_domainName p) (tp_status p))
      | SYSTEM_DEREGISTER_DOMAIN \<Rightarrow> Some (UnRegisterElementTrigger (tp_domainName p) (tp_status p))
      | SYSTEM_REGISTER_GATEWAY \<Rightarrow> Some (RegisterElementTrigger (tp_gatewayName p) (tp_status p))
      | SYSTEM_DEREGISTER_GATEWAY \<Rightarrow> Some (UnRegisterElementTrigger (tp_gatewayName p) (tp_status p))
      | SYSTEM_DOMAIN_REGISTRATION_COMPLETE \<Rightarrow> Some (DomainRegisterationCompleteTrigger (tp_domainName p))
      | SYSTEM_ALL_DOMAIN_REGISTRATION_COMPLETE \<Rightarrow> Some (AllDomainRegisterationCompleteTrigger (tp_status p))
      | USER_SET_SYSTEM_PROPERTY \<Rightarrow> Some (SystemPropertyTrigger (tp_systemProperty p))
      | USER_SET_SYSTEM_PROPERTIES \<Rightarrow> Some (SystemPropertiesTrigger (tp_listSystemProperties p))
      | SYSTEM_CONNECTION_STATE_CHANGE \<Rightarrow> Some (ConnectionStateChangeTrigger (tp_connectionName p) (tp_connectionState p) (tp_status p))
      | USER_SET_SINK_MAIN_NOTIFICATION_CONFIGURATION \<Rightarrow> Some (NotificationConfigurationTrigger (tp_sinkName p) (tp_notificatonConfiguration p))
      | USER_SET_SOURCE_MAIN_NOTIFICATION_CONFIGURATION \<Rightarrow> Some (NotificationConfigurationTrigger (tp_sourceName p) (tp_notificatonConfiguration p))
      | SYSTEM_SINK_NOTIFICATION_DATA_CHANGED \<Rightarrow> Some (NotificationDataTrigger (tp_sinkName p) (tp_notificatonPayload p))
      | SYSTEM_SOURCE_NOTIFICATION_DATA_CHANGED \<Rightarrow> Some (NotificationDataTrigger (tp_sourceName p) (tp_notificatonPayload p))
      | _ \<Rightarrow> None)"

definition registration_failed :: "gc_TriggerElement_s \<Rightarrow> bool" where
  "registration_failed d = (case d of RegisterElementTrigger _ st \<Rightarrow> st \<noteq> E_OK | UnRegisterElementTrigger _ st \<Rightarrow> st \<noteq> E_OK | _ \<Rightarrow> False)"

lemmas forward_defs = forwardTriggertoPolicyEngine_def policy_send_defs trigger_of_params_def tp_init_def registration_failed_def

lemma forward_register:
  assumes "data_matches t (RegisterElementTrigger nm st)"
  shows "\<exists>p. forwardTriggertoPolicyEngine True proc t (RegisterElementTrigger nm st) w
      = Some (if t = SYSTEM_REGISTER_EARLY_CONNECTION \<or> st \<noteq> E_OK then (E_OK, w) else proc p w)
    \<and> (t \<noteq> SYSTEM_REGISTER_EARLY_CONNECTION \<and> st = E_OK \<longrightarrow> tp_triggerType p = t \<and> trigger_of_params p = Some (RegisterElementTrigger nm st))"
  using assms unfolding data_matches_def by (auto simp: forward_defs)



end
