(* ===== verification/Controller_State.thy ===== *)
theory Controller_State
  imports Controller_Persistence Policy_Send Root_Loop Handle_Store
begin

text \<open>
  What the hooks of \<open>CAmControllerPlugin\<close> work on: the domain and gateway elements, the data the routing
  side registers, and the state of the plugin. \<open>hook_env\<close> is what the hooks use: the factories, whose elements are models of their own, and the interface of
  the daemon. Both live on the world \<open>'w\<close>; the trigger queue stands beside it. Allocation does not fail.
\<close>

section \<open>Domain and gateway elements\<close>

datatype am_DomainState_e = DS_UNKNOWN | DS_CONTROLLED | DS_INDEPENDENT_STARTUP | DS_INDEPENDENT_RUNDOWN

record am_Domain_s =
  dm_domainID :: am_ID_t
  dm_name :: string
  dm_busname :: string
  dm_nodename :: string
  dm_early :: bool
  dm_complete :: bool
  dm_state :: am_DomainState_e

record gc_Domain_info = am_Domain_s +   \<comment> \<open>\<open>gc_Domain_s\<close>\<close>
  dm_registrationType :: gc_Registration_e

record domain_element =
  de_mID :: am_ID_t
  de_mDomain :: gc_Domain_info

definition domain_new :: "gc_Domain_info \<Rightarrow> domain_element" where
  "domain_new d = \<lparr>de_mID = 0, de_mDomain = d\<rparr>"

text \<open>\<open>enterDomainDB\<close> of the daemon may assign another identifier than the one proposed.\<close>

definition domain_register :: "(gc_Domain_info \<Rightarrow> 'db \<Rightarrow> am_Error_e \<times> am_ID_t \<times> 'db) \<Rightarrow> domain_element \<Rightarrow> 'db \<Rightarrow> am_Error_e \<times> domain_element \<times> 'db" where
  "domain_register enterDB e db =
     (case enterDB (de_mDomain e) db of (r, i, db') \<Rightarrow>
        if r = E_OK then (E_OK, e\<lparr>de_mID := i\<rparr>, db') else (E_DATABASE_ERROR, e, db'))"

definition domain_unregister :: "(am_ID_t \<Rightarrow> 'db \<Rightarrow> am_Error_e \<times> 'db) \<Rightarrow> domain_element \<Rightarrow> 'db \<Rightarrow> am_Error_e \<times> domain_element \<times> 'db" where
  "domain_unregister removeDB e db =
     (case removeDB (de_mID e) db of (r, db') \<Rightarrow> (E_OK, if r = E_OK then e\<lparr>de_mID := 0\<rparr> else e, db'))"

definition domain_getDomainInfo :: "('db \<Rightarrow> am_Error_e \<times> am_Domain_s list) \<Rightarrow> domain_element \<Rightarrow> 'db \<Rightarrow> am_Error_e \<times> am_Domain_s option" where
  "domain_getDomainInfo listDomains e db =
     (case listDomains db of (r, ds) \<Rightarrow>
        if r \<noteq> E_OK then (r, None)
        else (case find (\<lambda>d. dm_domainID d = de_mID e) ds of Some d \<Rightarrow> (E_OK, Some d) | None \<Rightarrow> (E_UNKNOWN, None)))"

definition domain_getState :: "('db \<Rightarrow> am_Error_e \<times> am_Domain_s list) \<Rightarrow> domain_element \<Rightarrow> 'db \<Rightarrow> am_Error_e \<times> am_DomainState_e option" where
  "domain_getState listDomains e db = (case domain_getDomainInfo listDomains e db of (r, d) \<Rightarrow> (r, map_option dm_state d))"

record am_Gateway_s =
  gt_gatewayID :: am_ID_t
  gt_name :: string
  gt_sinkID :: am_ID_t
  gt_sourceID :: am_ID_t
  gt_domainSinkID :: am_ID_t
  gt_domainSourceID :: am_ID_t
  gt_controlDomainID :: am_ID_t
  gt_listSourceFormats :: "16 word list"
  gt_listSinkFormats :: "16 word list"
  gt_convertionMatrix :: "bool list"

definition gateway_register :: "(am_Gateway_s \<Rightarrow> 'db \<Rightarrow> am_Error_e \<times> am_ID_t \<times> 'db) \<Rightarrow> am_ID_t \<times> am_Gateway_s \<Rightarrow> 'db
    \<Rightarrow> am_Error_e \<times> (am_ID_t \<times> am_Gateway_s) \<times> 'db" where
  "gateway_register enterDB e db =
     (case enterDB (snd e) db of (r, i, db') \<Rightarrow>
        if r = E_OK then (E_OK, (i, snd e), db') else (E_DATABASE_ERROR, e, db'))"

definition gateway_unregister :: "(am_ID_t \<Rightarrow> 'db \<Rightarrow> am_Error_e \<times> 'db) \<Rightarrow> am_ID_t \<times> am_Gateway_s \<Rightarrow> 'db
    \<Rightarrow> am_Error_e \<times> (am_ID_t \<times> am_Gateway_s) \<times> 'db" where
  "gateway_unregister removeDB e db =
     (case removeDB (fst e) db of (r, db') \<Rightarrow> if r = E_OK then (E_OK, (0, snd e), db') else (E_DATABASE_ERROR, e, db'))"

section \<open>Registration data of sinks and sources\<close>

record am_NodePoint =
  ap_ID :: am_ID_t
  ap_name :: string
  ap_domainID :: am_ID_t
  ap_classID :: am_ID_t
  ap_volume :: am_volume_t
  ap_visible :: bool
  ap_available :: am_Availability_s
  ap_listSoundProperties :: "am_SoundProperty_s list"
  ap_listConnectionFormats :: "16 word list"
  ap_listMainSoundProperties :: "am_MainSoundProperty_s list"
  ap_listMainNotificationConfigurations :: "am_NotificationConfiguration_s list"
  ap_listNotificationConfigurations :: "am_NotificationConfiguration_s list"
  ap_muteState :: am_MuteState_e            \<comment> \<open>of a sink\<close>
  ap_mainVolume :: am_mainVolume_t          \<comment> \<open>of a sink\<close>
  ap_sourceState :: am_SourceState_e        \<comment> \<open>of a source\<close>
  ap_interruptState :: am_InterruptState_e  \<comment> \<open>of a source\<close>

record gc_Point_info =   \<comment> \<open>\<open>gc_Sink_s\<close> and \<open>gc_Source_s\<close>: the data of the daemon and the configuration\<close>
  gi_point :: am_NodePoint
  gi_node :: gc_NodePoint_s

definition point_default :: gc_Point_info where
  "point_default = \<lparr>gi_point = \<lparr>ap_ID = 0, ap_name = [], ap_domainID = 0, ap_classID = 0, ap_volume = 0, ap_visible = False,
       ap_available = \<lparr>availability = A_UNKNOWN, availabilityReason = 0\<rparr>, ap_listSoundProperties = [], ap_listConnectionFormats = [],
       ap_listMainSoundProperties = [], ap_listMainNotificationConfigurations = [], ap_listNotificationConfigurations = [],
       ap_muteState = MS_UNKNOWN, ap_mainVolume = 0, ap_sourceState = SS_UNKNNOWN, ap_interruptState = IS_UNKNOWN\<rparr>,
     gi_node = \<lparr>np_domainName = [], np_className = [], np_isVolumeChangeSupported = False, np_isPersistencySupported = False,
       np_isVolumePersistencySupported = False, np_priority = 0, np_listGCMainSoundProperties = [], np_listGCSoundProperties = [],
       np_MSP_TO_SP = (\<lambda>_. None), np_SP_TO_MSP = (\<lambda>_. None)\<rparr>\<rparr>"

text \<open>\<open>boundary\<close> is the daemon's first identifier that is assigned dynamically.\<close>

definition STATIC_ID_CONFIGURED :: "16 word \<Rightarrow> am_ID_t \<Rightarrow> bool" where
  "STATIC_ID_CONFIGURED boundary i \<longleftrightarrow> 0 < i \<and> i < boundary"

definition registered_ID :: "16 word \<Rightarrow> am_ID_t \<Rightarrow> am_ID_t \<Rightarrow> am_ID_t" where
  "registered_ID boundary routing configured =
     (if \<not> (\<not> STATIC_ID_CONFIGURED boundary routing \<and> STATIC_ID_CONFIGURED boundary configured) then routing else configured)"

section \<open>State and environment\<close>

record 'w plugin =
  pg_queue :: trigger_queue
  pg_world :: 'w

type_synonym 'w loop = "'w plugin \<Rightarrow> 'w plugin"   \<comment> \<open>\<open>iterateActions\<close>\<close>

record 'w hook_env =
  he_boundary :: "16 word"
  he_classes :: "'w \<Rightarrow> class_element list"
  he_topology :: "'w \<Rightarrow> class_element \<Rightarrow> topology_world"
  he_maker :: "'w connection_maker"
  he_blank :: gc_Route_s   \<comment> \<open>a route that was never assigned\<close>
  he_garbage :: bool       \<comment> \<open>a flag that was never assigned\<close>
  he_connection :: "am_ID_t \<Rightarrow> 'w \<Rightarrow> main_connection option"
  he_system :: "'w \<Rightarrow> system_element option"
  he_systemProperties :: "'w \<Rightarrow> am_Error_e \<times> am_SystemProperty_s list"
  he_point :: "gc_Element_e \<Rightarrow> am_ID_t \<Rightarrow> 'w \<Rightarrow> route_point option"
  he_domain :: "am_ID_t \<Rightarrow> 'w \<Rightarrow> domain_element option"
  he_domainByName :: "string \<Rightarrow> 'w \<Rightarrow> domain_element option"
  he_gateway :: "am_ID_t \<Rightarrow> 'w \<Rightarrow> (am_ID_t \<times> am_Gateway_s) option"
  he_domainConfig :: "string \<Rightarrow> gc_Domain_info option"   \<comment> \<open>the configuration reader\<close>
  he_domainConfigs :: "gc_Domain_info list"
  he_pointConfig :: "gc_Element_e \<Rightarrow> string \<Rightarrow> gc_Point_info option"
  he_gatewayConfig :: "string \<Rightarrow> am_Gateway_s option"
  he_createDomain :: "gc_Domain_info \<Rightarrow> 'w \<Rightarrow> am_ID_t option \<times> 'w"   \<comment> \<open>the factories\<close>
  he_createPoint :: "gc_Element_e \<Rightarrow> gc_Point_info \<Rightarrow> 'w \<Rightarrow> am_ID_t option \<times> 'w"
  he_createGateway :: "am_Gateway_s \<Rightarrow> 'w \<Rightarrow> am_ID_t option \<times> 'w"
  he_attachToClass :: "string \<Rightarrow> gc_Element_e \<Rightarrow> am_ID_t \<Rightarrow> 'w \<Rightarrow> am_Error_e \<times> 'w"
  he_removeObservers :: "gc_Element_e \<Rightarrow> am_ID_t \<Rightarrow> 'w \<Rightarrow> 'w"
  he_destroy :: "gc_Element_e \<Rightarrow> am_ID_t \<Rightarrow> 'w \<Rightarrow> am_Error_e \<times> 'w"
  he_removeDB :: "gc_Element_e \<Rightarrow> am_ID_t \<Rightarrow> 'w \<Rightarrow> am_Error_e \<times> 'w"   \<comment> \<open>the daemon\<close>
  he_listOfDomain :: "gc_Element_e \<Rightarrow> am_ID_t \<Rightarrow> 'w \<Rightarrow> am_Error_e \<times> am_ID_t list"
  he_pointNameDB :: "gc_Element_e \<Rightarrow> am_ID_t \<Rightarrow> 'w \<Rightarrow> am_Error_e \<times> string"
  he_connectionInfoDB :: "am_ID_t \<Rightarrow> 'w \<Rightarrow> am_Error_e"
  he_pointDB :: "am_ID_t \<Rightarrow> 'w \<Rightarrow> am_point_db"
  he_changePointDB :: "gc_Element_e \<Rightarrow> am_ID_t \<Rightarrow> 16 word \<Rightarrow> am_point_db \<Rightarrow> 'w \<Rightarrow> am_Error_e \<times> 'w"
  he_pointClassID :: "am_ID_t \<Rightarrow> 'w \<Rightarrow> am_ID_t"
  he_changeGatewayDB :: "am_ID_t \<Rightarrow> 16 word list \<Rightarrow> 16 word list \<Rightarrow> bool list \<Rightarrow> 'w \<Rightarrow> am_Error_e \<times> 'w"
  he_changeAvailabilityDB :: "gc_Element_e \<Rightarrow> am_Availability_s \<Rightarrow> am_ID_t \<Rightarrow> 'w \<Rightarrow> 'w"
  he_changeDomainStateDB :: "am_DomainState_e \<Rightarrow> am_ID_t \<Rightarrow> 'w \<Rightarrow> 'w"
  he_setInterruptState :: "am_ID_t \<Rightarrow> am_InterruptState_e \<Rightarrow> 'w \<Rightarrow> 'w"
  he_notificationDataUpdate :: "gc_Element_e \<Rightarrow> am_ID_t \<Rightarrow> am_NotificationPayload_s \<Rightarrow> 'w \<Rightarrow> 'w"
  he_domainsDB :: "'w \<Rightarrow> am_Error_e \<times> am_Domain_s list"
  he_enterDomainDB :: "am_Domain_s \<Rightarrow> 'w \<Rightarrow> 'w"
  he_crossfaderDB :: "'w \<Rightarrow> am_Error_e \<times> 'w"
  he_reader :: "'w reader"
  he_removeTimer :: "'w \<Rightarrow> 'w"
  he_notifyAsyncResult :: "am_Handle_s \<Rightarrow> am_Error_e \<Rightarrow> 'w \<Rightarrow> 'w"

definition enqueue :: "gc_Trigger_e \<Rightarrow> gc_TriggerElement_s \<Rightarrow> 'w plugin \<Rightarrow> 'w plugin" where
  "enqueue t d s = s\<lparr>pg_queue := snd (tq_queue t (Some d) (pg_queue s))\<rparr>"

definition on_world :: "('w \<Rightarrow> 'a \<times> 'w) \<Rightarrow> 'w plugin \<Rightarrow> 'a \<times> 'w plugin" where
  "on_world f s = (case f (pg_world s) of (x, w) \<Rightarrow> (x, s\<lparr>pg_world := w\<rparr>))"

definition to_world :: "('w \<Rightarrow> 'w) \<Rightarrow> 'w plugin \<Rightarrow> 'w plugin" where
  "to_world f s = s\<lparr>pg_world := f (pg_world s)\<rparr>"

text \<open>Most hooks end like this: the trigger goes to the queue, then the main loop runs.\<close>

definition launch :: "'w loop \<Rightarrow> gc_Trigger_e \<Rightarrow> gc_TriggerElement_s \<Rightarrow> 'w plugin \<Rightarrow> 'w plugin" where
  "launch iterate t d s = iterate (enqueue t d s)"

end
