(* ===== verification/Controller_Hooks.thy ===== *)
theory Controller_Hooks
  imports Controller_State
begin

text \<open>
  The hooks of \<open>CAmControllerPlugin\<close>, through which the daemon reports requests of users and events of the
  routing side. Most of them turn the call into a trigger, append it to the queue and run the main loop
  \<open>iterate\<close>. A hook gives an error code and the new state; \<open>None\<close> stands for undefined behaviour: a search
  that leaves a topology, a null pointer that is dereferenced.
\<close>

section \<open>Requests of users\<close>

definition hookUserConnectionRequest :: "'w loop \<Rightarrow> 'w hook_env \<Rightarrow> am_ID_t \<Rightarrow> am_ID_t \<Rightarrow> 'w plugin \<Rightarrow> (am_Error_e \<times> 'w plugin) option" where
  "hookUserConnectionRequest iterate H sourceID sinkID s =
     (let w = pg_world s in
      case (he_point H ET_SINK sinkID w, he_point H ET_SOURCE sourceID w) of
        (Some snk, Some src) \<Rightarrow>
          (let sourceName = rp_mName src; sinkName = rp_mName snk in
           case cf_getElement (he_topology H w) sourceName sinkName (he_classes H w) of
             None \<Rightarrow> Some (E_NOT_POSSIBLE, s)
           | Some c \<Rightarrow>
               (case km_getRoute (he_maker H) (rp_mID src) (rp_mID snk) w of (r, routes) \<Rightarrow>
                  if r \<noteq> E_OK then Some (r, s)
                  else if routes = [] then Some (E_NOT_POSSIBLE, s)
                  else (case createMainConnection (he_maker H) (he_blank H) c sourceName sinkName w of
                      None \<Rightarrow> None
                    | Some (r, _, w') \<Rightarrow>
                        if r \<noteq> E_OK \<and> r \<noteq> E_ALREADY_EXISTS then Some (r, s\<lparr>pg_world := w'\<rparr>)
                        else Some (E_OK, launch iterate USER_CONNECTION_REQUEST (ConnectTrigger sourceName sinkName (ce_mName c)) (s\<lparr>pg_world := w'\<rparr>)))))
      | _ \<Rightarrow> Some (E_NON_EXISTENT, s))"

definition hookUserDisconnectionRequest :: "'w loop \<Rightarrow> 'w hook_env \<Rightarrow> am_ID_t \<Rightarrow> 'w plugin \<Rightarrow> am_Error_e \<times> 'w plugin" where
  "hookUserDisconnectionRequest iterate H connectionID s =
     (let w = pg_world s in
      case he_connection H connectionID w of
        None \<Rightarrow> (E_NOT_POSSIBLE, s)
      | Some m \<Rightarrow>
          (case getElementByConnection (\<lambda>_. mc_mpClassElement m) (\<lambda>nm. find (\<lambda>c. ce_mName c = nm) (he_classes H w)) (mc_mName m) of
             None \<Rightarrow> (E_NOT_POSSIBLE, s)
           | Some c \<Rightarrow> (E_OK, launch iterate USER_DISCONNECTION_REQUEST
               (DisconnectTrigger (mc_mainSourceName m) (mc_mainSinkName m) (ce_mName c)) s)))"

text \<open>A single sound property is queued as it is saturated.\<close>

definition set_sound_property :: "'w loop \<Rightarrow> 'w hook_env \<Rightarrow> gc_Element_e \<Rightarrow> gc_Trigger_e \<Rightarrow> (string \<Rightarrow> am_MainSoundProperty_s \<Rightarrow> gc_TriggerElement_s)
    \<Rightarrow> am_ID_t \<Rightarrow> am_MainSoundProperty_s \<Rightarrow> 'w plugin \<Rightarrow> am_Error_e \<times> 'w plugin" where
  "set_sound_property iterate H ty t data i p s =
     (case he_point H ty i (pg_world s) of
        None \<Rightarrow> (E_OUT_OF_RANGE, s)
      | Some e \<Rightarrow>
          (case saturateSoundProperty (pr_type p) (np_listGCMainSoundProperties (rp_mConfig e)) (pr_value p) of (r, v) \<Rightarrow>
             if r \<noteq> E_OK then (r, s) else (E_OK, launch iterate t (data (rp_mName e) (p\<lparr>pr_value := v\<rparr>)) s)))"

definition hookUserSetMainSinkSoundProperty :: "'w loop \<Rightarrow> 'w hook_env \<Rightarrow> am_ID_t \<Rightarrow> am_MainSoundProperty_s \<Rightarrow> 'w plugin \<Rightarrow> am_Error_e \<times> 'w plugin" where
  "hookUserSetMainSinkSoundProperty iterate H = set_sound_property iterate H ET_SINK USER_SET_SINK_MAIN_SOUND_PROPERTY SinkSoundPropertyTrigger"

definition hookUserSetMainSourceSoundProperty :: "'w loop \<Rightarrow> 'w hook_env \<Rightarrow> am_ID_t \<Rightarrow> am_MainSoundProperty_s \<Rightarrow> 'w plugin \<Rightarrow> am_Error_e \<times> 'w plugin" where
  "hookUserSetMainSourceSoundProperty iterate H = set_sound_property iterate H ET_SOURCE USER_SET_SOURCE_MAIN_SOUND_PROPERTY SourceSoundPropertyTrigger"

text \<open>
  Of a list every property has to be configured; the loop saturates copies of the properties, what is queued
  is the list as it came.
\<close>

fun check_properties :: "gc_SoundProperty_s list \<Rightarrow> am_MainSoundProperty_s list \<Rightarrow> am_Error_e" where
  "check_properties conf [] = E_OK"
| "check_properties conf (p # ps) =
     (case saturateSoundProperty (pr_type p) conf (pr_value p) of (r, v) \<Rightarrow> if r \<noteq> E_OK then r else check_properties conf ps)"

definition set_sound_properties :: "'w loop \<Rightarrow> 'w hook_env \<Rightarrow> gc_Element_e \<Rightarrow> gc_Trigger_e \<Rightarrow> (string \<Rightarrow> am_MainSoundProperty_s list \<Rightarrow> gc_TriggerElement_s)
    \<Rightarrow> am_ID_t \<Rightarrow> am_MainSoundProperty_s list \<Rightarrow> 'w plugin \<Rightarrow> am_Error_e \<times> 'w plugin" where
  "set_sound_properties iterate H ty t data i ps s =
     (case he_point H ty i (pg_world s) of
        None \<Rightarrow> (E_OUT_OF_RANGE, s)
      | Some e \<Rightarrow>
          (let r = check_properties (np_listGCMainSoundProperties (rp_mConfig e)) ps
           in if r \<noteq> E_OK then (r, s) else (E_OK, launch iterate t (data (rp_mName e) ps) s)))"

definition hookUserSetMainSinkSoundProperties :: "'w loop \<Rightarrow> 'w hook_env \<Rightarrow> am_ID_t \<Rightarrow> am_MainSoundProperty_s list \<Rightarrow> 'w plugin \<Rightarrow> am_Error_e \<times> 'w plugin" where
  "hookUserSetMainSinkSoundProperties iterate H = set_sound_properties iterate H ET_SINK USER_SET_SINK_MAIN_SOUND_PROPERTIES SinkSoundPropertiesTrigger"

definition hookUserSetMainSourceSoundProperties :: "'w loop \<Rightarrow> 'w hook_env \<Rightarrow> am_ID_t \<Rightarrow> am_MainSoundProperty_s list \<Rightarrow> 'w plugin \<Rightarrow> am_Error_e \<times> 'w plugin" where
  "hookUserSetMainSourceSoundProperties iterate H = set_sound_properties iterate H ET_SOURCE USER_SET_SOURCE_MAIN_SOUND_PROPERTIES SourceSoundPropertiesTrigger"

text \<open>The system element is not checked for null.\<close>

definition hookUserSetSystemProperty :: "'w loop \<Rightarrow> 'w hook_env \<Rightarrow> am_SystemProperty_s \<Rightarrow> 'w plugin \<Rightarrow> (am_Error_e \<times> 'w plugin) option" where
  "hookUserSetSystemProperty iterate H p s =
     (case he_system H (pg_world s) of
        None \<Rightarrow> None
      | Some y \<Rightarrow> Some (if sy_readOnly y then (E_NOT_POSSIBLE, s) else (E_OK, launch iterate USER_SET_SYSTEM_PROPERTY (SystemPropertyTrigger p) s)))"

definition hookUserSetSystemProperties :: "'w loop \<Rightarrow> 'w hook_env \<Rightarrow> am_SystemProperty_s list \<Rightarrow> 'w plugin \<Rightarrow> (am_Error_e \<times> 'w plugin) option" where
  "hookUserSetSystemProperties iterate H ps s =
     (case he_system H (pg_world s) of
        None \<Rightarrow> None
      | Some y \<Rightarrow> Some (if sy_readOnly y then (E_NOT_POSSIBLE, s) else (E_OK, launch iterate USER_SET_SYSTEM_PROPERTIES (SystemPropertiesTrigger ps) s)))"

text \<open>A request for an element by its identifier: what an unknown one answers, and the trigger otherwise.\<close>

definition for_point :: "'w loop \<Rightarrow> 'w hook_env \<Rightarrow> gc_Element_e \<Rightarrow> am_ID_t \<Rightarrow> gc_Trigger_e \<Rightarrow> (string \<Rightarrow> gc_TriggerElement_s) \<Rightarrow> 'w plugin \<Rightarrow> am_Error_e \<times> 'w plugin" where
  "for_point iterate H ty i t data s =
     (case he_point H ty i (pg_world s) of
        None \<Rightarrow> (E_OUT_OF_RANGE, s)
      | Some e \<Rightarrow> (E_OK, launch iterate t (data (rp_mName e)) s))"

definition hookUserVolumeChange :: "'w loop \<Rightarrow> 'w hook_env \<Rightarrow> am_ID_t \<Rightarrow> am_mainVolume_t \<Rightarrow> 'w plugin \<Rightarrow> am_Error_e \<times> 'w plugin" where
  "hookUserVolumeChange iterate H sinkID v = for_point iterate H ET_SINK sinkID USER_SET_VOLUME (\<lambda>nm. SinkVolumeChangeTrigger nm v False)"

definition hookUserVolumeStep :: "'w loop \<Rightarrow> 'w hook_env \<Rightarrow> am_ID_t \<Rightarrow> 16 word \<Rightarrow> 'w plugin \<Rightarrow> am_Error_e \<times> 'w plugin" where
  "hookUserVolumeStep iterate H sinkID increment = for_point iterate H ET_SINK sinkID USER_SET_VOLUME (\<lambda>nm. SinkVolumeChangeTrigger nm increment True)"

definition hookUserSetSinkMuteState :: "'w loop \<Rightarrow> 'w hook_env \<Rightarrow> am_ID_t \<Rightarrow> am_MuteState_e \<Rightarrow> 'w plugin \<Rightarrow> am_Error_e \<times> 'w plugin" where
  "hookUserSetSinkMuteState iterate H sinkID ms s =
     (if MS_MUTED \<noteq> ms \<and> MS_UNMUTED \<noteq> ms then (E_OUT_OF_RANGE, s)
      else for_point iterate H ET_SINK sinkID USER_SET_SINK_MUTE_STATE (\<lambda>nm. SinkMuteTrigger nm ms) s)"

definition hookUserSetMainSinkNotificationConfiguration :: "'w loop \<Rightarrow> 'w hook_env \<Rightarrow> am_ID_t \<Rightarrow> am_NotificationConfiguration_s \<Rightarrow> 'w plugin \<Rightarrow> am_Error_e \<times> 'w plugin" where
  "hookUserSetMainSinkNotificationConfiguration iterate H sinkID c =
     for_point iterate H ET_SINK sinkID USER_SET_SINK_MAIN_NOTIFICATION_CONFIGURATION (\<lambda>nm. NotificationConfigurationTrigger nm c)"

definition hookUserSetMainSourceNotificationConfiguration :: "'w loop \<Rightarrow> 'w hook_env \<Rightarrow> am_ID_t \<Rightarrow> am_NotificationConfiguration_s \<Rightarrow> 'w plugin \<Rightarrow> am_Error_e \<times> 'w plugin" where
  "hookUserSetMainSourceNotificationConfiguration iterate H sourceID c =
     for_point iterate H ET_SOURCE sourceID USER_SET_SOURCE_MAIN_NOTIFICATION_CONFIGURATION (\<lambda>nm. NotificationConfigurationTrigger nm c)"

section \<open>Registration of domains\<close>

text \<open>
  A domain has to be configured. One the controller registers itself is only looked up; of another the
  dynamic data is taken over. When the element cannot be created the hook reports success all the same,
  without an identifier.
\<close>

definition hookSystemRegisterDomain :: "'w loop \<Rightarrow> 'w hook_env \<Rightarrow> am_Domain_s \<Rightarrow> 'w plugin \<Rightarrow> am_Error_e \<times> am_ID_t option \<times> 'w plugin" where
  "hookSystemRegisterDomain iterate H d s =
     (case he_domainConfig H (dm_name d) of
        None \<Rightarrow> (E_DATABASE_ERROR, None, s)
      | Some conf \<Rightarrow>
          if dm_registrationType conf = REG_NONE then (E_NOT_POSSIBLE, None, s)
          else if dm_registrationType conf = REG_CONTROLLER then
            (case he_domainByName H (dm_name d) (pg_world s) of
               Some e \<Rightarrow> (E_ALREADY_EXISTS, Some (de_mID e), s)
             | None \<Rightarrow> (E_DATABASE_ERROR, None, s))
          else
            (case on_world (he_createDomain H (conf\<lparr>dm_busname := dm_busname d, dm_nodename := dm_nodename d,
                 dm_early := dm_early d, dm_complete := dm_complete d, dm_state := dm_state d\<rparr>)) s of
               (None, s') \<Rightarrow> (E_OK, None, s')
             | (Some i, s') \<Rightarrow> (E_OK, Some i, launch iterate SYSTEM_REGISTER_DOMAIN (RegisterElementTrigger (dm_name d) E_OK) s')))"

text \<open>The loops over the elements of a domain.\<close>

definition remove_all :: "'w hook_env \<Rightarrow> gc_Element_e \<Rightarrow> am_ID_t list \<Rightarrow> 'w \<Rightarrow> 'w" where
  "remove_all H ty is w = foldl (\<lambda>w i. snd (he_removeDB H ty i w)) w is"

definition destroy_all :: "'w hook_env \<Rightarrow> gc_Element_e \<Rightarrow> am_ID_t list \<Rightarrow> 'w \<Rightarrow> 'w" where
  "destroy_all H ty is w = foldl (\<lambda>w i.
     snd (he_destroy H ty i (if ty = ET_GATEWAY \<and> he_gateway H i w \<noteq> None \<or> ty \<noteq> ET_GATEWAY \<and> he_point H ty i w \<noteq> None
        then he_removeObservers H ty i w else w))) w is"

definition list_if_ok :: "am_Error_e \<times> 'a list \<Rightarrow> 'a list" where
  "list_if_ok l = (if fst l = E_OK then snd l else [])"

text \<open>
  The lists are filled by the daemon; a call that fails leaves them as they are, here empty. What is
  returned is the result of the last of these calls.
\<close>

definition hookSystemDeregisterDomain :: "'w loop \<Rightarrow> 'w hook_env \<Rightarrow> am_ID_t \<Rightarrow> 'w plugin \<Rightarrow> am_Error_e \<times> 'w plugin" where
  "hookSystemDeregisterDomain iterate H domainID s =
     (case he_domain H domainID (pg_world s) of
        None \<Rightarrow> (E_NON_EXISTENT, s)
      | Some e \<Rightarrow>
          if dm_registrationType (de_mDomain e) \<noteq> REG_ROUTER then (E_NOT_POSSIBLE, s)
          else
            (let s1 = enqueue SYSTEM_DEREGISTER_DOMAIN (UnRegisterElementTrigger (dm_name (de_mDomain e)) E_OK) s;
                 sources = list_if_ok (he_listOfDomain H ET_SOURCE domainID (pg_world s1));
                 s2 = to_world (remove_all H ET_SOURCE sources) s1;
                 sinks = list_if_ok (he_listOfDomain H ET_SINK domainID (pg_world s2));
                 s3 = iterate (to_world (remove_all H ET_SINK sinks) s2);
                 gateways = he_listOfDomain H ET_GATEWAY domainID (pg_world s3);
                 s4 = to_world (destroy_all H ET_GATEWAY (list_if_ok gateways)) s3;
                 s5 = to_world (destroy_all H ET_SINK sinks) s4;
                 s6 = to_world (destroy_all H ET_SOURCE sources) s5
             in (fst gateways, to_world (\<lambda>w. snd (he_destroy H ET_DOMAIN domainID w)) s6)))"

text \<open>
  The route of an early connection is assigned to a temporary, so that only its name reaches the element;
  ends the daemon does not know (\<open>E_UNKNOWN\<close>) have an empty name.
\<close>

definition early_end :: "'w hook_env \<Rightarrow> gc_Element_e \<Rightarrow> am_ID_t \<Rightarrow> 'w \<Rightarrow> am_Error_e \<times> string" where
  "early_end H ty i w = (case he_pointNameDB H ty i w of (r, nm) \<Rightarrow> (r, if r = E_OK then nm else []))"

fun check_segments :: "'w hook_env \<Rightarrow> am_ID_t list \<Rightarrow> 'w \<Rightarrow> am_Error_e" where
  "check_segments H [] w = E_OK"
| "check_segments H (i # is) w = (let r = he_connectionInfoDB H i w in if r \<noteq> E_OK then r else check_segments H is w)"

definition hookSystemRegisterEarlyMainConnection :: "'w loop \<Rightarrow> 'w hook_env \<Rightarrow> am_ID_t \<Rightarrow> am_ID_t \<Rightarrow> am_ID_t list \<Rightarrow> 'w plugin \<Rightarrow> am_Error_e \<times> 'w plugin" where
  "hookSystemRegisterEarlyMainConnection iterate H sourceID sinkID segments s =
     (let w = pg_world s; (sourceOK, sourceName) = early_end H ET_SOURCE sourceID w; (sinkOK, sinkName) = early_end H ET_SINK sinkID w
      in if sourceOK \<noteq> E_OK \<and> sourceOK \<noteq> E_UNKNOWN then (sourceOK, s)
         else if sinkOK \<noteq> E_OK \<and> sinkOK \<noteq> E_UNKNOWN then (sinkOK, s)
         else (let r = check_segments H segments w; nm = sourceName @ '':'' @ sinkName in
           if r \<noteq> E_OK then (r, s)
           else (E_OK, launch iterate SYSTEM_REGISTER_EARLY_CONNECTION (RegisterElementTrigger nm E_OK)
             (to_world (\<lambda>w. snd (km_create (he_maker H) ((he_blank H)\<lparr>ro_name := nm\<rparr>) w)) s))))"

definition isDomainRegistrationComplete :: "'w hook_env \<Rightarrow> 'w \<Rightarrow> string \<Rightarrow> bool" where
  "isDomainRegistrationComplete H w nm =
     (case find (\<lambda>d. dm_name d = nm) (list_if_ok (he_domainsDB H w)) of Some d \<Rightarrow> dm_complete d | None \<Rightarrow> False)"

fun check_domains :: "(string \<Rightarrow> bool) \<Rightarrow> bool \<Rightarrow> gc_Domain_info list \<Rightarrow> bool" where
  "check_domains complete result [] = result"
| "check_domains complete result (d # ds) = (if complete (dm_name d) then check_domains complete True ds else False)"

definition checkAllDomainRegistered :: "'w hook_env \<Rightarrow> 'w \<Rightarrow> bool" where
  "checkAllDomainRegistered H w = check_domains (isDomainRegistrationComplete H w) False (he_domainConfigs H)"

definition restore_connections :: "'w hook_env \<Rightarrow> 'w \<Rightarrow> (am_Error_e \<times> 'w) option" where
  "restore_connections H w = restoreConnectionsFromPersistency (he_reader H) (he_maker H) (he_blank H)
     (\<lambda>src snk w. cf_getElement (he_topology H w) src snk (he_classes H w)) w w"

definition hookSystemDomainRegistrationComplete :: "'w loop \<Rightarrow> 'w hook_env \<Rightarrow> am_ID_t \<Rightarrow> 'w plugin \<Rightarrow> 'w plugin option" where
  "hookSystemDomainRegistrationComplete iterate H domainID s =
     (case (case he_domain H domainID (pg_world s) of None \<Rightarrow> (E_UNKNOWN, None)
            | Some e \<Rightarrow> domain_getDomainInfo (he_domainsDB H) e (pg_world s)) of
        (r, Some d) \<Rightarrow>
          (let s1 = enqueue SYSTEM_DOMAIN_REGISTRATION_COMPLETE (DomainRegisterationCompleteTrigger (dm_name d))
                 (to_world (he_enterDomainDB H (d\<lparr>dm_complete := True, dm_domainID := 0\<rparr>)) s)
           in if checkAllDomainRegistered H (pg_world s1) then
                (let s2 = to_world (he_removeTimer H) s1 in
                 case restore_connections H (pg_world s2) of
                   None \<Rightarrow> None
                 | Some (r, w) \<Rightarrow> Some (launch iterate SYSTEM_ALL_DOMAIN_REGISTRATION_COMPLETE
                     (AllDomainRegisterationCompleteTrigger (if r = E_OK then E_OK else E_DATABASE_ERROR)) (s2\<lparr>pg_world := w\<rparr>)))
              else Some (iterate s1))
      | (r, None) \<Rightarrow> Some s)"

definition domainRegistrationTimeout :: "'w loop \<Rightarrow> 'w hook_env \<Rightarrow> 'w plugin \<Rightarrow> 'w plugin option" where
  "domainRegistrationTimeout iterate H s =
     (case restore_connections H (pg_world s) of
        None \<Rightarrow> None
      | Some (r, w) \<Rightarrow> Some (launch iterate SYSTEM_ALL_DOMAIN_REGISTRATION_COMPLETE
          (AllDomainRegisterationCompleteTrigger (if r = E_DATABASE_ERROR then E_DATABASE_ERROR else E_NOT_POSSIBLE)) (s\<lparr>pg_world := w\<rparr>)))"

section \<open>Registration of sinks, sources and gateways\<close>

text \<open>
  The class of an element that registers: that of the class identifier, else that of the configuration, or
  the default class for elements that are not configured, if such may register at all. \<open>byClassID\<close> is the
  search for a sink class or for a source class.
\<close>

definition class_named :: "string \<Rightarrow> class_element list \<Rightarrow> class_element option" where
  "class_named nm cs = find (\<lambda>c. ce_mName c = nm) cs"

definition class_of_point :: "'w hook_env \<Rightarrow> (am_ID_t \<Rightarrow> class_element list \<Rightarrow> class_element option) \<Rightarrow> gc_Point_info option \<Rightarrow> am_ID_t \<Rightarrow> 'w \<Rightarrow> class_element option" where
  "class_of_point H byClassID conf classID w =
     (let by_name = (\<lambda>nm. case byClassID classID (he_classes H w) of Some c \<Rightarrow> Some c | None \<Rightarrow> class_named nm (he_classes H w)) in
      case conf of
        Some g \<Rightarrow> by_name (np_className (gi_node g))
      | None \<Rightarrow> if he_system H w \<noteq> None \<and> isUnknownElementRegistrationSupported (he_systemProperties H) w then by_name ''default'' else None)"

text \<open>What the daemon's data changes in the configuration, common to sinks and sources.\<close>

definition merged_point :: "'w hook_env \<Rightarrow> class_element \<Rightarrow> am_ID_t \<Rightarrow> am_NodePoint \<Rightarrow> gc_Point_info \<Rightarrow> gc_Point_info" where
  "merged_point H c classID d g = g\<lparr>
     gi_point := (gi_point g)\<lparr>ap_classID := classID, ap_domainID := ap_domainID d, ap_name := ap_name d, ap_volume := ap_volume d,
        ap_visible := ap_visible d, ap_available := ap_available d, ap_listSoundProperties := ap_listSoundProperties d,
        ap_listConnectionFormats := ap_listConnectionFormats d, ap_listMainSoundProperties := ap_listMainSoundProperties d,
        ap_listMainNotificationConfigurations := ap_listMainNotificationConfigurations d,
        ap_listNotificationConfigurations := ap_listNotificationConfigurations d,
        ap_ID := registered_ID (he_boundary H) (ap_ID d) (ap_ID (gi_point g))\<rparr>,
     gi_node := (gi_node g)\<lparr>np_className := ce_mName c\<rparr>\<rparr>"

text \<open>A class with volumes per sink becomes a main sound property of every sink, with the last volume.\<close>

definition class_volume_property :: "class_element \<Rightarrow> string \<Rightarrow> gc_Point_info \<Rightarrow> am_MainSoundProperty_s option" where
  "class_volume_property c nm g =
     (case getLastVolume nm c (ap_mainVolume (gi_point g)) of (r, v) \<Rightarrow>
        if isPerSinkClassVolumeEnabled c \<and> r = E_OK then Some \<lparr>pr_type = MSP_SINK_PER_CLASS_VOLUME_TYPE (ce_mID c), pr_value = v\<rparr> else None)"

definition add_class_volumes :: "'w hook_env \<Rightarrow> class_element list \<Rightarrow> gc_Point_info \<Rightarrow> gc_Point_info" where
  "add_class_volumes H cs g = foldl (\<lambda>g c.
     case class_volume_property c (ap_name (gi_point g)) g of
       None \<Rightarrow> g
     | Some p \<Rightarrow> g\<lparr>
         gi_node := (gi_node g)\<lparr>np_listGCMainSoundProperties := np_listGCMainSoundProperties (gi_node g) @
            [\<lparr>gp_type = pr_type p, gp_minValue = - 32768, gp_maxValue = 32767, gp_isPersistenceSupported = he_garbage H\<rparr>]\<rparr>,
         gi_point := (gi_point g)\<lparr>ap_listMainSoundProperties := ap_listMainSoundProperties (gi_point g) @ [p]\<rparr>\<rparr>) g cs"

text \<open>Creation, attachment to the class and the trigger, whose status tells whether both succeeded.\<close>

definition create_point :: "'w loop \<Rightarrow> 'w hook_env \<Rightarrow> gc_Element_e \<Rightarrow> gc_Trigger_e \<Rightarrow> class_element \<Rightarrow> gc_Point_info \<Rightarrow> 'w plugin \<Rightarrow> am_Error_e \<times> am_ID_t option \<times> 'w plugin" where
  "create_point iterate H ty t c g s =
     (case on_world (he_createPoint H ty g) s of (i, s1) \<Rightarrow>
        (case (case i of Some n \<Rightarrow> on_world (he_attachToClass H (ce_mName c) ty n) s1 | None \<Rightarrow> (E_NOT_POSSIBLE, s1)) of (r, s2) \<Rightarrow>
           (r, i, launch iterate t (RegisterElementTrigger (ap_name (gi_point g)) r) s2)))"

definition hookSystemRegisterSink :: "'w loop \<Rightarrow> 'w hook_env \<Rightarrow> am_NodePoint \<Rightarrow> 'w plugin \<Rightarrow> am_Error_e \<times> am_ID_t option \<times> 'w plugin" where
  "hookSystemRegisterSink iterate H d s =
     (let w = pg_world s; conf = he_pointConfig H ET_SINK (ap_name d) in
      case class_of_point H getElementBySinkClassID conf (ap_classID d) w of
        None \<Rightarrow> (E_NOT_POSSIBLE, None, iterate s)
      | Some c \<Rightarrow>
          (let g = merged_point H c (ce_mSinkClassID c) d (case conf of Some g \<Rightarrow> g | None \<Rightarrow> point_default);
               g' = add_class_volumes H (he_classes H w) g
           in create_point iterate H ET_SINK SYSTEM_REGISTER_SINK c
                (g'\<lparr>gi_point := (gi_point g')\<lparr>ap_muteState := ap_muteState d, ap_mainVolume := ap_mainVolume d\<rparr>\<rparr>) s))"

definition hookSystemRegisterSource :: "'w loop \<Rightarrow> 'w hook_env \<Rightarrow> am_NodePoint \<Rightarrow> 'w plugin \<Rightarrow> am_Error_e \<times> am_ID_t option \<times> 'w plugin" where
  "hookSystemRegisterSource iterate H d s =
     (let w = pg_world s; conf = he_pointConfig H ET_SOURCE (ap_name d) in
      case class_of_point H getElementBySourceClassID conf (ap_classID d) w of
        None \<Rightarrow> (E_NOT_POSSIBLE, None, iterate s)
      | Some c \<Rightarrow>
          (let g = merged_point H c (ce_mSourceClassID c) d (case conf of Some g \<Rightarrow> g | None \<Rightarrow> point_default)
           in create_point iterate H ET_SOURCE SYSTEM_REGISTER_SOURCE c
                (g\<lparr>gi_point := (gi_point g)\<lparr>ap_sourceState := ap_sourceState d, ap_interruptState := ap_interruptState d\<rparr>\<rparr>) s))"

text \<open>
  Deregistration: the trigger, the removal from the database, the main loop with the element still there,
  and at last the element itself. For a source the hook reports success whatever the factory answers.
\<close>

definition deregister :: "'w loop \<Rightarrow> 'w hook_env \<Rightarrow> gc_Element_e \<Rightarrow> gc_Trigger_e \<Rightarrow> string \<Rightarrow> am_ID_t \<Rightarrow> 'w plugin \<Rightarrow> am_Error_e \<times> 'w plugin" where
  "deregister iterate H ty t nm i s =
     (let s1 = to_world (\<lambda>w. snd (he_removeDB H ty i w)) (enqueue t (UnRegisterElementTrigger nm E_OK) s);
          s2 = to_world (he_removeObservers H ty i) (iterate s1)
      in on_world (he_destroy H ty i) s2)"

definition hookSystemDeregisterSink :: "'w loop \<Rightarrow> 'w hook_env \<Rightarrow> am_ID_t \<Rightarrow> 'w plugin \<Rightarrow> am_Error_e \<times> 'w plugin" where
  "hookSystemDeregisterSink iterate H i s =
     (case he_point H ET_SINK i (pg_world s) of
        None \<Rightarrow> (E_NOT_POSSIBLE, s)
      | Some e \<Rightarrow> deregister iterate H ET_SINK SYSTEM_DEREGISTER_SINK (rp_mName e) i s)"

definition hookSystemDeregisterSource :: "'w loop \<Rightarrow> 'w hook_env \<Rightarrow> am_ID_t \<Rightarrow> 'w plugin \<Rightarrow> am_Error_e \<times> 'w plugin" where
  "hookSystemDeregisterSource iterate H i s =
     (case he_point H ET_SOURCE i (pg_world s) of
        None \<Rightarrow> (E_NOT_POSSIBLE, s)
      | Some e \<Rightarrow> (E_OK, snd (deregister iterate H ET_SOURCE SYSTEM_DEREGISTER_SOURCE (rp_mName e) i s)))"

definition hookSystemRegisterGateway :: "'w loop \<Rightarrow> 'w hook_env \<Rightarrow> am_Gateway_s \<Rightarrow> 'w plugin \<Rightarrow> am_Error_e \<times> am_ID_t option \<times> 'w plugin" where
  "hookSystemRegisterGateway iterate H d s =
     (case he_gatewayConfig H (gt_name d) of
        None \<Rightarrow> (E_NOT_POSSIBLE, None, iterate s)
      | Some conf \<Rightarrow>
          (case on_world (he_createGateway H d) s of (i, s') \<Rightarrow>
             (let r = (if i = None then E_NOT_POSSIBLE else E_OK)
              in (r, i, launch iterate SYSTEM_REGISTER_GATEWAY (RegisterElementTrigger (gt_name d) r) s'))))"

definition hookSystemDeregisterGateway :: "'w loop \<Rightarrow> 'w hook_env \<Rightarrow> am_ID_t \<Rightarrow> 'w plugin \<Rightarrow> am_Error_e \<times> 'w plugin" where
  "hookSystemDeregisterGateway iterate H i s =
     (case he_gateway H i (pg_world s) of
        None \<Rightarrow> (E_NOT_POSSIBLE, s)
      | Some e \<Rightarrow> deregister iterate H ET_GATEWAY SYSTEM_DEREGISTER_GATEWAY (gt_name (snd e)) i s)"

text \<open>Of a gateway everything the daemon reads is its own data. Crossfaders are only passed on to the database.\<close>

definition hookSystemRegisterCrossfader :: "'w loop \<Rightarrow> 'w hook_env \<Rightarrow> 'w plugin \<Rightarrow> am_Error_e \<times> 'w plugin" where
  "hookSystemRegisterCrossfader iterate H s = (case on_world (he_crossfaderDB H) s of (r, s') \<Rightarrow> (r, iterate s'))"

section \<open>Events of the routing side\<close>

definition hookSystemInterruptStateChange :: "'w loop \<Rightarrow> 'w hook_env \<Rightarrow> am_ID_t \<Rightarrow> am_InterruptState_e \<Rightarrow> 'w plugin \<Rightarrow> 'w plugin" where
  "hookSystemInterruptStateChange iterate H sourceID st s =
     (case he_point H ET_SOURCE sourceID (pg_world s) of
        None \<Rightarrow> s
      | Some e \<Rightarrow> launch iterate SYSTEM_INTERRUPT_STATE_CHANGED (SourceInterruptChangeTrigger (rp_mName e) st)
          (to_world (he_setInterruptState H sourceID st) s))"

text \<open>The availability goes to the database first, even for an element the controller does not have.\<close>

definition availability_change :: "'w loop \<Rightarrow> 'w hook_env \<Rightarrow> gc_Element_e \<Rightarrow> gc_Trigger_e \<Rightarrow> am_ID_t \<Rightarrow> am_Availability_s \<Rightarrow> 'w plugin \<Rightarrow> 'w plugin" where
  "availability_change iterate H ty t i a s =
     (let s1 = to_world (he_changeAvailabilityDB H ty a i) s in
      snd (for_point iterate H ty i t (\<lambda>nm. AvailabilityChangeTrigger nm a) s1))"

definition hookSystemSinkAvailablityStateChange :: "'w loop \<Rightarrow> 'w hook_env \<Rightarrow> am_ID_t \<Rightarrow> am_Availability_s \<Rightarrow> 'w plugin \<Rightarrow> 'w plugin" where
  "hookSystemSinkAvailablityStateChange iterate H = availability_change iterate H ET_SINK SYSTEM_SINK_AVAILABILITY_CHANGED"

definition hookSystemSourceAvailablityStateChange :: "'w loop \<Rightarrow> 'w hook_env \<Rightarrow> am_ID_t \<Rightarrow> am_Availability_s \<Rightarrow> 'w plugin \<Rightarrow> 'w plugin" where
  "hookSystemSourceAvailablityStateChange iterate H = availability_change iterate H ET_SOURCE SYSTEM_SOURCE_AVAILABILITY_CHANGED"

definition hookSystemDomainStateChange :: "'w hook_env \<Rightarrow> am_ID_t \<Rightarrow> am_DomainState_e \<Rightarrow> 'w plugin \<Rightarrow> 'w plugin" where
  "hookSystemDomainStateChange H domainID st = to_world (he_changeDomainStateDB H st domainID)"

definition notification_data :: "'w loop \<Rightarrow> 'w hook_env \<Rightarrow> gc_Element_e \<Rightarrow> gc_Trigger_e \<Rightarrow> am_ID_t \<Rightarrow> am_NotificationPayload_s \<Rightarrow> 'w plugin \<Rightarrow> 'w plugin" where
  "notification_data iterate H ty t i p s =
     (case he_point H ty i (pg_world s) of
        None \<Rightarrow> s
      | Some e \<Rightarrow> launch iterate t (NotificationDataTrigger (rp_mName e) p) (to_world (he_notificationDataUpdate H ty i p) s))"

definition hookSinkNotificationDataChanged_ctl :: "'w loop \<Rightarrow> 'w hook_env \<Rightarrow> am_ID_t \<Rightarrow> am_NotificationPayload_s \<Rightarrow> 'w plugin \<Rightarrow> 'w plugin" where
  "hookSinkNotificationDataChanged_ctl iterate H = notification_data iterate H ET_SINK SYSTEM_SINK_NOTIFICATION_DATA_CHANGED"

definition hookSourceNotificationDataChanged_ctl :: "'w loop \<Rightarrow> 'w hook_env \<Rightarrow> am_ID_t \<Rightarrow> am_NotificationPayload_s \<Rightarrow> 'w plugin \<Rightarrow> 'w plugin" where
  "hookSourceNotificationDataChanged_ctl iterate H = notification_data iterate H ET_SOURCE SYSTEM_SOURCE_NOTIFICATION_DATA_CHANGED"

text \<open>An update keeps the old class when the new class identifier is not that of a class element.\<close>

definition updated_class :: "'w hook_env \<Rightarrow> am_ID_t \<Rightarrow> am_ID_t \<Rightarrow> 'w \<Rightarrow> am_ID_t" where
  "updated_class H i classID w = (if find (\<lambda>c. ce_mID c = classID) (he_classes H w) = None then he_pointClassID H i w else classID)"

definition hookSystemUpdateSink :: "'w hook_env \<Rightarrow> am_ID_t \<Rightarrow> am_ID_t \<Rightarrow> am_SoundProperty_s list \<Rightarrow> 16 word list \<Rightarrow> am_MainSoundProperty_s list \<Rightarrow> 'w plugin \<Rightarrow> am_Error_e \<times> 'w plugin" where
  "hookSystemUpdateSink H i classID sps formats msps s =
     (case he_point H ET_SINK i (pg_world s) of
        None \<Rightarrow> (E_NOT_POSSIBLE, s)
      | Some e \<Rightarrow> on_world (sink_upadateDB (he_pointDB H) (he_changePointDB H ET_SINK) (updated_class H i classID (pg_world s)) sps formats msps e) s)"

definition hookSystemUpdateSource :: "'w hook_env \<Rightarrow> am_ID_t \<Rightarrow> am_ID_t \<Rightarrow> am_SoundProperty_s list \<Rightarrow> 16 word list \<Rightarrow> am_MainSoundProperty_s list \<Rightarrow> 'w plugin \<Rightarrow> am_Error_e \<times> 'w plugin" where
  "hookSystemUpdateSource H i classID sps formats msps s =
     (case he_point H ET_SOURCE i (pg_world s) of
        None \<Rightarrow> (E_NOT_POSSIBLE, s)
      | Some e \<Rightarrow> on_world (source_upadateDB (he_pointDB H) (he_changePointDB H ET_SOURCE) (updated_class H i classID (pg_world s)) sps formats msps e) s)"

definition hookSystemUpdateGateway :: "'w hook_env \<Rightarrow> am_ID_t \<Rightarrow> 16 word list \<Rightarrow> 16 word list \<Rightarrow> bool list \<Rightarrow> 'w plugin \<Rightarrow> am_Error_e \<times> 'w plugin" where
  "hookSystemUpdateGateway H i sourceFormats sinkFormats matrix = on_world (he_changeGatewayDB H i sourceFormats sinkFormats matrix)"

text \<open>All acknowledgements of the routing side go to the action that waits for the handle.\<close>

definition cbAck :: "'w loop \<Rightarrow> 'w hook_env \<Rightarrow> am_Handle_s \<Rightarrow> am_Error_e \<Rightarrow> 'w plugin \<Rightarrow> 'w plugin" where
  "cbAck iterate H h err s = iterate (to_world (he_notifyAsyncResult H h err) s)"

definition getConnectionFormatChoice :: "16 word list \<Rightarrow> am_Error_e \<times> 16 word list" where
  "getConnectionFormatChoice listPossibleConnectionFormats = (E_OK, listPossibleConnectionFormats)"

end
