(* ===== verification/Controller_Loop.thy ===== *)
theory Controller_Loop
  imports Controller_Hooks Policy_Engine
begin

text \<open>
  The main loop with the policy engine behind it, and what the hooks do to the trigger queue. The data of a
  trigger is cast without a check when it is forwarded: all triggers in the queue have to carry the data that
  belongs to their type. The locale states this of the main loop and proves it of every hook; it is
  interpreted on \<open>iterateActions\<close>.
\<close>

section \<open>Typed queues\<close>

definition entry_typed :: "trigger_pair \<Rightarrow> bool" where
  "entry_typed e \<longleftrightarrow> (case snd e of None \<Rightarrow> False | Some d \<Rightarrow> data_matches (fst e) d)"

definition queue_typed :: "trigger_queue \<Rightarrow> bool" where
  "queue_typed q \<longleftrightarrow> list_all entry_typed (tq_getSnapShot q)"

lemma queue_typed_queue [simp]: "queue_typed (snd (tq_queue t (Some d) q)) \<longleftrightarrow> queue_typed q \<and> data_matches t d"
  by (auto simp: queue_typed_def tq_defs entry_typed_def)

lemma queue_typed_empty [simp]: "queue_typed tq_empty"
  by (simp add: queue_typed_def tq_defs)

lemma queue_typed_dequeue:
  assumes "queue_typed q" "tq_dequeue t0 q = (d, t, q')"
  shows "queue_typed q'" "d = Some x \<Longrightarrow> data_matches t x"
  using assms tq_dequeue_cases[OF assms(2)] by (auto simp: queue_typed_def entry_typed_def)

lemma forward_typed: "data_matches t d \<Longrightarrow> forwardTriggertoPolicyEngine sender proc t d w \<noteq> None"
  using forward_register unfolding data_matches_def
  by (cases d) (auto simp: forwardTriggertoPolicyEngine_def)

section \<open>The calls of the daemon\<close>

datatype hook_call =
    UserConnectionRequest am_ID_t am_ID_t
  | UserDisconnectionRequest am_ID_t
  | UserSetMainSinkSoundProperty am_ID_t am_MainSoundProperty_s
  | UserSetMainSinkSoundProperties am_ID_t "am_MainSoundProperty_s list"
  | UserSetMainSourceSoundProperty am_ID_t am_MainSoundProperty_s
  | UserSetMainSourceSoundProperties am_ID_t "am_MainSoundProperty_s list"
  | UserSetSystemProperty am_SystemProperty_s
  | UserSetSystemProperties "am_SystemProperty_s list"
  | UserVolumeChange am_ID_t am_mainVolume_t
  | UserVolumeStep am_ID_t "16 word"
  | UserSetSinkMuteState am_ID_t am_MuteState_e
  | UserSetMainSinkNotificationConfiguration am_ID_t am_NotificationConfiguration_s
  | UserSetMainSourceNotificationConfiguration am_ID_t am_NotificationConfiguration_s
  | SystemRegisterDomain am_Domain_s
  | SystemDeregisterDomain am_ID_t
  | SystemRegisterEarlyMainConnection am_ID_t am_ID_t "am_ID_t list"
  | SystemDomainRegistrationComplete am_ID_t
  | DomainRegistrationTimeout
  | SystemRegisterSink am_NodePoint
  | SystemDeregisterSink am_ID_t
  | SystemRegisterSource am_NodePoint
  | SystemDeregisterSource am_ID_t
  | SystemRegisterGateway am_Gateway_s
  | SystemDeregisterGateway am_ID_t
  | SystemRegisterCrossfader
  | SystemInterruptStateChange am_ID_t am_InterruptState_e
  | SystemSinkAvailablityStateChange am_ID_t am_Availability_s
  | SystemSourceAvailablityStateChange am_ID_t am_Availability_s
  | SystemDomainStateChange am_ID_t am_DomainState_e
  | SinkNotificationDataChanged am_ID_t am_NotificationPayload_s
  | SourceNotificationDataChanged am_ID_t am_NotificationPayload_s
  | SystemUpdateSink am_ID_t am_ID_t "am_SoundProperty_s list" "16 word list" "am_MainSoundProperty_s list"
  | SystemUpdateSource am_ID_t am_ID_t "am_SoundProperty_s list" "16 word list" "am_MainSoundProperty_s list"
  | SystemUpdateGateway am_ID_t "16 word list" "16 word list" "bool list"
  | Acknowledgement am_Handle_s am_Error_e

fun run_hook :: "'w loop \<Rightarrow> 'w hook_env \<Rightarrow> hook_call \<Rightarrow> 'w plugin \<Rightarrow> 'w plugin option" where
  "run_hook L H (UserConnectionRequest i j) s = map_option snd (hookUserConnectionRequest L H i j s)"
| "run_hook L H (UserDisconnectionRequest i) s = Some (snd (hookUserDisconnectionRequest L H i s))"
| "run_hook L H (UserSetMainSinkSoundProperty i p) s = Some (snd (hookUserSetMainSinkSoundProperty L H i p s))"
| "run_hook L H (UserSetMainSinkSoundProperties i ps) s = Some (snd (hookUserSetMainSinkSoundProperties L H i ps s))"
| "run_hook L H (UserSetMainSourceSoundProperty i p) s = Some (snd (hookUserSetMainSourceSoundProperty L H i p s))"
| "run_hook L H (UserSetMainSourceSoundProperties i ps) s = Some (snd (hookUserSetMainSourceSoundProperties L H i ps s))"
| "run_hook L H (UserSetSystemProperty p) s = map_option snd (hookUserSetSystemProperty L H p s)"
| "run_hook L H (UserSetSystemProperties ps) s = map_option snd (hookUserSetSystemProperties L H ps s)"
| "run_hook L H (UserVolumeChange i v) s = Some (snd (hookUserVolumeChange L H i v s))"
| "run_hook L H (UserVolumeStep i v) s = Some (snd (hookUserVolumeStep L H i v s))"
| "run_hook L H (UserSetSinkMuteState i m) s = Some (snd (hookUserSetSinkMuteState L H i m s))"
| "run_hook L H (UserSetMainSinkNotificationConfiguration i c) s = Some (snd (hookUserSetMainSinkNotificationConfiguration L H i c s))"
| "run_hook L H (UserSetMainSourceNotificationConfiguration i c) s = Some (snd (hookUserSetMainSourceNotificationConfiguration L H i c s))"
| "run_hook L H (SystemRegisterDomain d) s = Some (snd (snd (hookSystemRegisterDomain L H d s)))"
| "run_hook L H (SystemDeregisterDomain i) s = Some (snd (hookSystemDeregisterDomain L H i s))"
| "run_hook L H (SystemRegisterEarlyMainConnection i j l) s = Some (snd (hookSystemRegisterEarlyMainConnection L H i j l s))"
| "run_hook L H (SystemDomainRegistrationComplete i) s = hookSystemDomainRegistrationComplete L H i s"
| "run_hook L H DomainRegistrationTimeout s = domainRegistrationTimeout L H s"
| "run_hook L H (SystemRegisterSink d) s = Some (snd (snd (hookSystemRegisterSink L H d s)))"
| "run_hook L H (SystemDeregisterSink i) s = Some (snd (hookSystemDeregisterSink L H i s))"
| "run_hook L H (SystemRegisterSource d) s = Some (snd (snd (hookSystemRegisterSource L H d s)))"
| "run_hook L H (SystemDeregisterSource i) s = Some (snd (hookSystemDeregisterSource L H i s))"
| "run_hook L H (SystemRegisterGateway d) s = Some (snd (snd (hookSystemRegisterGateway L H d s)))"
| "run_hook L H (SystemDeregisterGateway i) s = Some (snd (hookSystemDeregisterGateway L H i s))"
| "run_hook L H SystemRegisterCrossfader s = Some (snd (hookSystemRegisterCrossfader L H s))"
| "run_hook L H (SystemInterruptStateChange i st) s = Some (hookSystemInterruptStateChange L H i st s)"
| "run_hook L H (SystemSinkAvailablityStateChange i a) s = Some (hookSystemSinkAvailablityStateChange L H i a s)"
| "run_hook L H (SystemSourceAvailablityStateChange i a) s = Some (hookSystemSourceAvailablityStateChange L H i a s)"
| "run_hook L H (SystemDomainStateChange i st) s = Some (hookSystemDomainStateChange H i st s)"
| "run_hook L H (SinkNotificationDataChanged i p) s = Some (hookSinkNotificationDataChanged_ctl L H i p s)"
| "run_hook L H (SourceNotificationDataChanged i p) s = Some (hookSourceNotificationDataChanged_ctl L H i p s)"
| "run_hook L H (SystemUpdateSink i c sps fs msps) s = Some (snd (hookSystemUpdateSink H i c sps fs msps s))"
| "run_hook L H (SystemUpdateSource i c sps fs msps) s = Some (snd (hookSystemUpdateSource H i c sps fs msps s))"
| "run_hook L H (SystemUpdateGateway i fs gs m) s = Some (snd (hookSystemUpdateGateway H i fs gs m s))"
| "run_hook L H (Acknowledgement h e) s = Some (cbAck L H h e s)"

fun run_hooks :: "'w loop \<Rightarrow> 'w hook_env \<Rightarrow> hook_call list \<Rightarrow> 'w plugin \<Rightarrow> 'w plugin option" where
  "run_hooks L H [] s = Some s"
| "run_hooks L H (c # cs) s = (case run_hook L H c s of None \<Rightarrow> None | Some s' \<Rightarrow> run_hooks L H cs s')"

section \<open>The interface of the main loop\<close>

locale main_loop =
  fixes iterate :: "'w loop"
  assumes iterate_typed: "queue_typed (pg_queue s) \<Longrightarrow> queue_typed (pg_queue (iterate s))"
begin

abbreviation typed :: "'w plugin \<Rightarrow> bool" where
  "typed s \<equiv> queue_typed (pg_queue s)"

lemma enqueue_typed [simp]: "typed (enqueue t d s) \<longleftrightarrow> typed s \<and> data_matches t d"
  by (simp add: enqueue_def)

lemma launch_typed: "typed s \<Longrightarrow> data_matches t d \<Longrightarrow> typed (launch iterate t d s)"
  by (simp add: launch_def iterate_typed)

lemma world_typed [simp]: "typed (snd (on_world f s)) \<longleftrightarrow> typed s" "typed (to_world g s) \<longleftrightarrow> typed s"
  by (simp_all add: on_world_def to_world_def split: prod.splits)

lemma on_world_typed: "on_world f s = (x, s') \<Longrightarrow> typed s' \<longleftrightarrow> typed s"
  by (metis snd_conv world_typed(1))

lemmas typed_intros = launch_typed iterate_typed

lemma set_sound_property_typed:
  "typed s \<Longrightarrow> (\<And>nm p. data_matches t (data nm p)) \<Longrightarrow> typed (snd (set_sound_property iterate H ty t data i p s))"
  by (auto simp: set_sound_property_def launch_typed split: option.splits prod.splits)

lemma set_sound_properties_typed:
  "typed s \<Longrightarrow> (\<And>nm p. data_matches t (data nm p)) \<Longrightarrow> typed (snd (set_sound_properties iterate H ty t data i ps s))"
  by (auto simp: set_sound_properties_def Let_def launch_typed split: option.splits)

lemma for_point_typed:
  "typed s \<Longrightarrow> (\<And>nm. data_matches t (data nm)) \<Longrightarrow> typed (snd (for_point iterate H ty i t data s))"
  by (auto simp: for_point_def launch_typed split: option.splits)

lemma deregister_typed:
  "typed s \<Longrightarrow> data_matches t (UnRegisterElementTrigger nm E_OK) \<Longrightarrow> typed (snd (deregister iterate H ty t nm i s))"
  by (simp add: deregister_def Let_def iterate_typed)

lemma create_point_typed:
  assumes "typed s" "\<And>nm r. data_matches t (RegisterElementTrigger nm r)"
  shows "typed (snd (snd (create_point iterate H ty t c g s)))"
  using assms by (auto simp: create_point_def dest!: on_world_typed intro!: launch_typed split: option.splits prod.splits)

lemma with_world_typed [simp]: "typed (s\<lparr>pg_world := w\<rparr>) \<longleftrightarrow> typed s"
  by simp

lemmas hook_typed = set_sound_property_typed set_sound_properties_typed for_point_typed deregister_typed
  create_point_typed launch_typed iterate_typed

lemma connection_request_typed:
  "typed s \<Longrightarrow> hookUserConnectionRequest iterate H i j s = Some (r, s') \<Longrightarrow> typed s'"
  by (auto simp: hookUserConnectionRequest_def Let_def data_matches_def intro!: launch_typed split: option.splits prod.splits if_splits)

lemma register_domain_typed: "typed s \<Longrightarrow> typed (snd (snd (hookSystemRegisterDomain iterate H d s)))"
  by (auto simp: hookSystemRegisterDomain_def data_matches_def dest!: on_world_typed intro!: launch_typed split: option.splits prod.splits)

lemma deregister_domain_typed: "typed s \<Longrightarrow> typed (snd (hookSystemDeregisterDomain iterate H i s))"
  by (auto simp: hookSystemDeregisterDomain_def Let_def data_matches_def intro!: iterate_typed split: option.splits)

lemma early_typed: "typed s \<Longrightarrow> typed (snd (hookSystemRegisterEarlyMainConnection iterate H i j l s))"
  by (auto simp: hookSystemRegisterEarlyMainConnection_def Let_def data_matches_def intro!: launch_typed split: prod.splits)

lemma domain_complete_typed:
  "typed s \<Longrightarrow> hookSystemDomainRegistrationComplete iterate H i s = Some s' \<Longrightarrow> typed s'"
  "typed s \<Longrightarrow> domainRegistrationTimeout iterate H s = Some s' \<Longrightarrow> typed s'"
  by (auto simp: hookSystemDomainRegistrationComplete_def domainRegistrationTimeout_def Let_def data_matches_def
      intro!: launch_typed iterate_typed split: option.splits prod.splits if_splits)

lemma register_point_typed:
  "typed s \<Longrightarrow> typed (snd (snd (hookSystemRegisterSink iterate H d s)))"
  "typed s \<Longrightarrow> typed (snd (snd (hookSystemRegisterSource iterate H d s)))"
  by (auto simp: hookSystemRegisterSink_def hookSystemRegisterSource_def Let_def data_matches_def
      intro!: create_point_typed iterate_typed split: option.splits)

lemma register_gateway_typed: "typed s \<Longrightarrow> typed (snd (snd (hookSystemRegisterGateway iterate H g s)))"
  by (auto simp: hookSystemRegisterGateway_def Let_def data_matches_def dest!: on_world_typed
      intro!: launch_typed iterate_typed split: option.splits prod.splits)

lemma deregister_point_typed:
  "typed s \<Longrightarrow> typed (snd (hookSystemDeregisterSink iterate H i s))"
  "typed s \<Longrightarrow> typed (snd (hookSystemDeregisterSource iterate H i s))"
  "typed s \<Longrightarrow> typed (snd (hookSystemDeregisterGateway iterate H i s))"
  by (auto simp: hookSystemDeregisterSink_def hookSystemDeregisterSource_def hookSystemDeregisterGateway_def data_matches_def
      intro!: deregister_typed split: option.splits)

lemma property_typed:
  "typed s \<Longrightarrow> typed (snd (hookUserSetMainSinkSoundProperty iterate H i p s))"
  "typed s \<Longrightarrow> typed (snd (hookUserSetMainSourceSoundProperty iterate H i p s))"
  "typed s \<Longrightarrow> typed (snd (hookUserSetMainSinkSoundProperties iterate H i ps s))"
  "typed s \<Longrightarrow> typed (snd (hookUserSetMainSourceSoundProperties iterate H i ps s))"
  by (simp_all add: hookUserSetMainSinkSoundProperty_def hookUserSetMainSourceSoundProperty_def hookUserSetMainSinkSoundProperties_def
      hookUserSetMainSourceSoundProperties_def set_sound_property_typed set_sound_properties_typed data_matches_def)

lemma system_property_typed:
  "typed s \<Longrightarrow> hookUserSetSystemProperty iterate H p s = Some (r, s') \<Longrightarrow> typed s'"
  "typed s \<Longrightarrow> hookUserSetSystemProperties iterate H ps s = Some (r, s') \<Longrightarrow> typed s'"
  by (auto simp: hookUserSetSystemProperty_def hookUserSetSystemProperties_def data_matches_def intro!: launch_typed split: option.splits if_splits)

lemma request_typed:
  "typed s \<Longrightarrow> typed (snd (hookUserDisconnectionRequest iterate H i s))"
  "typed s \<Longrightarrow> typed (snd (hookUserVolumeChange iterate H i v s))"
  "typed s \<Longrightarrow> typed (snd (hookUserVolumeStep iterate H i v s))"
  "typed s \<Longrightarrow> typed (snd (hookUserSetSinkMuteState iterate H i m s))"
  "typed s \<Longrightarrow> typed (snd (hookUserSetMainSinkNotificationConfiguration iterate H i c s))"
  "typed s \<Longrightarrow> typed (snd (hookUserSetMainSourceNotificationConfiguration iterate H i c s))"
  by (auto simp: hookUserDisconnectionRequest_def hookUserVolumeChange_def hookUserVolumeStep_def hookUserSetSinkMuteState_def
      hookUserSetMainSinkNotificationConfiguration_def hookUserSetMainSourceNotificationConfiguration_def Let_def data_matches_def
      intro!: for_point_typed launch_typed split: option.splits)

lemma event_typed:
  "typed s \<Longrightarrow> typed (hookSystemInterruptStateChange iterate H i st s)"
  "typed s \<Longrightarrow> typed (hookSystemSinkAvailablityStateChange iterate H i a s)"
  "typed s \<Longrightarrow> typed (hookSystemSourceAvailablityStateChange iterate H i a s)"
  "typed s \<Longrightarrow> typed (hookSystemDomainStateChange H i ds s)"
  "typed s \<Longrightarrow> typed (hookSinkNotificationDataChanged_ctl iterate H i p s)"
  "typed s \<Longrightarrow> typed (hookSourceNotificationDataChanged_ctl iterate H i p s)"
  "typed s \<Longrightarrow> typed (cbAck iterate H h e s)"
  by (auto simp: hookSystemInterruptStateChange_def hookSystemSinkAvailablityStateChange_def hookSystemSourceAvailablityStateChange_def
      hookSystemDomainStateChange_def hookSinkNotificationDataChanged_ctl_def hookSourceNotificationDataChanged_ctl_def
      availability_change_def notification_data_def cbAck_def data_matches_def
      intro!: for_point_typed launch_typed iterate_typed split: option.splits)

lemma update_typed:
  "typed s \<Longrightarrow> typed (snd (hookSystemUpdateSink H i c sps fs msps s))"
  "typed s \<Longrightarrow> typed (snd (hookSystemUpdateSource H i c sps fs msps s))"
  "typed s \<Longrightarrow> typed (snd (hookSystemUpdateGateway H i fs gs m s))"
  "typed s \<Longrightarrow> typed (snd (hookSystemRegisterCrossfader iterate H s))"
  by (auto simp: hookSystemUpdateSink_def hookSystemUpdateSource_def hookSystemUpdateGateway_def hookSystemRegisterCrossfader_def
      dest!: on_world_typed intro!: iterate_typed split: option.splits prod.splits)

lemma run_hook_typed:
  assumes "typed s" "run_hook iterate H c s = Some s'"
  shows "typed s'"
  using assms
  by (cases c) (auto simp del: enqueue_typed world_typed dest: connection_request_typed domain_complete_typed system_property_typed
      intro: register_domain_typed deregister_domain_typed early_typed register_point_typed register_gateway_typed
        deregister_point_typed property_typed request_typed event_typed update_typed)

lemma run_hooks_typed: "typed s \<Longrightarrow> run_hooks iterate H cs s = Some s' \<Longrightarrow> typed s'"
  by (induction cs arbitrary: s) (auto split: option.splits dest: run_hook_typed)

end

section \<open>The loop of the controller\<close>

text \<open>The policy of the main loop is the dispatch to the policy engine.\<close>

definition forward_policy :: "bool \<Rightarrow> (('p, 'q option) action list \<times> trigger_queue \<times> ('t \<times> 'e)) processor \<Rightarrow> ('p, 'q, 't, 'e) policy" where
  "forward_policy sender proc t d as q w =
     (case forwardTriggertoPolicyEngine sender proc t d (as, q, w) of Some (_, r) \<Rightarrow> r | None \<Rightarrow> (as, q, w))"

text \<open>\<open>iterateActions\<close> on the state of the plugin; \<open>k\<close> bounds its rounds, one more than the triggers are enough.\<close>

definition plugin_loop :: "nat \<Rightarrow> nat \<Rightarrow> ('p, 'q option, 't, 'e) action_sys \<Rightarrow> ('p, 'q, 't, 'e) policy
    \<Rightarrow> ('q option container \<times> ('p, 'q option) action list \<times> ('t \<times> 'e)) loop" where
  "plugin_loop k d S policy s =
     (case pg_world s of (r, as, w) \<Rightarrow>
        (case iterateActions k d S policy \<lparr>ci_root = r, ci_children = as, ci_queue = pg_queue s, ci_world = w\<rparr> of
           None \<Rightarrow> s
         | Some c \<Rightarrow> \<lparr>pg_queue = ci_queue c, pg_world = (ci_root c, ci_children c, ci_world c)\<rparr>))"

lemma iterateActions_typed:
  assumes "\<And>t d as q w. data_matches t d \<Longrightarrow> queue_typed q \<Longrightarrow> queue_typed (fst (snd (policy t d as q w)))"
  shows "queue_typed (ci_queue c) \<Longrightarrow> iterateActions k d S policy c = Some c' \<Longrightarrow> queue_typed (ci_queue c')"
proof (induction k arbitrary: c)
  case (Suc k)
  obtain c1 where c1: "iterate_actions d S c = Some c1" "ci_queue c1 = ci_queue c"
    using Suc.prems(2) by (auto simp: iterate_actions_def split: option.splits prod.splits if_splits action.splits)
  obtain go c2 where c2: "iterate_trigger policy c1 = (go, c2)" by force
  have "queue_typed (ci_queue c2)"
  proof -
    obtain d t q where dq: "tq_dequeue TRIGGER_UNKNOWN (ci_queue c1) = (d, t, q)" by (metis prod_cases3)
    note q = queue_typed_dequeue[OF _ dq]
    note pol = assms[of t _ q "ci_children c1" "ci_world c1"]
    show ?thesis
    proof (cases d)
      case None
      with c2 c1(2) Suc.prems(1) q dq show ?thesis by (auto simp: iterate_trigger_def split: if_splits)
    next
      case (Some x)
      with c2 c1(2) Suc.prems(1) q(1) q(2)[OF _ Some] dq pol[of x] show ?thesis
        by (cases "policy t x (ci_children c1) q (ci_world c1)") (auto simp: iterate_trigger_def split: if_splits)
    qed
  qed
  with Suc c1 c2 show ?case by (auto split: bool.splits)
qed simp

text \<open>The policy engine may queue triggers itself, as long as they carry their data.\<close>

definition processor_typed :: "('a \<times> trigger_queue \<times> 'b) processor \<Rightarrow> bool" where
  "processor_typed proc \<longleftrightarrow> (\<forall>p as q w. queue_typed q \<longrightarrow> queue_typed (fst (snd (snd (proc p (as, q, w))))))"

lemma forward_cases:
  "forwardTriggertoPolicyEngine sender proc t d w = None \<or> (\<exists>e. forwardTriggertoPolicyEngine sender proc t d w = Some (e, w))
      \<or> (\<exists>p. forwardTriggertoPolicyEngine sender proc t d w = Some (proc p w))"
  by (cases t; cases d) (auto simp: forwardTriggertoPolicyEngine_def policy_send_defs)

lemma forward_policy_typed:
  assumes "processor_typed proc" "queue_typed q"
  shows "queue_typed (fst (snd (forward_policy sender proc t d as q w)))"
  using forward_cases[of sender proc t d "(as, q, w)"] assms
  by (cases w) (auto simp: forward_policy_def processor_typed_def split_beta)

text \<open>
  The policy engine as processor. It reads its environment from the world, the sound properties it restores
  become triggers, and \<open>setListActions\<close> of the policy receiver turns the actions of the trigger into children
  of the root. An evaluation that does not return changes nothing here.
\<close>

record ('c, 'w) engine_link =
  el_view :: "'w \<Rightarrow> engine_env"
  el_domains :: "'w \<Rightarrow> nat \<Rightarrow> 16 word"
  el_setDomains :: "(nat \<Rightarrow> 16 word) \<Rightarrow> 'w \<Rightarrow> 'w"
  el_setListActions :: "gc_Action_s list \<Rightarrow> 'c \<Rightarrow> 'w \<Rightarrow> am_Error_e \<times> 'c \<times> 'w"

definition engine_processor :: "nat \<Rightarrow> char \<Rightarrow> ('c, 'w) engine_link \<Rightarrow> ('c \<times> trigger_queue \<times> 'w) processor" where
  "engine_processor fuel before E p s =
     (case s of (as, q, w) \<Rightarrow>
        (case processTrigger fuel before (el_view E w) (\<lambda>l. l) p \<lparr>es_queue = q, es_routeDomain = el_domains E w\<rparr> of
           Ret (l, st) \<Rightarrow>
             (case el_setListActions E l as (el_setDomains E (es_routeDomain st) w) of (r, as', w') \<Rightarrow> (r, as', es_queue st, w'))
         | _ \<Rightarrow> (E_UNKNOWN, as, q, w)))"

lemma foldl_typed: "queue_typed q \<Longrightarrow> (\<And>q x. queue_typed q \<Longrightarrow> queue_typed (f q x)) \<Longrightarrow> queue_typed (foldl f q xs)"
  by (induction xs arbitrary: q) auto

lemma schedule_typed: "queue_typed q \<Longrightarrow> queue_typed (scheduleSoundPropertyTriggers N ty nm q)"
  by (auto simp: scheduleSoundPropertyTriggers_def queue_trigger_def Let_def data_matches_def intro!: foldl_typed split: option.splits)

lemma restore_typed: "queue_typed q \<Longrightarrow> queue_typed (restoreMainSoundProperties N nm q)"
  by (auto simp: restoreMainSoundProperties_def Let_def intro!: foldl_typed schedule_typed split: option.splits)

lemma implicit_typed: "queue_typed (es_queue (snd s)) \<Longrightarrow> queue_typed (es_queue (snd (getImplicitActions N t s)))"
  by (auto simp: getImplicitActions_def Let_def domainDeregister_def restore_typed split: gc_Trigger_e.splits option.splits)

lemma obind_RetE: "obind m f = Ret y \<Longrightarrow> (\<And>x. m = Ret x \<Longrightarrow> f x = Ret y \<Longrightarrow> thesis) \<Longrightarrow> thesis"
  by (cases m) auto

lemma processTrigger_typed:
  "processTrigger fuel before N (\<lambda>l. l) p st = Ret (l, st') \<Longrightarrow> queue_typed (es_queue st) \<Longrightarrow> queue_typed (es_queue st')"
  using implicit_typed[of "(_, st)" N "trigger_class (ev_policy N) p"]
  by (auto simp: processTrigger_def getActions_def split: prod.splits elim!: obind_RetE) (metis snd_conv)

lemma engine_typed: "processor_typed (engine_processor fuel before E)"
  by (auto simp: processor_typed_def engine_processor_def dest: processTrigger_typed split: outcome.splits prod.splits)

definition controller_loop :: "nat \<Rightarrow> nat \<Rightarrow> ('p, 'q option, 't, 'e) action_sys \<Rightarrow> nat \<Rightarrow> char \<Rightarrow> (('p, 'q option) action list, 't \<times> 'e) engine_link
    \<Rightarrow> ('q option container \<times> ('p, 'q option) action list \<times> ('t \<times> 'e)) loop" where
  "controller_loop k d S fuel before E = plugin_loop k d S (forward_policy True (engine_processor fuel before E))"

lemma controller_loop_typed:
  assumes "queue_typed (pg_queue s)"
  shows "queue_typed (pg_queue (controller_loop k d S fuel before E s))"
proof -
  let ?policy = "forward_policy True (engine_processor fuel before E)"
  have policy: "queue_typed q \<Longrightarrow> queue_typed (fst (snd (?policy t d as q w)))" for t d as q w
    by (rule forward_policy_typed[OF engine_typed])
  obtain r as w where fields: "pg_world s = (r, as, w)" by (metis prod_cases3)
  let ?c = "\<lparr>ci_root = r, ci_children = as, ci_queue = pg_queue s, ci_world = w\<rparr>"
  have "queue_typed (ci_queue c')" if "iterateActions k d S ?policy ?c = Some c'" for c'
    using iterateActions_typed[of ?policy ?c, OF policy _ that] assms by simp
  with fields assms show ?thesis
    by (cases "iterateActions k d S ?policy ?c") (simp_all add: controller_loop_def plugin_loop_def)
qed

interpretation controller: main_loop "controller_loop k d S fuel before E"
  by unfold_locales (rule controller_loop_typed)

end
