(* ===== verification/Controller_Props.thy ===== *)
theory Controller_Props
  imports Controller_Loop Action_Props
begin

text \<open>
  Properties of the hooks: the triggers they queue can be forwarded, and what becomes of the sound properties
  of a request.
\<close>

section \<open>Triggers carry their data\<close>


section \<open>Sound properties of a request\<close>

lemma check_properties_ok: "check_properties conf ps = E_OK \<longleftrightarrow> (\<forall>p\<in>set ps. isSoundPropertyConfigured (pr_type p) conf)"
proof (induction ps)
  case (Cons p ps)
  obtain e v where s: "saturateSoundProperty (pr_type p) conf (pr_value p) = (e, v)" by force
  then show ?case using Cons saturateSoundProperty_range[OF s] by auto
qed simp


section \<open>An example\<close>

definition demo_sink :: route_point where
  "demo_sink = \<lparr>rp_mType = ET_SINK, rp_mName = ''Speaker'', rp_mID = 7,
     rp_mConfig = (gi_node point_default)\<lparr>np_listGCMainSoundProperties :=
       [\<lparr>gp_type = 4, gp_minValue = - 10, gp_maxValue = 10, gp_isPersistenceSupported = False\<rparr>]\<rparr>,
     rp_mVolume = 0, rp_mMinVolume = - 3000, rp_mMaxVolume = 0, rp_mOffsetVolume = 0, rp_mMuteState = MS_UNMUTED, rp_mainVolume = 0, rp_limits = []\<rparr>"

definition demo_world :: "'w \<Rightarrow> topology_world" where
  "demo_world w = \<lparr>tw_source = (\<lambda>_. None), tw_sink = (\<lambda>_. None), tw_gateway = (\<lambda>_. None), tw_subject = (\<lambda>_ _. False)\<rparr>"

definition demo_maker :: "'w connection_maker" where
  "demo_maker = \<lparr>km_topology = demo_world, km_getRoute = (\<lambda>_ _ _. (E_NOT_POSSIBLE, [])), km_isNonTopologyRouteAllowed = (\<lambda>_. False),
     km_existing = (\<lambda>_ _. None), km_create = (\<lambda>_ w. (None, w)), km_attach = (\<lambda>_ _ _ _ w. w), km_nameOf = (\<lambda>_ _. []),
     km_moveToEnd = (\<lambda>_ w. w), km_search = (\<lambda>_ _. [])\<rparr>"

definition demo_hooks :: "'w hook_env" where
  "demo_hooks = \<lparr>he_boundary = 100, he_classes = (\<lambda>_. []), he_topology = (\<lambda>w _. demo_world w), he_maker = demo_maker,
     he_blank = \<lparr>ro_sourceID = 0, ro_sinkID = 0, ro_route = [], ro_name = []\<rparr>, he_garbage = False, he_connection = (\<lambda>_ _. None),
     he_system = (\<lambda>_. None), he_systemProperties = (\<lambda>_. (E_OK, [])),
     he_point = (\<lambda>ty i _. if ty = ET_SINK \<and> i = 7 then Some demo_sink else None),
     he_domain = (\<lambda>_ _. None), he_domainByName = (\<lambda>_ _. None), he_gateway = (\<lambda>_ _. None), he_domainConfig = (\<lambda>_. None),
     he_domainConfigs = [], he_pointConfig = (\<lambda>_ _. None), he_gatewayConfig = (\<lambda>_. None), he_createDomain = (\<lambda>_ w. (None, w)),
     he_createPoint = (\<lambda>_ _ w. (None, w)), he_createGateway = (\<lambda>_ w. (None, w)), he_attachToClass = (\<lambda>_ _ _ w. (E_OK, w)),
     he_removeObservers = (\<lambda>_ _ w. w), he_destroy = (\<lambda>_ _ w. (E_OK, w)), he_removeDB = (\<lambda>_ _ w. (E_OK, w)),
     he_listOfDomain = (\<lambda>_ _ _. (E_OK, [])), he_pointNameDB = (\<lambda>_ _ _. (E_UNKNOWN, [])), he_connectionInfoDB = (\<lambda>_ _. E_OK),
     he_pointDB = (\<lambda>_ _. \<lparr>pd_listSoundProperties = [], pd_listConnectionFormats = [], pd_listMainSoundProperties = []\<rparr>),
     he_changePointDB = (\<lambda>_ _ _ _ w. (E_OK, w)), he_pointClassID = (\<lambda>_ _. 0), he_changeGatewayDB = (\<lambda>_ _ _ _ w. (E_OK, w)),
     he_changeAvailabilityDB = (\<lambda>_ _ _ w. w), he_changeDomainStateDB = (\<lambda>_ _ w. w), he_setInterruptState = (\<lambda>_ _ w. w),
     he_notificationDataUpdate = (\<lambda>_ _ _ w. w), he_domainsDB = (\<lambda>_. (E_OK, [])), he_enterDomainDB = (\<lambda>_ w. w),
     he_crossfaderDB = (\<lambda>w. (E_OK, w)), he_reader = (\<lambda>_ _. (E_OK, None)), he_removeTimer = (\<lambda>w. w), he_notifyAsyncResult = (\<lambda>_ _ w. w)\<rparr>"

definition demo_link :: "('c, 'w) engine_link" where
  "demo_link = \<lparr>el_view = (\<lambda>_. demo_engine), el_domains = (\<lambda>_ _. 0), el_setDomains = (\<lambda>_ w. w), el_setListActions = (\<lambda>_ c w. (E_OK, c, w))\<rparr>"

definition demo_plugin :: "(unit option container \<times> (unit, unit option) action list \<times> (unit \<times> string list)) plugin" where
  "demo_plugin = \<lparr>pg_queue = tq_empty, pg_world = (root_new, [], ((), []))\<rparr>"



end
