(* ===== verification/Controller_Startup.thy ===== *)
theory Controller_Startup
  imports Controller_Hooks
begin

text \<open>
  The life cycle of the controller (\<open>CAmControllerPlugin.cpp\<close>): \<open>startupController\<close>, \<open>setControllerReady\<close>,
  \<open>confirmRoutingReady\<close>, and the end of the run-down, \<open>finalizeRundown\<close>. \<open>startup_env\<close> is what these call
  besides the hooks' environment: the creation of the timer, the policy engine and the elements, and the
  persistence, whose data is a part of the world. Objects are allocated without failure.
\<close>

section \<open>Start\<close>

record 'w startup_env =
  su_socket :: "am_Error_e \<times> bool"   \<comment> \<open>\<open>getSocketHandler\<close>, and whether there is one\<close>
  su_startPolicy :: "'w \<Rightarrow> am_Error_e \<times> 'w"
  su_debug :: bool
  su_systemProperties :: "(am_SystemProperty_s \<times> bool) list"
  su_llInfo :: am_propertyValue_t
  su_classes :: "gc_Class_config list"
  su_default :: "gc_Class_config"   \<comment> \<open>the default class; all but its name and type is not initialised\<close>
  su_createSystem :: "system_element \<Rightarrow> 'w \<Rightarrow> bool \<times> 'w"
  su_createClass :: "class_element \<Rightarrow> 'w \<Rightarrow> bool \<times> 'w"
  su_classStore :: "'w \<Rightarrow> class_store"
  su_setClassStore :: "class_store \<Rightarrow> 'w \<Rightarrow> 'w"
  su_open :: "'w \<Rightarrow> am_Error_e \<times> 'w"
  su_close :: "'w \<Rightarrow> 'w"
  su_reader :: "'w reader"
  su_writer :: "'w writer"
  su_setReady :: "'w \<Rightarrow> 'w"   \<comment> \<open>\<open>setCommandReady\<close>, \<open>setRoutingReady\<close>\<close>
  su_setRundown :: "'w \<Rightarrow> 'w"   \<comment> \<open>\<open>setRoutingRundown\<close>, \<open>setCommandRundown\<close>\<close>
  su_release :: "'w \<Rightarrow> 'w"   \<comment> \<open>of the instances, elements and interfaces\<close>
  su_confirmRundown :: "am_Error_e \<Rightarrow> 'w \<Rightarrow> 'w"
  su_timerRunning :: "'w \<Rightarrow> bool"
  su_setTimer :: "32 word \<Rightarrow> 'w \<Rightarrow> 'w"
  su_connectionString :: "'w \<Rightarrow> class_element \<Rightarrow> string"
  su_system :: "'w \<Rightarrow> system_element option"

fun create_classes :: "'w startup_env \<Rightarrow> gc_Class_config list \<Rightarrow> 'w \<Rightarrow> bool \<times> 'w" where
  "create_classes U [] w = (True, w)"
| "create_classes U (c # cs) w =
     (case su_createClass U (ce_new c) w of (ok, w') \<Rightarrow> if ok then create_classes U cs w' else (False, w'))"

definition create_default_class :: "'w startup_env \<Rightarrow> 'w \<Rightarrow> 'w" where
  "create_default_class U w =
     (if su_classStore U w ''default'' = None
      then snd (su_createClass U (ce_new ((su_default U)\<lparr>cc_name := ''default'', cc_type := C_PLAYBACK\<rparr>)) w) else w)"

text \<open>Each step of the restoring goes on when the one before it failed.\<close>

definition restore_all :: "'w startup_env \<Rightarrow> 'w plugin \<Rightarrow> 'w plugin option" where
  "restore_all U s =
     (let restored = (\<lambda>f s. s\<lparr>pg_world := su_setClassStore U (snd (f (pg_world s) (su_classStore U (pg_world s)))) (pg_world s)\<rparr>);
          s1 = restored (restoreVolumefromPersistency (su_reader U)) s;
          s2 = restored (restoreMainSoundPropertyfromPersistency (su_reader U)) s1
      in case restoreSystemPropertyfromPersistence (su_reader U) (pg_world s2) (pg_queue s2) of
           None \<Rightarrow> None
         | Some (_, q) \<Rightarrow> Some (restored (restoreMainConnectionVolumefromPersistency (su_reader U)) (s2\<lparr>pg_queue := q\<rparr>)))"

definition startupController :: "'w loop \<Rightarrow> 'w startup_env \<Rightarrow> 'w plugin \<Rightarrow> (am_Error_e \<times> 'w plugin) option" where
  "startupController iterate U s =
     (if \<not> snd (su_socket U) \<or> fst (su_socket U) \<noteq> E_OK then Some (E_NOT_POSSIBLE, s)
      else (case on_world (su_startPolicy U) s of (r, s1) \<Rightarrow>
        if r \<noteq> E_OK then Some (E_NOT_POSSIBLE, s1)
        else (case on_world (su_createSystem U (sy_new (su_llInfo U) (\<not> su_debug U) (su_systemProperties U))) s1 of (ok, s2) \<Rightarrow>
          if \<not> ok then Some (E_NOT_POSSIBLE, s2)
          else (case on_world (create_classes U (su_classes U)) s2 of (ok, s3) \<Rightarrow>
            if \<not> ok then Some (E_NOT_POSSIBLE, s3)
            else (case on_world (su_open U) (to_world (create_default_class U) s3) of (r, s4) \<Rightarrow>
              map_option (\<lambda>s. (E_OK, iterate s))
                (if r \<noteq> E_OK then Some s4 else map_option (to_world (su_close U)) (restore_all U s4)))))))"

text \<open>The domains the controller registers itself, each with a trigger and a run of the main loop.\<close>

fun register_static_domains :: "'w loop \<Rightarrow> 'w hook_env \<Rightarrow> gc_Domain_info list \<Rightarrow> 'w plugin \<Rightarrow> 'w plugin" where
  "register_static_domains iterate H [] s = s"
| "register_static_domains iterate H (d # ds) s =
     register_static_domains iterate H ds
       (if dm_registrationType d = REG_CONTROLLER \<and> dm_name d \<noteq> [] then
          (case on_world (he_createDomain H d) s of
             (None, s') \<Rightarrow> s'
           | (Some i, s') \<Rightarrow> launch iterate SYSTEM_REGISTER_DOMAIN (RegisterElementTrigger (dm_name d) E_OK) s')
        else s)"

definition setControllerReady :: "'w loop \<Rightarrow> 'w hook_env \<Rightarrow> 'w startup_env \<Rightarrow> 'w plugin \<Rightarrow> 'w plugin" where
  "setControllerReady iterate H U s = to_world (su_setReady U) (register_static_domains iterate H (he_domainConfigs H) s)"

text \<open>
  The timeout is a signed 16 bit property, passed as an unsigned 32 bit number: a negative value becomes a
  very long time. Every entry of the type starts the timer anew.
\<close>

definition confirmRoutingReady :: "'w hook_env \<Rightarrow> 'w startup_env \<Rightarrow> am_Error_e \<Rightarrow> 'w plugin \<Rightarrow> 'w plugin" where
  "confirmRoutingReady H U err s =
     (if err \<noteq> E_OK \<or> su_timerRunning U (pg_world s) then s
      else foldl (\<lambda>s p. if pr_type p = SYP_REGISTRATION_DOMAIN_TIMEOUT then to_world (su_setTimer U (word_of_int (sint (pr_value p)))) s else s) s
        (list_if_ok (he_systemProperties H (pg_world s))))"

section \<open>Run-down\<close>

text \<open>What is written at the end, in this order; results are ignored.\<close>

definition store_all :: "'w startup_env \<Rightarrow> 'w \<Rightarrow> 'w" where
  "store_all U w0 =
     (let names = map cc_name (su_classes U); st = su_classStore U w0;
          w1 = snd (storeMainConnectionVolumetoPersistency (su_writer U) st names w0);
          w2 = snd (storeVolumetoPersistency (su_writer U) st names w1);
          w3 = snd (storeMainConnectiontoPersistency (su_writer U) (su_connectionString U w0) st names w2);
          w4 = snd (storeMainSoundPropertytoPersistence (su_writer U) st names w3)
      in snd (storeSystemPropertytoPersistence (su_writer U) (su_system U w0) w4))"

definition finalizeRundown :: "'w startup_env \<Rightarrow> 16 word \<Rightarrow> 'w plugin \<Rightarrow> 'w plugin" where
  "finalizeRundown U amSignal s =
     to_world (su_confirmRundown U (if amSignal = 2 then E_UNKNOWN else E_OK))
       (to_world (su_release U) (to_world (su_close U) (to_world (su_setRundown U) (to_world (store_all U) s))))"

end
