(* ===== verification/Persistence_Roundtrip.thy ===== *)
theory Persistence_Roundtrip
  imports Controller_Persistence
begin

text \<open>
  What survives a restart. The persistence is used by the contract of its interface, which
  \<open>CAmPersistenceDefault\<close> keeps: a key that was written reads back, and other keys are not touched. Over it
  the volumes of classes and of main connections come back as they were stored.
\<close>

section \<open>The contract of the persistence\<close>

locale persistence_store =
  fixes ok :: "'p \<Rightarrow> bool"
    and rd :: "string \<Rightarrow> 'p \<Rightarrow> am_Error_e \<times> string option"
    and wr :: "string \<Rightarrow> string \<Rightarrow> 'p \<Rightarrow> am_Error_e \<times> 'p"
  assumes wr_ok: "ok p \<Longrightarrow> fst (wr k v p) = E_OK \<and> ok (snd (wr k v p))"
    and rd_same: "ok p \<Longrightarrow> rd k (snd (wr k v p)) = (E_OK, Some v)"
    and rd_other: "ok p \<Longrightarrow> k' \<noteq> k \<Longrightarrow> rd k' (snd (wr k v p)) = rd k' p"
begin

lemma read_written: "ok p \<Longrightarrow> read_text rd k (snd (wr k v p)) = (E_OK, v)"
  by (simp add: read_text_def rd_same)

lemma read_after_store:
  assumes "ok p" "class_elements st classes = Some cs"
  shows "read_text rd key (snd (store_texts wr key f st classes p)) = (E_OK, concat (map f cs))"
  using assms by (simp add: store_texts_def read_written)

lemma stores_commute:
  assumes "ok p" "class_elements st classes = Some cs" "class_elements st' classes' = Some cs'" "key \<noteq> key'"
  shows "read_text rd key (snd (store_texts wr key' g st' classes' (snd (store_texts wr key f st classes p))))
    = (E_OK, concat (map f cs))"
  using assms by (simp add: store_texts_def read_text_def rd_other rd_same wr_ok)

end

interpretation pd: persistence_store om_ok pd_read pd_write
proof
  fix p :: file_data and k v
  assume "om_ok p"
  then show "fst (pd_write k v p) = E_OK \<and> om_ok (snd (pd_write k v p))"
    by (auto simp: pd_write_def)
next
  fix p :: file_data and k v
  assume "om_ok p"
  then show "pd_read k (snd (pd_write k v p)) = (E_OK, Some v)"
    by (simp add: pd_read_def pd_write_def om.lookup_ins)
next
  fix p :: file_data and k k' :: string and v
  assume "om_ok p" "k' \<noteq> k"
  then show "pd_read k' (snd (pd_write k v p)) = pd_read k' p"
    by (simp add: pd_read_def pd_write_def om.lookup_ins)
qed


section \<open>Texts of named values\<close>

type_synonym volume_table = "string \<times> (string \<times> 16 word) list"

definition value_piece :: "char \<Rightarrow> string \<times> 16 word \<Rightarrow> string" where
  "value_piece d = (\<lambda>(nm, v). nm @ d # dec (sint v) @ '']'')"

definition table_text :: "char \<Rightarrow> volume_table \<Rightarrow> string" where
  "table_text d = (\<lambda>(nm, vs). if nm \<noteq> [] \<and> vs \<noteq> [] then braced nm (join (CHR ''['') (map (value_piece d) vs)) else [])"

definition table_ok :: "char \<Rightarrow> volume_table \<Rightarrow> bool" where
  "table_ok d = (\<lambda>(nm, vs). nm \<noteq> [] \<and> set nm \<inter> {CHR 0x7B, CHR '',''} = {}
     \<and> list_all (\<lambda>(k, v). k \<noteq> [] \<and> set k \<inter> {CHR 0x7B, CHR '','', CHR ''['', d} = {}) vs)"

lemma join_values: "concat (map (\<lambda>(k, v). ''['' @ k @ d # dec (sint v) @ '']'') vs) = join (CHR ''['') (map (value_piece d) vs)"
  by (induction vs) (auto simp: value_piece_def)

lemma getVolumeString_table: "getVolumeString c = table_text (CHR '':'') (ce_mClassLastVolume c)"
  using join_values[of "CHR '':''"] by (cases "ce_mClassLastVolume c") (simp add: getVolumeString_def table_text_def)

lemma getLastMainConnectionsVolumeString_table:
  "getLastMainConnectionsVolumeString c = table_text (CHR ''='') (ce_mLastMainConnectionsVolume c)"
  using join_values[of "CHR ''=''"] by (cases "ce_mLastMainConnectionsVolume c") (simp add: getLastMainConnectionsVolumeString_def table_text_def)

abbreviation separator :: "char \<Rightarrow> bool" where
  "separator d \<equiv> d = CHR '':'' \<or> d = CHR ''=''"

lemma named_value_piece:
  assumes "separator d" "nm \<noteq> []" "d \<notin> set nm" "d \<notin> set e"
  shows "named_value d (value_piece d (nm, v) @ e) = Some (nm, v)"
proof -
  have "split_ok d (nm @ d # dec (sint v) @ CHR '']'' # e) = Some [nm, dec (sint v) @ CHR '']'' # e]"
    using split_two_join[of d nm "dec (sint v) @ CHR '']'' # e"] assms
    by (auto simp: split_two_def split: option.splits list.splits)
  then show ?thesis
    using assms(2) by (simp add: named_value_def value_piece_def atoi_volume)
qed

lemma named_values:
  assumes "separator d" "list_all (\<lambda>(k, v). k \<noteq> [] \<and> d \<notin> set k) vs" "vs \<noteq> []"
  shows "List.map_filter (named_value d) (butlast (map (value_piece d) vs) @ [last (map (value_piece d) vs) @ [CHR 0x7D]]) = vs"
proof -
  have all: "List.map_filter (named_value d) (map (value_piece d) ws) = ws"
    if "list_all (\<lambda>(k, v). k \<noteq> [] \<and> d \<notin> set k) ws" for ws
    using that named_value_piece[OF assms(1), of _ "[]"] by (induction ws) (auto simp: map_filter_simps)
  obtain ws w where vs: "vs = ws @ [w]"
    using assms(3) by (cases vs rule: rev_cases) auto
  have "d \<notin> set [CHR 0x7D]" using assms(1) by auto
  then show ?thesis
    using assms(2) all[of ws] named_value_piece[OF assms(1), of "fst w" "[CHR 0x7D]" "snd w"]
    by (simp add: vs map_filter_append split_beta map_filter_simps)
qed

definition table_piece :: "char \<Rightarrow> volume_table \<Rightarrow> string" where
  "table_piece d = (\<lambda>(nm, vs). nm @ CHR '','' # join (CHR ''['') (map (value_piece d) vs) @ [CHR 0x7D])"

lemma value_piece_chars:
  assumes "separator d" "table_ok d (nm, vs)" "x \<in> {CHR 0x7B, CHR '',''}"
  shows "x \<notin> set (join (CHR ''['') (map (value_piece d) vs))"
proof
  assume "x \<in> set (join (CHR ''['') (map (value_piece d) vs))"
  then show False
  proof (rule set_joinE)
    assume "x = CHR ''[''" then show False using assms(3) by auto
  next
    fix l assume "l \<in> set (map (value_piece d) vs)" and x: "x \<in> set l"
    then obtain k v where kv: "(k, v) \<in> set vs" "l = value_piece d (k, v)" by auto
    have "x \<notin> set k" using assms(2,3) kv(1) by (auto simp: table_ok_def list_all_iff)
    moreover have "x \<notin> set (dec (sint v))" "x \<noteq> d" using assms(1,3) by auto
    ultimately show False using x assms(3) unfolding kv(2) value_piece_def by auto
  qed
qed

lemma split_table_texts:
  assumes "separator d" "list_all (\<lambda>t. table_ok d t \<and> snd t \<noteq> []) ts" "ts \<noteq> []"
  shows "split_ok (CHR 0x7B) (concat (map (table_text d) ts)) = Some (map (table_piece d) ts)"
proof -
  have "concat (map (table_text d) ts) = join (CHR 0x7B) (map (table_piece d) ts)"
    using assms(2) by (induction ts) (auto simp: table_text_def table_piece_def braced_def table_ok_def)
  moreover have "CHR 0x7B \<notin> set (table_piece d t)" if "t \<in> set ts" for t
    using assms(2) that value_piece_chars[OF assms(1), of "fst t" "snd t" "CHR 0x7B"]
    by (cases t) (auto simp: table_piece_def list_all_iff table_ok_def)
  ultimately show ?thesis
    using assms(3) by (auto simp: table_piece_def intro!: split_ok_join)
qed

lemma split_piece_pairs:
  assumes "separator d" "table_ok d (nm, vs)"
  shows "split_pairs (CHR '','') (table_piece d (nm, vs)) = [(nm, join (CHR ''['') (map (value_piece d) vs) @ [CHR 0x7D])]"
proof -
  have "split_two (CHR '','') (table_piece d (nm, vs)) = Some (nm, join (CHR ''['') (map (value_piece d) vs) @ [CHR 0x7D])"
    using assms value_piece_chars[OF assms, of "CHR '',''"]
    unfolding table_piece_def prod.case by (intro split_two_join) (auto simp: table_ok_def)
  then show ?thesis
    by (auto simp: split_two_def split_pairs_def split: option.splits list.splits)
qed

lemma split_values:
  assumes "separator d" "table_ok d (nm, vs)" "vs \<noteq> []"
  shows "\<exists>es. split_ok (CHR ''['') (join (CHR ''['') (map (value_piece d) vs) @ [CHR 0x7D]) = Some es
    \<and> List.map_filter (named_value d) es = vs"
proof (intro exI conjI)
  show "split_ok (CHR ''['') (join (CHR ''['') (map (value_piece d) vs) @ [CHR 0x7D])
      = Some (butlast (map (value_piece d) vs) @ [last (map (value_piece d) vs) @ [CHR 0x7D]])"
    using assms by (intro split_ok_join_close) (auto simp: value_piece_def table_ok_def list_all_iff)
  show "List.map_filter (named_value d) (butlast (map (value_piece d) vs) @ [last (map (value_piece d) vs) @ [CHR 0x7D]]) = vs"
    using assms by (intro named_values) (auto simp: table_ok_def list_all_iff)
qed

lemma class_volumes_of_piece:
  "\<lbrakk>table_ok (CHR '':'') (nm, vs); vs \<noteq> []\<rbrakk> \<Longrightarrow> last_class_volumes (table_piece (CHR '':'') (nm, vs)) = [(nm, vs)]"
  using split_piece_pairs[of "CHR '':''" nm vs] split_values[of "CHR '':''" nm vs]
  by (auto simp: last_class_volumes_def map_filter_simps)

lemma connection_volumes_of_piece:
  "\<lbrakk>table_ok (CHR ''='') (nm, vs); vs \<noteq> []\<rbrakk>
     \<Longrightarrow> last_connection_volumes (split_pairs (CHR '','') (table_piece (CHR ''='') (nm, vs))) [] = [(nm, vs)]"
  using split_piece_pairs[of "CHR ''=''" nm vs] split_values[of "CHR ''=''" nm vs]
  by (auto simp: Let_def)

section \<open>Volumes survive a restart\<close>

definition with_class_volumes :: "volume_table list \<Rightarrow> class_store \<Rightarrow> class_store" where
  "with_class_volumes ts st = foldl (\<lambda>st t. st(fst t := map_option (\<lambda>c. c\<lparr>ce_mClassLastVolume := t\<rparr>) (st (fst t)))) st ts"

lemma restore_volumes_all:
  "list_all (\<lambda>t. st (fst t) \<noteq> None) ts \<Longrightarrow> restore_volumes ts st = (E_OK, with_class_volumes ts st)"
proof (induction ts arbitrary: st)
  case Nil
  then show ?case by (simp add: with_class_volumes_def)
next
  case (Cons t ts)
  obtain nm vs where t: "t = (nm, vs)" by (cases t)
  obtain c where c: "st nm = Some c" using Cons.prems t by auto
  have "list_all (\<lambda>t. (st(nm \<mapsto> c\<lparr>ce_mClassLastVolume := (nm, vs)\<rparr>)) (fst t) \<noteq> None) ts"
    using Cons.prems by (auto simp: list_all_iff)
  from Cons.IH[of "st(nm \<mapsto> c\<lparr>ce_mClassLastVolume := (nm, vs)\<rparr>)", OF this] show ?case
    by (simp add: t c restoreVolume_def with_class_volumes_def del: fun_upd_apply) (simp add: c)?
qed

lemma with_class_volumes_at:
  "distinct (map fst ts) \<Longrightarrow> with_class_volumes ts st nm =
     (case map_of ts nm of None \<Rightarrow> st nm | Some vs \<Rightarrow> map_option (\<lambda>c. c\<lparr>ce_mClassLastVolume := (nm, vs)\<rparr>) (st nm))"
proof (induction ts arbitrary: st)
  case Nil
  then show ?case by (simp add: with_class_volumes_def)
next
  case (Cons t ts)
  obtain k vs where t: "t = (k, vs)" by (cases t)
  have step: "with_class_volumes ((k, vs) # ts) st
      = with_class_volumes ts (st(k := map_option (\<lambda>c. c\<lparr>ce_mClassLastVolume := (k, vs)\<rparr>) (st k)))"
    by (simp add: with_class_volumes_def)
  have "map_of ts k = None" using Cons.prems by (auto simp: map_of_eq_None_iff t)
  then show ?case
    unfolding t step using Cons by (auto simp: t split: option.splits)
qed

lemma class_elements_Some: "class_elements st nms = Some cs \<Longrightarrow> map Some cs = map st nms"
  by (induction nms arbitrary: cs) (auto split: option.splits)

lemma concat_filter_texts:
  "concat (map (\<lambda>c. if P c then table_text d (t c) else []) cs) = concat (map (table_text d) (map t (filter (\<lambda>c. P c \<and> snd (t c) \<noteq> []) cs)))"
  by (induction cs) (auto simp: table_text_def split_beta)

text \<open>
  class volumes survive a restart: written to the persistence by the classes that keep volumes, with any
  of the other texts written afterwards, they are read back into the elements of a fresh start. Each such
  class has exactly the volumes it had, and no other class changes.
\<close>

theorem class_volumes_survive_restart:
  assumes "om_ok p" "class_elements st classes = Some cs" "key \<noteq> ''lastClassVolume''"
    and "ts = map ce_mClassLastVolume (filter (\<lambda>c. ce_isVolumePersistencySupported c \<and> snd (ce_mClassLastVolume c) \<noteq> []) cs)"
    and "ts \<noteq> []" "distinct (map fst ts)" "list_all (table_ok (CHR '':'')) ts" "list_all (\<lambda>t. st' (fst t) \<noteq> None) ts"
  shows "restoreVolumefromPersistency pd_read
      (snd (store_texts pd_write key f st classes (snd (storeVolumetoPersistency pd_write st classes p)))) st'
    = (E_OK, \<lambda>nm. case map_of ts nm of None \<Rightarrow> st' nm | Some vs \<Rightarrow> map_option (\<lambda>c. c\<lparr>ce_mClassLastVolume := (nm, vs)\<rparr>) (st' nm))"
proof -
  have texts: "concat (map (\<lambda>c. if ce_isVolumePersistencySupported c then getVolumeString c else []) cs)
      = concat (map (table_text (CHR '':'')) ts)"
    unfolding assms(4) getVolumeString_table by (rule concat_filter_texts)
  have nonempty: "list_all (\<lambda>t. table_ok (CHR '':'') t \<and> snd t \<noteq> []) ts"
    using assms(7) unfolding assms(4) by (auto simp: list_all_iff)
  have "concat (map last_class_volumes (map (table_piece (CHR '':'')) us)) = us"
    if "list_all (\<lambda>t. table_ok (CHR '':'') t \<and> snd t \<noteq> []) us" for us
    using that by (induction us) (auto simp: class_volumes_of_piece)
  note pieces = this[OF nonempty]
  have "read_text pd_read ''lastClassVolume'' (snd (store_texts pd_write key f st classes (snd (storeVolumetoPersistency pd_write st classes p))))
      = (E_OK, concat (map (table_text (CHR '':'')) ts))"
    unfolding storeVolumetoPersistency_def texts[symmetric]
    using assms(3) by (intro pd.stores_commute[OF assms(1,2,2)]) auto
  then show ?thesis
    using split_table_texts[OF _ nonempty assms(5)] pieces
    by (simp add: restoreVolumefromPersistency_def restore_volumes_all[OF assms(8)] with_class_volumes_at[OF assms(6)] fun_eq_iff)
qed


definition demo_class :: "string \<Rightarrow> (string \<times> 16 word) list \<Rightarrow> class_element" where
  "demo_class nm vs = (ce_new \<lparr>cc_classID = 1, cc_name = nm, cc_type = C_PLAYBACK, cc_listTopologies = [], cc_listClassProperties = [],
     cc_isVolumePersistencySupported = True, cc_defaultVolume = 0\<rparr>)\<lparr>ce_mClassLastVolume := (nm, vs)\<rparr>"

theorem class_volumes_survive_restart_witness:
  "restoreVolumefromPersistency pd_read
      (snd (store_texts pd_write ''lastMainConnection'' (\<lambda>c. []) [''BASE'' \<mapsto> demo_class ''BASE'' [(''Sink1'', - 30)], ''PHONE'' \<mapsto> demo_class ''PHONE'' []]
        [''BASE'', ''PHONE''] (snd (storeVolumetoPersistency pd_write
          [''BASE'' \<mapsto> demo_class ''BASE'' [(''Sink1'', - 30)], ''PHONE'' \<mapsto> demo_class ''PHONE'' []] [''BASE'', ''PHONE''] []))))
      [''BASE'' \<mapsto> demo_class ''BASE'' []]
    = (E_OK, \<lambda>nm. case map_of [(''BASE'', [(''Sink1'', - 30)])] nm of None \<Rightarrow> [''BASE'' \<mapsto> demo_class ''BASE'' []] nm
        | Some vs \<Rightarrow> map_option (\<lambda>c. c\<lparr>ce_mClassLastVolume := (nm, vs)\<rparr>) ([''BASE'' \<mapsto> demo_class ''BASE'' []] nm))"
  by (rule class_volumes_survive_restart[where cs = "[demo_class ''BASE'' [(''Sink1'', - 30)], demo_class ''PHONE'' []]"])
    (simp_all add: demo_class_def ce_new_def table_ok_def)

end
