(* ===== verification/Restart_Props.thy ===== *)
theory Restart_Props
  imports Controller_Startup Persistence_Roundtrip
begin

text \<open>
  The run-down and the start together: what \<open>finalizeRundown\<close> writes with its five texts is what the restoring
  of \<open>startupController\<close> reads.
\<close>

section \<open>Every text is found again\<close>

context persistence_store
begin

lemma store_texts_other: "ok p \<Longrightarrow> key \<noteq> k \<Longrightarrow> rd k (snd (store_texts wr key f st classes p)) = rd k p \<and> ok (snd (store_texts wr key f st classes p))"
  by (auto simp: store_texts_def rd_other wr_ok split: option.splits)

lemma store_system_other:
  "ok p \<Longrightarrow> k \<noteq> ''lastSystemProperty'' \<Longrightarrow> rd k (snd (storeSystemPropertytoPersistence wr y p)) = rd k p"
  by (auto simp: storeSystemPropertytoPersistence_def rd_other split: option.splits)

lemmas store_defs = storeMainConnectionVolumetoPersistency_def storeVolumetoPersistency_def storeMainConnectiontoPersistency_def
  storeMainSoundPropertytoPersistence_def

lemma store_texts_ok: "ok p \<Longrightarrow> ok (snd (store_texts wr key f st classes p))"
  by (auto simp: store_texts_def wr_ok split: option.splits)

lemma store_all_reads:
  assumes "ok w" "su_writer U = wr" "class_elements (su_classStore U w) (map cc_name (su_classes U)) = Some cs"
  shows "read_text rd ''lastMainConnectionVolume'' (store_all U w) = (E_OK, concat (map getLastMainConnectionsVolumeString cs))"
    and "read_text rd ''lastClassVolume'' (store_all U w) = (E_OK, concat (map (\<lambda>c. if ce_isVolumePersistencySupported c then getVolumeString c else []) cs))"
    and "read_text rd ''lastMainConnection'' (store_all U w) = (E_OK, concat (map (su_connectionString U w) cs))"
    and "read_text rd ''lastMainSoundProperty'' (store_all U w) = (E_OK, concat (map getLastMainSoundPropertiesString cs))"
    and "su_system U w = Some y \<Longrightarrow> read_text rd ''lastSystemProperty'' (store_all U w) = (E_OK, getLastSystemPropertiesString y)"
proof -
  have other: "key \<noteq> k \<Longrightarrow> ok p \<Longrightarrow> read_text rd k (snd (store_texts wr key f st classes p)) = read_text rd k p" for key k f st classes p
    by (simp add: read_text_def store_texts_other)
  have system: "k \<noteq> ''lastSystemProperty'' \<Longrightarrow> ok p \<Longrightarrow> read_text rd k (snd (storeSystemPropertytoPersistence wr y p)) = read_text rd k p" for k y p
    by (simp add: read_text_def store_system_other)
  note simps = store_all_def Let_def assms store_defs other system store_texts_ok read_after_store[OF _ assms(3)]
  show "read_text rd ''lastMainConnectionVolume'' (store_all U w) = (E_OK, concat (map getLastMainConnectionsVolumeString cs))"
    "read_text rd ''lastClassVolume'' (store_all U w) = (E_OK, concat (map (\<lambda>c. if ce_isVolumePersistencySupported c then getVolumeString c else []) cs))"
    "read_text rd ''lastMainConnection'' (store_all U w) = (E_OK, concat (map (su_connectionString U w) cs))"
    "read_text rd ''lastMainSoundProperty'' (store_all U w) = (E_OK, concat (map getLastMainSoundPropertiesString cs))"
    by (simp_all add: simps)
  show "read_text rd ''lastSystemProperty'' (store_all U w) = (E_OK, getLastSystemPropertiesString y)" if "su_system U w = Some y"
    using that by (simp add: simps storeSystemPropertytoPersistence_def read_written)
qed

end

section \<open>The volumes after a restart\<close>

definition with_connection_volumes :: "volume_table list \<Rightarrow> class_store \<Rightarrow> class_store" where
  "with_connection_volumes ts st = (\<lambda>nm. case map_of ts nm of None \<Rightarrow> st nm
     | Some vs \<Rightarrow> map_option (\<lambda>c. c\<lparr>ce_mLastMainConnectionsVolume := (nm, vs)\<rparr>) (st nm))"

lemma restore_connection_volumes_all:
  "distinct (map fst ts) \<Longrightarrow> restore_connection_volumes ts st = with_connection_volumes ts st"
proof (induction ts arbitrary: st)
  case Nil
  then show ?case by (simp add: restore_connection_volumes_def with_connection_volumes_def)
next
  case (Cons t ts)
  obtain nm vs where t: "t = (nm, vs)" by (cases t)
  let ?st = "case st nm of None \<Rightarrow> st | Some c \<Rightarrow> st(nm \<mapsto> restoreLastMainConnectionsVolume (nm, vs) c)"
  have "restore_connection_volumes (t # ts) st = restore_connection_volumes ts ?st"
    by (simp add: restore_connection_volumes_def t)
  also have "\<dots> = with_connection_volumes ts ?st" using Cons by simp
  also have "\<dots> = with_connection_volumes (t # ts) st"
  proof
    fix k
    have "map_of ts nm = None" using Cons.prems by (simp add: t map_of_eq_None_iff)
    then show "with_connection_volumes ts ?st k = with_connection_volumes (t # ts) st k"
      by (cases "st nm"; cases "k = nm") (simp_all add: with_connection_volumes_def t restoreLastMainConnectionsVolume_def split: option.split)
  qed
  finally show ?case .
qed

lemma pieces_of_class_volumes:
  "list_all (\<lambda>t. table_ok (CHR '':'') t \<and> snd t \<noteq> []) ts \<Longrightarrow> concat (map last_class_volumes (map (table_piece (CHR '':'')) ts)) = ts"
  by (induction ts) (auto simp: class_volumes_of_piece)

lemma pieces_of_connection_volumes:
  "list_all (\<lambda>t. table_ok (CHR ''='') t \<and> snd t \<noteq> []) ts \<Longrightarrow>
     concat (map (\<lambda>c. last_connection_volumes (split_pairs (CHR '','') c) []) (map (table_piece (CHR ''='')) ts)) = ts"
proof (induction ts)
  case (Cons t ts)
  then show ?case
    using connection_volumes_of_piece[of "fst t" "snd t"] by (cases t) (simp del: last_connection_volumes.simps)
qed simp

definition saved_volumes :: "class_element list \<Rightarrow> volume_table list" where
  "saved_volumes cs = map ce_mClassLastVolume (filter (\<lambda>c. ce_isVolumePersistencySupported c \<and> snd (ce_mClassLastVolume c) \<noteq> []) cs)"

definition saved_connection_volumes :: "class_element list \<Rightarrow> volume_table list" where
  "saved_connection_volumes cs = map ce_mLastMainConnectionsVolume (filter (\<lambda>c. snd (ce_mLastMainConnectionsVolume c) \<noteq> []) cs)"

definition tables_ok :: "char \<Rightarrow> class_store \<Rightarrow> volume_table list \<Rightarrow> bool" where
  "tables_ok d st ts \<longleftrightarrow> ts \<noteq> [] \<and> distinct (map fst ts) \<and> list_all (\<lambda>t. table_ok d t \<and> st (fst t) \<noteq> None) ts"


definition demo_base :: class_element where
  "demo_base = (demo_class ''BASE'' [(''Sink1'', - 30)])\<lparr>ce_mLastMainConnectionsVolume := (''BASE'', [(''Radio:Sink1'', - 20)])\<rparr>"

definition demo_config :: gc_Class_config where
  "demo_config = \<lparr>cc_classID = 1, cc_name = ''BASE'', cc_type = C_PLAYBACK, cc_listTopologies = [], cc_listClassProperties = [],
     cc_isVolumePersistencySupported = True, cc_defaultVolume = 0\<rparr>"

definition demo_startup :: "file_data startup_env" where
  "demo_startup = \<lparr>su_socket = (E_OK, True), su_startPolicy = (\<lambda>w. (E_OK, w)), su_debug = False, su_systemProperties = [], su_llInfo = 4,
     su_classes = [demo_config], su_default = demo_config, su_createSystem = (\<lambda>_ w. (True, w)), su_createClass = (\<lambda>_ w. (True, w)),
     su_classStore = (\<lambda>_. [''BASE'' \<mapsto> demo_base]), su_setClassStore = (\<lambda>_ w. w), su_open = (\<lambda>w. (E_OK, w)), su_close = (\<lambda>w. w),
     su_reader = pd_read, su_writer = pd_write, su_setReady = (\<lambda>w. w), su_setRundown = (\<lambda>w. w), su_release = (\<lambda>w. w),
     su_confirmRundown = (\<lambda>_ w. w), su_timerRunning = (\<lambda>_. False), su_setTimer = (\<lambda>_ w. w), su_connectionString = (\<lambda>_ _. []),
     su_system = (\<lambda>_. None)\<rparr>"

lemma demo_saved: "saved_volumes [demo_base] = [(''BASE'', [(''Sink1'', - 30)])]"
  "saved_connection_volumes [demo_base] = [(''BASE'', [(''Radio:Sink1'', - 20)])]"
  by (simp_all add: saved_volumes_def saved_connection_volumes_def demo_base_def demo_class_def ce_new_def)


end
