(* ===== verification/Connection_Leaves.thy ===== *)
theory Connection_Leaves
  imports Main_Connection Handle_Store Action_Command
begin

text \<open>
  The leaf actions that make and break a connection: \<open>CAmRouteActionConnect\<close>,
  \<open>CAmRouteActionDisconnect\<close> and \<open>CAmSourceActionSetState\<close>, as instances of the leaf action
  framework. Route elements are shared between main connections, so they live in a store; a
  main connection holds their addresses. The daemon is a parameter.
\<close>

section \<open>State\<close>

text \<open>\<open>CAmRouteElement\<close> with the members of \<open>mRoutingElement\<close> that the actions read, and its connection identifier.\<close>

record link = route_element +
  ln_mID :: am_ID_t
  ln_sourceID :: am_ID_t
  ln_sinkID :: am_ID_t
  ln_domainID :: am_ID_t
  ln_connectionFormat :: "16 word"

definition ln_new :: "string \<Rightarrow> am_ID_t \<Rightarrow> am_ID_t \<Rightarrow> am_ID_t \<Rightarrow> 16 word \<Rightarrow> nat option \<Rightarrow> nat option \<Rightarrow> link" where
  "ln_new nm sourceID sinkID domainID format pSource pSink =
     \<lparr>re_mName = nm, re_mpSourceElement = pSource, re_mpSinkElement = pSink, re_mState = CS_DISCONNECTED,
      ln_mID = 0, ln_sourceID = sourceID, ln_sinkID = sinkID, ln_domainID = domainID, ln_connectionFormat = format\<rparr>"

definition ln_setState :: "am_ConnectionState_e \<Rightarrow> link \<Rightarrow> link" where
  "ln_setState s r = r\<lparr>re_mState := s\<rparr>"

definition ln_setID :: "am_ID_t \<Rightarrow> link \<Rightarrow> link" where
  "ln_setID i r = r\<lparr>ln_mID := i\<rparr>"

text \<open>
  The control interface of the daemon. A request answers with an error and the handle; the
  information about a source or sink is an error and what the out parameter holds.
\<close>

record 'w conn_daemon =
  cd_connect :: "16 word \<Rightarrow> am_ID_t \<Rightarrow> am_ID_t \<Rightarrow> am_Handle_s \<Rightarrow> 'w \<Rightarrow> am_Error_e \<times> am_Handle_s \<times> am_ID_t \<times> 'w"
  cd_disconnect :: "am_ID_t \<Rightarrow> am_Handle_s \<Rightarrow> 'w \<Rightarrow> am_Error_e \<times> am_Handle_s \<times> 'w"
  cd_setSourceState :: "am_ID_t \<Rightarrow> am_SourceState_e \<Rightarrow> am_Handle_s \<Rightarrow> 'w \<Rightarrow> am_Error_e \<times> am_Handle_s \<times> 'w"
  cd_abortAction :: "am_Handle_s \<Rightarrow> 'w \<Rightarrow> 'w"
  cd_getSourceInfoDB :: "am_ID_t \<Rightarrow> 'w \<Rightarrow> am_Error_e \<times> am_SourceState_e \<times> am_Availability_e"
  cd_getSinkAvailability :: "am_ID_t \<Rightarrow> 'w \<Rightarrow> am_Availability_e"
  cd_getConnectionInfoDB :: "'w state_db"
  cd_changeConnectionStateDB :: "am_ID_t \<Rightarrow> am_ConnectionState_e \<Rightarrow> 'w \<Rightarrow> 'w"
  cd_convertVolumeToMainVolume :: "route_point \<Rightarrow> am_volume_t \<Rightarrow> am_mainVolume_t"  \<comment> \<open>the sink's volume curve\<close>
  cd_changeSinkMainVolumeDB :: "am_mainVolume_t \<Rightarrow> am_ID_t \<Rightarrow> 'w \<Rightarrow> am_Error_e \<times> 'w"
  cd_removeMainConnectionDB :: "am_ID_t \<Rightarrow> 'w \<Rightarrow> am_Error_e \<times> 'w"
  cd_clock :: "'w \<Rightarrow> timespec \<times> 'w"

text \<open>
  The world of the connection actions: sources and sinks, routes, main connections with the
  addresses of their routes, the observers of routes and sources by kind, the handle store, the
  trigger queue, the next free address for an action, and the daemon. The main source and sink of a
  connection are what the factories find for the ends of its route.
\<close>

record 'w conn_env =
  cx_points :: points
  cx_links :: "nat \<Rightarrow> link"
  cx_conns :: "nat \<Rightarrow> main_connection"
  cx_list :: "nat list"                    \<comment> \<open>the factory's list, in chronological order\<close>
  cx_mainSource :: "nat \<Rightarrow> nat option"
  cx_mainSink :: "nat \<Rightarrow> nat option"
  cx_routes :: "nat \<Rightarrow> nat list"
  cx_routeObservers :: "nat \<Rightarrow> nat list"   \<comment> \<open>observers of a route of type \<open>ET_CONNECTION\<close>\<close>
  cx_sourceObservers :: "nat \<Rightarrow> nat list"  \<comment> \<open>observers of a source of type \<open>ET_ROUTE\<close>\<close>
  cx_handles :: "nat handle_store"
  cx_queue :: trigger_queue
  cx_next :: nat
  cx_daemon :: 'w

definition cx_link :: "nat \<Rightarrow> (link \<Rightarrow> link) \<Rightarrow> 'w conn_env \<Rightarrow> 'w conn_env" where
  "cx_link r f e = e\<lparr>cx_links := (cx_links e)(r := f (cx_links e r))\<rparr>"

definition source_getState :: "'w conn_daemon \<Rightarrow> route_point \<Rightarrow> 'w \<Rightarrow> am_SourceState_e" where
  "source_getState D p w =
     (case cd_getSourceInfoDB D (rp_mID p) w of
        (result, s, _) \<Rightarrow> if result = E_OK \<or> result = E_NO_CHANGE then s else SS_UNKNNOWN)"

definition source_getAvailability :: "'w conn_daemon \<Rightarrow> route_point \<Rightarrow> 'w \<Rightarrow> am_Availability_e" where
  "source_getAvailability D p w = snd (snd (cd_getSourceInfoDB D (rp_mID p) w))"

definition point_availability :: "'w conn_daemon \<Rightarrow> route_point \<Rightarrow> 'w \<Rightarrow> am_Availability_e" where
  "point_availability D p w =
     (if rp_mType p = ET_SOURCE then source_getAvailability D p w else cd_getSinkAvailability D (rp_mID p) w)"

section \<open>Requests\<close>

text \<open>
  A request for a route, with what an accepted one does: the handle is saved for this action, and
  the route moves to the state of the transition.
\<close>

record route_action =
  ra_mpRouteElement :: "nat option"
  ra_mHandle :: am_Handle_s

definition ra_new :: "nat option \<Rightarrow> route_action" where
  "ra_new pRoute = \<lparr>ra_mpRouteElement = pRoute, ra_mHandle = \<lparr>handleType = H_UNKNOWN, handle = 0\<rparr>\<rparr>"

definition request_connect :: "'w conn_daemon \<Rightarrow> nat \<Rightarrow> nat \<Rightarrow> route_action \<Rightarrow> 'w conn_env \<Rightarrow> int \<times> route_action \<times> 'w conn_env" where
  "request_connect D this r p e =
     (let ln = cx_links e r
      in case cd_connect D (ln_connectionFormat ln) (ln_sourceID ln) (ln_sinkID ln) (ra_mHandle p) (cx_daemon e) of
           (result, h, connectionID, w) \<Rightarrow>
             (let p' = p\<lparr>ra_mHandle := h\<rparr>; e' = e\<lparr>cx_daemon := w\<rparr>
              in if result = E_OK then
                   (E_WAIT_FOR_CHILD_COMPLETION, p',
                    cx_link r (ln_setState CS_CONNECTING \<circ> ln_setID connectionID)
                      (e'\<lparr>cx_handles := hs_saveHandle h (Some this) (cx_handles e')\<rparr>))
                 else (error_code result, p', e')))"

definition request_disconnect :: "'w conn_daemon \<Rightarrow> nat \<Rightarrow> nat \<Rightarrow> route_action \<Rightarrow> 'w conn_env \<Rightarrow> int \<times> route_action \<times> 'w conn_env" where
  "request_disconnect D this r p e =
     (case cd_disconnect D (ln_mID (cx_links e r)) (ra_mHandle p) (cx_daemon e) of
        (result, h, w) \<Rightarrow>
          (let p' = p\<lparr>ra_mHandle := h\<rparr>; e' = e\<lparr>cx_daemon := w\<rparr>
           in if result = E_OK then
                (E_WAIT_FOR_CHILD_COMPLETION, p',
                 cx_link r (ln_setState CS_DISCONNECTING)
                   (e'\<lparr>cx_handles := hs_saveHandle h (Some this) (cx_handles e')\<rparr>))
              else (error_code result, p', e')))"

section \<open>Connecting a route\<close>

text \<open>An end of the route that is null is dereferenced; a route that was made has both ends.\<close>

definition ends_unavailable :: "'w conn_daemon \<Rightarrow> link \<Rightarrow> 'w conn_env \<Rightarrow> bool" where
  "ends_unavailable D ln e \<longleftrightarrow>
     source_getAvailability D (cx_points e (the (re_mpSourceElement ln))) (cx_daemon e) = A_UNAVAILABLE
     \<or> cd_getSinkAvailability D (rp_mID (cx_points e (the (re_mpSinkElement ln)))) (cx_daemon e) = A_UNAVAILABLE"

definition rc_execute :: "'w conn_daemon \<Rightarrow> nat \<Rightarrow> route_action \<Rightarrow> 'w conn_env \<Rightarrow> int \<times> route_action \<times> 'w conn_env" where
  "rc_execute D this p e =
     (case ra_mpRouteElement p of
        None \<Rightarrow> (error_code E_NOT_POSSIBLE, p, e)
      | Some r \<Rightarrow>
          if re_mState (cx_links e r) \<noteq> CS_CONNECTED then
            (if ends_unavailable D (cx_links e r) e then (error_code E_DATABASE_ERROR, p, e)
             else request_connect D this r p e)
          else (0, p, e))"

definition rc_undo :: "'w conn_daemon \<Rightarrow> nat \<Rightarrow> route_action \<Rightarrow> 'w conn_env \<Rightarrow> int \<times> route_action \<times> 'w conn_env" where
  "rc_undo D this p e =
     (let r = the (ra_mpRouteElement p)
      in if re_mState (cx_links e r) = CS_CONNECTED then request_disconnect D this r p e else (0, p, e))"

definition rc_update :: "ActionState_e \<Rightarrow> int \<Rightarrow> route_action \<Rightarrow> 'w conn_env \<Rightarrow> 'w conn_env" where
  "rc_update status result p e =
     (let s = (if status = AS_UNDO_COMPLETE then CS_DISCONNECTED
               else if result = 0 \<and> status = AS_COMPLETED then CS_CONNECTED else CS_DISCONNECTED);
          e1 = cx_link (the (ra_mpRouteElement p)) (ln_setState s) e
      in e1\<lparr>cx_handles := hs_clearHandle (ra_mHandle p) (cx_handles e1)\<rparr>)"

definition ra_timeout :: "'w conn_daemon \<Rightarrow> am_Handle_s \<Rightarrow> 'w conn_env \<Rightarrow> 'w conn_env" where
  "ra_timeout D h e = e\<lparr>cx_daemon := cd_abortAction D h (cx_daemon e)\<rparr>"

section \<open>Disconnecting a route\<close>

definition rd_execute :: "'w conn_daemon \<Rightarrow> nat \<Rightarrow> route_action \<Rightarrow> 'w conn_env \<Rightarrow> int \<times> route_action \<times> 'w conn_env" where
  "rd_execute D this p e =
     (case ra_mpRouteElement p of
        None \<Rightarrow> (error_code E_NOT_POSSIBLE, p, e)
      | Some r \<Rightarrow>
          if re_mState (cx_links e r) = CS_DISCONNECTED \<or> re_mState (cx_links e r) = CS_UNKNOWN then (0, p, e)
          else request_disconnect D this r p e)"

definition rd_undo :: "'w conn_daemon \<Rightarrow> nat \<Rightarrow> route_action \<Rightarrow> 'w conn_env \<Rightarrow> int \<times> route_action \<times> 'w conn_env" where
  "rd_undo D this p e = request_connect D this (the (ra_mpRouteElement p)) p e"

definition rd_update :: "ActionState_e \<Rightarrow> int \<Rightarrow> route_action \<Rightarrow> 'w conn_env \<Rightarrow> 'w conn_env" where
  "rd_update status result p e =
     (let s = (if status = AS_UNDO_COMPLETE then CS_CONNECTED
               else if result = 0 \<and> status = AS_COMPLETED then CS_DISCONNECTED else CS_CONNECTED);
          e1 = cx_link (the (ra_mpRouteElement p)) (ln_setState s) e
      in e1\<lparr>cx_handles := hs_clearHandle (ra_mHandle p) (cx_handles e1)\<rparr>)"

section \<open>Setting the state of a source\<close>

record source_action =
  sa_mpSourceElement :: "nat option"
  sa_mHandle :: am_Handle_s
  sa_mSourceStateParam :: "am_SourceState_e option"
  sa_mState :: am_SourceState_e
  sa_mOldState :: am_SourceState_e

definition sa_new :: "nat option \<Rightarrow> am_SourceState_e option \<Rightarrow> source_action" where
  "sa_new pSource param = \<lparr>sa_mpSourceElement = pSource, sa_mHandle = \<lparr>handleType = H_UNKNOWN, handle = 0\<rparr>,
     sa_mSourceStateParam = param, sa_mState = SS_UNKNNOWN, sa_mOldState = SS_UNKNNOWN\<rparr>"

definition request_source_state :: "'w conn_daemon \<Rightarrow> nat \<Rightarrow> nat \<Rightarrow> am_SourceState_e \<Rightarrow> source_action \<Rightarrow> 'w conn_env
    \<Rightarrow> int \<times> source_action \<times> 'w conn_env" where
  "request_source_state D this a s p e =
     (case cd_setSourceState D (rp_mID (cx_points e a)) s (sa_mHandle p) (cx_daemon e) of
        (result, h, w) \<Rightarrow>
          (let p' = p\<lparr>sa_mHandle := h\<rparr>; e' = e\<lparr>cx_daemon := w\<rparr>
           in if result \<noteq> E_OK then (error_code result, p', e')
              else (E_WAIT_FOR_CHILD_COMPLETION, p',
                    e'\<lparr>cx_handles := hs_saveHandle h (Some this) (cx_handles e')\<rparr>)))"

definition sa_execute :: "'w conn_daemon \<Rightarrow> nat \<Rightarrow> source_action \<Rightarrow> 'w conn_env \<Rightarrow> int \<times> source_action \<times> 'w conn_env" where
  "sa_execute D this p e =
     (case (sa_mpSourceElement p, sa_mSourceStateParam p) of
        (Some a, Some s) \<Rightarrow>
          (let p1 = p\<lparr>sa_mState := s, sa_mOldState := source_getState D (cx_points e a) (cx_daemon e)\<rparr>
           in if sa_mOldState p1 = sa_mState p1 then (0, p1, e)
              else request_source_state D this a (sa_mState p1) p1 e)
      | _ \<Rightarrow> (error_code E_NOT_POSSIBLE, p, e))"

definition sa_undo :: "'w conn_daemon \<Rightarrow> nat \<Rightarrow> source_action \<Rightarrow> 'w conn_env \<Rightarrow> int \<times> source_action \<times> 'w conn_env" where
  "sa_undo D this p e = request_source_state D this (the (sa_mpSourceElement p)) (sa_mOldState p) p e"

definition sa_update :: "source_action \<Rightarrow> 'w conn_env \<Rightarrow> 'w conn_env" where
  "sa_update p e = e\<lparr>cx_handles := hs_clearHandle (sa_mHandle p) (cx_handles e)\<rparr>"

section \<open>The leaves of a connection action\<close>

datatype conn_leaf = RouteConnect route_action | RouteDisconnect route_action | SetSourceState source_action

definition lift_leaf :: "('p \<Rightarrow> conn_leaf) \<Rightarrow> int \<times> 'p \<times> 'w conn_env \<Rightarrow> int \<times> conn_leaf \<times> 'w conn_env" where
  "lift_leaf c r = (case r of (err, p, e) \<Rightarrow> (err, c p, e))"

definition cl_execute :: "'w conn_daemon \<Rightarrow> conn_leaf leaf \<Rightarrow> 'w conn_env \<Rightarrow> int \<times> conn_leaf \<times> 'w conn_env" where
  "cl_execute D l e =
     (case lf_priv l of
        RouteConnect p \<Rightarrow> lift_leaf RouteConnect (rc_execute D (lf_this l) p e)
      | RouteDisconnect p \<Rightarrow> lift_leaf RouteDisconnect (rd_execute D (lf_this l) p e)
      | SetSourceState p \<Rightarrow> lift_leaf SetSourceState (sa_execute D (lf_this l) p e))"

definition cl_undo :: "'w conn_daemon \<Rightarrow> conn_leaf leaf \<Rightarrow> 'w conn_env \<Rightarrow> int \<times> conn_leaf \<times> 'w conn_env" where
  "cl_undo D l e =
     (case lf_priv l of
        RouteConnect p \<Rightarrow> lift_leaf RouteConnect (rc_undo D (lf_this l) p e)
      | RouteDisconnect p \<Rightarrow> lift_leaf RouteDisconnect (rd_undo D (lf_this l) p e)
      | SetSourceState p \<Rightarrow> lift_leaf SetSourceState (sa_undo D (lf_this l) p e))"

definition cl_update :: "conn_leaf leaf \<Rightarrow> int \<Rightarrow> 'w conn_env \<Rightarrow> conn_leaf \<times> 'w conn_env" where
  "cl_update l result e =
     (lf_priv l,
      case lf_priv l of
        RouteConnect p \<Rightarrow> rc_update (lf_mStatus l) result p e
      | RouteDisconnect p \<Rightarrow> rd_update (lf_mStatus l) result p e
      | SetSourceState p \<Rightarrow> sa_update p e)"

definition cl_handle :: "conn_leaf \<Rightarrow> am_Handle_s" where
  "cl_handle p = (case p of RouteConnect a \<Rightarrow> ra_mHandle a | RouteDisconnect a \<Rightarrow> ra_mHandle a | SetSourceState a \<Rightarrow> sa_mHandle a)"

definition cl_timeout :: "'w conn_daemon \<Rightarrow> conn_leaf leaf \<Rightarrow> 'w conn_env \<Rightarrow> conn_leaf \<times> 'w conn_env" where
  "cl_timeout D l e = (lf_priv l, ra_timeout D (cl_handle (lf_priv l)) e)"

definition cl_clock :: "'w conn_daemon \<Rightarrow> 'w conn_env \<Rightarrow> timespec \<times> 'w conn_env" where
  "cl_clock D e = (case cd_clock D (cx_daemon e) of (ts, w) \<Rightarrow> (ts, e\<lparr>cx_daemon := w\<rparr>))"

definition cl_sys :: "'w conn_daemon \<Rightarrow> (nat \<Rightarrow> 32 word \<Rightarrow> timer_handle \<Rightarrow> 't \<Rightarrow> bool \<times> timer_handle \<times> 't)
    \<Rightarrow> (timer_handle \<Rightarrow> 't \<Rightarrow> timer_handle \<times> 't) \<Rightarrow> (conn_leaf, 't, 'w conn_env) leaf_sys" where
  "cl_sys D setT remT =
     \<lparr>ls_clock = cl_clock D, ls_setTimer = setT, ls_removeTimer = remT,
      ls_execute = cl_execute D, ls_undo = cl_undo D, ls_update = cl_update,
      ls_timeout = cl_timeout D, ls_cleanup = (\<lambda>l e. (lf_priv l, e))\<rparr>"

definition cl_leaf :: "nat \<Rightarrow> bool \<Rightarrow> conn_leaf \<Rightarrow> conn_leaf leaf" where
  "cl_leaf this undoRequired p =
     (leaf_new this (case p of RouteConnect _ \<Rightarrow> ''CAmRouterActionConnect''
        | RouteDisconnect _ \<Rightarrow> ''CAmRouterActionDisconnect'' | SetSourceState _ \<Rightarrow> ''CAmSourceActionSetState'') p)
       \<lparr>lf_mUndoRequired := undoRequired\<rparr>"

section \<open>The life of a route action\<close>

definition waits :: "'p leaf \<Rightarrow> bool" where
  "waits l \<longleftrightarrow> lf_mStatus l = AS_EXECUTING \<or> lf_mStatus l = AS_UNDOING"

text \<open>
  What can happen to a leaf: its parent runs or undoes it, in any order and number; while it waits,
  an acknowledgement with any result or its timer reaches it.
\<close>

inductive leaf_step :: "('p, 't, 'e) leaf_sys \<Rightarrow> 'p leaf \<times> 't \<times> 'e \<Rightarrow> 'p leaf \<times> 't \<times> 'e \<Rightarrow> bool" for S where
  executes: "leaf_execute S l (t, e) = (l', (t', e'), n) \<Longrightarrow> leaf_step S (l, t, e) (l', t', e')"
| undoes: "leaf_undo S l (t, e) = (l', (t', e'), n) \<Longrightarrow> leaf_step S (l, t, e) (l', t', e')"
| answered: "waits l \<Longrightarrow> leaf_update S (error_code r) l (t, e) = (l', (t', e'), n) \<Longrightarrow> leaf_step S (l, t, e) (l', t', e')"
| expires: "waits l \<Longrightarrow> leaf_timeout S l (t, e) = (l', (t', e'), n) \<Longrightarrow> leaf_step S (l, t, e) (l', t', e')"

definition settled :: "am_ConnectionState_e \<Rightarrow> bool" where
  "settled s \<longleftrightarrow> s \<noteq> CS_CONNECTING \<and> s \<noteq> CS_DISCONNECTING"

definition route_of :: "conn_leaf \<Rightarrow> nat option" where
  "route_of p = (case p of RouteConnect a \<Rightarrow> ra_mpRouteElement a | RouteDisconnect a \<Rightarrow> ra_mpRouteElement a | SetSourceState a \<Rightarrow> None)"

definition reached :: "conn_leaf \<Rightarrow> am_ConnectionState_e \<Rightarrow> bool" where
  "reached p s = (case p of RouteConnect _ \<Rightarrow> s = CS_CONNECTED
     | RouteDisconnect _ \<Rightarrow> s = CS_DISCONNECTED \<or> s = CS_UNKNOWN | SetSourceState _ \<Rightarrow> True)"

definition connects :: "conn_leaf \<Rightarrow> bool" where
  "connects p = (case p of RouteConnect _ \<Rightarrow> True | _ \<Rightarrow> False)"

text \<open>The invariant; \<open>L\<close> are the links at the start, \<open>c\<close> tells a connect from a disconnect action.\<close>

definition route_leaf_ok :: "(nat \<Rightarrow> link) \<Rightarrow> bool \<Rightarrow> nat \<Rightarrow> nat \<Rightarrow> conn_leaf leaf \<Rightarrow> 'w conn_env \<Rightarrow> bool" where
  "route_leaf_ok L c this r l e \<longleftrightarrow>
     lf_this l = this \<and> route_of (lf_priv l) = Some r \<and> connects (lf_priv l) = c \<and>
     (\<forall>r'. r' \<noteq> r \<longrightarrow> cx_links e r' = L r') \<and>
     (if waits l then cx_handles e (uHandle (cl_handle (lf_priv l))) = Some (Some this)
      else settled (re_mState (cx_links e r))) \<and>
     (lf_mStatus l = AS_COMPLETED \<longrightarrow> lf_mError l \<ge> 0 \<and> (lf_mError l = 0 \<longrightarrow> reached (lf_priv l) (re_mState (cx_links e r))))"

lemma error_code_nonneg [simp]: "error_code r \<ge> 0" by (cases r) simp_all
lemma error_code_zero [simp]: "error_code r = 0 \<longleftrightarrow> r = E_OK" by (cases r) simp_all
lemma error_code_le [simp]: "error_code r \<le> 0 \<longleftrightarrow> r = E_OK" by (cases r) simp_all

lemma clock_frame [simp]:
  "cx_links (snd (cl_clock D e)) = cx_links e" "cx_handles (snd (cl_clock D e)) = cx_handles e"
  by (simp_all add: cl_clock_def split: prod.splits)

lemma link_frame [simp]:
  "cx_links (cx_link r f e) = (cx_links e)(r := f (cx_links e r))" "cx_handles (cx_link r f e) = cx_handles e"
  by (simp_all add: cx_link_def)

lemma cl_sys_sel [simp]:
  "ls_clock (cl_sys D sT rT) = cl_clock D" "ls_execute (cl_sys D sT rT) = cl_execute D"
  "ls_undo (cl_sys D sT rT) = cl_undo D" "ls_update (cl_sys D sT rT) = cl_update" "ls_timeout (cl_sys D sT rT) = cl_timeout D"
  by (simp_all add: cl_sys_def)

lemmas route_requests = request_connect_def request_disconnect_def Let_def ln_setState_def ln_setID_def hs_saveHandle_def
  E_WAIT_FOR_CHILD_COMPLETION_def

lemma request_connect_cases:
  assumes "request_connect D this r p e = (err, p', e')"
  shows "ra_mpRouteElement p' = ra_mpRouteElement p \<and> (\<forall>r'. r' \<noteq> r \<longrightarrow> cx_links e' r' = cx_links e r') \<and>
    (if err < 0 then cx_handles e' (uHandle (ra_mHandle p')) = Some (Some this) else err > 0 \<and> cx_links e' = cx_links e)"
  using assms by (auto simp: route_requests less_le split: prod.splits if_splits)

lemma request_disconnect_cases:
  assumes "request_disconnect D this r p e = (err, p', e')"
  shows "ra_mpRouteElement p' = ra_mpRouteElement p \<and> (\<forall>r'. r' \<noteq> r \<longrightarrow> cx_links e' r' = cx_links e r') \<and>
    (if err < 0 then cx_handles e' (uHandle (ra_mHandle p')) = Some (Some this) else err > 0 \<and> cx_links e' = cx_links e)"
  using assms by (auto simp: route_requests less_le split: prod.splits if_splits)

text \<open>A request made by \<open>_execute\<close> or \<open>_undo\<close>, seen from outside.\<close>

definition request_result :: "bool \<Rightarrow> nat \<Rightarrow> nat \<Rightarrow> conn_leaf \<Rightarrow> 'w conn_env \<Rightarrow> int \<times> conn_leaf \<times> 'w conn_env \<Rightarrow> bool" where
  "request_result exec this r p e res =
     (case res of (err, p', e') \<Rightarrow>
        route_of p' = Some r \<and> connects p' = connects p \<and> (\<forall>r'. r' \<noteq> r \<longrightarrow> cx_links e' r' = cx_links e r') \<and>
        (if err < 0 then cx_handles e' (uHandle (cl_handle p')) = Some (Some this)
         else cx_links e' = cx_links e \<and> (exec \<longrightarrow> err = 0 \<longrightarrow> reached p' (re_mState (cx_links e r)))))"

lemma execute_request:
  assumes "route_of (lf_priv l) = Some r"
  shows "request_result True (lf_this l) r (lf_priv l) e (cl_execute D l e)"
proof (cases "lf_priv l")
  case (RouteConnect p)
  then show ?thesis using assms
    by (auto simp: request_result_def cl_execute_def rc_execute_def lift_leaf_def route_of_def connects_def reached_def cl_handle_def
        split: prod.splits if_splits dest!: request_connect_cases)
next
  case (RouteDisconnect p)
  then show ?thesis using assms
    by (auto simp: request_result_def cl_execute_def rd_execute_def lift_leaf_def route_of_def connects_def reached_def cl_handle_def
        split: prod.splits if_splits dest!: request_disconnect_cases)
qed (use assms in \<open>simp add: route_of_def\<close>)

lemma undo_request:
  assumes "route_of (lf_priv l) = Some r"
  shows "request_result False (lf_this l) r (lf_priv l) e (cl_undo D l e)"
proof (cases "lf_priv l")
  case (RouteConnect p)
  then show ?thesis using assms
    by (auto simp: request_result_def cl_undo_def rc_undo_def lift_leaf_def route_of_def connects_def cl_handle_def Let_def
        split: prod.splits if_splits dest!: request_disconnect_cases)
next
  case (RouteDisconnect p)
  then show ?thesis using assms
    by (auto simp: request_result_def cl_undo_def rd_undo_def lift_leaf_def route_of_def connects_def cl_handle_def
        split: prod.splits if_splits dest!: request_connect_cases)
qed (use assms in \<open>simp add: route_of_def\<close>)

lemma update_result:
  assumes "route_of (lf_priv l) = Some r" "cl_update l res e = (p', e')"
  shows "p' = lf_priv l \<and> (\<forall>r'. r' \<noteq> r \<longrightarrow> cx_links e' r' = cx_links e r') \<and> settled (re_mState (cx_links e' r)) \<and>
    (lf_mStatus l = AS_COMPLETED \<and> res = 0 \<longrightarrow> reached p' (re_mState (cx_links e' r)))"
  using assms
  by (auto simp: cl_update_def rc_update_def rd_update_def route_of_def reached_def settled_def Let_def ln_setState_def hs_clearHandle_def
      split: conn_leaf.splits if_splits)

lemma undo_not_required:
  assumes "leaf_undo S l (t, e) = (l', (t', e'), n)" "lf_mStatus l = AS_COMPLETED" "\<not> lf_mUndoRequired l" "lf_mError l \<ge> 0"
  shows "lf_priv l' = lf_priv l \<and> lf_this l' = lf_this l \<and> lf_mStatus l' = AS_UNDO_COMPLETE \<and> e' = snd (ls_clock S e)"
  using assms by (auto simp: leaf_undo_def Let_def split: prod.splits dest: leaf_disarm_sel leaf_disarm_this)

lemma completed_not_waits: "lf_mStatus l = AS_COMPLETED \<Longrightarrow> \<not> waits l"
  by (simp add: waits_def)

lemma requested_ok:
  assumes "request_result exec this r p e0 (err, p', e2)" and "route_leaf_ok L c this r l e"
    and "lf_priv l = p" "cx_links e0 = cx_links e" "\<not> waits l"
    and "lf_priv l' = p'" "lf_this l' = this" "cx_links e' = cx_links e2" "cx_handles e' = cx_handles e2"
    and "waits l' \<longleftrightarrow> err < 0" "lf_mStatus l' = AS_COMPLETED \<longrightarrow> exec \<and> lf_mError l' = err"
  shows "route_leaf_ok L c this r l' e'"
  using assms completed_not_waits [of l'] by (auto simp: route_leaf_ok_def request_result_def split: if_splits)

lemma route_leaf_step:
  assumes step: "leaf_step (cl_sys D sT rT) (l, t, e) (l', t', e')" and ok: "route_leaf_ok L c this r l e"
  shows "route_leaf_ok L c this r l' e'"
proof -
  let ?S = "cl_sys D sT rT"
  have r: "route_of (lf_priv l) = Some r" "lf_this l = this" using ok by (simp_all add: route_leaf_ok_def)
  from step show ?thesis
  proof cases
    case (executes n)
    show ?thesis
    proof (cases "lf_mStatus l = AS_NOT_STARTED")
      case True
      obtain l2 err p e2 where x: "lf_priv l2 = lf_priv l" "lf_this l2 = lf_this l" "cl_execute D l2 (snd (cl_clock D e)) = (err, p, e2)"
          "lf_priv l' = p" "lf_this l' = lf_this l" "lf_mError l' = err"
          "lf_mStatus l' = (if err \<ge> 0 then AS_COMPLETED else AS_EXECUTING)" "e' = e2 \<or> e' = snd (cl_clock D e2)"
        using leaf_execute_priv [OF executes True] by auto
      have rr: "request_result True this r (lf_priv l) (snd (cl_clock D e)) (err, p, e2)"
        using execute_request [of l2 r "snd (cl_clock D e)" D] x r by simp
      show ?thesis
        by (rule requested_ok [OF rr ok]) (use x r True in \<open>auto simp: waits_def\<close>)
    next
      case False
      then show ?thesis using executes ok by (simp add: leaf_execute_started)
    qed
  next
    case (undoes n)
    consider "lf_mStatus l \<noteq> AS_COMPLETED" | (req) "lf_mStatus l = AS_COMPLETED" "lf_mUndoRequired l"
      | (free) "lf_mStatus l = AS_COMPLETED" "\<not> lf_mUndoRequired l" by blast
    then show ?thesis
    proof cases
      case 1
      then show ?thesis using undoes ok by (simp add: leaf_undo_other)
    next
      case req
      obtain l2 err p e2 where x: "lf_priv l2 = lf_priv l" "lf_this l2 = lf_this l" "cl_undo D l2 (snd (cl_clock D e)) = (err, p, e2)"
          "lf_priv l' = p" "lf_this l' = lf_this l" "lf_mError l' = err"
          "lf_mStatus l' = (if err \<ge> 0 then AS_UNDO_COMPLETE else AS_UNDOING)" "e' = e2 \<or> e' = snd (cl_clock D e2)"
        using leaf_undo_priv [OF undoes req] by auto
      have rr: "request_result False this r (lf_priv l) (snd (cl_clock D e)) (err, p, e2)"
        using undo_request [of l2 r "snd (cl_clock D e)" D] x r by simp
      show ?thesis
        by (rule requested_ok [OF rr ok]) (use x r req in \<open>auto simp: waits_def\<close>)
    next
      case free
      then show ?thesis using undo_not_required [OF undoes free(1,2)] ok by (auto simp: route_leaf_ok_def waits_def)
    qed
  next
    case (answered q n)
    obtain l3 where x: "lf_priv l3 = lf_priv l" "lf_mStatus l3 = (if lf_mStatus l = AS_EXECUTING then AS_COMPLETED else AS_UNDO_COMPLETE)"
        "cl_update l3 (error_code q) (snd (cl_clock D e)) = (lf_priv l', e')" "lf_this l' = lf_this l" "lf_mStatus l' = lf_mStatus l3"
        "lf_mError l' = error_code q"
      using leaf_update_priv [OF answered(2)] by auto
    show ?thesis
      using update_result [of l3 r "error_code q"] x r ok by (auto simp: route_leaf_ok_def waits_def)
  next
    case (expires n)
    let ?e = "snd (cl_timeout D l e)"
    have "leaf_update ?S (error_code E_ABORTED) l (t, ?e) = (l', (t', e'), n)"
      using expires(2) by (simp add: leaf_timeout_def cl_timeout_def)
    then obtain l3 where x: "lf_priv l3 = lf_priv l" "lf_mStatus l3 = (if lf_mStatus l = AS_EXECUTING then AS_COMPLETED else AS_UNDO_COMPLETE)"
        "cl_update l3 (error_code E_ABORTED) (snd (cl_clock D ?e)) = (lf_priv l', e')" "lf_this l' = lf_this l" "lf_mStatus l' = lf_mStatus l3"
        "lf_mError l' = error_code E_ABORTED"
      by (auto dest!: leaf_update_priv)
    have "cx_links ?e = cx_links e" by (simp add: cl_timeout_def ra_timeout_def)
    then show ?thesis
      using update_result [of l3 r "error_code E_ABORTED"] x r ok by (auto simp: route_leaf_ok_def waits_def)
  qed
qed

text \<open>
  C4: a route is never left in transition. Take a connect or disconnect action for a route that
  is in no transition, and let anything happen to it: its parent runs it and undoes it, at any time
  and any number of times; while it waits, acknowledgements arrive with any result, or it times out;
  the daemon accepts or refuses each request. Whenever the action is not waiting, its route is in no
  transition, and when it waits it is the observer of its handle, so that an acknowledgement reaches
  it. A connect action that completed without an error has its route connected, a disconnect action has it
  not connected. No other route is touched.
\<close>

theorem route_action_settles:
  assumes "(leaf_step (cl_sys D sT rT))\<^sup>*\<^sup>* (cl_leaf this undo p, t, e) (l, t', e')"
    and "route_of p = Some r" and "settled (re_mState (cx_links e r))"
  shows "(if waits l then cx_handles e' (uHandle (cl_handle (lf_priv l))) = Some (Some this)
          else settled (re_mState (cx_links e' r))) \<and>
    (lf_mStatus l = AS_COMPLETED \<and> lf_mError l = 0 \<longrightarrow>
       (if connects p then re_mState (cx_links e' r) = CS_CONNECTED
        else re_mState (cx_links e' r) = CS_DISCONNECTED \<or> re_mState (cx_links e' r) = CS_UNKNOWN)) \<and>
    (\<forall>r'. r' \<noteq> r \<longrightarrow> cx_links e' r' = cx_links e r')"
proof -
  have "route_leaf_ok (cx_links e) (connects p) this r l e'"
    using assms(1)
  proof (induction "(l, t', e')" arbitrary: l t' e' rule: rtranclp_induct)
    case base
    then show ?case using assms(2,3)
      by (auto simp: route_leaf_ok_def cl_leaf_def leaf_new_def waits_def split: conn_leaf.splits)
  next
    case (step y)
    then show ?case by (cases y) (auto intro: route_leaf_step)
  qed
  then show ?thesis
    by (auto simp: route_leaf_ok_def route_of_def reached_def connects_def split: conn_leaf.splits)
qed

definition demo_conn_daemon :: "nat conn_daemon" where
  "demo_conn_daemon = \<lparr>cd_connect = (\<lambda>f s k h w. (E_OK, \<lparr>handleType = H_CONNECT, handle = of_nat w\<rparr>, of_nat w, Suc w)),
     cd_disconnect = (\<lambda>i h w. (E_OK, \<lparr>handleType = H_DISCONNECT, handle = of_nat w\<rparr>, Suc w)),
     cd_setSourceState = (\<lambda>i s h w. (E_OK, \<lparr>handleType = H_SETSOURCESTATE, handle = of_nat w\<rparr>, Suc w)),
     cd_abortAction = (\<lambda>h w. w), cd_getSourceInfoDB = (\<lambda>i w. (E_OK, SS_ON, A_AVAILABLE)),
     cd_getSinkAvailability = (\<lambda>i w. A_AVAILABLE), cd_getConnectionInfoDB = (\<lambda>i w. (E_OK, CS_CONNECTED)),
     cd_changeConnectionStateDB = (\<lambda>i s w. w),
     cd_convertVolumeToMainVolume = (\<lambda>p v. v), cd_changeSinkMainVolumeDB = (\<lambda>v i w. (E_OK, w)), cd_removeMainConnectionDB = (\<lambda>i w. (E_OK, w)), cd_clock = (\<lambda>w. (\<lparr>tv_sec = 0, tv_nsec = 0\<rparr>, w))\<rparr>"

definition demo_connection_element :: "nat \<Rightarrow> main_connection" where
  "demo_connection_element c = \<lparr>mc_mName = ''c'', mc_mID = of_nat c, mc_mpClassElement = None, mc_mainSourceName = ''src'',
        mc_mainSinkName = ''snk'', mc_mListRouteElements = [], mc_mOngoingTransitions = [], mc_mMainVolume = 0\<rparr>"

text \<open>One source and one sink, one route (number 5), two main connections that share it.\<close>

definition demo_conn_env :: "am_ConnectionState_e \<Rightarrow> nat conn_env" where
  "demo_conn_env s = \<lparr>cx_points = demo_points,
     cx_links = (\<lambda>r. (ln_new ''r'' 1 2 1 0 (Some 1) (Some 2))\<lparr>ln_mID := of_nat r, re_mState := s\<rparr>),
     cx_conns = demo_connection_element, cx_list = [1, 2], cx_mainSource = (\<lambda>c. Some 1), cx_mainSink = (\<lambda>c. Some 2), cx_routes = (\<lambda>c. [5]), cx_routeObservers = (\<lambda>r. [1, 2]), cx_sourceObservers = (\<lambda>a. [5]),
     cx_handles = Map.empty, cx_queue = tq_empty, cx_next = 10, cx_daemon = 1\<rparr>"

theorem route_action_settles_witness:
  "\<exists>l1 t1 e1 l t' e'. lf_mStatus l1 = AS_EXECUTING \<and> cx_handles e1 (uHandle (cl_handle (lf_priv l1))) = Some (Some (9 :: nat)) \<and>
     lf_mStatus l = AS_COMPLETED \<and> re_mState (cx_links e' 5) = CS_CONNECTED \<and>
     leaf_step (cl_sys demo_conn_daemon (\<lambda>c ms h (t :: unit). (False, h, t)) (\<lambda>h t. (h, t)))
       (l1, t1, e1) (l, t', e' :: nat conn_env)"
proof -
  let ?S = "cl_sys demo_conn_daemon (\<lambda>c ms h (t :: unit). (False, h, t)) (\<lambda>h t. (h, t))"
  let ?p = "RouteConnect (ra_new (Some 5))" and ?e = "demo_conn_env CS_DISCONNECTED"
  let ?l = "cl_leaf 9 True ?p"
  obtain l1 t1 e1 n1 where x: "leaf_execute ?S ?l ((), ?e) = (l1, (t1, e1), n1)" by (metis surj_pair)
  obtain l2 t2 e2 n2 where u: "leaf_update ?S (error_code E_OK) l1 (t1, e1) = (l2, (t2, e2), n2)" by (metis surj_pair)
  have 1: "lf_mStatus l1 = AS_EXECUTING" and 2: "lf_mStatus l2 = AS_COMPLETED" "lf_mError l2 = 0"
    using x leaf_update_outcome [OF u]
    by (auto simp: leaf_execute_def cl_leaf_def leaf_new_def cl_execute_def rc_execute_def ra_new_def lift_leaf_def
        demo_conn_env_def ln_new_def ends_unavailable_def source_getAvailability_def demo_conn_daemon_def cl_clock_def
        request_connect_def E_WAIT_FOR_CHILD_COMPLETION_def Let_def split: prod.splits if_splits)
  have w: "waits l1" using 1 by (simp add: waits_def)
  note s1 = executes [OF x] and s2 = answered [OF w u]
  have r1: "(leaf_step ?S)\<^sup>*\<^sup>* (?l, (), ?e) (l1, t1, e1)" using s1 by blast
  then have r2: "(leaf_step ?S)\<^sup>*\<^sup>* (?l, (), ?e) (l2, t2, e2)" using s2 by (rule rtranclp.rtrancl_into_rtrancl)
  have h: "route_of ?p = Some 5" "settled (re_mState (cx_links ?e 5))"
    by (simp_all add: route_of_def ra_new_def demo_conn_env_def ln_new_def settled_def)
  have "re_mState (cx_links e2 5) = CS_CONNECTED"
    using route_action_settles [OF r2 h] 2 by (simp add: connects_def)
  moreover have "cx_handles e1 (uHandle (cl_handle (lf_priv l1))) = Some (Some 9)"
    using route_action_settles [OF r1 h] w by simp
  ultimately show ?thesis using 1 2 s2 by blast
qed

end
