(* ===== verification/Connection_Actions.thy ===== *)
theory Connection_Actions
  imports Connection_Leaves Class_Element Volume_Core Action_Props
begin

text \<open>
  The container actions that make and break a main connection: \<open>CAmMainConnectionActionConnect\<close>,
  \<open>CAmMainConnectionActionDisconnect\<close>, \<open>CAmMainConnectionActionSuspend\<close>, and \<open>CAmActionDisconnect\<close>,
  which selects the connections to disconnect and disposes of them, as one instance of the action tree
  whose leaves are the actions of \<open>Connection_Leaves\<close>.
\<close>

section \<open>The main connection in the world of the actions\<close>

definition conn_view :: "'w conn_env \<Rightarrow> nat \<Rightarrow> main_connection" where
  "conn_view e c = (cx_conns e c)\<lparr>mc_mListRouteElements := map (\<lambda>r. route_element.truncate (cx_links e r)) (cx_routes e c)\<rparr>"

definition conn_getState :: "'w conn_daemon \<Rightarrow> 'w conn_env \<Rightarrow> nat \<Rightarrow> am_ConnectionState_e" where
  "conn_getState D e c = mc_getState (cd_getConnectionInfoDB D) (cx_conns e c) (cx_daemon e)"

text \<open>No observer of a main connection overrides \<open>update\<close>, so a change of state notifies nobody.\<close>

definition conn_setState :: "'w conn_daemon \<Rightarrow> am_ConnectionState_e \<Rightarrow> nat \<Rightarrow> 'w conn_env \<Rightarrow> 'w conn_env" where
  "conn_setState D s c e = e\<lparr>cx_daemon := mc_setState (cd_getConnectionInfoDB D) (cd_changeConnectionStateDB D) (\<lambda>_ w. w) s
     (cx_conns e c) (cx_daemon e)\<rparr>"

definition conn_trigger :: "'w conn_daemon \<Rightarrow> am_Error_e \<Rightarrow> nat \<Rightarrow> 'w conn_env \<Rightarrow> 'w conn_env" where
  "conn_trigger D err c e =
     e\<lparr>cx_queue := mc_setStateChangeTrigger (cd_getConnectionInfoDB D) err (cx_conns e c) (cx_daemon e) (cx_queue e)\<rparr>"

definition source_state_at :: "'w conn_daemon \<Rightarrow> 'w conn_env \<Rightarrow> nat \<Rightarrow> am_SourceState_e" where
  "source_state_at D e a = source_getState D (cx_points e a) (cx_daemon e)"

definition conn_updateState :: "'w conn_daemon \<Rightarrow> nat \<Rightarrow> 'w conn_env \<Rightarrow> 'w conn_env" where
  "conn_updateState D c e = e\<lparr>cx_daemon := mc_updateState (cd_getConnectionInfoDB D) (cd_changeConnectionStateDB D) (\<lambda>_ w. w)
     (map_option (source_state_at D e) (cx_mainSource e c)) (conn_view e c) (cx_daemon e)\<rparr>"

definition conn_register :: "nat \<Rightarrow> nat \<Rightarrow> 'w conn_env \<Rightarrow> 'w conn_env" where
  "conn_register act c e = e\<lparr>cx_conns := (cx_conns e)(c := mc_registerTransitionAction (Some act) (cx_conns e c))\<rparr>"

definition conn_unregister :: "nat \<Rightarrow> nat \<Rightarrow> 'w conn_env \<Rightarrow> 'w conn_env" where
  "conn_unregister act c e = e\<lparr>cx_conns := (cx_conns e)(c := mc_unregisterTransitionAction act (cx_conns e c))\<rparr>"

definition conn_permitsDispose :: "'w conn_daemon \<Rightarrow> nat \<Rightarrow> 'w conn_env \<Rightarrow> bool" where
  "conn_permitsDispose D c e = mc_permitsDispose (cd_getConnectionInfoDB D) (cx_queue e) (cx_conns e c) (cx_daemon e)"

text \<open>
  The search of the factory over its chronological list. Routes have both ends, so the filter is defined
  on every connection; where it were not the search finds nothing.
\<close>

definition conn_search :: "'w conn_daemon \<Rightarrow> 'w conn_env \<Rightarrow> connection_filter \<Rightarrow> nat list" where
  "conn_search D e f =
     (case select_matching (\<lambda>c. cf_matches (cx_points e) (\<lambda>mc. mc_getState (cd_getConnectionInfoDB D) mc (cx_daemon e)) f
             (Some (conn_view e c))) (cx_list e) of
        None \<Rightarrow> [] | Some l \<Rightarrow> l)"

definition conn_find :: "'w conn_env \<Rightarrow> string \<Rightarrow> nat option" where
  "conn_find e nm = find (\<lambda>c. mc_mName (cx_conns e c) = nm) (cx_list e)"

text \<open>The main volume of the sink and of the connection, from the volumes along the connected connections of the sink.\<close>

definition conn_updateMainVolume :: "'w conn_daemon \<Rightarrow> nat \<Rightarrow> 'w conn_env \<Rightarrow> 'w conn_env" where
  "conn_updateMainVolume D c e =
     (case cx_mainSink e c of
        None \<Rightarrow> e
      | Some k \<Rightarrow>
          (let f = cf_new\<lparr>cf_mSinkName := rp_mName (cx_points e k), cf_mListConnectionStates := [CS_CONNECTED]\<rparr>;
               connected = map (conn_view e) (conn_search D e f)
           in case mc_updateMainVolume (cx_points e) connected (cd_convertVolumeToMainVolume D (cx_points e k))
                     (conn_getState D e c) (conn_view e c) of
                (v, mc) \<Rightarrow>
                  (case sink_setMainVolume (cd_changeSinkMainVolumeDB D) v (cx_points e k) (cx_daemon e) of
                     (p, w) \<Rightarrow> e\<lparr>cx_points := (cx_points e)(k := p), cx_daemon := w,
                        cx_conns := (cx_conns e)(c := mc_setMainVolume (mc_mMainVolume mc) (cx_conns e c))\<rparr>)))"

text \<open>
  \<open>removeRouteElements\<close> and what \<open>disposeConnection\<close> does with it. A route observed by nobody else is
  destroyed, which takes it off the observers of its source.
\<close>

definition release_route :: "nat \<Rightarrow> 'w conn_env \<Rightarrow> nat \<Rightarrow> 'w conn_env" where
  "release_route c e r =
     (let shared = length (cx_routeObservers e r) > 1;
          e1 = e\<lparr>cx_routeObservers := (cx_routeObservers e)(r := remove1 c (cx_routeObservers e r))\<rparr>
      in if shared then e1
         else e1\<lparr>cx_sourceObservers := (\<lambda>a. remove1 r (cx_sourceObservers e1 a))\<rparr>)"

definition conn_removeRouteElements :: "nat \<Rightarrow> 'w conn_env \<Rightarrow> 'w conn_env" where
  "conn_removeRouteElements c e = (foldl (release_route c) e (cx_routes e c))\<lparr>cx_routes := (cx_routes e)(c := [])\<rparr>"

definition conn_dispose :: "'w conn_daemon \<Rightarrow> nat \<Rightarrow> 'w conn_env \<Rightarrow> 'w conn_env" where
  "conn_dispose D c e =
     (let e1 = conn_removeRouteElements c e
      in e1\<lparr>cx_daemon := snd (cd_removeMainConnectionDB D (mc_mID (cx_conns e1 c)) (cx_daemon e1)), cx_list := remove1 c (cx_list e1)\<rparr>)"

section \<open>The containers\<close>

datatype main_kind = MK_Connect | MK_Disconnect | MK_Suspend

record main_action =
  ma_kind :: main_kind
  ma_this :: nat
  ma_mpMainConnection :: "nat option"
  ma_direction :: "gc_SetSourceStateDirection_e option"
  ma_mActionCompleted :: bool

record disconnect_work =
  da_connectionName :: "string option"
  da_className :: "string option"
  da_sourceName :: "string option"
  da_sinkName :: "string option"
  da_connectionStates :: "am_ConnectionState_e list"
  da_exceptClasses :: "string list"
  da_exceptSources :: "string list"
  da_exceptSinks :: "string list"
  da_mpListMainConnections :: "nat option list"

definition da_new :: disconnect_work where
  "da_new = \<lparr>da_connectionName = None, da_className = None, da_sourceName = None, da_sinkName = None,
     da_connectionStates = [CS_CONNECTED], da_exceptClasses = [], da_exceptSources = [], da_exceptSinks = [],
     da_mpListMainConnections = []\<rparr>"

datatype conn_container = MainAction main_action | ActDisconnect disconnect_work

type_synonym conn_action = "(conn_leaf, conn_container) action"

text \<open>The enumeration behind \<open>getError\<close>, which is cast back: every value comes from an error code.\<close>

definition error_of :: "int \<Rightarrow> am_Error_e" where
  "error_of i = (case find (\<lambda>e. error_code e = i) [E_OK, E_UNKNOWN, E_OUT_OF_RANGE, E_NOT_USED, E_DATABASE_ERROR, E_ALREADY_EXISTS,
      E_NO_CHANGE, E_NOT_POSSIBLE, E_NON_EXISTENT, E_ABORTED, E_WRONG_FORMAT] of Some e \<Rightarrow> e | None \<Rightarrow> E_UNKNOWN)"

text \<open>The constructors: from a starting point the connection moves to a transition; the action registers with it.\<close>

fun starting_point :: "main_kind \<Rightarrow> am_ConnectionState_e \<Rightarrow> bool" where
  "starting_point MK_Connect s = (s = CS_UNKNOWN \<or> s = CS_DISCONNECTED \<or> s = CS_SUSPENDED)"
| "starting_point MK_Disconnect s = (s = CS_UNKNOWN \<or> s = CS_CONNECTED \<or> s = CS_SUSPENDED)"
| "starting_point MK_Suspend s = (s = CS_UNKNOWN \<or> s = CS_DISCONNECTED)"

fun transition_state :: "main_kind \<Rightarrow> am_ConnectionState_e" where
  "transition_state MK_Connect = CS_CONNECTING"
| "transition_state MK_Disconnect = CS_DISCONNECTING"
| "transition_state MK_Suspend = CS_CONNECTING"

definition enter_transition :: "'w conn_daemon \<Rightarrow> main_kind \<Rightarrow> am_Error_e \<Rightarrow> nat \<Rightarrow> 'w conn_env \<Rightarrow> 'w conn_env" where
  "enter_transition D k err c e = conn_trigger D err c (conn_setState D (transition_state k) c e)"

fun main_name :: "main_kind \<Rightarrow> string" where
  "main_name MK_Connect = ''CAmMainConnectionActionConnect''"
| "main_name MK_Disconnect = ''CAmMainConnectionActionDisconnect''"
| "main_name MK_Suspend = ''CAmMainConnectionActionSuspend''"

definition main_new :: "'w conn_daemon \<Rightarrow> main_kind \<Rightarrow> nat option \<Rightarrow> gc_SetSourceStateDirection_e option \<Rightarrow> bool
    \<Rightarrow> 'w conn_env \<Rightarrow> conn_action \<times> 'w conn_env" where
  "main_new D k pConn direction undoRequired e =
     (let this = cx_next e; e1 = e\<lparr>cx_next := Suc this\<rparr>;
          e2 = (case pConn of
              None \<Rightarrow> e1
            | Some c \<Rightarrow> conn_register this c (if starting_point k (conn_getState D e1 c) then enter_transition D k E_OK c e1 else e1))
      in (Container ((container_new (main_name k) (MainAction \<lparr>ma_kind = k, ma_this = this, ma_mpMainConnection = pConn,
            ma_direction = direction, ma_mActionCompleted = False\<rparr>))\<lparr>ct_mUndoRequired := undoRequired\<rparr>) [], e2))"

section \<open>The children\<close>

text \<open>
  The list is reversed unless the direction is from the source to the sink. A step of one of the loops
  gives an error, which ends the loop, and the child it appends, if any.
\<close>

definition directed :: "main_action \<Rightarrow> nat list \<Rightarrow> nat list" where
  "directed p rs = (if (case ma_direction p of None \<Rightarrow> SD_MAINSINK_TO_MAINSOURCE | Some d \<Rightarrow> d) = SD_MAINSINK_TO_MAINSOURCE
     then rev rs else rs)"

fun append_each :: "(nat \<Rightarrow> am_Error_e \<times> conn_leaf option) \<Rightarrow> bool \<Rightarrow> nat list \<Rightarrow> nat \<Rightarrow> am_Error_e \<times> conn_action list \<times> nat" where
  "append_each f undoRequired [] n = (E_OK, [], n)"
| "append_each f undoRequired (r # rs) n =
     (case f r of (err, child) \<Rightarrow>
        let as1 = (case child of None \<Rightarrow> [] | Some p \<Rightarrow> [Leaf (cl_leaf n undoRequired p)]);
            n1 = (if child = None then n else Suc n)
        in if err \<noteq> E_OK then (err, as1, n1)
           else (case append_each f undoRequired rs n1 of (err', as2, n2) \<Rightarrow> (err', as1 @ as2, n2)))"

definition connect_route_child :: "nat \<Rightarrow> am_Error_e \<times> conn_leaf option" where
  "connect_route_child r = (E_OK, Some (RouteConnect (ra_new (Some r))))"

definition set_source_child :: "(nat \<Rightarrow> nat \<Rightarrow> bool) \<Rightarrow> 'w conn_daemon \<Rightarrow> am_SourceState_e \<Rightarrow> 'w conn_env \<Rightarrow> nat \<Rightarrow> am_Error_e \<times> conn_leaf option" where
  "set_source_child permitted D s e r =
     (case re_mpSourceElement (cx_links e r) of
        None \<Rightarrow> (E_NOT_POSSIBLE, None)
      | Some a \<Rightarrow>
          if source_state_at D e a \<noteq> SS_UNKNNOWN \<and> permitted a r then (E_OK, Some (SetSourceState (sa_new (Some a) (Some s))))
          else (E_OK, None))"

text \<open>Whether another main connection uses the route, and whether another route uses the source.\<close>

definition checkSharedRouteDisconnected :: "'w conn_env \<Rightarrow> nat \<Rightarrow> nat \<Rightarrow> bool" where
  "checkSharedRouteDisconnected e c r =
     (length (cx_routeObservers e r) \<le> 1 \<or>
      list_all (\<lambda>o'. o' = c \<or> list_all (\<lambda>q. \<not> (ln_mID (cx_links e q) = ln_mID (cx_links e r) \<and> re_mState (cx_links e q) \<noteq> CS_DISCONNECTED))
         (cx_routes e o')) (cx_routeObservers e r))"

definition checkSharedSourceDisconnected :: "'w conn_env \<Rightarrow> nat \<Rightarrow> nat \<Rightarrow> bool" where
  "checkSharedSourceDisconnected e a r =
     (length (cx_sourceObservers e a) \<le> 1 \<or>
      list_all (\<lambda>q. re_mState (cx_links e q) = CS_DISCONNECTED \<or> re_mName (cx_links e q) = re_mName (cx_links e r)) (cx_sourceObservers e a))"

definition disconnect_route_child :: "'w conn_env \<Rightarrow> nat \<Rightarrow> nat \<Rightarrow> am_Error_e \<times> conn_leaf option" where
  "disconnect_route_child e c r =
     (E_OK, if ln_domainID (cx_links e r) = 0 \<or> \<not> checkSharedRouteDisconnected e c r then None
            else Some (RouteDisconnect (ra_new (Some r))))"

definition sharedConnectionCheck :: "'w conn_daemon \<Rightarrow> 'w conn_env \<Rightarrow> nat \<Rightarrow> nat \<Rightarrow> bool" where
  "sharedConnectionCheck D e c r =
     ((case re_mpSourceElement (cx_links e r) of None \<Rightarrow> False | Some a \<Rightarrow> source_state_at D e a = SS_OFF)
      \<or> length (cx_routeObservers e r) \<le> 1
      \<or> list_all (\<lambda>o'. \<not> (conn_getState D e o' = CS_CONNECTED \<and> mc_mName (cx_conns e o') \<noteq> mc_mName (cx_conns e c))) (cx_routeObservers e r))"

definition suspend_source_child :: "'w conn_daemon \<Rightarrow> 'w conn_env \<Rightarrow> nat \<Rightarrow> nat \<Rightarrow> am_Error_e \<times> conn_leaf option" where
  "suspend_source_child D e c r =
     (if \<not> sharedConnectionCheck D e c r then (E_OK, None)
      else set_source_child (\<lambda>a _. length (cx_sourceObservers e a) \<le> 1 \<or> source_state_at D e a = SS_OFF) D SS_PAUSED e r)"

text \<open>Two loops one after the other; the second is not entered after an error of the first.\<close>

definition append_both :: "(nat \<Rightarrow> am_Error_e \<times> conn_leaf option) \<Rightarrow> (nat \<Rightarrow> am_Error_e \<times> conn_leaf option) \<Rightarrow> bool \<Rightarrow> nat list \<Rightarrow> nat
    \<Rightarrow> am_Error_e \<times> conn_action list \<times> nat" where
  "append_both f g undoRequired rs n =
     (case append_each f undoRequired rs n of (r1, as1, n1) \<Rightarrow>
        if r1 \<noteq> E_OK then (r1, as1, n1)
        else (case append_each g undoRequired rs n1 of (r2, as2, n2) \<Rightarrow> (r2, as1 @ as2, n2)))"

section \<open>\<open>_execute\<close>, \<open>_undo\<close> and \<open>_update\<close>\<close>

text \<open>An error of a loop becomes \<open>E_NOT_POSSIBLE\<close>; the children appended before it stay.\<close>

definition finish_execute :: "'w conn_daemon \<Rightarrow> main_kind \<Rightarrow> bool \<Rightarrow> am_Error_e \<Rightarrow> nat \<Rightarrow> 'w conn_env \<Rightarrow> am_Error_e \<times> conn_action list \<times> nat
    \<Rightarrow> int \<times> conn_action list \<times> 'w conn_env" where
  "finish_execute D k enter err c e = (\<lambda>(r, as, n).
     let e1 = e\<lparr>cx_next := n\<rparr>
     in if r \<noteq> E_OK then (error_code E_NOT_POSSIBLE, as, e1)
        else (0, as, if enter \<and> conn_getState D e c \<noteq> transition_state k then enter_transition D k err c e1 else e1))"

definition connect_execute :: "'w conn_daemon \<Rightarrow> bool \<Rightarrow> am_Error_e \<Rightarrow> main_action \<Rightarrow> nat \<Rightarrow> 'w conn_env
    \<Rightarrow> int \<times> conn_action list \<times> 'w conn_env" where
  "connect_execute D undoRequired err p c e =
     (if conn_getState D e c = CS_CONNECTED then (0, [], e)
      else if mc_getRouteAvailability (\<lambda>a. point_availability D (cx_points e a) (cx_daemon e)) (conn_view e c) \<noteq> Some A_AVAILABLE
      then (error_code E_NOT_POSSIBLE, [], e)
      else finish_execute D MK_Connect True err c e
             (append_both connect_route_child (set_source_child (\<lambda>_ _. True) D SS_ON e) undoRequired (directed p (cx_routes e c)) (cx_next e)))"

definition disconnect_execute :: "'w conn_daemon \<Rightarrow> bool \<Rightarrow> am_Error_e \<Rightarrow> main_action \<Rightarrow> nat \<Rightarrow> 'w conn_env
    \<Rightarrow> int \<times> conn_action list \<times> 'w conn_env" where
  "disconnect_execute D undoRequired err p c e =
     finish_execute D MK_Disconnect True err c e
       (append_both (set_source_child (checkSharedSourceDisconnected e) D SS_OFF e) (disconnect_route_child e c) undoRequired
          (directed p (cx_routes e c)) (cx_next e))"

definition suspend_execute :: "'w conn_daemon \<Rightarrow> bool \<Rightarrow> am_Error_e \<Rightarrow> main_action \<Rightarrow> nat \<Rightarrow> 'w conn_env
    \<Rightarrow> int \<times> conn_action list \<times> 'w conn_env" where
  "suspend_execute D undoRequired err p c e =
     (let state = conn_getState D e c; connect = (state = CS_DISCONNECTED \<or> state = CS_CONNECTING)
      in finish_execute D MK_Suspend connect err c e
           (append_both (\<lambda>r. if connect then connect_route_child r else (E_OK, None)) (suspend_source_child D e c) undoRequired
              (directed p (cx_routes e c)) (cx_next e)))"

definition main_execute :: "'w conn_daemon \<Rightarrow> conn_container container \<Rightarrow> main_action \<Rightarrow> 'w conn_env
    \<Rightarrow> int \<times> conn_action list \<times> 'w conn_env" where
  "main_execute D ct p e =
     (case ma_mpMainConnection p of
        None \<Rightarrow> (error_code E_NOT_POSSIBLE, [], e)
      | Some c \<Rightarrow>
          (case ma_kind p of
             MK_Connect \<Rightarrow> connect_execute D (ct_mUndoRequired ct) (error_of (ct_mError ct)) p c e
           | MK_Disconnect \<Rightarrow> disconnect_execute D (ct_mUndoRequired ct) (error_of (ct_mError ct)) p c e
           | MK_Suspend \<Rightarrow> suspend_execute D (ct_mUndoRequired ct) (error_of (ct_mError ct)) p c e))"

text \<open>Only two of the classes undo something themselves, which is to show the opposite transition.\<close>

definition main_undo :: "'w conn_daemon \<Rightarrow> conn_container container \<Rightarrow> main_action \<Rightarrow> 'w conn_env \<Rightarrow> 'w conn_env" where
  "main_undo D ct p e =
     (case ma_mpMainConnection p of
        None \<Rightarrow> e
      | Some c \<Rightarrow>
          (case ma_kind p of
             MK_Connect \<Rightarrow> enter_transition D MK_Disconnect (error_of (ct_mError ct)) c e
           | MK_Disconnect \<Rightarrow> enter_transition D MK_Connect (error_of (ct_mError ct)) c e
           | MK_Suspend \<Rightarrow> e))"

definition connect_update :: "'w conn_daemon \<Rightarrow> conn_container container \<Rightarrow> main_action \<Rightarrow> nat \<Rightarrow> int \<Rightarrow> 'w conn_env \<Rightarrow> 'w conn_env" where
  "connect_update D ct p c result e =
     (let target = (if result = 0 \<and> ct_mStatus ct = AS_COMPLETED then
                      (if source_state_at D e (the (cx_mainSource e c)) = SS_ON then Some CS_CONNECTED else Some CS_SUSPENDED)
                    else if ct_mStatus ct = AS_UNDO_COMPLETE then Some CS_DISCONNECTED else None)
      in case target of
           None \<Rightarrow> e
         | Some s \<Rightarrow> conn_unregister (ma_this p) c
             (conn_trigger D (error_of (ct_mError ct)) c (conn_updateMainVolume D c (conn_setState D s c e))))"

definition leave_transition :: "'w conn_daemon \<Rightarrow> conn_container container \<Rightarrow> main_action \<Rightarrow> nat \<Rightarrow> 'w conn_env \<Rightarrow> 'w conn_env" where
  "leave_transition D ct p c e =
     conn_unregister (ma_this p) c (conn_trigger D (error_of (ct_mError ct)) c (conn_updateState D c e))"

definition disconnect_update :: "'w conn_daemon \<Rightarrow> conn_container container \<Rightarrow> main_action \<Rightarrow> nat \<Rightarrow> int \<Rightarrow> 'w conn_env
    \<Rightarrow> main_action \<times> 'w conn_env" where
  "disconnect_update D ct p c result e =
     (if ct_mStatus ct = AS_COMPLETED then
        (if result = 0 then p\<lparr>ma_mActionCompleted := True\<rparr> else p, leave_transition D ct p c e)
      else if ct_mStatus ct = AS_UNDO_COMPLETE \<and> ma_mActionCompleted p then (p, leave_transition D ct p c e)
      else (p, e))"

definition suspend_update :: "'w conn_daemon \<Rightarrow> conn_container container \<Rightarrow> main_action \<Rightarrow> nat \<Rightarrow> 'w conn_env \<Rightarrow> 'w conn_env" where
  "suspend_update D ct p c e =
     (if ct_mStatus ct = AS_COMPLETED \<or> ct_mStatus ct = AS_UNDO_COMPLETE then leave_transition D ct p c e else e)"

definition main_update :: "'w conn_daemon \<Rightarrow> conn_container container \<Rightarrow> main_action \<Rightarrow> int \<Rightarrow> 'w conn_env
    \<Rightarrow> main_action \<times> 'w conn_env" where
  "main_update D ct p result e =
     (case ma_mpMainConnection p of
        None \<Rightarrow> (p, e)
      | Some c \<Rightarrow>
          (case ma_kind p of
             MK_Connect \<Rightarrow> (p, connect_update D ct p c result e)
           | MK_Disconnect \<Rightarrow> disconnect_update D ct p c result e
           | MK_Suspend \<Rightarrow> (p, suspend_update D ct p c e)))"

section \<open>Disconnecting the connections that match\<close>

definition disconnect_targets :: "'w conn_daemon \<Rightarrow> disconnect_work \<Rightarrow> 'w conn_env \<Rightarrow> nat list" where
  "disconnect_targets D p e =
     (case da_connectionName p of
        Some nm \<Rightarrow> (case conn_find e nm of None \<Rightarrow> [] | Some c \<Rightarrow> [c])
      | None \<Rightarrow> conn_search D e
          \<lparr>cf_mClassName = param_or_empty (da_className p), cf_mSourceName = param_or_empty (da_sourceName p),
           cf_mSinkName = param_or_empty (da_sinkName p), cf_mListConnectionStates = da_connectionStates p,
           cf_mListExceptSources = da_exceptSources p, cf_mListExceptSinks = da_exceptSinks p,
           cf_mListExceptClasses = da_exceptClasses p\<rparr>)"

fun classTypeToConnectDirectionLUT :: "gc_Class_e \<Rightarrow> gc_SetSourceStateDirection_e option" where
  "classTypeToConnectDirectionLUT C_UNKNOWN = Some SD_MAINSINK_TO_MAINSOURCE"
| "classTypeToConnectDirectionLUT C_PLAYBACK = Some SD_MAINSINK_TO_MAINSOURCE"
| "classTypeToConnectDirectionLUT C_CAPTURE = Some SD_MAINSOURCE_TO_MAINSINK"
| "classTypeToConnectDirectionLUT C_MAX = None"

fun classTypeToDisconnectDirectionLUT :: "gc_Class_e \<Rightarrow> gc_SetSourceStateDirection_e option" where
  "classTypeToDisconnectDirectionLUT C_UNKNOWN = Some SD_MAINSOURCE_TO_MAINSINK"
| "classTypeToDisconnectDirectionLUT C_PLAYBACK = Some SD_MAINSOURCE_TO_MAINSINK"
| "classTypeToDisconnectDirectionLUT C_CAPTURE = Some SD_MAINSINK_TO_MAINSOURCE"
| "classTypeToDisconnectDirectionLUT C_MAX = None"

text \<open>\<open>classType\<close> gives the type of a class element by name. No class has the last value of the enumeration, which is outside of the tables.\<close>

definition disconnect_direction :: "(string \<Rightarrow> gc_Class_e) \<Rightarrow> 'w conn_env \<Rightarrow> nat \<Rightarrow> gc_SetSourceStateDirection_e option" where
  "disconnect_direction classType e c =
     (case mc_mpClassElement (cx_conns e c) of None \<Rightarrow> None | Some nm \<Rightarrow> classTypeToDisconnectDirectionLUT (classType nm))"

fun make_disconnects :: "'w conn_daemon \<Rightarrow> (string \<Rightarrow> gc_Class_e) \<Rightarrow> nat list \<Rightarrow> 'w conn_env \<Rightarrow> conn_action list \<times> 'w conn_env" where
  "make_disconnects D classType [] e = ([], e)"
| "make_disconnects D classType (c # cs) e =
     (case main_new D MK_Disconnect (Some c) (disconnect_direction classType e c) False e of (a, e1) \<Rightarrow>
        case make_disconnects D classType cs e1 of (as, e2) \<Rightarrow> (a # as, e2))"

definition da_execute :: "'w conn_daemon \<Rightarrow> (string \<Rightarrow> gc_Class_e) \<Rightarrow> disconnect_work \<Rightarrow> 'w conn_env
    \<Rightarrow> int \<times> disconnect_work \<times> conn_action list \<times> 'w conn_env" where
  "da_execute D classType p e =
     (let cs = disconnect_targets D p e;
          p1 = p\<lparr>da_mpListMainConnections := da_mpListMainConnections p @ map Some cs\<rparr>
      in case make_disconnects D classType (map the (da_mpListMainConnections p1)) e of (as, e1) \<Rightarrow> (0, p1, as, e1))"

text \<open>After the work: every connection that may go is disposed of, through its class, and forgotten.\<close>

fun dispose_all :: "'w conn_daemon \<Rightarrow> nat option list \<Rightarrow> 'w conn_env \<Rightarrow> nat option list \<times> 'w conn_env" where
  "dispose_all D [] e = ([], e)"
| "dispose_all D (None # cs) e = (case dispose_all D cs e of (cs', e') \<Rightarrow> (None # cs', e'))"
| "dispose_all D (Some c # cs) e =
     (if conn_permitsDispose D c e then
        (case dispose_all D cs (if mc_mpClassElement (cx_conns e c) = None then e else conn_dispose D c e) of (cs', e') \<Rightarrow> (None # cs', e'))
      else (case dispose_all D cs e of (cs', e') \<Rightarrow> (Some c # cs', e')))"

definition da_update :: "'w conn_daemon \<Rightarrow> disconnect_work \<Rightarrow> 'w conn_env \<Rightarrow> disconnect_work \<times> 'w conn_env" where
  "da_update D p e = (case dispose_all D (da_mpListMainConnections p) e of (cs, e') \<Rightarrow> (p\<lparr>da_mpListMainConnections := cs\<rparr>, e'))"

section \<open>The system of connection actions\<close>

definition cs_execute :: "'w conn_daemon \<Rightarrow> (string \<Rightarrow> gc_Class_e) \<Rightarrow> conn_container container \<Rightarrow> 'w conn_env
    \<Rightarrow> int \<times> conn_container \<times> conn_action list \<times> 'w conn_env" where
  "cs_execute D classType ct e =
     (case ct_priv ct of
        MainAction p \<Rightarrow> (case main_execute D ct p e of (err, as, e') \<Rightarrow> (err, MainAction p, as, e'))
      | ActDisconnect p \<Rightarrow> (case da_execute D classType p e of (err, p', as, e') \<Rightarrow> (err, ActDisconnect p', as, e')))"

definition cs_undo :: "'w conn_daemon \<Rightarrow> conn_container container \<Rightarrow> 'w conn_env \<Rightarrow> int \<times> conn_container \<times> 'w conn_env" where
  "cs_undo D ct e = (0, ct_priv ct, case ct_priv ct of MainAction p \<Rightarrow> main_undo D ct p e | ActDisconnect p \<Rightarrow> e)"

definition cs_update :: "'w conn_daemon \<Rightarrow> conn_container container \<Rightarrow> int \<Rightarrow> 'w conn_env \<Rightarrow> conn_container \<times> 'w conn_env" where
  "cs_update D ct result e =
     (case ct_priv ct of
        MainAction p \<Rightarrow> (case main_update D ct p result e of (p', e') \<Rightarrow> (MainAction p', e'))
      | ActDisconnect p \<Rightarrow> (case da_update D p e of (p', e') \<Rightarrow> (ActDisconnect p', e')))"

definition conn_sys :: "'w conn_daemon \<Rightarrow> (string \<Rightarrow> gc_Class_e) \<Rightarrow> (nat \<Rightarrow> 32 word \<Rightarrow> timer_handle \<Rightarrow> 't \<Rightarrow> bool \<times> timer_handle \<times> 't)
    \<Rightarrow> (timer_handle \<Rightarrow> 't \<Rightarrow> timer_handle \<times> 't) \<Rightarrow> (conn_leaf, conn_container, 't, 'w conn_env) action_sys" where
  "conn_sys D classType setT remT = \<lparr>as_leaf = cl_sys D setT remT, as_execute = cs_execute D classType, as_undo = cs_undo D,
     as_update = cs_update D, as_cleanup = (\<lambda>c e. (c, e))\<rparr>"

end
