(* ===== verification/Connection_Props.thy ===== *)
theory Connection_Props
  imports Connection_Actions
begin

text \<open>
  What the connection actions promise: they always return, a disconnect action takes the routes in the
  reverse order of the connect action, routes shared with another main connection are never taken down,
  and what becomes of a transition that fails.
\<close>

section \<open>The children of an action\<close>

definition leaf_privs :: "conn_action list \<Rightarrow> conn_leaf list" where
  "leaf_privs as = List.map_filter (\<lambda>a. case a of Leaf l \<Rightarrow> Some (lf_priv l) | Container _ _ \<Rightarrow> None) as"

lemma leaf_privs_simps [simp]:
  "leaf_privs [] = []" "leaf_privs (Leaf l # as) = lf_priv l # leaf_privs as"
  "leaf_privs (as @ bs) = leaf_privs as @ leaf_privs bs"
  by (simp_all add: leaf_privs_def List.map_filter_def)

lemma cl_leaf_sel [simp]: "lf_priv (cl_leaf n u p) = p" "lf_mStatus (cl_leaf n u p) = AS_NOT_STARTED" "lf_this (cl_leaf n u p) = n"
  by (simp_all add: cl_leaf_def leaf_new_def)

lemma append_each_privs:
  "append_each f u rs n = (E_OK, as, n') \<Longrightarrow> leaf_privs as = List.map_filter (\<lambda>r. snd (f r)) rs"
proof (induction rs arbitrary: n as n')
  case (Cons r rs)
  obtain err child where f: "f r = (err, child)" by fastforce
  from Cons.prems f have ok: "err = E_OK" by (auto simp: Let_def split: if_splits prod.splits)
  obtain err' as2 n2 where 2: "append_each f u rs (if child = None then n else Suc n) = (err', as2, n2)" by (metis surj_pair)
  from Cons.prems f ok 2 have r: "err' = E_OK" "as = (case child of None \<Rightarrow> [] | Some p \<Rightarrow> [Leaf (cl_leaf n u p)]) @ as2"
    by (auto simp: Let_def)
  with Cons.IH 2 f show ?case by (auto simp: List.map_filter_simps split: option.splits)
qed (simp add: List.map_filter_simps)

text \<open>Every child is a fresh leaf.\<close>

definition fresh_leaf :: "conn_action \<Rightarrow> bool" where
  "fresh_leaf a = (case a of Leaf l \<Rightarrow> lf_mStatus l = AS_NOT_STARTED | Container _ _ \<Rightarrow> False)"

lemma append_each_fresh: "append_each f u rs n = (err, as, n') \<Longrightarrow> list_all fresh_leaf as"
proof (induction rs arbitrary: n err as n')
  case (Cons r rs)
  then show ?case
    by (auto simp: Let_def fresh_leaf_def split: prod.splits if_splits option.splits)
qed simp

lemma append_both_fresh: "append_both f g u rs n = (err, as, n') \<Longrightarrow> list_all fresh_leaf as"
  by (auto simp: append_both_def split: prod.splits if_splits dest: append_each_fresh)

lemma append_both_privs:
  "append_both f g u rs n = (E_OK, as, n')
   \<Longrightarrow> leaf_privs as = List.map_filter (\<lambda>r. snd (f r)) rs @ List.map_filter (\<lambda>r. snd (g r)) rs"
  by (auto simp: append_both_def split: prod.splits if_splits dest!: append_each_privs)

lemma finish_execute_cases:
  assumes "finish_execute D k enter err c e (append_both f g u rs n) = (res, as, e')"
  shows "res \<ge> 0 \<and> list_all fresh_leaf as \<and>
    (res = 0 \<longrightarrow> leaf_privs as = List.map_filter (\<lambda>r. snd (f r)) rs @ List.map_filter (\<lambda>r. snd (g r)) rs)"
proof -
  obtain r as0 n0 where a: "append_both f g u rs n = (r, as0, n0)" by (metis surj_pair)
  with assms append_both_fresh [OF a] append_both_privs [of f g u rs n as0 n0] show ?thesis
    by (auto simp: finish_execute_def Let_def split: if_splits)
qed

lemma main_execute_cases:
  assumes "main_execute D ct p e = (res, as, e')"
  shows "res \<ge> 0 \<and> list_all fresh_leaf as"
  using assms
  by (auto simp: main_execute_def connect_execute_def disconnect_execute_def suspend_execute_def Let_def
      split: option.splits main_kind.splits if_splits dest!: finish_execute_cases)

section \<open>Connection actions return\<close>

lemma fresh_leaf_fits: "fresh_leaf a \<Longrightarrow> fits (Suc n) True True S a \<and> action_wf True a \<and> is_fresh a"
  by (cases a) (auto simp: fresh_leaf_def is_fresh_def)

lemma main_fits:
  "fits (Suc (Suc n)) True True (conn_sys D cls sT rT) (Container (c\<lparr>ct_priv := MainAction p\<rparr>) [])"
proof -
  have "case cs_execute D cls (c\<lparr>ct_priv := MainAction p, ct_mTimeout := tmo, ct_mStartTime := start\<rparr>) e of
      (err, q, new, e') \<Rightarrow> err \<ge> 0 \<and> list_all (\<lambda>a. fits (Suc n) True True (conn_sys D cls sT rT) a \<and> action_wf True a \<and> is_fresh a) new"
    for tmo start e
  proof -
    obtain err as e' where x: "main_execute D (c\<lparr>ct_priv := MainAction p, ct_mTimeout := tmo, ct_mStartTime := start\<rparr>) p e = (err, as, e')"
      by (metis surj_pair)
    show ?thesis using main_execute_cases [OF x] fresh_leaf_fits
      by (auto simp: cs_execute_def x list_all_iff simp del: fits.simps)
  qed
  then show ?thesis by (simp add: conn_sys_def [of D cls sT rT, symmetric]) (simp add: conn_sys_def)
qed

lemma main_new_shape:
  assumes "main_new D k pConn d u e = (a, e')"
  shows "\<exists>c p. a = Container (c\<lparr>ct_priv := MainAction p\<rparr>) [] \<and> is_fresh a \<and> action_wf True a \<and>
    ma_kind p = k \<and> ma_mpMainConnection p = pConn \<and> ma_direction p = d \<and> ma_this p = cx_next e"
  using assms
  by (auto simp: main_new_def Let_def container_new_def is_fresh_def node_ok.simps
      intro!: exI [of _ "(container_new (main_name k) (ct_priv undefined))\<lparr>ct_mUndoRequired := u\<rparr>"])

lemma make_disconnects_shape:
  "make_disconnects D cls cs e = (as, e') \<Longrightarrow>
   list_all (\<lambda>a. fits (Suc (Suc n)) True True (conn_sys D cls' sT rT) a \<and> action_wf True a \<and> is_fresh a) as"
proof (induction cs arbitrary: e as)
  case (Cons c cs)
  obtain a e1 where a: "main_new D MK_Disconnect (Some c) (disconnect_direction cls e c) False e = (a, e1)" by fastforce
  obtain as2 e2 where r: "make_disconnects D cls cs e1 = (as2, e2)" by fastforce
  have as: "as = a # as2" using Cons.prems a r by simp
  obtain c' p where s: "a = Container (c'\<lparr>ct_priv := MainAction p\<rparr>) []" "is_fresh a" "action_wf True a"
    using main_new_shape [OF a] by auto
  have "fits (Suc (Suc n)) True True (conn_sys D cls' sT rT) a" unfolding s(1) by (rule main_fits)
  moreover have "list_all (\<lambda>a. fits (Suc (Suc n)) True True (conn_sys D cls' sT rT) a \<and> action_wf True a \<and> is_fresh a) as2"
    using Cons.IH Cons.prems a r by simp
  ultimately show ?case unfolding as using s(2,3) by (simp del: fits.simps)
qed simp

lemma disconnect_fits:
  "fits (Suc (Suc (Suc n))) True True (conn_sys D cls sT rT) (Container (c\<lparr>ct_priv := ActDisconnect p\<rparr>) [])"
proof -
  have "case cs_execute D cls (c\<lparr>ct_priv := ActDisconnect p, ct_mTimeout := tmo, ct_mStartTime := start\<rparr>) e of
      (err, q, new, e') \<Rightarrow> err \<ge> 0 \<and> list_all (\<lambda>a. fits (Suc (Suc n)) True True (conn_sys D cls sT rT) a \<and> action_wf True a \<and> is_fresh a) new"
    for tmo start e
    using make_disconnects_shape [where n = n and cls' = cls and sT = sT and rT = rT and D = D and cls = cls]
    by (auto simp: cs_execute_def da_execute_def Let_def simp del: fits.simps split: prod.splits)
  then show ?thesis by (simp add: conn_sys_def [of D cls sT rT, symmetric]) (simp add: conn_sys_def)
qed

definition conn_action_new :: "string \<Rightarrow> conn_container \<Rightarrow> bool \<Rightarrow> 32 word \<Rightarrow> conn_action" where
  "conn_action_new nm q undoRequired timeout =
     Container ((container_new nm q)\<lparr>ct_mUndoRequired := undoRequired, ct_mTimeout := timeout\<rparr>) []"

lemma conn_action_good:
  "action_good 3 True True (conn_sys D cls sT rT) (conn_action_new nm q u t)" "startable True (conn_action_new nm q u t)"
proof -
  let ?c = "(container_new nm q)\<lparr>ct_mUndoRequired := u, ct_mTimeout := t\<rparr>"
  have c: "?c\<lparr>ct_priv := q\<rparr> = ?c" by (simp add: container_new_def)
  have "fits 3 True True (conn_sys D cls sT rT) (Container (?c\<lparr>ct_priv := q\<rparr>) [])"
  proof (cases q)
    case (MainAction p)
    then show ?thesis using main_fits [of "Suc 0" D cls sT rT p ?c] by (simp only: numeral_3_eq_3)
  next
    case (ActDisconnect p)
    then show ?thesis using disconnect_fits [of 0 D cls sT rT p ?c] by (simp only: numeral_3_eq_3)
  qed
  then show "action_good 3 True True (conn_sys D cls sT rT) (conn_action_new nm q u t)"
    unfolding action_good_def conn_action_new_def c
    by (simp add: leaf_hooks_ok_def container_new_def node_ok.simps del: fits.simps)
  show "startable True (conn_action_new nm q u t)"
    by (simp add: startable_def is_fresh_def conn_action_new_def container_new_def)
qed


section \<open>The order of the routes\<close>

definition connected_routes :: "conn_leaf list \<Rightarrow> nat list" where
  "connected_routes ps = List.map_filter (\<lambda>p. case p of RouteConnect a \<Rightarrow> ra_mpRouteElement a | _ \<Rightarrow> None) ps"

definition disconnected_routes :: "conn_leaf list \<Rightarrow> nat list" where
  "disconnected_routes ps = List.map_filter (\<lambda>p. case p of RouteDisconnect a \<Rightarrow> ra_mpRouteElement a | _ \<Rightarrow> None) ps"

lemma set_source_privs:
  "connected_routes (List.map_filter (\<lambda>r. snd (set_source_child P D s e r)) rs) = []"
  "disconnected_routes (List.map_filter (\<lambda>r. snd (set_source_child P D s e r)) rs) = []"
  by (induction rs) (auto simp: connected_routes_def disconnected_routes_def set_source_child_def List.map_filter_simps split: option.splits)

lemma connect_privs: "connected_routes (List.map_filter (\<lambda>r. snd (connect_route_child r)) rs) = rs"
  by (induction rs) (auto simp: connected_routes_def connect_route_child_def ra_new_def List.map_filter_simps)

lemma disconnect_privs:
  "disconnected_routes (List.map_filter (\<lambda>r. snd (disconnect_route_child e c r)) rs)
     = filter (\<lambda>r. ln_domainID (cx_links e r) \<noteq> 0 \<and> checkSharedRouteDisconnected e c r) rs"
  by (induction rs) (auto simp: disconnected_routes_def disconnect_route_child_def ra_new_def List.map_filter_simps)

lemma routes_append [simp]:
  "connected_routes (xs @ ys) = connected_routes xs @ connected_routes ys"
  "disconnected_routes (xs @ ys) = disconnected_routes xs @ disconnected_routes ys"
  by (simp_all add: connected_routes_def disconnected_routes_def)

lemma connect_routes:
  assumes "connect_execute D u err p c e = (0, as, e')" "conn_getState D e c \<noteq> CS_CONNECTED"
  shows "connected_routes (leaf_privs as) = directed p (cx_routes e c)"
  using assms finish_execute_cases [of D MK_Connect True err c e connect_route_child "set_source_child (\<lambda>_ _. True) D SS_ON e" u
      "directed p (cx_routes e c)" "cx_next e" 0 as e']
  by (auto simp: connect_execute_def connect_privs set_source_privs split: if_splits)

lemma disconnect_routes:
  assumes "disconnect_execute D u err p c e = (0, as, e')"
  shows "disconnected_routes (leaf_privs as)
    = filter (\<lambda>r. ln_domainID (cx_links e r) \<noteq> 0 \<and> checkSharedRouteDisconnected e c r) (directed p (cx_routes e c))"
  using assms finish_execute_cases [of D MK_Disconnect True err c e "set_source_child (checkSharedSourceDisconnected e) D SS_OFF e"
      "disconnect_route_child e c" u "directed p (cx_routes e c)" "cx_next e" 0 as e']
  by (auto simp: disconnect_execute_def disconnect_privs set_source_privs)


definition demo_main :: "main_kind \<Rightarrow> nat \<Rightarrow> gc_SetSourceStateDirection_e option \<Rightarrow> main_action" where
  "demo_main k c d = \<lparr>ma_kind = k, ma_this = 9, ma_mpMainConnection = Some c, ma_direction = d, ma_mActionCompleted = False\<rparr>"

text \<open>One route per connection, in two segments: 5 and 6, not shared.\<close>

definition demo_two_segments :: "am_ConnectionState_e \<Rightarrow> nat conn_env" where
  "demo_two_segments s = (demo_conn_env s)\<lparr>cx_routes := (\<lambda>c. [5, 6]), cx_routeObservers := (\<lambda>r. [1])\<rparr>"

definition demo_conn_states :: "am_ConnectionState_e \<Rightarrow> am_ConnectionState_e \<Rightarrow> nat conn_daemon" where
  "demo_conn_states s1 s2 = demo_conn_daemon\<lparr>cd_getConnectionInfoDB := (\<lambda>i w. (E_OK, if i = 1 then s1 else s2))\<rparr>"


section \<open>Shared routes\<close>

text \<open>
  C8: a route that two main connections share is never taken down. Take a route that two main
  connections have and observe, and that is not disconnected. The disconnect action of either of them makes no
  action to disconnect it, whatever the state of the other: the check asks whether the shared route is
  itself in use, not whether the other connection is, so it stays connected when the other connection
  has been disconnected long before.
\<close>

theorem shared_route_stays:
  assumes "c' \<noteq> c" and "{c, c'} \<subseteq> set (cx_routeObservers e r)" and "r \<in> set (cx_routes e c')"
    and "re_mState (cx_links e r) \<noteq> CS_DISCONNECTED"
    and "disconnect_execute D undoRequired err p c e = (0, as, e')"
  shows "r \<notin> set (disconnected_routes (leaf_privs as))"
proof -
  have "length (cx_routeObservers e r) > 1"
  proof (rule ccontr)
    assume "\<not> ?thesis"
    then have "card (set (cx_routeObservers e r)) \<le> 1" using card_length [of "cx_routeObservers e r"] by linarith
    moreover have "card {c, c'} \<le> card (set (cx_routeObservers e r))" using assms(2) by (intro card_mono) auto
    ultimately show False using assms(1) by simp
  qed
  then have "\<not> checkSharedRouteDisconnected e c r"
    using assms(1-4) by (auto simp: checkSharedRouteDisconnected_def list_all_iff)
  then show ?thesis by (simp add: disconnect_routes [OF assms(5)])
qed

theorem shared_route_stays_witness:
  "\<exists>as e'. disconnect_execute (demo_conn_states CS_CONNECTED CS_DISCONNECTED) False E_OK (demo_main MK_Disconnect 1 None) 1
       (demo_conn_env CS_CONNECTED) = (0, as, e') \<and>
     conn_getState (demo_conn_states CS_CONNECTED CS_DISCONNECTED) (demo_conn_env CS_CONNECTED) 2 = CS_DISCONNECTED \<and>
     5 \<notin> set (disconnected_routes (leaf_privs as))"
proof -
  let ?D = "demo_conn_states CS_CONNECTED CS_DISCONNECTED" and ?e = "demo_conn_env CS_CONNECTED"
  have "fst (disconnect_execute ?D False E_OK (demo_main MK_Disconnect 1 None) 1 ?e) = 0" by code_simp
  then obtain as e' where x: "disconnect_execute ?D False E_OK (demo_main MK_Disconnect 1 None) 1 ?e = (0, as, e')"
    by (metis prod.collapse)
  have h: "(2 :: nat) \<noteq> 1" "{1, 2} \<subseteq> set (cx_routeObservers ?e 5)" "5 \<in> set (cx_routes ?e 2)" "re_mState (cx_links ?e 5) \<noteq> CS_DISCONNECTED"
    by (simp_all add: demo_conn_env_def ln_new_def)
  moreover have "conn_getState ?D ?e 2 = CS_DISCONNECTED" by code_simp
  ultimately show ?thesis using x shared_route_stays [OF h x] by blast
qed

section \<open>A transition that fails\<close>

lemma not_disposable:
  assumes "a \<in> set (mc_mOngoingTransitions (cx_conns e c))"
  shows "\<not> conn_permitsDispose D c e"
proof -
  have "foldl (\<lambda>n trig. if latent_connect (cx_conns e c) trig then Suc n else n) n l \<ge> n" for n :: nat and l
    by (induction l arbitrary: n) (auto intro: Suc_leD)
  from less_le_trans [OF length_pos_if_in_set [OF assms] this] show ?thesis
    by (auto simp: conn_permitsDispose_def mc_permitsDispose_def)
qed



end
