(* ===== verification/Connection_Selection.thy ===== *)
theory Connection_Selection
  imports Connection_Actions Volume_Actions "HOL-Library.Char_ord" "HOL-Library.List_Lexorder"
begin

text \<open>
  \<open>CAmActionConnect\<close>, \<open>CAmActionSuspend\<close> and \<open>CAmActionInterrupt\<close>: which main connections a request is
  for, how conflicts within a class are resolved, and the actions each of them appends. The main
  connection actions are those of \<open>Connection_Actions\<close>; a volume or a limit action is its request. The
  class elements and the making of a connection are parameters, which \<open>Class_Element\<close> models.
\<close>

section \<open>Connections by class\<close>

record 'w classes =
  kl_classOf :: "string \<Rightarrow> string \<Rightarrow> 'w conn_env \<Rightarrow> string option"   \<comment> \<open>by source and sink name\<close>
  kl_type :: "string \<Rightarrow> gc_Class_e"
  kl_createMainConnection :: "string \<Rightarrow> string \<Rightarrow> string \<Rightarrow> 'w conn_env \<Rightarrow> am_Error_e \<times> nat \<times> 'w conn_env"
  kl_getLastVolume :: "nat \<Rightarrow> am_mainVolume_t \<Rightarrow> 'w conn_env \<Rightarrow> am_mainVolume_t"
  kl_setLastVolume :: "nat \<Rightarrow> 'w conn_env \<Rightarrow> 'w conn_env"

definition class_of :: "'w conn_env \<Rightarrow> nat \<Rightarrow> string" where
  "class_of e c = mc_getClassName (cx_conns e c)"

definition group_by_class :: "'w conn_env \<Rightarrow> nat list \<Rightarrow> (string \<times> nat list) list" where
  "group_by_class e cs = foldl (\<lambda>m c. om_insert (class_of e c)
     ((case map_of m (class_of e c) of None \<Rightarrow> [] | Some l \<Rightarrow> l) @ [c]) m) [] cs"

definition conn_priority :: "'w conn_env \<Rightarrow> nat \<Rightarrow> int" where
  "conn_priority e c = mc_getPriority (cx_points e) (mc_mListRouteElements (conn_view e c))"

definition conn_search_ordered :: "'w conn_daemon \<Rightarrow> 'w conn_env \<Rightarrow> connection_filter \<Rightarrow> gc_Order_e \<Rightarrow> nat list" where
  "conn_search_ordered D e f order = order_list (conn_priority e) order (conn_search D e f)"

definition conn_matches :: "'w conn_daemon \<Rightarrow> 'w conn_env \<Rightarrow> connection_filter \<Rightarrow> nat \<Rightarrow> bool" where
  "conn_matches D e f c = (cf_matches (cx_points e) (\<lambda>mc. mc_getState (cd_getConnectionInfoDB D) mc (cx_daemon e)) f
     (Some (conn_view e c)) = Some True)"

definition conn_moveToEnd :: "nat \<Rightarrow> 'w conn_env \<Rightarrow> 'w conn_env" where
  "conn_moveToEnd c e = e\<lparr>cx_list := (if c \<in> set (cx_list e) then remove1 c (cx_list e) @ [c] else cx_list e)\<rparr>"

definition conn_updateQueue :: "'w conn_daemon \<Rightarrow> string \<Rightarrow> 'w conn_env \<Rightarrow> 'w conn_env" where
  "conn_updateQueue D nm e =
     (case conn_search D e (class_filter nm [CS_CONNECTED, CS_SUSPENDED]) of [] \<Rightarrow> e | c # _ \<Rightarrow> conn_moveToEnd c e)"

section \<open>\<open>CAmActionConnect\<close>\<close>

record connect_request =
  rq_className :: string
  rq_sourceName :: string
  rq_sinkName :: string
  rq_exceptClasses :: "string list"
  rq_order :: gc_Order_e
  rq_volumes :: volume_params

text \<open>The conflicts are the last connections of the class in these states.\<close>

definition last_in :: "am_ConnectionState_e list \<Rightarrow> (nat \<Rightarrow> am_ConnectionState_e) \<Rightarrow> nat list \<Rightarrow> nat option" where
  "last_in states st cs = foldl (\<lambda>r c. if st c \<in> set states then Some c else r) None cs"

text \<open>The connection picked of a class, and the new one that is given up.\<close>

definition connect_select :: "(nat \<Rightarrow> am_ConnectionState_e) \<Rightarrow> (nat \<Rightarrow> bool) \<Rightarrow> nat list \<Rightarrow> nat option \<times> nat option" where
  "connect_select st candidate cs =
     (let pConnected = last_in [CS_CONNECTED, CS_CONNECTING] st cs;
          pSuspended = last_in [CS_SUSPENDED] st cs;
          pInitialized = last_in [CS_UNKNOWN] st cs;
          pPreferred = find candidate cs;
          pSelected = (if pConnected \<noteq> None then None
                       else if pSuspended \<noteq> None \<and> pPreferred \<noteq> None \<and> pSuspended \<noteq> pPreferred then None
                       else pPreferred);
          pConflicting = (if pConnected \<noteq> None then pConnected else pSuspended)
      in (pSelected, if pConflicting \<noteq> None \<and> pInitialized \<noteq> None then pInitialized else None))"

definition connect_candidate :: "'w conn_daemon \<Rightarrow> 'w conn_env \<Rightarrow> string \<Rightarrow> nat \<Rightarrow> bool" where
  "connect_candidate D e sourceName = conn_matches D e (cf_new\<lparr>cf_mSourceName := sourceName,
     cf_mListConnectionStates := [CS_DISCONNECTED, CS_DISCONNECTING, CS_UNKNOWN, CS_SUSPENDED]\<rparr>)"

text \<open>
  The connections to choose from: those that exist, and a new one for an exact request. An excluded class
  ends the search with success and nothing found, also for what exists already.
\<close>

definition connect_existing :: "'w conn_daemon \<Rightarrow> connect_request \<Rightarrow> 'w conn_env \<Rightarrow> nat list" where
  "connect_existing D p e = conn_search_ordered D e
     (cf_new\<lparr>cf_mClassName := rq_className p, cf_mSinkName := rq_sinkName p, cf_mListExceptClasses := rq_exceptClasses p\<rparr>) (rq_order p)"

definition connect_available :: "'w conn_daemon \<Rightarrow> 'w classes \<Rightarrow> connect_request \<Rightarrow> 'w conn_env \<Rightarrow> am_Error_e \<times> nat list option \<times> 'w conn_env" where
  "connect_available D K p e =
     (let found = connect_existing D p e
      in if rq_sourceName p \<noteq> '''' \<and> rq_sinkName p \<noteq> '''' \<and> conn_find e (rq_sourceName p @ '':'' @ rq_sinkName p) = None then
           (case kl_classOf K (rq_sourceName p) (rq_sinkName p) e of
              None \<Rightarrow> (E_NON_EXISTENT, None, e)
            | Some nm \<Rightarrow>
                if rq_exceptClasses p \<noteq> [] \<and> matchesAny (rq_exceptClasses p) nm then (E_OK, None, e)
                else (case kl_createMainConnection K nm (rq_sourceName p) (rq_sinkName p) e of
                    (result, c, e1) \<Rightarrow>
                      if result \<noteq> E_OK \<and> result \<noteq> E_ALREADY_EXISTS then (result, None, e1)
                      else (E_OK, Some (found @ [c]), conn_moveToEnd c e1)))
         else (E_OK, Some found, e))"

text \<open>What an action appends.\<close>

datatype request =
    ReqMain conn_action
  | ReqSetVolume string volume_params
  | ReqLimit string "gc_LimitState_e option"

text \<open>The connections given up are disconnected, class by class.\<close>

fun connect_classes :: "'w conn_daemon \<Rightarrow> string \<Rightarrow> (string \<times> nat list) list \<Rightarrow> 'w conn_env \<Rightarrow> nat list \<times> request list \<times> 'w conn_env" where
  "connect_classes D sourceName [] e = ([], [], e)"
| "connect_classes D sourceName ((nm, cs) # groups) e =
     (case connect_select (conn_getState D e) (connect_candidate D e sourceName) cs of
        (pSelected, pGivenUp) \<Rightarrow>
          (case (case pGivenUp of None \<Rightarrow> ([], e)
                 | Some c \<Rightarrow> (case main_new D MK_Disconnect (Some c) None False e of (a, e') \<Rightarrow> ([ReqMain a], e'))) of
             (as1, e1) \<Rightarrow>
               (case connect_classes D sourceName groups e1 of
                  (cs', as2, e2) \<Rightarrow> ((case pSelected of None \<Rightarrow> [] | Some c \<Rightarrow> [c]) @ cs', as1 @ as2, e2))))"

definition connect_volumes :: "'w conn_daemon \<Rightarrow> 'w classes \<Rightarrow> connect_request \<Rightarrow> nat \<Rightarrow> 'w conn_env \<Rightarrow> volume_params" where
  "connect_volumes D K p c e =
     (let v = rq_volumes p
      in if vp_mainVolume v \<noteq> None \<or> vp_mainVolumeStep v \<noteq> None \<or> vp_volume v \<noteq> None \<or> vp_volumeStep v \<noteq> None then v
         else (let mainVolume = cd_convertVolumeToMainVolume D (cx_points e (the (cx_mainSink e c))) (mc_getVolume (cx_points e) (conn_view e c))
               in \<lparr>vp_mainVolume = Some (kl_getLastVolume K c mainVolume e), vp_mainVolumeStep = None, vp_volume = None, vp_volumeStep = None\<rparr>))"

definition class_direction :: "'w classes \<Rightarrow> (gc_Class_e \<Rightarrow> gc_SetSourceStateDirection_e option) \<Rightarrow> nat \<Rightarrow> 'w conn_env
    \<Rightarrow> gc_SetSourceStateDirection_e option" where
  "class_direction K lut c e = (case mc_mpClassElement (cx_conns e c) of None \<Rightarrow> None | Some nm \<Rightarrow> lut (kl_type K nm))"

fun connect_children :: "'w conn_daemon \<Rightarrow> 'w classes \<Rightarrow> connect_request \<Rightarrow> nat list \<Rightarrow> 'w conn_env \<Rightarrow> request list \<times> 'w conn_env" where
  "connect_children D K p [] e = ([], e)"
| "connect_children D K p (c # cs) e =
     (let volume = ReqSetVolume (mc_mName (cx_conns e c)) (connect_volumes D K p c e)
      in case main_new D MK_Connect (Some c) (class_direction K classTypeToConnectDirectionLUT c e) True e of
           (a, e1) \<Rightarrow> (case connect_children D K p cs e1 of (as, e2) \<Rightarrow> (volume # ReqMain a # as, e2)))"

definition connect_action_execute :: "'w conn_daemon \<Rightarrow> 'w classes \<Rightarrow> connect_request \<Rightarrow> 'w conn_env
    \<Rightarrow> am_Error_e \<times> nat list \<times> request list \<times> 'w conn_env" where
  "connect_action_execute D K p e =
     (case connect_available D K p e of
        (result, available, e1) \<Rightarrow>
          (case connect_classes D (rq_sourceName p) (group_by_class e1 (case available of None \<Rightarrow> [] | Some l \<Rightarrow> l)) e1 of
             (selected, givenUp, e2) \<Rightarrow>
               if result \<noteq> E_OK \<and> result \<noteq> E_ALREADY_EXISTS then (result, selected, givenUp, e2)
               else (case connect_children D K p selected e2 of (as, e3) \<Rightarrow> (E_OK, selected, givenUp @ as, e3))))"

text \<open>\<open>_update\<close> for one selected connection; the flag \<open>mDisposeMainConnection\<close> is handed on.\<close>

definition updateConnectionElement :: "'w conn_daemon \<Rightarrow> 'w classes \<Rightarrow> ActionState_e \<Rightarrow> int \<Rightarrow> nat \<Rightarrow> bool \<times> 'w conn_env \<Rightarrow> bool \<times> 'w conn_env" where
  "updateConnectionElement D K status result c = (\<lambda>(mDispose, e).
     case mc_mpClassElement (cx_conns e c) of
       None \<Rightarrow> (mDispose, e)
     | Some nm \<Rightarrow>
         (let mDispose' = (if status = AS_ERROR_STOPPED \<and> result = error_code E_DATABASE_ERROR then False else mDispose);
              e' = (if status = AS_UNDO_COMPLETE \<and> mDispose then conn_dispose D c e
                    else if status = AS_COMPLETED \<and> conn_getState D e c = CS_CONNECTED then kl_setLastVolume K c e
                    else e)
          in (mDispose', conn_updateQueue D nm e')))"

definition connect_action_update :: "'w conn_daemon \<Rightarrow> 'w classes \<Rightarrow> ActionState_e \<Rightarrow> int \<Rightarrow> nat list \<Rightarrow> bool \<times> 'w conn_env \<Rightarrow> bool \<times> 'w conn_env" where
  "connect_action_update D K status result selected s = foldl (\<lambda>s c. updateConnectionElement D K status result c s) s selected"

section \<open>\<open>CAmActionSuspend\<close>\<close>

text \<open>
  The limit action is handed a value of \<open>gc_LimitType_e\<close> where it keeps a \<open>gc_LimitState_e\<close>; both are zero. The scan ends the selection when the class has a suspended connection already.\<close>

definition suspend_select :: "(nat \<Rightarrow> am_ConnectionState_e) \<Rightarrow> (nat \<Rightarrow> bool) \<Rightarrow> nat list \<Rightarrow> nat option" where
  "suspend_select st candidate cs =
     (if list_ex (\<lambda>c. st c = CS_SUSPENDED) cs then None
      else (let pConnected = last_in [CS_CONNECTED] st cs;
                pPreferred = find (\<lambda>c. st c \<in> {CS_CONNECTED, CS_DISCONNECTED, CS_UNKNOWN} \<and> candidate c) cs
            in if pConnected \<noteq> None \<and> pPreferred \<noteq> None \<and> pPreferred \<noteq> pConnected then None else pPreferred))"

definition suspend_targets :: "'w conn_daemon \<Rightarrow> connect_request \<Rightarrow> 'w conn_env \<Rightarrow> nat list" where
  "suspend_targets D p e =
     List.map_filter (\<lambda>(nm, cs). suspend_select (conn_getState D e)
        (conn_matches D e (cf_new\<lparr>cf_mSourceName := rq_sourceName p, cf_mSinkName := rq_sinkName p\<rparr>)) cs)
       (group_by_class e (conn_search_ordered D e
          (cf_new\<lparr>cf_mClassName := rq_className p, cf_mListExceptClasses := rq_exceptClasses p\<rparr>) (rq_order p)))"

fun suspend_children :: "'w conn_daemon \<Rightarrow> 'w classes \<Rightarrow> nat list \<Rightarrow> 'w conn_env \<Rightarrow> request list \<times> 'w conn_env" where
  "suspend_children D K [] e = ([], e)"
| "suspend_children D K (c # cs) e =
     (case main_new D MK_Suspend (Some c) (class_direction K classTypeToDisconnectDirectionLUT c e) True e of
        (a, e1) \<Rightarrow> (case suspend_children D K cs e1 of
           (as, e2) \<Rightarrow> (ReqMain a # ReqLimit (mc_mName (cx_conns e c)) (Some LS_UNKNWON) # as, e2)))"

definition suspend_action_execute :: "'w conn_daemon \<Rightarrow> 'w classes \<Rightarrow> connect_request \<Rightarrow> 'w conn_env
    \<Rightarrow> am_Error_e \<times> nat list \<times> request list \<times> 'w conn_env" where
  "suspend_action_execute D K p e =
     (let cs = suspend_targets D p e in case suspend_children D K cs e of (as, e1) \<Rightarrow> (E_OK, cs, as, e1))"

definition suspend_action_update :: "'w conn_daemon \<Rightarrow> nat list \<Rightarrow> 'w conn_env \<Rightarrow> 'w conn_env" where
  "suspend_action_update D selected e =
     foldl (\<lambda>e c. case mc_mpClassElement (cx_conns e c) of None \<Rightarrow> e | Some nm \<Rightarrow> conn_updateQueue D nm e) e selected"

section \<open>\<open>CAmActionInterrupt\<close>\<close>

text \<open>
  What is interrupted goes to the end of the list and is disconnected. An exact request that finds nothing
  makes the connection and leaves it disconnected; the limit action gets its parameter under a name that it
  does not register.
\<close>

fun interrupt_children :: "'w conn_daemon \<Rightarrow> 'w classes \<Rightarrow> nat list \<Rightarrow> 'w conn_env \<Rightarrow> request list \<times> 'w conn_env" where
  "interrupt_children D K [] e = ([], e)"
| "interrupt_children D K (c # cs) e =
     (let e1 = conn_moveToEnd c e;
          direction = (case mc_mpClassElement (cx_conns e c) of
              Some nm \<Rightarrow> if kl_type K nm = C_PLAYBACK then Some SD_MAINSOURCE_TO_MAINSINK else None | None \<Rightarrow> None)
      in case main_new D MK_Disconnect (Some c) direction False e1 of
           (a, e2) \<Rightarrow>
             (let e3 = (case mc_mpClassElement (cx_conns e2 c) of None \<Rightarrow> e2 | Some nm \<Rightarrow> conn_updateQueue D nm e2)
              in case interrupt_children D K cs e3 of (as, e4) \<Rightarrow> (ReqMain a # ReqLimit (mc_mName (cx_conns e c)) None # as, e4)))"

definition interrupt_action_execute :: "'w conn_daemon \<Rightarrow> 'w classes \<Rightarrow> connect_request \<Rightarrow> 'w conn_env
    \<Rightarrow> am_Error_e \<times> request list \<times> 'w conn_env" where
  "interrupt_action_execute D K p e =
     (let cs = conn_search D e (cf_new\<lparr>cf_mSinkName := rq_sinkName p, cf_mSourceName := rq_sourceName p, cf_mClassName := rq_className p,
            cf_mListExceptClasses := rq_exceptClasses p, cf_mListConnectionStates := [CS_CONNECTED, CS_SUSPENDED]\<rparr>)
      in if rq_sourceName p \<noteq> '''' \<and> rq_sinkName p \<noteq> '''' \<and> cs = [] then
           (case kl_classOf K (rq_sourceName p) (rq_sinkName p) e of
              None \<Rightarrow> (E_NOT_POSSIBLE, [], e)
            | Some nm \<Rightarrow>
                if rq_exceptClasses p \<noteq> [] \<and> matchesAny (rq_exceptClasses p) nm then (E_OK, [], e)
                else (case kl_createMainConnection K nm (rq_sourceName p) (rq_sinkName p) e of
                    (result, c, e1) \<Rightarrow> (result, [], if result = E_OK then conn_setState D CS_DISCONNECTED c e1 else e1)))
         else (case interrupt_children D K cs e of (as, e1) \<Rightarrow> (E_OK, as, e1)))"

section \<open>Groups\<close>

lemma group_spec:
  "om_ok (group_by_class e cs) \<and>
   map_of (group_by_class e cs) nm = (let l = filter (\<lambda>c. class_of e c = nm) cs in if l = [] then None else Some l)"
proof (induction cs arbitrary: nm rule: rev_induct)
  case Nil
  show ?case by (simp add: group_by_class_def om_ok_def)
next
  case (snoc c cs)
  let ?m = "group_by_class e cs"
  have g: "group_by_class e (cs @ [c]) = om_insert (class_of e c) ((case map_of ?m (class_of e c) of None \<Rightarrow> [] | Some l \<Rightarrow> l) @ [c]) ?m"
    by (simp add: group_by_class_def)
  have ok: "om_ok ?m" using snoc.IH by simp
  show ?case using snoc.IH by (auto simp: g om_ok_insert [OF ok] om.lookup_ins [OF ok] Let_def)
qed

lemma group_distinct: "distinct (map fst (group_by_class e cs))"
  using group_spec [of e cs undefined] by (auto simp: om_ok_def strict_sorted_iff)

lemma group_mem:
  assumes "(nm, l) \<in> set (group_by_class e cs)"
  shows "l = filter (\<lambda>c. class_of e c = nm) cs"
proof -
  have "map_of (group_by_class e cs) nm = Some l" using assms group_distinct map_of_is_SomeI by metis
  then show ?thesis using group_spec [of e cs nm] by (auto simp: Let_def split: if_splits)
qed

section \<open>One active connection per class\<close>

definition active :: "am_ConnectionState_e \<Rightarrow> bool" where
  "active s \<longleftrightarrow> s = CS_CONNECTED \<or> s = CS_CONNECTING \<or> s = CS_SUSPENDED"

lemma last_in_snoc: "last_in ss st (cs @ [c]) = (if st c \<in> set ss then Some c else last_in ss st cs)"
  by (simp add: last_in_def)

lemma last_in_Nil: "last_in ss st [] = None"
  by (simp add: last_in_def)

lemma last_in_None: "last_in ss st cs = None \<longleftrightarrow> (\<forall>c\<in>set cs. st c \<notin> set ss)"
  by (induction cs rule: rev_induct) (auto simp: last_in_snoc last_in_Nil)

lemma last_in_Some: "last_in ss st cs = Some c \<Longrightarrow> c \<in> set cs \<and> st c \<in> set ss"
  by (induction cs rule: rev_induct) (auto simp: last_in_snoc last_in_Nil split: if_splits)

lemma connect_select_spec:
  assumes "connect_select st candidate cs = (Some c, g)" and "\<forall>x y. x \<in> set cs \<and> y \<in> set cs \<and> active (st x) \<and> active (st y) \<longrightarrow> x = y"
  shows "c \<in> set cs \<and> candidate c \<and> (\<forall>x\<in>set cs. active (st x) \<longrightarrow> x = c \<and> st c = CS_SUSPENDED)"
proof -
  let ?con = "last_in [CS_CONNECTED, CS_CONNECTING] st cs" and ?sus = "last_in [CS_SUSPENDED] st cs"
  have f: "find candidate cs = Some c" and n: "?con = None" and s: "?sus = None \<or> ?sus = Some c"
    using assms(1) by (auto simp: connect_select_def Let_def split: if_splits)
  have c: "c \<in> set cs" "candidate c" using f by (auto simp: find_Some_iff)
  moreover have "x = c \<and> st c = CS_SUSPENDED" if "x \<in> set cs" "active (st x)" for x
  proof -
    have "st x = CS_SUSPENDED" using n that by (auto simp: last_in_None active_def)
    then have "?sus = Some c" using s that(1) by (auto simp: last_in_None)
    from last_in_Some [OF this] have "st c = CS_SUSPENDED" by simp
    moreover then have "x = c" using assms(2) that c by (auto simp: active_def)
    ultimately show ?thesis by simp
  qed
  ultimately show ?thesis by blast
qed

lemma connect_select_given_up:
  "connect_select st candidate cs = (s, Some g) \<Longrightarrow> g \<in> set cs"
  by (auto simp: connect_select_def Let_def split: if_splits dest: last_in_Some)

lemma connect_select_cong:
  "\<forall>c\<in>set cs. st c = st' c \<Longrightarrow> connect_select st candidate cs = connect_select st' candidate cs"
proof -
  assume h: "\<forall>c\<in>set cs. st c = st' c"
  then have "last_in ss st cs = last_in ss st' cs" for ss
    unfolding last_in_def by (intro foldl_cong) auto
  then show ?thesis by (simp add: connect_select_def)
qed

text \<open>What the daemon's database does: a change of one main connection is no change of another.\<close>

definition database_ok :: "'w conn_daemon \<Rightarrow> bool" where
  "database_ok D \<longleftrightarrow> (\<forall>i j s w. i \<noteq> j \<longrightarrow> cd_getConnectionInfoDB D i (cd_changeConnectionStateDB D j s w) = cd_getConnectionInfoDB D i w)"

lemma main_new_frame:
  assumes "main_new D k (Some c) d u e = (a, e')"
  shows "mc_mID (cx_conns e' x) = mc_mID (cx_conns e x)"
    and "database_ok D \<Longrightarrow> mc_mID (cx_conns e x) \<noteq> mc_mID (cx_conns e c) \<Longrightarrow> conn_getState D e' x = conn_getState D e x"
  using assms
  by (auto simp: main_new_def Let_def conn_register_def mc_registerTransitionAction_def enter_transition_def conn_trigger_def conn_setState_def
      mc_setState_def conn_getState_def mc_getState_def database_ok_def)

definition sole :: "'w conn_daemon \<Rightarrow> 'w conn_env \<Rightarrow> nat \<Rightarrow> nat list \<Rightarrow> bool" where
  "sole D e c l \<longleftrightarrow> c \<in> set l \<and> (\<forall>x\<in>set l. active (conn_getState D e x) \<longrightarrow> x = c \<and> conn_getState D e c = CS_SUSPENDED)"

definition same_states :: "'w conn_daemon \<Rightarrow> nat set \<Rightarrow> 'w conn_env \<Rightarrow> 'w conn_env \<Rightarrow> bool" where
  "same_states D X e e' \<longleftrightarrow> (\<forall>x. mc_mID (cx_conns e' x) = mc_mID (cx_conns e x)) \<and> (\<forall>x\<in>X. conn_getState D e' x = conn_getState D e x)"

lemma connect_classes_spec:
  assumes "database_ok D" "inj_on (\<lambda>c. mc_mID (cx_conns e c)) X"
    and "distinct (map fst gs)" "\<forall>(nm, l)\<in>set gs. set l \<subseteq> {c \<in> X. class_of e c = nm}"
    and "same_states D (\<Union>(set ` snd ` set gs)) e e0"
    and "\<forall>(nm, l)\<in>set gs. \<forall>x y. x \<in> set l \<and> y \<in> set l \<and> active (conn_getState D e x) \<and> active (conn_getState D e y) \<longrightarrow> x = y"
    and "connect_classes D src gs e0 = (sel, reqs, e')"
  shows "distinct (map (class_of e) sel) \<and> (\<forall>c\<in>set sel. \<exists>l. (class_of e c, l) \<in> set gs \<and> sole D e c l)"
  using assms
proof (induction gs arbitrary: e0 sel reqs e')
  case (Cons g gs)
  obtain nm l where g: "g = (nm, l)" by fastforce
  obtain sl gu where s: "connect_select (conn_getState D e0) (connect_candidate D e0 src) l = (sl, gu)" by fastforce
  obtain as1 e1 where d: "(case gu of None \<Rightarrow> ([], e0)
      | Some c \<Rightarrow> (case main_new D MK_Disconnect (Some c) None False e0 of (a, e') \<Rightarrow> ([ReqMain a], e'))) = (as1, e1)" by fastforce
  obtain sel2 as2 e2 where r: "connect_classes D src gs e1 = (sel2, as2, e2)" by (metis surj_pair)
  have sel: "sel = (case sl of None \<Rightarrow> [] | Some c \<Rightarrow> [c]) @ sel2" using Cons.prems(7) s d r by (simp add: g)
  have l: "set l \<subseteq> {c \<in> X. class_of e c = nm}" using Cons.prems(4) by (simp add: g)
  have other: "\<forall>x\<in>\<Union>(set ` snd ` set gs). x \<in> X \<and> class_of e x \<noteq> nm"
    using Cons.prems(3,4) by (force simp: g)
  have ids: "\<forall>x. mc_mID (cx_conns e0 x) = mc_mID (cx_conns e x)" using Cons.prems(5) by (simp add: same_states_def)
  have "same_states D (\<Union>(set ` snd ` set gs)) e e1"
  proof (cases gu)
    case None
    then show ?thesis using d Cons.prems(5) by (simp add: same_states_def)
  next
    case (Some c)
    then obtain a where m: "main_new D MK_Disconnect (Some c) None False e0 = (a, e1)" using d by (auto split: prod.splits)
    have c: "c \<in> X" "class_of e c = nm" using connect_select_given_up [OF s [unfolded Some]] l by auto
    have "mc_mID (cx_conns e0 x) \<noteq> mc_mID (cx_conns e0 c)" if x: "x \<in> \<Union>(set ` snd ` set gs)" for x
    proof -
      have "x \<in> X" "x \<noteq> c" using other x c(2) by auto
      then show ?thesis using Cons.prems(2) c(1) ids by (auto simp: inj_on_def)
    qed
    then show ?thesis
      using main_new_frame [OF m] Cons.prems(1,5) by (auto simp: same_states_def)
  qed
  then have IH: "distinct (map (class_of e) sel2) \<and> (\<forall>c\<in>set sel2. \<exists>l. (class_of e c, l) \<in> set gs \<and> sole D e c l)"
    using Cons.IH [OF Cons.prems(1,2) _ _ _ _ r] Cons.prems(3,4,6) by (simp add: g)
  show ?case
  proof (cases sl)
    case None
    then show ?thesis using IH by (auto simp: sel g)
  next
    case (Some c)
    have "connect_select (conn_getState D e) (connect_candidate D e0 src) l = (Some c, gu)"
      using s Some connect_select_cong [of l "conn_getState D e0" "conn_getState D e"] Cons.prems(5) by (auto simp: same_states_def g)
    moreover have "\<forall>x y. x \<in> set l \<and> y \<in> set l \<and> active (conn_getState D e x) \<and> active (conn_getState D e y) \<longrightarrow> x = y"
      using Cons.prems(6) by (simp add: g)
    ultimately have c: "sole D e c l"
      using connect_select_spec unfolding sole_def by blast
    then have cl: "c \<in> set l" by (simp add: sole_def)
    have nm: "class_of e c = nm" using cl l by auto
    have away: "class_of e c' \<noteq> nm" if c': "c' \<in> set sel2" for c'
    proof -
      obtain l' where "(class_of e c', l') \<in> set gs" "c' \<in> set l'"
        using bspec [OF conjunct2 [OF IH] c'] by (auto simp only: sole_def)
      then have "c' \<in> \<Union>(set ` snd ` set gs)" by force
      then show ?thesis using other by blast
    qed
    have "class_of e c \<notin> class_of e ` set sel2"
    proof
      assume "class_of e c \<in> class_of e ` set sel2"
      then obtain x where x: "x \<in> set sel2" "class_of e c = class_of e x" by (rule imageE)
      show False using away [OF x(1)] x(2) nm by simp
    qed
    then have "distinct (map (class_of e) sel)" using IH by (simp add: sel Some)
    moreover have "\<exists>l. (class_of e x, l) \<in> set (g # gs) \<and> sole D e x l" if x: "x \<in> set sel" for x
    proof (cases "x = c")
      case True
      then show ?thesis using c nm g by auto
    next
      case False
      then have "x \<in> set sel2" using x by (simp add: sel Some)
      then obtain l' where "(class_of e x, l') \<in> set gs" "sole D e x l'"
        using bspec [OF conjunct2 [OF IH]] by (auto simp only:)
      then show ?thesis by auto
    qed
    ultimately show ?thesis by blast
  qed
qed simp


text \<open>Two classes; in class A connection 1 is suspended and 2 new, in class B connection 3 is disconnected.\<close>

definition demo_class_env :: "nat conn_env" where
  "demo_class_env = (demo_conn_env CS_DISCONNECTED)\<lparr>cx_list := [1, 2, 3],
     cx_conns := (\<lambda>c. (demo_connection_element c)\<lparr>mc_mpClassElement := Some (if c = 3 then ''B'' else ''A'')\<rparr>)\<rparr>"

definition demo_class_daemon :: "nat conn_daemon" where
  "demo_class_daemon = demo_conn_daemon\<lparr>cd_getConnectionInfoDB := (\<lambda>i w. (E_OK, if i = 1 then CS_SUSPENDED else if i = 2 then CS_UNKNOWN else CS_DISCONNECTED))\<rparr>"


end
