(* ===== verification/Rundown_Action.thy ===== *)
theory Rundown_Action
  imports Controller_State Main_Connection
begin

text \<open>
  \<open>CAmActionRundown\<close>: at the end of its life the controller offers every active main connection to the
  domains that outlive it, one after the other, with one leaf \<open>CAmActionTransfer\<close> per connection. The leaf
  overrides \<open>update\<close> itself: a rejected offer starts the same leaf again with the next domain.
\<close>

section \<open>Offering one connection\<close>

record 'w rundown_env =
  rn_handles :: "nat handle_store"
  rn_daemon :: 'w

record 'w rundown_daemon =
  rw_present :: bool
  rw_transferConnection :: "am_ID_t \<Rightarrow> am_ID_t \<Rightarrow> am_Handle_s \<Rightarrow> 'w \<Rightarrow> am_Error_e \<times> am_Handle_s \<times> 'w"
  rw_clock :: "'w \<Rightarrow> timespec \<times> 'w"

record transfer =
  tr_connectionID :: am_ID_t
  tr_mListDomains :: "am_ID_t list"
  tr_mDomainIterator :: nat
  tr_mHandle :: am_Handle_s

definition tr_new :: "am_ID_t list \<Rightarrow> am_ID_t \<Rightarrow> transfer" where
  "tr_new domains connectionID = \<lparr>tr_connectionID = connectionID, tr_mListDomains = domains, tr_mDomainIterator = 0,
     tr_mHandle = \<lparr>handleType = H_UNKNOWN, handle = 0\<rparr>\<rparr>"

text \<open>The loop of \<open>_execute\<close> over the domains that the iterator has not passed.\<close>

fun offer_next :: "'w rundown_daemon \<Rightarrow> nat \<Rightarrow> am_ID_t list \<Rightarrow> transfer \<Rightarrow> 'w rundown_env \<Rightarrow> int \<times> transfer \<times> 'w rundown_env" where
  "offer_next D this [] p e = (0, p, e)"
| "offer_next D this (domainID # ds) p e =
     (case rw_transferConnection D (tr_connectionID p) domainID (tr_mHandle p) (rn_daemon e) of
        (result, h, w) \<Rightarrow>
          (let p' = p\<lparr>tr_mHandle := h\<rparr>; e' = e\<lparr>rn_daemon := w\<rparr>
           in if result = E_OK
              then (E_WAIT_FOR_CHILD_COMPLETION, p', e'\<lparr>rn_handles := hs_saveHandle h (Some this) (rn_handles e')\<rparr>)
              else offer_next D this ds (p'\<lparr>tr_mDomainIterator := Suc (tr_mDomainIterator p')\<rparr>) e'))"

definition tr_execute :: "'w rundown_daemon \<Rightarrow> transfer leaf \<Rightarrow> 'w rundown_env \<Rightarrow> int \<times> transfer \<times> 'w rundown_env" where
  "tr_execute D l e =
     (let p = lf_priv l
      in if rw_present D then offer_next D (lf_this l) (drop (tr_mDomainIterator p) (tr_mListDomains p)) p e else (0, p, e))"

text \<open>\<open>_undo\<close> and \<open>_timeout\<close> are those of the base class, which do nothing.\<close>

definition tr_sys :: "'w rundown_daemon \<Rightarrow> (nat \<Rightarrow> 32 word \<Rightarrow> timer_handle \<Rightarrow> 't \<Rightarrow> bool \<times> timer_handle \<times> 't)
    \<Rightarrow> (timer_handle \<Rightarrow> 't \<Rightarrow> timer_handle \<times> 't) \<Rightarrow> (transfer, 't, 'w rundown_env) leaf_sys" where
  "tr_sys D setT remT =
     \<lparr>ls_clock = (\<lambda>e. case rw_clock D (rn_daemon e) of (ts, w) \<Rightarrow> (ts, e\<lparr>rn_daemon := w\<rparr>)),
      ls_setTimer = setT, ls_removeTimer = remT, ls_execute = tr_execute D, ls_undo = (\<lambda>l e. (0, lf_priv l, e)),
      ls_update = (\<lambda>l r e. (lf_priv l, e)), ls_timeout = (\<lambda>l e. (lf_priv l, e)), ls_cleanup = (\<lambda>l e. (lf_priv l, e))\<rparr>"

definition transfer_update :: "(transfer, 't, 'e) leaf_sys \<Rightarrow> int \<Rightarrow> transfer leaf \<Rightarrow> 't \<times> 'e \<Rightarrow> (transfer, 't, 'e) leaf_result" where
  "transfer_update S result l w =
     (if lf_mStatus l = AS_EXECUTING \<and> result \<noteq> 0
      then leaf_execute S (l\<lparr>lf_priv := (lf_priv l)\<lparr>tr_mDomainIterator := Suc (tr_mDomainIterator (lf_priv l))\<rparr>, lf_mStatus := AS_NOT_STARTED\<rparr>) w
      else leaf_update S result l w)"

section \<open>The run-down action\<close>

text \<open>
  Domains that run down independently and were not there early; connections that are up or on their way. A
  domain that the daemon does not list is taken as one that does not qualify.
\<close>

definition rundown_domains :: "('db \<Rightarrow> am_Error_e \<times> am_Domain_s list) \<Rightarrow> domain_element list \<Rightarrow> 'db \<Rightarrow> domain_element list" where
  "rundown_domains listDomains ds db =
     filter (\<lambda>d. case snd (domain_getDomainInfo listDomains d db) of
         None \<Rightarrow> False | Some i \<Rightarrow> \<not> (dm_state i \<noteq> DS_INDEPENDENT_RUNDOWN \<or> dm_early i)) ds"

definition rundown_connections :: "(main_connection \<Rightarrow> am_ConnectionState_e) \<Rightarrow> main_connection list \<Rightarrow> main_connection list" where
  "rundown_connections getState cs = filter (\<lambda>c. getState c \<in> {CS_CONNECTED, CS_CONNECTING, CS_SUSPENDED}) cs"

record rundown_action =
  ru_mListDomains :: "domain_element list"
  ru_mListMainConnections :: "main_connection list"

definition rundown_new :: "('db \<Rightarrow> am_Error_e \<times> am_Domain_s list) \<Rightarrow> (main_connection \<Rightarrow> am_ConnectionState_e) \<Rightarrow> domain_element list
    \<Rightarrow> main_connection list \<Rightarrow> 'db \<Rightarrow> rundown_action" where
  "rundown_new listDomains getState ds cs db =
     \<lparr>ru_mListDomains = rundown_domains listDomains ds db, ru_mListMainConnections = rundown_connections getState cs\<rparr>"

text \<open>\<open>_execute\<close>: one child per connection; \<open>n\<close> is the next free address. \<open>_update\<close> is the call to finish.\<close>

fun rundown_children :: "am_ID_t list \<Rightarrow> main_connection list \<Rightarrow> nat \<Rightarrow> transfer leaf list" where
  "rundown_children domains [] n = []"
| "rundown_children domains (c # cs) n =
     leaf_new n ''CAmActionTransfer'' (tr_new domains (mc_mID c)) # rundown_children domains cs (Suc n)"

definition rundown_execute :: "rundown_action \<Rightarrow> nat \<Rightarrow> int \<times> transfer leaf list" where
  "rundown_execute p n = (0, rundown_children (map de_mID (ru_mListDomains p)) (ru_mListMainConnections p) n)"

definition rundown_update :: "('e \<Rightarrow> 'e) \<Rightarrow> int \<Rightarrow> 'e \<Rightarrow> int \<times> 'e" where
  "rundown_update mFinalizeRundown result e = (0, mFinalizeRundown e)"

section \<open>Lemmas\<close>

lemma offer_next_spec:
  assumes "offer_next D this ds p e = (err, p', e')"
  shows "tr_mListDomains p' = tr_mListDomains p \<and> tr_connectionID p' = tr_connectionID p \<and> tr_mDomainIterator p \<le> tr_mDomainIterator p' \<and>
    (err = 0 \<and> tr_mDomainIterator p' = tr_mDomainIterator p + length ds \<or>
     err = - 1 \<and> tr_mDomainIterator p' < tr_mDomainIterator p + length ds \<and> rn_handles e' (uHandle (tr_mHandle p')) = Some (Some this))"
  using assms
proof (induction ds arbitrary: p e)
  case (Cons d ds)
  obtain result h w where t: "rw_transferConnection D (tr_connectionID p) d (tr_mHandle p) (rn_daemon e) = (result, h, w)"
    by (metis surj_pair)
  show ?case
  proof (cases "result = E_OK")
    case True
    then show ?thesis using Cons.prems t by (auto simp: Let_def hs_saveHandle_def E_WAIT_FOR_CHILD_COMPLETION_def)
  next
    case False
    let ?p = "p\<lparr>tr_mHandle := h, tr_mDomainIterator := Suc (tr_mDomainIterator p)\<rparr>"
    have "offer_next D this ds ?p (e\<lparr>rn_daemon := w\<rparr>) = (err, p', e')" using Cons.prems t False by (simp add: Let_def)
    from Cons.IH [OF this] show ?thesis by auto
  qed
qed simp

lemma tr_sys_sel [simp]: "ls_execute (tr_sys D sT rT) = tr_execute D" "ls_update (tr_sys D sT rT) = (\<lambda>l r e. (lf_priv l, e))"
  by (simp_all add: tr_sys_def)

lemma tr_clock_handles [simp]: "rn_handles (snd (ls_clock (tr_sys D sT rT) e)) = rn_handles e"
  by (simp add: tr_sys_def split: prod.split)

text \<open>What a run of the leaf leaves behind: it waits for an accepted offer, or has no domain left.\<close>

definition offered :: "nat \<Rightarrow> transfer leaf \<Rightarrow> 'w rundown_env \<Rightarrow> bool" where
  "offered this l e \<longleftrightarrow> lf_mStatus l = AS_EXECUTING \<and> tr_mDomainIterator (lf_priv l) < length (tr_mListDomains (lf_priv l)) \<and>
     rn_handles e (uHandle (tr_mHandle (lf_priv l))) = Some (Some this)"

lemma transfer_execute:
  assumes "leaf_execute (tr_sys D sT rT) l (t, e) = (l', (t', e'), n)" "lf_mStatus l = AS_NOT_STARTED"
    and "tr_mDomainIterator (lf_priv l) \<le> length (tr_mListDomains (lf_priv l))"
  shows "tr_mListDomains (lf_priv l') = tr_mListDomains (lf_priv l) \<and> lf_this l' = lf_this l \<and>
    tr_mDomainIterator (lf_priv l) \<le> tr_mDomainIterator (lf_priv l') \<and>
    (offered (lf_this l) l' e' \<and> n = None \<or> lf_mStatus l' = AS_COMPLETED \<and> lf_mError l' = 0 \<and> n = Some 0)"
proof -
  let ?S = "tr_sys D sT rT"
  obtain l2 err p e2 where x: "lf_priv l2 = lf_priv l" "lf_this l2 = lf_this l" "tr_execute D l2 (snd (ls_clock ?S e)) = (err, p, e2)"
      "lf_priv l' = p" "lf_this l' = lf_this l" "lf_mError l' = err" "lf_mStatus l' = (if err \<ge> 0 then AS_COMPLETED else AS_EXECUTING)"
      "e' = e2 \<or> e' = snd (ls_clock ?S e2)"
    using leaf_execute_priv [OF assms(1,2)] by auto
  have h: "rn_handles e' = rn_handles e2" using x(8) by auto
  have n: "n = (if err \<ge> 0 then Some err else None)"
    using leaf_execute_outcome [OF assms(1,2)] x(6,7) by auto
  show ?thesis
  proof (cases "rw_present D")
    case True
    then have "offer_next D (lf_this l) (drop (tr_mDomainIterator (lf_priv l)) (tr_mListDomains (lf_priv l))) (lf_priv l)
        (snd (ls_clock ?S e)) = (err, p, e2)"
      using x(1-3) by (simp add: tr_execute_def Let_def)
    from offer_next_spec [OF this] show ?thesis using x h n assms(3) by (auto simp: offered_def)
  next
    case False
    then show ?thesis using x n by (auto simp: tr_execute_def Let_def)
  qed
qed

lemma transfer_step:
  assumes "offered (lf_this l) l e" and "transfer_update (tr_sys D sT rT) r l (t, e) = (l', (t', e'), n)"
  shows "if r = 0 then lf_mStatus l' = AS_COMPLETED \<and> lf_mError l' = 0 \<and> lf_priv l' = lf_priv l \<and> n = Some 0
    else tr_mListDomains (lf_priv l') = tr_mListDomains (lf_priv l) \<and> lf_this l' = lf_this l \<and>
      tr_mDomainIterator (lf_priv l) < tr_mDomainIterator (lf_priv l') \<and>
      (offered (lf_this l) l' e' \<and> n = None \<or> lf_mStatus l' = AS_COMPLETED \<and> lf_mError l' = 0 \<and> n = Some 0)"
proof (cases "r = 0")
  case True
  then have "leaf_update (tr_sys D sT rT) 0 l (t, e) = (l', (t', e'), n)" using assms(2) by (simp add: transfer_update_def)
  from leaf_update_priv [OF this] leaf_update_outcome [OF this] assms(1) True show ?thesis by (auto simp: offered_def)
next
  case False
  let ?l = "l\<lparr>lf_priv := (lf_priv l)\<lparr>tr_mDomainIterator := Suc (tr_mDomainIterator (lf_priv l))\<rparr>, lf_mStatus := AS_NOT_STARTED\<rparr>"
  have "leaf_execute (tr_sys D sT rT) ?l (t, e) = (l', (t', e'), n)" using assms False by (simp add: transfer_update_def offered_def)
  from transfer_execute [OF this] assms(1) False show ?thesis by (auto simp: offered_def)
qed

text \<open>A sequence of answers, as long as the leaf waits for them: acknowledgements, or its time is up.\<close>

fun transfer_answers :: "(transfer, 't, 'e) leaf_sys \<Rightarrow> int list \<Rightarrow> transfer leaf \<Rightarrow> 't \<times> 'e \<Rightarrow> (transfer, 't, 'e) leaf_result" where
  "transfer_answers S [] l w = (l, w, None)"
| "transfer_answers S (r # rs) l w =
     (if lf_mStatus l \<noteq> AS_EXECUTING then (l, w, None)
      else (case transfer_update S r l w of (l', w', n) \<Rightarrow> if n = None then transfer_answers S rs l' w' else (l', w', n)))"

text \<open>
  C10: a connection is offered until a domain takes it, and not for ever. Start the transfer of a
  connection with a list of domains and give it answers, each an acceptance or a rejection (a timeout counts as
  one). If it does not complete at once, then after an acceptance, or after as many answers as there
  are domains, it has completed without an error and its parent was told so once; as long as it has
  not, it has an offer out to a domain it has not asked before, whose acknowledgement will reach it.
\<close>

theorem transfer_offers_end:
  assumes "leaf_execute (tr_sys D setT remT) (leaf_new this nm (tr_new domains connectionID)) (t, e) = (l1, (t1, e1), n1)"
    and "transfer_answers (tr_sys D setT remT) rs l1 (t1, e1) = (l2, (t2, e2), n2)"
  shows "(lf_mStatus l1 = AS_COMPLETED \<and> n1 = Some 0 \<and> l2 = l1 \<and> n2 = None \<or>
      n1 = None \<and> lf_mStatus l2 = AS_COMPLETED \<and> lf_mError l2 = 0 \<and> n2 = Some 0 \<or>
      n1 = None \<and> n2 = None \<and> 0 \<notin> set rs \<and> length rs < length domains \<and> lf_mStatus l2 = AS_EXECUTING \<and>
        length rs \<le> tr_mDomainIterator (lf_priv l2) \<and> tr_mDomainIterator (lf_priv l2) < length domains \<and>
        rn_handles e2 (uHandle (tr_mHandle (lf_priv l2))) = Some (Some this))"
proof -
  have sel: "lf_mStatus (leaf_new this nm p) = AS_NOT_STARTED" "lf_priv (leaf_new this nm p) = p" "lf_this (leaf_new this nm p) = this" for p
    by (simp_all add: leaf_new_def)
  have start: "tr_mListDomains (lf_priv l1) = domains" "lf_this l1 = this"
      "offered this l1 e1 \<and> n1 = None \<or> lf_mStatus l1 = AS_COMPLETED \<and> lf_mError l1 = 0 \<and> n1 = Some 0"
    using transfer_execute [OF assms(1)] by (auto simp: sel tr_new_def)
  have run: "offered this l e \<Longrightarrow> lf_this l = this \<Longrightarrow> tr_mListDomains (lf_priv l) = domains
      \<Longrightarrow> transfer_answers (tr_sys D setT remT) rs l (t, e) = (l2, (t2, e2), n2)
      \<Longrightarrow> lf_mStatus l2 = AS_COMPLETED \<and> lf_mError l2 = 0 \<and> n2 = Some 0 \<or>
        n2 = None \<and> 0 \<notin> set rs \<and> offered this l2 e2 \<and> tr_mListDomains (lf_priv l2) = domains \<and>
        tr_mDomainIterator (lf_priv l) + length rs \<le> tr_mDomainIterator (lf_priv l2)" for l t e
  proof (induction rs arbitrary: l t e)
    case (Cons r rs)
    obtain l3 t3 e3 n3 where s: "transfer_update (tr_sys D setT remT) r l (t, e) = (l3, (t3, e3), n3)" by (metis surj_pair)
    have step: "if r = 0 then lf_mStatus l3 = AS_COMPLETED \<and> lf_mError l3 = 0 \<and> lf_priv l3 = lf_priv l \<and> n3 = Some 0
      else tr_mListDomains (lf_priv l3) = domains \<and> lf_this l3 = this \<and> tr_mDomainIterator (lf_priv l) < tr_mDomainIterator (lf_priv l3) \<and>
        (offered this l3 e3 \<and> n3 = None \<or> lf_mStatus l3 = AS_COMPLETED \<and> lf_mError l3 = 0 \<and> n3 = Some 0)"
      using transfer_step [OF Cons.prems(1) [folded Cons.prems(2)] s] unfolding Cons.prems(2,3) .
    have ex: "lf_mStatus l = AS_EXECUTING" using Cons.prems(1) by (simp add: offered_def)
    show ?case
    proof (cases "n3 = None")
      case True
      then have "r \<noteq> 0" "offered this l3 e3" "transfer_answers (tr_sys D setT remT) rs l3 (t3, e3) = (l2, (t2, e2), n2)"
        using step Cons.prems(4) s ex by (auto split: if_splits)
      with Cons.IH [of l3 e3 t3] step show ?thesis by auto
    next
      case False
      then show ?thesis using step Cons.prems(4) s ex by (auto split: if_splits)
    qed
  qed simp
  show ?thesis
  proof (cases "n1 = None")
    case True
    then have "offered this l1 e1" using start(3) by auto
    from run [OF this start(2,1) assms(2)] True show ?thesis by (auto simp: offered_def)
  next
    case False
    then have "lf_mStatus l1 = AS_COMPLETED" "n1 = Some 0" using start(3) by auto
    then show ?thesis using assms(2) by (cases rs) auto
  qed
qed

text \<open>Three domains: the first refuses the offer itself, the second takes it and rejects it later, the third accepts.\<close>

definition demo_rundown :: "nat rundown_daemon" where
  "demo_rundown = \<lparr>rw_present = True,
     rw_transferConnection = (\<lambda>c d h w. if d = 1 then (E_NOT_POSSIBLE, h, w) else (E_OK, \<lparr>handleType = H_CONNECT, handle = of_nat w\<rparr>, Suc w)),
     rw_clock = (\<lambda>w. (\<lparr>tv_sec = 0, tv_nsec = 0\<rparr>, w))\<rparr>"

theorem transfer_offers_end_witness:
  "\<exists>l1 t1 e1 n1 l2 t2 e2 n2.
     leaf_execute (tr_sys demo_rundown (\<lambda>c ms h (t :: unit). (False, h, t)) (\<lambda>h t. (h, t))) (leaf_new 9 ''t'' (tr_new [1, 2, 3] 4))
       ((), \<lparr>rn_handles = Map.empty, rn_daemon = 1\<rparr>) = (l1, (t1, e1), n1) \<and>
     transfer_answers (tr_sys demo_rundown (\<lambda>c ms h (t :: unit). (False, h, t)) (\<lambda>h t. (h, t))) [9, 0] l1 (t1, e1) = (l2, (t2, e2), n2) \<and>
     n1 = None \<and> lf_mStatus l2 = AS_COMPLETED \<and> n2 = Some 0"
proof -
  let ?S = "tr_sys demo_rundown (\<lambda>c ms h (t :: unit). (False, h, t)) (\<lambda>h t. (h, t))"
  let ?e = "\<lparr>rn_handles = Map.empty, rn_daemon = 1\<rparr> :: nat rundown_env"
  obtain l1 t1 e1 n1 where x: "leaf_execute ?S (leaf_new 9 ''t'' (tr_new [1, 2, 3] 4)) ((), ?e) = (l1, (t1, e1), n1)" by (metis surj_pair)
  obtain l2 t2 e2 n2 where y: "transfer_answers ?S [9, 0] l1 (t1, e1) = (l2, (t2, e2), n2)" by (metis surj_pair)
  have "snd (snd (leaf_execute ?S (leaf_new 9 ''t'' (tr_new [1, 2, 3] 4)) ((), ?e))) = None" by code_simp
  then have "n1 = None" using x by simp
  then show ?thesis using x y transfer_offers_end [OF x y] by auto
qed

end
