(* ===== verification/Property_Actions.thy ===== *)
theory Property_Actions
  imports Connection_Leaves System_Element
begin

text \<open>
  The leaf actions on properties: \<open>CAmSourceSinkActionSetSoundProperty\<close> and
  \<open>CAmSourceSinkActionSetSoundProperties\<close>, \<open>CAmSourceSinkActionSetNotificationConfiguration\<close>,
  \<open>CAmSystemActionSetProperty\<close> and \<open>CAmSystemActionSetProperties\<close>, as instances of the leaf action
  framework. The first three are templates over the sink and the source element, which is told by the type
  of the element here. Requests to the routing side are acknowledged through the handle store; only then the
  database of the daemon, a parameter, is changed.
\<close>

section \<open>Environment\<close>

record 'w prop_env =
  pv_points :: points
  pv_system :: system_element
  pv_handles :: "nat handle_store"
  pv_daemon :: 'w

record 'w prop_daemon =
  qd_getMainSoundProperty :: "gc_Element_e \<Rightarrow> am_ID_t \<Rightarrow> am_propertyType_t \<Rightarrow> 'w \<Rightarrow> am_Error_e \<times> am_propertyValue_t"
  qd_changeMainSoundPropertyDB :: "gc_Element_e \<Rightarrow> am_MainSoundProperty_s \<Rightarrow> am_ID_t \<Rightarrow> 'w \<Rightarrow> am_Error_e \<times> 'w"
  qd_changeMainSoundPropertiesDB :: "gc_Element_e \<Rightarrow> am_MainSoundProperty_s list \<Rightarrow> am_ID_t \<Rightarrow> 'w \<Rightarrow> am_Error_e \<times> 'w"
  qd_setLastSoundProperty :: "string \<Rightarrow> (gc_Element_e \<times> string \<Rightarrow> am_MainSoundProperty_s \<Rightarrow> 'w \<Rightarrow> 'w) option"   \<comment> \<open>by class\<close>
  qd_setSoundProperty :: "gc_Element_e \<Rightarrow> am_ID_t \<Rightarrow> am_SoundProperty_s \<Rightarrow> am_Handle_s \<Rightarrow> 'w \<Rightarrow> am_Error_e \<times> am_Handle_s \<times> 'w"
  qd_setSoundProperties :: "gc_Element_e \<Rightarrow> am_ID_t \<Rightarrow> am_SoundProperty_s list \<Rightarrow> am_Handle_s \<Rightarrow> 'w \<Rightarrow> am_Error_e \<times> am_Handle_s \<times> 'w"
  qd_listMainNotifications :: "gc_Element_e \<Rightarrow> am_ID_t \<Rightarrow> 'w \<Rightarrow> am_Error_e \<times> am_NotificationConfiguration_s list"
  qd_changeMainNotificationDB :: "gc_Element_e \<Rightarrow> am_ID_t \<Rightarrow> am_NotificationConfiguration_s \<Rightarrow> 'w \<Rightarrow> am_Error_e \<times> 'w"
  qd_setNotification :: "gc_Element_e \<Rightarrow> am_ID_t \<Rightarrow> am_NotificationConfiguration_s \<Rightarrow> am_Handle_s \<Rightarrow> 'w \<Rightarrow> am_Error_e \<times> am_Handle_s \<times> 'w"
  qd_getListSystemProperties :: "'w \<Rightarrow> am_Error_e \<times> am_SystemProperty_s list"
  qd_changeSystemPropertyDB :: "am_SystemProperty_s \<Rightarrow> 'w \<Rightarrow> am_Error_e \<times> 'w"
  qd_changeSystemPropertiesDB :: "am_SystemProperty_s list \<Rightarrow> 'w \<Rightarrow> am_Error_e \<times> 'w"
  qd_abortAction :: "am_Handle_s \<Rightarrow> 'w \<Rightarrow> 'w"
  qd_clock :: "'w \<Rightarrow> timespec \<times> 'w"

definition on_daemon :: "('w \<Rightarrow> 'w) \<Rightarrow> 'w prop_env \<Rightarrow> 'w prop_env" where
  "on_daemon f e = e\<lparr>pv_daemon := f (pv_daemon e)\<rparr>"

text \<open>The routing side knows a sink and everything else as one or the other.\<close>

definition side :: "route_point \<Rightarrow> gc_Element_e" where
  "side pt = (if rp_mType pt = ET_SOURCE then ET_SOURCE else ET_SINK)"

text \<open>A request that is accepted registers its handle and waits; a refusal is the result.\<close>

definition await :: "nat \<Rightarrow> (am_Handle_s \<Rightarrow> 'w \<Rightarrow> am_Error_e \<times> am_Handle_s \<times> 'w) \<Rightarrow> am_Handle_s \<Rightarrow> 'w prop_env
    \<Rightarrow> int \<times> am_Handle_s \<times> 'w prop_env" where
  "await this send h e =
     (case send h (pv_daemon e) of
        (result, h', w) \<Rightarrow>
          if result = E_OK
          then (E_WAIT_FOR_CHILD_COMPLETION, h', e\<lparr>pv_daemon := w, pv_handles := hs_saveHandle h' (Some this) (pv_handles e)\<rparr>)
          else (error_code result, h', e\<lparr>pv_daemon := w\<rparr>))"

definition no_handle :: am_Handle_s where
  "no_handle = \<lparr>handleType = H_UNKNOWN, handle = 0\<rparr>"

definition clear_handle :: "am_Handle_s \<Rightarrow> 'w prop_env \<Rightarrow> 'w prop_env" where
  "clear_handle h e = e\<lparr>pv_handles := hs_clearHandle h (pv_handles e)\<rparr>"

section \<open>One sound property\<close>

record sound_property_action =
  sp_mpElement :: "nat option"
  sp_mHandle :: am_Handle_s
  sp_mMainSoundProperty :: am_MainSoundProperty_s
  sp_mOldMainSoundProperty :: am_MainSoundProperty_s
  sp_mPropertyTypeParam :: "am_propertyType_t option"
  sp_mPropertyValueParam :: "am_propertyValue_t option"
  sp_undo :: bool   \<comment> \<open>\<open>setUndoRequried(true)\<close> was called\<close>

definition sp_new :: "nat option \<Rightarrow> am_propertyType_t option \<Rightarrow> am_propertyValue_t option \<Rightarrow> sound_property_action" where
  "sp_new pElement t v = \<lparr>sp_mpElement = pElement, sp_mHandle = no_handle, sp_mMainSoundProperty = \<lparr>pr_type = 0, pr_value = 0\<rparr>,
     sp_mOldMainSoundProperty = \<lparr>pr_type = 0, pr_value = 0\<rparr>, sp_mPropertyTypeParam = t, sp_mPropertyValueParam = v, sp_undo = False\<rparr>"

definition setMainSoundPropertyValue :: "'w prop_daemon \<Rightarrow> am_MainSoundProperty_s \<Rightarrow> nat \<Rightarrow> 'w prop_env \<Rightarrow> am_Error_e \<times> 'w prop_env" where
  "setMainSoundPropertyValue D property a e =
     (let pt = pv_points e a
      in case qd_changeMainSoundPropertyDB D (rp_mType pt) property (rp_mID pt) (pv_daemon e) of
           (result, w) \<Rightarrow>
             (result, e\<lparr>pv_daemon :=
                if result = E_OK \<and> isMSPPersistenceSupported (rp_mConfig pt) (pr_type property)
                then (case qd_setLastSoundProperty D (np_className (rp_mConfig pt)) of
                        None \<Rightarrow> w | Some setLast \<Rightarrow> setLast (rp_mType pt, rp_mName pt) property w)
                else w\<rparr>))"

text \<open>A main sound property without a counterpart on the routing side is only kept in the database.\<close>

definition setRoutingSideProperty :: "'w prop_daemon \<Rightarrow> nat \<Rightarrow> am_MainSoundProperty_s \<Rightarrow> nat \<Rightarrow> sound_property_action \<Rightarrow> 'w prop_env
    \<Rightarrow> int \<times> sound_property_action \<times> 'w prop_env" where
  "setRoutingSideProperty D this property a p e =
     (let pt = pv_points e a
      in case mainSoundPropertyToSoundProperty (rp_mConfig pt) property \<lparr>pr_type = 0, pr_value = 0\<rparr> of
           (err, soundProperty) \<Rightarrow>
             if err \<noteq> E_OK then (case setMainSoundPropertyValue D property a e of (result, e') \<Rightarrow> (error_code result, p, e'))
             else (case await this (qd_setSoundProperty D (side pt) (rp_mID pt) soundProperty) (sp_mHandle p) e of
                     (result, h, e') \<Rightarrow> (result, p\<lparr>sp_mHandle := h\<rparr>, e')))"

definition sp_execute :: "'w prop_daemon \<Rightarrow> nat \<Rightarrow> sound_property_action \<Rightarrow> 'w prop_env \<Rightarrow> int \<times> sound_property_action \<times> 'w prop_env" where
  "sp_execute D this p e =
     (case (sp_mpElement p, sp_mPropertyTypeParam p, sp_mPropertyValueParam p) of
        (Some a, Some t, Some v) \<Rightarrow>
          (let property = \<lparr>pr_type = t, pr_value = v\<rparr>; p1 = p\<lparr>sp_mMainSoundProperty := property\<rparr>; pt = pv_points e a
           in case qd_getMainSoundProperty D (rp_mType pt) (rp_mID pt) t (pv_daemon e) of
                (err, old) \<Rightarrow>
                  if err \<noteq> E_OK then (error_code E_NOT_POSSIBLE, p1\<lparr>sp_mOldMainSoundProperty := property\<rparr>, e)
                  else setRoutingSideProperty D this property a
                         (p1\<lparr>sp_mOldMainSoundProperty := \<lparr>pr_type = t, pr_value = old\<rparr>, sp_undo := True\<rparr>) e)
      | _ \<Rightarrow> (error_code E_NOT_POSSIBLE, p, e))"

definition sp_undone :: "'w prop_daemon \<Rightarrow> nat \<Rightarrow> sound_property_action \<Rightarrow> 'w prop_env \<Rightarrow> int \<times> sound_property_action \<times> 'w prop_env" where
  "sp_undone D this p e = setRoutingSideProperty D this (sp_mOldMainSoundProperty p) (the (sp_mpElement p)) p e"

definition sp_update :: "'w prop_daemon \<Rightarrow> ActionState_e \<Rightarrow> int \<Rightarrow> sound_property_action \<Rightarrow> 'w prop_env \<Rightarrow> 'w prop_env" where
  "sp_update D status result p e =
     clear_handle (sp_mHandle p)
       (if status = AS_UNDO_COMPLETE then snd (setMainSoundPropertyValue D (sp_mOldMainSoundProperty p) (the (sp_mpElement p)) e)
        else if result = 0 \<and> status = AS_COMPLETED then snd (setMainSoundPropertyValue D (sp_mMainSoundProperty p) (the (sp_mpElement p)) e)
        else e)"

section \<open>A list of sound properties\<close>

record sound_properties_action =
  ss_mpElement :: "nat option"
  ss_mHandle :: am_Handle_s
  ss_mListMainSoundProperty :: "am_MainSoundProperty_s list"
  ss_mListOldMainSoundProperty :: "am_MainSoundProperty_s list"
  ss_mListPropertyValueParam :: "am_MainSoundProperty_s list option"
  ss_undo :: bool

definition ss_new :: "nat option \<Rightarrow> am_MainSoundProperty_s list option \<Rightarrow> sound_properties_action" where
  "ss_new pElement ps = \<lparr>ss_mpElement = pElement, ss_mHandle = no_handle, ss_mListMainSoundProperty = [],
     ss_mListOldMainSoundProperty = [], ss_mListPropertyValueParam = ps, ss_undo = False\<rparr>"

definition change_list :: "'w prop_daemon \<Rightarrow> am_MainSoundProperty_s list \<Rightarrow> nat \<Rightarrow> 'w prop_env \<Rightarrow> am_Error_e \<times> 'w prop_env" where
  "change_list D properties a e =
     (let pt = pv_points e a
      in case setMainSoundPropertiesValue (qd_changeMainSoundPropertiesDB D (rp_mType pt)) (qd_setLastSoundProperty D) properties pt
                (pv_daemon e) of (result, w) \<Rightarrow> (result, e\<lparr>pv_daemon := w\<rparr>))"

text \<open>The first property without a counterpart is set in the database, and nothing else is done.\<close>

fun convert_all :: "gc_NodePoint_s \<Rightarrow> am_MainSoundProperty_s list \<Rightarrow> am_MainSoundProperty_s + am_SoundProperty_s list" where
  "convert_all cfg [] = Inr []"
| "convert_all cfg (m # ms) =
     (case mainSoundPropertyToSoundProperty cfg m \<lparr>pr_type = 0, pr_value = 0\<rparr> of
        (err, s) \<Rightarrow>
          if err \<noteq> E_OK then Inl m
          else (case convert_all cfg ms of Inl m' \<Rightarrow> Inl m' | Inr ss \<Rightarrow> Inr (s # ss)))"

definition setRoutingSideProperties :: "'w prop_daemon \<Rightarrow> nat \<Rightarrow> am_MainSoundProperty_s list \<Rightarrow> nat \<Rightarrow> sound_properties_action \<Rightarrow> 'w prop_env
    \<Rightarrow> int \<times> sound_properties_action \<times> 'w prop_env" where
  "setRoutingSideProperties D this properties a p e =
     (let pt = pv_points e a
      in case convert_all (rp_mConfig pt) properties of
           Inl m \<Rightarrow> (case setMainSoundPropertyValue D m a e of (result, e') \<Rightarrow> (error_code result, p, e'))
         | Inr ss \<Rightarrow>
             (case await this (qd_setSoundProperties D (side pt) (rp_mID pt) ss) (ss_mHandle p) e of
                (result, h, e') \<Rightarrow> (result, p\<lparr>ss_mHandle := h\<rparr>, e')))"

text \<open>The present values in the order of the list; the code stops at the first that cannot be read.\<close>

fun present_values :: "'w prop_daemon \<Rightarrow> route_point \<Rightarrow> 'w \<Rightarrow> am_MainSoundProperty_s list \<Rightarrow> bool \<times> am_MainSoundProperty_s list" where
  "present_values D pt w [] = (True, [])"
| "present_values D pt w (m # ms) =
     (case qd_getMainSoundProperty D (rp_mType pt) (rp_mID pt) (pr_type m) w of
        (err, v) \<Rightarrow>
          if err \<noteq> E_OK then (False, m # ms)
          else (case present_values D pt w ms of (ok, ms') \<Rightarrow> (ok, m\<lparr>pr_value := v\<rparr> # ms')))"

definition ss_execute :: "'w prop_daemon \<Rightarrow> nat \<Rightarrow> sound_properties_action \<Rightarrow> 'w prop_env \<Rightarrow> int \<times> sound_properties_action \<times> 'w prop_env" where
  "ss_execute D this p e =
     (case (ss_mpElement p, ss_mListPropertyValueParam p) of
        (Some a, Some ps) \<Rightarrow>
          (case present_values D (pv_points e a) (pv_daemon e) ps of
             (ok, old) \<Rightarrow>
               (let p1 = p\<lparr>ss_mListMainSoundProperty := ps, ss_mListOldMainSoundProperty := old\<rparr>
                in if \<not> ok then (error_code E_NOT_POSSIBLE, p1, e)
                   else setRoutingSideProperties D this ps a (p1\<lparr>ss_undo := True\<rparr>) e))
      | _ \<Rightarrow> (error_code E_NOT_POSSIBLE, p, e))"

definition ss_undone :: "'w prop_daemon \<Rightarrow> nat \<Rightarrow> sound_properties_action \<Rightarrow> 'w prop_env \<Rightarrow> int \<times> sound_properties_action \<times> 'w prop_env" where
  "ss_undone D this p e = setRoutingSideProperties D this (ss_mListOldMainSoundProperty p) (the (ss_mpElement p)) p e"

definition ss_update :: "'w prop_daemon \<Rightarrow> ActionState_e \<Rightarrow> int \<Rightarrow> sound_properties_action \<Rightarrow> 'w prop_env \<Rightarrow> 'w prop_env" where
  "ss_update D status result p e =
     clear_handle (ss_mHandle p)
       (if status = AS_UNDO_COMPLETE then snd (change_list D (ss_mListOldMainSoundProperty p) (the (ss_mpElement p)) e)
        else if result = 0 \<and> status = AS_COMPLETED then snd (change_list D (ss_mListMainSoundProperty p) (the (ss_mpElement p)) e)
        else e)"

section \<open>A notification configuration\<close>

record notification_action =
  na_mpElement :: "nat option"
  na_mHandle :: am_Handle_s
  na_mNotificationConfiguration :: am_NotificationConfiguration_s
  na_mOldNotificationConfiguration :: am_NotificationConfiguration_s
  na_mNotificationType :: "16 word option"
  na_mNotificationStatus :: "16 word option"
  na_mNotificationparam :: "16 word option"

text \<open>The old configuration is not initialised: \<open>junk\<close>.\<close>

definition na_new :: "am_NotificationConfiguration_s \<Rightarrow> nat option \<Rightarrow> 16 word option \<Rightarrow> 16 word option \<Rightarrow> 16 word option \<Rightarrow> notification_action" where
  "na_new junk pElement t s v = \<lparr>na_mpElement = pElement, na_mHandle = no_handle, na_mNotificationConfiguration = junk,
     na_mOldNotificationConfiguration = junk, na_mNotificationType = t, na_mNotificationStatus = s, na_mNotificationparam = v\<rparr>"

text \<open>The request sends the member, not the argument.\<close>

definition setRoutingSideNotification :: "'w prop_daemon \<Rightarrow> nat \<Rightarrow> am_NotificationConfiguration_s \<Rightarrow> nat \<Rightarrow> notification_action \<Rightarrow> 'w prop_env
    \<Rightarrow> int \<times> notification_action \<times> 'w prop_env" where
  "setRoutingSideNotification D this notificationConfiguration a p e =
     (let pt = pv_points e a
      in case await this (qd_setNotification D (side pt) (rp_mID pt) (na_mNotificationConfiguration p)) (na_mHandle p) e of
           (result, h, e') \<Rightarrow> (result, p\<lparr>na_mHandle := h\<rparr>, e'))"

definition na_execute :: "'w prop_daemon \<Rightarrow> nat \<Rightarrow> notification_action \<Rightarrow> 'w prop_env \<Rightarrow> int \<times> notification_action \<times> 'w prop_env" where
  "na_execute D this p e =
     (case (na_mpElement p, na_mNotificationType p, na_mNotificationStatus p, na_mNotificationparam p) of
        (Some a, Some t, Some s, Some v) \<Rightarrow>
          (let conf = \<lparr>nc_type = t, nc_status = s, nc_parameter = v\<rparr>; pt = pv_points e a;
               old = snd (getNotificationConfigurations (qd_listMainNotifications D (rp_mType pt) (rp_mID pt) (pv_daemon e)) t
                            (na_mOldNotificationConfiguration p))
           in setRoutingSideNotification D this conf a
                (p\<lparr>na_mNotificationConfiguration := conf, na_mOldNotificationConfiguration := old\<rparr>) e)
      | _ \<Rightarrow> (error_code E_NOT_POSSIBLE, p, e))"

definition na_undone :: "'w prop_daemon \<Rightarrow> nat \<Rightarrow> notification_action \<Rightarrow> 'w prop_env \<Rightarrow> int \<times> notification_action \<times> 'w prop_env" where
  "na_undone D this p e = setRoutingSideNotification D this (na_mOldNotificationConfiguration p) (the (na_mpElement p)) p e"

definition setMainNotificationConfiguration :: "'w prop_daemon \<Rightarrow> am_NotificationConfiguration_s \<Rightarrow> nat \<Rightarrow> 'w prop_env \<Rightarrow> 'w prop_env" where
  "setMainNotificationConfiguration D conf a e =
     on_daemon (\<lambda>w. snd (qd_changeMainNotificationDB D (rp_mType (pv_points e a)) (rp_mID (pv_points e a)) conf w)) e"

definition na_update :: "'w prop_daemon \<Rightarrow> ActionState_e \<Rightarrow> int \<Rightarrow> notification_action \<Rightarrow> 'w prop_env \<Rightarrow> 'w prop_env" where
  "na_update D status result p e =
     clear_handle (na_mHandle p)
       (if status = AS_UNDO_COMPLETE then setMainNotificationConfiguration D (na_mOldNotificationConfiguration p) (the (na_mpElement p)) e
        else if result = 0 \<and> status = AS_COMPLETED
        then setMainNotificationConfiguration D (na_mNotificationConfiguration p) (the (na_mpElement p)) e
        else e)"

section \<open>System properties\<close>

text \<open>
  These two answer at once; neither overrides \<open>_undo\<close>, so a change of system properties is not undone.
\<close>

record system_property_action =
  yp_mTypeParam :: "am_propertyType_t option"
  yp_mValueParam :: "am_propertyValue_t option"

record system_properties_action =
  ys_mpSystem :: bool   \<comment> \<open>there is a system element\<close>
  ys_mListPropertyValueParam :: "am_SystemProperty_s list option"
  ys_mListOldSystemProperty :: "am_SystemProperty_s list"
  ys_undo :: bool

definition yp_execute :: "'w prop_daemon \<Rightarrow> system_property_action \<Rightarrow> 'w prop_env \<Rightarrow> int \<times> 'w prop_env" where
  "yp_execute D p e =
     (case (yp_mTypeParam p, yp_mValueParam p) of
        (Some t, Some v) \<Rightarrow>
          (case setSystemProperty (qd_changeSystemPropertyDB D) \<lparr>pr_type = t, pr_value = v\<rparr> (pv_system e, pv_daemon e) of
             (result, s, w) \<Rightarrow> (error_code result, e\<lparr>pv_system := s, pv_daemon := w\<rparr>))
      | _ \<Rightarrow> (error_code E_NOT_POSSIBLE, e))"

fun present_system_values :: "'w prop_daemon \<Rightarrow> 'w \<Rightarrow> am_SystemProperty_s list \<Rightarrow> bool \<times> am_SystemProperty_s list" where
  "present_system_values D w [] = (True, [])"
| "present_system_values D w (m # ms) =
     (case getSystemProperty (qd_getListSystemProperties D) (pr_type m) w of
        (err, v) \<Rightarrow>
          if err \<noteq> E_OK then (False, m # ms)
          else (case present_system_values D w ms of
                  (ok, ms') \<Rightarrow> (ok, m\<lparr>pr_value := (case v of Some x \<Rightarrow> x | None \<Rightarrow> pr_value m)\<rparr> # ms')))"

definition ys_execute :: "'w prop_daemon \<Rightarrow> system_properties_action \<Rightarrow> 'w prop_env \<Rightarrow> int \<times> system_properties_action \<times> 'w prop_env" where
  "ys_execute D p e =
     (case ys_mListPropertyValueParam p of
        Some ps \<Rightarrow>
          if \<not> ys_mpSystem p then (error_code E_NOT_POSSIBLE, p, e)
          else (case present_system_values D (pv_daemon e) ps of
             (ok, old) \<Rightarrow>
               (let p1 = p\<lparr>ys_mListOldSystemProperty := old\<rparr>
                in if \<not> ok then (error_code E_NOT_POSSIBLE, p1, e)
                   else (case setSystemProperties (qd_changeSystemPropertiesDB D) ps (pv_system e, pv_daemon e) of
                      (result, s, w) \<Rightarrow> (error_code result, p1\<lparr>ys_undo := True\<rparr>, e\<lparr>pv_system := s, pv_daemon := w\<rparr>))))
      | None \<Rightarrow> (error_code E_NOT_POSSIBLE, p, e))"

section \<open>The system of property actions\<close>

datatype prop_leaf =
    SetSoundProperty sound_property_action
  | SetSoundProperties sound_properties_action
  | SetNotification notification_action
  | SetSystemProperty system_property_action
  | SetSystemProperties system_properties_action

definition pl_execute :: "'w prop_daemon \<Rightarrow> prop_leaf leaf \<Rightarrow> 'w prop_env \<Rightarrow> int \<times> prop_leaf \<times> 'w prop_env" where
  "pl_execute D l e =
     (case lf_priv l of
        SetSoundProperty p \<Rightarrow> (case sp_execute D (lf_this l) p e of (r, p', e') \<Rightarrow> (r, SetSoundProperty p', e'))
      | SetSoundProperties p \<Rightarrow> (case ss_execute D (lf_this l) p e of (r, p', e') \<Rightarrow> (r, SetSoundProperties p', e'))
      | SetNotification p \<Rightarrow> (case na_execute D (lf_this l) p e of (r, p', e') \<Rightarrow> (r, SetNotification p', e'))
      | SetSystemProperty p \<Rightarrow> (case yp_execute D p e of (r, e') \<Rightarrow> (r, SetSystemProperty p, e'))
      | SetSystemProperties p \<Rightarrow> (case ys_execute D p e of (r, p', e') \<Rightarrow> (r, SetSystemProperties p', e')))"

definition pl_undo :: "'w prop_daemon \<Rightarrow> prop_leaf leaf \<Rightarrow> 'w prop_env \<Rightarrow> int \<times> prop_leaf \<times> 'w prop_env" where
  "pl_undo D l e =
     (case lf_priv l of
        SetSoundProperty p \<Rightarrow> (case sp_undone D (lf_this l) p e of (r, p', e') \<Rightarrow> (r, SetSoundProperty p', e'))
      | SetSoundProperties p \<Rightarrow> (case ss_undone D (lf_this l) p e of (r, p', e') \<Rightarrow> (r, SetSoundProperties p', e'))
      | SetNotification p \<Rightarrow> (case na_undone D (lf_this l) p e of (r, p', e') \<Rightarrow> (r, SetNotification p', e'))
      | p \<Rightarrow> (0, p, e))"

definition pl_update :: "'w prop_daemon \<Rightarrow> prop_leaf leaf \<Rightarrow> int \<Rightarrow> 'w prop_env \<Rightarrow> prop_leaf \<times> 'w prop_env" where
  "pl_update D l result e =
     (lf_priv l,
      case lf_priv l of
        SetSoundProperty p \<Rightarrow> sp_update D (lf_mStatus l) result p e
      | SetSoundProperties p \<Rightarrow> ss_update D (lf_mStatus l) result p e
      | SetNotification p \<Rightarrow> na_update D (lf_mStatus l) result p e
      | _ \<Rightarrow> e)"

definition pl_timeout :: "'w prop_daemon \<Rightarrow> prop_leaf leaf \<Rightarrow> 'w prop_env \<Rightarrow> prop_leaf \<times> 'w prop_env" where
  "pl_timeout D l e =
     (lf_priv l,
      case lf_priv l of
        SetSoundProperty p \<Rightarrow> on_daemon (qd_abortAction D (sp_mHandle p)) e
      | SetSoundProperties p \<Rightarrow> on_daemon (qd_abortAction D (ss_mHandle p)) e
      | SetNotification p \<Rightarrow> on_daemon (qd_abortAction D (na_mHandle p)) e
      | _ \<Rightarrow> e)"

definition pl_sys :: "'w prop_daemon \<Rightarrow> (nat \<Rightarrow> 32 word \<Rightarrow> timer_handle \<Rightarrow> 't \<Rightarrow> bool \<times> timer_handle \<times> 't)
    \<Rightarrow> (timer_handle \<Rightarrow> 't \<Rightarrow> timer_handle \<times> 't) \<Rightarrow> (prop_leaf, 't, 'w prop_env) leaf_sys" where
  "pl_sys D setT remT =
     \<lparr>ls_clock = (\<lambda>e. case qd_clock D (pv_daemon e) of (ts, w) \<Rightarrow> (ts, e\<lparr>pv_daemon := w\<rparr>)), ls_setTimer = setT, ls_removeTimer = remT,
      ls_execute = pl_execute D, ls_undo = pl_undo D, ls_update = pl_update D, ls_timeout = pl_timeout D,
      ls_cleanup = (\<lambda>l e. (lf_priv l, e))\<rparr>"

text \<open>
  \<open>setUndoRequried\<close> within \<open>_execute\<close>: the flag of the base class is set by the concrete class, before the
  undo of the leaf can look at it.
\<close>

definition wants_undo :: "prop_leaf \<Rightarrow> bool" where
  "wants_undo p = (case p of SetSoundProperty a \<Rightarrow> sp_undo a | SetSoundProperties a \<Rightarrow> ss_undo a | SetSystemProperties a \<Rightarrow> ys_undo a | _ \<Rightarrow> False)"

definition property_execute :: "(prop_leaf, 't, 'e) leaf_sys \<Rightarrow> prop_leaf leaf \<Rightarrow> 't \<times> 'e \<Rightarrow> (prop_leaf, 't, 'e) leaf_result" where
  "property_execute S l w =
     (case leaf_execute S l w of (l', w', n) \<Rightarrow> (l'\<lparr>lf_mUndoRequired := lf_mUndoRequired l' \<or> wants_undo (lf_priv l')\<rparr>, w', n))"

section \<open>What the sound property actions promise\<close>

text \<open>The value of a main sound property of an element, as the database reports it.\<close>

definition value_at :: "'w prop_daemon \<Rightarrow> route_point \<Rightarrow> am_propertyType_t \<Rightarrow> 'w \<Rightarrow> am_Error_e \<times> am_propertyValue_t" where
  "value_at D pt t w = qd_getMainSoundProperty D (rp_mType pt) (rp_mID pt) t w"

definition with_values :: "am_MainSoundProperty_s list \<Rightarrow> (am_propertyType_t \<Rightarrow> am_Error_e \<times> am_propertyValue_t)
    \<Rightarrow> am_propertyType_t \<Rightarrow> am_Error_e \<times> am_propertyValue_t" where
  "with_values ps f t = (case find_key pr_type t (rev ps) of Some p \<Rightarrow> (E_OK, pr_value p) | None \<Rightarrow> f t)"

text \<open>
  What is relied on: the database takes over a list of values, later ones over earlier ones, and nothing
  else changes the values of the element; the routing side accepts requests.
\<close>

definition sound_daemon_ok :: "'w prop_daemon \<Rightarrow> route_point \<Rightarrow> bool" where
  "sound_daemon_ok D pt \<longleftrightarrow>
     (\<forall>ps w. fst (qd_changeMainSoundPropertiesDB D (rp_mType pt) ps (rp_mID pt) w) = E_OK \<and>
        (\<lambda>t. value_at D pt t (snd (qd_changeMainSoundPropertiesDB D (rp_mType pt) ps (rp_mID pt) w))) = with_values ps (\<lambda>t. value_at D pt t w)) \<and>
     (\<forall>ss h w. fst (qd_setSoundProperties D (side pt) (rp_mID pt) ss h w) = E_OK \<and>
        (\<lambda>t. value_at D pt t (snd (snd (qd_setSoundProperties D (side pt) (rp_mID pt) ss h w)))) = (\<lambda>t. value_at D pt t w)) \<and>
     (\<forall>w. (\<lambda>t. value_at D pt t (snd (qd_clock D w))) = (\<lambda>t. value_at D pt t w)) \<and>
     (\<forall>f x p w. qd_setLastSoundProperty D (np_className (rp_mConfig pt)) = Some f \<longrightarrow> (\<lambda>t. value_at D pt t (f x p w)) = (\<lambda>t. value_at D pt t w))"

definition values_of :: "'w prop_daemon \<Rightarrow> nat \<Rightarrow> 'w prop_env \<Rightarrow> am_propertyType_t \<Rightarrow> am_Error_e \<times> am_propertyValue_t" where
  "values_of D a e = (\<lambda>t. value_at D (pv_points e a) t (pv_daemon e))"

lemma pl_clock:
  "sound_daemon_ok D (pv_points e a) \<Longrightarrow> values_of D a (snd (ls_clock (pl_sys D sT rT) e)) = values_of D a e"
  "pv_points (snd (ls_clock (pl_sys D sT rT) e)) = pv_points e"
  by (auto simp: pl_sys_def sound_daemon_ok_def values_of_def split: prod.split)
    (metis snd_conv)

lemma convert_all_mapped:
  "\<forall>m\<in>set ms. np_MSP_TO_SP cfg (pr_type m) \<noteq> None \<Longrightarrow> \<exists>ss. convert_all cfg ms = Inr ss"
  by (induction ms) (auto simp: mainSoundPropertyToSoundProperty_def)

lemma send_list:
  assumes "sound_daemon_ok D (pv_points e a)" and "\<forall>m\<in>set ms. np_MSP_TO_SP (rp_mConfig (pv_points e a)) (pr_type m) \<noteq> None"
  shows "\<exists>h e'. setRoutingSideProperties D this ms a p e = (- 1, p\<lparr>ss_mHandle := h\<rparr>, e') \<and> pv_points e' = pv_points e \<and>
    values_of D a e' = values_of D a e \<and> pv_handles e' (uHandle h) = Some (Some this)"
proof -
  obtain ss where ss: "convert_all (rp_mConfig (pv_points e a)) ms = Inr ss" using convert_all_mapped [OF assms(2)] by blast
  obtain err h w where q: "qd_setSoundProperties D (side (pv_points e a)) (rp_mID (pv_points e a)) ss (ss_mHandle p) (pv_daemon e) = (err, h, w)"
    by (metis surj_pair)
  have "err = E_OK" "(\<lambda>t. value_at D (pv_points e a) t w) = (\<lambda>t. value_at D (pv_points e a) t (pv_daemon e))"
    using assms(1) q unfolding sound_daemon_ok_def by (metis fst_conv snd_conv)+
  then show ?thesis
    using q ss by (intro exI [of _ h])
      (simp add: setRoutingSideProperties_def await_def values_of_def E_WAIT_FOR_CHILD_COMPLETION_def hs_saveHandle_def)
qed

lemma change_list_values:
  assumes "sound_daemon_ok D (pv_points e a)"
  shows "pv_points (snd (change_list D ms a e)) = pv_points e \<and> values_of D a (snd (change_list D ms a e)) = with_values ms (values_of D a e)"
proof -
  let ?pt = "pv_points e a"
  define remember1 where "remember1 = (\<lambda>db prop. if isMSPPersistenceSupported (rp_mConfig ?pt) (pr_type prop) then
      (case qd_setLastSoundProperty D (np_className (rp_mConfig ?pt)) of None \<Rightarrow> db
       | Some setLast \<Rightarrow> setLast (rp_mType ?pt, rp_mName ?pt) prop db) else db)"
  have r: "(\<lambda>t. value_at D ?pt t (foldl remember1 w ps)) = (\<lambda>t. value_at D ?pt t w)" for w and ps :: "am_Property_s list"
  proof (induction ps arbitrary: w)
    case (Cons p ps)
    have "(\<lambda>t. value_at D ?pt t (remember1 w p)) = (\<lambda>t. value_at D ?pt t w)"
      using assms by (auto simp: remember1_def sound_daemon_ok_def split: option.split)
    then show ?case using Cons.IH [of "remember1 w p"] by simp
  qed simp
  obtain err w where q: "qd_changeMainSoundPropertiesDB D (rp_mType ?pt) ms (rp_mID ?pt) (pv_daemon e) = (err, w)" by fastforce
  have x: "err = E_OK" "(\<lambda>t. value_at D ?pt t w) = with_values ms (\<lambda>t. value_at D ?pt t (pv_daemon e))"
    using assms q unfolding sound_daemon_ok_def by (metis fst_conv snd_conv)+
  have "change_list D ms a e = (E_OK, e\<lparr>pv_daemon := foldl remember1 w ms\<rparr>)"
    by (simp add: change_list_def setMainSoundPropertiesValue_def q x(1) remember1_def [symmetric] Let_def)
  then show ?thesis using r x(2) by (simp add: values_of_def)
qed

lemma present_values_ok:
  assumes "\<forall>m\<in>set ms. fst (value_at D pt (pr_type m) w) = E_OK"
  shows "\<exists>old. present_values D pt w ms = (True, old) \<and> map pr_type old = map pr_type ms \<and>
    (\<forall>m\<in>set old. value_at D pt (pr_type m) w = (E_OK, pr_value m))"
  using assms
proof (induction ms)
  case (Cons m ms)
  then obtain old where old: "present_values D pt w ms = (True, old)" "map pr_type old = map pr_type ms"
      "\<forall>m\<in>set old. value_at D pt (pr_type m) w = (E_OK, pr_value m)" by auto
  obtain v where v: "qd_getMainSoundProperty D (rp_mType pt) (rp_mID pt) (pr_type m) w = (E_OK, v)"
    using Cons.prems by (auto simp: value_at_def) (metis prod.collapse)
  show ?case using old v by (simp add: value_at_def)
qed simp

lemma with_values_back:
  assumes "map pr_type old = map pr_type ms" and "\<forall>m\<in>set old. f (pr_type m) = (E_OK, pr_value m)"
  shows "with_values old (with_values ms f) = f"
proof
  fix t
  show "with_values old (with_values ms f) t = f t"
  proof (cases "t \<in> set (map pr_type ms)")
    case True
    then obtain p where p: "find_key pr_type t (rev old) = Some p"
      using assms(1) by (metis find_key_None_iff not_Some_eq rev_map set_rev)
    from find_key_SomeD [OF this] have "p \<in> set old" "pr_type p = t" by auto
    then show ?thesis using p assms(2) by (auto simp: with_values_def)
  next
    case False
    then have "find_key pr_type t (rev old) = None" "find_key pr_type t (rev ms) = None"
      using assms(1) by (metis find_key_None_iff rev_map set_rev)+
    then show ?thesis by (simp add: with_values_def)
  qed
qed

text \<open>
  C29: setting a list of sound properties, over a request and its undo. For properties that the routing side knows
  and the database has values of, the action waits after its start with its handle registered, and the database
  is as it was; the acknowledgement brings the requested values into it, the last one given for a type; the
  undo, which the action has asked for itself, waits again, and its acknowledgement, whatever it reports,
  brings all values back to what they were before.
\<close>

theorem sound_properties_undone:
  assumes D: "sound_daemon_ok D (pv_points e a)"
    and ms: "\<forall>m\<in>set ms. np_MSP_TO_SP (rp_mConfig (pv_points e a)) (pr_type m) \<noteq> None \<and> fst (values_of D a e (pr_type m)) = E_OK"
    and x: "property_execute (pl_sys D sT rT) (leaf_new this nm (SetSoundProperties (ss_new (Some a) (Some ms)))) (t, e) = (l1, (t1, e1), n1)"
    and u: "leaf_update (pl_sys D sT rT) 0 l1 (t1, e1) = (l2, (t2, e2), n2)"
    and y: "leaf_undo (pl_sys D sT rT) l2 (t2, e2) = (l3, (t3, e3), n3)"
    and v: "leaf_update (pl_sys D sT rT) r l3 (t3, e3) = (l4, (t4, e4), n4)"
  shows "lf_mStatus l1 = AS_EXECUTING \<and> values_of D a e1 = values_of D a e \<and>
    (\<exists>p. lf_priv l1 = SetSoundProperties p \<and> pv_handles e1 (uHandle (ss_mHandle p)) = Some (Some this)) \<and>
    lf_mStatus l2 = AS_COMPLETED \<and> values_of D a e2 = with_values ms (values_of D a e) \<and>
    lf_mStatus l3 = AS_UNDOING \<and> values_of D a e3 = values_of D a e2 \<and>
    lf_mStatus l4 = AS_UNDO_COMPLETE \<and> values_of D a e4 = values_of D a e"
proof -
  let ?S = "pl_sys D sT rT"
  have ops: "ls_execute ?S = pl_execute D" "ls_undo ?S = pl_undo D" "ls_update ?S = pl_update D" by (simp_all add: pl_sys_def)
  let ?l = "leaf_new this nm (SetSoundProperties (ss_new (Some a) (Some ms)))"
  have new: "lf_mStatus ?l = AS_NOT_STARTED" "lf_priv ?l = SetSoundProperties (ss_new (Some a) (Some ms))" "lf_this ?l = this"
    by (simp_all add: leaf_new_def)
  have clock: "pv_points (snd (ls_clock ?S f)) = pv_points f \<and> (pv_points f = pv_points e \<longrightarrow> values_of D a (snd (ls_clock ?S f)) = values_of D a f)
      \<and> pv_handles (snd (ls_clock ?S f)) = pv_handles f" for f
    using pl_clock(1) [of D f a sT rT] D by (auto simp: pl_sys_def split: prod.splits)
  let ?e0 = "snd (ls_clock ?S e)"
  have e0: "pv_points ?e0 = pv_points e" "values_of D a ?e0 = values_of D a e" using clock [of e] by auto
  have D0: "sound_daemon_ok D (pv_points f a)" if "pv_points f = pv_points e" for f using D that by simp
  have "\<forall>m\<in>set ms. fst (value_at D (pv_points e a) (pr_type m) (pv_daemon ?e0)) = E_OK"
    using ms e0 by (auto simp: values_of_def fun_eq_iff)
  from present_values_ok [OF this] obtain old where old: "present_values D (pv_points e a) (pv_daemon ?e0) ms = (True, old)"
      "map pr_type old = map pr_type ms" "\<forall>m\<in>set old. values_of D a e (pr_type m) = (E_OK, pr_value m)"
    using e0 by (auto simp: values_of_def fun_eq_iff)
  have mapped: "\<forall>m\<in>set ms. np_MSP_TO_SP (rp_mConfig (pv_points f a)) (pr_type m) \<noteq> None"
      "\<forall>m\<in>set old. np_MSP_TO_SP (rp_mConfig (pv_points f a)) (pr_type m) \<noteq> None" if "pv_points f = pv_points e" for f
  proof -
    have "pr_type ` set old = pr_type ` set ms" using old(2) by (metis set_map)
    then have "\<exists>n\<in>set ms. pr_type n = pr_type m" if "m \<in> set old" for m using that by (metis imageE imageI)
    then show "\<forall>m\<in>set ms. np_MSP_TO_SP (rp_mConfig (pv_points f a)) (pr_type m) \<noteq> None"
        "\<forall>m\<in>set old. np_MSP_TO_SP (rp_mConfig (pv_points f a)) (pr_type m) \<noteq> None"
      using that ms by metis+
  qed
  let ?p1 = "(ss_new (Some a) (Some ms))\<lparr>ss_mListMainSoundProperty := ms, ss_mListOldMainSoundProperty := old, ss_undo := True\<rparr>"
  obtain h f1 where send: "setRoutingSideProperties D this ms a ?p1 ?e0 = (- 1, ?p1\<lparr>ss_mHandle := h\<rparr>, f1)"
      "pv_points f1 = pv_points e" "values_of D a f1 = values_of D a e" "pv_handles f1 (uHandle h) = Some (Some this)"
    using send_list [OF D0 mapped(1), OF e0(1) e0(1), of this ?p1] e0 by auto
  have ex: "pl_execute D lx ?e0 = (- 1, SetSoundProperties (?p1\<lparr>ss_mHandle := h\<rparr>), f1)"
    if "lf_priv lx = lf_priv ?l" "lf_this lx = this" for lx
    using that send(1) old(1) e0(1) new(2)
    by (simp add: pl_execute_def ss_execute_def ss_new_def)
  obtain l0 where l0: "leaf_execute ?S ?l (t, e) = (l0, (t1, e1), n1)" "l1 = l0\<lparr>lf_mUndoRequired := lf_mUndoRequired l0 \<or> wants_undo (lf_priv l0)\<rparr>"
    using x by (auto simp: property_execute_def split: prod.splits)
  let ?p2 = "?p1\<lparr>ss_mHandle := h\<rparr>"
  obtain lx err q f where y1: "lf_priv lx = lf_priv ?l" "lf_this lx = this" "pl_execute D lx ?e0 = (err, q, f)"
      "lf_priv l0 = q" "lf_this l0 = this" "lf_mStatus l0 = (if err \<ge> 0 then AS_COMPLETED else AS_EXECUTING)"
      "e1 = f \<or> e1 = snd (ls_clock ?S f)"
    using leaf_execute_priv [OF l0(1) new(1)] new(3) unfolding ops by auto
  have y2: "err = - 1" "q = SetSoundProperties ?p2" "f = f1" using ex [OF y1(1,2)] y1(3) by auto
  have 1: "lf_priv l1 = SetSoundProperties ?p2" "lf_mStatus l1 = AS_EXECUTING" "lf_mUndoRequired l1" "lf_this l1 = this"
      "e1 = f1 \<or> e1 = snd (ls_clock ?S f1)"
    using y1(4-7) by (simp_all add: y2 l0(2) wants_undo_def)
  have en1: "pv_points e1 = pv_points e" "values_of D a e1 = values_of D a e" "pv_handles e1 (uHandle h) = Some (Some this)"
    using 1(5) clock [of f1] send(2-4) by auto
  let ?c1 = "snd (ls_clock ?S e1)"
  have c1: "pv_points ?c1 = pv_points e" "values_of D a ?c1 = values_of D a e" using clock [of e1] en1 by auto
  obtain lu where 2: "lf_mStatus lu = AS_COMPLETED" "lf_priv lu = SetSoundProperties ?p2" "pl_update D lu 0 ?c1 = (lf_priv l2, e2)"
      "lf_mUndoRequired l2" "lf_mStatus l2 = AS_COMPLETED" "lf_this l2 = this"
    using leaf_update_priv [OF u] 1 by (auto simp: ops)
  have l2: "lf_priv l2 = SetSoundProperties ?p2" and e2: "e2 = clear_handle h (snd (change_list D ms a ?c1))"
    using 2(1-3) by (auto simp: pl_update_def ss_update_def ss_new_def)
  have en2: "pv_points e2 = pv_points e" "values_of D a e2 = with_values ms (values_of D a e)"
    using change_list_values [OF D0 [OF c1(1)], of ms] c1 by (auto simp: e2 clear_handle_def values_of_def)
  let ?c2 = "snd (ls_clock ?S e2)"
  have c2: "pv_points ?c2 = pv_points e" "values_of D a ?c2 = values_of D a e2" using clock [of e2] en2 by auto
  obtain h3 f3 where send3: "setRoutingSideProperties D this old a ?p2 ?c2 = (- 1, ?p2\<lparr>ss_mHandle := h3\<rparr>, f3)"
      "pv_points f3 = pv_points e" "values_of D a f3 = values_of D a e2"
    using send_list [OF D0 mapped(2), OF c2(1) c2(1), of this ?p2] c2 by auto
  have un: "pl_undo D lx ?c2 = (- 1, SetSoundProperties (?p2\<lparr>ss_mHandle := h3\<rparr>), f3)"
    if "lf_priv lx = lf_priv l2" "lf_this lx = this" for lx
    using that send3(1) by (simp add: pl_undo_def ss_undone_def l2 ss_new_def)
  have 3: "lf_priv l3 = SetSoundProperties (?p2\<lparr>ss_mHandle := h3\<rparr>)" "lf_mStatus l3 = AS_UNDOING" "e3 = f3 \<or> e3 = snd (ls_clock ?S f3)"
    using leaf_undo_priv [OF y 2(5,4)] un 2(6) by (auto simp: ops)
  have en3: "pv_points e3 = pv_points e" "values_of D a e3 = values_of D a e2" using 3(3) clock [of f3] send3(2,3) by auto
  let ?c3 = "snd (ls_clock ?S e3)"
  have c3: "pv_points ?c3 = pv_points e" "values_of D a ?c3 = values_of D a e2" using clock [of e3] en3 by auto
  obtain lv where 4: "lf_mStatus lv = AS_UNDO_COMPLETE" "lf_priv lv = lf_priv l3" "pl_update D lv r ?c3 = (lf_priv l4, e4)"
      "lf_mStatus l4 = AS_UNDO_COMPLETE"
    using leaf_update_priv [OF v] 3 by (auto simp: ops)
  have "e4 = clear_handle h3 (snd (change_list D old a ?c3))"
    using 4(1-3) 3(1) by (auto simp: pl_update_def ss_update_def ss_new_def)
  then have "values_of D a e4 = with_values old (with_values ms (values_of D a e))"
    using change_list_values [OF D0 [OF c3(1)], of old] c3 en2 by (auto simp: clear_handle_def values_of_def)
  also have "\<dots> = values_of D a e" by (rule with_values_back [OF old(2,3)])
  finally show ?thesis using 1(1,2) en1 2(5) en2(2) 3(2) en3(2) 4(4) by simp
qed

text \<open>A database that is a table of values, and a routing side that accepts everything.\<close>

definition demo_prop_daemon :: "(am_propertyType_t \<Rightarrow> am_propertyValue_t) prop_daemon" where
  "demo_prop_daemon = \<lparr>qd_getMainSoundProperty = (\<lambda>ty i t w. (E_OK, w t)),
     qd_changeMainSoundPropertyDB = (\<lambda>ty p i w. (E_OK, w(pr_type p := pr_value p))),
     qd_changeMainSoundPropertiesDB = (\<lambda>ty ps i w. (E_OK, foldl (\<lambda>w p. w(pr_type p := pr_value p)) w ps)),
     qd_setLastSoundProperty = (\<lambda>_. None),
     qd_setSoundProperty = (\<lambda>ty i s h w. (E_OK, \<lparr>handleType = H_SETSINKSOUNDPROPERTY, handle = 1\<rparr>, w)),
     qd_setSoundProperties = (\<lambda>ty i ss h w. (E_OK, \<lparr>handleType = H_SETSINKSOUNDPROPERTIES, handle = 1\<rparr>, w)),
     qd_listMainNotifications = (\<lambda>ty i w. (E_OK, [])), qd_changeMainNotificationDB = (\<lambda>ty i c w. (E_OK, w)),
     qd_setNotification = (\<lambda>ty i c h w. (E_OK, h, w)), qd_getListSystemProperties = (\<lambda>w. (E_OK, [])),
     qd_changeSystemPropertyDB = (\<lambda>p w. (E_OK, w)), qd_changeSystemPropertiesDB = (\<lambda>ps w. (E_OK, w)),
     qd_abortAction = (\<lambda>h w. w), qd_clock = (\<lambda>w. (\<lparr>tv_sec = 0, tv_nsec = 0\<rparr>, w))\<rparr>"

definition demo_prop_env :: "(am_propertyType_t \<Rightarrow> am_propertyValue_t) prop_env" where
  "demo_prop_env = \<lparr>pv_points = (\<lambda>a. \<lparr>rp_mType = ET_SINK, rp_mName = ''speaker'', rp_mID = of_nat a,
       rp_mConfig = \<lparr>np_domainName = [], np_className = [], np_isVolumeChangeSupported = False, np_isPersistencySupported = False,
         np_isVolumePersistencySupported = False, np_priority = 0, np_listGCMainSoundProperties = [], np_listGCSoundProperties = [],
         np_MSP_TO_SP = [1 \<mapsto> 11, 2 \<mapsto> 12], np_SP_TO_MSP = Map.empty\<rparr>,
       rp_mVolume = 0, rp_mMinVolume = 0, rp_mMaxVolume = 0, rp_mOffsetVolume = 0, rp_mMuteState = MS_UNMUTED, rp_mainVolume = 0,
       rp_limits = []\<rparr>),
     pv_system = sy_new 0 False [], pv_handles = Map.empty, pv_daemon = (\<lambda>t. 3)\<rparr>"

lemma demo_daemon_ok: "sound_daemon_ok demo_prop_daemon pt"
proof -
  have "(\<lambda>t. (E_OK, foldl (\<lambda>w p. w(pr_type p := pr_value p)) w ps t)) = with_values ps (\<lambda>t. (E_OK, w t))"
    for ps :: "am_Property_s list" and w
  proof (induction ps rule: rev_induct)
    case (snoc p ps)
    then show ?case by (auto simp: with_values_def fun_eq_iff split: option.splits)
  qed (simp add: with_values_def)
  then show ?thesis by (simp add: sound_daemon_ok_def value_at_def demo_prop_daemon_def)
qed

theorem sound_properties_undone_witness:
  "\<exists>e2 e4. values_of demo_prop_daemon 4 e2 1 = (E_OK, 7) \<and> values_of demo_prop_daemon 4 e2 2 = (E_OK, 8)
     \<and> values_of demo_prop_daemon 4 e4 = values_of demo_prop_daemon 4 demo_prop_env"
proof -
  let ?S = "pl_sys demo_prop_daemon (\<lambda>n ms h t. (True, h, t)) (\<lambda>h t. (h, t))" and ?ms = "[\<lparr>pr_type = 1, pr_value = 7\<rparr>, \<lparr>pr_type = 2, pr_value = 8\<rparr>]"
  obtain l1 t1 e1 n1 where x: "property_execute ?S (leaf_new 9 [] (SetSoundProperties (ss_new (Some 4) (Some ?ms)))) ((), demo_prop_env) = (l1, (t1, e1), n1)"
    by (metis surj_pair)
  obtain l2 t2 e2 n2 where u: "leaf_update ?S 0 l1 (t1, e1) = (l2, (t2, e2), n2)" by (metis surj_pair)
  obtain l3 t3 e3 n3 where y: "leaf_undo ?S l2 (t2, e2) = (l3, (t3, e3), n3)" by (metis surj_pair)
  obtain l4 t4 e4 n4 where v: "leaf_update ?S 1 l3 (t3, e3) = (l4, (t4, e4), n4)" by (metis surj_pair)
  have ms: "\<forall>m\<in>set ?ms. np_MSP_TO_SP (rp_mConfig (pv_points demo_prop_env 4)) (pr_type m) \<noteq> None
      \<and> fst (values_of demo_prop_daemon 4 demo_prop_env (pr_type m)) = E_OK"
    by (simp add: demo_prop_env_def values_of_def value_at_def demo_prop_daemon_def)
  have "values_of demo_prop_daemon 4 e2 = with_values ?ms (values_of demo_prop_daemon 4 demo_prop_env)"
      "values_of demo_prop_daemon 4 e4 = values_of demo_prop_daemon 4 demo_prop_env"
    using sound_properties_undone [OF demo_daemon_ok ms x u y v] by blast+
  then show ?thesis by (intro exI [of _ e2] exI [of _ e4]) (simp add: with_values_def)
qed

text \<open>
  The undo of a notification configuration sends the new configuration once more, while its acknowledgement
  puts the old one into the database.
\<close>

lemma notification_undo_sends_new:
  assumes "na_undone D this p e = (r, p', e')" and "na_mpElement p = Some a"
  shows "\<exists>pt. pt = pv_points e a \<and> (r, na_mHandle p', e') =
      await this (qd_setNotification D (side pt) (rp_mID pt) (na_mNotificationConfiguration p)) (na_mHandle p) e \<and>
    na_update D AS_UNDO_COMPLETE s p' e'' = clear_handle (na_mHandle p') (setMainNotificationConfiguration D (na_mOldNotificationConfiguration p) a e'')"
proof -
  obtain x h f where q: "await this (qd_setNotification D (side (pv_points e a)) (rp_mID (pv_points e a)) (na_mNotificationConfiguration p))
      (na_mHandle p) e = (x, h, f)" by (metis surj_pair)
  then show ?thesis using assms by (auto simp: na_undone_def setRoutingSideNotification_def na_update_def Let_def)
qed

text \<open>
  One property that the routing side does not know stops a list: only the first such property reaches the
  database, all others are dropped, and the action completes with the result of that one.
\<close>

lemma unmapped_property_drops_list:
  assumes "convert_all (rp_mConfig (pv_points e a)) ms = Inl m"
  shows "setRoutingSideProperties D this ms a p e = (error_code (fst (setMainSoundPropertyValue D m a e)), p, snd (setMainSoundPropertyValue D m a e))
    \<and> m \<in> set ms \<and> np_MSP_TO_SP (rp_mConfig (pv_points e a)) (pr_type m) = None"
proof -
  have "m \<in> set ms \<and> np_MSP_TO_SP (rp_mConfig (pv_points e a)) (pr_type m) = None"
    using assms by (induction ms) (auto simp: mainSoundPropertyToSoundProperty_def split: option.splits sum.splits)
  then show ?thesis using assms by (simp add: setRoutingSideProperties_def split: prod.split)
qed

end
