(* ===== verification/Register_Action.thy ===== *)
theory Register_Action
  imports Controller_Hooks
begin

text \<open>
  \<open>CAmSystemActionRegister\<close>, the leaf action that registers the sinks, sources and gateways of the
  configuration that no domain registers by itself. The factories and the daemon are those of the hooks.
\<close>

record gc_Gateway_info = am_Gateway_s +   \<comment> \<open>\<open>gc_Gateway_s\<close>: the data of the daemon and the configuration\<close>
  gy_sinkName :: string
  gy_sourceName :: string
  gy_controlDomainName :: string
  gy_listConvertionmatrix :: "(16 word \<times> 16 word) list"   \<comment> \<open>pairs of sink and source format\<close>

record registered_point =   \<comment> \<open>what is read of a sink or source element\<close>
  gr_ID :: am_ID_t
  gr_domainID :: am_ID_t
  gr_listConnectionFormats :: "16 word list"

record 'w register_env =
  rg_hooks :: "'w hook_env"
  rg_point :: "gc_Element_e \<Rightarrow> string \<Rightarrow> 'w \<Rightarrow> registered_point option"   \<comment> \<open>the factories, by name\<close>
  rg_attachToGateway :: "am_ID_t \<Rightarrow> gc_Element_e \<Rightarrow> am_ID_t \<Rightarrow> 'w \<Rightarrow> am_Error_e \<times> 'w"

definition getDomainID :: "('w \<Rightarrow> am_Error_e \<times> am_Domain_s list) \<Rightarrow> string \<Rightarrow> 'w \<Rightarrow> am_ID_t option" where
  "getDomainID listDomains domainName w =
     (case listDomains w of
        (r, ds) \<Rightarrow> if r = E_OK then map_option dm_domainID (find (\<lambda>d. dm_name d = domainName) ds) else None)"

definition class_by_name :: "'w hook_env \<Rightarrow> string \<Rightarrow> 'w \<Rightarrow> class_element option" where
  "class_by_name H nm w = find (\<lambda>c. ce_mName c = nm) (he_classes H w)"

text \<open>
  The sinks or the sources, in order. Identifiers of domains that were asked for are kept; a domain that is
  not there ends the action with an error. What else fails is only written to the log.
\<close>

fun register_points :: "'w hook_env \<Rightarrow> gc_Element_e \<Rightarrow> gc_Point_info list \<Rightarrow> (string \<rightharpoonup> am_ID_t) \<Rightarrow> 'w \<Rightarrow> am_Error_e \<times> (string \<rightharpoonup> am_ID_t) \<times> 'w" where
  "register_points H ty [] mapDomainIDs w = (E_OK, mapDomainIDs, w)"
| "register_points H ty (p # ps) mapDomainIDs w =
     (let className = np_className (gi_node p); domainName = np_domainName (gi_node p);
          p1 = (case class_by_name H className w of
                  None \<Rightarrow> p | Some c \<Rightarrow> p\<lparr>gi_point := (gi_point p)\<lparr>ap_classID := ce_mID c\<rparr>\<rparr>)
      in case (case mapDomainIDs domainName of Some i \<Rightarrow> Some i | None \<Rightarrow> getDomainID (he_domainsDB H) domainName w) of
           None \<Rightarrow> (E_NOT_POSSIBLE, mapDomainIDs, w)
         | Some domainID \<Rightarrow>
             (let p2 = p1\<lparr>gi_point := (gi_point p1)\<lparr>ap_domainID := domainID\<rparr>\<rparr>;
                  p3 = (if ty = ET_SINK then add_class_volumes H (he_classes H w) p2 else p2)
              in case he_createPoint H ty p3 w of
                   (i, w1) \<Rightarrow>
                     (let w2 = (case i of
                            None \<Rightarrow> w1
                          | Some n \<Rightarrow> if class_by_name H className w1 = None then w1 else snd (he_attachToClass H className ty n w1))
                      in register_points H ty ps (mapDomainIDs(domainName \<mapsto> domainID)) w2)))"

definition conversion_matrix :: "(16 word \<times> 16 word) list \<Rightarrow> 16 word list \<Rightarrow> 16 word list \<Rightarrow> bool list" where
  "conversion_matrix conversions sinkFormats sourceFormats =
     concat (map (\<lambda>k. map (\<lambda>s. (k, s) \<in> set conversions) sourceFormats) sinkFormats)"

definition populateGatewayStruct :: "'w register_env \<Rightarrow> gc_Gateway_info \<Rightarrow> 'w \<Rightarrow> gc_Gateway_info option" where
  "populateGatewayStruct R g w =
     (case (getDomainID (he_domainsDB (rg_hooks R)) (gy_controlDomainName g) w, rg_point R ET_SOURCE (gy_sourceName g) w,
            rg_point R ET_SINK (gy_sinkName g) w) of
        (Some d, Some src, Some snk) \<Rightarrow>
          Some (g\<lparr>gt_controlDomainID := d, gt_sinkID := gr_ID snk, gt_domainSinkID := gr_domainID snk,
                  gt_listSinkFormats := gr_listConnectionFormats snk, gt_sourceID := gr_ID src, gt_domainSourceID := gr_domainID src,
                  gt_listSourceFormats := gr_listConnectionFormats src,
                  gt_convertionMatrix := conversion_matrix (gy_listConvertionmatrix g) (gr_listConnectionFormats snk) (gr_listConnectionFormats src)\<rparr>)
      | _ \<Rightarrow> None)"

definition attach_end :: "'w register_env \<Rightarrow> am_ID_t \<Rightarrow> gc_Element_e \<Rightarrow> string \<Rightarrow> 'w \<Rightarrow> 'w" where
  "attach_end R i ty nm w =
     (case rg_point R ty nm w of None \<Rightarrow> w | Some p \<Rightarrow> snd (rg_attachToGateway R i ty (gr_ID p) w))"

fun register_gateways :: "'w register_env \<Rightarrow> gc_Gateway_info list \<Rightarrow> 'w \<Rightarrow> am_Error_e \<times> 'w" where
  "register_gateways R [] w = (E_OK, w)"
| "register_gateways R (g # gs) w =
     (case populateGatewayStruct R g w of
        None \<Rightarrow> (E_NOT_POSSIBLE, w)
      | Some g' \<Rightarrow>
          (case he_createGateway (rg_hooks R) (am_Gateway_s.truncate g') w of
             (i, w1) \<Rightarrow>
               register_gateways R gs
                 (case i of None \<Rightarrow> w1
                  | Some n \<Rightarrow> attach_end R n ET_SINK (gy_sinkName g') (attach_end R n ET_SOURCE (gy_sourceName g') w1))))"

definition register_execute :: "'w register_env \<Rightarrow> gc_Point_info list \<Rightarrow> gc_Point_info list \<Rightarrow> gc_Gateway_info list \<Rightarrow> 'w \<Rightarrow> am_Error_e \<times> 'w" where
  "register_execute R listSinks listSources listGateways w =
     (case register_points (rg_hooks R) ET_SINK listSinks Map.empty w of
        (r1, m1, w1) \<Rightarrow>
          if r1 \<noteq> E_OK then (r1, w1)
          else (case register_points (rg_hooks R) ET_SOURCE listSources m1 w1 of
             (r2, m2, w2) \<Rightarrow> if r2 \<noteq> E_OK then (r2, w2) else register_gateways R listGateways w2))"

section \<open>Lemmas\<close>

text \<open>The entry of the matrix for the sink format number \<open>i\<close> and the source format number \<open>j\<close>.\<close>

lemma conversion_matrix_nth:
  assumes "i < length ks" "j < length ss"
  shows "conversion_matrix cs ks ss ! (i * length ss + j) \<longleftrightarrow> (ks ! i, ss ! j) \<in> set cs"
  using assms
proof (induction ks arbitrary: i)
  case (Cons k ks)
  then show ?case
    by (cases i) (auto simp: conversion_matrix_def nth_append)
qed simp

text \<open>
  The action reports success whenever the domains and the ends of the gateways are there, whatever the
  factories answer.
\<close>

lemma register_points_ok:
  assumes "\<forall>w. \<forall>p\<in>set ps. getDomainID (he_domainsDB H) (np_domainName (gi_node p)) w \<noteq> None"
  shows "fst (register_points H ty ps m w) = E_OK"
  using assms by (induction ps arbitrary: m w) (auto simp: Let_def split: option.splits prod.splits)

end
