(* ===== verification/Policy_Action.thy ===== *)
theory Policy_Action
  imports Policy_Engine Persistence_Props Connection_Selection
begin

text \<open>
  \<open>CAmPolicyAction\<close>, the container that turns the actions of the policy into actions of the framework: which
  class of action is created, for which element, and with which parameters. A parameter is handed over by
  copying it into the one that the action has registered under the same name (\<open>Action_Params\<close>), with a cast
  that nothing checks: here the result is \<open>None\<close> if the types differ.
\<close>

section \<open>Parameters and the actions that take them\<close>

datatype param_type = T_string | T_names | T_sources | T_sinks | T_gateways | T_states | T_mute | T_limit | T_uint32 | T_uint16
  | T_int16 | T_order | T_status | T_mainProperties | T_systemProperties

datatype param_value =
    PV_string string
  | PV_names "string list"
  | PV_sources "gc_Point_s list"
  | PV_sinks "gc_Point_s list"
  | PV_gateways "gc_Gateway_s list"
  | PV_states "am_ConnectionState_e list"
  | PV_mute int
  | PV_limit int
  | PV_uint32 "32 word"
  | PV_uint16 "16 word"
  | PV_int16 "16 word"
  | PV_order int
  | PV_status int
  | PV_mainProperties "am_MainSoundProperty_s list"
  | PV_systemProperties "am_SystemProperty_s list"

fun type_of :: "param_value \<Rightarrow> param_type" where
  "type_of (PV_string _) = T_string"
| "type_of (PV_names _) = T_names"
| "type_of (PV_sources _) = T_sources"
| "type_of (PV_sinks _) = T_sinks"
| "type_of (PV_gateways _) = T_gateways"
| "type_of (PV_states _) = T_states"
| "type_of (PV_mute _) = T_mute"
| "type_of (PV_limit _) = T_limit"
| "type_of (PV_uint32 _) = T_uint32"
| "type_of (PV_uint16 _) = T_uint16"
| "type_of (PV_int16 _) = T_int16"
| "type_of (PV_order _) = T_order"
| "type_of (PV_status _) = T_status"
| "type_of (PV_mainProperties _) = T_mainProperties"
| "type_of (PV_systemProperties _) = T_systemProperties"

datatype framework_class = FC_SetVolume | FC_Limit | FC_Mute | FC_Connect | FC_Disconnect | FC_Interrupt | FC_Suspend | FC_Register
  | FC_SystemProperty | FC_SystemProperties | FC_SoundProperty | FC_SoundProperties | FC_Notification

definition volume_core_registered :: "(string \<times> param_type) list" where
  "volume_core_registered = [(''className'', T_string), (''sourceName'', T_string), (''sinkName'', T_string),
     (''connectionName'', T_string), (''rampTime'', T_int16), (''rampType'', T_uint16)]"

definition volume_values_registered :: "(string \<times> param_type) list" where
  "volume_values_registered = [(''mainVolume'', T_int16), (''mainVolumeStep'', T_int16), (''volume'', T_int16), (''volumeStep'', T_int16)]"

definition selection_registered :: "(string \<times> param_type) list" where
  "selection_registered = [(''className'', T_string), (''exceptClass'', T_names), (''sourceName'', T_string), (''sinkName'', T_string)]"

text \<open>What the constructor of each class registers.\<close>

fun registered :: "framework_class \<Rightarrow> (string \<times> param_type) list" where
  "registered FC_SetVolume = volume_core_registered @ volume_values_registered"
| "registered FC_Limit = volume_core_registered @
     [(''limitState'', T_limit), (''pattern'', T_uint32), (''volume'', T_int16), (''volumeStep'', T_int16)]"
| "registered FC_Mute = volume_core_registered @ [(''muteState'', T_mute), (''pattern'', T_uint32)]"
| "registered FC_Connect = selection_registered @ [(''order'', T_order), (''connectionFormat'', T_uint16)] @ volume_values_registered"
| "registered FC_Disconnect = selection_registered @
     [(''connectionName'', T_string), (''exceptSource'', T_names), (''exceptSink'', T_names), (''connectionState'', T_states)]"
| "registered FC_Interrupt = selection_registered"
| "registered FC_Suspend = selection_registered @ [(''order'', T_order)]"
| "registered FC_Register = [(''sourceInfo'', T_sources), (''sinkInfo'', T_sinks), (''gatewayInfo'', T_gateways)]"
| "registered FC_SystemProperty = [(''debugType'', T_uint16), (''debugValue'', T_int16), (''propertyType'', T_uint16), (''propertyValue'', T_int16)]"
| "registered FC_SystemProperties = [(''listSystemProperties'', T_systemProperties)]"
| "registered FC_SoundProperty = [(''propertyType'', T_uint16), (''propertyValue'', T_int16)]"
| "registered FC_SoundProperties = [(''listMainSoundProperties'', T_mainProperties)]"
| "registered FC_Notification = [(''notificationConfigurationType'', T_uint16), (''notificationConfigurationStatus'', T_status),
     (''notificationConfigurationParam'', T_int16)]"

text \<open>The action on a system property registers each of its two members under two names.\<close>

definition member_of :: "framework_class \<Rightarrow> string \<Rightarrow> string" where
  "member_of cls nm = (if cls = FC_SystemProperty then
       (if nm = ''debugType'' then ''propertyType'' else if nm = ''debugValue'' then ''propertyValue'' else nm) else nm)"

record framework_action =
  fa_class :: framework_class
  fa_element :: "(gc_Element_e \<times> string) option"   \<comment> \<open>the source or sink of a property\<close>
  fa_params :: "string \<rightharpoonup> param_value"   \<comment> \<open>of the members that are set\<close>
  fa_timeout :: "32 word option"

text \<open>Some members are set when the action is created; 2 is the newest first.\<close>

definition fa_new :: "framework_class \<Rightarrow> (gc_Element_e \<times> string) option \<Rightarrow> framework_action" where
  "fa_new cls element = \<lparr>fa_class = cls, fa_element = element,
     fa_params = (if cls = FC_Connect \<or> cls = FC_Suspend then [''order'' \<mapsto> PV_order 2]
                  else if cls = FC_Disconnect then [''connectionState'' \<mapsto> PV_states [CS_CONNECTED]] else Map.empty),
     fa_timeout = None\<rparr>"

definition fa_setParam :: "string \<Rightarrow> param_value \<Rightarrow> framework_action \<Rightarrow> framework_action option" where
  "fa_setParam nm v a =
     (case map_of (registered (fa_class a)) nm of
        None \<Rightarrow> Some a
      | Some ty \<Rightarrow> if type_of v = ty then Some (a\<lparr>fa_params := (fa_params a)(member_of (fa_class a) nm \<mapsto> v)\<rparr>) else None)"

section \<open>Texts of parameters\<close>

definition strtol16 :: "string \<Rightarrow> int" where
  "strtol16 s =
     (let t = dropWhile isspace s;
          (neg, ds) = (case t of [] \<Rightarrow> (False, []) | c # cs \<Rightarrow> if c = CHR ''-'' then (True, cs) else if c = CHR ''+'' then (False, cs) else (False, t));
          hs = (case ds of c0 # c1 # c2 # r \<Rightarrow>
                    if c0 = CHR ''0'' \<and> (c1 = CHR ''x'' \<or> c1 = CHR ''X'') \<and> hex_value c2 \<noteq> None then c2 # r else ds
                | _ \<Rightarrow> ds);
          v = foldl (\<lambda>n c. 16 * n + the (hex_value c)) 0 (takeWhile (\<lambda>c. hex_value c \<noteq> None) hs)
      in max (- (2 ^ 63)) (min (2 ^ 63 - 1) (if neg then - v else v)))"

text \<open>
  A list of properties. A text that cannot be split ends the setting of all parameters that follow
  (\<open>Lost\<close>); an odd number of parts moves the iterator past the end (\<open>Bad\<close>).
\<close>

datatype list_result = Lost | Bad | Parsed "am_Property_s list"

fun property_pairs :: "string list \<Rightarrow> am_Property_s list option" where
  "property_pairs [] = Some []"
| "property_pairs [_] = None"
| "property_pairs (t # v # r) =
     map_option ((#) \<lparr>pr_type = word_of_int (atoi t), pr_value = word_of_int (atoi v)\<rparr>) (property_pairs r)"

fun property_parts :: "string list \<Rightarrow> list_result" where
  "property_parts [] = Parsed []"
| "property_parts (p # ps) =
     (case split_ok (CHR '':'') p of
        None \<Rightarrow> Lost
      | Some data \<Rightarrow>
          (case property_pairs data of
             None \<Rightarrow> Bad
           | Some qs \<Rightarrow> (case property_parts ps of Parsed qs' \<Rightarrow> Parsed (qs @ qs') | r \<Rightarrow> r)))"

definition parse_properties :: "string \<Rightarrow> list_result" where
  "parse_properties s = (case split_ok (CHR ''('') s of None \<Rightarrow> Lost | Some parts \<Rightarrow> property_parts parts)"

text \<open>The states of a filter; an entry that is not there is created empty.\<close>

definition mMapConnectionStates :: "string \<Rightarrow> am_ConnectionState_e list" where
  "mMapConnectionStates flt =
     (if flt = ''ALL'' then [CS_UNKNOWN, CS_CONNECTING, CS_CONNECTED, CS_DISCONNECTING, CS_DISCONNECTED, CS_SUSPENDED]
      else if flt = ''CS_CONNECTED'' \<or> flt = [] then [CS_CONNECTED]
      else if flt = ''CS_DISCONNECTED'' then [CS_DISCONNECTED]
      else if flt = ''CS_SUSPENDED'' then [CS_SUSPENDED]
      else if flt = ''OTHERS'' then [CS_UNKNOWN, CS_CONNECTING, CS_DISCONNECTING, CS_DISCONNECTED, CS_SUSPENDED]
      else [])"

section \<open>Setting the parameters\<close>

record action_env =
  ax_config :: config_reader
  ax_system :: bool                                  \<comment> \<open>there is a system element\<close>
  ax_exists :: "gc_Element_e \<Rightarrow> string \<Rightarrow> bool"     \<comment> \<open>the factories of sources and sinks\<close>

text \<open>The elements of a list of names, up to the first that is not configured.\<close>

definition configured :: "(string \<times> 'e) list \<Rightarrow> string list \<Rightarrow> 'e list" where
  "configured m names = List.map_filter (\<lambda>nm. getElementByName nm m) (takeWhile (\<lambda>nm. getElementByName nm m \<noteq> None) names)"

definition when_set :: "string \<Rightarrow> param_map \<Rightarrow> (string \<Rightarrow> (string \<times> param_value) list) \<Rightarrow> (string \<times> param_value) list" where
  "when_set k m f = (case map_of m k of None \<Rightarrow> [] | Some v \<Rightarrow> f v)"

definition numeric_calls :: "param_map \<Rightarrow> (string \<times> param_value) list" where
  "numeric_calls m =
     (let int16 = (\<lambda>k. when_set k m (\<lambda>v. [(k, PV_int16 (word_of_int (atoi v)))]));
          uint16 = (\<lambda>k. when_set k m (\<lambda>v. [(k, PV_uint16 (word_of_int (atoi v)))]))
      in uint16 ''rampType'' @ int16 ''rampTime'' @ int16 ''mainVolume'' @ int16 ''mainVolumeStep'' @ int16 ''volume'' @ int16 ''volumeStep''
         @ when_set ''order'' m (\<lambda>v. [(''order'', PV_order (atoi v))])
         @ uint16 ''propertyType'' @ int16 ''propertyValue'' @ uint16 ''debugType'' @ int16 ''debugValue'' @ uint16 ''connectionFormat''
         @ uint16 ''notificationConfigurationType''
         @ when_set ''notificationConfigurationStatus'' m (\<lambda>v. [(''notificationConfigurationStatus'', PV_status (atoi v))])
         @ int16 ''notificationConfigurationParam'')"

text \<open>One name is handed over as it is, a text with a space as the list of the configured elements.\<close>

definition name_or_list :: "string \<Rightarrow> string \<Rightarrow> (string list \<Rightarrow> param_value) \<Rightarrow> string \<Rightarrow> (string \<times> param_value) list" where
  "name_or_list k info elements v = (if CHR '' '' \<notin> set v then [(k, PV_string v)] else [(info, elements (getListNames v))])"

definition target_calls :: "action_env \<Rightarrow> param_map \<Rightarrow> (string \<times> param_value) list" where
  "target_calls X m =
     when_set ''className'' m (\<lambda>v. if v \<noteq> ''ALL'' then [(''className'', PV_string v)] else [])
     @ when_set ''sourceName'' m (name_or_list ''sourceName'' ''sourceInfo'' (\<lambda>ns. PV_sources (configured (mMapSources (ax_config X)) ns)))
     @ when_set ''sinkName'' m (name_or_list ''sinkName'' ''sinkInfo'' (\<lambda>ns. PV_sinks (configured (mMapSinks (ax_config X)) ns)))
     @ when_set ''gatewayName'' m (name_or_list ''gatewayName'' ''gatewayInfo'' (\<lambda>ns. PV_gateways (configured (mMapGateways (ax_config X)) ns)))
     @ when_set ''exceptClass'' m (\<lambda>v. [(''exceptClass'', PV_names (getListNames v))])
     @ when_set ''exceptSource'' m (\<lambda>v. [(''exceptSource'', PV_names (getListNames v))])
     @ when_set ''exceptSink'' m (\<lambda>v. [(''exceptSink'', PV_names (getListNames v))])"

text \<open>With both ends given every state qualifies, whatever the filter says.\<close>

definition state_calls :: "param_map \<Rightarrow> (string \<times> param_value) list" where
  "state_calls m =
     (let exact = (isParameterSet ''sourceName'' m \<and> isParameterSet ''sinkName'' m)
      in case map_of m ''connectionState'' of
           Some flt \<Rightarrow> [(''connectionState'', PV_states (mMapConnectionStates (if exact then ''ALL'' else flt)))]
         | None \<Rightarrow> if exact then [(''connectionState'', PV_states (mMapConnectionStates ''ALL''))] else [])"

definition pattern_calls :: "param_map \<Rightarrow> (string \<times> param_value) list" where
  "pattern_calls m =
     when_set ''muteState'' m (\<lambda>v. [(''muteState'', PV_mute (atoi v)), (''pattern'', PV_uint32 0xFFFF0000)])
     @ when_set ''limitState'' m (\<lambda>v. [(''limitState'', PV_limit (atoi v)), (''pattern'', PV_uint32 0xFFFF)])
     @ when_set ''pattern'' m (\<lambda>v. [(''pattern'', PV_uint32 (word_of_int (strtol16 v)))])"

text \<open>The calls of \<open>setParam\<close>, in order; \<open>None\<close> is undefined.\<close>

definition list_calls :: "string \<Rightarrow> (am_Property_s list \<Rightarrow> param_value) \<Rightarrow> param_map \<Rightarrow> (string \<times> param_value) list option
    \<Rightarrow> (string \<times> param_value) list option" where
  "list_calls k val m rest =
     (case map_of m k of
        None \<Rightarrow> rest
      | Some v \<Rightarrow> (case parse_properties v of Lost \<Rightarrow> Some [] | Bad \<Rightarrow> None | Parsed ps \<Rightarrow> map_option ((#) (k, val ps)) rest))"

definition param_calls :: "action_env \<Rightarrow> param_map \<Rightarrow> (string \<times> param_value) list option" where
  "param_calls X m =
     map_option ((@) (target_calls X m @ state_calls m @ pattern_calls m))
       (list_calls ''listMainSoundProperties'' PV_mainProperties m
         (list_calls ''listSystemProperties'' PV_systemProperties m
           (Some (when_set ''connectionName'' m (\<lambda>v. [(''connectionName'', PV_string v)]) @ numeric_calls m))))"

definition setActionParameters :: "action_env \<Rightarrow> param_map \<Rightarrow> framework_action \<Rightarrow> framework_action option" where
  "setActionParameters X m a =
     (let a1 = (case map_of m ''timeOut'' of None \<Rightarrow> a | Some v \<Rightarrow> a\<lparr>fa_timeout := Some (word_of_int (atoi v))\<rparr>)
      in case param_calls X m of
           None \<Rightarrow> None
         | Some calls \<Rightarrow> foldl (\<lambda>r (k, v). Option.bind r (fa_setParam k v)) (Some a1) calls)"

section \<open>Creating the actions\<close>

text \<open>The element of an action on a property is the source if one is named, otherwise the sink.\<close>

definition property_element :: "action_env \<Rightarrow> param_map \<Rightarrow> (gc_Element_e \<times> string) option" where
  "property_element X m =
     (let getParam = (\<lambda>k. case map_of m k of None \<Rightarrow> [] | Some v \<Rightarrow> v);
          src = getParam ''sourceName''; snk = getParam ''sinkName''
      in if src \<noteq> [] then (if ax_exists X ET_SOURCE src then Some (ET_SOURCE, src) else None)
         else if snk \<noteq> [] then (if ax_exists X ET_SINK snk then Some (ET_SINK, snk) else None)
         else None)"

text \<open>The outer option is undefined behaviour, the inner one an action that is not created.\<close>

definition new_action :: "action_env \<Rightarrow> gc_Action_s \<Rightarrow> framework_action option option" where
  "new_action X pa =
     (let plain = (\<lambda>cls. Some (Some (fa_new cls None)));
          on_element = (\<lambda>cls. Some (map_option (\<lambda>el. fa_new cls (Some el)) (property_element X (mapParameters pa))));
          on_system = (\<lambda>cls. Some (if ax_system X then Some (fa_new cls None) else None))
      in case actionType pa of
           ACTION_SET_VOLUME \<Rightarrow> plain FC_SetVolume
         | ACTION_LIMIT \<Rightarrow> plain FC_Limit
         | ACTION_UNLIMIT \<Rightarrow> plain FC_Limit
         | ACTION_MUTE \<Rightarrow> plain FC_Mute
         | ACTION_UNMUTE \<Rightarrow> plain FC_Mute
         | ACTION_CONNECT \<Rightarrow> plain FC_Connect
         | ACTION_POP \<Rightarrow> plain FC_Connect
         | ACTION_RESUME \<Rightarrow> plain FC_Connect
         | ACTION_DISCONNECT \<Rightarrow> plain FC_Disconnect
         | ACTION_PUSH \<Rightarrow> plain FC_Interrupt
         | ACTION_SUSPEND \<Rightarrow> plain FC_Suspend
         | ACTION_REGISTER \<Rightarrow> (if ax_system X then plain FC_Register else None)
         | ACTION_DEBUG \<Rightarrow> on_system FC_SystemProperty
         | ACTION_SET_SYSTEM_PROPERTY \<Rightarrow> on_system FC_SystemProperty
         | ACTION_SET_SYSTEM_PROPERTIES \<Rightarrow> on_system FC_SystemProperties
         | ACTION_SET_PROPERTY \<Rightarrow> on_element FC_SoundProperty
         | ACTION_SET_PROPERTIES \<Rightarrow> on_element FC_SoundProperties
         | ACTION_SET_NOTIFICATION_CONFIGURATION \<Rightarrow> on_element FC_Notification
         | _ \<Rightarrow> Some None)"

definition createActions :: "action_env \<Rightarrow> gc_Action_s \<Rightarrow> framework_action list option" where
  "createActions X pa =
     (case new_action X pa of
        None \<Rightarrow> None
      | Some None \<Rightarrow> Some []
      | Some (Some a) \<Rightarrow> map_option (\<lambda>a'. [a']) (setActionParameters X (mapParameters pa) a))"

fun policy_action_execute :: "action_env \<Rightarrow> gc_Action_s list \<Rightarrow> framework_action list option" where
  "policy_action_execute X [] = Some []"
| "policy_action_execute X (pa # pas) =
     (case createActions X pa of
        None \<Rightarrow> None
      | Some as \<Rightarrow> map_option ((@) as) (policy_action_execute X pas))"

section \<open>What the actions read\<close>

definition get_string :: "string \<Rightarrow> framework_action \<Rightarrow> string option" where
  "get_string k a = (case fa_params a k of Some (PV_string v) \<Rightarrow> Some v | _ \<Rightarrow> None)"

definition get_names :: "string \<Rightarrow> framework_action \<Rightarrow> string list" where
  "get_names k a = (case fa_params a k of Some (PV_names v) \<Rightarrow> v | _ \<Rightarrow> [])"

definition get_states :: "string \<Rightarrow> framework_action \<Rightarrow> am_ConnectionState_e list" where
  "get_states k a = (case fa_params a k of Some (PV_states v) \<Rightarrow> v | _ \<Rightarrow> [])"

definition disconnect_of :: "framework_action \<Rightarrow> disconnect_work" where
  "disconnect_of a = \<lparr>da_connectionName = get_string ''connectionName'' a, da_className = get_string ''className'' a,
     da_sourceName = get_string ''sourceName'' a, da_sinkName = get_string ''sinkName'' a,
     da_connectionStates = get_states ''connectionState'' a, da_exceptClasses = get_names ''exceptClass'' a,
     da_exceptSources = get_names ''exceptSource'' a, da_exceptSinks = get_names ''exceptSink'' a, da_mpListMainConnections = []\<rparr>"

section \<open>Types\<close>

text \<open>The type that belongs to a name, whatever action registers it.\<close>

definition name_type :: "string \<rightharpoonup> param_type" where
  "name_type = map_of (volume_core_registered @ volume_values_registered @
     [(''limitState'', T_limit), (''pattern'', T_uint32), (''muteState'', T_mute), (''order'', T_order), (''connectionFormat'', T_uint16),
      (''exceptClass'', T_names), (''exceptSource'', T_names), (''exceptSink'', T_names), (''connectionState'', T_states),
      (''sourceInfo'', T_sources), (''sinkInfo'', T_sinks), (''gatewayInfo'', T_gateways), (''gatewayName'', T_string),
      (''debugType'', T_uint16), (''debugValue'', T_int16), (''propertyType'', T_uint16), (''propertyValue'', T_int16),
      (''listSystemProperties'', T_systemProperties), (''listMainSoundProperties'', T_mainProperties),
      (''notificationConfigurationType'', T_uint16), (''notificationConfigurationStatus'', T_status),
      (''notificationConfigurationParam'', T_int16)])"

definition typed :: "string \<times> param_value \<Rightarrow> bool" where
  "typed kv \<longleftrightarrow> name_type (fst kv) = Some (type_of (snd kv))"

lemma name_type_simps [simp]:
  "name_type ''className'' = Some T_string" "name_type ''sourceName'' = Some T_string" "name_type ''sinkName'' = Some T_string"
  "name_type ''connectionName'' = Some T_string" "name_type ''gatewayName'' = Some T_string" "name_type ''rampTime'' = Some T_int16"
  "name_type ''rampType'' = Some T_uint16" "name_type ''mainVolume'' = Some T_int16" "name_type ''mainVolumeStep'' = Some T_int16"
  "name_type ''volume'' = Some T_int16" "name_type ''volumeStep'' = Some T_int16" "name_type ''limitState'' = Some T_limit"
  "name_type ''pattern'' = Some T_uint32" "name_type ''muteState'' = Some T_mute" "name_type ''order'' = Some T_order"
  "name_type ''connectionFormat'' = Some T_uint16" "name_type ''exceptClass'' = Some T_names" "name_type ''exceptSource'' = Some T_names"
  "name_type ''exceptSink'' = Some T_names" "name_type ''connectionState'' = Some T_states" "name_type ''sourceInfo'' = Some T_sources"
  "name_type ''sinkInfo'' = Some T_sinks" "name_type ''gatewayInfo'' = Some T_gateways" "name_type ''debugType'' = Some T_uint16"
  "name_type ''debugValue'' = Some T_int16" "name_type ''propertyType'' = Some T_uint16" "name_type ''propertyValue'' = Some T_int16"
  "name_type ''listSystemProperties'' = Some T_systemProperties" "name_type ''listMainSoundProperties'' = Some T_mainProperties"
  "name_type ''notificationConfigurationType'' = Some T_uint16" "name_type ''notificationConfigurationStatus'' = Some T_status"
  "name_type ''notificationConfigurationParam'' = Some T_int16"
  by (code_simp)+

lemma registered_name_type: "map_of (registered cls) k = Some ty \<Longrightarrow> name_type k = Some ty"
proof -
  have "list_all (\<lambda>(k, ty). name_type k = Some ty) (registered cls)" by (cases cls; simp only:; code_simp)
  then show "map_of (registered cls) k = Some ty \<Longrightarrow> name_type k = Some ty" by (auto simp: list_all_iff dest: map_of_SomeD)
qed

lemma member_of_registered:
  "map_of (registered cls) k = Some ty \<Longrightarrow> map_of (registered cls) (member_of cls k) = Some ty"
proof -
  have "list_all (\<lambda>(k, ty). map_of (registered cls) (member_of cls k) = Some ty) (registered cls)" by (cases cls; simp only:; code_simp)
  then show "map_of (registered cls) k = Some ty \<Longrightarrow> map_of (registered cls) (member_of cls k) = Some ty"
    by (auto simp: list_all_iff dest: map_of_SomeD)
qed

lemma when_set_typed: "(\<And>v. list_all typed (f v)) \<Longrightarrow> list_all typed (when_set k m f)"
  by (auto simp: when_set_def split: option.split)

lemma target_calls_typed: "list_all typed (target_calls X m)"
  unfolding target_calls_def list_all_append
  by (intro conjI when_set_typed) (simp_all add: typed_def name_or_list_def)

lemma state_calls_typed: "list_all typed (state_calls m)"
  by (simp add: state_calls_def typed_def Let_def split: option.split)

lemma pattern_calls_typed: "list_all typed (pattern_calls m)"
  unfolding pattern_calls_def list_all_append by (intro conjI when_set_typed) (simp_all add: typed_def)

lemma numeric_calls_typed: "list_all typed (numeric_calls m)"
  unfolding numeric_calls_def Let_def list_all_append by (intro conjI when_set_typed) (simp_all add: typed_def)

definition list_bad :: "string \<Rightarrow> param_map \<Rightarrow> bool" where
  "list_bad k m \<longleftrightarrow> (\<exists>v. map_of m k = Some v \<and> parse_properties v = Bad)"

lemma list_calls_typed:
  assumes "list_calls k val m rest = Some calls" and "\<And>ps. typed (k, val ps)" and "\<And>calls'. rest = Some calls' \<Longrightarrow> list_all typed calls'"
  shows "list_all typed calls"
  using assms by (auto simp: list_calls_def split: option.splits list_result.splits)

lemma list_calls_None: "list_calls k val m rest = None \<Longrightarrow> list_bad k m \<or> rest = None"
  by (auto simp: list_calls_def list_bad_def split: option.splits list_result.splits)

lemma param_calls_typed: "param_calls X m = Some calls \<Longrightarrow> list_all typed calls"
proof -
  assume "param_calls X m = Some calls"
  then obtain ls where ls: "calls = (target_calls X m @ state_calls m @ pattern_calls m) @ ls"
      "list_calls ''listMainSoundProperties'' PV_mainProperties m (list_calls ''listSystemProperties'' PV_systemProperties m
         (Some (when_set ''connectionName'' m (\<lambda>v. [(''connectionName'', PV_string v)]) @ numeric_calls m))) = Some ls"
    by (auto simp: param_calls_def)
  have base: "list_all typed (when_set ''connectionName'' m (\<lambda>v. [(''connectionName'', PV_string v)]) @ numeric_calls m)"
    using numeric_calls_typed [of m] when_set_typed [of "\<lambda>v. [(''connectionName'', PV_string v)]" "''connectionName''" m]
    by (simp add: typed_def)
  have "list_all typed ls"
  proof (rule list_calls_typed [OF ls(2)])
    fix calls' assume "list_calls ''listSystemProperties'' PV_systemProperties m
        (Some (when_set ''connectionName'' m (\<lambda>v. [(''connectionName'', PV_string v)]) @ numeric_calls m)) = Some calls'"
    then show "list_all typed calls'" by (rule list_calls_typed) (use base in \<open>simp_all add: typed_def\<close>)
  qed (simp add: typed_def)
  then show ?thesis using target_calls_typed [of X m] state_calls_typed [of m] pattern_calls_typed [of m] by (simp add: ls(1))
qed

definition params_ok :: "framework_action \<Rightarrow> bool" where
  "params_ok a \<longleftrightarrow> (\<forall>k v. fa_params a k = Some v \<longrightarrow> map_of (registered (fa_class a)) k = Some (type_of v))"

lemma fa_setParam_ok:
  assumes "typed (k, v)" and "params_ok a"
  shows "\<exists>a'. fa_setParam k v a = Some a' \<and> params_ok a' \<and> fa_class a' = fa_class a \<and> fa_element a' = fa_element a"
proof (cases "map_of (registered (fa_class a)) k")
  case (Some ty)
  then have ty: "type_of v = ty" using assms(1) registered_name_type [OF Some] by (simp add: typed_def)
  then show ?thesis using assms(2) Some member_of_registered [OF Some]
    by (auto simp: fa_setParam_def params_ok_def)
qed (use assms(2) in \<open>simp add: fa_setParam_def\<close>)

lemma set_params_ok:
  assumes "list_all typed calls" and "params_ok a"
  shows "\<exists>a'. foldl (\<lambda>r (k, v). Option.bind r (fa_setParam k v)) (Some a) calls = Some a' \<and> params_ok a' \<and> fa_class a' = fa_class a
    \<and> fa_element a' = fa_element a"
  using assms
proof (induction calls arbitrary: a)
  case (Cons c calls)
  obtain k v where c: "c = (k, v)" by fastforce
  obtain a1 where a1: "fa_setParam k v a = Some a1" "params_ok a1" "fa_class a1 = fa_class a" "fa_element a1 = fa_element a"
    using fa_setParam_ok [of k v a] Cons.prems by (auto simp: c)
  from Cons.IH [OF _ a1(2)] Cons.prems(1) a1 show ?case by (simp add: c)
qed simp

lemma fa_new_ok: "params_ok (fa_new cls el)"
  by (cases cls) (auto simp: params_ok_def fa_new_def selection_registered_def)

lemma setActionParameters_ok:
  assumes "params_ok a"
  shows "case setActionParameters X m a of
      None \<Rightarrow> list_bad ''listMainSoundProperties'' m \<or> list_bad ''listSystemProperties'' m
    | Some a' \<Rightarrow> params_ok a' \<and> fa_class a' = fa_class a \<and> fa_element a' = fa_element a"
proof -
  let ?a1 = "case map_of m ''timeOut'' of None \<Rightarrow> a | Some v \<Rightarrow> a\<lparr>fa_timeout := Some (word_of_int (atoi v))\<rparr>"
  have a1: "params_ok ?a1" "fa_class ?a1 = fa_class a" "fa_element ?a1 = fa_element a"
    using assms by (auto simp: params_ok_def split: option.split)
  show ?thesis
  proof (cases "param_calls X m")
    case None
    then have "list_bad ''listMainSoundProperties'' m \<or> list_bad ''listSystemProperties'' m"
      unfolding param_calls_def option.map_disc_iff by (auto dest: list_calls_None)
    then show ?thesis using None by (simp add: setActionParameters_def)
  next
    case (Some calls)
    then show ?thesis using set_params_ok [OF param_calls_typed [OF Some] a1(1)] a1(2,3)
      by (auto simp: setActionParameters_def)
  qed
qed



section \<open>The list of properties of a trigger\<close>

lemma property_list_join: "property_list ps = join (CHR ''('') (map (\<lambda>p. dec_u (pr_type p) @ '':'' @ dec_s (pr_value p) @ '')'') ps)"
  by (simp add: property_list_def join_def comp_def)

lemma dec_u_nonempty: "dec_u w \<noteq> []"
  by (simp add: dec_def)

lemma property_text_parts:
  "split_ok (CHR '':'') (dec_u (pr_type p) @ '':'' @ dec_s (pr_value p) @ '')'') = Some [dec_u (pr_type p), dec_s (pr_value p) @ '')'']"
  by (simp add: split_ok_def parseString_def Let_def dec_u_nonempty)

lemma property_text_value: "property_pairs [dec_u (pr_type p), dec_s (pr_value p) @ '')''] = Some [p]"
proof -
  have "word_of_int (atoi (dec_s (pr_value p) @ '')'')) = pr_value p" by (rule atoi_volume) simp
  moreover have "atoi (dec_u (pr_type p)) = uint (pr_type p)"
    using uint_lt2p [of "pr_type p"] by (intro atoi_dec) (auto intro: order_trans [of _ 0])
  ultimately show ?thesis by simp
qed

lemma parse_property_list: "ps \<noteq> [] \<Longrightarrow> parse_properties (property_list ps) = Parsed ps"
proof -
  assume ne: "ps \<noteq> []"
  let ?text = "\<lambda>p. dec_u (pr_type p) @ '':'' @ dec_s (pr_value p) @ '')''"
  have "split_ok (CHR ''('') (property_list ps) = Some (map ?text ps)"
    unfolding property_list_join using ne by (intro split_ok_join) auto
  moreover have "property_parts (map ?text qs) = Parsed qs" for qs
    by (induction qs)
      (simp_all add: property_text_parts [simplified append_Cons append_Nil] property_text_value del: property_pairs.simps)
  ultimately show ?thesis by (simp add: parse_properties_def)
qed


lemma obind_Ret: "obind r f = Ret y \<Longrightarrow> (\<And>x. r = Ret x \<Longrightarrow> f x = Ret y \<Longrightarrow> P) \<Longrightarrow> P"
  by (cases r) auto

lemma convert_params_lookup:
  "convert_params fuel before V t m = Ret m' \<Longrightarrow>
   (case map_of m k of None \<Rightarrow> map_of m' k = None
    | Some v \<Rightarrow> \<exists>v'. convert_value fuel before V t k v = Ret v' \<and> map_of m' k = Some v')"
proof (induction m arbitrary: m')
  case (Cons kv m)
  obtain k1 v1 where kv: "kv = (k1, v1)" by fastforce
  from Cons.prems obtain v' m1 where "convert_value fuel before V t k1 v1 = Ret v'" "convert_params fuel before V t m = Ret m1"
      "m' = (k1, v') # m1"
    by (auto simp: kv elim!: obind_Ret)
  then show ?case using Cons.IH by (cases "k = k1") (simp_all add: kv split: option.splits)
qed simp

lemma requested_properties:
  assumes "convertActionParamsToValues fuel before V t pa0 = Ret pa"
    and "map_of (mapParameters pa0) ''listMainSoundProperties'' = Some REQUESTING"
  shows "map_of (mapParameters pa) ''listMainSoundProperties'' = Some (property_list (tp_listMainSoundProperty t))"
    and "actionType pa = actionType pa0"
    and "map_of (mapParameters pa0) ''listSystemProperties'' = None \<Longrightarrow> map_of (mapParameters pa) ''listSystemProperties'' = None"
proof -
  from assms(1) obtain m where m: "convert_params fuel before V t (mapParameters pa0) = Ret m" "pa = pa0\<lparr>mapParameters := m\<rparr>"
    by (auto simp: convertActionParamsToValues_def elim!: obind_Ret)
  have "convert_value fuel before V t ''listMainSoundProperties'' REQUESTING = Ret (property_list (tp_listMainSoundProperty t))"
    by (simp add: convert_value_def evaluateMacro_def evaluateParameterFunction_def)
  then show "map_of (mapParameters pa) ''listMainSoundProperties'' = Some (property_list (tp_listMainSoundProperty t))"
    using convert_params_lookup [OF m(1), of "''listMainSoundProperties''"] assms(2) by (simp add: m(2))
  show "actionType pa = actionType pa0" by (simp add: m(2))
  show "map_of (mapParameters pa0) ''listSystemProperties'' = None \<Longrightarrow> map_of (mapParameters pa) ''listSystemProperties'' = None"
    using convert_params_lookup [OF m(1), of "''listSystemProperties''"] by (simp add: m(2))
qed

lemma set_params_unregistered:
  "list_all (\<lambda>kv. map_of (registered (fa_class a)) (fst kv) = None) calls \<Longrightarrow>
   foldl (\<lambda>r (k, v). Option.bind r (fa_setParam k v)) (Some a) calls = Some a"
  by (induction calls) (auto simp: fa_setParam_def)

lemma when_set_all: "(\<And>v. list_all P (f v)) \<Longrightarrow> list_all P (when_set k m f)"
  by (auto simp: when_set_def split: option.split)

abbreviation no_property_list :: "string \<times> param_value \<Rightarrow> bool" where
  "no_property_list kv \<equiv> fst kv \<noteq> ''listMainSoundProperties''"

lemma other_calls_no_property_list:
  "list_all no_property_list (target_calls X m @ state_calls m @ pattern_calls m)"
  "list_all no_property_list (when_set ''connectionName'' m (\<lambda>v. [(''connectionName'', PV_string v)]) @ numeric_calls m)"
  unfolding target_calls_def pattern_calls_def numeric_calls_def Let_def list_all_append
  by (intro conjI when_set_all; simp add: name_or_list_def state_calls_def Let_def split: option.split)+

text \<open>
  C28: what an application sets, the element gets. A policy that sets the sound properties of an element to
  the requested list hands them over as a text, \<open>(type:value)\<close> for each of them; after the text is parsed
  again, the framework action is for the source or the sink that the policy names and holds exactly the
  properties of the trigger, for all types and values of 16 bits, in their order. Other parameters of the
  policy do not disturb this.
\<close>

theorem properties_reach_action:
  assumes "convertActionParamsToValues fuel before V t pa0 = Ret pa"
    and "actionType pa0 = ACTION_SET_PROPERTIES"
    and "map_of (mapParameters pa0) ''listMainSoundProperties'' = Some REQUESTING"
    and "map_of (mapParameters pa0) ''listSystemProperties'' = None"
    and "tp_listMainSoundProperty t \<noteq> []"
    and "property_element X (mapParameters pa) = Some el"
  shows "\<exists>a. createActions X pa = Some [a] \<and> fa_class a = FC_SoundProperties \<and> fa_element a = Some el \<and>
    fa_params a = [''listMainSoundProperties'' \<mapsto> PV_mainProperties (tp_listMainSoundProperty t)]"
proof -
  note pa = requested_properties [OF assms(1,3)]
  define m where "m = mapParameters pa"
  let ?k = "''listMainSoundProperties''" and ?v = "PV_mainProperties (tp_listMainSoundProperty t)"
  define pre where "pre = target_calls X m @ state_calls m @ pattern_calls m"
  define post where "post = when_set ''connectionName'' m (\<lambda>v. [(''connectionName'', PV_string v)]) @ numeric_calls m"
  have calls: "param_calls X m = Some (pre @ (?k, ?v) # post)"
    using parse_property_list [OF assms(5)] pa(1) pa(3) [OF assms(4)]
    by (simp add: param_calls_def list_calls_def m_def pre_def post_def)
  define a1 where "a1 = (case map_of m ''timeOut'' of None \<Rightarrow> fa_new FC_SoundProperties (Some el)
      | Some v \<Rightarrow> (fa_new FC_SoundProperties (Some el))\<lparr>fa_timeout := Some (word_of_int (atoi v))\<rparr>)"
  have a1: "fa_class a1 = FC_SoundProperties" "fa_element a1 = Some el" "fa_params a1 = Map.empty"
    by (simp_all add: a1_def fa_new_def split: option.split)
  let ?a = "a1\<lparr>fa_params := [?k \<mapsto> ?v]\<rparr>"
  have set: "fa_setParam ?k ?v a1 = Some ?a" by (simp add: fa_setParam_def a1 member_of_def)
  have "foldl (\<lambda>r (k, v). Option.bind r (fa_setParam k v)) (Some a1) pre = Some a1"
    "foldl (\<lambda>r (k, v). Option.bind r (fa_setParam k v)) (Some ?a) post = Some ?a"
    using other_calls_no_property_list(1) [of X m] other_calls_no_property_list(2) [of m]
    unfolding pre_def [symmetric] post_def [symmetric]
    by (auto intro!: set_params_unregistered simp: a1 elim!: list.pred_mono_strong)
  then have "setActionParameters X m (fa_new FC_SoundProperties (Some el)) = Some ?a"
    by (simp add: setActionParameters_def calls set flip: a1_def)
  then have "createActions X pa = Some [?a]"
    using assms(2,6) pa(2) by (simp add: createActions_def new_action_def flip: m_def)
  then show ?thesis using a1 by simp
qed


theorem properties_reach_action_witness:
  "\<exists>pa a. convertActionParamsToValues 5 NUL demo_env
      (demo_trigger\<lparr>tp_listMainSoundProperty := [\<lparr>pr_type = 3, pr_value = - 7\<rparr>, \<lparr>pr_type = 65535, pr_value = 0\<rparr>]\<rparr>)
      \<lparr>actionType = ACTION_SET_PROPERTIES, mapParameters = [(''sinkName'', REQUESTING), (''listMainSoundProperties'', REQUESTING)]\<rparr> = Ret pa \<and>
    mapParameters pa = [(''sinkName'', ''amp''), (''listMainSoundProperties'', ''(3:-7)(65535:0)'')] \<and>
    createActions \<lparr>ax_config = cr_empty, ax_system = True, ax_exists = (\<lambda>_ _. True)\<rparr> pa = Some [a] \<and>
    fa_element a = Some (ET_SINK, ''amp'') \<and>
    fa_params a = [''listMainSoundProperties'' \<mapsto> PV_mainProperties [\<lparr>pr_type = 3, pr_value = - 7\<rparr>, \<lparr>pr_type = 65535, pr_value = 0\<rparr>]]"
proof -
  let ?X = "\<lparr>ax_config = cr_empty, ax_system = True, ax_exists = (\<lambda>_ _. True)\<rparr>"
  let ?t = "demo_trigger\<lparr>tp_listMainSoundProperty := [\<lparr>pr_type = 3, pr_value = - 7\<rparr>, \<lparr>pr_type = 65535, pr_value = 0\<rparr>]\<rparr>"
  let ?asked = "\<lparr>actionType = ACTION_SET_PROPERTIES, mapParameters = [(''sinkName'', REQUESTING), (''listMainSoundProperties'', REQUESTING)]\<rparr>"
  let ?pa = "\<lparr>actionType = ACTION_SET_PROPERTIES, mapParameters = [(''sinkName'', ''amp''), (''listMainSoundProperties'', ''(3:-7)(65535:0)'')]\<rparr>"
  have "property_list [\<lparr>pr_type = 3, pr_value = - 7\<rparr>, \<lparr>pr_type = 65535, pr_value = 0\<rparr>] = ''(3:-7)(65535:0)''" by (simp add: property_list_def dec_def nat_dec.simps char_of_def bit_iff_odd)
  then have c: "convertActionParamsToValues 5 NUL demo_env ?t ?asked = Ret ?pa"
    by (simp add: convertActionParamsToValues_def convert_value_def evaluateMacro_def evaluateParameterFunction_def demo_trigger_def)
  have el: "property_element ?X (mapParameters ?pa) = Some (ET_SINK, ''amp'')" by code_simp
  have "\<exists>a. createActions ?X ?pa = Some [a] \<and> fa_class a = FC_SoundProperties \<and> fa_element a = Some (ET_SINK, ''amp'') \<and>
      fa_params a = [''listMainSoundProperties'' \<mapsto> PV_mainProperties (tp_listMainSoundProperty ?t)]"
    by (rule properties_reach_action [OF c _ _ _ _ el]) simp_all
  then show ?thesis using c by auto
qed

end
