(* ===== verification/Xml_Node.thy ===== *)
theory Xml_Node
  imports Policy_Parser
begin

text \<open>
  The mapping between XML documents and structures (\<open>CAmXmlParserCommon\<close>): attributes and nodes that are bound to
  the members of a structure, read in the order of a schema, and written. The document is as
  the XML library presents it: for each node its name, what \<open>xmlGetProp\<close> and \<open>xmlNodeListGetString\<close> give for it, and
  its children. A pointer to a node is the list of this node and the siblings behind it, \<open>NULL\<close> is the empty list; a
  null pointer that is followed gives \<open>None\<close>.
\<close>

section \<open>Documents\<close>

datatype xml_node = XmlNode
  (xn_element: bool)   \<comment> \<open>\<open>type\<close> is \<open>XML_ELEMENT_NODE\<close>\<close>
  (xn_name: string)
  (xn_props: "(string \<times> string) list")
  (xn_string: "string option")   \<comment> \<open>the text of its children\<close>
  (xn_children: "xml_node list")

fun getNextElementNode :: "xml_node list \<Rightarrow> xml_node list" where
  "getNextElementNode [] = []"
| "getNextElementNode (_ # ns) = dropWhile (\<lambda>n. \<not> xn_element n) ns"

datatype parse_status = PARSE_SUCCESS | PARSE_TAG_MISMATCH | PARSE_ERROR

section \<open>Numbers\<close>

text \<open>
  Reading an integer from a string stream: white space, a sign, digits, what follows is ignored. A text that holds
  \<open>0x\<close> anywhere is read as hexadecimal. No digits or a number out of range give zero.
\<close>

fun has_0x :: "string \<Rightarrow> bool" where
  "has_0x [] = False"
| "has_0x (c # s) = (take 2 (c # s) = ''0x'' \<or> has_0x s)"

definition stream_digits :: "bool \<Rightarrow> string \<Rightarrow> int option" where
  "stream_digits hex ds =
     (let ds' = (if hex \<and> (take 2 ds = ''0x'' \<or> take 2 ds = ''0X'') then drop 2 ds else ds);
          digit = (if hex then hex_value else (\<lambda>c. if isdigit c then hex_value c else None));
          run = takeWhile (\<lambda>c. digit c \<noteq> None) ds'
      in if run = [] then None else Some (foldl (\<lambda>n c. (if hex then 16 else 10) * n + the (digit c)) 0 run))"

definition convert :: "int \<Rightarrow> int \<Rightarrow> string \<Rightarrow> int" where
  "convert lo hi s =
     (let t = dropWhile isspace s;
          (neg, ds) = (case t of [] \<Rightarrow> (False, []) | c # cs \<Rightarrow> if c = CHR ''-'' then (True, cs) else if c = CHR ''+'' then (False, cs) else (False, t))
      in case stream_digits (has_0x s) ds of
           None \<Rightarrow> 0
         | Some v \<Rightarrow>
             if lo = 0 then (if v \<le> hi then (if neg then (- v) mod (hi + 1) else v) else 0)
             else (if neg then (if lo \<le> - v then - v else 0) else (if v \<le> hi then v else 0)))"

definition convert_int16 :: "string \<Rightarrow> 16 word" where
  "convert_int16 s = word_of_int (convert (- (2 ^ 15)) (2 ^ 15 - 1) s)"

definition convert_uint16 :: "string \<Rightarrow> 16 word" where
  "convert_uint16 s = word_of_int (convert 0 (2 ^ 16 - 1) s)"

definition convert_int32 :: "string \<Rightarrow> int" where
  "convert_int32 s = convert (- (2 ^ 31)) (2 ^ 31 - 1) s"

section \<open>Attributes\<close>

text \<open>An attribute is bound to a member of the structure of type \<open>'s\<close>.\<close>

record 's attribute =
  at_name :: string
  at_save :: "string \<Rightarrow> 's \<Rightarrow> 's"   \<comment> \<open>\<open>_saveAttribute\<close>\<close>
  at_value :: "'s \<Rightarrow> string"   \<comment> \<open>\<open>_getAttributeValue\<close>\<close>

definition attribute_parse :: "xml_node \<Rightarrow> 's attribute \<Rightarrow> 's \<Rightarrow> 's" where
  "attribute_parse n a s = (case map_of (xn_props n) (at_name a) of None \<Rightarrow> s | Some v \<Rightarrow> at_save a v s)"

definition attributes_parse :: "xml_node \<Rightarrow> 's attribute list \<Rightarrow> 's \<Rightarrow> 's" where
  "attributes_parse n attrs s = foldl (\<lambda>s a. attribute_parse n a s) s attrs"

definition string_attribute :: "string \<Rightarrow> ('s \<Rightarrow> string) \<Rightarrow> (string \<Rightarrow> 's \<Rightarrow> 's) \<Rightarrow> 's attribute" where
  "string_attribute nm get put = \<lparr>at_name = nm, at_save = put, at_value = get\<rparr>"

text \<open>A signed number of 16 bits may be given as the name of a constant.\<close>

definition int16_value :: "(string \<rightharpoonup> int) \<Rightarrow> string \<Rightarrow> 16 word" where
  "int16_value enums str = (case getEnumerationValue enums str of Some i \<Rightarrow> word_of_int i | None \<Rightarrow> convert_int16 str)"

definition int16_attribute :: "(string \<rightharpoonup> int) \<Rightarrow> string \<Rightarrow> ('s \<Rightarrow> 16 word) \<Rightarrow> (16 word \<Rightarrow> 's \<Rightarrow> 's) \<Rightarrow> 's attribute" where
  "int16_attribute enums nm get put = \<lparr>at_name = nm, at_save = (\<lambda>str. put (int16_value enums str)), at_value = (\<lambda>s. dec (sint (get s)))\<rparr>"

text \<open>\<open>CAmIntAttribute\<close> only reads; written it is the empty text of its base class.\<close>

definition int_attribute :: "string \<Rightarrow> (string \<Rightarrow> 's \<Rightarrow> 's) \<Rightarrow> 's attribute" where
  "int_attribute nm put = \<lparr>at_name = nm, at_save = put, at_value = (\<lambda>_. '''')\<rparr>"

section \<open>Reading\<close>

text \<open>
  The reader of an element looks at one node; the reader of a child moves the pointer. Where the XML
  library gives no text, the saved text is empty.
\<close>

type_synonym 's element = "xml_node \<Rightarrow> 's \<Rightarrow> (parse_status \<times> 's) option"
type_synonym 's child = "xml_node list \<Rightarrow> 's \<Rightarrow> (parse_status \<times> xml_node list \<times> 's) option"

definition simple_parse :: "string \<Rightarrow> 's attribute list \<Rightarrow> (string \<Rightarrow> 's \<Rightarrow> 's) \<Rightarrow> 's element" where
  "simple_parse tag attrs save n s =
     (if xn_name n = tag
      then Some (PARSE_SUCCESS, save (case xn_string n of Some t \<Rightarrow> t | None \<Rightarrow> '''') (attributes_parse n attrs s))
      else Some (PARSE_TAG_MISMATCH, s))"

text \<open>
  The children of a node are tried in the order of the schema, each from where the one before it stopped. The
  result of a child is forgotten.
\<close>

fun children_parse :: "'s child list \<Rightarrow> xml_node list \<Rightarrow> 's \<Rightarrow> 's option" where
  "children_parse [] pChild s = Some s"
| "children_parse (c # cs) pChild s =
     (if pChild = [] then Some s
      else (case c pChild s of
              None \<Rightarrow> None
            | Some (r, pChild', s') \<Rightarrow> children_parse cs (if r = PARSE_SUCCESS then getNextElementNode pChild' else pChild') s'))"

text \<open>
  The attributes of \<open>mMapTemplates\<close> come first, each followed by its method; then those that were not found
  there. The names are compared as pointers to literals; equal literals are one object here.
\<close>

definition templates_parse :: "xml_node \<Rightarrow> (string \<times> ('s \<Rightarrow> 's)) list \<Rightarrow> 's attribute list \<Rightarrow> 's \<Rightarrow> 's" where
  "templates_parse n mMapTemplates attrs s =
     foldl (\<lambda>s (nm, method). case find (\<lambda>a. at_name a = nm) attrs of None \<Rightarrow> s | Some a \<Rightarrow> method (attribute_parse n a s)) s mMapTemplates"

definition complex_parse :: "string \<Rightarrow> (string \<times> ('s \<Rightarrow> 's)) list \<Rightarrow> 's attribute list \<Rightarrow> 's child list \<Rightarrow> ('s \<Rightarrow> (am_Error_e \<times> 's) option) \<Rightarrow> 's element" where
  "complex_parse tag mMapTemplates attrs childs copyComplexData n s =
     (if xn_name n \<noteq> tag then Some (PARSE_TAG_MISMATCH, s)
      else (let s1 = templates_parse n mMapTemplates attrs s;
                s2 = attributes_parse n (filter (\<lambda>a. at_name a \<notin> fst ` set mMapTemplates) attrs) s1
            in case children_parse childs (getNextElementNode (xn_children n)) s2 of
                 None \<Rightarrow> None
               | Some s3 \<Rightarrow> map_option (\<lambda>(err, s4). (if err = E_OK then PARSE_SUCCESS else PARSE_ERROR, s4)) (copyComplexData s3)))"

definition element_child :: "'s element \<Rightarrow> 's child" where
  "element_child el p s = (case p of [] \<Rightarrow> None | n # ns \<Rightarrow> map_option (\<lambda>(r, s'). (r, p, s')) (el n s))"

text \<open>
  \<open>CAmListNode\<close>: a new structure and a new node for each element, as long as they succeed. What a node leaves in the
  shared configuration stays there also when it fails.
\<close>

record ('s, 't) list_node =
  ln_new :: "'s \<Rightarrow> 't"
  ln_node :: "'t element"
  ln_leave :: "'t \<Rightarrow> 's \<Rightarrow> 's"
  ln_push_back :: "'t \<Rightarrow> 's \<Rightarrow> 's"

lemma length_getNextElementNode: "length (getNextElementNode (n # ns)) < length (n # ns)"
  by (simp add: length_dropWhile_le less_Suc_eq_le)

function list_parse :: "('s, 't) list_node \<Rightarrow> 's child" where
  "list_parse L [] s = None"
| "list_parse L (n # ns) s =
     (case ln_node L n (ln_new L s) of
        None \<Rightarrow> None
      | Some (r, t) \<Rightarrow>
          (let s' = ln_leave L t s in
           if r = PARSE_SUCCESS
           then (let s'' = ln_push_back L t s'; p = getNextElementNode (n # ns)
                 in if p = [] then Some (PARSE_SUCCESS, [], s'') else list_parse L p s'')
           else Some (r, n # ns, s')))"
  by pat_completeness auto
termination
  by (relation "measure (\<lambda>(L, p, s). length p)") (auto simp: length_dropWhile_le less_Suc_eq_le)

definition no_check :: "'s \<Rightarrow> (am_Error_e \<times> 's) option" where
  "no_check s = Some (E_OK, s)"

definition plain_list :: "'t \<Rightarrow> 't element \<Rightarrow> ('t \<Rightarrow> 's \<Rightarrow> 's) \<Rightarrow> ('s, 't) list_node" where
  "plain_list init node push = \<lparr>ln_new = \<lambda>_. init, ln_node = node, ln_leave = \<lambda>_ s. s, ln_push_back = push\<rparr>"

section \<open>Writing\<close>

text \<open>
  A simple node writes the text of its member \<open>mValue\<close>, which nothing ever sets. \<open>xmlSetProp\<close> replaces a
  property that is already there.
\<close>

definition set_props :: "(string \<times> string) list \<Rightarrow> (string \<times> string) list" where
  "set_props ps = foldl (\<lambda>m (k, v). if k \<in> fst ` set m then map (\<lambda>(k', v'). (k', if k' = k then v else v')) m else m @ [(k, v)]) [] ps"

definition written_props :: "'s attribute list \<Rightarrow> 's \<Rightarrow> (string \<times> string) list" where
  "written_props attrs s = set_props (map (\<lambda>a. (at_name a, at_value a s)) attrs)"

definition simple_write :: "string \<Rightarrow> 's attribute list \<Rightarrow> 's \<Rightarrow> xml_node" where
  "simple_write tag attrs s = XmlNode True tag (written_props attrs s) None []"

definition complex_write :: "string \<Rightarrow> 's attribute list \<Rightarrow> ('s \<Rightarrow> xml_node list) list \<Rightarrow> 's \<Rightarrow> xml_node" where
  "complex_write tag attrs childs s = XmlNode True tag (written_props attrs s) None (concat (map (\<lambda>w. w s) childs))"

definition list_write :: "('t \<Rightarrow> xml_node) \<Rightarrow> ('s \<Rightarrow> 't list) \<Rightarrow> 's \<Rightarrow> xml_node list" where
  "list_write write get s = map write (get s)"


section \<open>What is written is read\<close>

text \<open>
  A document that the XML library has written with formatting and parsed again: names and attributes are kept, the
  elements are in their order, and in front of them stands white space as a node of its own, in particular before the
  first child, which the readers pass over.
\<close>

inductive reread :: "xml_node \<Rightarrow> xml_node \<Rightarrow> bool" where
  reread: "list_all2 reread cs (filter xn_element cs') \<Longrightarrow> (cs' \<noteq> [] \<Longrightarrow> \<not> xn_element (hd cs')) \<Longrightarrow>
     reread (XmlNode True nm ps str cs) (XmlNode True nm ps str' cs')"

inductive_cases reread_node: "reread (XmlNode True nm ps str cs) n"

definition at_elements :: "xml_node list \<Rightarrow> xml_node list \<Rightarrow> bool" where
  "at_elements p ns \<longleftrightarrow> list_all2 reread ns (filter xn_element p) \<and> (p = [] \<or> xn_element (hd p))"

lemma getNextElementNode_elements:
  "xn_element (hd (n # ns)) \<Longrightarrow> filter xn_element (n # ns) = n # filter xn_element (getNextElementNode (n # ns))"
  "getNextElementNode p = [] \<or> xn_element (hd (getNextElementNode p))"
proof -
  have f: "filter xn_element (dropWhile (\<lambda>n. \<not> xn_element n) ns) = filter xn_element ns" for ns
    by (induction ns) auto
  then show "xn_element (hd (n # ns)) \<Longrightarrow> filter xn_element (n # ns) = n # filter xn_element (getNextElementNode (n # ns))" by simp
  show "getNextElementNode p = [] \<or> xn_element (hd (getNextElementNode p))"
    using hd_dropWhile [of "\<lambda>n. \<not> xn_element n"] by (cases p) auto
qed

lemma at_elements_next: "at_elements (n # p) (m # ms) \<longleftrightarrow> reread m n \<and> xn_element n \<and> at_elements (getNextElementNode (n # p)) ms"
  using getNextElementNode_elements(1) [of n p] getNextElementNode_elements(2) [of "n # p"]
  by (auto simp: at_elements_def simp del: getNextElementNode.simps)

lemma at_elements_Nil: "at_elements [] ms \<longleftrightarrow> ms = []" "at_elements p [] \<longleftrightarrow> p = []"
  by (auto simp: at_elements_def filter_empty_conv) (metis hd_in_set)

lemma reread_props: "reread m n \<Longrightarrow> xn_name n = xn_name m \<and> xn_props n = xn_props m \<and> xn_element n"
  by (auto elim: reread.cases)

lemma reread_children: "reread m n \<Longrightarrow> at_elements (getNextElementNode (xn_children n)) (xn_children m)"
proof (erule reread.cases)
  fix cs cs' nm ps str str'
  assume mn: "m = XmlNode True nm ps str cs" "n = XmlNode True nm ps str' cs'"
    and cs: "list_all2 (\<lambda>x y. reread x y) cs (filter xn_element cs')" "cs' \<noteq> [] \<Longrightarrow> \<not> xn_element (hd cs')"
  have "filter xn_element (getNextElementNode cs') = filter xn_element cs'"
  proof (cases cs')
    case (Cons c r)
    have "filter xn_element (dropWhile (\<lambda>n. \<not> xn_element n) r) = filter xn_element r" by (induction r) auto
    with cs(2) Cons show ?thesis by simp
  qed simp
  then show ?thesis using cs(1) getNextElementNode_elements(2) [of cs'] by (simp add: at_elements_def mn)
qed

text \<open>The contract of the node of a list: it reads back what it writes and leaves other nodes alone.\<close>

locale element_binding =
  fixes L :: "('s, 't) list_node" and writes :: "'x \<Rightarrow> xml_node" and add :: "'x \<Rightarrow> 's \<Rightarrow> 's" and tag :: string
  assumes reads: "reread (writes x) n \<Longrightarrow>
      \<exists>t. ln_node L n (ln_new L s) = Some (PARSE_SUCCESS, t) \<and> ln_push_back L t (ln_leave L t s) = add x s"
    and skips: "xn_name n \<noteq> tag \<Longrightarrow> \<exists>t. ln_node L n (ln_new L s) = Some (PARSE_TAG_MISMATCH, t) \<and> ln_leave L t s = s"
    and writes_tag: "xn_name (writes x) = tag"
begin

lemma list_reads:
  assumes "at_elements p (map writes xs @ rest)" and "p \<noteq> []" and "rest = [] \<or> xn_name (hd rest) \<noteq> tag"
  shows "\<exists>r p'. list_parse L p s = Some (r, p', fold add xs s) \<and>
    at_elements (if r = PARSE_SUCCESS then getNextElementNode p' else p') rest"
  using assms(1,2)
proof (induction xs arbitrary: p s)
  case Nil
  then obtain n ns where p: "p = n # ns" by (cases p) auto
  obtain m ms where rest: "rest = m # ms" using Nil by (cases rest) (auto simp: p at_elements_Nil)
  have "xn_name n \<noteq> tag" using Nil(1) assms(3) reread_props [of m n] by (auto simp: p rest at_elements_next)
  then show ?case using skips [of n s] Nil(1) by (auto simp: p)
next
  case (Cons x xs)
  then obtain n ns where p: "p = n # ns" by (cases p) auto
  let ?q = "getNextElementNode (n # ns)"
  have n: "reread (writes x) n" and q: "at_elements ?q (map writes xs @ rest)"
    using Cons.prems(1) by (simp_all add: p at_elements_next del: getNextElementNode.simps)
  obtain t where t: "ln_node L n (ln_new L s) = Some (PARSE_SUCCESS, t)" "ln_push_back L t (ln_leave L t s) = add x s"
    using reads [OF n] by blast
  show ?case
  proof (cases "?q = []")
    case True
    have "xs = []" "rest = []" using q unfolding True by (simp_all add: at_elements_Nil)
    then show ?thesis using t True by (auto simp: p at_elements_Nil Let_def)
  next
    case False
    have "list_parse L p s = list_parse L ?q (add x s)" using t False by (simp add: p Let_def del: getNextElementNode.simps)
    then show ?thesis using Cons.IH [OF q False, of "add x s"] by simp
  qed
qed

lemma children_step:
  assumes "at_elements p (map writes xs @ rest)" and "rest = [] \<or> xn_name (hd rest) \<noteq> tag"
  shows "\<exists>p'. children_parse (list_parse L # cs) p s = children_parse cs p' (fold add xs s) \<and> at_elements p' rest"
proof (cases "p = []")
  case True
  have "children_parse cs [] s = Some s" by (cases cs) auto
  then show ?thesis using assms True by (auto simp: at_elements_Nil)
next
  case False
  from list_reads [OF assms(1) False assms(2), of s] obtain r p' where
      "list_parse L p s = Some (r, p', fold add xs s)" "at_elements (if r = PARSE_SUCCESS then getNextElementNode p' else p') rest"
    by blast
  with False show ?thesis by auto
qed

end

lemma plain_binding:
  assumes "\<And>x n. reread (writes x) n \<Longrightarrow> node n init = Some (PARSE_SUCCESS, x)"
    and "\<And>n. xn_name n \<noteq> tag \<Longrightarrow> \<exists>t. node n init = Some (PARSE_TAG_MISMATCH, t)" and "\<And>x. xn_name (writes x) = tag"
  shows "element_binding (plain_list init node push) writes push tag"
  using assms by unfold_locales (simp_all add: plain_list_def)

lemma attributes_parse_written:
  assumes "xn_props n = written_props attrs s0" and "distinct (map at_name attrs)"
  shows "attributes_parse n attrs s = foldl (\<lambda>s a. at_save a (at_value a s0) s) s attrs"
proof -
  have set_props: "set_props ps = ps" if "distinct (map fst ps)" for ps :: "(string \<times> string) list"
    using that by (induction ps rule: rev_induct) (auto simp: set_props_def)
  let ?ps = "map (\<lambda>a. (at_name a, at_value a s0)) attrs"
  have props: "xn_props n = ?ps" using assms by (simp add: written_props_def set_props comp_def)
  have "map_of ?ps (at_name a) = Some (at_value a s0)" if "a \<in> set attrs" for a
    using that assms(2) by (auto intro!: map_of_is_SomeI simp: comp_def)
  then show ?thesis unfolding attributes_parse_def by (intro foldl_cong) (auto simp: attribute_parse_def props)
qed

lemma complex_reads:
  assumes "reread (complex_write tag attrs ws s0) n" and "distinct (map at_name attrs)"
    and "\<And>p. at_elements p (concat (map (\<lambda>w. w s0) ws)) \<Longrightarrow>
      children_parse childs p (foldl (\<lambda>s a. at_save a (at_value a s0) s) s attrs) = Some s'"
    and "copy s' = Some (E_OK, s'')"
  shows "complex_parse tag [] attrs childs copy n s = Some (PARSE_SUCCESS, s'')"
proof -
  have n: "xn_name n = tag" "xn_props n = written_props attrs s0"
    using reread_props [OF assms(1)] by (simp_all add: complex_write_def)
  have "children_parse childs (getNextElementNode (xn_children n)) (foldl (\<lambda>s a. at_save a (at_value a s0) s) s attrs) = Some s'"
    using reread_children [OF assms(1)] by (intro assms(3)) (simp add: complex_write_def)
  then show ?thesis
    using attributes_parse_written [OF n(2) assms(2)] assms(4) by (simp add: complex_parse_def n(1) templates_parse_def)
qed

lemma complex_skips: "xn_name n \<noteq> tag \<Longrightarrow> complex_parse tag ts attrs childs copy n s = Some (PARSE_TAG_MISMATCH, s)"
  by (simp add: complex_parse_def)

lemma int16_value_dec: "int16_value enums (dec (sint v)) = v"
proof -
  have "- (2 ^ 31) \<le> sint v" "sint v < 2 ^ 31" using sint_ge [of v] sint_lt [of v] by simp_all
  moreover have "dec (sint v) \<noteq> []" by (simp add: dec_def)
  ultimately have "getEnumerationValue enums (dec (sint v)) = Some (sint v)"
    unfolding getEnumerationValue_def by (simp add: strtol_all_dec to_int32_id del: not_None_eq)
  then show ?thesis by (simp add: int16_value_def)
qed

end
