(* ===== verification/Persistence_Xml.thy ===== *)
theory Persistence_Xml
  imports Persistence Xml_Node
begin

text \<open>
  The file of the default persistence: the nodes at the head of \<open>CAmPersistenceDefault.cpp\<close>, by which the structures of
  classes, sinks and connections are written and read. \<open>enums\<close> is the table of constants, which a number in a
  file may name.
\<close>

section \<open>Nodes\<close>

definition connection_attributes :: "(string \<rightharpoonup> int) \<Rightarrow> gc_persistence_connectionData_s attribute list" where
  "connection_attributes enums =
     [string_attribute ''source'' pn_sourceName (\<lambda>v c. c\<lparr>pn_sourceName := v\<rparr>),
      int16_attribute enums ''volume'' pn_volume (\<lambda>v c. c\<lparr>pn_volume := v\<rparr>),
      int16_attribute enums ''order'' pn_order (\<lambda>v c. c\<lparr>pn_order := v\<rparr>),
      int16_attribute enums ''lastconvalid'' pn_lastConnectionValid (\<lambda>v c. c\<lparr>pn_lastConnectionValid := v\<rparr>)]"

definition connection_node :: "(string \<rightharpoonup> int) \<Rightarrow> gc_persistence_connectionData_s element" where
  "connection_node enums = complex_parse ''connection'' [] (connection_attributes enums) [] no_check"

definition connection_write :: "(string \<rightharpoonup> int) \<Rightarrow> gc_persistence_connectionData_s \<Rightarrow> xml_node" where
  "connection_write enums = complex_write ''connection'' (connection_attributes enums) []"

definition push_connection :: "gc_persistence_connectionData_s \<Rightarrow> gc_persistence_stackData_s \<Rightarrow> gc_persistence_stackData_s" where
  "push_connection c s = s\<lparr>ps_listConnection := ps_listConnection s @ [c]\<rparr>"

definition connection_list :: "(string \<rightharpoonup> int) \<Rightarrow> (gc_persistence_stackData_s, gc_persistence_connectionData_s) list_node" where
  "connection_list enums = plain_list pn_init (connection_node enums) push_connection"

definition stack_attributes :: "(string \<rightharpoonup> int) \<Rightarrow> gc_persistence_stackData_s attribute list" where
  "stack_attributes enums =
     [string_attribute ''sink'' ps_sinkName (\<lambda>v s. s\<lparr>ps_sinkName := v\<rparr>),
      int16_attribute enums ''volume'' ps_volume (\<lambda>v s. s\<lparr>ps_volume := v\<rparr>)]"

definition stack_node :: "(string \<rightharpoonup> int) \<Rightarrow> gc_persistence_stackData_s element" where
  "stack_node enums = complex_parse ''stack'' [] (stack_attributes enums) [list_parse (connection_list enums)] no_check"

definition stack_write :: "(string \<rightharpoonup> int) \<Rightarrow> gc_persistence_stackData_s \<Rightarrow> xml_node" where
  "stack_write enums = complex_write ''stack'' (stack_attributes enums) [list_write (connection_write enums) ps_listConnection]"

definition push_stack :: "gc_persistence_stackData_s \<Rightarrow> gc_persistence_classData_s \<Rightarrow> gc_persistence_classData_s" where
  "push_stack st c = c\<lparr>pc_listConnections := pc_listConnections c @ [st]\<rparr>"

definition stack_list :: "(string \<rightharpoonup> int) \<Rightarrow> (gc_persistence_classData_s, gc_persistence_stackData_s) list_node" where
  "stack_list enums = plain_list ps_init (stack_node enums) push_stack"

text \<open>A property is a pair of the texts of its type and value.\<close>

definition type_value_attributes :: "(string \<times> string) attribute list" where
  "type_value_attributes = [string_attribute ''value'' snd (\<lambda>v p. (fst p, v)), string_attribute ''type'' fst (\<lambda>v p. (v, snd p))]"

definition sound_property_node :: "(string \<times> string) element" where
  "sound_property_node = complex_parse ''mainSoundProperty'' [] type_value_attributes [] no_check"

definition sound_property_write :: "string \<times> string \<Rightarrow> xml_node" where
  "sound_property_write = complex_write ''mainSoundProperty'' type_value_attributes []"

definition push_sound_property :: "string \<times> string \<Rightarrow> gc_persistence_mainSoundProData_s \<Rightarrow> gc_persistence_mainSoundProData_s" where
  "push_sound_property p m = m\<lparr>pm_listMainSoundProperty := pm_listMainSoundProperty m @ [p]\<rparr>"

definition sound_property_list :: "(gc_persistence_mainSoundProData_s, string \<times> string) list_node" where
  "sound_property_list = plain_list ('''', '''') sound_property_node push_sound_property"

definition sound_properties_attributes :: "gc_persistence_mainSoundProData_s attribute list" where
  "sound_properties_attributes =
     [string_attribute ''sink'' pm_sinkName (\<lambda>v m. m\<lparr>pm_sinkName := v\<rparr>),
      string_attribute ''source'' pm_sourceName (\<lambda>v m. m\<lparr>pm_sourceName := v\<rparr>)]"

definition sound_properties_node :: "gc_persistence_mainSoundProData_s element" where
  "sound_properties_node = complex_parse ''mainSoundProperties'' [] sound_properties_attributes [list_parse sound_property_list] no_check"

definition sound_properties_write :: "gc_persistence_mainSoundProData_s \<Rightarrow> xml_node" where
  "sound_properties_write = complex_write ''mainSoundProperties'' sound_properties_attributes
     [list_write sound_property_write pm_listMainSoundProperty]"

definition push_sound_properties :: "gc_persistence_mainSoundProData_s \<Rightarrow> gc_persistence_classData_s \<Rightarrow> gc_persistence_classData_s" where
  "push_sound_properties m c = c\<lparr>pc_listMainSoundProperties := pc_listMainSoundProperties c @ [m]\<rparr>"

definition pm_init :: gc_persistence_mainSoundProData_s where
  "pm_init = \<lparr>pm_listMainSoundProperty = [], pm_sinkName = [], pm_sourceName = []\<rparr>"

definition sound_properties_list :: "(gc_persistence_classData_s, gc_persistence_mainSoundProData_s) list_node" where
  "sound_properties_list = plain_list pm_init sound_properties_node push_sound_properties"

definition class_attributes :: "(string \<rightharpoonup> int) \<Rightarrow> gc_persistence_classData_s attribute list" where
  "class_attributes enums =
     [string_attribute ''name'' pc_name (\<lambda>v c. c\<lparr>pc_name := v\<rparr>),
      int16_attribute enums ''volume'' pc_volume (\<lambda>v c. c\<lparr>pc_volume := v\<rparr>)]"

definition class_node :: "(string \<rightharpoonup> int) \<Rightarrow> gc_persistence_classData_s element" where
  "class_node enums = complex_parse ''class'' [] (class_attributes enums)
     [list_parse (stack_list enums), list_parse sound_properties_list] no_check"

definition class_write :: "(string \<rightharpoonup> int) \<Rightarrow> gc_persistence_classData_s \<Rightarrow> xml_node" where
  "class_write enums = complex_write ''class'' (class_attributes enums)
     [list_write (stack_write enums) pc_listConnections, list_write sound_properties_write pc_listMainSoundProperties]"

text \<open>The whole file: the classes and the properties of the system, which come first in the file.\<close>

type_synonym persistence_data = "gc_persistence_classData_s list \<times> (string \<times> string) list"

definition push_class :: "gc_persistence_classData_s \<Rightarrow> persistence_data \<Rightarrow> persistence_data" where
  "push_class c = (\<lambda>(cls, sys). (cls @ [c], sys))"

definition class_list :: "(string \<rightharpoonup> int) \<Rightarrow> (persistence_data, gc_persistence_classData_s) list_node" where
  "class_list enums = plain_list pc_init (class_node enums) push_class"

definition system_property_node :: "(string \<times> string) element" where
  "system_property_node = simple_parse ''systemProperty'' (rev type_value_attributes) (\<lambda>_ p. p)"

definition system_property_write :: "string \<times> string \<Rightarrow> xml_node" where
  "system_property_write = simple_write ''systemProperty'' (rev type_value_attributes)"

definition push_system_property :: "string \<times> string \<Rightarrow> persistence_data \<Rightarrow> persistence_data" where
  "push_system_property p = (\<lambda>(cls, sys). (cls, sys @ [p]))"

definition system_property_list :: "(persistence_data, string \<times> string) list_node" where
  "system_property_list = plain_list ('''', '''') system_property_node push_system_property"

definition persistence_node :: "(string \<rightharpoonup> int) \<Rightarrow> persistence_data element" where
  "persistence_node enums = complex_parse ''persistence'' [] [] [list_parse system_property_list, list_parse (class_list enums)] no_check"

definition persistence_write :: "(string \<rightharpoonup> int) \<Rightarrow> persistence_data \<Rightarrow> xml_node" where
  "persistence_write enums = complex_write ''persistence'' []
     [list_write system_property_write snd, list_write (class_write enums) fst]"

text \<open>
  Reading a file: its root element is read into empty lists, whatever the result of this is. \<open>xmlParseFile\<close>
  gives the root element of a file.
\<close>

definition persistence_document :: "(string \<rightharpoonup> int) \<Rightarrow> (string \<Rightarrow> xml_node option) \<Rightarrow> string \<Rightarrow> persistence_data option" where
  "persistence_document enums xmlParseFile fn =
     (case xmlParseFile fn of None \<Rightarrow> None | Some root \<Rightarrow> map_option snd (persistence_node enums root ([], [])))"

section \<open>Each node reads what it writes\<close>

named_theorems node_defs

lemmas [node_defs] = plain_list_def no_check_def string_attribute_def int16_attribute_def int16_value_dec list_write_def

lemma connection_reads: "reread (connection_write enums x) n \<Longrightarrow> connection_node enums n pn_init = Some (PARSE_SUCCESS, x)"
  unfolding connection_write_def connection_node_def
  by (erule complex_reads [where s' = x]) (simp_all add: connection_attributes_def node_defs pn_init_def)

interpretation connection: element_binding "connection_list enums" "connection_write enums" push_connection "''connection''"
  unfolding connection_list_def
  by (rule plain_binding) (simp_all add: connection_reads, simp_all add: connection_node_def complex_skips connection_write_def complex_write_def)

lemma fold_push_connection: "fold push_connection cs s = s\<lparr>ps_listConnection := ps_listConnection s @ cs\<rparr>"
  by (induction cs arbitrary: s) (simp_all add: push_connection_def)

lemma stack_reads: "reread (stack_write enums x) n \<Longrightarrow> stack_node enums n ps_init = Some (PARSE_SUCCESS, x)"
  unfolding stack_write_def stack_node_def
proof (erule complex_reads)
  fix p
  let ?s = "foldl (\<lambda>s a. at_save a (at_value a x) s) ps_init (stack_attributes enums)"
  assume "at_elements p (concat (map (\<lambda>w. w x) [list_write (connection_write enums) ps_listConnection]))"
  then have "at_elements p (map (connection_write enums) (ps_listConnection x) @ [])" by (simp add: list_write_def)
  from connection.children_step [OF this, where s = ?s and cs = "[]"]
  show "children_parse [list_parse (connection_list enums)] p ?s = Some x"
    by (auto simp: fold_push_connection stack_attributes_def node_defs ps_init_def)
qed (simp_all add: stack_attributes_def node_defs)

interpretation stack: element_binding "stack_list enums" "stack_write enums" push_stack "''stack''"
  unfolding stack_list_def
  by (rule plain_binding) (simp_all add: stack_reads, simp_all add: stack_node_def complex_skips stack_write_def complex_write_def)

lemma sound_property_reads: "reread (sound_property_write x) n \<Longrightarrow> sound_property_node n ('''', '''') = Some (PARSE_SUCCESS, x)"
  unfolding sound_property_write_def sound_property_node_def
  by (rule complex_reads) (simp_all add: type_value_attributes_def node_defs)

interpretation sound_property: element_binding sound_property_list sound_property_write push_sound_property "''mainSoundProperty''"
  unfolding sound_property_list_def
  by (rule plain_binding)
    (simp_all add: sound_property_reads, simp_all add: sound_property_node_def complex_skips sound_property_write_def complex_write_def)

lemma fold_push_sound_property: "fold push_sound_property ps m = m\<lparr>pm_listMainSoundProperty := pm_listMainSoundProperty m @ ps\<rparr>"
  by (induction ps arbitrary: m) (simp_all add: push_sound_property_def)

lemma sound_properties_reads: "reread (sound_properties_write x) n \<Longrightarrow> sound_properties_node n pm_init = Some (PARSE_SUCCESS, x)"
  unfolding sound_properties_write_def sound_properties_node_def
proof (erule complex_reads)
  fix p
  let ?s = "foldl (\<lambda>s a. at_save a (at_value a x) s) pm_init sound_properties_attributes"
  assume "at_elements p (concat (map (\<lambda>w. w x) [list_write sound_property_write pm_listMainSoundProperty]))"
  then have "at_elements p (map sound_property_write (pm_listMainSoundProperty x) @ [])" by (simp add: list_write_def)
  from sound_property.children_step [OF this, where s = ?s and cs = "[]"]
  show "children_parse [list_parse sound_property_list] p ?s = Some x"
    by (auto simp: fold_push_sound_property sound_properties_attributes_def node_defs pm_init_def)
qed (simp_all add: sound_properties_attributes_def node_defs)

interpretation sound_properties: element_binding sound_properties_list sound_properties_write push_sound_properties "''mainSoundProperties''"
  unfolding sound_properties_list_def
  by (rule plain_binding)
    (simp_all add: sound_properties_reads, simp_all add: sound_properties_node_def complex_skips sound_properties_write_def complex_write_def)

lemma fold_push_stack: "fold push_stack ss c = c\<lparr>pc_listConnections := pc_listConnections c @ ss\<rparr>"
  by (induction ss arbitrary: c) (simp_all add: push_stack_def)

lemma fold_push_sound_properties: "fold push_sound_properties ms c = c\<lparr>pc_listMainSoundProperties := pc_listMainSoundProperties c @ ms\<rparr>"
  by (induction ms arbitrary: c) (simp_all add: push_sound_properties_def)

lemma hd_written: "(\<And>x. xn_name (write x) = tag') \<Longrightarrow> tag' \<noteq> tag \<Longrightarrow> map write xs = [] \<or> xn_name (hd (map write xs)) \<noteq> tag"
  by (cases xs) simp_all

lemma class_reads: "reread (class_write enums x) n \<Longrightarrow> class_node enums n pc_init = Some (PARSE_SUCCESS, x)"
  unfolding class_write_def class_node_def
proof (erule complex_reads)
  fix p
  let ?s = "foldl (\<lambda>s a. at_save a (at_value a x) s) pc_init (class_attributes enums)"
  let ?sounds = "map sound_properties_write (pc_listMainSoundProperties x)"
  assume "at_elements p (concat (map (\<lambda>w. w x)
      [list_write (stack_write enums) pc_listConnections, list_write sound_properties_write pc_listMainSoundProperties]))"
  then have p: "at_elements p (map (stack_write enums) (pc_listConnections x) @ ?sounds)" by (simp add: list_write_def)
  have "?sounds = [] \<or> xn_name (hd ?sounds) \<noteq> ''stack''" by (rule hd_written [OF sound_properties.writes_tag]) simp
  from stack.children_step [OF p this, where s = ?s and cs = "[list_parse sound_properties_list]"] obtain q where
    q: "children_parse [list_parse (stack_list enums), list_parse sound_properties_list] p ?s
        = children_parse [list_parse sound_properties_list] q (fold push_stack (pc_listConnections x) ?s)" "at_elements q (?sounds @ [])"
    by auto
  from sound_properties.children_step [OF q(2), where s = "fold push_stack (pc_listConnections x) ?s" and cs = "[]"]
  show "children_parse [list_parse (stack_list enums), list_parse sound_properties_list] p ?s = Some x"
    unfolding q(1) by (auto simp: fold_push_stack fold_push_sound_properties class_attributes_def node_defs pc_init_def)
qed (simp_all add: class_attributes_def node_defs)

interpretation file_class: element_binding "class_list enums" "class_write enums" push_class "''class''"
  unfolding class_list_def
  by (rule plain_binding) (simp_all add: class_reads, simp_all add: class_node_def complex_skips class_write_def complex_write_def)

lemma system_property_reads: "reread (system_property_write x) n \<Longrightarrow> system_property_node n ('''', '''') = Some (PARSE_SUCCESS, x)"
  using reread_props [of "system_property_write x" n] attributes_parse_written [of n "rev type_value_attributes" x "('''', '''')"]
  by (simp add: system_property_write_def simple_write_def system_property_node_def simple_parse_def)
    (simp add: type_value_attributes_def node_defs)

interpretation system_property: element_binding system_property_list system_property_write push_system_property "''systemProperty''"
  unfolding system_property_list_def
  by (rule plain_binding)
    (simp_all add: system_property_reads, simp_all add: system_property_node_def simple_parse_def system_property_write_def simple_write_def)

lemma fold_push_file:
  "fold push_class cs d = (fst d @ cs, snd d)" "fold push_system_property ps d = (fst d, snd d @ ps)"
  by (induction cs arbitrary: d) (simp_all add: push_class_def case_prod_beta,
      induction ps arbitrary: d, simp_all add: push_system_property_def case_prod_beta)

lemma persistence_reads: "reread (persistence_write enums d) n \<Longrightarrow> persistence_node enums n ([], []) = Some (PARSE_SUCCESS, d)"
  unfolding persistence_write_def persistence_node_def
proof (erule complex_reads)
  fix p
  let ?classes = "map (class_write enums) (fst d)"
  assume "at_elements p (concat (map (\<lambda>w. w d) [list_write system_property_write snd, list_write (class_write enums) fst]))"
  then have p: "at_elements p (map system_property_write (snd d) @ ?classes)" by (simp add: list_write_def)
  have "?classes = [] \<or> xn_name (hd ?classes) \<noteq> ''systemProperty''" by (rule hd_written [OF file_class.writes_tag]) simp
  from system_property.children_step [OF p this, where s = "([], [])" and cs = "[list_parse (class_list enums)]"] obtain q where
    q: "children_parse [list_parse system_property_list, list_parse (class_list enums)] p ([], [])
        = children_parse [list_parse (class_list enums)] q (fold push_system_property (snd d) ([], []))" "at_elements q (?classes @ [])"
    by auto
  from file_class.children_step [OF q(2), where s = "fold push_system_property (snd d) ([], [])" and cs = "[]"]
  show "children_parse [list_parse system_property_list, list_parse (class_list enums)] p
      (foldl (\<lambda>s a. at_save a (at_value a d) s) ([], []) []) = Some d"
    using q(1) by (auto simp: fold_push_file)
qed (simp_all add: no_check_def)

section \<open>The file\<close>

text \<open>White space before every child and behind the last, as formatting inserts it.\<close>

fun indented :: "xml_node \<Rightarrow> xml_node" where
  "indented (XmlNode el nm ps str cs) =
     (let space = XmlNode False ''text'' [] None []
      in XmlNode el nm ps str (concat (map (\<lambda>c. [space, indented c]) cs) @ (if cs = [] then [] else [space])))"

fun all_elements :: "xml_node \<Rightarrow> bool" where
  "all_elements (XmlNode el nm ps str cs) \<longleftrightarrow> el \<and> list_all all_elements cs"

lemma indented_element: "xn_element (indented c) = xn_element c"
  by (cases c) (simp add: Let_def)

lemma reread_indented: "all_elements m \<Longrightarrow> reread m (indented m)"
proof (induction m)
  case (XmlNode el nm ps str cs)
  let ?space = "XmlNode False ''text'' [] None []"
  have "filter xn_element (concat (map (\<lambda>c. [?space, indented c]) cs)) = map indented cs"
    using XmlNode.prems by (induction cs) (auto simp: indented_element elim: all_elements.elims)
  moreover have "list_all2 reread cs (map indented cs)"
    using XmlNode by (auto simp: list_all2_conv_all_nth list_all_length)
  ultimately show ?case using XmlNode.prems
    by (cases cs) (auto simp: Let_def intro!: reread.intros)
qed

text \<open>
  C35: nothing is lost in the file. What the destructor writes, written with formatting and parsed by the XML library again,
  is read back by \<open>open\<close> as the same structures, whatever the names, the volumes, the numbers of
  classes, sinks, connections and properties are; so opening gives the texts of exactly these structures.
\<close>

theorem persistence_file_roundtrip:
  assumes "reread (persistence_write enums (cls, sys)) root" and "xmlParseFile fn = Some root" and "fn \<noteq> []"
  shows "persistence_document enums xmlParseFile fn = Some (cls, sys) \<and>
    pd_open (persistence_document enums xmlParseFile) None fn d =
      (case structTostring cls sys d of (r, d') \<Rightarrow> (if r = E_OK then E_OK else E_NON_EXISTENT, fn, d'))"
proof -
  have "persistence_document enums xmlParseFile fn = Some (cls, sys)"
    using persistence_reads [OF assms(1)] assms(2) by (simp add: persistence_document_def)
  then show ?thesis using assms(3) by (simp add: pd_open_def readFromXML_def split: prod.split)
qed

theorem persistence_file_roundtrip_witness:
  "let cls = [pc_init\<lparr>pc_name := ''BASE'', pc_volume := - 300,
           pc_listConnections := [ps_init\<lparr>ps_sinkName := ''amp'', ps_listConnection := [pn_init\<lparr>pn_sourceName := ''radio'', pn_volume := 7\<rparr>]\<rparr>],
           pc_listMainSoundProperties := [pm_init\<lparr>pm_sinkName := ''amp'', pm_listMainSoundProperty := [(''3'', ''-5'')]\<rparr>]\<rparr>, pc_init];
       sys = [(''1'', ''2'')]; root = indented (persistence_write Map.empty (cls, sys))
   in length (xn_children root) = 7 \<and>
      persistence_document Map.empty (\<lambda>_. Some root) ''/var/gc.xml'' = Some (cls, sys) \<and>
      fst (pd_open (persistence_document Map.empty (\<lambda>_. Some root)) None ''/var/gc.xml'' []) = E_OK"
proof -
  let ?cls = "[pc_init\<lparr>pc_name := ''BASE'', pc_volume := - 300,
           pc_listConnections := [ps_init\<lparr>ps_sinkName := ''amp'', ps_listConnection := [pn_init\<lparr>pn_sourceName := ''radio'', pn_volume := 7\<rparr>]\<rparr>],
           pc_listMainSoundProperties := [pm_init\<lparr>pm_sinkName := ''amp'', pm_listMainSoundProperty := [(''3'', ''-5'')]\<rparr>]\<rparr>, pc_init]"
  let ?sys = "[(''1'', ''2'')]"
  let ?m = "persistence_write Map.empty (?cls, ?sys)"
  have m: "all_elements ?m" "length (xn_children (indented ?m)) = 7"
    by (simp_all add: persistence_write_def complex_write_def list_write_def system_property_write_def simple_write_def class_write_def
        stack_write_def connection_write_def sound_properties_write_def sound_property_write_def Let_def pc_init_def)
  show ?thesis
    using persistence_file_roundtrip [OF reread_indented [OF m(1)], of "\<lambda>_. Some (indented ?m)" "''/var/gc.xml''" "[]"] m(2)
    by (simp add: structTostring_def Let_def)
qed

end
