(* ===== verification/Xml_Schema.thy ===== *)
theory Xml_Schema
  imports Complex_Main Xml_Node Policy_Engine
begin

text \<open>
  The constants of the schema files, which the configuration names (\<open>CAmXmlConfigParser::_parseXSDFile\<close> and what it calls), and
  the texts of the configuration that hold lists (\<open>CAmStringParser\<close>, \<open>CAmNameAttribute\<close>).
\<close>

section \<open>Constants\<close>

text \<open>
  The number in the annotation of a constant. The children of the annotation are walked in place of the nodes
  behind it. The outer option is a text that is not there, which is a null pointer.
\<close>

function (sequential) parseEnumInitialiser :: "am_Error_e \<times> int \<Rightarrow> xml_node list \<Rightarrow> (am_Error_e \<times> int) option" where
  "parseEnumInitialiser r [] = Some r"
| "parseEnumInitialiser r (XmlNode el nm ps str cs # ns) =
     (if nm \<noteq> ''annotation'' then parseEnumInitialiser r ns
      else (case cs of
          _ # d # rest \<Rightarrow>
            (case xn_string d of
               None \<Rightarrow> None
             | Some t \<Rightarrow> (let v = convert_int32 t in parseEnumInitialiser (if v \<noteq> 0 then E_OK else fst r, v) rest))
        | _ \<Rightarrow> Some r))"
  by pat_completeness auto
termination by (relation "measure (\<lambda>(r, ns). size_list size ns)") auto

definition listMacros :: "string list" where
  "listMacros = [''REQUESTING'', ''ALL'', ''OTHERS'', ''REQ_TRIG_TYPE'', ''REQ_SINK_NAME'', ''REQ_SOURCE_NAME'', ''REQ_DOMAIN_NAME'',
     ''REQ_GATEWAY_NAME'', ''REQ_CLASS_NAME'', ''REQ_CON_NAME'', ''REQ_CON_STATE'', ''REQ_STATUS'', ''REQ_MAIN_VOL'', ''REQ_MSP_TYPE'',
     ''REQ_MSP_VAL'', ''REQ_SYP_TYPE'', ''REQ_SYP_VAL'', ''REQ_AVAIL_STATE'', ''REQ_AVAIL_REASON'', ''REQ_MUTE_STATE'', ''REQ_INT_STATE'',
     ''REQ_NP_TYPE'', ''REQ_NP_VAL'', ''REQ_NC_TYPE'', ''REQ_NC_STATUS'', ''REQ_NC_PARAM'']"

text \<open>The constants count up from the last number that was given; a macro takes no number.\<close>

fun parse_constants :: "xml_node list \<Rightarrow> int \<Rightarrow> (string \<rightharpoonup> int) \<Rightarrow> (int \<times> (string \<rightharpoonup> int)) option" where
  "parse_constants [] counter mMapEnumerations = Some (counter, mMapEnumerations)"
| "parse_constants (n # ns) counter mMapEnumerations =
     (if xn_name n \<noteq> ''enumeration'' then parse_constants ns counter mMapEnumerations
      else (case parseEnumInitialiser (E_UNKNOWN, 0) (xn_children n) of
              None \<Rightarrow> None
            | Some (r, parseValue) \<Rightarrow>
                (let counter' = (if r = E_OK then parseValue else counter)
                 in case map_of (xn_props n) ''value'' of
                      None \<Rightarrow> None
                    | Some key \<Rightarrow>
                        if key \<in> set listMacros then parse_constants ns counter' mMapEnumerations
                        else parse_constants ns (counter' + 1) (mMapEnumerations(key \<mapsto> counter')))))"

fun parseEnumeration :: "xml_node list \<Rightarrow> int \<Rightarrow> (string \<rightharpoonup> int) \<Rightarrow> (string \<rightharpoonup> int) option" where
  "parseEnumeration [] counter mMapEnumerations = Some mMapEnumerations"
| "parseEnumeration (n # ns) counter mMapEnumerations =
     (if xn_name n \<noteq> ''restriction'' then parseEnumeration ns counter mMapEnumerations
      else (case parse_constants (xn_children n) counter mMapEnumerations of
              None \<Rightarrow> None
            | Some (counter', m) \<Rightarrow> parseEnumeration ns counter' m))"

fun parseSimpleType :: "xml_node list \<Rightarrow> (string \<rightharpoonup> int) \<Rightarrow> (string \<rightharpoonup> int) option" where
  "parseSimpleType [] mMapEnumerations = Some mMapEnumerations"
| "parseSimpleType (n # ns) mMapEnumerations =
     (if xn_name n \<noteq> ''simpleType'' then parseSimpleType ns mMapEnumerations
      else (case parseEnumeration (xn_children n) 0 mMapEnumerations of None \<Rightarrow> None | Some m \<Rightarrow> parseSimpleType ns m))"

text \<open>The root element of the file, or nothing if it could not be parsed or is empty.\<close>

definition parseXSDFile :: "xml_node option \<Rightarrow> (string \<rightharpoonup> int) \<Rightarrow> (am_Error_e \<times> (string \<rightharpoonup> int)) option" where
  "parseXSDFile document mMapEnumerations =
     (case document of
        None \<Rightarrow> Some (E_UNKNOWN, mMapEnumerations)
      | Some n \<Rightarrow> if xn_name n \<noteq> ''schema'' then Some (E_UNKNOWN, mMapEnumerations)
                  else map_option (Pair E_OK) (parseSimpleType (xn_children n) mMapEnumerations))"

section \<open>Lists in texts\<close>

text \<open>\<open>float\<close> is the value of a text as a floating point number, which the standard library converts.\<close>

record xml_env =
  xv_enums :: "string \<rightharpoonup> int"
  xv_float :: "string \<Rightarrow> rat"

text \<open>\<open>getline\<close> with a separator: nothing follows a separator at the end.\<close>

fun convertSeperateList :: "string \<Rightarrow> char \<Rightarrow> string list" where
  "convertSeperateList [] d = []"
| "convertSeperateList (c # s) d =
     (if c = d then [] # convertSeperateList s d
      else (case s of
              [] \<Rightarrow> [[c]]
            | c' # _ \<Rightarrow> if c' = d then [c] # tl (convertSeperateList s d)
                         else (case convertSeperateList s d of [] \<Rightarrow> [[c]] | t # ts \<Rightarrow> (c # t) # ts)))"

definition string_parser :: "string \<Rightarrow> char \<Rightarrow> string list" where
  "string_parser str d = convertSeperateList (filter (\<lambda>c. \<not> isspace c) str) d"

definition pair_of :: "string \<Rightarrow> (string \<times> string) option" where
  "pair_of str = (case convertSeperateList str (CHR '','') of [a, b] \<Rightarrow> Some (a, b) | _ \<Rightarrow> None)"

definition parseConnectionFormats :: "xml_env \<Rightarrow> string list \<Rightarrow> 16 word list" where
  "parseConnectionFormats X ts = List.map_filter (\<lambda>t. map_option word_of_int (getEnumerationValue (xv_enums X) t)) ts"

definition parseTrigger :: "xml_env \<Rightarrow> string list \<Rightarrow> int list" where
  "parseTrigger X ts = List.map_filter (getEnumerationValue (xv_enums X)) ts"

type_synonym scale_map = "rat \<rightharpoonup> rat"

definition parseVolumeMapList :: "xml_env \<Rightarrow> string list \<Rightarrow> scale_map" where
  "parseVolumeMapList X ts = foldl (\<lambda>m t. case pair_of t of None \<Rightarrow> m | Some (k, v) \<Rightarrow> m(xv_float X k \<mapsto> xv_float X v)) Map.empty ts"

definition parseCommaSeperatedEnums :: "xml_env \<Rightarrow> string \<Rightarrow> (16 word \<times> 16 word) option" where
  "parseCommaSeperatedEnums X t =
     (case pair_of t of
        None \<Rightarrow> None
      | Some (a, b) \<Rightarrow> (case (getEnumerationValue (xv_enums X) a, getEnumerationValue (xv_enums X) b) of
            (Some i, Some j) \<Rightarrow> Some (word_of_int i, word_of_int j) | _ \<Rightarrow> None))"

definition parseCommaSeperateEnumerationsList :: "xml_env \<Rightarrow> string list \<Rightarrow> (16 word \<times> 16 word) list" where
  "parseCommaSeperateEnumerationsList X ts = List.map_filter (parseCommaSeperatedEnums X) ts"

text \<open>A scale is a list of pairs, recognised by its commas, or the name of a template.\<close>

definition populateScalingMap :: "xml_env \<Rightarrow> string \<Rightarrow> (string \<rightharpoonup> scale_map) \<Rightarrow> scale_map \<Rightarrow> scale_map" where
  "populateScalingMap X str templates out =
     (if str = [] then out
      else if CHR '','' \<in> set str then parseVolumeMapList X (string_parser str (CHR '';''))
      else case templates str of Some m \<Rightarrow> m | None \<Rightarrow> out)"

text \<open>Names in an attribute are separated by spaces; those marked with \<open>N:\<close> are quoted.\<close>

definition name_text :: "string \<Rightarrow> string" where
  "name_text str =
     (let quoted = map (\<lambda>t. if find_sub ''N:'' t = None then t else CHR 0x22 # drop 2 t @ [CHR 0x22]) (getListNames str)
      in concat (map (\<lambda>t. t @ '' '') (butlast quoted)) @ (if quoted = [] then [] else last quoted))"

section \<open>Attributes of the configuration\<close>

text \<open>They are only read.\<close>

definition text_attribute :: "string \<Rightarrow> (string \<Rightarrow> 's \<Rightarrow> 's) \<Rightarrow> 's attribute" where
  "text_attribute nm put = int_attribute nm put"

definition flag_attribute :: "string \<Rightarrow> (bool \<Rightarrow> 's \<Rightarrow> 's) \<Rightarrow> 's attribute" where
  "flag_attribute nm put = int_attribute nm (\<lambda>str. put (str = ''TRUE''))"

definition number_attribute :: "string \<Rightarrow> (16 word \<Rightarrow> 's \<Rightarrow> 's) \<Rightarrow> 's attribute" where
  "number_attribute nm put = int_attribute nm (\<lambda>str. put (convert_int16 str))"

definition long_attribute :: "string \<Rightarrow> (int \<Rightarrow> 's \<Rightarrow> 's) \<Rightarrow> 's attribute" where
  "long_attribute nm put = int_attribute nm (\<lambda>str. put (convert_int32 str))"

text \<open>A constant that is not known leaves the member as it is.\<close>

definition enum_attribute :: "xml_env \<Rightarrow> string \<Rightarrow> (int \<Rightarrow> 's \<Rightarrow> 's) \<Rightarrow> 's attribute" where
  "enum_attribute X nm put = int_attribute nm (\<lambda>str s. case getEnumerationValue (xv_enums X) str of Some i \<Rightarrow> put i s | None \<Rightarrow> s)"

definition id_value :: "xml_env \<Rightarrow> string \<Rightarrow> 16 word" where
  "id_value X str = (case getEnumerationValue (xv_enums X) str of Some i \<Rightarrow> word_of_int i | None \<Rightarrow> convert_uint16 str)"

definition id_attribute :: "xml_env \<Rightarrow> string \<Rightarrow> (16 word \<Rightarrow> 's \<Rightarrow> 's) \<Rightarrow> 's attribute" where
  "id_attribute X nm put = int_attribute nm (\<lambda>str. put (id_value X str))"

definition name_attribute :: "string \<Rightarrow> ('s \<Rightarrow> string) \<Rightarrow> (string \<Rightarrow> 's \<Rightarrow> 's) \<Rightarrow> 's attribute" where
  "name_attribute nm get put = int_attribute nm (\<lambda>str s. put (get s @ name_text str) s)"

lemma attribute_simps [simp]:
  "at_name (text_attribute nm p) = nm" "at_save (text_attribute nm p) = p"
  "at_name (flag_attribute nm q) = nm" "at_save (flag_attribute nm q) = (\<lambda>str. q (str = ''TRUE''))"
  "at_name (number_attribute nm r) = nm" "at_save (number_attribute nm r) = (\<lambda>str. r (convert_int16 str))"
  "at_name (long_attribute nm i) = nm" "at_save (long_attribute nm i) = (\<lambda>str. i (convert_int32 str))"
  "at_name (enum_attribute X nm i) = nm"
  "at_save (enum_attribute X nm i) = (\<lambda>str s. case getEnumerationValue (xv_enums X) str of Some v \<Rightarrow> i v s | None \<Rightarrow> s)"
  "at_name (id_attribute X nm r) = nm" "at_save (id_attribute X nm r) = (\<lambda>str. r (id_value X str))"
  "at_name (name_attribute nm g p) = nm" "at_save (name_attribute nm g p) = (\<lambda>str s. p (g s @ name_text str) s)"
  by (simp_all add: text_attribute_def flag_attribute_def number_attribute_def long_attribute_def enum_attribute_def id_attribute_def
      name_attribute_def int_attribute_def)

end
