(* ===== verification/Xml_Elements.thy ===== *)
theory Xml_Elements
  imports Xml_Schema Topology
begin

text \<open>
  The nodes of the configuration for classes, domains, sources, sinks, gateways and their properties
  (\<open>CAmXmlConfigParser.cpp\<close>). A node fills its structure and shares the configuration with all others: gateways
  inside of a source, or sources inside of a domain, go into the lists of the configuration. Enumerators are the
  numbers they are cast from. Members that no node reads and that stay zero are left out.
\<close>

section \<open>Data\<close>

record config_property =   \<comment> \<open>\<open>gc_SoundProperty_s\<close>, \<open>gc_MainSoundProperty_s\<close>\<close>
  sc_type :: "16 word"
  sc_value :: "16 word"
  sc_minValue :: "16 word"
  sc_maxValue :: "16 word"
  sc_isPersistenceSupported :: bool

type_synonym msp_maps = "(16 word \<rightharpoonup> 16 word) \<times> (16 word \<rightharpoonup> 16 word)"   \<comment> \<open>\<open>MD_MSP_TO_SP\<close> and \<open>MD_SP_TO_MSP\<close>\<close>

record xml_point =
  xp_ID :: "16 word"
  xp_name :: string
  xp_domainName :: string
  xp_className :: string
  xp_volume :: "16 word"
  xp_visible :: bool
  xp_availability :: int
  xp_availabilityReason :: "16 word"
  xp_isVolumeChangeSupported :: bool
  xp_isPersistencySupported :: bool
  xp_isVolumePersistencySupported :: bool
  xp_priority :: int
  xp_registrationType :: int
  xp_listConnectionFormats :: "16 word list"
  xp_listGCSoundProperties :: "config_property list"
  xp_listGCMainSoundProperties :: "config_property list"
  xp_listNotificationConfigurations :: "am_NotificationConfiguration_s list"
  xp_listMainNotificationConfigurations :: "am_NotificationConfiguration_s list"
  xp_mapMSPTOSP :: msp_maps
  xp_mapRoutingVolume :: scale_map

record xml_source = xml_point +
  xs_sourceState :: int
  xs_interruptState :: int
  xs_minVolume :: "16 word"
  xs_maxVolume :: "16 word"

record xml_sink = xml_point +
  xk_mainVolume :: "16 word"
  xk_muteState :: int
  xk_mapUserVolumeToNormalizedVolume :: scale_map
  xk_mapNormalizedVolumeToDecibelVolume :: scale_map

record xml_gateway =
  xg_ID :: "16 word"
  xg_name :: string
  xg_sinkName :: string
  xg_sourceName :: string
  xg_controlDomainName :: string
  xg_registrationType :: int
  xg_listConvertionmatrix :: "(16 word \<times> 16 word) list"

record xml_domain =
  xd_ID :: "16 word"
  xd_name :: string
  xd_busname :: string
  xd_nodename :: string
  xd_early :: bool
  xd_complete :: bool
  xd_state :: int
  xd_registrationType :: int

record xml_class =
  xl_ID :: "16 word"
  xl_name :: string
  xl_type :: int
  xl_priority :: int
  xl_listTopologies :: "gc_TopologyElement_s list list"
  xl_listClassProperties :: "(16 word \<times> 16 word) list"
  xl_isVolumePersistencySupported :: bool
  xl_defaultVolume :: "16 word"

record xml_action =
  xa_actionType :: int
  xa_mapParameters :: "(string \<times> string) list"

record xml_process =
  xr_comment :: string
  xr_priority :: int
  xr_stopEvaluation :: bool
  xr_listConditions :: "gc_ConditionStruct_s list"
  xr_listActions :: "xml_action list"

record xml_policy =
  xo_listEvents :: "int list"
  xo_listProcesses :: "xml_process list"

record xml_system_property =
  xy_type :: "16 word"
  xy_value :: "16 word"
  xy_isPersistenceSupported :: bool

text \<open>The maps of templates are read with \<open>operator[]\<close>, so a name that is not there gives an empty value.\<close>

record xml_config =   \<comment> \<open>\<open>gc_Configuration_s\<close>\<close>
  xc_listSources :: "xml_source list"
  xc_listSinks :: "xml_sink list"
  xc_listGateways :: "xml_gateway list"
  xc_listDomains :: "xml_domain list"
  xc_listClasses :: "xml_class list"
  xc_listPolicies :: "xml_policy list"
  xc_listSystemProperties :: "xml_system_property list"
  xc_listTemplateSources :: "xml_source list"
  xc_listTemplateSinks :: "xml_sink list"
  xc_listTemplateGateways :: "xml_gateway list"
  xc_listTemplateDomains :: "xml_domain list"
  xc_listTemplateSoundProperties :: "string \<rightharpoonup> config_property list"
  xc_listTemplateSystemProperties :: "string \<rightharpoonup> xml_system_property list"
  xc_listTemplateMainSoundProperties :: "string \<rightharpoonup> config_property list"
  xc_listTemplateNotificationConfigurations :: "string \<rightharpoonup> am_NotificationConfiguration_s list"
  xc_listTemplateConnectionFormats :: "string \<rightharpoonup> 16 word list"
  xc_listTemplateMapScaleConversions :: "string \<rightharpoonup> scale_map"
  xc_listTemplateMapMSPToSP :: "string \<rightharpoonup> msp_maps"
  xc_listTemplateConversionMatrix :: "string \<rightharpoonup> (16 word \<times> 16 word) list"
  xc_mCurrentDomain :: string
  xc_mCurrentSource :: string
  xc_mCurentSink :: string

definition at_or_empty :: "(string \<rightharpoonup> 'a list) \<Rightarrow> string \<Rightarrow> 'a list" where
  "at_or_empty m k = (case m k of None \<Rightarrow> [] | Some v \<Rightarrow> v)"

definition maps_at :: "(string \<rightharpoonup> msp_maps) \<Rightarrow> string \<Rightarrow> msp_maps" where
  "maps_at m k = (case m k of None \<Rightarrow> (Map.empty, Map.empty) | Some v \<Rightarrow> v)"

section \<open>Properties\<close>

definition class_property_node :: "xml_env \<Rightarrow> (16 word \<times> 16 word) element" where
  "class_property_node X = complex_parse ''property'' []
     [enum_attribute X ''type'' (\<lambda>i p. (word_of_int i, snd p)), number_attribute ''value'' (\<lambda>v p. (fst p, v))] [] no_check"

definition sc_init :: config_property where
  "sc_init = \<lparr>sc_type = 0, sc_value = 0, sc_minValue = - 32768, sc_maxValue = 32767, sc_isPersistenceSupported = False\<rparr>"

definition config_sound_node :: "xml_env \<Rightarrow> config_property element" where
  "config_sound_node X = complex_parse ''soundProperty'' []
     [enum_attribute X ''type'' (\<lambda>i p. p\<lparr>sc_type := word_of_int i\<rparr>), number_attribute ''value'' (\<lambda>v p. p\<lparr>sc_value := v\<rparr>),
      number_attribute ''maxValue'' (\<lambda>v p. p\<lparr>sc_maxValue := v\<rparr>), number_attribute ''minValue'' (\<lambda>v p. p\<lparr>sc_minValue := v\<rparr>)] [] no_check"

definition config_system_node :: "xml_env \<Rightarrow> xml_system_property element" where
  "config_system_node X = simple_parse ''systemProperty''
     [enum_attribute X ''type'' (\<lambda>i p. p\<lparr>xy_type := word_of_int i\<rparr>), number_attribute ''value'' (\<lambda>v p. p\<lparr>xy_value := v\<rparr>),
      flag_attribute ''isPersistenceSupported'' (\<lambda>b p. p\<lparr>xy_isPersistenceSupported := b\<rparr>)] (\<lambda>_ p. p)"

definition xy_init :: xml_system_property where
  "xy_init = \<lparr>xy_type = 0, xy_value = 0, xy_isPersistenceSupported = False\<rparr>"

text \<open>
  A main sound property remembers which of its attributes were there. The member named after the largest value
  belongs to the attribute of the smallest one, and the other way round.
\<close>

record main_sound_work =
  mw_property :: config_property
  mw_mValueAttribute :: bool
  mw_mMaxValueAttribute :: bool
  mw_mMinValueAttribute :: bool
  mw_mIsPersistenceSupportedAttribute :: bool

definition mw_init :: main_sound_work where
  "mw_init = \<lparr>mw_property = sc_init, mw_mValueAttribute = False, mw_mMaxValueAttribute = False, mw_mMinValueAttribute = False,
     mw_mIsPersistenceSupportedAttribute = False\<rparr>"

definition config_main_sound_node :: "xml_env \<Rightarrow> main_sound_work element" where
  "config_main_sound_node X = complex_parse ''mainSoundProperty'' []
     [enum_attribute X ''type'' (\<lambda>i w. w\<lparr>mw_property := (mw_property w)\<lparr>sc_type := word_of_int i\<rparr>\<rparr>),
      number_attribute ''value'' (\<lambda>v w. w\<lparr>mw_property := (mw_property w)\<lparr>sc_value := v\<rparr>, mw_mValueAttribute := True\<rparr>),
      number_attribute ''maxValue'' (\<lambda>v w. w\<lparr>mw_property := (mw_property w)\<lparr>sc_maxValue := v\<rparr>, mw_mMinValueAttribute := True\<rparr>),
      number_attribute ''minValue'' (\<lambda>v w. w\<lparr>mw_property := (mw_property w)\<lparr>sc_minValue := v\<rparr>, mw_mMaxValueAttribute := True\<rparr>),
      flag_attribute ''isPersistenceSupported'' (\<lambda>b w. w\<lparr>mw_property := (mw_property w)\<lparr>sc_isPersistenceSupported := b\<rparr>,
        mw_mIsPersistenceSupportedAttribute := True\<rparr>)] [] no_check"

definition override_property :: "main_sound_work \<Rightarrow> config_property \<Rightarrow> config_property" where
  "override_property w p =
     (let q = mw_property w;
          p1 = (if mw_mValueAttribute w then p\<lparr>sc_value := sc_value q\<rparr> else p);
          p2 = (if mw_mIsPersistenceSupportedAttribute w then p1\<lparr>sc_isPersistenceSupported := sc_isPersistenceSupported q\<rparr> else p1);
          p3 = (if mw_mMaxValueAttribute w then p2\<lparr>sc_maxValue := sc_maxValue q\<rparr> else p2)
      in if mw_mMinValueAttribute w then p3\<lparr>sc_minValue := sc_minValue q\<rparr> else p3)"

text \<open>A property of a type that is there already, from a template, overrides the first one of this type.\<close>

fun push_main_sound :: "main_sound_work \<Rightarrow> config_property list \<Rightarrow> config_property list" where
  "push_main_sound w [] = [mw_property w]"
| "push_main_sound w (p # ps) =
     (if sc_type p = sc_type (mw_property w) then override_property w p # ps else p # push_main_sound w ps)"

definition nc_init :: am_NotificationConfiguration_s where
  "nc_init = \<lparr>nc_type = 0, nc_status = 0, nc_parameter = 0\<rparr>"

definition notification_node :: "xml_env \<Rightarrow> string \<Rightarrow> am_NotificationConfiguration_s element" where
  "notification_node X tag = complex_parse tag []
     [enum_attribute X ''type'' (\<lambda>i c. c\<lparr>nc_type := word_of_int i\<rparr>), enum_attribute X ''status'' (\<lambda>i c. c\<lparr>nc_status := word_of_int i\<rparr>),
      number_attribute ''parameter'' (\<lambda>v c. c\<lparr>nc_parameter := v\<rparr>)] [] no_check"

definition availability_node :: "xml_env \<Rightarrow> (int \<times> 16 word) element" where
  "availability_node X = complex_parse ''availability'' []
     [enum_attribute X ''availability'' (\<lambda>i a. (i, snd a)), enum_attribute X ''availabilityReason'' (\<lambda>i a. (fst a, word_of_int i))] [] no_check"

definition focus :: "('s \<Rightarrow> 't) \<Rightarrow> ('t \<Rightarrow> 's \<Rightarrow> 's) \<Rightarrow> 't child \<Rightarrow> 's child" where
  "focus get put c p s = map_option (\<lambda>(r, p', t). (r, p', put t s)) (c p (get s))"

section \<open>Maps between main sound properties and sound properties\<close>

definition MD_MSP_TO_SP :: int where "MD_MSP_TO_SP = 0"
definition MD_SP_TO_MSP :: int where "MD_SP_TO_MSP = 1"
definition MD_BOTH :: int where "MD_BOTH = 2"

record mapping_entry =
  me_mainSoundProperty :: "16 word"
  me_soundProperty :: "16 word"
  me_mappingDirection :: int
  me_mMappingDirectionString :: string

definition mapping_save :: "xml_env \<Rightarrow> string \<Rightarrow> mapping_entry \<Rightarrow> mapping_entry" where
  "mapping_save X str e =
     (case pair_of str of
        None \<Rightarrow> e
      | Some (a, b) \<Rightarrow>
          (let e1 = (case getEnumerationValue (xv_enums X) a of Some i \<Rightarrow> e\<lparr>me_mainSoundProperty := word_of_int i\<rparr> | None \<Rightarrow> e);
               e2 = (case getEnumerationValue (xv_enums X) b of Some i \<Rightarrow> e1\<lparr>me_soundProperty := word_of_int i\<rparr> | None \<Rightarrow> e1)
           in case getEnumerationValue (xv_enums X) (me_mMappingDirectionString e2) of Some i \<Rightarrow> e2\<lparr>me_mappingDirection := i\<rparr> | None \<Rightarrow> e2))"

definition mapping_node :: "xml_env \<Rightarrow> mapping_entry element" where
  "mapping_node X = simple_parse ''mapMSPtoSP'' [text_attribute ''mappingDirection'' (\<lambda>str e. e\<lparr>me_mMappingDirectionString := str\<rparr>)] (mapping_save X)"

text \<open>\<open>std::map::insert\<close> keeps an entry that is there.\<close>

definition insert_new :: "'k \<Rightarrow> 'v \<Rightarrow> ('k \<rightharpoonup> 'v) \<Rightarrow> ('k \<rightharpoonup> 'v)" where
  "insert_new k v m = (if m k = None then m(k \<mapsto> v) else m)"

definition add_mapping :: "mapping_entry \<Rightarrow> msp_maps \<Rightarrow> msp_maps" where
  "add_mapping e = (\<lambda>(to_sp, to_msp).
     (if me_mappingDirection e = MD_SP_TO_MSP then to_sp else insert_new (me_mainSoundProperty e) (me_soundProperty e) to_sp,
      if me_mappingDirection e = MD_MSP_TO_SP then to_msp else insert_new (me_soundProperty e) (me_mainSoundProperty e) to_msp))"

text \<open>The list moves the pointer behind its last entry, and reports success.\<close>

function mapping_loop :: "xml_env \<Rightarrow> parse_status \<Rightarrow> xml_node list \<Rightarrow> msp_maps \<Rightarrow> parse_status \<times> xml_node list \<times> msp_maps" where
  "mapping_loop X r [] m = (r, [], m)"
| "mapping_loop X r (n # ns) m =
     (case mapping_node X n \<lparr>me_mainSoundProperty = 0, me_soundProperty = 0, me_mappingDirection = MD_BOTH, me_mMappingDirectionString = []\<rparr> of
        Some (PARSE_SUCCESS, e) \<Rightarrow> mapping_loop X PARSE_SUCCESS (getNextElementNode (n # ns)) (add_mapping e m)
      | _ \<Rightarrow> (r, n # ns, m))"
  by pat_completeness auto
termination
  by (relation "measure (\<lambda>(X, r, p, m). length p)") (auto simp: length_dropWhile_le less_Suc_eq_le)

definition mapping_list :: "xml_env \<Rightarrow> msp_maps child" where
  "mapping_list X p old =
     (case mapping_loop X PARSE_TAG_MISMATCH p (Map.empty, Map.empty) of
        (r, p', m) \<Rightarrow> Some (r, p', if r = PARSE_SUCCESS then m else old))"

section \<open>Gateways\<close>

record gateway_work =
  yw_mGateway :: xml_gateway
  yw_mpConfig :: xml_config
  yw_mConversionMatrix :: string
  yw_mBaseName :: string
  yw_mConversionMatrixTemplateName :: string

definition gateway_new :: "xml_config \<Rightarrow> gateway_work" where
  "gateway_new c = \<lparr>yw_mGateway = \<lparr>xg_ID = 0, xg_name = [], xg_sinkName = [], xg_sourceName = [], xg_controlDomainName = [],
       xg_registrationType = 2, xg_listConvertionmatrix = []\<rparr>,
     yw_mpConfig = c, yw_mConversionMatrix = [], yw_mBaseName = [], yw_mConversionMatrixTemplateName = []\<rparr>"

definition on_gateway :: "(xml_gateway \<Rightarrow> xml_gateway) \<Rightarrow> gateway_work \<Rightarrow> gateway_work" where
  "on_gateway f w = w\<lparr>yw_mGateway := f (yw_mGateway w)\<rparr>"

text \<open>There is no attribute for the name of a template of the conversion matrix.\<close>

definition gateway_attributes :: "xml_env \<Rightarrow> gateway_work attribute list" where
  "gateway_attributes X =
     [id_attribute X ''id'' (\<lambda>v. on_gateway (\<lambda>g. g\<lparr>xg_ID := v\<rparr>)),
      text_attribute ''name'' (\<lambda>v. on_gateway (\<lambda>g. g\<lparr>xg_name := v\<rparr>)),
      text_attribute ''sinkName'' (\<lambda>v. on_gateway (\<lambda>g. g\<lparr>xg_sinkName := v\<rparr>)),
      text_attribute ''sourceName'' (\<lambda>v. on_gateway (\<lambda>g. g\<lparr>xg_sourceName := v\<rparr>)),
      text_attribute ''controlDomainName'' (\<lambda>v. on_gateway (\<lambda>g. g\<lparr>xg_controlDomainName := v\<rparr>)),
      enum_attribute X ''registrationType'' (\<lambda>i. on_gateway (\<lambda>g. g\<lparr>xg_registrationType := i\<rparr>)),
      text_attribute ''conversionMatrix'' (\<lambda>v w. w\<lparr>yw_mConversionMatrix := v\<rparr>),
      text_attribute ''baseName'' (\<lambda>v w. w\<lparr>yw_mBaseName := v\<rparr>)]"

definition gateway_getDefaultFromTemplate :: "gateway_work \<Rightarrow> gateway_work" where
  "gateway_getDefaultFromTemplate w =
     (case find (\<lambda>g. xg_name g = yw_mBaseName w) (xc_listTemplateGateways (yw_mpConfig w)) of None \<Rightarrow> w | Some g \<Rightarrow> w\<lparr>yw_mGateway := g\<rparr>)"

definition gateway_getConversionMatrix :: "gateway_work \<Rightarrow> gateway_work" where
  "gateway_getConversionMatrix w =
     (if yw_mConversionMatrixTemplateName w = [] then w
      else on_gateway (\<lambda>g. g\<lparr>xg_listConvertionmatrix :=
        at_or_empty (xc_listTemplateConversionMatrix (yw_mpConfig w)) (yw_mConversionMatrixTemplateName w)\<rparr>) w)"

definition prefer_current :: "string \<Rightarrow> string \<Rightarrow> string" where
  "prefer_current current own = (if own = [] \<or> current \<noteq> [] then current else own)"

definition gateway_copy :: "xml_env \<Rightarrow> gateway_work \<Rightarrow> (am_Error_e \<times> gateway_work) option" where
  "gateway_copy X w =
     (let c = yw_mpConfig w;
          w1 = (if yw_mConversionMatrix w = [] then w
                else on_gateway (\<lambda>g. g\<lparr>xg_listConvertionmatrix :=
                  parseCommaSeperateEnumerationsList X (string_parser (yw_mConversionMatrix w) (CHR '';''))\<rparr>) w)
      in Some (E_OK, on_gateway (\<lambda>g. g\<lparr>xg_sinkName := prefer_current (xc_mCurentSink c) (xg_sinkName g),
           xg_sourceName := prefer_current (xc_mCurrentSource c) (xg_sourceName g),
           xg_controlDomainName := prefer_current (xc_mCurrentDomain c) (xg_controlDomainName g)\<rparr>) w1))"

definition gateway_node :: "xml_env \<Rightarrow> gateway_work element" where
  "gateway_node X = complex_parse ''gateway'' [(''baseName'', gateway_getDefaultFromTemplate),
     (''conversionMatrixTemplateName'', gateway_getConversionMatrix)] (gateway_attributes X) [] (gateway_copy X)"

definition gateway_list :: "xml_env \<Rightarrow> (xml_gateway \<Rightarrow> xml_config \<Rightarrow> xml_config) \<Rightarrow> (xml_config, gateway_work) list_node" where
  "gateway_list X push = \<lparr>ln_new = gateway_new, ln_node = gateway_node X, ln_leave = \<lambda>w _. yw_mpConfig w,
     ln_push_back = \<lambda>w. push (yw_mGateway w)\<rparr>"

definition add_gateway :: "xml_gateway \<Rightarrow> xml_config \<Rightarrow> xml_config" where
  "add_gateway g c = c\<lparr>xc_listGateways := xc_listGateways c @ [g]\<rparr>"

end
