(* ===== verification/Xml_Points.thy ===== *)
theory Xml_Points
  imports Xml_Elements
begin

text \<open>
  The nodes of sources, sinks and domains of the configuration. What the classes of sources and of sinks have in
  common is stated once, over the members that both structures have.
\<close>

section \<open>Sources and sinks\<close>

record 'p point_work =
  pw_point :: 'p
  pw_mpConfig :: xml_config
  pw_mConnectionFormats :: string
  pw_mRoutingVolumeMap :: string   \<comment> \<open>\<open>mSourceVolumeMap\<close> of a source\<close>
  pw_mUserVolumeMap :: string
  pw_mNormalizedVolumeMap :: string
  pw_mBaseName :: string
  pw_mMapMSPToSPTemplateName :: string
  pw_mSoundPropertiesTemplateName :: string
  pw_mMainSoundPropertiesTemplateName :: string
  pw_mNotificationConfigurationsTemplateName :: string
  pw_mMainNotificationConfigurationTemplateName :: string
  pw_mConnectionFormatsTemplateName :: string

definition point_new :: "'p \<Rightarrow> xml_config \<Rightarrow> 'p point_work" where
  "point_new p c = \<lparr>pw_point = p, pw_mpConfig = c, pw_mConnectionFormats = [], pw_mRoutingVolumeMap = [], pw_mUserVolumeMap = [],
     pw_mNormalizedVolumeMap = [], pw_mBaseName = [], pw_mMapMSPToSPTemplateName = [], pw_mSoundPropertiesTemplateName = [],
     pw_mMainSoundPropertiesTemplateName = [], pw_mNotificationConfigurationsTemplateName = [],
     pw_mMainNotificationConfigurationTemplateName = [], pw_mConnectionFormatsTemplateName = []\<rparr>"

definition source_init :: xml_source where
  "source_init = \<lparr>xp_ID = 0, xp_name = [], xp_domainName = [], xp_className = [], xp_volume = 0, xp_visible = True,
     xp_availability = 1, xp_availabilityReason = 0, xp_isVolumeChangeSupported = True, xp_isPersistencySupported = False,
     xp_isVolumePersistencySupported = False, xp_priority = 50, xp_registrationType = 2, xp_listConnectionFormats = [],
     xp_listGCSoundProperties = [], xp_listGCMainSoundProperties = [], xp_listNotificationConfigurations = [],
     xp_listMainNotificationConfigurations = [], xp_mapMSPTOSP = (Map.empty, Map.empty), xp_mapRoutingVolume = Map.empty,
     xs_sourceState = 0, xs_interruptState = 0, xs_minVolume = 0, xs_maxVolume = 0\<rparr>"

definition sink_init :: "xml_config \<Rightarrow> xml_sink" where
  "sink_init c = \<lparr>xp_ID = 0, xp_name = [], xp_domainName = xc_mCurrentDomain c, xp_className = [], xp_volume = 0, xp_visible = True,
     xp_availability = 1, xp_availabilityReason = 0, xp_isVolumeChangeSupported = True, xp_isPersistencySupported = False,
     xp_isVolumePersistencySupported = False, xp_priority = 50, xp_registrationType = 2, xp_listConnectionFormats = [],
     xp_listGCSoundProperties = [], xp_listGCMainSoundProperties = [], xp_listNotificationConfigurations = [],
     xp_listMainNotificationConfigurations = [], xp_mapMSPTOSP = (Map.empty, Map.empty), xp_mapRoutingVolume = Map.empty,
     xk_mainVolume = 0, xk_muteState = 2, xk_mapUserVolumeToNormalizedVolume = Map.empty, xk_mapNormalizedVolumeToDecibelVolume = Map.empty\<rparr>"

definition on_pt :: "('p \<Rightarrow> 'p) \<Rightarrow> 'p point_work \<Rightarrow> 'p point_work" where
  "on_pt f w = w\<lparr>pw_point := f (pw_point w)\<rparr>"

definition on_config :: "(xml_config \<Rightarrow> xml_config) \<Rightarrow> 'p point_work \<Rightarrow> 'p point_work" where
  "on_config f w = w\<lparr>pw_mpConfig := f (pw_mpConfig w)\<rparr>"

text \<open>The attributes that both have, in two groups: the members and the names of templates.\<close>

definition point_attributes :: "xml_env \<Rightarrow> 'a xml_point_scheme point_work attribute list" where
  "point_attributes X =
     [id_attribute X ''id'' (\<lambda>v. on_pt (\<lambda>p. p\<lparr>xp_ID := v\<rparr>)),
      text_attribute ''domainName'' (\<lambda>v. on_pt (\<lambda>p. p\<lparr>xp_domainName := v\<rparr>)),
      text_attribute ''name'' (\<lambda>v. on_pt (\<lambda>p. p\<lparr>xp_name := v\<rparr>)),
      number_attribute ''volume'' (\<lambda>v. on_pt (\<lambda>p. p\<lparr>xp_volume := v\<rparr>)),
      flag_attribute ''visible'' (\<lambda>v. on_pt (\<lambda>p. p\<lparr>xp_visible := v\<rparr>)),
      text_attribute ''className'' (\<lambda>v. on_pt (\<lambda>p. p\<lparr>xp_className := v\<rparr>)),
      text_attribute ''connectionFormat'' (\<lambda>v w. w\<lparr>pw_mConnectionFormats := v\<rparr>),
      flag_attribute ''isVolumeSupported'' (\<lambda>v. on_pt (\<lambda>p. p\<lparr>xp_isVolumeChangeSupported := v\<rparr>)),
      flag_attribute ''isVolumePersistencySupported'' (\<lambda>v. on_pt (\<lambda>p. p\<lparr>xp_isVolumePersistencySupported := v\<rparr>)),
      long_attribute ''priority'' (\<lambda>v. on_pt (\<lambda>p. p\<lparr>xp_priority := v\<rparr>)),
      enum_attribute X ''registrationType'' (\<lambda>v. on_pt (\<lambda>p. p\<lparr>xp_registrationType := v\<rparr>)),
      flag_attribute ''isPersistencySupported'' (\<lambda>v. on_pt (\<lambda>p. p\<lparr>xp_isPersistencySupported := v\<rparr>))]"

definition template_attributes :: "'p point_work attribute list" where
  "template_attributes =
     [text_attribute ''baseName'' (\<lambda>v w. w\<lparr>pw_mBaseName := v\<rparr>),
      text_attribute ''mapMSPToSPTemplateName'' (\<lambda>v w. w\<lparr>pw_mMapMSPToSPTemplateName := v\<rparr>),
      text_attribute ''soundPropertiesTemplateName'' (\<lambda>v w. w\<lparr>pw_mSoundPropertiesTemplateName := v\<rparr>),
      text_attribute ''mainSoundPropertiesTemplateName'' (\<lambda>v w. w\<lparr>pw_mMainSoundPropertiesTemplateName := v\<rparr>),
      text_attribute ''notificationConfigurationsTemplateName'' (\<lambda>v w. w\<lparr>pw_mNotificationConfigurationsTemplateName := v\<rparr>),
      text_attribute ''mainNotificationConfigurationsTemplateName'' (\<lambda>v w. w\<lparr>pw_mMainNotificationConfigurationTemplateName := v\<rparr>),
      text_attribute ''connectionFormatsTemplateName'' (\<lambda>v w. w\<lparr>pw_mConnectionFormatsTemplateName := v\<rparr>)]"

definition source_attributes :: "xml_env \<Rightarrow> xml_source point_work attribute list" where
  "source_attributes X = point_attributes X @
     [enum_attribute X ''sourceState'' (\<lambda>v. on_pt (\<lambda>p. p\<lparr>xs_sourceState := v\<rparr>)),
      enum_attribute X ''interruptState'' (\<lambda>v. on_pt (\<lambda>p. p\<lparr>xs_interruptState := v\<rparr>)),
      number_attribute ''minVolume'' (\<lambda>v. on_pt (\<lambda>p. p\<lparr>xs_minVolume := v\<rparr>)),
      number_attribute ''maxVolume'' (\<lambda>v. on_pt (\<lambda>p. p\<lparr>xs_maxVolume := v\<rparr>)),
      text_attribute ''sourceVolumeMap'' (\<lambda>v w. w\<lparr>pw_mRoutingVolumeMap := v\<rparr>)] @ template_attributes"

definition sink_attributes :: "xml_env \<Rightarrow> xml_sink point_work attribute list" where
  "sink_attributes X = point_attributes X @
     [number_attribute ''mainVolume'' (\<lambda>v. on_pt (\<lambda>p. p\<lparr>xk_mainVolume := v\<rparr>)),
      enum_attribute X ''muteState'' (\<lambda>v. on_pt (\<lambda>p. p\<lparr>xk_muteState := v\<rparr>)),
      text_attribute ''sinkVolumeMap'' (\<lambda>v w. w\<lparr>pw_mRoutingVolumeMap := v\<rparr>),
      text_attribute ''listMainVolumesToNormalizedVolumes'' (\<lambda>v w. w\<lparr>pw_mUserVolumeMap := v\<rparr>),
      text_attribute ''listNormalizedVolumesToDecibelVolumes'' (\<lambda>v w. w\<lparr>pw_mNormalizedVolumeMap := v\<rparr>)] @ template_attributes"

section \<open>Templates\<close>

text \<open>A template replaces the whole structure; the attributes that follow overwrite its members.\<close>

definition from_template :: "(xml_config \<Rightarrow> 'a xml_point_scheme list) \<Rightarrow> 'a xml_point_scheme point_work \<Rightarrow> 'a xml_point_scheme point_work" where
  "from_template templates w =
     (let c = pw_mpConfig w;
          w1 = (case find (\<lambda>p. xp_name p = pw_mBaseName w) (templates c) of None \<Rightarrow> w | Some p \<Rightarrow> w\<lparr>pw_point := p\<rparr>)
      in if xp_domainName (pw_point w1) = [] \<and> xc_mCurrentDomain c \<noteq> []
         then on_pt (\<lambda>p. p\<lparr>xp_domainName := xc_mCurrentDomain c\<rparr>) w1 else w1)"

definition source_storeCurrentName :: "xml_source point_work \<Rightarrow> xml_source point_work" where
  "source_storeCurrentName w = on_config (\<lambda>c. c\<lparr>xc_mCurrentSource := xp_name (pw_point w)\<rparr>) w"

definition sink_storeCurrentName :: "xml_sink point_work \<Rightarrow> xml_sink point_work" where
  "sink_storeCurrentName w = on_config (\<lambda>c. c\<lparr>xc_mCurentSink := xp_name (pw_point w)\<rparr>) w"

definition getSoundPropertyList :: "'a xml_point_scheme point_work \<Rightarrow> 'a xml_point_scheme point_work" where
  "getSoundPropertyList w = (let nm = pw_mSoundPropertiesTemplateName w in if nm = [] then w
     else on_pt (\<lambda>p. p\<lparr>xp_listGCSoundProperties := at_or_empty (xc_listTemplateSoundProperties (pw_mpConfig w)) nm\<rparr>) w)"

definition getMainSoundPropertyList :: "'a xml_point_scheme point_work \<Rightarrow> 'a xml_point_scheme point_work" where
  "getMainSoundPropertyList w = (let nm = pw_mMainSoundPropertiesTemplateName w in if nm = [] then w
     else on_pt (\<lambda>p. p\<lparr>xp_listGCMainSoundProperties := at_or_empty (xc_listTemplateMainSoundProperties (pw_mpConfig w)) nm\<rparr>) w)"

definition getNotificationConfiguration :: "'a xml_point_scheme point_work \<Rightarrow> 'a xml_point_scheme point_work" where
  "getNotificationConfiguration w = (let nm = pw_mNotificationConfigurationsTemplateName w in if nm = [] then w
     else on_pt (\<lambda>p. p\<lparr>xp_listNotificationConfigurations := at_or_empty (xc_listTemplateNotificationConfigurations (pw_mpConfig w)) nm\<rparr>) w)"

definition getMainNotificationConfiguration :: "'a xml_point_scheme point_work \<Rightarrow> 'a xml_point_scheme point_work" where
  "getMainNotificationConfiguration w = (let nm = pw_mMainNotificationConfigurationTemplateName w in if nm = [] then w
     else on_pt (\<lambda>p. p\<lparr>xp_listMainNotificationConfigurations := at_or_empty (xc_listTemplateNotificationConfigurations (pw_mpConfig w)) nm\<rparr>) w)"

definition getConnectionFormats :: "'a xml_point_scheme point_work \<Rightarrow> 'a xml_point_scheme point_work" where
  "getConnectionFormats w = (let nm = pw_mConnectionFormatsTemplateName w in if nm = [] then w
     else on_pt (\<lambda>p. p\<lparr>xp_listConnectionFormats := at_or_empty (xc_listTemplateConnectionFormats (pw_mpConfig w)) nm\<rparr>) w)"

definition getMapMSPToSP :: "'a xml_point_scheme point_work \<Rightarrow> 'a xml_point_scheme point_work" where
  "getMapMSPToSP w = (let nm = pw_mMapMSPToSPTemplateName w in if nm = [] then w
     else on_pt (\<lambda>p. p\<lparr>xp_mapMSPTOSP := maps_at (xc_listTemplateMapMSPToSP (pw_mpConfig w)) nm\<rparr>) w)"

definition point_templates :: "('a xml_point_scheme point_work \<Rightarrow> 'a xml_point_scheme point_work) \<Rightarrow> ('a xml_point_scheme point_work \<Rightarrow> 'a xml_point_scheme point_work)
    \<Rightarrow> (string \<times> ('a xml_point_scheme point_work \<Rightarrow> 'a xml_point_scheme point_work)) list" where
  "point_templates getDefaultFromTemplate storeCurrentName =
     [(''baseName'', getDefaultFromTemplate), (''name'', storeCurrentName), (''soundPropertiesTemplateName'', getSoundPropertyList),
      (''mainSoundPropertiesTemplateName'', getMainSoundPropertyList), (''notificationConfigurationsTemplateName'', getNotificationConfiguration),
      (''mainNotificationConfigurationsTemplateName'', getMainNotificationConfiguration),
      (''connectionFormatsTemplateName'', getConnectionFormats), (''mapMSPToSPTemplateName'', getMapMSPToSP)]"

section \<open>Children and the end of the node\<close>

definition notification_list :: "xml_env \<Rightarrow> string \<Rightarrow> (am_NotificationConfiguration_s \<Rightarrow> 'p \<Rightarrow> 'p) \<Rightarrow> 'p point_work child" where
  "notification_list X tag push = list_parse (plain_list nc_init (notification_node X tag) (\<lambda>c. on_pt (push c)))"

definition push_notification :: "am_NotificationConfiguration_s \<Rightarrow> 'a xml_point_scheme \<Rightarrow> 'a xml_point_scheme" where
  "push_notification c p = p\<lparr>xp_listNotificationConfigurations := xp_listNotificationConfigurations p @ [c]\<rparr>"

definition push_main_notification :: "am_NotificationConfiguration_s \<Rightarrow> 'a xml_point_scheme \<Rightarrow> 'a xml_point_scheme" where
  "push_main_notification c p = p\<lparr>xp_listMainNotificationConfigurations := xp_listMainNotificationConfigurations p @ [c]\<rparr>"

definition point_children :: "xml_env \<Rightarrow> 'a xml_point_scheme point_work child list" where
  "point_children X =
     [focus (\<lambda>w. (xp_availability (pw_point w), xp_availabilityReason (pw_point w)))
        (\<lambda>(a, r). on_pt (\<lambda>p. p\<lparr>xp_availability := a, xp_availabilityReason := r\<rparr>)) (element_child (availability_node X)),
      list_parse (plain_list sc_init (config_sound_node X) (\<lambda>s. on_pt (\<lambda>p. p\<lparr>xp_listGCSoundProperties := xp_listGCSoundProperties p @ [s]\<rparr>))),
      list_parse (plain_list mw_init (config_main_sound_node X)
        (\<lambda>m. on_pt (\<lambda>p. p\<lparr>xp_listGCMainSoundProperties := push_main_sound m (xp_listGCMainSoundProperties p)\<rparr>))),
      focus (\<lambda>w. xp_mapMSPTOSP (pw_point w)) (\<lambda>m. on_pt (\<lambda>p. p\<lparr>xp_mapMSPTOSP := m\<rparr>)) (mapping_list X),
      focus pw_mpConfig (\<lambda>c w. w\<lparr>pw_mpConfig := c\<rparr>) (list_parse (gateway_list X add_gateway))]"

definition read_formats :: "xml_env \<Rightarrow> 'a xml_point_scheme point_work \<Rightarrow> 'a xml_point_scheme point_work" where
  "read_formats X w = (if pw_mConnectionFormats w = [] then w
     else on_pt (\<lambda>p. p\<lparr>xp_listConnectionFormats := parseConnectionFormats X (string_parser (pw_mConnectionFormats w) (CHR '';''))\<rparr>) w)"

text \<open>The domain is that of the domain element around it, also if there is none and the attribute names one.\<close>

definition source_copy :: "xml_env \<Rightarrow> xml_source point_work \<Rightarrow> (am_Error_e \<times> xml_source point_work) option" where
  "source_copy X w =
     (let w1 = read_formats X w; c = pw_mpConfig w1; scales = xc_listTemplateMapScaleConversions c
      in Some (E_OK, on_config (\<lambda>c. c\<lparr>xc_mCurrentSource := []\<rparr>)
           (on_pt (\<lambda>p. p\<lparr>xp_mapRoutingVolume := populateScalingMap X (pw_mRoutingVolumeMap w1) scales (xp_mapRoutingVolume p),
              xp_domainName := xc_mCurrentDomain c\<rparr>) w1)))"

definition sink_copy :: "xml_env \<Rightarrow> xml_sink point_work \<Rightarrow> (am_Error_e \<times> xml_sink point_work) option" where
  "sink_copy X w =
     (let w1 = read_formats X w; c = pw_mpConfig w1; scales = xc_listTemplateMapScaleConversions c
      in Some (E_OK, on_config (\<lambda>c. c\<lparr>xc_mCurentSink := []\<rparr>)
           (on_pt (\<lambda>p. p\<lparr>
              xk_mapNormalizedVolumeToDecibelVolume := populateScalingMap X (pw_mNormalizedVolumeMap w1) scales (xk_mapNormalizedVolumeToDecibelVolume p),
              xk_mapUserVolumeToNormalizedVolume := populateScalingMap X (pw_mUserVolumeMap w1) scales (xk_mapUserVolumeToNormalizedVolume p),
              xp_mapRoutingVolume := populateScalingMap X (pw_mRoutingVolumeMap w1) scales (xp_mapRoutingVolume p),
              xp_domainName := xc_mCurrentDomain c\<rparr>) w1)))"

definition source_node :: "xml_env \<Rightarrow> xml_source point_work element" where
  "source_node X = complex_parse ''source'' (point_templates (from_template xc_listTemplateSources) source_storeCurrentName) (source_attributes X)
     ([notification_list X ''notificationConfiguration'' push_notification, notification_list X ''notificationConfiguration'' push_notification,
       notification_list X ''mainNotificationConfiguration'' push_main_notification] @ point_children X) (source_copy X)"

text \<open>In a sink the two kinds of notification configurations go into each other's list.\<close>

definition sink_node :: "xml_env \<Rightarrow> xml_sink point_work element" where
  "sink_node X = complex_parse ''sink'' (point_templates (from_template xc_listTemplateSinks) sink_storeCurrentName) (sink_attributes X)
     ([notification_list X ''notificationConfiguration'' push_main_notification,
       notification_list X ''mainNotificationConfiguration'' push_notification] @ point_children X) (sink_copy X)"

definition source_list :: "xml_env \<Rightarrow> (xml_source \<Rightarrow> xml_config \<Rightarrow> xml_config) \<Rightarrow> (xml_config, xml_source point_work) list_node" where
  "source_list X push = \<lparr>ln_new = point_new source_init, ln_node = source_node X, ln_leave = \<lambda>w _. pw_mpConfig w,
     ln_push_back = \<lambda>w. push (pw_point w)\<rparr>"

definition sink_list :: "xml_env \<Rightarrow> (xml_sink \<Rightarrow> xml_config \<Rightarrow> xml_config) \<Rightarrow> (xml_config, xml_sink point_work) list_node" where
  "sink_list X push = \<lparr>ln_new = \<lambda>c. point_new (sink_init c) c, ln_node = sink_node X, ln_leave = \<lambda>w _. pw_mpConfig w,
     ln_push_back = \<lambda>w. push (pw_point w)\<rparr>"

definition add_source :: "xml_source \<Rightarrow> xml_config \<Rightarrow> xml_config" where
  "add_source s c = c\<lparr>xc_listSources := xc_listSources c @ [s]\<rparr>"

definition add_sink :: "xml_sink \<Rightarrow> xml_config \<Rightarrow> xml_config" where
  "add_sink s c = c\<lparr>xc_listSinks := xc_listSinks c @ [s]\<rparr>"

section \<open>Domains\<close>

record domain_work =
  dw_mDomain :: xml_domain
  dw_mpConfig :: xml_config
  dw_mBaseName :: string

definition domain_node_new :: "xml_config \<Rightarrow> domain_work" where
  "domain_node_new c = \<lparr>dw_mDomain = \<lparr>xd_ID = 0, xd_name = [], xd_busname = [], xd_nodename = [], xd_early = False, xd_complete = False,
       xd_state = 1, xd_registrationType = 2\<rparr>, dw_mpConfig = c, dw_mBaseName = []\<rparr>"

definition on_domain :: "(xml_domain \<Rightarrow> xml_domain) \<Rightarrow> domain_work \<Rightarrow> domain_work" where
  "on_domain f w = w\<lparr>dw_mDomain := f (dw_mDomain w)\<rparr>"

definition domain_attributes :: "xml_env \<Rightarrow> domain_work attribute list" where
  "domain_attributes X =
     [text_attribute ''name'' (\<lambda>v. on_domain (\<lambda>d. d\<lparr>xd_name := v\<rparr>)),
      id_attribute X ''id'' (\<lambda>v. on_domain (\<lambda>d. d\<lparr>xd_ID := v\<rparr>)),
      text_attribute ''nodeName'' (\<lambda>v. on_domain (\<lambda>d. d\<lparr>xd_nodename := v\<rparr>)),
      text_attribute ''busName'' (\<lambda>v. on_domain (\<lambda>d. d\<lparr>xd_busname := v\<rparr>)),
      flag_attribute ''early'' (\<lambda>v. on_domain (\<lambda>d. d\<lparr>xd_early := v\<rparr>)),
      flag_attribute ''complete'' (\<lambda>v. on_domain (\<lambda>d. d\<lparr>xd_complete := v\<rparr>)),
      enum_attribute X ''state'' (\<lambda>v. on_domain (\<lambda>d. d\<lparr>xd_state := v\<rparr>)),
      enum_attribute X ''registrationType'' (\<lambda>v. on_domain (\<lambda>d. d\<lparr>xd_registrationType := v\<rparr>)),
      text_attribute ''baseName'' (\<lambda>v w. w\<lparr>dw_mBaseName := v\<rparr>)]"

definition domain_getDefaultFromTemplate :: "domain_work \<Rightarrow> domain_work" where
  "domain_getDefaultFromTemplate w =
     (case find (\<lambda>d. xd_name d = dw_mBaseName w) (xc_listTemplateDomains (dw_mpConfig w)) of None \<Rightarrow> w | Some d \<Rightarrow> w\<lparr>dw_mDomain := d\<rparr>)"

definition domain_storeCurrentName :: "domain_work \<Rightarrow> domain_work" where
  "domain_storeCurrentName w = w\<lparr>dw_mpConfig := (dw_mpConfig w)\<lparr>xc_mCurrentDomain := xd_name (dw_mDomain w)\<rparr>\<rparr>"

definition domain_copy :: "domain_work \<Rightarrow> (am_Error_e \<times> domain_work) option" where
  "domain_copy w = Some (E_OK, w\<lparr>dw_mpConfig := (dw_mpConfig w)\<lparr>xc_mCurrentDomain := []\<rparr>\<rparr>)"

text \<open>The sources, sinks and gateways of a domain become those of the configuration, also within a template.\<close>

definition config_child :: "xml_config child \<Rightarrow> domain_work child" where
  "config_child = focus dw_mpConfig (\<lambda>c w. w\<lparr>dw_mpConfig := c\<rparr>)"

definition domain_node :: "xml_env \<Rightarrow> domain_work element" where
  "domain_node X = complex_parse ''domain'' [(''baseName'', domain_getDefaultFromTemplate), (''name'', domain_storeCurrentName)]
     (domain_attributes X)
     [config_child (list_parse (source_list X add_source)), config_child (list_parse (sink_list X add_sink)),
      config_child (list_parse (gateway_list X add_gateway))] domain_copy"

definition domain_list :: "xml_env \<Rightarrow> (xml_domain \<Rightarrow> xml_config \<Rightarrow> xml_config) \<Rightarrow> (xml_config, domain_work) list_node" where
  "domain_list X push = \<lparr>ln_new = domain_node_new, ln_node = domain_node X, ln_leave = \<lambda>w _. dw_mpConfig w,
     ln_push_back = \<lambda>w. push (dw_mDomain w)\<rparr>"

end
