(* ===== verification/Xml_Config.thy ===== *)
theory Xml_Config
  imports Xml_Points
begin

text \<open>
  The nodes of classes, policies and templates of the configuration, the whole document, and
  \<open>CAmXmlConfigParser::parse\<close>.
\<close>

section \<open>Classes\<close>

record class_work =
  kw_mClass :: xml_class
  kw_mTopologyStrings :: "string list"

definition string_node :: "string \<Rightarrow> string element" where
  "string_node tag = simple_parse tag [] (\<lambda>str _. str)"

definition class_work_new :: class_work where
  "class_work_new = \<lparr>kw_mClass = \<lparr>xl_ID = 0, xl_name = [], xl_type = 1, xl_priority = 99, xl_listTopologies = [], xl_listClassProperties = [],
     xl_isVolumePersistencySupported = False, xl_defaultVolume = AM_MUTE\<rparr>, kw_mTopologyStrings = []\<rparr>"

definition on_class :: "(xml_class \<Rightarrow> xml_class) \<Rightarrow> class_work \<Rightarrow> class_work" where
  "on_class f w = w\<lparr>kw_mClass := f (kw_mClass w)\<rparr>"

text \<open>The topologies that parse are kept, but the result is that of the last one.\<close>

definition class_copy :: "class_work \<Rightarrow> (am_Error_e \<times> class_work) option" where
  "class_copy w = (case copyTopologies (kw_mTopologyStrings w) of
     (err, ts) \<Rightarrow> Some (err, on_class (\<lambda>k. k\<lparr>xl_listTopologies := xl_listTopologies k @ ts\<rparr>) w))"

definition config_class_node :: "xml_env \<Rightarrow> class_work element" where
  "config_class_node X = complex_parse ''class'' []
     [id_attribute X ''id'' (\<lambda>v. on_class (\<lambda>k. k\<lparr>xl_ID := v\<rparr>)),
      text_attribute ''name'' (\<lambda>v. on_class (\<lambda>k. k\<lparr>xl_name := v\<rparr>)),
      enum_attribute X ''type'' (\<lambda>v. on_class (\<lambda>k. k\<lparr>xl_type := v\<rparr>)),
      long_attribute ''priority'' (\<lambda>v. on_class (\<lambda>k. k\<lparr>xl_priority := v\<rparr>)),
      flag_attribute ''isVolumePersistencySupported'' (\<lambda>v. on_class (\<lambda>k. k\<lparr>xl_isVolumePersistencySupported := v\<rparr>)),
      number_attribute ''defaultVolume'' (\<lambda>v. on_class (\<lambda>k. k\<lparr>xl_defaultVolume := v\<rparr>))]
     [list_parse (plain_list [] (string_node ''topology'') (\<lambda>t w. w\<lparr>kw_mTopologyStrings := kw_mTopologyStrings w @ [t]\<rparr>)),
      list_parse (plain_list (0, 0) (class_property_node X) (\<lambda>p. on_class (\<lambda>k. k\<lparr>xl_listClassProperties := xl_listClassProperties k @ [p]\<rparr>)))]
     class_copy"

definition add_class :: "class_work \<Rightarrow> xml_config \<Rightarrow> xml_config" where
  "add_class w c = c\<lparr>xc_listClasses := xc_listClasses c @ [kw_mClass w]\<rparr>"

text \<open>\<open>CAmEncapsulatedListNode\<close>: an element that only holds a list.\<close>

definition encapsulated_list :: "string \<Rightarrow> ('s, 't) list_node \<Rightarrow> 's child" where
  "encapsulated_list tag L = element_child (complex_parse tag [] [] [list_parse L] no_check)"

section \<open>Policies\<close>

text \<open>The attributes of an action are texts or, if they name a constant, numbers, -1 if there is none.\<close>

record action_work =
  aw_actionType :: int
  aw_text :: "string \<Rightarrow> string"
  aw_number :: "string \<Rightarrow> int"

definition action_work_new :: action_work where
  "action_work_new = \<lparr>aw_actionType = 0, aw_text = (\<lambda>_. []), aw_number = (\<lambda>_. - 1)\<rparr>"

definition action_names :: "string list" where
  "action_names = [''className'', ''connectionName'', ''sourceName'', ''sinkName'', ''gatewayName'', ''exceptSource'', ''exceptSink'', ''exceptClass'']"

definition action_texts :: "string list" where
  "action_texts = [''rampTime'', ''mainVolumeStep'', ''mainVolume'', ''volumeStep'', ''volume'', ''propertyValue'', ''timeOut'', ''pattern'',
     ''connectionState'', ''debugValue'', ''connectionFormat'', ''notificationConfigurationParam'', ''listMainSoundProperties'', ''listSystemProperties'']"

definition action_numbers :: "string list" where
  "action_numbers = [''rampType'', ''muteState'', ''order'', ''propertyType'', ''debugType'', ''notificationConfigurationType'',
     ''notificationConfigurationStatus'']"

definition action_attributes :: "xml_env \<Rightarrow> action_work attribute list" where
  "action_attributes X =
     enum_attribute X ''type'' (\<lambda>i w. w\<lparr>aw_actionType := i\<rparr>)
     # map (\<lambda>nm. name_attribute nm (\<lambda>w. aw_text w nm) (\<lambda>v w. w\<lparr>aw_text := (aw_text w)(nm := v)\<rparr>)) action_names
     @ map (\<lambda>nm. text_attribute nm (\<lambda>v w. w\<lparr>aw_text := (aw_text w)(nm := v)\<rparr>)) action_texts
     @ map (\<lambda>nm. enum_attribute X nm (\<lambda>i w. w\<lparr>aw_number := (aw_number w)(nm := i)\<rparr>)) action_numbers"

definition copyStringInMap :: "string \<Rightarrow> string \<Rightarrow> (string \<times> string) list \<Rightarrow> (string \<times> string) list" where
  "copyStringInMap keyName v m = (if v = [] then m else om_insert keyName v m)"

definition action_parameters :: "action_work \<Rightarrow> (string \<times> string) list" where
  "action_parameters w =
     (let t = (\<lambda>nm m. copyStringInMap nm (aw_text w nm) m);
          n = (\<lambda>nm m. if aw_number w nm = - 1 then m else copyStringInMap nm (dec (aw_number w nm)) m);
          timeOut = (\<lambda>m. copyStringInMap ''timeOut'' (if aw_text w ''timeOut'' = [] then dec 5000 else aw_text w ''timeOut'') m)
      in foldl (\<lambda>m f. f m) []
        [t ''className'', t ''connectionName'', t ''connectionState'', t ''sourceName'', t ''sinkName'', t ''gatewayName'', n ''rampType'',
         t ''rampTime'', n ''muteState'', t ''mainVolumeStep'', t ''mainVolume'', t ''volumeStep'', t ''volume'', n ''order'', n ''propertyType'',
         t ''propertyValue'', timeOut, t ''pattern'', n ''debugType'', t ''debugValue'', t ''connectionFormat'', t ''exceptSource'',
         t ''exceptSink'', t ''exceptClass'', n ''notificationConfigurationType'', n ''notificationConfigurationStatus'',
         t ''notificationConfigurationParam'', t ''listMainSoundProperties'', t ''listSystemProperties''])"

definition action_node :: "xml_env \<Rightarrow> action_work element" where
  "action_node X = complex_parse ''action'' [] (action_attributes X) [] no_check"

definition action_of :: "action_work \<Rightarrow> xml_action" where
  "action_of w = \<lparr>xa_actionType = aw_actionType w, xa_mapParameters = action_parameters w\<rparr>"

record process_work =
  rw_mProcess :: xml_process
  rw_mListConditions :: "string list"

definition process_work_new :: process_work where
  "process_work_new = \<lparr>rw_mProcess = \<lparr>xr_comment = [], xr_priority = 49, xr_stopEvaluation = False, xr_listConditions = [], xr_listActions = []\<rparr>,
     rw_mListConditions = []\<rparr>"

definition on_process :: "(xml_process \<Rightarrow> xml_process) \<Rightarrow> process_work \<Rightarrow> process_work" where
  "on_process f w = w\<lparr>rw_mProcess := f (rw_mProcess w)\<rparr>"

text \<open>Reading conditions ends at the first that does not parse. The outer option is a read behind the text.\<close>

fun read_conditions :: "xml_env \<Rightarrow> string list \<Rightarrow> (am_Error_e \<times> gc_ConditionStruct_s list) option" where
  "read_conditions X [] = Some (E_OK, [])"
| "read_conditions X (t # ts) =
     (case parseCondition (xv_enums X) t of
        None \<Rightarrow> None
      | Some (Inl err) \<Rightarrow> Some (err, [])
      | Some (Inr c) \<Rightarrow> map_option (\<lambda>(err, cs). (err, c # cs)) (read_conditions X ts))"

definition process_copy :: "xml_env \<Rightarrow> process_work \<Rightarrow> (am_Error_e \<times> process_work) option" where
  "process_copy X w = map_option (\<lambda>(err, cs). (err, on_process (\<lambda>p. p\<lparr>xr_listConditions := xr_listConditions p @ cs\<rparr>) w))
     (read_conditions X (rw_mListConditions w))"

definition bool_node :: "string \<Rightarrow> bool element" where
  "bool_node tag = simple_parse tag [] (\<lambda>str _. str = ''TRUE'' \<or> str = ''true'' \<or> str = ''1'')"

definition process_node :: "xml_env \<Rightarrow> process_work element" where
  "process_node X = complex_parse ''process'' []
     [text_attribute ''name'' (\<lambda>v. on_process (\<lambda>p. p\<lparr>xr_comment := v\<rparr>)), long_attribute ''priority'' (\<lambda>v. on_process (\<lambda>p. p\<lparr>xr_priority := v\<rparr>))]
     [list_parse (plain_list [] (string_node ''condition'') (\<lambda>t w. w\<lparr>rw_mListConditions := rw_mListConditions w @ [t]\<rparr>)),
      list_parse (plain_list action_work_new (action_node X) (\<lambda>a. on_process (\<lambda>p. p\<lparr>xr_listActions := xr_listActions p @ [action_of a]\<rparr>))),
      focus (\<lambda>w. xr_stopEvaluation (rw_mProcess w)) (\<lambda>b. on_process (\<lambda>p. p\<lparr>xr_stopEvaluation := b\<rparr>)) (element_child (bool_node ''break''))]
     (process_copy X)"

record policy_work =
  qw_mPolicy :: xml_policy
  qw_mTriggerAttributes :: string

definition policy_work_new :: policy_work where
  "policy_work_new = \<lparr>qw_mPolicy = \<lparr>xo_listEvents = [], xo_listProcesses = []\<rparr>, qw_mTriggerAttributes = []\<rparr>"

definition on_policy :: "(xml_policy \<Rightarrow> xml_policy) \<Rightarrow> policy_work \<Rightarrow> policy_work" where
  "on_policy f w = w\<lparr>qw_mPolicy := f (qw_mPolicy w)\<rparr>"

definition policy_copy :: "xml_env \<Rightarrow> policy_work \<Rightarrow> (am_Error_e \<times> policy_work) option" where
  "policy_copy X w = Some (E_OK, on_policy (\<lambda>p. p\<lparr>xo_listEvents := parseTrigger X (string_parser (qw_mTriggerAttributes w) (CHR ''|''))\<rparr>) w)"

definition policy_node :: "xml_env \<Rightarrow> policy_work element" where
  "policy_node X = complex_parse ''policy'' [] [text_attribute ''trigger'' (\<lambda>v w. w\<lparr>qw_mTriggerAttributes := v\<rparr>)]
     [list_parse (plain_list process_work_new (process_node X)
        (\<lambda>r. on_policy (\<lambda>p. p\<lparr>xo_listProcesses := xo_listProcesses p @ [rw_mProcess r]\<rparr>)))] (policy_copy X)"

definition add_policy :: "policy_work \<Rightarrow> xml_config \<Rightarrow> xml_config" where
  "add_policy w c = c\<lparr>xc_listPolicies := xc_listPolicies c @ [qw_mPolicy w]\<rparr>"

section \<open>Templates\<close>

text \<open>
  The elements of a template follow each other with the same tag. A name that is missing is that of the element
  before. What a list holds is stored under the name; the pointer stays at the last element of the tag, and moves on to the
  next one only to go on, or when the list in front ended at something else.
\<close>

definition template_name :: "xml_node \<Rightarrow> string \<Rightarrow> string" where
  "template_name n mName = (case map_of (xn_props n) ''name'' of Some v \<Rightarrow> v | None \<Rightarrow> mName)"

function template_loop :: "string \<Rightarrow> (xml_node \<Rightarrow> (parse_status \<times> 'a) option) \<Rightarrow> (string \<Rightarrow> 'a \<Rightarrow> 's \<Rightarrow> 's) \<Rightarrow> string \<Rightarrow> 's child" where
  "template_loop tag inner store mName [] s = Some (PARSE_TAG_MISMATCH, [], s)"
| "template_loop tag inner store mName (n # ns) s =
     (if xn_name n \<noteq> tag then Some (PARSE_TAG_MISMATCH, n # ns, s)
      else (case inner n of
              None \<Rightarrow> None
            | Some (r, v) \<Rightarrow>
                (let nm = template_name n mName; s' = store nm v s; p = getNextElementNode (n # ns) in
                 if p = [] \<or> xn_name (hd p) \<noteq> tag then Some (r, n # ns, s')
                 else if r = PARSE_SUCCESS then template_loop tag inner store nm p s' else Some (r, p, s'))))"
  by pat_completeness auto
termination
  by (relation "measure (\<lambda>(tag, inner, store, nm, p, s). length p)") (auto simp: length_dropWhile_le less_Suc_eq_le)

text \<open>\<open>CAmEncapsulatedTemplateList\<close>: a template without any element is a null pointer.\<close>

definition template_list :: "string \<Rightarrow> ('a list, 't) list_node \<Rightarrow> (string \<Rightarrow> 'a list \<Rightarrow> 's \<Rightarrow> 's) \<Rightarrow> 's child" where
  "template_list tag L put = template_loop tag
     (\<lambda>n. map_option (\<lambda>(r, p, xs). (r, xs)) (list_parse L (getNextElementNode (xn_children n)) []))
     (\<lambda>nm xs s. if xs = [] then s else put nm xs s) []"

text \<open>\<open>CAmEncapsulatedTemplateMap\<close>, of which there is one.\<close>

definition template_mappings :: "xml_env \<Rightarrow> (string \<Rightarrow> msp_maps \<Rightarrow> 's \<Rightarrow> 's) \<Rightarrow> 's child" where
  "template_mappings X put = template_loop ''listmapMSPToSP''
     (\<lambda>n. case mapping_loop X PARSE_TAG_MISMATCH (getNextElementNode (xn_children n)) (Map.empty, Map.empty) of (r, p, m) \<Rightarrow> Some (r, (r, m)))
     (\<lambda>nm (r, m) s. if r = PARSE_SUCCESS then put nm m s else s) []"

text \<open>\<open>CAmTemplateMap\<close>: texts by name, of which an empty one is not stored.\<close>

definition template_map :: "string \<Rightarrow> (string \<Rightarrow> string \<Rightarrow> 's \<Rightarrow> 's) \<Rightarrow> 's child" where
  "template_map tag put = template_loop tag
     (\<lambda>n. Some (PARSE_SUCCESS, case xn_string n of Some t \<Rightarrow> t | None \<Rightarrow> []))
     (\<lambda>nm str s. if str = [] then s else put nm str s) []"

record template_work =
  tw_mpConfig :: xml_config
  tw_mMapTemplateScaleConversionMaps :: "(string \<times> string) list"
  tw_mMapTemplateConnectionFormats :: "(string \<times> string) list"
  tw_mMapTemplateConversionMatrix :: "(string \<times> string) list"

definition template_config :: "xml_config child \<Rightarrow> template_work child" where
  "template_config = focus tw_mpConfig (\<lambda>c w. w\<lparr>tw_mpConfig := c\<rparr>)"

definition template_children :: "xml_env \<Rightarrow> template_work child list" where
  "template_children X =
     [template_map ''scaleConversionMap''
        (\<lambda>nm v w. w\<lparr>tw_mMapTemplateScaleConversionMaps := om_insert nm v (tw_mMapTemplateScaleConversionMaps w)\<rparr>),
      template_config (list_parse (domain_list X (\<lambda>d c. c\<lparr>xc_listTemplateDomains := xc_listTemplateDomains c @ [d]\<rparr>))),
      template_config (list_parse (source_list X (\<lambda>p c. c\<lparr>xc_listTemplateSources := xc_listTemplateSources c @ [p]\<rparr>))),
      template_config (list_parse (sink_list X (\<lambda>p c. c\<lparr>xc_listTemplateSinks := xc_listTemplateSinks c @ [p]\<rparr>))),
      template_config (list_parse (gateway_list X (\<lambda>g c. c\<lparr>xc_listTemplateGateways := xc_listTemplateGateways c @ [g]\<rparr>))),
      template_config (template_list ''soundProperties'' (plain_list sc_init (config_sound_node X) (\<lambda>p ps. ps @ [p]))
        (\<lambda>nm ps c. c\<lparr>xc_listTemplateSoundProperties := (xc_listTemplateSoundProperties c)(nm \<mapsto> ps)\<rparr>)),
      template_config (template_list ''mainSoundProperties'' (plain_list mw_init (config_main_sound_node X) push_main_sound)
        (\<lambda>nm ps c. c\<lparr>xc_listTemplateMainSoundProperties := (xc_listTemplateMainSoundProperties c)(nm \<mapsto> ps)\<rparr>)),
      template_config (template_list ''systemProperties'' (plain_list xy_init (config_system_node X) (\<lambda>p ps. ps @ [p]))
        (\<lambda>nm ps c. c\<lparr>xc_listTemplateSystemProperties := (xc_listTemplateSystemProperties c)(nm \<mapsto> ps)\<rparr>)),
      template_config (template_list ''notificationConfigurations'' (plain_list nc_init (notification_node X ''notificationConfiguration'') (\<lambda>p ps. ps @ [p]))
        (\<lambda>nm ps c. c\<lparr>xc_listTemplateNotificationConfigurations := (xc_listTemplateNotificationConfigurations c)(nm \<mapsto> ps)\<rparr>)),
      template_map ''connectionFormat''
        (\<lambda>nm v w. w\<lparr>tw_mMapTemplateConnectionFormats := om_insert nm v (tw_mMapTemplateConnectionFormats w)\<rparr>),
      template_config (template_mappings X (\<lambda>nm m c. c\<lparr>xc_listTemplateMapMSPToSP := (xc_listTemplateMapMSPToSP c)(nm \<mapsto> m)\<rparr>)),
      template_map ''conversionMatrix''
        (\<lambda>nm v w. w\<lparr>tw_mMapTemplateConversionMatrix := om_insert nm v (tw_mMapTemplateConversionMatrix w)\<rparr>)]"

text \<open>
  The texts are read at the end, in the order of their names; a scale may name one that comes before it. The entry
  of a scale is there, empty, before its text is read.
\<close>

definition template_copy :: "xml_env \<Rightarrow> template_work \<Rightarrow> (am_Error_e \<times> template_work) option" where
  "template_copy X w =
     (let scales = foldl (\<lambda>m (nm, str). let old = (case m nm of None \<Rightarrow> Map.empty | Some x \<Rightarrow> x)
                in m(nm \<mapsto> populateScalingMap X str (m(nm \<mapsto> old)) old))
            (xc_listTemplateMapScaleConversions (tw_mpConfig w)) (tw_mMapTemplateScaleConversionMaps w);
          formats = foldl (\<lambda>m (nm, str). m(nm \<mapsto> parseConnectionFormats X (string_parser str (CHR '';''))))
            (xc_listTemplateConnectionFormats (tw_mpConfig w)) (tw_mMapTemplateConnectionFormats w);
          matrices = foldl (\<lambda>m (nm, str). m(nm \<mapsto> parseCommaSeperateEnumerationsList X (string_parser str (CHR '';''))))
            (xc_listTemplateConversionMatrix (tw_mpConfig w)) (tw_mMapTemplateConversionMatrix w)
      in Some (E_OK, w\<lparr>tw_mpConfig := (tw_mpConfig w)\<lparr>xc_listTemplateMapScaleConversions := scales,
           xc_listTemplateConnectionFormats := formats, xc_listTemplateConversionMatrix := matrices\<rparr>\<rparr>))"

definition template_node :: "xml_env \<Rightarrow> template_work element" where
  "template_node X = complex_parse ''templates'' [] [] (template_children X) (template_copy X)"

definition template_child :: "xml_env \<Rightarrow> xml_config child" where
  "template_child X = focus (\<lambda>c. \<lparr>tw_mpConfig = c, tw_mMapTemplateScaleConversionMaps = [], tw_mMapTemplateConnectionFormats = [],
     tw_mMapTemplateConversionMatrix = []\<rparr>) (\<lambda>w _. tw_mpConfig w) (element_child (template_node X))"

section \<open>The document\<close>

definition add_domain :: "xml_domain \<Rightarrow> xml_config \<Rightarrow> xml_config" where
  "add_domain d c = c\<lparr>xc_listDomains := xc_listDomains c @ [d]\<rparr>"

definition system_node :: "xml_env \<Rightarrow> xml_config element" where
  "system_node X = complex_parse ''system'' [] []
     [template_child X, list_parse (domain_list X add_domain), list_parse (source_list X add_source),
      list_parse (sink_list X add_sink), list_parse (gateway_list X add_gateway)] no_check"

definition add_system_property :: "xml_system_property \<Rightarrow> xml_config \<Rightarrow> xml_config" where
  "add_system_property p c = c\<lparr>xc_listSystemProperties := xc_listSystemProperties c @ [p]\<rparr>"

definition configuration_node :: "xml_env \<Rightarrow> xml_config element" where
  "configuration_node X = complex_parse ''generic'' [] []
     [encapsulated_list ''classes'' (plain_list class_work_new (config_class_node X) add_class),
      element_child (system_node X),
      encapsulated_list ''policies'' (plain_list policy_work_new (policy_node X) add_policy),
      encapsulated_list ''properties'' (plain_list xy_init (config_system_node X) add_system_property)] no_check"

definition xc_empty :: xml_config where
  "xc_empty = \<lparr>xc_listSources = [], xc_listSinks = [], xc_listGateways = [], xc_listDomains = [], xc_listClasses = [], xc_listPolicies = [],
     xc_listSystemProperties = [], xc_listTemplateSources = [], xc_listTemplateSinks = [], xc_listTemplateGateways = [],
     xc_listTemplateDomains = [], xc_listTemplateSoundProperties = Map.empty, xc_listTemplateSystemProperties = Map.empty,
     xc_listTemplateMainSoundProperties = Map.empty, xc_listTemplateNotificationConfigurations = Map.empty,
     xc_listTemplateConnectionFormats = Map.empty, xc_listTemplateMapScaleConversions = Map.empty,
     xc_listTemplateMapMSPToSP = Map.empty, xc_listTemplateConversionMatrix = Map.empty, xc_mCurrentDomain = [],
     xc_mCurrentSource = [], xc_mCurentSink = []\<rparr>"

text \<open>The result of the root node is not looked at.\<close>

definition parseConfiguration :: "xml_env \<Rightarrow> xml_node option \<Rightarrow> xml_config \<Rightarrow> (am_Error_e \<times> xml_config) option" where
  "parseConfiguration X document c =
     (case document of None \<Rightarrow> Some (E_NOT_POSSIBLE, c) | Some n \<Rightarrow> map_option (\<lambda>(r, c'). (E_OK, c')) (configuration_node X n c))"

text \<open>
  \<open>xmlParseFile\<close> gives the root element of a file, and \<open>float\<close> reads floating point numbers. The table of
  constants is static; it keeps what was read before.
\<close>

definition config_path :: "string option \<Rightarrow> string" where
  "config_path env = (case env of Some p \<Rightarrow> p | None \<Rightarrow> ''/etc/audiomanager/controller/generic.xml'')"

definition parse_config :: "(string \<Rightarrow> xml_node option) \<Rightarrow> (string \<Rightarrow> rat) \<Rightarrow> string option \<Rightarrow> (string \<rightharpoonup> int) \<Rightarrow> xml_config
    \<Rightarrow> (am_Error_e \<times> (string \<rightharpoonup> int) \<times> xml_config) option" where
  "parse_config xmlParseFile float env enums c =
     (case parseXSDFile (xmlParseFile ''/etc/audiomanager/controller/audiomanagertypes.xsd'') enums of
        None \<Rightarrow> None
      | Some (r1, enums1) \<Rightarrow>
          if r1 \<noteq> E_OK then Some (E_UNKNOWN, enums1, c)
          else (case parseXSDFile (xmlParseFile ''/etc/audiomanager/controller/customtypes.xsd'') enums1 of
                  None \<Rightarrow> None
                | Some (r2, enums2) \<Rightarrow>
                    if r2 \<noteq> E_OK then Some (E_UNKNOWN, enums2, c)
                    else map_option (\<lambda>(r, c'). (if r = E_OK then E_OK else E_UNKNOWN, enums2, c'))
                      (parseConfiguration \<lparr>xv_enums = enums2, xv_float = float\<rparr> (xmlParseFile (config_path env)) c)))"

end
