(* ===== verification/Xml_Props.thy ===== *)
theory Xml_Props
  imports Xml_Config
begin

text \<open>
  What the reading of the configuration gives: which domain the elements belong to, what a template passes on, and
  what is left when an element is malformed.
\<close>

section \<open>What reading does to the shared state\<close>

text \<open>The contract of everything that only adds: an order between the states, kept by all readers made of such readers.\<close>

locale state_order =
  fixes R :: "'s \<Rightarrow> 's \<Rightarrow> bool"
  assumes keeps_refl: "R s s" and keeps_trans: "R s t \<Longrightarrow> R t u \<Longrightarrow> R s u"
begin

lemma foldl_keeps: "(\<And>a s. a \<in> set as \<Longrightarrow> R s (f s a)) \<Longrightarrow> R s (foldl f s as)"
  by (induction as arbitrary: s) (auto intro: keeps_refl keeps_trans)

lemma attributes_keep:
  assumes "\<And>a v s. a \<in> set attrs \<Longrightarrow> R s (at_save a v s)"
  shows "R s (attributes_parse n attrs s)"
  unfolding attributes_parse_def using assms by (intro foldl_keeps) (auto simp: attribute_parse_def keeps_refl split: option.split)

lemma templates_keep:
  assumes "\<And>a v s. a \<in> set attrs \<Longrightarrow> R s (at_save a v s)" and "\<And>m s. m \<in> snd ` set ts \<Longrightarrow> R s (m s)"
  shows "R s (templates_parse n ts attrs s)"
  unfolding templates_parse_def
proof (rule foldl_keeps, clarsimp)
  fix nm m s assume nm: "(nm, m) \<in> set ts"
  show "R s (case find (\<lambda>a. at_name a = nm) attrs of None \<Rightarrow> s | Some a \<Rightarrow> m (attribute_parse n a s))"
  proof (cases "find (\<lambda>a. at_name a = nm) attrs")
    case (Some a)
    then have "a \<in> set attrs" by (auto simp: find_Some_iff)
    then have "R s (attribute_parse n a s)" using assms(1) by (auto simp: attribute_parse_def keeps_refl split: option.split)
    moreover have "m \<in> snd ` set ts" using nm by force
    ultimately show ?thesis using assms(2) keeps_trans by (auto simp: Some)
  qed (simp add: keeps_refl)
qed

lemma children_keep:
  assumes "\<And>c p s r p' s'. c \<in> set cs \<Longrightarrow> c p s = Some (r, p', s') \<Longrightarrow> R s s'" and "children_parse cs p s = Some s'"
  shows "R s s'"
  using assms
proof (induction cs arbitrary: p s)
  case (Cons c cs)
  show ?case
  proof (cases "p = []")
    case False
    then obtain r p1 s1 where c: "c p s = Some (r, p1, s1)" using Cons.prems(2) by (auto split: option.splits)
    have "R s s1" by (rule Cons.prems(1) [of c p s r p1 s1]) (simp_all add: c)
    moreover have "children_parse cs (if r = PARSE_SUCCESS then getNextElementNode p1 else p1) s1 = Some s'"
      using Cons.prems(2) False c by simp
    then have "R s1 s'" by (rule Cons.IH [rotated]) (rule Cons.prems(1), rule list.set_intros(2))
    ultimately show ?thesis by (rule keeps_trans)
  qed (use Cons.prems(2) keeps_refl in simp)
qed (simp add: keeps_refl)

lemma list_keeps:
  assumes "\<And>n s r t. ln_node L n (ln_new L s) = Some (r, t) \<Longrightarrow>
      R s (ln_leave L t s) \<and> (r = PARSE_SUCCESS \<longrightarrow> R (ln_leave L t s) (ln_push_back L t (ln_leave L t s)))"
    and "list_parse L p s = Some (r, p', s')"
  shows "R s s'"
  using assms(2)
proof (induction "length p" arbitrary: p s rule: less_induct)
  case less
  then obtain n ns where p: "p = n # ns" by (cases p) auto
  let ?q = "getNextElementNode (n # ns)"
  obtain r1 t where t: "ln_node L n (ln_new L s) = Some (r1, t)" using less.prems by (auto simp: p split: option.splits)
  note step = assms(1) [OF t]
  show ?case
  proof (cases "r1 = PARSE_SUCCESS \<and> ?q \<noteq> []")
    case True
    have "R (ln_push_back L t (ln_leave L t s)) s'"
      using True less.prems t length_getNextElementNode [of n ns]
      by (intro less.hyps [of ?q]) (simp_all add: p Let_def del: getNextElementNode.simps)
    then show ?thesis using step True by (blast intro: keeps_trans)
  next
    case False
    then show ?thesis using less.prems step t by (auto simp: p Let_def intro: keeps_trans split: if_splits)
  qed
qed

lemma complex_keeps:
  assumes "\<And>a v s. a \<in> set attrs \<Longrightarrow> R s (at_save a v s)" and "\<And>m s. m \<in> snd ` set ts \<Longrightarrow> R s (m s)"
    and "\<And>c p s r p' s'. c \<in> set cs \<Longrightarrow> c p s = Some (r, p', s') \<Longrightarrow> R s s'" and "\<And>s e s'. copy s = Some (e, s') \<Longrightarrow> R s s'"
    and "complex_parse tag ts attrs cs copy n s = Some (r, s')"
  shows "R s s'"
proof (cases "xn_name n = tag")
  case True
  let ?s2 = "attributes_parse n (filter (\<lambda>a. at_name a \<notin> fst ` set ts) attrs) (templates_parse n ts attrs s)"
  obtain s3 e where s3: "children_parse cs (getNextElementNode (xn_children n)) ?s2 = Some s3" "copy s3 = Some (e, s')"
    using assms(5) True by (auto simp: complex_parse_def Let_def split: option.splits)
  have "R s (templates_parse n ts attrs s)" by (rule templates_keep) (use assms(1,2) in blast)+
  moreover have "R (templates_parse n ts attrs s) ?s2" by (rule attributes_keep) (use assms(1) in auto)
  moreover have "R ?s2 s3" by (rule children_keep [OF _ s3(1)]) (use assms(3) in blast)
  ultimately show ?thesis using assms(4) [OF s3(2)] by (blast intro: keeps_trans)
qed (use assms(5) keeps_refl in \<open>simp add: complex_parse_def\<close>)

end

lemma complex_success:
  assumes "complex_parse tag ts attrs cs copy n s = Some (PARSE_SUCCESS, s')"
  shows "\<exists>s3. children_parse cs (getNextElementNode (xn_children n))
      (attributes_parse n (filter (\<lambda>a. at_name a \<notin> fst ` set ts) attrs) (templates_parse n ts attrs s)) = Some s3 \<and> copy s3 = Some (E_OK, s')"
proof -
  let ?cs = "children_parse cs (getNextElementNode (xn_children n))
      (attributes_parse n (filter (\<lambda>a. at_name a \<notin> fst ` set ts) attrs) (templates_parse n ts attrs s))"
  have eq: "(case ?cs of None \<Rightarrow> None | Some s3 \<Rightarrow> map_option (\<lambda>(err, s4). (if err = E_OK then PARSE_SUCCESS else PARSE_ERROR, s4)) (copy s3))
      = Some (PARSE_SUCCESS, s')"
    using assms unfolding complex_parse_def Let_def by (simp split: if_split_asm)
  obtain s3 where s3: "?cs = Some s3" using eq by (cases ?cs) simp_all
  have "copy s3 = Some (E_OK, s')"
    using eq by (cases "copy s3") (simp_all only: s3 option.case option.map, simp_all split: prod.splits if_split_asm)
  with s3 show ?thesis by (intro exI conjI)
qed

lemma complex_copied: "complex_parse tag ts attrs cs copy n s = Some (PARSE_SUCCESS, s') \<Longrightarrow> \<exists>s3. copy s3 = Some (E_OK, s')"
  by (drule complex_success) (elim exE conjE, rule exI)

lemma complex_childless:
  assumes "xn_name n = tag" and "xn_children n = []"
    and "copy (attributes_parse n (filter (\<lambda>a. at_name a \<notin> fst ` set ts) attrs) (templates_parse n ts attrs s)) = Some (E_OK, s')"
  shows "complex_parse tag ts attrs cs copy n s = Some (PARSE_SUCCESS, s')"
proof -
  have "children_parse cs [] t = Some t" for t by (cases cs) auto
  then show ?thesis using assms by (simp add: complex_parse_def Let_def)
qed

section \<open>The elements of a domain\<close>

text \<open>What is added belongs to the current domain.\<close>

definition grows :: "xml_config \<Rightarrow> xml_config \<Rightarrow> bool" where
  "grows c c' \<longleftrightarrow> xc_mCurrentDomain c' = xc_mCurrentDomain c \<and>
     (\<exists>ss ks gs. xc_listSources c' = xc_listSources c @ ss \<and> xc_listSinks c' = xc_listSinks c @ ks \<and> xc_listGateways c' = xc_listGateways c @ gs \<and>
        (\<forall>s\<in>set ss. xp_domainName s = xc_mCurrentDomain c) \<and> (\<forall>s\<in>set ks. xp_domainName s = xc_mCurrentDomain c) \<and>
        (xc_mCurrentDomain c \<noteq> [] \<longrightarrow> (\<forall>g\<in>set gs. xg_controlDomainName g = xc_mCurrentDomain c)))"

lemma grows_refl: "grows c c"
  by (simp add: grows_def)

lemma grows_trans: "grows c d \<Longrightarrow> grows d e \<Longrightarrow> grows c e"
  unfolding grows_def by (elim conjE exE) (simp, blast)

lemma grows_same:
  "xc_mCurrentDomain c' = xc_mCurrentDomain c \<Longrightarrow> xc_listSources c' = xc_listSources c \<Longrightarrow> xc_listSinks c' = xc_listSinks c \<Longrightarrow>
   xc_listGateways c' = xc_listGateways c \<Longrightarrow> grows c c'"
  by (simp add: grows_def)

interpretation config_order: state_order grows
  by unfold_locales (auto intro: grows_refl grows_trans)

interpretation gateway_order: state_order "\<lambda>w w'. grows (yw_mpConfig w) (yw_mpConfig w')"
  by unfold_locales (auto intro: grows_refl grows_trans)

interpretation point_order: state_order "\<lambda>w w'. grows (pw_mpConfig w) (pw_mpConfig w')"
  by unfold_locales (auto intro: grows_refl grows_trans)

interpretation domain_order: state_order "\<lambda>w w'. dw_mDomain w' = dw_mDomain w \<and> grows (dw_mpConfig w) (dw_mpConfig w')"
  by unfold_locales (auto intro: grows_refl grows_trans)

interpretation name_order: state_order "\<lambda>w w'. dw_mpConfig w' = dw_mpConfig w \<and> xd_name (dw_mDomain w') = xd_name (dw_mDomain w)"
  by unfold_locales auto

lemma focus_keeps:
  assumes "focus get put c p s = Some (r, p', s')"
  shows "\<exists>t. c p (get s) = Some (r, p', t) \<and> s' = put t s"
  using assms by (auto simp: focus_def)

lemma gateway_node_grows:
  assumes "gateway_node X n (gateway_new c) = Some (r, w)"
  shows "grows c (yw_mpConfig w) \<and>
    (r = PARSE_SUCCESS \<longrightarrow> xc_mCurrentDomain (yw_mpConfig w) \<noteq> [] \<longrightarrow> xg_controlDomainName (yw_mGateway w) = xc_mCurrentDomain (yw_mpConfig w))"
proof
  have "grows (yw_mpConfig (gateway_new c)) (yw_mpConfig w)"
    using assms unfolding gateway_node_def
    by (rule gateway_order.complex_keeps [rotated 4])
      (auto simp: gateway_attributes_def on_gateway_def gateway_getDefaultFromTemplate_def gateway_getConversionMatrix_def gateway_copy_def
        Let_def grows_refl split: option.splits)
  then show "grows c (yw_mpConfig w)" by (simp add: gateway_new_def)
  show "r = PARSE_SUCCESS \<longrightarrow> xc_mCurrentDomain (yw_mpConfig w) \<noteq> [] \<longrightarrow> xg_controlDomainName (yw_mGateway w) = xc_mCurrentDomain (yw_mpConfig w)"
    using assms unfolding gateway_node_def
    by (auto dest!: complex_copied simp: gateway_copy_def Let_def on_gateway_def prefer_current_def split: if_splits)
qed

lemma gateway_list_grows: "list_parse (gateway_list X add_gateway) p c = Some (r, p', c') \<Longrightarrow> grows c c'"
proof (erule config_order.list_keeps [rotated])
  fix n s r t assume "ln_node (gateway_list X add_gateway) n (ln_new (gateway_list X add_gateway) s) = Some (r, t)"
  then have "gateway_node X n (gateway_new s) = Some (r, t)" by (simp add: gateway_list_def)
  from gateway_node_grows [OF this]
  show "grows s (ln_leave (gateway_list X add_gateway) t s) \<and> (r = PARSE_SUCCESS \<longrightarrow>
      grows (ln_leave (gateway_list X add_gateway) t s) (ln_push_back (gateway_list X add_gateway) t (ln_leave (gateway_list X add_gateway) t s)))"
    by (simp add: gateway_list_def add_gateway_def) (auto simp: grows_def)
qed

lemma point_list_grows:
  "list_parse (plain_list i e (\<lambda>x. on_pt (f x))) p w = Some (r, p', w') \<Longrightarrow> grows (pw_mpConfig w) (pw_mpConfig w')"
  by (erule point_order.list_keeps [rotated]) (simp add: plain_list_def on_pt_def grows_refl)

lemma point_children_grow:
  assumes "c \<in> set (point_children X)" and "c p w = Some (r, p', w')"
  shows "grows (pw_mpConfig w) (pw_mpConfig w')"
  using assms unfolding point_children_def
  by (auto simp: on_pt_def grows_refl dest!: focus_keeps gateway_list_grows intro: point_list_grows)

lemma notification_list_grows:
  "notification_list X tag push p w = Some (r, p', w') \<Longrightarrow> grows (pw_mpConfig w) (pw_mpConfig w')"
  unfolding notification_list_def by (rule point_list_grows)

lemma point_attributes_grow:
  "a \<in> set (point_attributes X @ template_attributes) \<Longrightarrow> grows (pw_mpConfig w) (pw_mpConfig (at_save a v w))"
  by (auto simp: point_attributes_def template_attributes_def on_pt_def grows_refl split: option.split)

lemma point_templates_grow:
  assumes "m \<in> snd ` set (point_templates (from_template ts) store)" and "\<And>w. grows (pw_mpConfig w) (pw_mpConfig (store w))"
  shows "grows (pw_mpConfig w) (pw_mpConfig (m w))"
  using assms
  by (auto simp: point_templates_def from_template_def getSoundPropertyList_def getMainSoundPropertyList_def getNotificationConfiguration_def
      getMainNotificationConfiguration_def getConnectionFormats_def getMapMSPToSP_def on_pt_def Let_def grows_refl split: option.splits)

lemma source_node_grows:
  assumes "source_node X n (point_new source_init c) = Some (r, w)"
  shows "grows c (pw_mpConfig w) \<and> (r = PARSE_SUCCESS \<longrightarrow> xp_domainName (pw_point w) = xc_mCurrentDomain (pw_mpConfig w))"
proof
  have "grows (pw_mpConfig (point_new source_init c)) (pw_mpConfig w)"
    using assms unfolding source_node_def
    by (rule point_order.complex_keeps [rotated 4])
      (auto intro: point_attributes_grow point_children_grow notification_list_grows point_templates_grow
        simp: source_attributes_def source_storeCurrentName_def source_copy_def on_config_def on_pt_def read_formats_def Let_def grows_same
        split: option.split)
  then show "grows c (pw_mpConfig w)" by (simp add: point_new_def)
  show "r = PARSE_SUCCESS \<longrightarrow> xp_domainName (pw_point w) = xc_mCurrentDomain (pw_mpConfig w)"
    using assms unfolding source_node_def
    by (auto dest!: complex_copied simp: source_copy_def Let_def on_pt_def on_config_def)
qed

lemma sink_node_grows:
  assumes "sink_node X n (point_new (sink_init c) c) = Some (r, w)"
  shows "grows c (pw_mpConfig w) \<and> (r = PARSE_SUCCESS \<longrightarrow> xp_domainName (pw_point w) = xc_mCurrentDomain (pw_mpConfig w))"
proof
  have "grows (pw_mpConfig (point_new (sink_init c) c)) (pw_mpConfig w)"
    using assms unfolding sink_node_def
    by (rule point_order.complex_keeps [rotated 4])
      (auto intro: point_attributes_grow point_children_grow notification_list_grows point_templates_grow
        simp: sink_attributes_def sink_storeCurrentName_def sink_copy_def on_config_def on_pt_def read_formats_def Let_def grows_same
        split: option.split)
  then show "grows c (pw_mpConfig w)" by (simp add: point_new_def)
  show "r = PARSE_SUCCESS \<longrightarrow> xp_domainName (pw_point w) = xc_mCurrentDomain (pw_mpConfig w)"
    using assms unfolding sink_node_def
    by (auto dest!: complex_copied simp: sink_copy_def Let_def on_pt_def on_config_def)
qed

lemma source_list_grows: "list_parse (source_list X add_source) p c = Some (r, p', c') \<Longrightarrow> grows c c'"
proof (erule config_order.list_keeps [rotated])
  fix n s r t assume "ln_node (source_list X add_source) n (ln_new (source_list X add_source) s) = Some (r, t)"
  then have "source_node X n (point_new source_init s) = Some (r, t)" by (simp add: source_list_def)
  from source_node_grows [OF this]
  show "grows s (ln_leave (source_list X add_source) t s) \<and> (r = PARSE_SUCCESS \<longrightarrow>
      grows (ln_leave (source_list X add_source) t s) (ln_push_back (source_list X add_source) t (ln_leave (source_list X add_source) t s)))"
    by (simp add: source_list_def add_source_def) (auto simp: grows_def)
qed

lemma sink_list_grows: "list_parse (sink_list X add_sink) p c = Some (r, p', c') \<Longrightarrow> grows c c'"
proof (erule config_order.list_keeps [rotated])
  fix n s r t assume "ln_node (sink_list X add_sink) n (ln_new (sink_list X add_sink) s) = Some (r, t)"
  then have "sink_node X n (point_new (sink_init s) s) = Some (r, t)" by (simp add: sink_list_def)
  from sink_node_grows [OF this]
  show "grows s (ln_leave (sink_list X add_sink) t s) \<and> (r = PARSE_SUCCESS \<longrightarrow>
      grows (ln_leave (sink_list X add_sink) t s) (ln_push_back (sink_list X add_sink) t (ln_leave (sink_list X add_sink) t s)))"
    by (simp add: sink_list_def add_sink_def) (auto simp: grows_def)
qed

lemma domain_attributes_keep:
  "dw_mpConfig (attributes_parse n (filter (\<lambda>a. at_name a \<notin> fst ` set [(''baseName'', domain_getDefaultFromTemplate), (''name'', domain_storeCurrentName)]) (domain_attributes X)) w) = dw_mpConfig w \<and>
   xd_name (dw_mDomain (attributes_parse n (filter (\<lambda>a. at_name a \<notin> fst ` set [(''baseName'', domain_getDefaultFromTemplate), (''name'', domain_storeCurrentName)]) (domain_attributes X)) w)) = xd_name (dw_mDomain w)"
  by (rule name_order.attributes_keep) (auto simp: domain_attributes_def on_domain_def split: option.split)

lemma domain_templates:
  "dw_mpConfig w = c \<Longrightarrow>
   dw_mpConfig (templates_parse n [(''baseName'', domain_getDefaultFromTemplate), (''name'', domain_storeCurrentName)] (domain_attributes X) w) =
   c\<lparr>xc_mCurrentDomain := xd_name (dw_mDomain (templates_parse n [(''baseName'', domain_getDefaultFromTemplate),
      (''name'', domain_storeCurrentName)] (domain_attributes X) w))\<rparr>"
  by (auto simp: templates_parse_def domain_attributes_def domain_storeCurrentName_def domain_getDefaultFromTemplate_def attribute_parse_def
      on_domain_def split: option.split)

lemma domain_children_grow:
  assumes "children_parse [config_child (list_parse (source_list X add_source)), config_child (list_parse (sink_list X add_sink)),
      config_child (list_parse (gateway_list X add_gateway))] p w = Some w'"
  shows "dw_mDomain w' = dw_mDomain w \<and> grows (dw_mpConfig w) (dw_mpConfig w')"
  using assms
  by (rule domain_order.children_keep [rotated])
    (auto simp: config_child_def dest!: focus_keeps source_list_grows sink_list_grows gateway_list_grows)

text \<open>
  C32: A domain element that is read adds its sources, sinks and gateways behind those of the configuration, and all of
  them belong to it: the domain of a source or sink is the name of the element whatever its attribute says, and the
  controlling domain of a gateway is it when the domain has a name. Afterwards no domain is current, so that an
  element outside of it belongs to none.
\<close>

theorem domain_owns_its_elements:
  assumes "domain_node X n (domain_node_new c) = Some (PARSE_SUCCESS, w)"
  shows "\<exists>ss ks gs. xc_listSources (dw_mpConfig w) = xc_listSources c @ ss \<and> xc_listSinks (dw_mpConfig w) = xc_listSinks c @ ks \<and>
    xc_listGateways (dw_mpConfig w) = xc_listGateways c @ gs \<and> xc_mCurrentDomain (dw_mpConfig w) = [] \<and>
    (\<forall>s\<in>set ss. xp_domainName s = xd_name (dw_mDomain w)) \<and> (\<forall>s\<in>set ks. xp_domainName s = xd_name (dw_mDomain w)) \<and>
    (xd_name (dw_mDomain w) \<noteq> [] \<longrightarrow> (\<forall>g\<in>set gs. xg_controlDomainName g = xd_name (dw_mDomain w)))"
proof -
  let ?w1 = "templates_parse n [(''baseName'', domain_getDefaultFromTemplate), (''name'', domain_storeCurrentName)] (domain_attributes X) (domain_node_new c)"
  let ?w2 = "attributes_parse n (filter (\<lambda>a. at_name a \<notin> fst ` set [(''baseName'', domain_getDefaultFromTemplate), (''name'', domain_storeCurrentName)]) (domain_attributes X)) ?w1"
  let ?childs = "[config_child (list_parse (source_list X add_source)), config_child (list_parse (sink_list X add_sink)),
      config_child (list_parse (gateway_list X add_gateway))]"
  obtain w3 where w3: "children_parse ?childs (getNextElementNode (xn_children n)) ?w2 = Some w3" "domain_copy w3 = Some (E_OK, w)"
    using complex_success [OF assms [unfolded domain_node_def]] by - (elim exE conjE, rule that)
  have "dw_mpConfig ?w2 = c\<lparr>xc_mCurrentDomain := xd_name (dw_mDomain ?w2)\<rparr>"
    using domain_templates [of "domain_node_new c" c n X] domain_attributes_keep [of n X ?w1] by (simp add: domain_node_new_def)
  then show ?thesis using domain_children_grow [OF w3(1)] w3(2) by (auto simp: grows_def domain_copy_def)
qed

lemma childless_source: "\<exists>f. \<forall>w. source_node X (XmlNode True ''source'' ps str []) w = Some (PARSE_SUCCESS, f w)"
proof (rule choice, rule allI)
  fix w :: "xml_source point_work"
  show "\<exists>w'. source_node X (XmlNode True ''source'' ps str []) w = Some (PARSE_SUCCESS, w')"
    unfolding source_node_def by (rule exI, rule complex_childless) (simp_all add: source_copy_def Let_def)
qed

lemma domain_owns_its_elements_witness:
  "\<exists>w. domain_node \<lparr>xv_enums = Map.empty, xv_float = \<lambda>_. 0\<rparr>
      (XmlNode True ''domain'' [(''name'', ''high'')] None
        [XmlNode False ''text'' [] None [], XmlNode True ''source'' [(''domainName'', ''low''), (''name'', ''radio'')] None []])
      (domain_node_new xc_empty) = Some (PARSE_SUCCESS, w) \<and>
    xd_name (dw_mDomain w) = ''high'' \<and> (\<forall>s\<in>set (xc_listSources (dw_mpConfig w)). xp_domainName s = ''high'')"
proof -
  let ?X = "\<lparr>xv_enums = Map.empty, xv_float = \<lambda>_. 0\<rparr>"
  let ?src = "XmlNode True ''source'' [(''domainName'', ''low''), (''name'', ''radio'')] None []"
  let ?n = "XmlNode True ''domain'' [(''name'', ''high'')] None [XmlNode False ''text'' [] None [], ?src]"
  let ?childs = "[config_child (list_parse (source_list ?X add_source)), config_child (list_parse (sink_list ?X add_sink)),
      config_child (list_parse (gateway_list ?X add_gateway))]"
  let ?w1 = "templates_parse ?n [(''baseName'', domain_getDefaultFromTemplate), (''name'', domain_storeCurrentName)] (domain_attributes ?X) (domain_node_new xc_empty)"
  let ?w2 = "attributes_parse ?n (filter (\<lambda>a. at_name a \<notin> fst ` set [(''baseName'', domain_getDefaultFromTemplate), (''name'', domain_storeCurrentName)]) (domain_attributes ?X)) ?w1"
  obtain f where f: "\<And>w. source_node ?X ?src w = Some (PARSE_SUCCESS, f w)"
    using childless_source by blast
  obtain w3 where w3: "children_parse ?childs (getNextElementNode (xn_children ?n)) ?w2 = Some w3"
    by (simp add: config_child_def focus_def source_list_def f Let_def)
  let ?w = "w3\<lparr>dw_mpConfig := (dw_mpConfig w3)\<lparr>xc_mCurrentDomain := []\<rparr>\<rparr>"
  have w: "domain_node ?X ?n (domain_node_new xc_empty) = Some (PARSE_SUCCESS, ?w)"
    using w3 by (simp add: domain_node_def complex_parse_def Let_def domain_copy_def)
  have "xd_name (dw_mDomain ?w1) = ''high''"
    by (simp add: templates_parse_def attribute_parse_def domain_attributes_def domain_node_new_def domain_getDefaultFromTemplate_def
        domain_storeCurrentName_def on_domain_def xc_empty_def)
  then have "xd_name (dw_mDomain w3) = ''high''" using domain_children_grow [OF w3] domain_attributes_keep [of ?n ?X ?w1] by simp
  moreover have "xc_listSources xc_empty = []" by (simp add: xc_empty_def)
  ultimately show ?thesis using domain_owns_its_elements [OF w] w by auto
qed

section \<open>Templates\<close>

text \<open>The attributes of a source by name.\<close>

lemma source_attribute_of:
  "find (\<lambda>a. at_name a = ''baseName'') (source_attributes X) = Some (text_attribute ''baseName'' (\<lambda>v w. w\<lparr>pw_mBaseName := v\<rparr>))"
  "find (\<lambda>a. at_name a = ''name'') (source_attributes X) = Some (text_attribute ''name'' (\<lambda>v. on_pt (\<lambda>p. p\<lparr>xp_name := v\<rparr>)))"
  "find (\<lambda>a. at_name a = ''soundPropertiesTemplateName'') (source_attributes X) =
     Some (text_attribute ''soundPropertiesTemplateName'' (\<lambda>v w. w\<lparr>pw_mSoundPropertiesTemplateName := v\<rparr>))"
  "find (\<lambda>a. at_name a = ''mainSoundPropertiesTemplateName'') (source_attributes X) =
     Some (text_attribute ''mainSoundPropertiesTemplateName'' (\<lambda>v w. w\<lparr>pw_mMainSoundPropertiesTemplateName := v\<rparr>))"
  "find (\<lambda>a. at_name a = ''notificationConfigurationsTemplateName'') (source_attributes X) =
     Some (text_attribute ''notificationConfigurationsTemplateName'' (\<lambda>v w. w\<lparr>pw_mNotificationConfigurationsTemplateName := v\<rparr>))"
  "find (\<lambda>a. at_name a = ''mainNotificationConfigurationsTemplateName'') (source_attributes X) =
     Some (text_attribute ''mainNotificationConfigurationsTemplateName'' (\<lambda>v w. w\<lparr>pw_mMainNotificationConfigurationTemplateName := v\<rparr>))"
  "find (\<lambda>a. at_name a = ''connectionFormatsTemplateName'') (source_attributes X) =
     Some (text_attribute ''connectionFormatsTemplateName'' (\<lambda>v w. w\<lparr>pw_mConnectionFormatsTemplateName := v\<rparr>))"
  "find (\<lambda>a. at_name a = ''mapMSPToSPTemplateName'') (source_attributes X) =
     Some (text_attribute ''mapMSPToSPTemplateName'' (\<lambda>v w. w\<lparr>pw_mMapMSPToSPTemplateName := v\<rparr>))"
  by (simp_all add: source_attributes_def point_attributes_def template_attributes_def)

lemma no_template_name:
  "pw_mSoundPropertiesTemplateName w = [] \<Longrightarrow> getSoundPropertyList w = w"
  "pw_mMainSoundPropertiesTemplateName w = [] \<Longrightarrow> getMainSoundPropertyList w = w"
  "pw_mNotificationConfigurationsTemplateName w = [] \<Longrightarrow> getNotificationConfiguration w = w"
  "pw_mMainNotificationConfigurationTemplateName w = [] \<Longrightarrow> getMainNotificationConfiguration w = w"
  "pw_mConnectionFormatsTemplateName w = [] \<Longrightarrow> getConnectionFormats w = w"
  "pw_mMapMSPToSPTemplateName w = [] \<Longrightarrow> getMapMSPToSP w = w"
  by (simp_all add: getSoundPropertyList_def getMainSoundPropertyList_def getNotificationConfiguration_def
      getMainNotificationConfiguration_def getConnectionFormats_def getMapMSPToSP_def)

lemma from_template_found:
  "find (\<lambda>p. xp_name p = pw_mBaseName w) (ts (pw_mpConfig w)) = Some p \<Longrightarrow> from_template ts w =
   w\<lparr>pw_point := p\<lparr>xp_domainName := if xp_domainName p = [] then xc_mCurrentDomain (pw_mpConfig w) else xp_domainName p\<rparr>\<rparr>"
  by (simp add: from_template_def Let_def on_pt_def)

lemma source_copy_plain:
  assumes "pw_mConnectionFormats w = []" and "pw_mRoutingVolumeMap w = []"
  shows "source_copy X w = Some (E_OK, on_config (\<lambda>c. c\<lparr>xc_mCurrentSource := []\<rparr>)
    (on_pt (\<lambda>p. p\<lparr>xp_domainName := xc_mCurrentDomain (pw_mpConfig w)\<rparr>) w))"
proof -
  have "p\<lparr>xp_mapRoutingVolume := populateScalingMap X [] m (xp_mapRoutingVolume p), xp_domainName := d\<rparr> = p\<lparr>xp_domainName := d\<rparr>"
    for p :: xml_source and m d by (simp add: populateScalingMap_def)
  then show ?thesis using assms by (simp add: source_copy_def read_formats_def Let_def)
qed



text \<open>
  A main sound property that only gives its smallest value, and overrides one of a template, leaves the smallest value and
  replaces the largest one, by the largest number there is.
\<close>

lemma minimum_replaces_maximum:
  assumes "getEnumerationValue (xv_enums X) t = Some i" and "sc_type p = word_of_int i"
  shows "\<exists>w. config_main_sound_node X (XmlNode True ''mainSoundProperty'' [(''type'', t), (''minValue'', v)] str []) mw_init = Some (PARSE_SUCCESS, w) \<and>
    push_main_sound w (p # ps) = p\<lparr>sc_maxValue := 32767\<rparr> # ps"
  using assms
  by (simp add: config_main_sound_node_def complex_parse_def templates_parse_def attributes_parse_def attribute_parse_def mw_init_def sc_init_def
      no_check_def override_property_def)

end
