(* ===== verification/Spec2Isabelle.thy ===== *)
theory Spec2Isabelle
  imports Trigger_Queue Handle_Store Event_Subject Action_Params Action_Props
    Element_Graph Limit_Element Route_Point Main_Connection Volume_Actions Policy_Engine Topology_Props Controller_Props Restart_Props
    Connection_Props Connection_Selection Rundown_Action Property_Actions Register_Action Policy_Action Persistence_Xml Xml_Props
begin

text \<open>
  The generic controller of the audio manager (\<open>src/PluginControlInterfaceGeneric\<close>), a plug-in of the audio
  manager daemon that decides, by a policy read from a file, which sources are connected to which sinks, at which
  volume.

  How the program works, and where each part is modelled. The daemon calls the hooks of
  \<open>CAmControllerPlugin\<close>. A hook puts a trigger with its data into the queue and runs the main loop. The main
  loop takes out one trigger at a time and hands it, through the policy sender, to the policy engine. The engine
  evaluates the conditions of the configured processes and gives a list of actions. An action is a tree:
  containers create and run children, leaves send one request to the routing side and wait for its acknowledgement,
  which comes back through the handle store, or for a timeout. While an action waits, no further trigger is
  handled. When an action fails, what was done before is undone in reverse. The actions work on
  elements: main connections with their routes, sinks, sources, gateways, classes, domains, and the system. At the
  run-down volumes and properties go to the persistence; they are restored at the next start.

  \<^item> Shared: \<open>Gc_Prelude\<close> (collections of theorems, facts on lists), \<open>Ordered_Map\<close> (\<open>std::map\<close> where it is iterated),
    \<open>Gc_Types\<close> (\<open>CAmTypes.h\<close>, the enumerations of the interface).
  \<^item> The action framework: \<open>Trigger_Queue\<close>, \<open>Handle_Store\<close>, \<open>Event_Subject\<close>, \<open>Timer_Event\<close>, \<open>Action_Params\<close>,
    \<open>Action_Command\<close> (leaves), \<open>Action_Container\<close> (containers), \<open>Root_Loop\<close> (\<open>CAmRootAction\<close>, \<open>iterateActions\<close>),
    with the proofs in \<open>Action_Tree\<close> and \<open>Action_Props\<close>. The virtual methods of the concrete classes are
    records of functions; the concrete actions below instantiate them.
  \<^item> Elements: \<open>Element_Graph\<close> (\<open>CAmElement\<close>, the factories), \<open>Limit_Element\<close>, \<open>Route_Point\<close> (sinks and
    sources), \<open>Main_Connection\<close> (with routes and the filter of connections), \<open>Class_Element\<close>, \<open>System_Element\<close>,
    \<open>Controller_State\<close> (domains and gateways), \<open>Topology\<close> and \<open>Topology_Props\<close> (topology strings of a class).
  \<^item> Actions on volumes: \<open>Volume_Core\<close> (the tables and the balancing), \<open>Volume_Actions\<close>, and the limit and mute actions
    of \<open>Limit_Element\<close>.
  \<^item> Actions on connections: \<open>Connection_Leaves\<close> (one route, one source), \<open>Connection_Actions\<close> with \<open>Connection_Props\<close>
    (one main connection; disconnecting all that match), \<open>Connection_Selection\<close> (connect, suspend, interrupt),
    \<open>Rundown_Action\<close>.
  \<^item> Other actions: \<open>Property_Actions\<close> (properties and notifications of elements and of the system), \<open>Register_Action\<close>
    (elements of the configuration), \<open>Policy_Action\<close> (from the actions of the policies to all of these).
  \<^item> The policy: \<open>Policy_Parser\<close> (its language), \<open>Policy_Config\<close> (the configuration reader), \<open>Policy_Functions\<close>,
    \<open>Policy_Engine\<close>, \<open>Policy_Send\<close>.
  \<^item> The controller: \<open>Controller_State\<close>, \<open>Controller_Hooks\<close>, \<open>Controller_Loop\<close>, \<open>Controller_Startup\<close>,
    \<open>Controller_Persistence\<close>, with \<open>Controller_Props\<close> and \<open>Restart_Props\<close>.
  \<^item> Persistence: \<open>Persistence\<close>, \<open>Persistence_Props\<close>, \<open>Persistence_Roundtrip\<close>, and \<open>Persistence_Xml\<close> for the nodes of its file.
  \<^item> Files: \<open>Xml_Node\<close> (\<open>CAmXmlParserCommon\<close>: documents bound to structures), \<open>Xml_Schema\<close> (constants of the schema, lists
    in texts), \<open>Xml_Elements\<close>, \<open>Xml_Points\<close> and \<open>Xml_Config\<close> (the nodes of the configuration, in the order of
    \<open>CAmXmlConfigParser.cpp\<close>, up to \<open>parse\<close>), with the proofs in \<open>Xml_Props\<close>.

  How state and code correspond. A class is a record with its members, named after them; an object that others share
  lives in a store, a function from addresses to records, and a pointer is an address or \<open>None\<close>. An
  object with one owner, such as the child of a container, is a value inside of its owner. A method is a function that takes
  the object and the world and gives its result and both again. \<open>am_Error_e\<close> is a datatype; the integers that
  travel between actions are its numbers, and -1 is "still waiting". Integers that are computed with keep
  their width. The daemon, the socket handler and the XML library are not part of the repository: what is called of them is a
  parameter, a function on the world that may answer anything, unless a theorem states what it needs.
  Undefined behaviour (a null pointer, a bad cast, a read behind the end) is \<open>None\<close> or \<open>Undefined\<close> where a
  component can reach it.

  What is shown. Of the framework: an invariant of the action tree under any interleaving of the main loop,
  acknowledgements, timeouts and triggers; that the loops return; that execution completes everything or is
  rolled back; that triggers and acknowledgements are delivered once and in order. Of the connection actions: that a
  route never stays in transition, that at most one connection of a class is active, that
  what is built up is taken down in reverse, and where the code leaves routes connected or connections that
  cannot be disposed of. Of volumes: that balancing reaches its target or the limits, spares the elements of
  other connections, and that undo restores. Of the policy: that what is printed is parsed, that evaluation
  ends except for the names that call for themselves, which actions a trigger gives, that triggers keep
  their data, that every parameter reaches its action under the type it has there, and that properties
  arrive at the element and can be undone. Of the controller and the persistence: that every trigger in the queue has the data its
  dispatch casts it to, and that volumes survive a restart. Of the files: that a persistence file is read back as it
  was written, that what a domain element contains belongs to it, and what a template passes on.

  Where an interface has laws they are the \<open>assumes\<close> of a locale, interpreted on the model that keeps them: the
  container contracts \<open>action_runner\<close> and \<open>action_undoer\<close> at every depth of the tree, ordered containers on
  \<open>om_insert\<close>, the main loop on \<open>iterateActions\<close>, the interface of the persistence on the default persistence,
  \<open>element_binding\<close> on every kind of node of the persistence file, \<open>state_order\<close> on what reading a node may change.

  Bounds and fuel. \<open>action_execute\<close> and \<open>action_undo\<close> take the depth of the tree; three levels are enough
  for the connection actions, and every well-formed tree returns with its own depth. \<open>iterateActions\<close> takes the
  number of rounds; more than the triggers in the queue are enough. The evaluation of policy functions takes fuel for
  nested calls; more than the longest text of a condition is enough when no name holds an opening bracket, and
  without that there are names for which no fuel is. \<open>setup_rows\<close> takes the number of connections. All other
  functions are total.

  Not modelled: the XML library, which presents a document as nodes with names, attributes and text and writes it
  with white space between them; the order in which it meets the attributes of a node does not matter. The validation against the schema and the
  printing for debugging, which are compiled in on demand; logging; floating point arithmetic (\<open>scale\<close>, the numbers of a
  scale); the plug-ins that adapt the interfaces of the daemon to D-Bus, CommonAPI and ALSA, which hold no logic of
  the controller; the example plug-ins, the tests and generated code.
\<close>

end
